(* ===== verification/Prelude.thy ===== *)
theory Prelude
  imports Main "HOL-Library.Word"
begin

text \<open>
  Shared vocabulary of the development: Go's machine integers, Go strings as UTF-8 byte
  sequences with the functions of package \<^verbatim>\<open>strings\<close> the program calls, \<^verbatim>\<open>%d\<close> formatting,
  Go time values, and the list lemmas the component theories share.
  \<^item> A Go \<^verbatim>\<open>string\<close> is a \<^typ>\<open>string\<close> whose characters are its bytes. Conversion to
    \<^verbatim>\<open>[]rune\<close> is \<open>chunks\<close>: one element per decoded rune, each still in its byte form,
    with every ill-formed byte a chunk of its own, as package \<^verbatim>\<open>unicode/utf8\<close> decodes.
  \<^item> \<^verbatim>\<open>int64\<close> and \<^verbatim>\<open>uint\<close> values are \<^typ>\<open>int\<close> and \<^typ>\<open>nat\<close>; the conversions and the
    arithmetic that can leave the 64-bit range go through \<open>i64\<close> and \<open>u64\<close>.
  \<^item> \<^verbatim>\<open>time.Time\<close> is the number of nanoseconds since the Unix epoch.
\<close>

named_theorems act_simps \<open>evaluation of store actions\<close>
named_theorems succ_simps \<open>inversion of a store action that returned without error\<close>
named_theorems keeps_intros \<open>actions that keep a predicate on the tables\<close>
named_theorems err_simps \<open>inversion of actions that error\<close>
named_theorems ok_intros \<open>actions that never error\<close>
named_theorems row_simps \<open>tables and their rows\<close>

section \<open>Machine integers\<close>

definition i64 :: "int \<Rightarrow> int" where
  "i64 x = signed_take_bit 63 x"

definition i32 :: "int \<Rightarrow> int" where
  "i32 x = signed_take_bit 31 x"

definition u64 :: "int \<Rightarrow> nat" where
  "u64 x = nat (take_bit 64 x)"

text \<open>\<^verbatim>\<open>int64(u)\<close> for a \<^verbatim>\<open>uint\<close>, \<^verbatim>\<open>uint(i)\<close> for an \<^verbatim>\<open>int64\<close>.\<close>

definition int64_of :: "nat \<Rightarrow> int" where
  "int64_of n = i64 (int n)"

section \<open>UTF-8 strings\<close>

abbreviation (input) byte_of :: "char \<Rightarrow> nat" where
  "byte_of c \<equiv> of_char c"

definition is_cont :: "char \<Rightarrow> bool" where
  "is_cont c \<longleftrightarrow> 128 \<le> byte_of c \<and> byte_of c < 192"

text \<open>
  The length of the well-formed sequence at the head of the bytes, 0 when the first byte
  starts none: the acceptance ranges of \<^verbatim>\<open>utf8.DecodeRune\<close>.
\<close>

definition in_range :: "nat \<Rightarrow> nat \<Rightarrow> char \<Rightarrow> bool" where
  "in_range lo hi c \<longleftrightarrow> lo \<le> byte_of c \<and> byte_of c \<le> hi"

fun seq2 :: "string \<Rightarrow> bool" where
  "seq2 (a # b # _) = (in_range 194 223 a \<and> is_cont b)"
| "seq2 _ = False"

fun seq3 :: "string \<Rightarrow> bool" where
  "seq3 (a # b # c # _) =
     ((in_range 224 224 a \<and> in_range 160 191 b \<or>
       in_range 225 236 a \<and> is_cont b \<or>
       in_range 237 237 a \<and> in_range 128 159 b \<or>
       in_range 238 239 a \<and> is_cont b) \<and> is_cont c)"
| "seq3 _ = False"

fun seq4 :: "string \<Rightarrow> bool" where
  "seq4 (a # b # c # d # _) =
     ((in_range 240 240 a \<and> in_range 144 191 b \<or>
       in_range 241 243 a \<and> is_cont b \<or>
       in_range 244 244 a \<and> in_range 128 143 b) \<and> is_cont c \<and> is_cont d)"
| "seq4 _ = False"

definition rune_len :: "string \<Rightarrow> nat" where
  "rune_len s = (if seq4 s then 4 else if seq3 s then 3 else if seq2 s then 2 else 1)"

function chunks :: "string \<Rightarrow> string list" where
  "chunks [] = []"
| "chunks (c # s) = take (rune_len (c # s)) (c # s) # chunks (drop (rune_len (c # s)) (c # s))"
  by pat_completeness auto
termination
  by (relation "measure length") (auto simp: rune_len_def)

declare chunks.simps(2) [simp del]

text \<open>\<^verbatim>\<open>string([]rune)\<close> of one decoded rune: an ill-formed byte comes back as U+FFFD.\<close>

definition reencode :: "string \<Rightarrow> string" where
  "reencode ch = (case ch of
     [c] \<Rightarrow> if byte_of c < (128::nat) then [c] else [CHR 0xEF, CHR 0xBF, CHR 0xBD]
   | _ \<Rightarrow> ch)"

text \<open>\<^verbatim>\<open>unicode.IsSpace\<close> on the byte form of a rune.\<close>

definition is_space :: "string \<Rightarrow> bool" where
  "is_space ch \<longleftrightarrow> ch \<in> set
     [[CHR 0x09], [CHR 0x0A], [CHR 0x0B], [CHR 0x0C], [CHR 0x0D], [CHR 0x20],
      [CHR 0xC2, CHR 0x85], [CHR 0xC2, CHR 0xA0], [CHR 0xE1, CHR 0x9A, CHR 0x80],
      [CHR 0xE2, CHR 0x80, CHR 0x80], [CHR 0xE2, CHR 0x80, CHR 0x81],
      [CHR 0xE2, CHR 0x80, CHR 0x82], [CHR 0xE2, CHR 0x80, CHR 0x83],
      [CHR 0xE2, CHR 0x80, CHR 0x84], [CHR 0xE2, CHR 0x80, CHR 0x85],
      [CHR 0xE2, CHR 0x80, CHR 0x86], [CHR 0xE2, CHR 0x80, CHR 0x87],
      [CHR 0xE2, CHR 0x80, CHR 0x88], [CHR 0xE2, CHR 0x80, CHR 0x89],
      [CHR 0xE2, CHR 0x80, CHR 0x8A], [CHR 0xE2, CHR 0x80, CHR 0xA8],
      [CHR 0xE2, CHR 0x80, CHR 0xA9], [CHR 0xE2, CHR 0x80, CHR 0xAF],
      [CHR 0xE2, CHR 0x81, CHR 0x9F], [CHR 0xE3, CHR 0x80, CHR 0x80]]"

definition trim_chunks :: "string list \<Rightarrow> string list" where
  "trim_chunks cs = rev (dropWhile is_space (rev (dropWhile is_space cs)))"

definition TrimSpace :: "string \<Rightarrow> string" where
  "TrimSpace s = concat (trim_chunks (chunks s))"

definition rune_count :: "string \<Rightarrow> nat" where
  "rune_count s = length (chunks s)"

fun HasPrefix :: "string \<Rightarrow> string \<Rightarrow> bool" where
  "HasPrefix s [] = True"
| "HasPrefix [] (p # ps) = False"
| "HasPrefix (c # s) (p # ps) = (c = p \<and> HasPrefix s ps)"

fun Contains :: "string \<Rightarrow> string \<Rightarrow> bool" where
  "Contains [] p = (p = [])"
| "Contains (c # s) p = (HasPrefix (c # s) p \<or> Contains s p)"

fun Split :: "char \<Rightarrow> string \<Rightarrow> string list" where
  "Split sep [] = [[]]"
| "Split sep (c # s) =
     (if c = sep then [] # Split sep s
      else case Split sep s of [] \<Rightarrow> [[c]] | p # ps \<Rightarrow> (c # p) # ps)"

text \<open>\<^verbatim>\<open>strings.SplitN(s, sep, 2)\<close>.\<close>

fun SplitN2 :: "char \<Rightarrow> string \<Rightarrow> string list" where
  "SplitN2 sep [] = [[]]"
| "SplitN2 sep (c # s) =
     (if c = sep then [[], s]
      else case SplitN2 sep s of [] \<Rightarrow> [[c]] | p # ps \<Rightarrow> (c # p) # ps)"

text \<open>
  \<^verbatim>\<open>strings.EqualFold\<close>: simple case folding of the ASCII letters and of the two runes that fold
  into them (U+017F and U+212A); other runes are compared as they are, so case variants among
  letters outside ASCII count as different.
\<close>

definition fold_rune :: "string \<Rightarrow> string" where
  "fold_rune ch =
     (if ch = [CHR 0xC5, CHR 0xBF] then ''s''
      else if ch = [CHR 0xE2, CHR 0x84, CHR 0xAA] then ''k''
      else case ch of
        [c] \<Rightarrow> if (65 :: nat) \<le> of_char c \<and> of_char c \<le> (90 :: nat) then [char_of (of_char c + (32 :: nat))] else [c]
      | _ \<Rightarrow> ch)"

definition EqualFold :: "string \<Rightarrow> string \<Rightarrow> bool" where
  "EqualFold a b \<longleftrightarrow> map fold_rune (chunks a) = map fold_rune (chunks b)"

definition Join :: "string list \<Rightarrow> string \<Rightarrow> string" where
  "Join xs sep = (case xs of [] \<Rightarrow> '''' | x # rest \<Rightarrow> x @ concat (map (\<lambda>y. sep @ y) rest))"

text \<open>
  \<^verbatim>\<open>strings.ToLower\<close> and \<^verbatim>\<open>ToUpper\<close> on the ASCII letters; the program applies them to host names,
  header names, HTTP methods, registered names, statuses, names of platforms, contests and problems. Letters outside ASCII are kept as they are.
\<close>

definition ToLower :: "string \<Rightarrow> string" where
  "ToLower s = map (\<lambda>c. if in_range 65 90 c then char_of (byte_of c + 32) else c) s"

definition ToUpper :: "string \<Rightarrow> string" where
  "ToUpper s = map (\<lambda>c. if in_range 97 122 c then char_of (byte_of c - 32) else c) s"

definition TrimPrefix :: "string \<Rightarrow> string \<Rightarrow> string" where
  "TrimPrefix s p = (if HasPrefix s p then drop (length p) s else s)"

definition HasSuffix :: "string \<Rightarrow> string \<Rightarrow> bool" where
  "HasSuffix s p \<longleftrightarrow> HasPrefix (rev s) (rev p)"

definition TrimSuffix :: "string \<Rightarrow> string \<Rightarrow> string" where
  "TrimSuffix s p = (if HasSuffix s p then take (length s - length p) s else s)"

text \<open>\<^verbatim>\<open>strconv.ParseInt(s, 10, bits)\<close>: an optional sign, decimal digits, and a value in range.\<close>

definition is_digit :: "char \<Rightarrow> bool" where
  "is_digit c \<longleftrightarrow> in_range 48 57 c"

fun digits_val :: "nat \<Rightarrow> string \<Rightarrow> nat" where
  "digits_val acc [] = acc"
| "digits_val acc (c # s) = digits_val (acc * 10 + (byte_of c - 48)) s"

definition ParseInt :: "nat \<Rightarrow> string \<Rightarrow> int option" where
  "ParseInt bits s =
     (let neg = HasPrefix s ''-'';
          ds = (if neg \<or> HasPrefix s ''+'' then tl s else s);
          v = int (digits_val 0 ds)
      in if ds = [] \<or> \<not> list_all is_digit ds then None
         else if neg then (if v \<le> 2 ^ (bits - 1) then Some (- v) else None)
         else if v < 2 ^ (bits - 1) then Some v else None)"

text \<open>\<^verbatim>\<open>%d\<close> and \<^verbatim>\<open>strconv.Itoa\<close>.\<close>

definition digit :: "nat \<Rightarrow> char" where
  "digit d = char_of (48 + d)"

fun fmt_nat :: "nat \<Rightarrow> string" where
  "fmt_nat n = (if n < 10 then [digit n] else fmt_nat (n div 10) @ [digit (n mod 10)])"

declare fmt_nat.simps [simp del]

definition fmt_d :: "int \<Rightarrow> string" where
  "fmt_d x = (if x < 0 then CHR ''-'' # fmt_nat (nat (- x)) else fmt_nat (nat x))"

section \<open>Time\<close>

type_synonym time = int

definition Unix :: "time \<Rightarrow> int" where
  "Unix t = t div 1000000000"

text \<open>The zero \<^verbatim>\<open>time.Time\<close>, 1 January of year 1.\<close>

definition zero_time :: time where
  "zero_time = - 62135596800000000000"

section \<open>Lemmas on machine integers\<close>

lemma i64_id [simp]: "- 9223372036854775808 \<le> x \<Longrightarrow> x < 9223372036854775808 \<Longrightarrow> i64 x = x"
  by (simp add: i64_def signed_take_bit_int_eq_self)

lemma i64_bounds: "- 9223372036854775808 \<le> i64 x \<and> i64 x < 9223372036854775808"
  using signed_take_bit_int_greater_eq_minus_exp [of 63 x]
    signed_take_bit_int_less_exp [of 63 x]
  by (simp add: i64_def)

lemma int64_of_id [simp]: "n < 9223372036854775808 \<Longrightarrow> int64_of n = int n"
  by (simp add: int64_of_def)

lemma u64_id [simp]: "0 \<le> x \<Longrightarrow> x < 18446744073709551616 \<Longrightarrow> u64 x = nat x"
  by (simp add: u64_def take_bit_int_eq_self)

lemma i64_add: "i64 (i64 a + b) = i64 (a + b)"
  by (simp add: i64_def) (metis signed_take_bit_add signed_take_bit_signed_take_bit min.idem)

lemma i32_zero [simp]: "i32 0 = 0"
  by (simp add: i32_def)

lemma i32_id [simp]: "- 2147483648 \<le> x \<Longrightarrow> x < 2147483648 \<Longrightarrow> i32 x = x"
  by (simp add: i32_def signed_take_bit_int_eq_self)

lemma i32_mod: "i32 x = (x + 2147483648) mod 4294967296 - 2147483648"
  by (simp add: i32_def signed_take_bit_eq_take_bit_shift take_bit_eq_mod)

lemma i32_eqI: "x mod 4294967296 = y mod 4294967296 \<Longrightarrow> i32 x = i32 y"
  unfolding i32_mod by (metis mod_add_left_eq)

lemma i32_cong: "i32 x mod 4294967296 = x mod 4294967296"
  unfolding i32_mod by (simp add: mod_diff_left_eq)

text \<open>Only the final wrap-around of a sum or product matters.\<close>

lemma i32_arith [simp]: "i32 (i32 a + b) = i32 (a + b)" "i32 (a + i32 b) = i32 (a + b)" "i32 (i32 a * 20) = i32 (a * 20)"
  by (rule i32_eqI, metis i32_cong mod_add_left_eq mod_add_right_eq mod_mult_left_eq)+

section \<open>Lemmas on strings\<close>

lemma concat_chunks [simp]: "concat (chunks s) = s"
proof (induction s rule: chunks.induct)
  case 1
  then show ?case by simp
next
  case (2 c s)
  then show ?case by (simp add: chunks.simps(2) del: take_append drop_append)
qed

lemma chunks_nonempty: "ch \<in> set (chunks s) \<Longrightarrow> ch \<noteq> []"
proof (induction s rule: chunks.induct)
  case (2 c s)
  have "rune_len (c # s) \<noteq> 0" by (simp add: rune_len_def)
  with 2 show ?case by (auto simp: chunks.simps(2))
qed simp

lemma fmt_nat_nonempty [simp]: "fmt_nat n \<noteq> []"
  by (subst fmt_nat.simps) simp

lemma digit_inj: "a < 10 \<Longrightarrow> b < 10 \<Longrightarrow> digit a = digit b \<Longrightarrow> a = b"
proof -
  assume a: "a < 10" and b: "b < 10" and "digit a = digit b"
  then have "of_char (digit a) = (of_char (digit b) :: nat)" by simp
  with a b show "a = b" by (simp add: digit_def)
qed

lemma fmt_nat_inj: "fmt_nat a = fmt_nat b \<Longrightarrow> a = b"
proof (induction a arbitrary: b rule: less_induct)
  case (less a)
  show ?case
  proof (cases "a < 10 \<or> b < 10")
    case True
    with less.prems show ?thesis
      by (auto simp: fmt_nat.simps [of a] fmt_nat.simps [of b] digit_inj eq_commute [of "[]"]
          split: if_splits)
  next
    case False
    with less.prems have eq: "fmt_nat (a div 10) = fmt_nat (b div 10)"
      and m: "digit (a mod 10) = digit (b mod 10)"
      by (auto simp: fmt_nat.simps [of a] fmt_nat.simps [of b])
    from False eq have "a div 10 = b div 10" by (intro less.IH) auto
    moreover from m have "a mod 10 = b mod 10" by (intro digit_inj) auto
    ultimately show ?thesis by (metis div_mult_mod_eq)
  qed
qed

lemma digit_range: "d < 10 \<Longrightarrow> of_char (digit d) \<in> {48..<58::nat}"
  by (simp add: digit_def)

lemma fmt_nat_digits: "c \<in> set (fmt_nat n) \<Longrightarrow> of_char c \<in> {48..<58::nat}"
proof (induction n rule: fmt_nat.induct)
  case (1 n)
  show ?case
  proof (cases "n < 10")
    case True
    with "1.prems" show ?thesis by (simp add: fmt_nat.simps [of n] digit_range del: atLeastLessThan_iff)
  next
    case False
    with "1.prems" consider "c \<in> set (fmt_nat (n div 10))" | "c = digit (n mod 10)"
      by (auto simp: fmt_nat.simps [of n])
    then show ?thesis
      by cases (use False "1.IH" in \<open>auto simp del: atLeastLessThan_iff intro!: digit_range\<close>)
  qed
qed

lemma fmt_nat_no_char: "of_char c \<notin> {48..<58::nat} \<Longrightarrow> c \<notin> set (fmt_nat n)"
  using fmt_nat_digits by blast

lemma fmt_nat_no_minus [simp]: "CHR ''-'' # t \<noteq> fmt_nat n" "fmt_nat n \<noteq> CHR ''-'' # t"
proof -
  have "CHR ''-'' \<notin> set (fmt_nat n)" by (rule fmt_nat_no_char) simp
  then show "CHR ''-'' # t \<noteq> fmt_nat n" "fmt_nat n \<noteq> CHR ''-'' # t"
    by (metis list.set_intros(1))+
qed

lemma fmt_d_inj: "fmt_d x = fmt_d y \<Longrightarrow> x = y"
  by (auto simp: fmt_d_def split: if_splits dest!: fmt_nat_inj)

lemma fmt_d_no_colon: "CHR '':'' \<notin> set (fmt_d x)"
  using fmt_nat_no_char [of "CHR '':''"] by (auto simp: fmt_d_def)

end
