(* ===== verification/Store.thy ===== *)
theory Store
  imports Prelude
begin

text \<open>
  The persistence layer the services share. A Postgres table is a list of rows and the next
  value of its id sequence; a Redis instance is a partial map from keys to values; a Go
  function that talks to them is an action, a function from the world to an error or a
  result, and the new world.

  Each GORM call is one statement. \<open>env\<close> stands for what the program does not control:
  \<open>stmt_fails n\<close> says whether the \<open>n\<close>-th statement sent in a run errors (a lost connection,
  a timeout), and \<open>clock n\<close> is the time read at that point. No theorem assumes more of them
  than it says, so every claim about error paths covers a failure at any statement.
  A transaction that returns an error restores the tables it started from; what was done to
  Redis meanwhile stays. Handlers are run one after the other.
\<close>

section \<open>Rows and tables\<close>

record row0 =
  ID :: nat

record gorm_model = row0 +
  CreatedAt :: time
  DeletedAt :: "time option"

record 'r table =
  rows :: "'r list"
  seq :: nat

text \<open>GORM adds \<^verbatim>\<open>deleted_at IS NULL\<close> to every scoped query of a soft-deleted model.\<close>

definition live :: "'a gorm_model_scheme \<Rightarrow> bool" where
  "live r \<longleftrightarrow> DeletedAt r = None"

text \<open>\<^verbatim>\<open>First\<close>: the matching row with the least primary key.\<close>

definition first_where :: "('a row0_scheme \<Rightarrow> bool) \<Rightarrow> 'a row0_scheme table \<Rightarrow> 'a row0_scheme option" where
  "first_where P t = (case filter P (rows t) of [] \<Rightarrow> None | r # rs \<Rightarrow> Some (arg_min_list ID (r # rs)))"

definition update_where :: "('r \<Rightarrow> bool) \<Rightarrow> ('r \<Rightarrow> 'r) \<Rightarrow> 'r table \<Rightarrow> 'r table" where
  "update_where P f t = t\<lparr>rows := map (\<lambda>r. if P r then f r else r) (rows t)\<rparr>"

definition insert_row :: "'r \<Rightarrow> 'r table \<Rightarrow> 'r table" where
  "insert_row r t = t\<lparr>rows := rows t @ [r], seq := Suc (seq t)\<rparr>"

definition delete_where :: "('r \<Rightarrow> bool) \<Rightarrow> 'r table \<Rightarrow> 'r table" where
  "delete_where P t = t\<lparr>rows := filter (\<lambda>r. \<not> P r) (rows t)\<rparr>"

text \<open>The primary key constraint and the sequence that feeds it.\<close>

definition wf_table :: "'a row0_scheme table \<Rightarrow> bool" where
  "wf_table t \<longleftrightarrow> distinct (map ID (rows t)) \<and> (\<forall>r \<in> set (rows t). 0 < ID r \<and> ID r < seq t) \<and> 0 < seq t"

text \<open>\<^verbatim>\<open>LIMIT\<close> and \<^verbatim>\<open>OFFSET\<close> as GORM renders them: a negative limit and an offset that is not
  positive are left out.\<close>

definition page_of :: "int \<Rightarrow> int \<Rightarrow> 'r list \<Rightarrow> 'r list" where
  "page_of limit offset rs =
     (let rest = (if 0 < offset then drop (nat offset) rs else rs)
      in if 0 \<le> limit then take (nat limit) rest else rest)"

section \<open>Errors\<close>

datatype gerr = ErrRecordNotFound | DbError | Errorf string | Wrapf string gerr

text \<open>\<^verbatim>\<open>err.Error()\<close>. Chinese literals are written in English throughout.\<close>

fun err_text :: "gerr \<Rightarrow> string" where
  "err_text ErrRecordNotFound = ''record not found''"
| "err_text DbError = ''database error''"
| "err_text (Errorf s) = s"
| "err_text (Wrapf s e) = s @ '': '' @ err_text e"

text \<open>A Kratos error: HTTP status, reason and message.\<close>

datatype kerr = KErr nat string string

abbreviation "BadRequest \<equiv> KErr 400"
abbreviation "Unauthorized \<equiv> KErr 401"
abbreviation "Forbidden \<equiv> KErr 403"
abbreviation "NotFoundErr \<equiv> KErr 404"
abbreviation "InternalServer \<equiv> KErr 500"

section \<open>The world and its actions\<close>

record env =
  stmt_fails :: "nat \<Rightarrow> bool"
  clock :: "nat \<Rightarrow> time"

record 'db world =
  db :: 'db
  rdb :: "string \<Rightarrow> string option"
  ticks :: nat

type_synonym ('db, 'e, 'a) act = "'db world \<Rightarrow> ('e + 'a) \<times> 'db world"

definition tick :: "'db world \<Rightarrow> 'db world" where
  "tick w = w\<lparr>ticks := Suc (ticks w)\<rparr>"

definition reliable :: "'x env_scheme \<Rightarrow> bool" where
  "reliable e \<longleftrightarrow> (\<forall>n. \<not> stmt_fails e n)"

definition returnE :: "'a \<Rightarrow> ('db, 'e, 'a) act" where
  "returnE a w = (Inr a, w)"

definition failE :: "'e \<Rightarrow> ('db, 'e, 'a) act" where
  "failE er w = (Inl er, w)"

definition bindE :: "('db, 'e, 'a) act \<Rightarrow> ('a \<Rightarrow> ('db, 'e, 'b) act) \<Rightarrow> ('db, 'e, 'b) act" where
  "bindE m f w = (case m w of (Inl er, w1) \<Rightarrow> (Inl er, w1) | (Inr a, w1) \<Rightarrow> f a w1)"

text \<open>\<^verbatim>\<open>if err != nil { return h(err) }\<close>, and \<^verbatim>\<open>x, err := m\<close> with the error kept as a value.\<close>

definition withErr :: "('e \<Rightarrow> 'e2) \<Rightarrow> ('db, 'e, 'a) act \<Rightarrow> ('db, 'e2, 'a) act" where
  "withErr h m w = (case m w of (Inl er, w1) \<Rightarrow> (Inl (h er), w1) | (Inr a, w1) \<Rightarrow> (Inr a, w1))"

definition tryE :: "('db, 'e, 'a) act \<Rightarrow> ('db, 'e2, 'e + 'a) act" where
  "tryE m w = (case m w of (r, w1) \<Rightarrow> (Inr r, w1))"

definition transaction :: "'x env_scheme \<Rightarrow> ('db, gerr, 'a) act \<Rightarrow> ('db, gerr, 'a) act" where
  "transaction e m w =
     (case m w of
        (Inl er, w1) \<Rightarrow> (Inl er, w1\<lparr>db := db w\<rparr>)
      | (Inr a, w1) \<Rightarrow>
          if stmt_fails e (ticks w1) then (Inl DbError, (tick w1)\<lparr>db := db w\<rparr>)
          else (Inr a, tick w1))"

section \<open>Statements\<close>

definition stmt :: "'x env_scheme \<Rightarrow> (time \<Rightarrow> 'db \<Rightarrow> (gerr + 'a) \<times> 'db) \<Rightarrow> ('db, gerr, 'a) act" where
  "stmt e f w =
     (if stmt_fails e (ticks w) then (Inl DbError, tick w)
      else (case f (clock e (ticks w)) (db w) of (r, d) \<Rightarrow> (r, (tick w)\<lparr>db := d\<rparr>)))"

definition q_first :: "'x env_scheme \<Rightarrow> ('db \<Rightarrow> 'a row0_scheme table) \<Rightarrow> ('a row0_scheme \<Rightarrow> bool) \<Rightarrow>
    ('db, gerr, 'a row0_scheme) act" where
  "q_first e tb P = stmt e (\<lambda>now d. case first_where P (tb d) of
      None \<Rightarrow> (Inl ErrRecordNotFound, d) | Some r \<Rightarrow> (Inr r, d))"

definition q_select :: "'x env_scheme \<Rightarrow> ('db \<Rightarrow> 'a) \<Rightarrow> ('db, gerr, 'a) act" where
  "q_select e f = stmt e (\<lambda>now d. (Inr (f d), d))"

text \<open>\<^verbatim>\<open>Update\<close>/\<^verbatim>\<open>Updates\<close>: the result is \<^verbatim>\<open>RowsAffected\<close>. \<open>upd\<close> is the table's field update.\<close>

definition q_update :: "'x env_scheme \<Rightarrow> ('db \<Rightarrow> 'r table) \<Rightarrow> (('r table \<Rightarrow> 'r table) \<Rightarrow> 'db \<Rightarrow> 'db) \<Rightarrow>
    ('r \<Rightarrow> bool) \<Rightarrow> (time \<Rightarrow> 'r \<Rightarrow> 'r) \<Rightarrow> ('db, gerr, nat) act" where
  "q_update e tb upd P f = stmt e (\<lambda>now d.
      (Inr (length (filter P (rows (tb d)))), upd (update_where P (f now)) d))"

text \<open>\<^verbatim>\<open>Create\<close>: the stored row with its new id and creation time comes back.\<close>

definition q_create :: "'x env_scheme \<Rightarrow> ('db \<Rightarrow> 'r table) \<Rightarrow> (('r table \<Rightarrow> 'r table) \<Rightarrow> 'db \<Rightarrow> 'db) \<Rightarrow>
    (nat \<Rightarrow> time \<Rightarrow> 'r) \<Rightarrow> ('db, gerr, 'r) act" where
  "q_create e tb upd mk = stmt e (\<lambda>now d.
      let r = mk (seq (tb d)) now in (Inr r, upd (insert_row r) d))"

definition q_delete :: "'x env_scheme \<Rightarrow> ('db \<Rightarrow> 'r table) \<Rightarrow> (('r table \<Rightarrow> 'r table) \<Rightarrow> 'db \<Rightarrow> 'db) \<Rightarrow>
    ('r \<Rightarrow> bool) \<Rightarrow> ('db, gerr, nat) act" where
  "q_delete e tb upd P = stmt e (\<lambda>now d.
      (Inr (length (filter P (rows (tb d)))), upd (delete_where P) d))"

text \<open>A Redis command whose error is dropped: a failing \<^verbatim>\<open>DEL\<close> leaves the key.\<close>

definition rdb_del :: "'x env_scheme \<Rightarrow> string \<Rightarrow> ('db, 'e, unit) act" where
  "rdb_del e k w = (Inr (),
     if stmt_fails e (ticks w) then tick w else (tick w)\<lparr>rdb := (rdb w)(k := None)\<rparr>)"

text \<open>\<^verbatim>\<open>time.Now()\<close>.\<close>

definition time_now :: "'x env_scheme \<Rightarrow> ('db, 'e, time) act" where
  "time_now e w = (Inr (clock e (ticks w)), tick w)"

text \<open>A remote call: its answer depends on the point of the run at which it is made.\<close>

definition rpcE :: "(nat \<Rightarrow> 'a) \<Rightarrow> ('db, 'e, 'a) act" where
  "rpcE f w = (Inr (f (ticks w)), tick w)"

text \<open>An action keeps a predicate on the tables, whether it returns or errors.\<close>

definition keeps :: "('db \<Rightarrow> bool) \<Rightarrow> ('db, 'e, 'a) act \<Rightarrow> bool" where
  "keeps I m \<longleftrightarrow> (\<forall>w r w'. I (db w) \<longrightarrow> m w = (r, w') \<longrightarrow> I (db w'))"

text \<open>An action whose errors are all handled inside.\<close>

definition never_fails :: "('db, 'e, 'a) act \<Rightarrow> bool" where
  "never_fails m \<longleftrightarrow> (\<forall>w. \<not> isl (fst (m w)))"

section \<open>Tables: lemmas\<close>

lemma first_where_Some: "first_where P t = Some r \<Longrightarrow> r \<in> set (rows t) \<and> P r"
proof -
  assume "first_where P t = Some r"
  then obtain x xs where f: "filter P (rows t) = x # xs" and r: "r = arg_min_list ID (x # xs)"
    by (auto simp: first_where_def split: list.splits)
  have "r \<in> set (filter P (rows t))"
    unfolding f r by (rule arg_min_list_in) simp
  then show ?thesis by simp
qed

lemma first_where_None: "first_where P t = None \<longleftrightarrow> (\<forall>r \<in> set (rows t). \<not> P r)"
proof (cases "filter P (rows t)")
  case Nil
  then show ?thesis by (simp add: first_where_def filter_empty_conv)
next
  case (Cons x xs)
  then have "x \<in> set (rows t) \<and> P x" by (auto simp: filter_eq_Cons_iff)
  with Cons show ?thesis by (auto simp: first_where_def)
qed

lemma first_where_least:
  assumes "first_where P t = Some r" and "s \<in> set (rows t)" and "P s"
  shows "ID r \<le> ID s"
proof -
  from assms(1) obtain x xs where f: "filter P (rows t) = x # xs" and r: "r = arg_min_list ID (x # xs)"
    by (auto simp: first_where_def split: list.splits)
  from assms(2,3) have "s \<in> set (x # xs)" by (simp flip: f)
  then show ?thesis
    unfolding r by (subst f_arg_min_list_f) auto
qed

lemma first_where_cong:
  "(\<And>r. r \<in> set (rows t) \<Longrightarrow> P r = Q r) \<Longrightarrow> first_where P t = first_where Q t"
  unfolding first_where_def by (simp cong: filter_cong)

lemma wf_table_id_inj:
  "wf_table t \<Longrightarrow> r \<in> set (rows t) \<Longrightarrow> s \<in> set (rows t) \<Longrightarrow> ID r = ID s \<Longrightarrow> r = s"
  by (auto simp: wf_table_def distinct_map inj_on_def)

lemma first_where_unique:
  "wf_table t \<Longrightarrow> r \<in> set (rows t) \<Longrightarrow> P r \<Longrightarrow> (\<And>s. P s \<Longrightarrow> ID s = ID r) \<Longrightarrow> first_where P t = Some r"
proof (cases "first_where P t")
  case None
  moreover assume "r \<in> set (rows t)" and "P r"
  ultimately show ?thesis by (auto simp: first_where_None)
next
  case (Some s)
  assume wf: "wf_table t" and r: "r \<in> set (rows t)" and "\<And>s. P s \<Longrightarrow> ID s = ID r"
  moreover from Some have "s \<in> set (rows t)" and "P s"
    using first_where_Some by auto
  ultimately have "s = r" by (intro wf_table_id_inj [OF wf]) auto
  with Some show ?thesis by simp
qed

lemma rows_update_where [row_simps]:
  "rows (update_where P f t) = map (\<lambda>r. if P r then f r else r) (rows t)"
  "seq (update_where P f t) = seq t"
  by (simp_all add: update_where_def)

lemma update_where_rowD:
  "h \<in> set (rows (update_where P f t)) \<Longrightarrow> \<exists>g \<in> set (rows t). h = (if P g then f g else g)"
  by (auto simp: update_where_def)

lemma rows_insert_row [row_simps]:
  "rows (insert_row r t) = rows t @ [r]"
  "seq (insert_row r t) = Suc (seq t)"
  by (simp_all add: insert_row_def)

lemma rows_delete_where [row_simps]:
  "rows (delete_where P t) = filter (\<lambda>r. \<not> P r) (rows t)"
  "seq (delete_where P t) = seq t"
  by (simp_all add: delete_where_def)

lemma wf_update_where [intro]:
  assumes "wf_table t" and "\<And>r. ID (f r) = ID r"
  shows "wf_table (update_where P f t)"
proof -
  have id: "ID \<circ> (\<lambda>r. if P r then f r else r) = ID"
    using assms(2) by auto
  show ?thesis
    using assms by (auto simp: wf_table_def row_simps id)
qed

lemma wf_insert_row [intro]: "wf_table t \<Longrightarrow> ID r = seq t \<Longrightarrow> wf_table (insert_row r t)"
  by (auto simp: wf_table_def row_simps less_Suc_eq)

lemma wf_delete_where [intro]: "wf_table t \<Longrightarrow> wf_table (delete_where P t)"
  by (auto simp: wf_table_def row_simps distinct_map intro: inj_on_subset)

lemma update_where_id [simp]: "\<forall>r \<in> set (rows t). \<not> P r \<Longrightarrow> update_where P f t = t"
  by (simp add: update_where_def map_idI)

section \<open>Actions: evaluation and inversion\<close>

lemma tick_simps [simp]:
  "db (tick w) = db w" "rdb (tick w) = rdb w" "ticks (tick w) = Suc (ticks w)"
  by (simp_all add: tick_def)

lemma returnE_apply [act_simps, succ_simps]: "returnE a w = (Inr a, w)"
  by (simp add: returnE_def)

lemma failE_apply [act_simps, succ_simps]: "failE er w = (Inl er, w)"
  by (simp add: failE_def)

lemma bindE_succ [succ_simps]:
  "bindE m f w = (Inr b, w') \<longleftrightarrow> (\<exists>a w1. m w = (Inr a, w1) \<and> f a w1 = (Inr b, w'))"
  by (auto simp: bindE_def split: prod.splits sum.splits)

lemma bindE_err [err_simps]:
  "bindE m f w = (Inl er, w') \<longleftrightarrow>
     m w = (Inl er, w') \<or> (\<exists>a w1. m w = (Inr a, w1) \<and> f a w1 = (Inl er, w'))"
  by (auto simp: bindE_def split: prod.splits sum.splits)

lemma withErr_err [err_simps]:
  "withErr h m w = (Inl er, w') \<longleftrightarrow> (\<exists>er0. m w = (Inl er0, w') \<and> er = h er0)"
  by (auto simp: withErr_def split: prod.splits sum.splits)

lemma withErr_succ [succ_simps]: "withErr h m w = (Inr a, w') \<longleftrightarrow> m w = (Inr a, w')"
  by (auto simp: withErr_def split: prod.splits sum.splits)

lemma tryE_succ [succ_simps]: "tryE m w = (Inr r, w') \<longleftrightarrow> m w = (r, w')"
  by (auto simp: tryE_def split: prod.splits)

lemma tryE_no_err [simp]: "tryE m w \<noteq> (Inl er, w')"
  by (auto simp: tryE_def split: prod.splits)

lemma case_sum_succ [succ_simps]:
  "(case r of Inl er \<Rightarrow> h er | Inr a \<Rightarrow> k a) w = (Inr b, w') \<longleftrightarrow>
     (\<exists>er. r = Inl er \<and> h er w = (Inr b, w')) \<or> (\<exists>a. r = Inr a \<and> k a w = (Inr b, w'))"
  by (cases r) auto

lemma transaction_succ [succ_simps]:
  "transaction e m w = (Inr a, w') \<longleftrightarrow>
     (\<exists>w1. m w = (Inr a, w1) \<and> \<not> stmt_fails e (ticks w1) \<and> w' = tick w1)"
  by (auto simp: transaction_def split: prod.splits sum.splits)

lemma transaction_err: "transaction e m w = (Inl er, w') \<Longrightarrow> db w' = db w"
  by (auto simp: transaction_def split: prod.splits sum.splits if_splits)

lemma q_first_succ [succ_simps]:
  "q_first e tb P w = (Inr r, w') \<longleftrightarrow>
     \<not> stmt_fails e (ticks w) \<and> first_where P (tb (db w)) = Some r \<and> w' = tick w"
  by (auto simp: q_first_def stmt_def tick_def split: prod.splits option.splits)

lemma q_first_missing [succ_simps]:
  "q_first e tb P w = (Inl ErrRecordNotFound, w') \<longleftrightarrow>
     \<not> stmt_fails e (ticks w) \<and> first_where P (tb (db w)) = None \<and> w' = tick w"
  by (auto simp: q_first_def stmt_def tick_def split: prod.splits option.splits)

lemma q_select_succ [succ_simps]:
  "q_select e f w = (Inr a, w') \<longleftrightarrow> \<not> stmt_fails e (ticks w) \<and> a = f (db w) \<and> w' = tick w"
  by (auto simp: q_select_def stmt_def tick_def)

lemma q_update_succ [succ_simps]:
  "q_update e tb upd P f w = (Inr n, w') \<longleftrightarrow>
     \<not> stmt_fails e (ticks w) \<and> n = length (filter P (rows (tb (db w)))) \<and>
     w' = (tick w)\<lparr>db := upd (update_where P (f (clock e (ticks w)))) (db w)\<rparr>"
  by (auto simp: q_update_def stmt_def)

lemma q_create_succ [succ_simps]:
  "q_create e tb upd mk w = (Inr r, w') \<longleftrightarrow>
     \<not> stmt_fails e (ticks w) \<and> r = mk (seq (tb (db w))) (clock e (ticks w)) \<and>
     w' = (tick w)\<lparr>db := upd (insert_row r) (db w)\<rparr>"
  by (auto simp: q_create_def stmt_def Let_def)

lemma q_delete_succ [succ_simps]:
  "q_delete e tb upd P w = (Inr n, w') \<longleftrightarrow>
     \<not> stmt_fails e (ticks w) \<and> n = length (filter P (rows (tb (db w)))) \<and>
     w' = (tick w)\<lparr>db := upd (delete_where P) (db w)\<rparr>"
  by (auto simp: q_delete_def stmt_def)

text \<open>Statements on a database that answers.\<close>

lemma reliable_evals:
  assumes "reliable e"
  shows "q_select e f w = (Inr (f (db w)), tick w)"
    "q_delete e tb upd P w = (Inr (length (filter P (rows (tb (db w))))), (tick w)\<lparr>db := upd (delete_where P) (db w)\<rparr>)"
    "q_first e tb2 Q w = (case first_where Q (tb2 (db w)) of None \<Rightarrow> Inl ErrRecordNotFound | Some r \<Rightarrow> Inr r, tick w)"
  using assms by (simp_all add: q_select_def q_delete_def q_first_def stmt_def reliable_def tick_def split: option.splits)

lemma rdb_del_succ [succ_simps]:
  "rdb_del e k w = (Inr u, w') \<longleftrightarrow>
     w' = (if stmt_fails e (ticks w) then tick w else (tick w)\<lparr>rdb := (rdb w)(k := None)\<rparr>)"
  by (auto simp: rdb_del_def)

lemma time_now_succ [succ_simps]:
  "time_now e w = (Inr t, w') \<longleftrightarrow> t = clock e (ticks w) \<and> w' = tick w"
  by (auto simp: time_now_def)

lemma rpcE_succ [succ_simps]: "rpcE f w = (Inr a, w') \<longleftrightarrow> a = f (ticks w) \<and> w' = tick w"
  by (auto simp: rpcE_def)

text \<open>A statement that errors has changed nothing; statements that only read never change.\<close>

lemma stmt_err:
  "q_first e tb P w = (Inl er, w') \<Longrightarrow> db w' = db w"
  "q_update e tb upd Q f w = (Inl er, w') \<Longrightarrow> db w' = db w"
  "q_create e tb2 upd2 mk w = (Inl er, w') \<Longrightarrow> db w' = db w"
  "q_delete e tb3 upd3 R w = (Inl er, w') \<Longrightarrow> db w' = db w"
  "q_select e g w = (Inl er, w') \<Longrightarrow> db w' = db w"
  by (auto simp: q_first_def q_update_def q_create_def q_delete_def q_select_def stmt_def Let_def
      split: if_splits option.splits)

section \<open>Keeping a predicate\<close>

lemma keepsI: "(\<And>w r w'. I (db w) \<Longrightarrow> m w = (r, w') \<Longrightarrow> I (db w')) \<Longrightarrow> keeps I m"
  by (auto simp: keeps_def)

lemma keepsD: "keeps I m \<Longrightarrow> I (db w) \<Longrightarrow> m w = (r, w') \<Longrightarrow> I (db w')"
  by (auto simp: keeps_def)

lemma keeps_snd: "keeps I m \<Longrightarrow> I (db w) \<Longrightarrow> I (db (snd (m w)))"
  by (cases "m w") (auto dest: keepsD)

lemma keeps_return [keeps_intros]: "keeps I (returnE a)"
  by (auto simp: keeps_def returnE_def)

lemma keeps_fail [keeps_intros]: "keeps I (failE er)"
  by (auto simp: keeps_def failE_def)

lemma keeps_bind [keeps_intros]: "keeps I m \<Longrightarrow> (\<And>a. keeps I (k a)) \<Longrightarrow> keeps I (bindE m k)"
proof (rule keepsI)
  fix w r w'
  assume m: "keeps I m" and k: "\<And>a. keeps I (k a)" and I: "I (db w)" and b: "bindE m k w = (r, w')"
  obtain r1 w1 where mw: "m w = (r1, w1)" by fastforce
  with m I have "I (db w1)" by (rule keepsD)
  with b mw k show "I (db w')"
    by (cases r1) (auto simp: bindE_def dest: keepsD)
qed

lemma keeps_withErr [keeps_intros]: "keeps I m \<Longrightarrow> keeps I (withErr h m)"
  by (fastforce simp: keeps_def withErr_def split: prod.splits sum.splits)

lemma keeps_tryE [keeps_intros]: "keeps I m \<Longrightarrow> keeps I (tryE m)"
  by (fastforce simp: keeps_def tryE_def split: prod.splits)

lemma keeps_if [keeps_intros]: "(b \<Longrightarrow> keeps I m) \<Longrightarrow> (\<not> b \<Longrightarrow> keeps I n) \<Longrightarrow> keeps I (if b then m else n)"
  by simp

lemma keeps_option [keeps_intros]:
  "keeps I m \<Longrightarrow> (\<And>x. keeps I (k x)) \<Longrightarrow> keeps I (case v of None \<Rightarrow> m | Some x \<Rightarrow> k x)"
  by (cases v) simp_all

lemma keeps_sum [keeps_intros]:
  "(\<And>x. keeps I (h x)) \<Longrightarrow> (\<And>y. keeps I (k y)) \<Longrightarrow> keeps I (case v of Inl x \<Rightarrow> h x | Inr y \<Rightarrow> k y)"
  by (cases v) simp_all

lemma keeps_list [keeps_intros]:
  "keeps I m \<Longrightarrow> (\<And>x xs. keeps I (k x xs)) \<Longrightarrow> keeps I (case v of [] \<Rightarrow> m | x # xs \<Rightarrow> k x xs)"
  by (cases v) simp_all

lemma keeps_prod [keeps_intros]:
  "(\<And>x y. keeps I (k x y)) \<Longrightarrow> keeps I (case v of (x, y) \<Rightarrow> k x y)"
  by (cases v) simp

lemma keeps_first [keeps_intros]: "keeps I (q_first e tb P)"
  by (auto simp: keeps_def q_first_def stmt_def split: if_splits option.splits)

lemma keeps_select [keeps_intros]: "keeps I (q_select e f)"
  by (auto simp: keeps_def q_select_def stmt_def split: if_splits)

lemma keeps_rdb_del [keeps_intros]: "keeps I (rdb_del e k)"
  by (auto simp: keeps_def rdb_del_def)

lemma keeps_time_now [keeps_intros]: "keeps I (time_now e)"
  by (auto simp: keeps_def time_now_def)

lemma keeps_rpcE [keeps_intros]: "keeps I (rpcE f)"
  by (auto simp: keeps_def rpcE_def)

lemma keeps_update:
  "(\<And>d now. I d \<Longrightarrow> I (upd (update_where P (f now)) d)) \<Longrightarrow> keeps I (q_update e tb upd P f)"
  by (auto simp: keeps_def q_update_def stmt_def split: if_splits)

lemma keeps_create:
  "(\<And>d now. I d \<Longrightarrow> I (upd (insert_row (mk (seq (tb d)) now)) d)) \<Longrightarrow> keeps I (q_create e tb upd mk)"
  by (auto simp: keeps_def q_create_def stmt_def Let_def split: if_splits)

lemma keeps_stmt: "(\<And>d now. I d \<Longrightarrow> I (snd (f now d))) \<Longrightarrow> keeps I (stmt e f)"
  by (auto simp: keeps_def stmt_def split: if_splits prod.splits) (metis snd_conv)

lemma keeps_delete: "(\<And>d. I d \<Longrightarrow> I (upd (delete_where P) d)) \<Longrightarrow> keeps I (q_delete e tb upd P)"
  unfolding q_delete_def by (rule keeps_stmt) simp

lemma keeps_transaction_body: "keeps I m \<Longrightarrow> keeps I (transaction e m)"
  by (rule keepsI) (fastforce simp: transaction_def dest: keepsD split: prod.splits sum.splits if_splits)

lemma keeps_transaction:
  "(\<And>w a w'. I (db w) \<Longrightarrow> m w = (Inr a, w') \<Longrightarrow> I (db w')) \<Longrightarrow> keeps I (transaction e m)"
proof (rule keepsI)
  fix w r w'
  assume m: "\<And>w a w'. I (db w) \<Longrightarrow> m w = (Inr a, w') \<Longrightarrow> I (db w')"
    and I: "I (db w)" and t: "transaction e m w = (r, w')"
  show "I (db w')"
  proof (cases r)
    case (Inl er)
    with t I show ?thesis by (auto dest: transaction_err)
  next
    case (Inr a)
    with t obtain w1 where "m w = (Inr a, w1)" "w' = tick w1" by (auto simp: transaction_succ)
    with m I show ?thesis by auto
  qed
qed

section \<open>Actions that never error\<close>

lemma never_failsE:
  assumes "never_fails m"
  obtains a w' where "m w = (Inr a, w')"
  using assms unfolding never_fails_def by (metis isl_def old.sum.exhaust prod.collapse)

lemma never_fails_basic [ok_intros]:
  "never_fails (returnE a)" "never_fails (tryE m)" "never_fails (time_now e)" "never_fails (rpcE f)"
  "never_fails (rdb_del e2 k)"
  by (auto simp: never_fails_def returnE_def tryE_def time_now_def rpcE_def rdb_del_def split: prod.splits)

lemma never_fails_bind [ok_intros]:
  "never_fails m \<Longrightarrow> (\<And>a. never_fails (k a)) \<Longrightarrow> never_fails (bindE m k)"
  by (auto simp: never_fails_def bindE_def split: prod.splits sum.splits) (metis Inl_Inr_False fst_conv isl_def)+

lemma never_fails_if [ok_intros]: "never_fails m \<Longrightarrow> never_fails n \<Longrightarrow> never_fails (if b then m else n)"
  by simp

lemma never_fails_option [ok_intros]:
  "never_fails m \<Longrightarrow> (\<And>x. never_fails (k x)) \<Longrightarrow> never_fails (case v of None \<Rightarrow> m | Some x \<Rightarrow> k x)"
  by (cases v) simp_all

lemma never_fails_sum [ok_intros]:
  "(\<And>x. never_fails (h x)) \<Longrightarrow> (\<And>y. never_fails (k y)) \<Longrightarrow> never_fails (case v of Inl x \<Rightarrow> h x | Inr y \<Rightarrow> k y)"
  by (cases v) simp_all

lemma never_fails_prod [ok_intros]:
  "(\<And>x y. never_fails (k x y)) \<Longrightarrow> never_fails (case v of (x, y) \<Rightarrow> k x y)"
  by (cases v) simp

section \<open>Interfaces\<close>

text \<open>
  The contract of an action that runs in one transaction: an error leaves the tables as they
  were. What a caller adds around it (error mapping, further steps that cannot fail) keeps it.
\<close>

locale atomic_act =
  fixes m :: "('db, 'e, 'a) act"
  assumes atomic: "m w = (Inl er, w') \<Longrightarrow> db w' = db w"
begin

lemma keeps_success:
  assumes "\<And>w a w'. I (db w) \<Longrightarrow> m w = (Inr a, w') \<Longrightarrow> I (db w')"
  shows "keeps I m"
proof (rule keepsI)
  fix w r w' assume "I (db w)" "m w = (r, w')"
  with assms atomic show "I (db w')" by (cases r) auto
qed

lemma withErr_atomic: "withErr h m w = (Inl er, w') \<Longrightarrow> db w' = db w"
  using atomic by (auto simp: withErr_def split: prod.splits sum.splits)

lemma bind_atomic:
  assumes k: "\<And>a w1. fst (k a w1) \<noteq> Inl er"
  shows "bindE m k w = (Inl er, w') \<Longrightarrow> db w' = db w"
  using k atomic by (auto simp: bindE_def split: prod.splits sum.splits) (metis fst_conv)

end

text \<open>
  A component whose every operation keeps an invariant keeps it along any sequence of
  operations.
\<close>

locale invariant_system =
  fixes step :: "'op \<Rightarrow> 'w \<Rightarrow> 'w" and inv :: "'w \<Rightarrow> bool"
  assumes step_inv: "inv w \<Longrightarrow> inv (step op w)"
begin

lemma run_inv: "inv w \<Longrightarrow> inv (fold step ops w)"
  by (induction ops arbitrary: w) (auto intro: step_inv)

end

end
