(* ===== verification/Permission.thy ===== *)
theory Permission
  imports Store
begin

text \<open>
  Roles and authorisation: \<^verbatim>\<open>app/common/permission\<close>, \<^verbatim>\<open>app/common/utils/auth\<close>, the rule files of
  the user and core-data services, and the operation whitelist of the user HTTP server.

  A request context is the value of its Authorization header. Decoding the payload segment
  of a token (base64 and JSON) is the parameter \<open>decode_payload\<close> of the environment; the
  signature is checked before a handler runs, by the JWT middleware the whitelist selects.
\<close>

section \<open>Roles\<close>

definition RoleUser :: int where "RoleUser = 0"
definition RoleCoach :: int where "RoleCoach = 2"
definition RoleAdmin :: int where "RoleAdmin = 1"

lemmas role_defs = RoleUser_def RoleCoach_def RoleAdmin_def

definition RoleName :: "int \<Rightarrow> string option" where
  "RoleName = [RoleUser \<mapsto> ''user'', RoleCoach \<mapsto> ''coach'', RoleAdmin \<mapsto> ''admin'']"

definition role_String :: "int \<Rightarrow> string" where
  "role_String role = (case RoleName role of Some name \<Rightarrow> name | None \<Rightarrow> ''unknown role'')"

definition IsValid :: "int \<Rightarrow> bool" where
  "IsValid role \<longleftrightarrow> role = RoleUser \<or> role = RoleCoach \<or> role = RoleAdmin"

definition CanManage :: "int \<Rightarrow> int \<Rightarrow> bool" where
  "CanManage callerRole targetRole \<longleftrightarrow> callerRole \<ge> targetRole"

section \<open>The token of a request\<close>

record JwtPayload =
  UserID :: nat
  jwt_Username :: string
  jwt_Name :: string
  jwt_Email :: string
  RoleID :: int

record jwt_env = env +
  decode_payload :: "string \<Rightarrow> JwtPayload option"

type_synonym ctx = string

definition praseJwtToken :: "ctx \<Rightarrow> string" where
  "praseJwtToken hdr = (case SplitN2 (CHR '' '') hdr of _ # tok # _ \<Rightarrow> tok | _ \<Rightarrow> '''')"

definition parsePayload :: "'x jwt_env_scheme \<Rightarrow> ctx \<Rightarrow> JwtPayload option" where
  "parsePayload e hdr = (case Split (CHR ''.'') (praseJwtToken hdr) of
     [_, payload, _] \<Rightarrow> decode_payload e payload | _ \<Rightarrow> None)"

definition VerifyMinRole :: "'x jwt_env_scheme \<Rightarrow> ctx \<Rightarrow> int \<Rightarrow> bool" where
  "VerifyMinRole e hdr minRole = (case parsePayload e hdr of None \<Rightarrow> False | Some pd \<Rightarrow> RoleID pd \<ge> minRole)"

definition VerifySelfOrAbove :: "'x jwt_env_scheme \<Rightarrow> ctx \<Rightarrow> nat \<Rightarrow> bool" where
  "VerifySelfOrAbove e hdr targetUserId = (case parsePayload e hdr of
     None \<Rightarrow> False
   | Some pd \<Rightarrow>
       if RoleID pd = RoleAdmin then True
       else if RoleID pd = RoleCoach then targetUserId = UserID pd
       else UserID pd = targetUserId)"

definition GetCurrentUser :: "'x jwt_env_scheme \<Rightarrow> ctx \<Rightarrow> JwtPayload option" where
  "GetCurrentUser e hdr = parsePayload e hdr"

definition GetCurrentUserId :: "'x jwt_env_scheme \<Rightarrow> ctx \<Rightarrow> nat" where
  "GetCurrentUserId e hdr = (case parsePayload e hdr of None \<Rightarrow> 0 | Some pd \<Rightarrow> UserID pd)"

definition VerifyAdmin :: "'x jwt_env_scheme \<Rightarrow> ctx \<Rightarrow> bool" where
  "VerifyAdmin e hdr = (case parsePayload e hdr of None \<Rightarrow> False | Some pd \<Rightarrow> RoleID pd = RoleAdmin)"

definition VerifyCoach :: "'x jwt_env_scheme \<Rightarrow> ctx \<Rightarrow> bool" where
  "VerifyCoach e hdr = (case parsePayload e hdr of None \<Rightarrow> False | Some pd \<Rightarrow> RoleID pd = RoleCoach)"

text \<open>The configured secret; \<open>None\<close> is a missing configuration. \<^verbatim>\<open>len\<close> counts bytes.\<close>

definition JWTSecretBytes :: "string option \<Rightarrow> gerr + string" where
  "JWTSecretBytes c = (case c of
     None \<Rightarrow> Inl (Errorf ''server config is nil'')
   | Some s \<Rightarrow>
       let secret = TrimSpace s in
       if secret = '''' then Inl (Errorf ''server.jwt_secret is required'')
       else if length secret < 32 then Inl (Errorf ''server.jwt_secret must be at least 32 characters'')
       else Inr secret)"

section \<open>Rules of the user service\<close>

definition canSetUserRole :: "int \<Rightarrow> int \<Rightarrow> int \<Rightarrow> int \<Rightarrow> int \<Rightarrow> bool" where
  "canSetUserRole callerID callerRole targetID targetRole newRole =
     (if callerRole \<noteq> RoleAdmin then False
      else if callerID = targetID then False
      else if targetRole = RoleAdmin then False
      else if newRole = RoleAdmin then False
      else IsValid newRole)"

definition canDeleteUser :: "int \<Rightarrow> int \<Rightarrow> int \<Rightarrow> int \<Rightarrow> bool" where
  "canDeleteUser callerID callerRole targetID targetRole =
     (if callerRole \<noteq> RoleAdmin then False
      else if callerID = targetID then False
      else targetRole \<noteq> RoleAdmin)"

definition canBroadcastMessage :: "int \<Rightarrow> bool" where
  "canBroadcastMessage callerRole \<longleftrightarrow> callerRole = RoleAdmin \<or> callerRole = RoleCoach"

definition CanManageTeam :: "int \<Rightarrow> int \<Rightarrow> bool" where
  "CanManageTeam operatorId ownerId \<longleftrightarrow> operatorId > 0 \<and> ownerId > 0 \<and> operatorId = ownerId"

section \<open>Rules of the core-data service\<close>

definition canManageCoreOps :: "int \<Rightarrow> bool" where
  "canManageCoreOps roleID \<longleftrightarrow> roleID = RoleAdmin \<or> roleID = RoleCoach"

definition canOperateUserDetail :: "int \<Rightarrow> int \<Rightarrow> int \<Rightarrow> bool" where
  "canOperateUserDetail currentUserID roleID targetUserID \<longleftrightarrow>
     currentUserID = targetUserID \<or> canManageCoreOps roleID"

definition isCoachOrAdmin :: "'x jwt_env_scheme \<Rightarrow> ctx \<Rightarrow> bool" where
  "isCoachOrAdmin e hdr = (case GetCurrentUser e hdr of
     None \<Rightarrow> False | Some cur \<Rightarrow> canManageCoreOps (RoleID cur))"

definition canViewUserDetail :: "'x jwt_env_scheme \<Rightarrow> ctx \<Rightarrow> int \<Rightarrow> bool" where
  "canViewUserDetail e hdr userId = (case GetCurrentUser e hdr of
     None \<Rightarrow> False
   | Some cur \<Rightarrow> canOperateUserDetail (int64_of (UserID cur)) (RoleID cur) userId)"

section \<open>Operations that need a token\<close>

definition whiteList :: "string list" where
  "whiteList =
     [''/api.user.v1.Auth/Login'', ''/api.user.v1.Auth/Register'',
      ''/api.user.v1.Profile/GetById'', ''/api.user.v1.Profile/GetByName'',
      ''/api.user.v1.Profile/GetList'', ''/api.user.v1.role.Role/List'',
      ''/api.user.group.Group/Get'', ''/api.user.group.Group/List'',
      ''/api.user.v1.Team/Detail'']"

definition NewWhiteListMatcher :: "string \<Rightarrow> bool" where
  "NewWhiteListMatcher operation = (if operation \<in> set whiteList then False else True)"

text \<open>The operations the server registers by hand.\<close>

definition operations :: "string list" where
  "operations =
     [''/api.user.v1.Team/Detail'', ''/api.user.v1.Team/Create'', ''/api.user.v1.Team/Update'',
      ''/api.user.v1.Team/Invite'', ''/api.user.v1.Team/RemoveMember'',
      ''/api.user.v1.Team/TransferOwner'', ''/api.user.v1.Team/Leave'',
      ''/api.user.v1.Team/Disband'', ''/api.user.v1.Team/InviteList'',
      ''/api.user.v1.Team/InviteRespond'', ''/api.user.v1.System/RegisterInviteCode'',
      ''/api.user.v1.Profile/ChangePassword'', ''/api.user.v1.Profile/DeleteUser'',
      ''/api.user.v1.Message/Conversations'', ''/api.user.v1.Message/Thread'',
      ''/api.user.v1.Message/Send'', ''/api.user.v1.Message/Read'',
      ''/api.user.v1.Message/UnreadCount'', ''/api.user.v1.Message/Broadcast'',
      ''/api.user.v1.System/OperationLogs'']"

section \<open>Lemmas\<close>

lemma current_user_role_cases:
  "IsValid r \<longleftrightarrow> r \<in> {0, 1, 2}"
  by (auto simp: IsValid_def role_defs)

lemma canSetUserRole_iff:
  "canSetUserRole a ra b rb r \<longleftrightarrow>
     ra = RoleAdmin \<and> a \<noteq> b \<and> rb \<noteq> RoleAdmin \<and> (r = RoleUser \<or> r = RoleCoach)"
  by (auto simp: canSetUserRole_def IsValid_def role_defs)

lemma canDeleteUser_iff:
  "canDeleteUser a ra b rb \<longleftrightarrow> ra = RoleAdmin \<and> a \<noteq> b \<and> rb \<noteq> RoleAdmin"
  by (auto simp: canDeleteUser_def)

lemma SplitN2_nonempty: "SplitN2 sep s \<noteq> []"
  by (induction s) (auto split: list.splits)

lemma Split_nonempty: "Split sep s \<noteq> []"
  by (induction s) (auto split: list.splits)

lemma SplitN2_prefix: "sep \<notin> set a \<Longrightarrow> SplitN2 sep (a @ sep # b) = [a, b]"
  by (induction a) auto

lemma Split_single: "sep \<notin> set a \<Longrightarrow> Split sep a = [a]"
  by (induction a) auto

lemma Split_append: "sep \<notin> set a \<Longrightarrow> Split sep (a @ sep # b) = a # Split sep b"
  by (induction a) auto

text \<open>A header of the usual shape is read as the token's payload.\<close>

lemma parsePayload_bearer:
  assumes "CHR ''.'' \<notin> set h" "CHR ''.'' \<notin> set p" "CHR ''.'' \<notin> set s"
  shows "parsePayload e (''Bearer '' @ h @ ''.'' @ p @ ''.'' @ s) = decode_payload e p"
proof -
  have "praseJwtToken (''Bearer '' @ h @ ''.'' @ p @ ''.'' @ s) = h @ ''.'' @ p @ ''.'' @ s"
    by (simp add: praseJwtToken_def)
  with assms show ?thesis
    by (simp add: parsePayload_def Split_append Split_single)
qed

end
