(* ===== verification/UserModel.thy ===== *)
theory UserModel
  imports Permission
begin

text \<open>
  The tables of the user service (\<^verbatim>\<open>app/user/internal/data/model\<close>), its environment, the
  audit log every service writes, and the cache-invalidating update wrapper of
  \<^verbatim>\<open>app/common/data\<close>.

  The environment adds what the service takes from libraries: bcrypt (salted by the position
  in the run), signing of a token, JSON encoding and validation, and the remote call to the
  core-data service.
\<close>

section \<open>Rows\<close>

record user = gorm_model +
  u_Username :: string
  u_Password :: string
  u_Avatar :: string
  u_Name :: string
  u_Email :: string
  u_GroupId :: int
  u_RoleID :: int
  u_EmailEnabled :: bool

record group_row = gorm_model +
  g_Name :: "string option"
  g_Describe :: string
  g_Avatar :: string
  g_OwnerId :: int

record invite = gorm_model +
  i_GroupId :: int
  i_InviterId :: int
  i_InviteeId :: int
  i_Status :: string

record dm_thread = gorm_model +
  t_PairKey :: string
  t_UserAId :: int
  t_UserBId :: int
  t_LastMessageId :: nat
  t_LastMessagePreview :: string
  t_LastSenderId :: int
  t_LastSentAt :: time
  t_UnreadA :: int
  t_UnreadB :: int

record dm_message = gorm_model +
  m_ThreadId :: nat
  m_SenderId :: int
  m_ReceiverId :: int
  m_Content :: string
  m_IsRead :: bool
  m_ReadAt :: "time option"

record oplog = row0 +
  o_OperatorID :: int
  o_OperatorRole :: int
  o_Action :: string
  o_TargetType :: string
  o_TargetID :: int
  o_Detail :: string
  o_CreatedAt :: time

record sysconfig = gorm_model +
  c_Key :: string
  c_Value :: string

record udb =
  users :: "user table"
  groups :: "group_row table"
  invites :: "invite table"
  threads :: "dm_thread table"
  messages :: "dm_message table"
  oplogs :: "oplog table"
  configs :: "sysconfig table"

section \<open>Environment\<close>

datatype jval = JInt int | JBool bool | JStr string

record jwt_claims =
  cl_userId :: nat
  cl_username :: string
  cl_name :: string
  cl_email :: string
  cl_roleId :: int
  cl_roleIds :: string
  cl_exp :: int
  cl_nbf :: int

record user_env = jwt_env +
  bcrypt_generate :: "nat \<Rightarrow> string \<Rightarrow> gerr + string"
  bcrypt_compare :: "string \<Rightarrow> string \<Rightarrow> bool"
  jwt_sign :: "string \<Rightarrow> jwt_claims \<Rightarrow> gerr + string"
  json_marshal :: "(string \<times> jval) list \<Rightarrow> string option"
  json_valid :: "string \<Rightarrow> bool"
  rpc_last_submit :: "nat \<Rightarrow> int list \<Rightarrow> (int \<rightharpoonup> int) option"
  rpc_spiders :: "nat \<Rightarrow> int \<Rightarrow> string + (string \<times> string) list"

type_synonym ('e, 'a) uact = "(udb, 'e, 'a) act"

section \<open>Statements on the tables\<close>

abbreviation "user_first e P \<equiv> q_first e users (\<lambda>u. live u \<and> P u)"
abbreviation "group_first e P \<equiv> q_first e groups (\<lambda>g. live g \<and> P g)"
abbreviation "invite_first e P \<equiv> q_first e invites (\<lambda>i. live i \<and> P i)"
abbreviation "user_update e P f \<equiv> q_update e users users_update (\<lambda>u. live u \<and> P u) f"
abbreviation "group_update e P f \<equiv> q_update e groups groups_update (\<lambda>g. live g \<and> P g) f"
abbreviation "invite_update e P f \<equiv> q_update e invites invites_update (\<lambda>i. live i \<and> P i) f"

section \<open>Audit log and cache\<close>

definition RecordOperation :: "'x user_env_scheme \<Rightarrow> (nat \<Rightarrow> time \<Rightarrow> oplog) \<Rightarrow> (gerr, oplog) uact" where
  "RecordOperation e item = q_create e oplogs oplogs_update item"

definition recordUserOperation ::
    "'x user_env_scheme \<Rightarrow> ctx \<Rightarrow> string \<Rightarrow> string \<Rightarrow> int \<Rightarrow> (string \<times> jval) list \<Rightarrow> ('e, unit) uact" where
  "recordUserOperation e hdr action targetType targetID detail =
     (let cur = GetCurrentUser e hdr;
          operatorID = (case cur of None \<Rightarrow> 0 | Some c \<Rightarrow> int64_of (UserID c));
          operatorRole = (case cur of None \<Rightarrow> 0 | Some c \<Rightarrow> RoleID c);
          detailJSON = (if detail = [] then ''{}''
                        else case json_marshal e detail of Some s \<Rightarrow> s | None \<Rightarrow> ''{}'')
      in bindE (tryE (RecordOperation e (\<lambda>i now.
           \<lparr>ID = i, o_OperatorID = operatorID, o_OperatorRole = operatorRole, o_Action = action,
            o_TargetType = targetType, o_TargetID = targetID, o_Detail = detailJSON,
            o_CreatedAt = now\<rparr>))) (\<lambda>_. returnE ()))"

definition UpdateCacheDal :: "'x env_scheme \<Rightarrow> string \<Rightarrow> ('db, gerr, unit) act \<Rightarrow> ('db, gerr, unit) act" where
  "UpdateCacheDal e cacheKey dbFunc = bindE dbFunc (\<lambda>_. rdb_del e cacheKey)"

definition profile_key :: "int \<Rightarrow> string" where
  "profile_key userId = ''user:'' @ fmt_d userId @ '':profile''"

text \<open>The guard every signed-in handler opens with.\<close>

definition loginE :: "'x user_env_scheme \<Rightarrow> ctx \<Rightarrow> (kerr, JwtPayload) uact" where
  "loginE e hdr = (case GetCurrentUser e hdr of
     None \<Rightarrow> failE (Unauthorized ''not logged in'' ''please log in'')
   | Some cur \<Rightarrow> if UserID cur = 0 then failE (Unauthorized ''not logged in'' ''please log in'')
                 else returnE cur)"

section \<open>Lemmas\<close>

lemma loginE_succ [succ_simps]:
  "loginE e hdr w = (Inr cur, w') \<longleftrightarrow>
     GetCurrentUser e hdr = Some cur \<and> UserID cur \<noteq> 0 \<and> w' = w"
  by (auto simp: loginE_def failE_def returnE_def split: option.splits if_splits)

lemma loginE_world: "loginE e hdr w = (r, w') \<Longrightarrow> w' = w"
  by (auto simp: loginE_def failE_def returnE_def split: option.splits if_splits)

text \<open>The audit log never makes a handler fail and touches its own table only.\<close>

lemma recordUserOperation_total: "fst (recordUserOperation e hdr a t i d w) = Inr ()"
  by (auto simp: recordUserOperation_def Let_def bindE_def tryE_def returnE_def split: prod.splits)

lemma recordUserOperation_frame:
  "recordUserOperation e hdr a t i d w = (r, w') \<Longrightarrow>
     db w' = db w \<or>
     (\<exists>row. ID row = seq (oplogs (db w)) \<and> db w' = oplogs_update (insert_row row) (db w))"
  by (auto simp: recordUserOperation_def RecordOperation_def Let_def bindE_def tryE_def
      returnE_def q_create_def stmt_def split: prod.splits if_splits)
    force+

lemma recordUserOperation_no_err [simp]: "recordUserOperation e hdr a t i d w \<noteq> (Inl er, w')"
  by (auto simp: recordUserOperation_def Let_def bindE_def tryE_def returnE_def split: prod.splits)

lemma recordUserOperation_tables:
  assumes "recordUserOperation e hdr a t i d w = (r, w')"
  shows "users (db w') = users (db w) \<and> groups (db w') = groups (db w) \<and> invites (db w') = invites (db w) \<and>
    threads (db w') = threads (db w) \<and> messages (db w') = messages (db w) \<and> configs (db w') = configs (db w)"
  using recordUserOperation_frame [OF assms] by auto

lemma loginE_err: "loginE e hdr w = (Inl er, w') \<Longrightarrow> w' = w"
  by (rule loginE_world)

lemma keeps_recordUserOperation:
  assumes "\<And>d row. I d \<Longrightarrow> ID row = seq (oplogs d) \<Longrightarrow> I (oplogs_update (insert_row row) d)"
  shows "keeps I (recordUserOperation e hdr a t i d)"
  using assms by (auto intro!: keepsI dest!: recordUserOperation_frame)

lemma rdb_del_db: "rdb_del e k w = (r, w') \<Longrightarrow> db w' = db w"
  by (auto simp: rdb_del_def split: if_splits)

lemma UpdateCacheDal_succ [succ_simps]:
  "UpdateCacheDal e k m w = (Inr u, w') \<longleftrightarrow>
     (\<exists>w1. m w = (Inr (), w1) \<and> w' = snd (rdb_del e k w1 :: (gerr + unit) \<times> _))"
proof (cases "m w")
  case (Pair r w1)
  then show ?thesis
    by (cases r) (auto simp add: UpdateCacheDal_def bindE_def rdb_del_def)
qed

lemma UpdateCacheDal_err:
  "UpdateCacheDal e k m w = (Inl er, w') \<longleftrightarrow> m w = (Inl er, w')"
proof (cases "m w")
  case (Pair r w1)
  then show ?thesis
    by (cases r) (simp_all add: UpdateCacheDal_def bindE_def rdb_del_def)
qed

lemma snd_rdb_del_db [simp]: "db (snd (rdb_del e k w)) = db w"
  by (simp add: rdb_del_def)

lemma keeps_UpdateCacheDal [keeps_intros]: "keeps I m \<Longrightarrow> keeps I (UpdateCacheDal e k m)"
  unfolding UpdateCacheDal_def by (intro keeps_intros)

lemma keeps_loginE [keeps_intros]: "keeps I (loginE e hdr)"
  by (auto simp: keeps_def dest: loginE_world)

end
