(* ===== verification/Team.thy ===== *)
theory Team
  imports UserModel
begin

text \<open>
  Groups and teams: the data access of \<^verbatim>\<open>app/user/internal/data/dal/group.go\<close> and the handlers
  of \<^verbatim>\<open>service/team.go\<close> and \<^verbatim>\<open>service/group.go\<close>. The Redis client of the service is always set,
  so the nil test of \<^verbatim>\<open>clearUserCache\<close> is left out.

  The invariant \<open>team_inv\<close> says what the team tables promise: ids are keys, the captain of a
  live team is one of its live members, and a user has at most one pending invitation to a
  team. Every operation keeps it whatever statement fails.
\<close>

section \<open>Data access\<close>

definition group_Create :: "'x user_env_scheme \<Rightarrow> string \<Rightarrow> string \<Rightarrow> (gerr, int) uact" where
  "group_Create e name describe =
     bindE (withErr (Wrapf ''create group failed'') (q_create e groups groups_update (\<lambda>i now.
        \<lparr>ID = i, CreatedAt = now, DeletedAt = None, g_Name = Some name, g_Describe = describe,
         g_Avatar = '''', g_OwnerId = 0\<rparr>)))
       (\<lambda>g. returnE (int (ID g)))"

definition group_Delete :: "'x user_env_scheme \<Rightarrow> int \<Rightarrow> (gerr, unit) uact" where
  "group_Delete e gid =
     bindE (withErr (Wrapf ''delete group failed'')
       (group_update e (\<lambda>g. int (ID g) = gid) (\<lambda>now g. g\<lparr>DeletedAt := Some now\<rparr>))) (\<lambda>affected.
     if affected = 0 then failE (Errorf ''group not found'')
     else bindE (withErr (Wrapf ''reset user group failed'')
       (user_update e (\<lambda>u. u_GroupId u = gid) (\<lambda>now u. u\<lparr>u_GroupId := 0\<rparr>))) (\<lambda>_.
     returnE ()))"

definition group_Get :: "'x user_env_scheme \<Rightarrow> int \<Rightarrow> (gerr, group_row) uact" where
  "group_Get e gid = withErr
     (\<lambda>er. if er = ErrRecordNotFound then Errorf ''group not found'' else Wrapf ''query group failed'' er)
     (group_first e (\<lambda>g. int (ID g) = gid))"

text \<open>The live members of a group by id, as \<^verbatim>\<open>Preload("Users", ...)\<close> orders them.\<close>

definition members_asc :: "int \<Rightarrow> udb \<Rightarrow> user list" where
  "members_asc gid d = sort_key ID (filter (\<lambda>u. live u \<and> u_GroupId u = gid) (rows (users d)))"

definition ensureGroupOwner :: "'x user_env_scheme \<Rightarrow> group_row \<Rightarrow> (gerr, group_row) uact" where
  "ensureGroupOwner e grp =
     (if ID grp = 0 \<or> g_OwnerId grp \<noteq> 0 then returnE grp
      else bindE (withErr (Wrapf ''query team owner failed'')
             (q_select e (\<lambda>d. take 1 (map (\<lambda>u. int (ID u)) (members_asc (int (ID grp)) d))))) (\<lambda>ownerIds.
           case ownerIds of
             [] \<Rightarrow> returnE grp
           | owner # _ \<Rightarrow>
               bindE (withErr (Wrapf ''backfill team owner failed'')
                 (group_update e (\<lambda>g. ID g = ID grp) (\<lambda>now g. g\<lparr>g_OwnerId := owner\<rparr>))) (\<lambda>_.
               returnE (grp\<lparr>g_OwnerId := owner\<rparr>))))"

definition GetWithUsers :: "'x user_env_scheme \<Rightarrow> int \<Rightarrow> (gerr, group_row \<times> user list) uact" where
  "GetWithUsers e gid = transaction e
     (bindE (withErr
        (\<lambda>er. if er = ErrRecordNotFound then Errorf ''group not found'' else Wrapf ''query group failed'' er)
        (bindE (group_first e (\<lambda>g. int (ID g) = gid)) (\<lambda>g.
         bindE (q_select e (members_asc (int (ID g)))) (\<lambda>us. returnE (g, us))))) (\<lambda>(g, us).
      bindE (ensureGroupOwner e g) (\<lambda>g'. returnE (g', us))))"

definition group_List :: "'x user_env_scheme \<Rightarrow> int \<Rightarrow> int \<Rightarrow> (gerr, (group_row \<times> user list) list \<times> int) uact" where
  "group_List e page sz =
     bindE (withErr (Wrapf ''count groups failed'')
       (q_select e (\<lambda>d. int (length (filter live (rows (groups d))))))) (\<lambda>total.
     let offset = i64 (i64 (page - 1) * sz) in
     bindE (withErr (Wrapf ''list groups failed'')
       (bindE (q_select e (\<lambda>d. page_of sz offset
                (rev (sort_key ID (filter live (rows (groups d))))))) (\<lambda>gs.
        if gs = [] then returnE []
        else q_select e (\<lambda>d. map (\<lambda>g. (g, members_asc (int (ID g)) d)) gs)))) (\<lambda>list.
     returnE (list, total)))"

definition group_Update :: "'x user_env_scheme \<Rightarrow> int \<Rightarrow> string \<Rightarrow> string \<Rightarrow> (gerr, unit) uact" where
  "group_Update e gid name describe =
     (let updates = (\<lambda>g. let g1 = (if name \<noteq> '''' then g\<lparr>g_Name := Some name\<rparr> else g)
                         in if describe \<noteq> '''' then g1\<lparr>g_Describe := describe\<rparr> else g1)
      in bindE (withErr (Wrapf ''update group failed'')
           (group_update e (\<lambda>g. int (ID g) = gid) (\<lambda>now g. updates g))) (\<lambda>affected.
         if affected = 0 then failE (Errorf ''group not found'') else returnE ()))"

definition clearUserCache :: "'x user_env_scheme \<Rightarrow> int \<Rightarrow> ('e, unit) uact" where
  "clearUserCache e userId = (if userId = 0 then returnE () else rdb_del e (profile_key userId))"

definition CreateTeamForUser ::
    "'x user_env_scheme \<Rightarrow> int \<Rightarrow> string \<Rightarrow> string \<Rightarrow> string \<Rightarrow> (gerr, group_row) uact" where
  "CreateTeamForUser e userId name avatar describe =
     bindE (transaction e
       (bindE (withErr (\<lambda>_. Errorf ''user not found'') (user_first e (\<lambda>u. int (ID u) = userId))) (\<lambda>user.
        if u_GroupId user \<noteq> 0 then failE (Errorf ''already in a team'')
        else bindE (withErr (Wrapf ''create team failed'') (q_create e groups groups_update (\<lambda>i now.
               \<lparr>ID = i, CreatedAt = now, DeletedAt = None, g_Name = Some name, g_Describe = describe,
                g_Avatar = avatar, g_OwnerId = userId\<rparr>))) (\<lambda>created.
             bindE (withErr (Wrapf ''join team failed'')
               (user_update e (\<lambda>u. int (ID u) = userId)
                  (\<lambda>now u. u\<lparr>u_GroupId := int (ID created)\<rparr>))) (\<lambda>_.
             returnE created))))) (\<lambda>created.
     bindE (rdb_del e (profile_key userId)) (\<lambda>_. returnE created))"

definition dal_UpdateTeam ::
    "'x user_env_scheme \<Rightarrow> int \<Rightarrow> int \<Rightarrow> string \<Rightarrow> string \<Rightarrow> string \<Rightarrow> (gerr, unit) uact" where
  "dal_UpdateTeam e userId groupId name avatar describe = transaction e
     (bindE (withErr
        (\<lambda>er. if er = ErrRecordNotFound then Errorf ''team not found'' else Wrapf ''query team failed'' er)
        (group_first e (\<lambda>g. int (ID g) = groupId))) (\<lambda>grp.
      bindE (withErr (\<lambda>_. Errorf ''user not found'') (user_first e (\<lambda>u. int (ID u) = userId))) (\<lambda>user.
      if u_GroupId user \<noteq> groupId then failE (Errorf ''can only edit own team'')
      else bindE (ensureGroupOwner e grp) (\<lambda>grp.
      if \<not> CanManageTeam userId (g_OwnerId grp) then failE (Errorf ''only the captain can edit the team'')
      else bindE (withErr (Wrapf ''update team failed'')
        (group_update e (\<lambda>g. int (ID g) = groupId)
           (\<lambda>now g. g\<lparr>g_Name := Some name, g_Avatar := avatar, g_Describe := describe\<rparr>))) (\<lambda>_.
      returnE ())))))"

definition InviteUser :: "'x user_env_scheme \<Rightarrow> int \<Rightarrow> int \<Rightarrow> (gerr, invite) uact" where
  "InviteUser e inviterId inviteeId =
     (if inviterId = inviteeId then failE (Errorf ''cannot invite yourself'')
      else transaction e
     (bindE (withErr (\<lambda>_. Errorf ''inviter not found'') (user_first e (\<lambda>u. int (ID u) = inviterId))) (\<lambda>inviter.
      if u_GroupId inviter = 0 then failE (Errorf ''create or join a team first'')
      else bindE (withErr (\<lambda>_. Errorf ''team not found'') (group_first e (\<lambda>g. int (ID g) = u_GroupId inviter))) (\<lambda>grp.
      bindE (ensureGroupOwner e grp) (\<lambda>grp.
      if \<not> CanManageTeam inviterId (g_OwnerId grp) then failE (Errorf ''only the captain can invite'')
      else bindE (withErr (\<lambda>_. Errorf ''invitee not found'') (user_first e (\<lambda>u. int (ID u) = inviteeId))) (\<lambda>invitee.
      if u_GroupId invitee \<noteq> 0 then failE (Errorf ''the user is already in a team'')
      else bindE (tryE (invite_first e (\<lambda>i. i_GroupId i = u_GroupId inviter \<and> i_InviteeId i = inviteeId \<and>
             i_Status i = ''pending''))) (\<lambda>existing.
      case existing of
        Inr iv \<Rightarrow> returnE iv
      | Inl er \<Rightarrow>
          if er \<noteq> ErrRecordNotFound then failE (Wrapf ''query invite failed'' er)
          else withErr (Wrapf ''create invite failed'') (q_create e invites invites_update (\<lambda>i now.
            \<lparr>ID = i, CreatedAt = now, DeletedAt = None, i_GroupId = u_GroupId inviter,
             i_InviterId = inviterId, i_InviteeId = inviteeId, i_Status = ''pending''\<rparr>)))))))))"

definition dal_RemoveTeamMember :: "'x user_env_scheme \<Rightarrow> int \<Rightarrow> int \<Rightarrow> (gerr, unit) uact" where
  "dal_RemoveTeamMember e operatorId memberId =
     (if operatorId = memberId then failE (Errorf ''the captain cannot leave by removing a member'')
      else UpdateCacheDal e (profile_key memberId) (transaction e
     (bindE (withErr (\<lambda>_. Errorf ''operator not found'') (user_first e (\<lambda>u. int (ID u) = operatorId))) (\<lambda>operator.
      if u_GroupId operator = 0 then failE (Errorf ''create or join a team first'')
      else bindE (withErr (\<lambda>_. Errorf ''team not found'') (group_first e (\<lambda>g. int (ID g) = u_GroupId operator))) (\<lambda>grp.
      bindE (ensureGroupOwner e grp) (\<lambda>grp.
      if \<not> CanManageTeam operatorId (g_OwnerId grp) then failE (Errorf ''only the captain can edit members'')
      else bindE (withErr (\<lambda>_. Errorf ''member not found'') (user_first e (\<lambda>u. int (ID u) = memberId))) (\<lambda>member.
      if u_GroupId member \<noteq> u_GroupId operator then failE (Errorf ''the user is not in your team'')
      else if int (ID member) = g_OwnerId grp then failE (Errorf ''cannot remove the captain'')
      else bindE (withErr (Wrapf ''remove member failed'')
        (user_update e (\<lambda>u. int (ID u) = memberId) (\<lambda>now u. u\<lparr>u_GroupId := 0\<rparr>))) (\<lambda>_.
      bindE (clearUserCache e memberId) (\<lambda>_.
      bindE (withErr (Wrapf ''close pending invites failed'')
        (invite_update e (\<lambda>i. i_InviteeId i = memberId \<and> i_Status i = ''pending'')
           (\<lambda>now i. i\<lparr>i_Status := ''rejected''\<rparr>))) (\<lambda>_.
      returnE ()))))))))))"

definition dal_TransferTeamOwner :: "'x user_env_scheme \<Rightarrow> int \<Rightarrow> int \<Rightarrow> (gerr, unit) uact" where
  "dal_TransferTeamOwner e operatorId newOwnerId =
     (if operatorId = newOwnerId then failE (Errorf ''the new captain cannot be yourself'')
      else transaction e
     (bindE (withErr (\<lambda>_. Errorf ''operator not found'') (user_first e (\<lambda>u. int (ID u) = operatorId))) (\<lambda>operator.
      if u_GroupId operator = 0 then failE (Errorf ''create or join a team first'')
      else bindE (withErr (\<lambda>_. Errorf ''team not found'') (group_first e (\<lambda>g. int (ID g) = u_GroupId operator))) (\<lambda>grp.
      bindE (ensureGroupOwner e grp) (\<lambda>grp.
      if \<not> CanManageTeam operatorId (g_OwnerId grp) then failE (Errorf ''only the captain can transfer'')
      else bindE (withErr (\<lambda>_. Errorf ''new captain not found'') (user_first e (\<lambda>u. int (ID u) = newOwnerId))) (\<lambda>newOwner.
      if u_GroupId newOwner \<noteq> u_GroupId operator then failE (Errorf ''can only transfer to a member'')
      else bindE (withErr (Wrapf ''transfer failed'')
        (group_update e (\<lambda>g. int (ID g) = u_GroupId operator) (\<lambda>now g. g\<lparr>g_OwnerId := newOwnerId\<rparr>))) (\<lambda>_.
      returnE ())))))))"

definition dal_LeaveTeam :: "'x user_env_scheme \<Rightarrow> int \<Rightarrow> (gerr, unit) uact" where
  "dal_LeaveTeam e userId =
     bindE (UpdateCacheDal e (profile_key userId) (transaction e
     (bindE (withErr (\<lambda>_. Errorf ''user not found'') (user_first e (\<lambda>u. int (ID u) = userId))) (\<lambda>user.
      if u_GroupId user = 0 then failE (Errorf ''you have no team'')
      else bindE (withErr (\<lambda>_. Errorf ''team not found'') (group_first e (\<lambda>g. int (ID g) = u_GroupId user))) (\<lambda>grp.
      bindE (ensureGroupOwner e grp) (\<lambda>grp.
      if g_OwnerId grp = userId then failE (Errorf ''the captain cannot leave, disband first'')
      else bindE (withErr (Wrapf ''leave team failed'')
        (user_update e (\<lambda>u. int (ID u) = userId) (\<lambda>now u. u\<lparr>u_GroupId := 0\<rparr>))) (\<lambda>_.
      bindE (withErr (Wrapf ''close pending invites failed'')
        (invite_update e (\<lambda>i. i_InviteeId i = userId \<and> i_Status i = ''pending'')
           (\<lambda>now i. i\<lparr>i_Status := ''rejected''\<rparr>))) (\<lambda>_.
      returnE ())))))))) (\<lambda>_.
     clearUserCache e userId)"

fun clearUserCaches :: "'x user_env_scheme \<Rightarrow> int list \<Rightarrow> ('e, unit) uact" where
  "clearUserCaches e [] = returnE ()"
| "clearUserCaches e (m # ms) = bindE (clearUserCache e m) (\<lambda>_. clearUserCaches e ms)"

definition dal_DisbandTeam :: "'x user_env_scheme \<Rightarrow> int \<Rightarrow> (gerr, unit) uact" where
  "dal_DisbandTeam e ownerId =
     bindE (transaction e
     (bindE (withErr (\<lambda>_. Errorf ''operator not found'') (user_first e (\<lambda>u. int (ID u) = ownerId))) (\<lambda>owner.
      if u_GroupId owner = 0 then failE (Errorf ''you have no team'')
      else bindE (withErr (\<lambda>_. Errorf ''team not found'') (group_first e (\<lambda>g. int (ID g) = u_GroupId owner))) (\<lambda>grp.
      bindE (ensureGroupOwner e grp) (\<lambda>grp.
      if \<not> CanManageTeam ownerId (g_OwnerId grp) then failE (Errorf ''only the captain can disband'')
      else bindE (withErr (Wrapf ''query members failed'')
        (q_select e (\<lambda>d. map (\<lambda>u. int (ID u))
           (filter (\<lambda>u. live u \<and> u_GroupId u = u_GroupId owner) (rows (users d)))))) (\<lambda>memberIds.
      bindE (withErr (Wrapf ''reset members failed'')
        (user_update e (\<lambda>u. u_GroupId u = u_GroupId owner) (\<lambda>now u. u\<lparr>u_GroupId := 0\<rparr>))) (\<lambda>_.
      bindE (withErr (Wrapf ''close team invites failed'')
        (invite_update e (\<lambda>i. i_GroupId i = u_GroupId owner \<and> i_Status i = ''pending'')
           (\<lambda>now i. i\<lparr>i_Status := ''rejected''\<rparr>))) (\<lambda>_.
      bindE (withErr (Wrapf ''delete team failed'')
        (group_update e (\<lambda>g. int (ID g) = u_GroupId owner) (\<lambda>now g. g\<lparr>DeletedAt := Some now\<rparr>))) (\<lambda>_.
      returnE memberIds))))))))) (\<lambda>memberIds.
     clearUserCaches e memberIds)"

record TeamInviteView =
  tv_ID :: nat
  tv_GroupId :: int
  tv_GroupName :: string
  tv_GroupAvatar :: string
  tv_InviterId :: int
  tv_InviterName :: string
  tv_Status :: string
  tv_CreatedAt :: int

text \<open>
  The left joins carry no \<^verbatim>\<open>deleted_at\<close> condition, so deleted teams and inviters still show.
  Joining on a primary key gives at most one row; a missing one reads as an empty string.
\<close>

definition ListPendingInvites :: "'x user_env_scheme \<Rightarrow> int \<Rightarrow> (gerr, TeamInviteView list) uact" where
  "ListPendingInvites e inviteeId = withErr (Wrapf ''query invites failed'')
     (q_select e (\<lambda>d. map (\<lambda>i.
        \<lparr>tv_ID = ID i, tv_GroupId = i_GroupId i,
         tv_GroupName = (case find (\<lambda>g. int (ID g) = i_GroupId i) (rows (groups d)) of
             Some g \<Rightarrow> (case g_Name g of Some n \<Rightarrow> n | None \<Rightarrow> '''') | None \<Rightarrow> ''''),
         tv_GroupAvatar = (case find (\<lambda>g. int (ID g) = i_GroupId i) (rows (groups d)) of
             Some g \<Rightarrow> g_Avatar g | None \<Rightarrow> ''''),
         tv_InviterId = i_InviterId i,
         tv_InviterName = (case find (\<lambda>u. int (ID u) = i_InviterId i) (rows (users d)) of
             Some u \<Rightarrow> u_Name u | None \<Rightarrow> ''''),
         tv_Status = i_Status i, tv_CreatedAt = Unix (CreatedAt i)\<rparr>)
        (rev (sort_key ID (filter (\<lambda>i. live i \<and> i_InviteeId i = inviteeId \<and> i_Status i = ''pending'')
           (rows (invites d)))))))"

definition RespondInvite :: "'x user_env_scheme \<Rightarrow> int \<Rightarrow> nat \<Rightarrow> bool \<Rightarrow> (gerr, unit) uact" where
  "RespondInvite e userId inviteId accept =
     UpdateCacheDal e (profile_key userId) (transaction e
     (bindE (withErr
        (\<lambda>er. if er = ErrRecordNotFound then Errorf ''invite not found or handled'' else Wrapf ''query invite failed'' er)
        (invite_first e (\<lambda>i. ID i = inviteId \<and> i_InviteeId i = userId \<and> i_Status i = ''pending''))) (\<lambda>iv.
      if \<not> accept then
        bindE (invite_update e (\<lambda>i. ID i = inviteId) (\<lambda>now i. i\<lparr>i_Status := ''rejected''\<rparr>)) (\<lambda>_. returnE ())
      else bindE (withErr (\<lambda>_. Errorf ''user not found'') (user_first e (\<lambda>u. int (ID u) = userId))) (\<lambda>user.
      if u_GroupId user \<noteq> 0 then failE (Errorf ''already in a team, cannot accept'')
      else bindE (withErr (\<lambda>_. Errorf ''team not found'') (group_first e (\<lambda>g. int (ID g) = i_GroupId iv))) (\<lambda>grp.
      bindE (withErr (Wrapf ''join team failed'')
        (user_update e (\<lambda>u. int (ID u) = userId) (\<lambda>now u. u\<lparr>u_GroupId := i_GroupId iv\<rparr>))) (\<lambda>_.
      bindE (withErr (Wrapf ''update invite failed'')
        (invite_update e (\<lambda>i. ID i = inviteId) (\<lambda>now i. i\<lparr>i_Status := ''accepted''\<rparr>))) (\<lambda>_.
      bindE (withErr (Wrapf ''close other invites failed'')
        (invite_update e (\<lambda>i. i_InviteeId i = userId \<and> i_Status i = ''pending'' \<and> ID i \<noteq> inviteId)
           (\<lambda>now i. i\<lparr>i_Status := ''rejected''\<rparr>))) (\<lambda>_.
      returnE ()))))))))"

section \<open>The invariant of the team tables\<close>

definition owner_ok :: "udb \<Rightarrow> bool" where
  "owner_ok d \<longleftrightarrow> (\<forall>g \<in> set (rows (groups d)). live g \<and> g_OwnerId g \<noteq> 0 \<longrightarrow>
     (\<exists>u \<in> set (rows (users d)). live u \<and> int (ID u) = g_OwnerId g \<and> u_GroupId u = int (ID g)))"

definition pending :: "invite \<Rightarrow> bool" where
  "pending i \<longleftrightarrow> live i \<and> i_Status i = ''pending''"

definition pending_ok :: "udb \<Rightarrow> bool" where
  "pending_ok d \<longleftrightarrow> (\<forall>i \<in> set (rows (invites d)). \<forall>j \<in> set (rows (invites d)).
     pending i \<and> pending j \<and> i_GroupId i = i_GroupId j \<and> i_InviteeId i = i_InviteeId j \<longrightarrow> ID i = ID j)"

definition team_inv :: "udb \<Rightarrow> bool" where
  "team_inv d \<longleftrightarrow> wf_table (users d) \<and> wf_table (groups d) \<and> wf_table (invites d) \<and>
     owner_ok d \<and> pending_ok d"

section \<open>Table updates that keep the invariant\<close>

lemma owner_okD:
  "owner_ok d \<Longrightarrow> g \<in> set (rows (groups d)) \<Longrightarrow> live g \<Longrightarrow> g_OwnerId g \<noteq> 0 \<Longrightarrow>
   \<exists>u \<in> set (rows (users d)). live u \<and> int (ID u) = g_OwnerId g \<and> u_GroupId u = int (ID g)"
  by (auto simp: owner_ok_def)

lemma inv_frames [simp]:
  "pending_ok (users_update fu d) = pending_ok d"
  "pending_ok (groups_update fg d) = pending_ok d"
  "owner_ok (invites_update fi d) = owner_ok d"
  by (simp_all add: pending_ok_def owner_ok_def)

text \<open>Changing the team of users who captain no live team.\<close>

lemma owner_ok_set_group:
  assumes "owner_ok d"
    and "\<And>u g. u \<in> set (rows (users d)) \<Longrightarrow> live u \<Longrightarrow> P u \<Longrightarrow> g \<in> set (rows (groups d)) \<Longrightarrow> live g \<Longrightarrow>
           g_OwnerId g = int (ID u) \<Longrightarrow> u_GroupId u = int (ID g) \<Longrightarrow> k = int (ID g)"
  shows "owner_ok (users_update (update_where (\<lambda>u. live u \<and> P u) (\<lambda>u. u\<lparr>u_GroupId := k\<rparr>)) d)"
  unfolding owner_ok_def
proof (intro ballI impI)
  fix g assume "g \<in> set (rows (groups (users_update
      (update_where (\<lambda>u. live u \<and> P u) (\<lambda>u. u\<lparr>u_GroupId := k\<rparr>)) d)))"
    and g2: "live g \<and> g_OwnerId g \<noteq> 0"
  then have g1: "g \<in> set (rows (groups d))" by simp
  with assms(1) g2 obtain u where u: "u \<in> set (rows (users d))" "live u" "int (ID u) = g_OwnerId g"
      "u_GroupId u = int (ID g)"
    by (auto dest: owner_okD)
  let ?u = "if live u \<and> P u then u\<lparr>u_GroupId := k\<rparr> else u"
  have "?u \<in> set (rows (users (users_update
      (update_where (\<lambda>u. live u \<and> P u) (\<lambda>u. u\<lparr>u_GroupId := k\<rparr>)) d)))"
    using u(1) by (auto simp: row_simps)
  moreover have "live ?u \<and> int (ID ?u) = g_OwnerId g \<and> u_GroupId ?u = int (ID g)"
    using u g1 g2 assms(2) [of u g] by (auto simp: live_def)
  ultimately show "\<exists>u \<in> set (rows (users (users_update
      (update_where (\<lambda>u. live u \<and> P u) (\<lambda>u. u\<lparr>u_GroupId := k\<rparr>)) d))).
        live u \<and> int (ID u) = g_OwnerId g \<and> u_GroupId u = int (ID g)"
    by blast
qed

lemma team_inv_set_group:
  assumes "team_inv d"
    and "\<And>u g. u \<in> set (rows (users d)) \<Longrightarrow> live u \<Longrightarrow> P u \<Longrightarrow> g \<in> set (rows (groups d)) \<Longrightarrow> live g \<Longrightarrow>
           g_OwnerId g = int (ID u) \<Longrightarrow> u_GroupId u = int (ID g) \<Longrightarrow> k = int (ID g)"
  shows "team_inv (users_update (update_where (\<lambda>u. live u \<and> P u) (\<lambda>u. u\<lparr>u_GroupId := k\<rparr>)) d)"
  using assms(1) owner_ok_set_group [OF _ assms(2)]
  by (simp add: team_inv_def wf_update_where)

text \<open>A user without a team captains none.\<close>

lemma no_team_no_owner:
  assumes "team_inv d" and "u \<in> set (rows (users d))" and "live u" and "u_GroupId u = 0"
    and "g \<in> set (rows (groups d))" and "live g"
  shows "g_OwnerId g \<noteq> int (ID u)"
proof
  assume g: "g_OwnerId g = int (ID u)"
  from assms have pos: "0 < ID u" "0 < ID g" and wf: "wf_table (users d)"
    by (auto simp: team_inv_def wf_table_def)
  with assms g obtain v where v: "v \<in> set (rows (users d))" "int (ID v) = int (ID u)" "u_GroupId v = int (ID g)"
    using owner_okD [of d g] by (auto simp: team_inv_def)
  then have "v = u" using wf assms(2) wf_table_id_inj [of "users d" v u] by auto
  with v assms(4) pos show False by simp
qed

lemma team_inv_set_status:
  assumes "team_inv d" and "st \<noteq> ''pending''"
  shows "team_inv (invites_update (update_where P (\<lambda>i. i\<lparr>i_Status := st\<rparr>)) d)"
proof -
  have "pending_ok (invites_update (update_where P (\<lambda>i. i\<lparr>i_Status := st\<rparr>)) d)"
    using assms unfolding team_inv_def pending_ok_def
    by (fastforce simp: row_simps pending_def live_def split: if_splits)
  then show ?thesis
    using assms by (simp add: team_inv_def wf_update_where)
qed

lemma team_inv_delete_invites:
  assumes "team_inv d"
  shows "team_inv (invites_update (update_where P (\<lambda>i. i\<lparr>DeletedAt := Some t\<rparr>)) d)"
proof -
  have "pending_ok (invites_update (update_where P (\<lambda>i. i\<lparr>DeletedAt := Some t\<rparr>)) d)"
    using assms unfolding team_inv_def pending_ok_def
    by (fastforce simp: row_simps pending_def live_def split: if_splits)
  then show ?thesis
    using assms by (simp add: team_inv_def wf_update_where)
qed

lemma team_inv_new_invite:
  assumes "team_inv d" and "ID iv = seq (invites d)"
    and "\<And>i. i \<in> set (rows (invites d)) \<Longrightarrow> pending i \<Longrightarrow> i_GroupId i = i_GroupId iv \<Longrightarrow>
           i_InviteeId i = i_InviteeId iv \<Longrightarrow> False"
  shows "team_inv (invites_update (insert_row iv) d)"
proof -
  have "pending_ok (invites_update (insert_row iv) d)"
    unfolding pending_ok_def
  proof (intro ballI impI)
    fix i j
    assume ij: "i \<in> set (rows (invites (invites_update (insert_row iv) d)))"
        "j \<in> set (rows (invites (invites_update (insert_row iv) d)))"
      and p: "pending i \<and> pending j \<and> i_GroupId i = i_GroupId j \<and> i_InviteeId i = i_InviteeId j"
    consider "i = iv" | "j = iv" | "i \<in> set (rows (invites d))" "j \<in> set (rows (invites d))"
      using ij by (auto simp: row_simps)
    then show "ID i = ID j"
    proof cases
      case 1
      with ij(2) p assms(3) [of j] show ?thesis by (cases "j = iv") (auto simp: row_simps)
    next
      case 2
      with ij(1) p assms(3) [of i] show ?thesis by (cases "i = iv") (auto simp: row_simps)
    next
      case 3
      with p assms(1) show ?thesis unfolding team_inv_def pending_ok_def by blast
    qed
  qed
  then show ?thesis
    using assms by (simp add: team_inv_def wf_insert_row)
qed

text \<open>Making a live member the captain; other edits of a group row that keep its captain.\<close>

lemma team_inv_edit_group:
  assumes "team_inv d"
    and "\<And>g. g \<in> set (rows (groups d)) \<Longrightarrow> live g \<Longrightarrow> P g \<Longrightarrow> ID (f g) = ID g \<and>
      (live (f g) \<and> g_OwnerId (f g) \<noteq> 0 \<longrightarrow> g_OwnerId (f g) = g_OwnerId g \<or>
         (\<exists>u \<in> set (rows (users d)). live u \<and> int (ID u) = g_OwnerId (f g) \<and> u_GroupId u = int (ID g)))"
    and "\<And>g. ID (f g) = ID g"
  shows "team_inv (groups_update (update_where (\<lambda>g. live g \<and> P g) f) d)"
proof -
  have "owner_ok (groups_update (update_where (\<lambda>g. live g \<and> P g) f) d)"
    unfolding owner_ok_def
  proof (intro ballI impI)
    fix h assume h: "h \<in> set (rows (groups (groups_update (update_where (\<lambda>g. live g \<and> P g) f) d)))"
      and h2: "live h \<and> g_OwnerId h \<noteq> 0"
    from h obtain g where g: "g \<in> set (rows (groups d))" "h = (if live g \<and> P g then f g else g)"
      by (auto simp: row_simps)
    show "\<exists>u \<in> set (rows (users (groups_update (update_where (\<lambda>g. live g \<and> P g) f) d))).
        live u \<and> int (ID u) = g_OwnerId h \<and> u_GroupId u = int (ID h)"
      using assms(1) assms(2) [OF g(1)] g h2
      by (auto simp: team_inv_def split: if_splits dest: owner_okD)
  qed
  then show ?thesis
    using assms by (simp add: team_inv_def wf_update_where)
qed

lemma team_inv_new_group:
  assumes "team_inv d" and "ID g = seq (groups d)"
    and "g_OwnerId g \<noteq> 0 \<Longrightarrow>
      \<exists>u \<in> set (rows (users d)). live u \<and> int (ID u) = g_OwnerId g \<and> u_GroupId u = int (ID g)"
  shows "team_inv (groups_update (insert_row g) d)"
  using assms by (simp add: team_inv_def owner_ok_def row_simps wf_insert_row)

lemma team_inv_oplogs: "team_inv (oplogs_update f d) = team_inv d"
  by (simp add: team_inv_def owner_ok_def pending_ok_def)

section \<open>What each operation did when it returned\<close>

text \<open>\<open>find_user\<close> and \<open>find_group\<close> name the row a primary-key lookup returns.\<close>

definition find_user :: "udb \<Rightarrow> int \<Rightarrow> user option" where
  "find_user d uid = first_where (\<lambda>u. live u \<and> int (ID u) = uid) (users d)"

definition find_group :: "udb \<Rightarrow> int \<Rightarrow> group_row option" where
  "find_group d gid = first_where (\<lambda>g. live g \<and> int (ID g) = gid) (groups d)"

lemma find_user_SomeD:
  "find_user d uid = Some u \<Longrightarrow> u \<in> set (rows (users d)) \<and> live u \<and> int (ID u) = uid"
  unfolding find_user_def by (drule first_where_Some) simp

lemma find_group_SomeD:
  "find_group d gid = Some g \<Longrightarrow> g \<in> set (rows (groups d)) \<and> live g \<and> int (ID g) = gid"
  unfolding find_group_def by (drule first_where_Some) simp

lemma find_user_row:
  "wf_table (users d) \<Longrightarrow> u \<in> set (rows (users d)) \<Longrightarrow> live u \<Longrightarrow> find_user d (int (ID u)) = Some u"
  unfolding find_user_def by (rule first_where_unique) auto

lemma find_group_row:
  "wf_table (groups d) \<Longrightarrow> g \<in> set (rows (groups d)) \<Longrightarrow> live g \<Longrightarrow> find_group d (int (ID g)) = Some g"
  unfolding find_group_def by (rule first_where_unique) auto

text \<open>The captain a team has once a missing one is filled in: its member with the least id.\<close>

definition captain :: "udb \<Rightarrow> group_row \<Rightarrow> int" where
  "captain d g = (if ID g = 0 \<or> g_OwnerId g \<noteq> 0 then g_OwnerId g
     else case members_asc (int (ID g)) d of [] \<Rightarrow> 0 | u # _ \<Rightarrow> int (ID u))"

definition set_captain :: "group_row \<Rightarrow> udb \<Rightarrow> udb" where
  "set_captain g d = (if ID g = 0 \<or> g_OwnerId g \<noteq> 0 \<or> members_asc (int (ID g)) d = [] then d
     else groups_update (update_where (\<lambda>h. live h \<and> ID h = ID g) (\<lambda>h. h\<lparr>g_OwnerId := captain d g\<rparr>)) d)"

lemma members_asc_hd:
  assumes "members_asc gid d = u # us"
  shows "u \<in> set (rows (users d)) \<and> live u \<and> u_GroupId u = gid"
proof -
  have "u \<in> set (members_asc gid d)" using assms by simp
  then show ?thesis by (auto simp: members_asc_def)
qed

lemma ensureGroupOwner_succ:
  "ensureGroupOwner e g w = (Inr g', w') \<Longrightarrow>
     g' = g\<lparr>g_OwnerId := captain (db w) g\<rparr> \<and> db w' = set_captain g (db w) \<and> rdb w' = rdb w"
  by (cases "members_asc (int (ID g)) (db w)")
    (auto simp: ensureGroupOwner_def succ_simps captain_def set_captain_def split: if_splits)

lemma set_captain_frames [simp]:
  "users (set_captain g d) = users d" "invites (set_captain g d) = invites d"
  "threads (set_captain g d) = threads d" "messages (set_captain g d) = messages d"
  "oplogs (set_captain g d) = oplogs d" "configs (set_captain g d) = configs d"
  by (simp_all add: set_captain_def)

lemma team_inv_set_captain:
  assumes "team_inv d"
  shows "team_inv (set_captain g d)"
proof (cases "members_asc (int (ID g)) d")
  case Nil
  with assms show ?thesis by (simp add: set_captain_def)
next
  case (Cons u us)
  show ?thesis
    unfolding set_captain_def
    using Cons members_asc_hd [OF Cons] assms
    by (auto simp: captain_def intro!: team_inv_edit_group)
qed

lemma captain_member:
  assumes "team_inv d" and "g \<in> set (rows (groups d))" and "live g" and "captain d g \<noteq> 0"
  shows "\<exists>u. find_user d (captain d g) = Some u \<and> u_GroupId u = int (ID g)"
proof (cases "g_OwnerId g = 0")
  case False
  with assms owner_okD [of d g] show ?thesis
    by (force simp: captain_def team_inv_def dest: find_user_row)
next
  case True
  with assms(4) obtain u us where u: "members_asc (int (ID g)) d = u # us" and c: "captain d g = int (ID u)"
    by (auto simp: captain_def split: list.splits if_splits)
  from members_asc_hd [OF u] assms(1) show ?thesis
    by (auto simp: c team_inv_def dest: find_user_row)
qed

text \<open>The effects on the tables, as pure functions.\<close>

definition set_team :: "int \<Rightarrow> int \<Rightarrow> udb \<Rightarrow> udb" where
  "set_team uid k = users_update (update_where (\<lambda>u. live u \<and> int (ID u) = uid) (\<lambda>u. u\<lparr>u_GroupId := k\<rparr>))"

definition reject_pending :: "(invite \<Rightarrow> bool) \<Rightarrow> udb \<Rightarrow> udb" where
  "reject_pending P = invites_update (update_where (\<lambda>i. pending i \<and> P i) (\<lambda>i. i\<lparr>i_Status := ''rejected''\<rparr>))"

lemma reject_pending_eq:
  "invites_update (update_where (\<lambda>i. live i \<and> P i \<and> i_Status i = ''pending'') (\<lambda>i. i\<lparr>i_Status := ''rejected''\<rparr>)) =
     reject_pending P"
  by (simp add: reject_pending_def pending_def conj_ac)

lemma reject_pending_eq2:
  "invites_update (update_where (\<lambda>i. live i \<and> P i \<and> i_Status i = ''pending'' \<and> Q i) (\<lambda>i. i\<lparr>i_Status := ''rejected''\<rparr>)) =
     reject_pending (\<lambda>i. P i \<and> Q i)"
  by (simp add: reject_pending_def pending_def conj_ac)

lemma effect_frames [simp]:
  "users (reject_pending P d) = users d" "groups (reject_pending P d) = groups d"
  "groups (set_team uid k d) = groups d" "invites (set_team uid k d) = invites d"
  "threads (set_team uid k d) = threads d" "messages (set_team uid k d) = messages d"
  "threads (reject_pending P d) = threads d" "messages (reject_pending P d) = messages d"
  "oplogs (set_team uid k d) = oplogs d" "oplogs (reject_pending P d) = oplogs d"
  "configs (set_team uid k d) = configs d" "configs (reject_pending P d) = configs d"
  by (simp_all add: set_team_def reject_pending_def)

lemma clearUserCache_succ: "clearUserCache e m w = (r, w') \<Longrightarrow> r = Inr () \<and> db w' = db w"
  by (auto simp: clearUserCache_def returnE_def rdb_del_def split: if_splits)

lemma clearUserCaches_succ: "clearUserCaches e ms w = (r, w') \<Longrightarrow> r = Inr () \<and> db w' = db w"
proof (induction ms arbitrary: w)
  case Nil
  then show ?case by (simp add: returnE_def)
next
  case (Cons m ms)
  then show ?case
    by (auto simp: bindE_def split: prod.splits sum.splits dest!: clearUserCache_succ)
qed

lemma RemoveTeamMember_succ:
  "dal_RemoveTeamMember e opId memId w = (Inr (), w') \<Longrightarrow>
     \<exists>op g mem. find_user (db w) opId = Some op \<and> u_GroupId op \<noteq> 0 \<and>
      find_group (db w) (u_GroupId op) = Some g \<and> CanManageTeam opId (captain (db w) g) \<and>
      find_user (db w) memId = Some mem \<and> u_GroupId mem = u_GroupId op \<and> memId \<noteq> opId \<and>
      db w' = reject_pending (\<lambda>i. i_InviteeId i = memId) (set_team memId 0 (set_captain g (db w)))"
  by (auto simp: dal_RemoveTeamMember_def succ_simps find_user_def find_group_def set_team_def
        reject_pending_eq split: if_splits dest!: clearUserCache_succ ensureGroupOwner_succ)

lemma TransferTeamOwner_succ:
  "dal_TransferTeamOwner e opId newId w = (Inr (), w') \<Longrightarrow>
     \<exists>op g new. find_user (db w) opId = Some op \<and> u_GroupId op \<noteq> 0 \<and>
      find_group (db w) (u_GroupId op) = Some g \<and> CanManageTeam opId (captain (db w) g) \<and>
      find_user (db w) newId = Some new \<and> u_GroupId new = u_GroupId op \<and> newId \<noteq> opId \<and>
      db w' = groups_update (update_where (\<lambda>h. live h \<and> int (ID h) = u_GroupId op)
                (\<lambda>h. h\<lparr>g_OwnerId := newId\<rparr>)) (set_captain g (db w))"
  by (auto simp: dal_TransferTeamOwner_def succ_simps find_user_def find_group_def
      split: if_splits dest!: ensureGroupOwner_succ)

lemma LeaveTeam_succ:
  "dal_LeaveTeam e uid w = (Inr (), w') \<Longrightarrow>
     \<exists>u g. find_user (db w) uid = Some u \<and> u_GroupId u \<noteq> 0 \<and>
      find_group (db w) (u_GroupId u) = Some g \<and> captain (db w) g \<noteq> uid \<and>
      db w' = reject_pending (\<lambda>i. i_InviteeId i = uid) (set_team uid 0 (set_captain g (db w)))"
  by (auto simp: dal_LeaveTeam_def succ_simps find_user_def find_group_def set_team_def
        reject_pending_eq split: if_splits dest!: clearUserCache_succ ensureGroupOwner_succ)

lemma DisbandTeam_succ:
  "dal_DisbandTeam e uid w = (Inr (), w') \<Longrightarrow>
     \<exists>u g t. find_user (db w) uid = Some u \<and> u_GroupId u \<noteq> 0 \<and>
      find_group (db w) (u_GroupId u) = Some g \<and> CanManageTeam uid (captain (db w) g) \<and>
      db w' = groups_update (update_where (\<lambda>h. live h \<and> int (ID h) = u_GroupId u) (\<lambda>h. h\<lparr>DeletedAt := Some t\<rparr>))
        (reject_pending (\<lambda>i. i_GroupId i = u_GroupId u)
          (users_update (update_where (\<lambda>v. live v \<and> u_GroupId v = u_GroupId u) (\<lambda>v. v\<lparr>u_GroupId := 0\<rparr>))
            (set_captain g (db w))))"
  by (auto simp: dal_DisbandTeam_def succ_simps find_user_def find_group_def
        reject_pending_eq split: if_splits dest!: clearUserCaches_succ ensureGroupOwner_succ)

lemma CreateTeamForUser_succ:
  "CreateTeamForUser e uid name avatar descr w = (Inr g, w') \<Longrightarrow>
     \<exists>u. find_user (db w) uid = Some u \<and> u_GroupId u = 0 \<and> ID g = seq (groups (db w)) \<and>
      DeletedAt g = None \<and> g_OwnerId g = uid \<and> g_Name g = Some name \<and> g_Avatar g = avatar \<and>
      g_Describe g = descr \<and>
      db w' = set_team uid (int (ID g)) (groups_update (insert_row g) (db w))"
  by (auto simp: CreateTeamForUser_def succ_simps find_user_def set_team_def split: if_splits)

lemma UpdateTeam_succ:
  "dal_UpdateTeam e uid gid name avatar descr w = (Inr (), w') \<Longrightarrow>
     \<exists>u g. find_user (db w) uid = Some u \<and> u_GroupId u = gid \<and>
      find_group (db w) gid = Some g \<and> CanManageTeam uid (captain (db w) g) \<and>
      db w' = groups_update (update_where (\<lambda>h. live h \<and> int (ID h) = gid)
          (\<lambda>h. h\<lparr>g_Name := Some name, g_Avatar := avatar, g_Describe := descr\<rparr>)) (set_captain g (db w))"
  by (auto simp: dal_UpdateTeam_def succ_simps find_user_def find_group_def
      split: if_splits dest!: ensureGroupOwner_succ)

definition pending_invite :: "udb \<Rightarrow> int \<Rightarrow> int \<Rightarrow> invite option" where
  "pending_invite d gid uid = first_where (\<lambda>i. live i \<and> i_GroupId i = gid \<and> i_InviteeId i = uid \<and>
     i_Status i = ''pending'') (invites d)"

lemma InviteUser_succ:
  "InviteUser e inviter invitee w = (Inr iv, w') \<Longrightarrow>
     \<exists>op g u. find_user (db w) inviter = Some op \<and> u_GroupId op \<noteq> 0 \<and>
      find_group (db w) (u_GroupId op) = Some g \<and> CanManageTeam inviter (captain (db w) g) \<and>
      find_user (db w) invitee = Some u \<and> u_GroupId u = 0 \<and> inviter \<noteq> invitee \<and>
      (case pending_invite (db w) (u_GroupId op) invitee of
         Some i \<Rightarrow> iv = i \<and> db w' = set_captain g (db w)
       | None \<Rightarrow> ID iv = seq (invites (db w)) \<and> DeletedAt iv = None \<and> i_GroupId iv = u_GroupId op \<and>
           i_InviterId iv = inviter \<and> i_InviteeId iv = invitee \<and> i_Status iv = ''pending'' \<and>
           db w' = invites_update (insert_row iv) (set_captain g (db w)))"
  by (auto simp: InviteUser_def succ_simps find_user_def find_group_def pending_invite_def
      split: if_splits dest!: ensureGroupOwner_succ)

lemma RespondInvite_succ:
  "RespondInvite e uid iid accept w = (Inr (), w') \<Longrightarrow>
     \<exists>iv. first_where (\<lambda>i. live i \<and> ID i = iid \<and> i_InviteeId i = uid \<and> i_Status i = ''pending'')
            (invites (db w)) = Some iv \<and>
       (if accept then
          (\<exists>u g. find_user (db w) uid = Some u \<and> u_GroupId u = 0 \<and> find_group (db w) (i_GroupId iv) = Some g) \<and>
          db w' = reject_pending (\<lambda>i. i_InviteeId i = uid \<and> ID i \<noteq> iid)
            (invites_update (update_where (\<lambda>i. live i \<and> ID i = iid) (\<lambda>i. i\<lparr>i_Status := ''accepted''\<rparr>))
              (set_team uid (i_GroupId iv) (db w)))
        else db w' = invites_update (update_where (\<lambda>i. live i \<and> ID i = iid) (\<lambda>i. i\<lparr>i_Status := ''rejected''\<rparr>)) (db w))"
  by (cases accept) (auto simp: RespondInvite_def succ_simps find_user_def find_group_def set_team_def
      reject_pending_eq2 split: if_splits)

lemma GetWithUsers_succ:
  "GetWithUsers e gid w = (Inr (g', us), w') \<Longrightarrow>
     \<exists>g. find_group (db w) gid = Some g \<and> us = members_asc (int (ID g)) (db w) \<and>
       g' = g\<lparr>g_OwnerId := captain (db w) g\<rparr> \<and> db w' = set_captain g (db w)"
  by (auto simp: GetWithUsers_def succ_simps find_group_def dest!: ensureGroupOwner_succ)

section \<open>Every operation keeps the invariant\<close>

lemma team_inv_set_team:
  assumes "team_inv d"
    and "\<And>u g. find_user d uid = Some u \<Longrightarrow> g \<in> set (rows (groups d)) \<Longrightarrow> live g \<Longrightarrow> g_OwnerId g = uid \<Longrightarrow>
           u_GroupId u = int (ID g) \<Longrightarrow> k = int (ID g)"
  shows "team_inv (set_team uid k d)"
  unfolding set_team_def
proof (rule team_inv_set_group [OF assms(1)])
  fix u g assume "u \<in> set (rows (users d))" "live u" "int (ID u) = uid" "g \<in> set (rows (groups d))" "live g"
    "g_OwnerId g = int (ID u)" "u_GroupId u = int (ID g)"
  moreover from this assms(1) have "find_user d uid = Some u"
    by (auto simp: team_inv_def dest: find_user_row)
  ultimately show "k = int (ID g)" using assms(2) by simp
qed

lemma team_inv_reject: "team_inv d \<Longrightarrow> team_inv (reject_pending P d)"
  unfolding reject_pending_def by (rule team_inv_set_status) simp_all

text \<open>After the captain is filled in, a member who is not the captain captains no live team.\<close>

lemma not_captain:
  assumes "team_inv d" and "find_user d uid = Some u" and "find_group d (u_GroupId u) = Some g"
    and "captain d g \<noteq> uid"
    and "h \<in> set (rows (groups (set_captain g d)))" and "live h" and "g_OwnerId h = uid"
    and "u_GroupId u = int (ID h)"
  shows False
proof -
  note g = find_group_SomeD [OF assms(3)]
  have wf: "wf_table (groups d)" using assms(1) by (simp add: team_inv_def)
  have wf2: "wf_table (groups (set_captain g d))"
    using team_inv_set_captain [OF assms(1), of g] by (simp add: team_inv_def)
  have "\<exists>h' \<in> set (rows (groups (set_captain g d))). ID h' = ID g \<and> g_OwnerId h' = captain d g"
  proof (cases "ID g = 0 \<or> g_OwnerId g \<noteq> 0 \<or> members_asc (int (ID g)) d = []")
    case True
    with g show ?thesis by (auto simp: set_captain_def captain_def)
  next
    case False
    with g show ?thesis
      by (auto simp: set_captain_def row_simps intro!: bexI [of _ "g\<lparr>g_OwnerId := captain d g\<rparr>"])
  qed
  then obtain h' where h': "h' \<in> set (rows (groups (set_captain g d)))" "ID h' = ID g" "g_OwnerId h' = captain d g"
    by blast
  have "ID h = ID h'" using assms(8) g h'(2) by simp
  with wf2 assms(5) h'(1) have "h = h'" by (rule wf_table_id_inj)
  with assms(4,7) h'(3) show False by simp
qed

lemma team_inv_leave:
  assumes "team_inv d" and "find_user d uid = Some u" and "find_group d (u_GroupId u) = Some g"
    and "captain d g \<noteq> uid"
  shows "team_inv (set_team uid 0 (set_captain g d))"
proof (rule team_inv_set_team [OF team_inv_set_captain [OF assms(1)]])
  fix v h assume v: "find_user (set_captain g d) uid = Some v"
    and h: "h \<in> set (rows (groups (set_captain g d)))" "live h" "g_OwnerId h = uid" "u_GroupId v = int (ID h)"
  from v assms(2) have "v = u" by (simp add: find_user_def)
  with h not_captain [OF assms, of h] show "0 = int (ID h)" by auto
qed

subsection \<open>The transactional operations\<close>

interpretation create_team: atomic_act "CreateTeamForUser e uid name avatar descr"
  for e :: "'x user_env_scheme" and uid name avatar descr
  by unfold_locales (auto simp: CreateTeamForUser_def bindE_def returnE_def rdb_del_def
      split: prod.splits sum.splits dest: transaction_err)

interpretation update_team: atomic_act "dal_UpdateTeam e uid gid name avatar descr"
  for e :: "'x user_env_scheme" and uid gid name avatar descr
  by unfold_locales (auto simp: dal_UpdateTeam_def dest: transaction_err)

interpretation invite_user: atomic_act "InviteUser e inviter invitee"
  for e :: "'x user_env_scheme" and inviter invitee
  by unfold_locales (auto simp: InviteUser_def failE_def split: if_splits dest: transaction_err)

interpretation remove_member: atomic_act "dal_RemoveTeamMember e opId memId"
  for e :: "'x user_env_scheme" and opId memId
  by unfold_locales (auto simp: dal_RemoveTeamMember_def failE_def UpdateCacheDal_err
      split: if_splits dest: transaction_err)

interpretation transfer_owner: atomic_act "dal_TransferTeamOwner e opId newId"
  for e :: "'x user_env_scheme" and opId newId
  by unfold_locales (auto simp: dal_TransferTeamOwner_def failE_def split: if_splits dest: transaction_err)

interpretation leave_team: atomic_act "dal_LeaveTeam e uid" for e :: "'x user_env_scheme" and uid
  by unfold_locales (auto simp: dal_LeaveTeam_def bindE_def UpdateCacheDal_err
      split: prod.splits sum.splits dest: transaction_err clearUserCache_succ)

interpretation disband_team: atomic_act "dal_DisbandTeam e uid" for e :: "'x user_env_scheme" and uid
  by unfold_locales (auto simp: dal_DisbandTeam_def bindE_def
      split: prod.splits sum.splits dest: transaction_err clearUserCaches_succ)

interpretation respond_invite: atomic_act "RespondInvite e uid iid accept"
  for e :: "'x user_env_scheme" and uid iid accept
  by unfold_locales (auto simp: RespondInvite_def UpdateCacheDal_err dest: transaction_err)

interpretation get_with_users: atomic_act "GetWithUsers e gid" for e :: "'x user_env_scheme" and gid
  by unfold_locales (auto simp: GetWithUsers_def dest: transaction_err)

lemma keeps_RemoveTeamMember [keeps_intros]: "keeps team_inv (dal_RemoveTeamMember e opId memId)"
proof (rule remove_member.keeps_success)
  fix w a w' assume inv: "team_inv (db w)" and "dal_RemoveTeamMember e opId memId w = (Inr a, w')"
  then obtain op g mem where s: "find_user (db w) memId = Some mem"
      "find_group (db w) (u_GroupId mem) = Some g" "captain (db w) g \<noteq> memId"
      "db w' = reject_pending (\<lambda>i. i_InviteeId i = memId) (set_team memId 0 (set_captain g (db w)))"
    using RemoveTeamMember_succ [of e opId memId w w'] by (auto simp: CanManageTeam_def)
  then show "team_inv (db w')"
    by (simp add: team_inv_reject team_inv_leave [OF inv s(1,2,3)])
qed

lemma keeps_LeaveTeam [keeps_intros]: "keeps team_inv (dal_LeaveTeam e uid)"
proof (rule leave_team.keeps_success)
  fix w a w' assume inv: "team_inv (db w)" and "dal_LeaveTeam e uid w = (Inr a, w')"
  then obtain u g where s: "find_user (db w) uid = Some u"
      "find_group (db w) (u_GroupId u) = Some g" "captain (db w) g \<noteq> uid"
      "db w' = reject_pending (\<lambda>i. i_InviteeId i = uid) (set_team uid 0 (set_captain g (db w)))"
    using LeaveTeam_succ [of e uid w w'] by auto
  then show "team_inv (db w')"
    by (simp add: team_inv_reject team_inv_leave [OF inv s(1,2,3)])
qed

lemma field_commute:
  "users_update f (groups_update h d) = groups_update h (users_update f d)"
  "reject_pending P (groups_update h d) = groups_update h (reject_pending P d)"
  "set_team uid k (groups_update h d) = groups_update h (set_team uid k d)"
  by (simp_all add: reject_pending_def set_team_def)

lemma team_inv_join:
  assumes "team_inv d" and "find_user d uid = Some u" and "u_GroupId u = 0"
  shows "team_inv (set_team uid k d)"
proof (rule team_inv_set_team [OF assms(1)])
  fix v h assume "find_user d uid = Some v" "h \<in> set (rows (groups d))" "live h" "g_OwnerId h = uid"
  with assms no_team_no_owner [OF assms(1), of u h] find_user_SomeD [OF assms(2)] show "k = int (ID h)"
    by simp
qed

lemma keeps_CreateTeamForUser [keeps_intros]: "keeps team_inv (CreateTeamForUser e uid name avatar descr)"
proof (rule create_team.keeps_success)
  fix w g w' assume inv: "team_inv (db w)" and "CreateTeamForUser e uid name avatar descr w = (Inr g, w')"
  from CreateTeamForUser_succ [OF this(2)] obtain u where
      s: "find_user (db w) uid = Some u" "u_GroupId u = 0" "ID g = seq (groups (db w))" "g_OwnerId g = uid"
    and d: "db w' = set_team uid (int (ID g)) (groups_update (insert_row g) (db w))"
    by auto
  have "team_inv (groups_update (insert_row g) (set_team uid (int (ID g)) (db w)))"
  proof (rule team_inv_new_group [OF team_inv_join [OF inv s(1,2)]])
    show "ID g = seq (groups (set_team uid (int (ID g)) (db w)))" using s by simp
    show "\<exists>v \<in> set (rows (users (set_team uid (int (ID g)) (db w)))).
        live v \<and> int (ID v) = g_OwnerId g \<and> u_GroupId v = int (ID g)"
      using find_user_SomeD [OF s(1)] s(4)
      by (auto simp: set_team_def row_simps live_def intro!: bexI [of _ "u\<lparr>u_GroupId := int (ID g)\<rparr>"])
  qed
  then show "team_inv (db w')" by (simp only: d field_commute)
qed

lemma keeps_UpdateTeam [keeps_intros]: "keeps team_inv (dal_UpdateTeam e uid gid name avatar descr)"
proof (rule update_team.keeps_success)
  fix w a w' assume inv: "team_inv (db w)" and "dal_UpdateTeam e uid gid name avatar descr w = (Inr a, w')"
  then show "team_inv (db w')"
    using UpdateTeam_succ [of e uid gid name avatar descr w w']
    by (auto intro!: team_inv_edit_group team_inv_set_captain)
qed

lemma keeps_InviteUser [keeps_intros]: "keeps team_inv (InviteUser e inviter invitee)"
proof (rule invite_user.keeps_success)
  fix w iv w' assume inv: "team_inv (db w)" and "InviteUser e inviter invitee w = (Inr iv, w')"
  from InviteUser_succ [OF this(2)] obtain op :: user and g :: group_row where
      s: "case pending_invite (db w) (u_GroupId op) invitee of
         Some i \<Rightarrow> iv = i \<and> db w' = set_captain g (db w)
       | None \<Rightarrow> ID iv = seq (invites (db w)) \<and> DeletedAt iv = None \<and> i_GroupId iv = u_GroupId op \<and>
           i_InviterId iv = inviter \<and> i_InviteeId iv = invitee \<and> i_Status iv = ''pending'' \<and>
           db w' = invites_update (insert_row iv) (set_captain g (db w))"
    by blast
  note c = team_inv_set_captain [OF inv, of g]
  show "team_inv (db w')"
  proof (cases "pending_invite (db w) (u_GroupId op) invitee")
    case None
    with s have d: "db w' = invites_update (insert_row iv) (set_captain g (db w))"
      and i: "ID iv = seq (invites (db w))" "i_GroupId iv = u_GroupId op" "i_InviteeId iv = invitee" by simp_all
    from None i show ?thesis unfolding d
      by (intro team_inv_new_invite [OF c]) (auto simp: pending_invite_def first_where_None pending_def)
  next
    case (Some i)
    with s c show ?thesis by simp
  qed
qed

lemma keeps_TransferTeamOwner [keeps_intros]: "keeps team_inv (dal_TransferTeamOwner e opId newId)"
proof (rule transfer_owner.keeps_success)
  fix w a w' assume inv: "team_inv (db w)" and "dal_TransferTeamOwner e opId newId w = (Inr a, w')"
  then obtain op :: user and g :: group_row and new where s: "find_user (db w) newId = Some new" "u_GroupId new = u_GroupId op"
    and d: "db w' = groups_update (update_where (\<lambda>h. live h \<and> int (ID h) = u_GroupId op)
                (\<lambda>h. h\<lparr>g_OwnerId := newId\<rparr>)) (set_captain g (db w))"
    using TransferTeamOwner_succ [of e opId newId w w'] by auto
  from find_user_SomeD [OF s(1)] s(2) show "team_inv (db w')"
    unfolding d by (intro team_inv_edit_group team_inv_set_captain [OF inv]) (auto intro!: bexI [of _ new])
qed

text \<open>Deleting a group row, and then emptying it of its users.\<close>

lemma team_inv_drop_group:
  "team_inv d \<Longrightarrow>
   team_inv (groups_update (update_where (\<lambda>g. live g \<and> int (ID g) = gid) (\<lambda>g. g\<lparr>DeletedAt := Some t\<rparr>)) d)"
  by (intro team_inv_edit_group) (auto simp: live_def)

lemma team_inv_empty_group:
  assumes "team_inv d"
  shows "team_inv (users_update (update_where (\<lambda>u. live u \<and> u_GroupId u = gid) (\<lambda>u. u\<lparr>u_GroupId := 0\<rparr>))
    (groups_update (update_where (\<lambda>g. live g \<and> int (ID g) = gid) (\<lambda>g. g\<lparr>DeletedAt := Some t\<rparr>)) d))"
proof (rule team_inv_set_group [OF team_inv_drop_group [OF assms]])
  fix u :: user and g
  assume "g \<in> set (rows (groups (groups_update (update_where (\<lambda>g. live g \<and> int (ID g) = gid)
      (\<lambda>g. g\<lparr>DeletedAt := Some t\<rparr>)) d)))" "live g" "u_GroupId u = int (ID g)" "u_GroupId u = gid"
  then have "live g" "int (ID g) = gid"
    and "g \<in> (\<lambda>g. if live g \<and> int (ID g) = gid then g\<lparr>DeletedAt := Some t\<rparr> else g) ` set (rows (groups d))"
    by (simp_all add: row_simps)
  then have False by (elim imageE) (simp add: live_def split: if_splits)
  then show "0 = int (ID g)" ..
qed

lemma keeps_DisbandTeam [keeps_intros]: "keeps team_inv (dal_DisbandTeam e uid)"
proof (rule disband_team.keeps_success)
  fix w a w' assume inv: "team_inv (db w)" and "dal_DisbandTeam e uid w = (Inr a, w')"
  then have "dal_DisbandTeam e uid w = (Inr (), w')" by simp
  from DisbandTeam_succ [OF this] obtain u :: user and g :: group_row and t where
      d: "db w' = groups_update (update_where (\<lambda>h. live h \<and> int (ID h) = u_GroupId u) (\<lambda>h. h\<lparr>DeletedAt := Some t\<rparr>))
        (reject_pending (\<lambda>i. i_GroupId i = u_GroupId u)
          (users_update (update_where (\<lambda>v. live v \<and> u_GroupId v = u_GroupId u) (\<lambda>v. v\<lparr>u_GroupId := 0\<rparr>))
            (set_captain g (db w))))"
    by blast
  show "team_inv (db w')"
    unfolding d field_commute [symmetric]
    by (intro team_inv_reject team_inv_empty_group team_inv_set_captain inv)
qed

lemma keeps_RespondInvite [keeps_intros]: "keeps team_inv (RespondInvite e uid iid accept)"
proof (rule respond_invite.keeps_success)
  fix w a w' assume inv: "team_inv (db w)" and "RespondInvite e uid iid accept w = (Inr a, w')"
  then show "team_inv (db w')"
    using RespondInvite_succ [of e uid iid accept w w']
    by (auto split: if_splits intro!: team_inv_reject team_inv_set_status intro: team_inv_join)
qed

lemma keeps_GetWithUsers [keeps_intros]: "keeps team_inv (GetWithUsers e gid)"
proof (rule get_with_users.keeps_success)
  fix w a w' assume "team_inv (db w)" and "GetWithUsers e gid w = (Inr a, w')"
  then show "team_inv (db w')"
    using GetWithUsers_succ [of e gid w "fst a" "snd a" w'] by (auto intro: team_inv_set_captain)
qed

subsection \<open>The group administration, statement by statement\<close>

lemma keeps_group_Create [keeps_intros]: "keeps team_inv (group_Create e name descr)"
  unfolding group_Create_def
  by (intro keeps_intros keeps_create) (auto intro: team_inv_new_group)

lemma keeps_group_Update [keeps_intros]: "keeps team_inv (group_Update e gid name descr)"
  unfolding group_Update_def Let_def
  by (intro keeps_intros keeps_update) (auto intro!: team_inv_edit_group)

lemma keeps_group_Delete [keeps_intros]: "keeps team_inv (group_Delete e gid)"
proof (rule keepsI)
  fix w r w' assume inv: "team_inv (db w)" and r: "group_Delete e gid w = (r, w')"
  show "team_inv (db w')"
    using r inv team_inv_drop_group [OF inv, of gid] team_inv_empty_group [OF inv, of gid]
    by (simp add: group_Delete_def bindE_def withErr_def q_update_def stmt_def failE_def returnE_def tick_def Let_def
        split: if_splits prod.splits sum.splits) (elim conjE, hypsubst, simp)+
qed

end
