(* ===== verification/TeamService.thy ===== *)
theory TeamService
  imports Team
begin

text \<open>
  The handlers of \<^verbatim>\<open>app/user/internal/service/team.go\<close> and \<^verbatim>\<open>service/group.go\<close>: the sign-in and
  role guards, the parameter checks, the call of the data access of theory \<open>Team\<close>, the
  audit row and the reply. The remote call that lists last submissions is the parameter
  \<open>rpc_last_submit\<close>; \<open>None\<close> is a failed dial, call or decoding.
\<close>

section \<open>Requests and replies\<close>

record GroupUser =
  gu_UserId :: nat
  gu_Username :: string
  gu_Name :: string
  gu_GroupId :: int
  gu_Avatar :: string
  gu_LastSubmit :: string

record TeamSuccessReply =
  ts_Success :: bool
  ts_Message :: string

record TeamCreateReply = TeamSuccessReply +
  tc_Id :: int
  tc_Name :: string
  tc_Avatar :: string
  tc_Describe :: string
  tc_OwnerId :: int

record TeamDetailReply =
  td_Success :: bool
  td_Id :: int
  td_Name :: string
  td_Avatar :: string
  td_Describe :: string
  td_OwnerId :: int
  td_Users :: "GroupUser list"

record TeamInviteReply = TeamSuccessReply +
  tr_InviteId :: nat

record GroupGetReply =
  gg_Id :: int
  gg_Name :: string
  gg_Describe :: string
  gg_Users :: "GroupUser list"

definition groupName :: "group_row \<Rightarrow> string" where
  "groupName m = (case g_Name m of None \<Rightarrow> '''' | Some n \<Rightarrow> n)"

definition groupUsers :: "user list \<Rightarrow> GroupUser list" where
  "groupUsers us = map (\<lambda>u. \<lparr>gu_UserId = ID u, gu_Username = u_Username u, gu_Name = u_Name u,
     gu_GroupId = u_GroupId u, gu_Avatar = u_Avatar u, gu_LastSubmit = ''''\<rparr>) us"

section \<open>Team handlers\<close>

definition TeamDetail :: "'x user_env_scheme \<Rightarrow> int \<Rightarrow> (kerr, TeamDetailReply) uact" where
  "TeamDetail e groupId =
     (if groupId = 0 then returnE \<lparr>td_Success = True, td_Id = 0, td_Name = ''no team'', td_Avatar = '''',
        td_Describe = ''the user has not joined a team'', td_OwnerId = 0, td_Users = []\<rparr>
      else bindE (withErr (\<lambda>er. InternalServer ''query failed'' (err_text er)) (GetWithUsers e groupId)) (\<lambda>(g, us).
        returnE \<lparr>td_Success = True, td_Id = int64_of (ID g), td_Name = groupName g, td_Avatar = g_Avatar g,
          td_Describe = g_Describe g, td_OwnerId = g_OwnerId g, td_Users = groupUsers us\<rparr>))"

definition CreateTeam ::
    "'x user_env_scheme \<Rightarrow> ctx \<Rightarrow> string \<Rightarrow> string \<Rightarrow> string \<Rightarrow> (kerr, TeamCreateReply) uact" where
  "CreateTeam e hdr name avatar describe =
     bindE (loginE e hdr) (\<lambda>cur.
     if name = '''' then failE (BadRequest ''bad parameter'' ''the team name is required'')
     else bindE (withErr (\<lambda>er. BadRequest ''create failed'' (err_text er))
       (CreateTeamForUser e (int64_of (UserID cur)) name avatar describe)) (\<lambda>created.
     bindE (recordUserOperation e hdr ''team.create'' ''team'' (int64_of (ID created))
       [(''name'', JStr name), (''hasAvatar'', JBool (avatar \<noteq> ''''))]) (\<lambda>_.
     returnE \<lparr>ts_Success = True, ts_Message = ''team created'', tc_Id = int64_of (ID created),
       tc_Name = groupName created, tc_Avatar = g_Avatar created, tc_Describe = g_Describe created,
       tc_OwnerId = g_OwnerId created\<rparr>)))"

definition UpdateTeam ::
    "'x user_env_scheme \<Rightarrow> ctx \<Rightarrow> int \<Rightarrow> string \<Rightarrow> string \<Rightarrow> string \<Rightarrow> (kerr, TeamSuccessReply) uact" where
  "UpdateTeam e hdr gid name avatar describe =
     bindE (loginE e hdr) (\<lambda>cur.
     if gid = 0 then failE (BadRequest ''bad parameter'' ''the team id is required'')
     else if name = '''' then failE (BadRequest ''bad parameter'' ''the team name is required'')
     else bindE (withErr (\<lambda>er. BadRequest ''update failed'' (err_text er))
       (dal_UpdateTeam e (int64_of (UserID cur)) gid name avatar describe)) (\<lambda>_.
     bindE (recordUserOperation e hdr ''team.update'' ''team'' gid
       [(''name'', JStr name), (''hasAvatar'', JBool (avatar \<noteq> ''''))]) (\<lambda>_.
     returnE \<lparr>ts_Success = True, ts_Message = ''team updated''\<rparr>)))"

definition InviteTeamMember :: "'x user_env_scheme \<Rightarrow> ctx \<Rightarrow> int \<Rightarrow> (kerr, TeamInviteReply) uact" where
  "InviteTeamMember e hdr inviteeId =
     bindE (loginE e hdr) (\<lambda>cur.
     if inviteeId = 0 then failE (BadRequest ''bad parameter'' ''choose a user to invite'')
     else bindE (withErr (\<lambda>er. BadRequest ''invite failed'' (err_text er))
       (InviteUser e (int64_of (UserID cur)) inviteeId)) (\<lambda>iv.
     bindE (recordUserOperation e hdr ''team.invite'' ''user'' inviteeId
       [(''inviteId'', JInt (int (ID iv)))]) (\<lambda>_.
     returnE \<lparr>ts_Success = True, ts_Message = ''invitation sent'', tr_InviteId = ID iv\<rparr>)))"

definition RemoveTeamMember :: "'x user_env_scheme \<Rightarrow> ctx \<Rightarrow> int \<Rightarrow> (kerr, TeamSuccessReply) uact" where
  "RemoveTeamMember e hdr userId =
     bindE (loginE e hdr) (\<lambda>cur.
     if userId = 0 then failE (BadRequest ''bad parameter'' ''the member id is required'')
     else bindE (withErr (\<lambda>er. BadRequest ''remove failed'' (err_text er))
       (dal_RemoveTeamMember e (int64_of (UserID cur)) userId)) (\<lambda>_.
     bindE (recordUserOperation e hdr ''team.remove_member'' ''user'' userId []) (\<lambda>_.
     returnE \<lparr>ts_Success = True, ts_Message = ''member removed''\<rparr>)))"

definition TransferTeamOwner :: "'x user_env_scheme \<Rightarrow> ctx \<Rightarrow> int \<Rightarrow> (kerr, TeamSuccessReply) uact" where
  "TransferTeamOwner e hdr userId =
     bindE (loginE e hdr) (\<lambda>cur.
     if userId = 0 then failE (BadRequest ''bad parameter'' ''the new captain id is required'')
     else bindE (withErr (\<lambda>er. BadRequest ''transfer failed'' (err_text er))
       (dal_TransferTeamOwner e (int64_of (UserID cur)) userId)) (\<lambda>_.
     bindE (recordUserOperation e hdr ''team.transfer_owner'' ''user'' userId []) (\<lambda>_.
     returnE \<lparr>ts_Success = True, ts_Message = ''captain changed''\<rparr>)))"

definition LeaveTeam :: "'x user_env_scheme \<Rightarrow> ctx \<Rightarrow> (kerr, TeamSuccessReply) uact" where
  "LeaveTeam e hdr =
     bindE (loginE e hdr) (\<lambda>cur.
     bindE (withErr (\<lambda>er. BadRequest ''leave failed'' (err_text er))
       (dal_LeaveTeam e (int64_of (UserID cur)))) (\<lambda>_.
     bindE (recordUserOperation e hdr ''team.leave'' ''user'' (int64_of (UserID cur)) []) (\<lambda>_.
     returnE \<lparr>ts_Success = True, ts_Message = ''left the team''\<rparr>)))"

definition DisbandTeam :: "'x user_env_scheme \<Rightarrow> ctx \<Rightarrow> (kerr, TeamSuccessReply) uact" where
  "DisbandTeam e hdr =
     bindE (loginE e hdr) (\<lambda>cur.
     bindE (withErr (\<lambda>er. BadRequest ''disband failed'' (err_text er))
       (dal_DisbandTeam e (int64_of (UserID cur)))) (\<lambda>_.
     bindE (recordUserOperation e hdr ''team.disband'' ''user'' (int64_of (UserID cur)) []) (\<lambda>_.
     returnE \<lparr>ts_Success = True, ts_Message = ''team disbanded''\<rparr>)))"

text \<open>The reply items carry the fields of the data access's view unchanged.\<close>

definition ListTeamInvites :: "'x user_env_scheme \<Rightarrow> ctx \<Rightarrow> (kerr, TeamInviteView list) uact" where
  "ListTeamInvites e hdr =
     bindE (loginE e hdr) (\<lambda>cur.
     withErr (\<lambda>er. InternalServer ''query failed'' (err_text er))
       (ListPendingInvites e (int64_of (UserID cur))))"

definition RespondTeamInvite :: "'x user_env_scheme \<Rightarrow> ctx \<Rightarrow> nat \<Rightarrow> bool \<Rightarrow> (kerr, TeamSuccessReply) uact" where
  "RespondTeamInvite e hdr inviteId accept =
     bindE (loginE e hdr) (\<lambda>cur.
     if inviteId = 0 then failE (BadRequest ''bad parameter'' ''the invitation id is required'')
     else bindE (withErr (\<lambda>er. BadRequest ''respond failed'' (err_text er))
       (RespondInvite e (int64_of (UserID cur)) inviteId accept)) (\<lambda>_.
     if accept then returnE \<lparr>ts_Success = True, ts_Message = ''joined the team''\<rparr>
     else returnE \<lparr>ts_Success = True, ts_Message = ''invitation rejected''\<rparr>))"

section \<open>Group handlers\<close>

definition group_svc_Create :: "'x user_env_scheme \<Rightarrow> ctx \<Rightarrow> string \<Rightarrow> string \<Rightarrow> (kerr, int) uact" where
  "group_svc_Create e hdr name describe =
     (if \<not> VerifyMinRole e hdr RoleAdmin then failE (Forbidden ''no permission'' ''coach or admin required'')
      else if name = '''' then failE (BadRequest ''bad parameter'' ''the group name is required'')
      else bindE (withErr (\<lambda>er. InternalServer ''create failed'' (err_text er)) (group_Create e name describe)) (\<lambda>gid.
        bindE (recordUserOperation e hdr ''group.create'' ''group'' gid [(''name'', JStr name)]) (\<lambda>_.
        returnE gid)))"

definition group_svc_Delete :: "'x user_env_scheme \<Rightarrow> ctx \<Rightarrow> int \<Rightarrow> (kerr, unit) uact" where
  "group_svc_Delete e hdr gid =
     (if \<not> VerifyMinRole e hdr RoleAdmin then failE (Forbidden ''no permission'' ''coach or admin required'')
      else if gid = 0 then failE (BadRequest ''bad parameter'' ''the group id is required'')
      else bindE (withErr (\<lambda>er. InternalServer ''delete failed'' (err_text er)) (group_Delete e gid)) (\<lambda>_.
        recordUserOperation e hdr ''group.delete'' ''group'' gid []))"

definition group_svc_Get :: "'x user_env_scheme \<Rightarrow> int \<Rightarrow> (kerr, GroupGetReply) uact" where
  "group_svc_Get e gid =
     bindE (withErr (\<lambda>er. InternalServer ''query failed'' (err_text er)) (GetWithUsers e gid)) (\<lambda>(g, us).
     let reply = \<lparr>gg_Id = int64_of (ID g), gg_Name = groupName g, gg_Describe = g_Describe g, gg_Users = []\<rparr> in
     if us = [] then returnE reply
     else bindE (rpcE (\<lambda>n. rpc_last_submit e n (map (\<lambda>u. int64_of (ID u)) us))) (\<lambda>timeMap.
       case timeMap of
         None \<Rightarrow> returnE reply
       | Some tm \<Rightarrow> returnE (reply\<lparr>gg_Users := map (\<lambda>u.
           \<lparr>gu_UserId = ID u, gu_Username = u_Username u, gu_Name = u_Name u, gu_GroupId = u_GroupId u,
            gu_Avatar = u_Avatar u,
            gu_LastSubmit = (case tm (int64_of (ID u)) of Some t \<Rightarrow> fmt_d t | None \<Rightarrow> '''')\<rparr>) us\<rparr>)))"

definition group_svc_List :: "'x user_env_scheme \<Rightarrow> int \<Rightarrow> int \<Rightarrow> (kerr, GroupGetReply list \<times> int) uact" where
  "group_svc_List e reqPage reqSize =
     (let page = (if reqPage < 1 then 1 else reqPage);
          sz = (if reqSize < 1 then 10 else reqSize)
      in bindE (withErr (\<lambda>er. InternalServer ''query failed'' (err_text er)) (group_List e page sz)) (\<lambda>(list, total).
         returnE (map (\<lambda>(g, us). \<lparr>gg_Id = int64_of (ID g), gg_Name = groupName g, gg_Describe = g_Describe g,
           gg_Users = groupUsers us\<rparr>) list, total)))"

definition group_svc_Update :: "'x user_env_scheme \<Rightarrow> ctx \<Rightarrow> int \<Rightarrow> string \<Rightarrow> string \<Rightarrow> (kerr, unit) uact" where
  "group_svc_Update e hdr gid name describe =
     (if \<not> VerifyMinRole e hdr RoleAdmin then failE (Forbidden ''no permission'' ''coach or admin required'')
      else if gid = 0 then failE (BadRequest ''bad parameter'' ''the group id is required'')
      else if name = '''' \<and> describe = '''' then failE (BadRequest ''bad parameter'' ''nothing to update'')
      else bindE (withErr (\<lambda>er. InternalServer ''update failed'' (err_text er)) (group_Update e gid name describe)) (\<lambda>_.
        recordUserOperation e hdr ''group.update'' ''group'' gid [(''name'', JStr name)]))"

section \<open>Every handler keeps the invariant of the team tables\<close>

lemma keeps_team_audit [keeps_intros]: "keeps team_inv (recordUserOperation e hdr a t i d)"
  by (rule keeps_recordUserOperation) (simp add: team_inv_oplogs)

lemma keeps_team_reads [keeps_intros]:
  "keeps I (ListPendingInvites e uid)" "keeps I (group_List e page sz)"
  unfolding ListPendingInvites_def group_List_def Let_def by (intro keeps_intros)+

lemma keeps_team_handlers [keeps_intros]:
  "keeps team_inv (TeamDetail e gid)"
  "keeps team_inv (CreateTeam e hdr name avatar descr)"
  "keeps team_inv (UpdateTeam e hdr gid name avatar descr)"
  "keeps team_inv (InviteTeamMember e hdr uid)"
  "keeps team_inv (RemoveTeamMember e hdr uid)"
  "keeps team_inv (TransferTeamOwner e hdr uid)"
  "keeps team_inv (LeaveTeam e hdr)"
  "keeps team_inv (DisbandTeam e hdr)"
  "keeps team_inv (ListTeamInvites e hdr)"
  "keeps team_inv (RespondTeamInvite e hdr iid accept)"
  unfolding TeamDetail_def CreateTeam_def UpdateTeam_def InviteTeamMember_def RemoveTeamMember_def
    TransferTeamOwner_def LeaveTeam_def DisbandTeam_def ListTeamInvites_def RespondTeamInvite_def
  by (intro keeps_intros)+

lemma keeps_group_handlers [keeps_intros]:
  "keeps team_inv (group_svc_Create e hdr name descr)"
  "keeps team_inv (group_svc_Delete e hdr gid)"
  "keeps team_inv (group_svc_Get e gid)"
  "keeps team_inv (group_svc_List e page sz)"
  "keeps team_inv (group_svc_Update e hdr gid name descr)"
  unfolding group_svc_Create_def group_svc_Delete_def group_svc_Get_def group_svc_List_def
    group_svc_Update_def Let_def
  by (intro keeps_intros)+

section \<open>A handler that errors has changed nothing\<close>

lemma team_handlers_atomic:
  "CreateTeam e hdr name avatar descr w = (Inl er, w') \<Longrightarrow> db w' = db w"
  "UpdateTeam e hdr gid name avatar descr w = (Inl er, w') \<Longrightarrow> db w' = db w"
  "InviteTeamMember e hdr uid w = (Inl er, w') \<Longrightarrow> db w' = db w"
  "RemoveTeamMember e hdr uid w = (Inl er, w') \<Longrightarrow> db w' = db w"
  "TransferTeamOwner e hdr uid w = (Inl er, w') \<Longrightarrow> db w' = db w"
  "LeaveTeam e hdr w = (Inl er, w') \<Longrightarrow> db w' = db w"
  "DisbandTeam e hdr w = (Inl er, w') \<Longrightarrow> db w' = db w"
  "RespondTeamInvite e hdr iid accept w = (Inl er, w') \<Longrightarrow> db w' = db w"
  by (auto simp: CreateTeam_def UpdateTeam_def InviteTeamMember_def RemoveTeamMember_def TransferTeamOwner_def
      LeaveTeam_def DisbandTeam_def RespondTeamInvite_def err_simps succ_simps failE_def returnE_def
      split: if_splits
      dest!: loginE_err create_team.atomic update_team.atomic invite_user.atomic remove_member.atomic
        transfer_owner.atomic leave_team.atomic disband_team.atomic respond_invite.atomic)

section \<open>What a handler did when it returned\<close>

lemma team_handlers_succ:
  "UpdateTeam e hdr gid name avatar descr w = (Inr v, w') \<Longrightarrow> \<exists>cur w1. GetCurrentUser e hdr = Some cur \<and> gid \<noteq> 0 \<and>
     dal_UpdateTeam e (int64_of (UserID cur)) gid name avatar descr w = (Inr (), w1)"
  "InviteTeamMember e hdr uid w = (Inr iv, w') \<Longrightarrow> \<exists>cur w1 row. GetCurrentUser e hdr = Some cur \<and>
     InviteUser e (int64_of (UserID cur)) uid w = (Inr row, w1) \<and> tr_InviteId iv = ID row \<and> invites (db w') = invites (db w1)"
  "RemoveTeamMember e hdr uid w = (Inr v, w') \<Longrightarrow> \<exists>cur w1. GetCurrentUser e hdr = Some cur \<and>
     dal_RemoveTeamMember e (int64_of (UserID cur)) uid w = (Inr (), w1) \<and>
     users (db w') = users (db w1) \<and> groups (db w') = groups (db w1) \<and> invites (db w') = invites (db w1)"
  "TransferTeamOwner e hdr uid w = (Inr v, w') \<Longrightarrow> \<exists>cur w1. GetCurrentUser e hdr = Some cur \<and>
     dal_TransferTeamOwner e (int64_of (UserID cur)) uid w = (Inr (), w1) \<and>
     users (db w') = users (db w1) \<and> groups (db w') = groups (db w1)"
  "DisbandTeam e hdr w = (Inr v, w') \<Longrightarrow> \<exists>cur w1. GetCurrentUser e hdr = Some cur \<and>
     dal_DisbandTeam e (int64_of (UserID cur)) w = (Inr (), w1) \<and>
     users (db w') = users (db w1) \<and> groups (db w') = groups (db w1) \<and> invites (db w') = invites (db w1)"
  "RespondTeamInvite e hdr iid accept w = (Inr v, w') \<Longrightarrow> \<exists>cur. GetCurrentUser e hdr = Some cur \<and>
     RespondInvite e (int64_of (UserID cur)) iid accept w = (Inr (), w')"
  by (auto simp: UpdateTeam_def InviteTeamMember_def RemoveTeamMember_def TransferTeamOwner_def
      DisbandTeam_def RespondTeamInvite_def succ_simps split: if_splits dest!: recordUserOperation_tables)

section \<open>Captains\<close>

definition is_captain :: "udb \<Rightarrow> int \<Rightarrow> bool" where
  "is_captain d uid \<longleftrightarrow> (\<exists>u g. find_user d uid = Some u \<and> u_GroupId u \<noteq> 0 \<and>
     find_group d (u_GroupId u) = Some g \<and> captain d g = uid)"

lemma captain_of_dal:
  "dal_UpdateTeam e uid gid n a d w = (Inr (), w') \<Longrightarrow> gid \<noteq> 0 \<Longrightarrow> is_captain (db w) uid"
  "InviteUser e uid v w = (Inr iv, w') \<Longrightarrow> is_captain (db w) uid"
  "dal_RemoveTeamMember e uid v w = (Inr (), w') \<Longrightarrow> is_captain (db w) uid"
  "dal_TransferTeamOwner e uid v w = (Inr (), w') \<Longrightarrow> is_captain (db w) uid"
  "dal_DisbandTeam e uid w = (Inr (), w') \<Longrightarrow> is_captain (db w) uid"
  using UpdateTeam_succ [of e uid gid n a d w w'] InviteUser_succ [of e uid v w iv w']
    RemoveTeamMember_succ [of e uid v w w'] TransferTeamOwner_succ [of e uid v w w'] DisbandTeam_succ [of e uid w w']
  unfolding is_captain_def CanManageTeam_def by metis+

lemma captain_of_handler:
  assumes "GetCurrentUser e hdr = Some cur"
  shows "UpdateTeam e hdr gid n a d w = (Inr v, w') \<Longrightarrow> is_captain (db w) (int64_of (UserID cur))"
    and "InviteTeamMember e hdr uid w = (Inr iv, w') \<Longrightarrow> is_captain (db w) (int64_of (UserID cur))"
    and "RemoveTeamMember e hdr uid w = (Inr v, w') \<Longrightarrow> is_captain (db w) (int64_of (UserID cur))"
    and "TransferTeamOwner e hdr uid w = (Inr v, w') \<Longrightarrow> is_captain (db w) (int64_of (UserID cur))"
    and "DisbandTeam e hdr w = (Inr v, w') \<Longrightarrow> is_captain (db w) (int64_of (UserID cur))"
  using assms by (auto dest!: team_handlers_succ intro: captain_of_dal)

lemma must_fail:
  assumes "\<And>a w'. r = (Inr a, w') \<Longrightarrow> False" and "\<And>er w'. r = (Inl er, w') \<Longrightarrow> db w' = d"
  shows "\<exists>er w'. r = (Inl er, w') \<and> db w' = d"
  using assms by (cases r; cases "fst r") auto

lemma none_pending:
  assumes "i \<in> set (rows (invites (reject_pending P d)))" and "\<And>i s. P (i\<lparr>i_Status := s\<rparr>) = P i"
  shows "\<not> (pending i \<and> P i)"
proof -
  from assms(1) obtain j where j: "i = (if pending j \<and> P j then j\<lparr>i_Status := ''rejected''\<rparr> else j)"
    unfolding reject_pending_def by (auto dest!: update_where_rowD)
  then show ?thesis using assms(2) by (auto simp: pending_def live_def split: if_splits)
qed

lemma pending_invite_Some:
  "pending_invite d gid uid = Some i \<Longrightarrow> i \<in> set (rows (invites d)) \<and> pending i \<and> i_GroupId i = gid \<and> i_InviteeId i = uid"
  unfolding pending_invite_def by (drule first_where_Some) (simp add: pending_def)

end
