(* ===== verification/Account.thy ===== *)
theory Account
  imports TeamService
begin

text \<open>
  Accounts: the data access of \<^verbatim>\<open>app/user/internal/data/dal/profile.go\<close>, passwords
  (\<^verbatim>\<open>service/password.go\<close>), the handlers of \<^verbatim>\<open>service/profile.go\<close> and \<^verbatim>\<open>service/role.go\<close>, and sign-in,
  registration, the invitation code and the operation log of \<^verbatim>\<open>service/auth.go\<close>.

  bcrypt, token signing and JSON are parameters of the environment. Rows of a query without
  \<^verbatim>\<open>ORDER BY\<close> come in storage order.
\<close>

section \<open>Profile data access\<close>

definition GetById :: "'x user_env_scheme \<Rightarrow> int \<Rightarrow> (gerr, user) uact" where
  "GetById e userId = withErr
     (\<lambda>er. if er = ErrRecordNotFound then Errorf ''no such user'' else Errorf (''unknown error '' @ err_text er))
     (user_first e (\<lambda>u. int (ID u) = userId))"

text \<open>SQL \<^verbatim>\<open>LIKE\<close>, character by character: \<^verbatim>\<open>%\<close>, \<^verbatim>\<open>_\<close> and the backslash escape.\<close>

fun sql_like :: "string list \<Rightarrow> string list \<Rightarrow> bool" where
  "sql_like [] s = (s = [])"
| "sql_like (p # ps) s =
     (if p = ''%'' then sql_like ps s \<or> (case s of [] \<Rightarrow> False | _ # s' \<Rightarrow> sql_like (p # ps) s')
      else if p = [CHR 0x5C] then
        (case ps of [] \<Rightarrow> False
         | q # qs \<Rightarrow> (case s of [] \<Rightarrow> False | c # s' \<Rightarrow> c = q \<and> sql_like qs s'))
      else (case s of [] \<Rightarrow> False | c # s' \<Rightarrow> (p = ''_'' \<or> c = p) \<and> sql_like ps s'))"

definition GetByName :: "'x user_env_scheme \<Rightarrow> string \<Rightarrow> (gerr, user list) uact" where
  "GetByName e name = q_select e (\<lambda>d. take 5 (filter (\<lambda>u. live u \<and>
     sql_like (chunks (''%'' @ name @ ''%'')) (chunks (u_Name u))) (rows (users d))))"

definition dal_Update :: "'x user_env_scheme \<Rightarrow> nat \<Rightarrow> string \<Rightarrow> string \<Rightarrow> string \<Rightarrow> (gerr, unit) uact" where
  "dal_Update e pid avatar name email = UpdateCacheDal e (profile_key (int pid))
     (bindE (tryE (user_update e (\<lambda>u. ID u = pid)
        (\<lambda>now u. u\<lparr>u_Avatar := avatar, u_Email := email, u_Name := name\<rparr>))) (\<lambda>_. returnE ()))"

definition dal_ChangePassword :: "'x user_env_scheme \<Rightarrow> int \<Rightarrow> string \<Rightarrow> (gerr, unit) uact" where
  "dal_ChangePassword e userId newPassword = UpdateCacheDal e (profile_key userId)
     (bindE (user_update e (\<lambda>u. int (ID u) = userId) (\<lambda>now u. u\<lparr>u_Password := newPassword\<rparr>)) (\<lambda>affected.
      if affected = 0 then failE (Errorf ''no such user'') else returnE ()))"

definition dal_DeleteUser :: "'x user_env_scheme \<Rightarrow> int \<Rightarrow> (gerr, unit) uact" where
  "dal_DeleteUser e userId = UpdateCacheDal e (profile_key userId) (transaction e
     (bindE (withErr (\<lambda>er. if er = ErrRecordNotFound then Errorf ''no such user'' else er)
        (user_first e (\<lambda>u. int (ID u) = userId))) (\<lambda>user.
      bindE
        (if u_GroupId user \<noteq> 0 then
           bindE (tryE (group_first e (\<lambda>g. int (ID g) = u_GroupId user \<and> g_OwnerId g = userId))) (\<lambda>r.
           case r of
             Inl er \<Rightarrow> if er \<noteq> ErrRecordNotFound then failE er else returnE ()
           | Inr grp \<Rightarrow>
               bindE (tryE (user_first e (\<lambda>u. u_GroupId u = u_GroupId user \<and> int (ID u) \<noteq> userId))) (\<lambda>replacement.
               bindE (case replacement of
                   Inl er \<Rightarrow> if er \<noteq> ErrRecordNotFound then failE er else returnE 0
                 | Inr rep \<Rightarrow> returnE (int (ID rep))) (\<lambda>newOwnerId.
               bindE (group_update e (\<lambda>g. int (ID g) = u_GroupId user) (\<lambda>now g. g\<lparr>g_OwnerId := newOwnerId\<rparr>)) (\<lambda>_.
               returnE ()))))
         else returnE ()) (\<lambda>_.
      bindE (invite_update e (\<lambda>i. i_InviterId i = userId \<or> i_InviteeId i = userId)
        (\<lambda>now i. i\<lparr>DeletedAt := Some now\<rparr>)) (\<lambda>_.
      bindE (user_update e (\<lambda>u. int (ID u) = userId) (\<lambda>now u. u\<lparr>DeletedAt := Some now\<rparr>)) (\<lambda>affected.
      if affected = 0 then failE (Errorf ''no such user'') else returnE ()))))))"

text \<open>The error of the page query is overwritten by that of the count.\<close>

definition dal_GetList :: "'x user_env_scheme \<Rightarrow> int \<Rightarrow> int \<Rightarrow> (gerr, user list \<times> int) uact" where
  "dal_GetList e pageSize pageNum =
     bindE (tryE (q_select e (\<lambda>d. page_of pageSize (i64 (i64 (pageNum - 1) * pageSize))
        (sort_key ID (filter live (rows (users d))))))) (\<lambda>r.
     bindE (q_select e (\<lambda>d. int (length (filter live (rows (users d)))))) (\<lambda>total.
     returnE (case r of Inl (er :: gerr) \<Rightarrow> [] | Inr us \<Rightarrow> us, total)))"

definition dal_MoveGroup :: "'x user_env_scheme \<Rightarrow> nat \<Rightarrow> int \<Rightarrow> (gerr, unit) uact" where
  "dal_MoveGroup e userId groupId =
     bindE (withErr (Wrapf ''move user failed'')
       (user_update e (\<lambda>u. ID u = userId) (\<lambda>now u. u\<lparr>u_GroupId := groupId\<rparr>))) (\<lambda>affected.
     if affected = 0 then failE (Errorf ''no such user'') else returnE ())"

definition dal_SetEmailEnabled :: "'x user_env_scheme \<Rightarrow> int \<Rightarrow> bool \<Rightarrow> (gerr, unit) uact" where
  "dal_SetEmailEnabled e userId enabled = UpdateCacheDal e (profile_key userId)
     (bindE (user_update e (\<lambda>u. int (ID u) = userId) (\<lambda>now u. u\<lparr>u_EmailEnabled := enabled\<rparr>)) (\<lambda>_. returnE ()))"

definition GetEmailEnabled :: "'x user_env_scheme \<Rightarrow> int \<Rightarrow> ('e, bool \<times> gerr option) uact" where
  "GetEmailEnabled e userId =
     bindE (tryE (user_first e (\<lambda>u. int (ID u) = userId))) (\<lambda>r.
     returnE (case r of Inl er \<Rightarrow> (True, Some er) | Inr u \<Rightarrow> (u_EmailEnabled u, None)))"

definition dal_GetUserIdsByGroup :: "'x user_env_scheme \<Rightarrow> int \<Rightarrow> (gerr, int list) uact" where
  "dal_GetUserIdsByGroup e groupId = q_select e (\<lambda>d. map (\<lambda>u. int (ID u))
     (filter (\<lambda>u. live u \<and> u_GroupId u = groupId) (rows (users d))))"

definition dal_GetByIds :: "'x user_env_scheme \<Rightarrow> int list \<Rightarrow> (gerr, user list) uact" where
  "dal_GetByIds e userIds = q_select e (\<lambda>d.
     filter (\<lambda>u. live u \<and> int (ID u) \<in> set userIds) (rows (users d)))"

definition SetRoleId :: "'x user_env_scheme \<Rightarrow> int \<Rightarrow> int \<Rightarrow> (gerr, unit) uact" where
  "SetRoleId e userId roleId = UpdateCacheDal e (profile_key userId)
     (bindE (user_update e (\<lambda>u. int (ID u) = userId) (\<lambda>now u. u\<lparr>u_RoleID := roleId\<rparr>)) (\<lambda>_. returnE ()))"

section \<open>Passwords\<close>

definition hashPassword :: "'x user_env_scheme \<Rightarrow> string \<Rightarrow> (gerr, string) uact" where
  "hashPassword e password w = (bcrypt_generate e (ticks w) password, tick w)"

definition isBcryptHash :: "string \<Rightarrow> bool" where
  "isBcryptHash v \<longleftrightarrow> HasPrefix v ''$2a$'' \<or> HasPrefix v ''$2b$'' \<or> HasPrefix v ''$2x$'' \<or> HasPrefix v ''$2y$''"

definition verifyPassword :: "'x user_env_scheme \<Rightarrow> string \<Rightarrow> string \<Rightarrow> bool \<times> bool" where
  "verifyPassword e stored candidate =
     (if isBcryptHash stored then (bcrypt_compare e stored candidate, False)
      else if stored = candidate then (True, True)
      else (False, False))"

section \<open>Profile and role handlers\<close>

record ChangePasswordReply =
  cp_Success :: bool
  cp_Message :: string

record UserListItem =
  ul_UserId :: nat
  ul_Username :: string
  ul_Name :: string
  ul_Avatar :: string
  ul_GroupId :: int
  ul_RoleId :: int
  ul_LastSubmit :: string

record ProfileReply =
  pr_UserId :: nat
  pr_Username :: string
  pr_Name :: string
  pr_Email :: string
  pr_Avatar :: string
  pr_GroupId :: int
  pr_Spiders :: "(string \<times> string) list"
  pr_EmailEnabled :: bool
  pr_RoleId :: int

definition UpdateForbidden :: kerr where
  "UpdateForbidden = Forbidden ''access denied'' ''you may not update this user''"

definition InternalServerErr :: kerr where
  "InternalServerErr = InternalServer ''internal error'' ''internal error''"

definition svc_GetByName :: "'x user_env_scheme \<Rightarrow> string \<Rightarrow> (kerr, (int \<times> string) list) uact" where
  "svc_GetByName e name =
     bindE (withErr (\<lambda>_. InternalServer ''internal error'' ''query error'') (GetByName e name)) (\<lambda>us.
     returnE (map (\<lambda>u. (int64_of (ID u), u_Name u)) us))"

definition MoveGroup :: "'x user_env_scheme \<Rightarrow> ctx \<Rightarrow> nat \<Rightarrow> int \<Rightarrow> (kerr, unit) uact" where
  "MoveGroup e hdr userId groupId =
     (if \<not> VerifyMinRole e hdr RoleAdmin then failE (Forbidden ''no permission'' ''coach or admin required'')
      else withErr (\<lambda>er. InternalServer ''internal error'' (err_text er)) (dal_MoveGroup e userId groupId))"

definition svc_GetList :: "'x user_env_scheme \<Rightarrow> int \<Rightarrow> int \<Rightarrow> (kerr, UserListItem list \<times> int) uact" where
  "svc_GetList e pageSize pageNum =
     bindE (withErr (\<lambda>_. InternalServerErr) (dal_GetList e pageSize pageNum)) (\<lambda>(pf, total).
     bindE (rpcE (\<lambda>n. rpc_last_submit e n (map (\<lambda>u. int64_of (ID u)) pf))) (\<lambda>timeMap.
     case timeMap of
       None \<Rightarrow> failE InternalServerErr
     | Some tm \<Rightarrow> returnE (map (\<lambda>u.
         \<lparr>ul_UserId = ID u, ul_Username = u_Username u, ul_Name = u_Name u, ul_Avatar = u_Avatar u,
          ul_GroupId = u_GroupId u, ul_RoleId = i32 (u_RoleID u),
          ul_LastSubmit = (case tm (int64_of (ID u)) of Some t \<Rightarrow> fmt_d t | None \<Rightarrow> '''')\<rparr>) pf, total)))"

definition svc_Update :: "'x user_env_scheme \<Rightarrow> ctx \<Rightarrow> nat \<Rightarrow> string \<Rightarrow> string \<Rightarrow> string \<Rightarrow> (kerr, unit) uact" where
  "svc_Update e hdr userId avatar name email =
     (if \<not> VerifySelfOrAbove e hdr userId then failE UpdateForbidden
      else withErr (\<lambda>er. InternalServer ''internal error'' (err_text er)) (dal_Update e userId avatar name email))"

definition ChangePassword ::
    "'x user_env_scheme \<Rightarrow> ctx \<Rightarrow> int \<Rightarrow> string \<Rightarrow> string \<Rightarrow> (kerr, ChangePasswordReply) uact" where
  "ChangePassword e hdr userId oldPassword newPassword =
     bindE (loginE e hdr) (\<lambda>cur.
     if userId = 0 \<or> newPassword = '''' then failE (BadRequest ''bad parameter'' ''user id and new password are required'')
     else
       let isAdmin = (RoleID cur = RoleAdmin); isSelf = (int64_of (UserID cur) = userId) in
       if \<not> isAdmin \<and> \<not> isSelf then failE (Forbidden ''no permission'' ''only your own password'')
       else bindE (withErr (\<lambda>_. BadRequest ''no such user'' ''no such user'') (GetById e userId)) (\<lambda>target.
       if u_RoleID target = RoleAdmin \<and> \<not> isSelf then
         failE (Forbidden ''no permission'' ''another admin's password cannot be reset'')
       else if isSelf \<and> oldPassword = '''' then failE (BadRequest ''bad parameter'' ''the old password is required'')
       else if isSelf \<and> \<not> fst (verifyPassword e (u_Password target) oldPassword) then
         returnE \<lparr>cp_Success = False, cp_Message = ''wrong old password''\<rparr>
       else bindE (withErr (\<lambda>_. InternalServer ''internal error'' ''password hashing failed'')
              (hashPassword e newPassword)) (\<lambda>newHash.
            bindE (withErr (\<lambda>er. InternalServer ''internal error'' (err_text er))
              (dal_ChangePassword e userId newHash)) (\<lambda>_.
            bindE (recordUserOperation e hdr ''profile.change_password'' ''user'' userId
              [(''isSelf'', JBool isSelf), (''isAdmin'', JBool isAdmin)]) (\<lambda>_.
            returnE \<lparr>cp_Success = True, cp_Message = ''password updated''\<rparr>)))))"

definition DeleteUser :: "'x user_env_scheme \<Rightarrow> ctx \<Rightarrow> int \<Rightarrow> (kerr, unit) uact" where
  "DeleteUser e hdr userId =
     bindE (loginE e hdr) (\<lambda>cur.
     if userId = 0 then failE (BadRequest ''bad parameter'' ''the user id is required'')
     else bindE (withErr (\<lambda>_. BadRequest ''no such user'' ''no such user'') (GetById e userId)) (\<lambda>target.
       if \<not> canDeleteUser (int64_of (UserID cur)) (RoleID cur) userId (u_RoleID target) then
         failE (Forbidden ''no permission'' ''only admins delete users, never an admin or themselves'')
       else bindE (withErr (\<lambda>er. InternalServer ''internal error'' (err_text er)) (dal_DeleteUser e userId)) (\<lambda>_.
         recordUserOperation e hdr ''profile.delete_user'' ''user'' userId
           [(''username'', JStr (u_Username target)), (''roleId'', JInt (u_RoleID target))])))"

definition svc_GetById :: "'x user_env_scheme \<Rightarrow> int \<Rightarrow> (kerr, ProfileReply) uact" where
  "svc_GetById e userId =
     bindE (withErr (\<lambda>er. InternalServer ''internal error'' (err_text er)) (GetById e userId)) (\<lambda>pf.
     bindE (rpcE (\<lambda>n. rpc_spiders e n userId)) (\<lambda>r.
     case r of
       Inl er \<Rightarrow> failE (InternalServer ''internal error'' er)
     | Inr spiders \<Rightarrow> returnE
         \<lparr>pr_UserId = ID pf, pr_Username = u_Username pf, pr_Name = u_Name pf, pr_Email = u_Email pf,
          pr_Avatar = u_Avatar pf, pr_GroupId = u_GroupId pf, pr_Spiders = spiders,
          pr_EmailEnabled = u_EmailEnabled pf, pr_RoleId = i32 (u_RoleID pf)\<rparr>))"

definition GetUserIdsByGroup :: "'x user_env_scheme \<Rightarrow> int \<Rightarrow> (kerr, int list) uact" where
  "GetUserIdsByGroup e groupId =
     withErr (\<lambda>er. InternalServer ''internal error'' (err_text er)) (dal_GetUserIdsByGroup e groupId)"

definition GetByIds ::
    "'x user_env_scheme \<Rightarrow> int list \<Rightarrow> (kerr, (int \<times> string \<times> string \<times> string \<times> int) list) uact" where
  "GetByIds e userIds =
     bindE (withErr (\<lambda>er. InternalServer ''internal error'' (err_text er)) (dal_GetByIds e userIds)) (\<lambda>us.
     returnE (map (\<lambda>u. (int64_of (ID u), u_Username u, u_Name u, u_Avatar u, u_GroupId u)) us))"

definition SetEmailEnabled :: "'x user_env_scheme \<Rightarrow> ctx \<Rightarrow> int \<Rightarrow> bool \<Rightarrow> (kerr, unit) uact" where
  "SetEmailEnabled e hdr userId enabled =
     (if \<not> VerifySelfOrAbove e hdr (u64 userId) then failE UpdateForbidden
      else withErr (\<lambda>er. InternalServer ''internal error'' (err_text er)) (dal_SetEmailEnabled e userId enabled))"

definition role_List :: "(int \<times> string) list" where
  "role_List = map (\<lambda>r. (r, case RoleName r of Some n \<Rightarrow> n | None \<Rightarrow> '''')) [RoleUser, RoleAdmin, RoleCoach]"

definition SetUserRole :: "'x user_env_scheme \<Rightarrow> ctx \<Rightarrow> int \<Rightarrow> int \<Rightarrow> (kerr, unit) uact" where
  "SetUserRole e hdr userId roleId =
     bindE (tryE (GetById e (int64_of (GetCurrentUserId e hdr)))) (\<lambda>r.
     case r of
       Inl er \<Rightarrow> failE (Forbidden ''no permission'' ''only admins set roles'')
     | Inr caller \<Rightarrow>
       if u_RoleID caller \<noteq> RoleAdmin then failE (Forbidden ''no permission'' ''only admins set roles'')
       else if \<not> IsValid roleId then failE (BadRequest ''bad parameter'' ''invalid role id'')
       else bindE (withErr (\<lambda>_. InternalServer ''internal error'' ''no such user'') (GetById e userId)) (\<lambda>targetUser.
         if \<not> canSetUserRole (int64_of (GetCurrentUserId e hdr)) (u_RoleID caller) userId (u_RoleID targetUser) roleId
         then failE (Forbidden ''no permission'' ''not yourself, not an admin, not to admin'')
         else bindE (withErr (\<lambda>_. InternalServer ''internal error'' ''role update failed'') (SetRoleId e userId roleId)) (\<lambda>_.
           recordUserOperation e hdr ''role.set_user_role'' ''user'' userId
             [(''oldRoleId'', JInt (u_RoleID targetUser)), (''newRoleId'', JInt roleId)])))"

section \<open>Sign-in, registration, invitation code, operation log\<close>

definition registerInviteCodeKey :: string where "registerInviteCodeKey = ''register_invite_code''"
definition defaultRegisterInviteCode :: string where "defaultRegisterInviteCode = ''wustacm666''"

definition validateRegisterInviteCode :: "string \<Rightarrow> string \<Rightarrow> bool \<times> string" where
  "validateRegisterInviteCode input0 expected0 =
     (let input = TrimSpace input0; expected = TrimSpace expected0 in
      if input = '''' then (False, ''enter the invitation code'')
      else let expected' = (if expected = '''' then defaultRegisterInviteCode else expected) in
      if input \<noteq> expected' then (False, ''wrong invitation code'') else (True, ''''))"

abbreviation "config_first e P \<equiv> q_first e configs (\<lambda>c. live c \<and> P c)"

definition getRegisterInviteCode :: "'x user_env_scheme \<Rightarrow> ('e, string) uact" where
  "getRegisterInviteCode e =
     bindE (tryE (config_first e (\<lambda>c. c_Key c = registerInviteCodeKey))) (\<lambda>r.
     case r of
       Inl er \<Rightarrow> returnE defaultRegisterInviteCode
     | Inr c \<Rightarrow> if TrimSpace (c_Value c) = '''' then returnE defaultRegisterInviteCode
               else returnE (TrimSpace (c_Value c)))"

definition saveRegisterInviteCode :: "'x user_env_scheme \<Rightarrow> string \<Rightarrow> (gerr, unit) uact" where
  "saveRegisterInviteCode e inviteCode =
     bindE (tryE (config_first e (\<lambda>c. c_Key c = registerInviteCodeKey))) (\<lambda>r.
     case r of
       Inl er \<Rightarrow>
         if er = ErrRecordNotFound then
           bindE (q_create e configs configs_update (\<lambda>i now.
             \<lparr>ID = i, CreatedAt = now, DeletedAt = None, c_Key = registerInviteCodeKey, c_Value = inviteCode\<rparr>))
           (\<lambda>_. returnE ())
         else failE er
     | Inr c \<Rightarrow> bindE (q_update e configs configs_update (\<lambda>x. live x \<and> ID x = ID c)
                 (\<lambda>now x. x\<lparr>c_Value := inviteCode\<rparr>)) (\<lambda>_. returnE ()))"

record LoginRes =
  lr_Success :: bool
  lr_Message :: string
  lr_JwtToken :: string

abbreviation "login_failed msg \<equiv> \<lparr>lr_Success = False, lr_Message = msg, lr_JwtToken = ''''\<rparr>"

definition login_claims :: "user \<Rightarrow> time \<Rightarrow> time \<Rightarrow> jwt_claims" where
  "login_claims u now1 now2 =
     (let expire = now1 + 8640 * 3600 * 1000000000;
          roleIdsJSON = (if u_RoleID u = 1 \<or> u_RoleID u = 2 then ''[1]'' else ''[0]'')
      in \<lparr>cl_userId = ID u, cl_username = u_Username u, cl_name = u_Name u, cl_email = u_Email u,
          cl_roleId = u_RoleID u, cl_roleIds = roleIdsJSON, cl_exp = Unix expire, cl_nbf = Unix now2\<rparr>)"

definition Login :: "'x user_env_scheme \<Rightarrow> string \<Rightarrow> string \<Rightarrow> string \<Rightarrow> (kerr, LoginRes) uact" where
  "Login e jwtSecret username password =
     bindE (tryE (user_first e (\<lambda>u. u_Username u = username))) (\<lambda>r.
     case r of
       Inl er \<Rightarrow>
         if er = ErrRecordNotFound then returnE (login_failed ''wrong user name or password'')
         else returnE (login_failed ''login failed'')
     | Inr u \<Rightarrow>
         let (validPassword, needsRehash) = verifyPassword e (u_Password u) password in
         if \<not> validPassword then returnE (login_failed ''wrong user name or password'')
         else
           bindE
             (if needsRehash then
                bindE (tryE (hashPassword e password)) (\<lambda>h.
                case h of
                  Inl _ \<Rightarrow> returnE ()
                | Inr passwordHash \<Rightarrow>
                    bindE (tryE (user_update e (\<lambda>v. ID v = ID u) (\<lambda>now v. v\<lparr>u_Password := passwordHash\<rparr>))) (\<lambda>_.
                    returnE ()))
              else returnE ()) (\<lambda>_.
           bindE (time_now e) (\<lambda>now1.
           bindE (time_now e) (\<lambda>now2.
           case jwt_sign e jwtSecret (login_claims u now1 now2) of
             Inl er \<Rightarrow> returnE (login_failed (''verified, but signing the token failed.'' @ err_text er))
           | Inr tok \<Rightarrow> returnE \<lparr>lr_Success = True, lr_Message = ''logged in'', lr_JwtToken = tok\<rparr>))))"

record RegisterRes =
  rr_Success :: bool
  rr_Message :: string

text \<open>The column defaults are those of the model: role 0, mail on.\<close>

definition newUser :: "string \<Rightarrow> string \<Rightarrow> string \<Rightarrow> string \<Rightarrow> nat \<Rightarrow> time \<Rightarrow> user" where
  "newUser username passwordHash name email i now =
     \<lparr>ID = i, CreatedAt = now, DeletedAt = None, u_Username = username, u_Password = passwordHash,
      u_Avatar = '''', u_Name = name, u_Email = email, u_GroupId = 0, u_RoleID = 0, u_EmailEnabled = True\<rparr>"

lemma newUser_simps [simp]:
  "ID (newUser n h nm em i t) = i" "live (newUser n h nm em i t)" "u_Username (newUser n h nm em i t) = n"
  "u_Password (newUser n h nm em i t) = h" "u_RoleID (newUser n h nm em i t) = 0"
  "u_GroupId (newUser n h nm em i t) = 0"
  by (simp_all add: newUser_def live_def)

definition Register ::
    "'x user_env_scheme \<Rightarrow> string \<Rightarrow> string \<Rightarrow> string \<Rightarrow> string \<Rightarrow> string \<Rightarrow> (kerr, RegisterRes) uact" where
  "Register e inviteCode username password name email =
     bindE (getRegisterInviteCode e) (\<lambda>expected.
     let (ok, message) = validateRegisterInviteCode inviteCode expected in
     if \<not> ok then returnE \<lparr>rr_Success = False, rr_Message = message\<rparr>
     else
       bindE (tryE (q_select e (\<lambda>d. filter (\<lambda>u. live u \<and> u_Username u = username) (rows (users d))))) (\<lambda>r.
       let found = (case r of Inl (er :: gerr) \<Rightarrow> [] | Inr us \<Rightarrow> us) in
       if length found \<ge> 1 then returnE \<lparr>rr_Success = False, rr_Message = ''the user name exists already''\<rparr>
       else bindE (tryE (hashPassword e password)) (\<lambda>h.
         case h of
           Inl _ \<Rightarrow> returnE \<lparr>rr_Success = False, rr_Message = ''password hashing failed''\<rparr>
         | Inr passwordHash \<Rightarrow>
             bindE (tryE (q_create e users users_update (newUser username passwordHash name email))) (\<lambda>c.
             case c of
               Inl er \<Rightarrow> returnE \<lparr>rr_Success = False, rr_Message = err_text er\<rparr>
             | Inr _ \<Rightarrow> returnE \<lparr>rr_Success = True, rr_Message = ''registered''\<rparr>))))"

definition GetRegisterInviteCode :: "'x user_env_scheme \<Rightarrow> ctx \<Rightarrow> (kerr, string) uact" where
  "GetRegisterInviteCode e hdr =
     (if \<not> VerifyAdmin e hdr then failE (Forbidden ''no permission'' ''only admins see the invitation code'')
      else getRegisterInviteCode e)"

definition UpdateRegisterInviteCode :: "'x user_env_scheme \<Rightarrow> ctx \<Rightarrow> string \<Rightarrow> (kerr, string) uact" where
  "UpdateRegisterInviteCode e hdr code =
     (if \<not> VerifyAdmin e hdr then failE (Forbidden ''no permission'' ''only admins change the invitation code'')
      else let inviteCode = TrimSpace code in
        if inviteCode = '''' then failE (BadRequest ''bad parameter'' ''the invitation code is required'')
        else bindE (withErr (\<lambda>er. InternalServer ''save failed'' (err_text er)) (saveRegisterInviteCode e inviteCode)) (\<lambda>_.
          returnE inviteCode))"

record UserOperationLogItem =
  ol_ID :: nat
  ol_Service :: string
  ol_OperatorID :: int
  ol_OperatorRole :: int
  ol_Action :: string
  ol_TargetType :: string
  ol_TargetID :: int
  ol_Detail :: string
  ol_CreatedAt :: int

definition userOperationDetailJSON :: "'x user_env_scheme \<Rightarrow> string \<Rightarrow> string" where
  "userOperationDetailJSON e detail =
     (if TrimSpace detail = '''' then ''{}''
      else if json_valid e detail then detail
      else case json_marshal e [(''raw'', JStr detail)] of Some s \<Rightarrow> s | None \<Rightarrow> '''')"

definition OperationLogs ::
    "'x user_env_scheme \<Rightarrow> ctx \<Rightarrow> int \<Rightarrow> int \<Rightarrow> string \<Rightarrow> (kerr, UserOperationLogItem list \<times> int) uact" where
  "OperationLogs e hdr reqPage reqPageSize reqAction =
     (if \<not> VerifyAdmin e hdr then failE (Forbidden ''no permission'' ''only admins see the operation log'')
      else
        let page = (if reqPage \<le> 0 then 1 else reqPage);
            pageSize = (if reqPageSize \<le> 0 \<or> reqPageSize > 100 then 30 else reqPageSize);
            action = TrimSpace reqAction;
            query = (\<lambda>d. filter (\<lambda>r. action \<noteq> '''' \<longrightarrow> o_Action r = action) (rows (oplogs d))) in
        bindE (withErr (\<lambda>er. InternalServer ''query failed'' (err_text er))
          (q_select e (\<lambda>d. int (length (query d))))) (\<lambda>total.
        bindE (withErr (\<lambda>er. InternalServer ''query failed'' (err_text er))
          (q_select e (\<lambda>d. page_of pageSize (i64 (i64 (page - 1) * pageSize))
             (sort_key (\<lambda>r. - o_CreatedAt r) (query d))))) (\<lambda>rs.
        returnE (map (\<lambda>row. \<lparr>ol_ID = ID row, ol_Service = ''user'', ol_OperatorID = o_OperatorID row,
          ol_OperatorRole = o_OperatorRole row, ol_Action = o_Action row, ol_TargetType = o_TargetType row,
          ol_TargetID = o_TargetID row, ol_Detail = userOperationDetailJSON e (o_Detail row),
          ol_CreatedAt = Unix (o_CreatedAt row)\<rparr>) rs, total))))"

section \<open>Deleting a user\<close>

text \<open>The captaincy a deleted user leaves goes to the oldest other member, if there is one.\<close>

definition successor :: "udb \<Rightarrow> user \<Rightarrow> int" where
  "successor d u = (case first_where (\<lambda>v. live v \<and> u_GroupId v = u_GroupId u \<and> int (ID v) \<noteq> int (ID u)) (users d) of
     None \<Rightarrow> 0 | Some v \<Rightarrow> int (ID v))"

definition hand_over :: "user \<Rightarrow> udb \<Rightarrow> udb" where
  "hand_over u d =
     (if u_GroupId u \<noteq> 0 \<and>
         first_where (\<lambda>g. live g \<and> int (ID g) = u_GroupId u \<and> g_OwnerId g = int (ID u)) (groups d) \<noteq> None
      then groups_update (update_where (\<lambda>g. live g \<and> int (ID g) = u_GroupId u)
             (\<lambda>g. g\<lparr>g_OwnerId := successor d u\<rparr>)) d
      else d)"

definition drop_user :: "int \<Rightarrow> time \<Rightarrow> udb \<Rightarrow> udb" where
  "drop_user uid t = users_update (update_where (\<lambda>v. live v \<and> int (ID v) = uid) (\<lambda>v. v\<lparr>DeletedAt := Some t\<rparr>))"

definition drop_invites :: "int \<Rightarrow> time \<Rightarrow> udb \<Rightarrow> udb" where
  "drop_invites uid t = invites_update (update_where (\<lambda>i. live i \<and> (i_InviterId i = uid \<or> i_InviteeId i = uid))
     (\<lambda>i. i\<lparr>DeletedAt := Some t\<rparr>))"

lemma hand_over_frames [simp]:
  "users (hand_over u d) = users d" "invites (hand_over u d) = invites d"
  "threads (hand_over u d) = threads d" "messages (hand_over u d) = messages d"
  by (simp_all add: hand_over_def)

lemma dal_DeleteUser_succ:
  assumes "dal_DeleteUser e uid w = (Inr (), w')"
  shows "\<exists>u t1 t2. find_user (db w) uid = Some u \<and>
    db w' = drop_user uid t2 (drop_invites uid t1 (hand_over u (db w)))"
proof -
  from assms obtain u where u: "find_user (db w) uid = Some u"
    by (auto simp: dal_DeleteUser_def succ_simps find_user_def)
  then have i: "int (ID u) = uid" by (auto dest: find_user_SomeD)
  show ?thesis
  proof (cases "u_GroupId u = 0")
    case True
    with assms u show ?thesis
      by (fastforce simp: dal_DeleteUser_def succ_simps find_user_def drop_user_def drop_invites_def hand_over_def
          split: if_splits)
  next
    case False
    with assms u i show ?thesis
      by (fastforce simp: dal_DeleteUser_def succ_simps find_user_def drop_user_def drop_invites_def hand_over_def
          successor_def split: if_splits option.splits)
  qed
qed

lemma successor_member:
  assumes "successor d u \<noteq> 0"
  shows "\<exists>v \<in> set (rows (users d)). live v \<and> int (ID v) = successor d u \<and> u_GroupId v = u_GroupId u \<and> ID v \<noteq> ID u"
  using assms by (auto simp: successor_def split: option.splits dest!: first_where_Some)

lemma team_inv_hand_over:
  assumes "team_inv d"
  shows "team_inv (hand_over u d)"
  using assms successor_member [of d u]
  by (auto simp: hand_over_def intro!: team_inv_edit_group)

lemma hand_over_not_owner:
  assumes inv: "team_inv d" and u: "find_user d uid = Some u"
    and g: "g \<in> set (rows (groups (hand_over u d)))" "live g" "g_OwnerId g \<noteq> 0"
  shows "g_OwnerId g \<noteq> uid"
proof
  assume own: "g_OwnerId g = uid"
  from find_user_SomeD [OF u] have id: "int (ID u) = uid" and lu: "u \<in> set (rows (users d))" by auto
  let ?F = "first_where (\<lambda>h. live h \<and> int (ID h) = u_GroupId u \<and> g_OwnerId h = int (ID u)) (groups d)"
  from team_inv_hand_over [OF inv] have "owner_ok (hand_over u d)" by (simp add: team_inv_def)
  from owner_okD [OF this g] own id obtain v where v: "v \<in> set (rows (users d))" "ID v = ID u"
      "u_GroupId v = int (ID g)" by auto
  with lu inv have vu: "v = u" by (auto simp: team_inv_def intro: wf_table_id_inj)
  show False
  proof (cases "u_GroupId u \<noteq> 0 \<and> ?F \<noteq> None")
    case True
    then have "groups (hand_over u d) = update_where (\<lambda>g. live g \<and> int (ID g) = u_GroupId u)
             (\<lambda>g. g\<lparr>g_OwnerId := successor d u\<rparr>) (groups d)" by (simp add: hand_over_def)
    with g(1) obtain h where h: "g = (if live h \<and> int (ID h) = u_GroupId u then h\<lparr>g_OwnerId := successor d u\<rparr> else h)"
      by (auto dest!: update_where_rowD)
    have "live h \<and> int (ID h) = u_GroupId u"
      using g(2) vu v(3) h by (simp add: live_def split: if_splits)
    with h have "g_OwnerId g = successor d u" by simp
    with own id g(3) successor_member [of d u] show False by auto
  next
    case False
    then have "hand_over u d = d" by (auto simp: hand_over_def)
    with g have gd: "g \<in> set (rows (groups d))" by simp
    with inv have "ID g > 0" by (auto simp: team_inv_def wf_table_def)
    with False vu v(3) have "?F = None" by auto
    with gd g(2) own id vu v(3) show False by (auto simp: first_where_None)
  qed
qed

lemma team_inv_drop_user:
  assumes inv: "team_inv d" and no: "\<And>g. g \<in> set (rows (groups d)) \<Longrightarrow> live g \<Longrightarrow> g_OwnerId g \<noteq> 0 \<Longrightarrow> g_OwnerId g \<noteq> uid"
  shows "team_inv (drop_user uid t d)"
proof -
  have "owner_ok (drop_user uid t d)"
    unfolding owner_ok_def
  proof (intro ballI impI)
    fix g assume "g \<in> set (rows (groups (drop_user uid t d)))" and l: "live g \<and> g_OwnerId g \<noteq> 0"
    then have g: "g \<in> set (rows (groups d))" by (simp add: drop_user_def)
    with inv l obtain v where v: "v \<in> set (rows (users d))" "live v" "int (ID v) = g_OwnerId g" "u_GroupId v = int (ID g)"
      by (auto simp: team_inv_def dest: owner_okD)
    with no [OF g] l have "int (ID v) \<noteq> uid" by simp
    with v have "v \<in> set (rows (users (drop_user uid t d)))"
      by (auto simp: drop_user_def row_simps intro!: image_eqI [of _ _ v])
    with v show "\<exists>u \<in> set (rows (users (drop_user uid t d))). live u \<and> int (ID u) = g_OwnerId g \<and> u_GroupId u = int (ID g)"
      by blast
  qed
  with inv show ?thesis by (simp add: team_inv_def drop_user_def wf_update_where)
qed

interpretation delete_user: atomic_act "dal_DeleteUser e uid" for e :: "'x user_env_scheme" and uid
  by unfold_locales (auto simp: dal_DeleteUser_def UpdateCacheDal_err dest: transaction_err)

lemma keeps_dal_DeleteUser [keeps_intros]: "keeps team_inv (dal_DeleteUser e uid)"
proof (rule delete_user.keeps_success)
  fix w a w' assume inv: "team_inv (db w)" and "dal_DeleteUser e uid w = (Inr a, w')"
  then have "dal_DeleteUser e uid w = (Inr (), w')" by simp
  from dal_DeleteUser_succ [OF this] obtain u t1 t2 where u: "find_user (db w) uid = Some u"
    and d: "db w' = drop_user uid t2 (drop_invites uid t1 (hand_over u (db w)))" by blast
  have "team_inv (drop_invites uid t1 (hand_over u (db w)))"
    unfolding drop_invites_def by (intro team_inv_delete_invites team_inv_hand_over inv)
  then show "team_inv (db w')"
    unfolding d using hand_over_not_owner [OF inv u]
    by (intro team_inv_drop_user) (simp_all add: drop_invites_def)
qed

section \<open>Passwords, registration and sign-in\<close>

text \<open>What bcrypt promises: hashing succeeds, its output is recognisable, and it matches the password.\<close>

definition bcrypt_ok :: "'x user_env_scheme \<Rightarrow> bool" where
  "bcrypt_ok e \<longleftrightarrow> (\<forall>k p. \<exists>h. bcrypt_generate e k p = Inr h \<and> isBcryptHash h \<and> bcrypt_compare e h p)"

lemma dal_ChangePassword_err:
  assumes "dal_ChangePassword e uid h w = (Inl er, w')"
  shows "db w' = db w"
proof -
  have id: "users_update (update_where P f) d = d" if "filter P (rows (users d)) = []" for P f d
    using that by (cases d) (simp add: filter_empty_conv)
  from assms show ?thesis
    by (auto simp: dal_ChangePassword_def UpdateCacheDal_err err_simps succ_simps failE_def returnE_def id
        split: if_splits dest: stmt_err(2))
qed

lemma first_where_new:
  "filter P (rows t) = [] \<Longrightarrow> P r \<Longrightarrow> first_where P (insert_row r t) = Some r"
  by (simp add: first_where_def row_simps)

lemma getRegisterInviteCode_db: "getRegisterInviteCode e w = (r, w1) \<Longrightarrow> db w1 = db w"
  by (auto simp: getRegisterInviteCode_def bindE_def tryE_def returnE_def q_first_def stmt_def
      split: sum.splits prod.splits option.splits if_splits)

lemma Login_bcrypt:
  assumes rel: "reliable e" and u: "first_where (\<lambda>u. live u \<and> u_Username u = n) (users (db w)) = Some u"
    and h: "isBcryptHash (u_Password u)" and s: "\<And>k c. \<exists>tok. jwt_sign e k c = Inr tok"
  shows "\<exists>tok w'. Login e key n p w = (Inr (if bcrypt_compare e (u_Password u) p
      then \<lparr>lr_Success = True, lr_Message = ''logged in'', lr_JwtToken = tok\<rparr>
      else login_failed ''wrong user name or password''), w') \<and> db w' = db w"
proof (cases "bcrypt_compare e (u_Password u) p")
  case True
  obtain tok where "jwt_sign e key (login_claims u (clock e (Suc (ticks w))) (clock e (Suc (Suc (ticks w))))) = Inr tok"
    using s by blast
  with True rel u h show ?thesis
    by (simp add: Login_def Let_def bindE_def tryE_def q_first_def stmt_def reliable_def verifyPassword_def
        returnE_def time_now_def)
next
  case False
  with rel u h show ?thesis
    by (simp add: Login_def Let_def bindE_def tryE_def q_first_def stmt_def reliable_def verifyPassword_def returnE_def)
qed

lemma Register_new:
  assumes rel: "reliable e" and b: "bcrypt_ok e"
    and code: "getRegisterInviteCode e w = (Inr c :: kerr + string, w1)" "fst (validateRegisterInviteCode code c)"
    and new: "filter (\<lambda>u. live u \<and> u_Username u = n) (rows (users (db w))) = []"
  shows "\<exists>k h t w'. Register e code n p nm em w = (Inr \<lparr>rr_Success = True, rr_Message = ''registered''\<rparr>, w') \<and>
    bcrypt_generate e k p = Inr h \<and>
    db w' = users_update (insert_row (newUser n h nm em (seq (users (db w))) t)) (db w)"
proof -
  from code(1) have d: "db w1 = db w" by (rule getRegisterInviteCode_db)
  from b obtain h where "bcrypt_generate e (Suc (ticks w1)) p = Inr h" unfolding bcrypt_ok_def by blast
  with rel code new d show ?thesis
    by (auto simp: Register_def Let_def bindE_def tryE_def q_select_def q_create_def stmt_def reliable_def
        hashPassword_def returnE_def split: prod.splits)
qed

end
