(* ===== verification/Message.thy ===== *)
theory Message
  imports Account
begin

text \<open>
  Direct messages: the data access of \<^verbatim>\<open>app/user/internal/data/dal/message.go\<close> and the handlers of
  \<^verbatim>\<open>service/message.go\<close>. A thread is the conversation of two users; it keeps, for each of them,
  the number of messages not read yet. The invariant \<open>msg_inv\<close> says that these denormalised
  counters are right, and the lemmas that every operation keeps it, whatever fails.
\<close>

section \<open>Data access\<close>

record MessageUserView =
  mv_ID :: nat
  mv_Username :: string
  mv_Name :: string
  mv_Avatar :: string
  mv_Deleted :: bool

record ConversationView =
  cv_ThreadId :: nat
  cv_OtherUser :: MessageUserView
  cv_LastMessagePreview :: string
  cv_LastSenderId :: int
  cv_LastSentAt :: int
  cv_UnreadCount :: int

record DirectMessageView =
  dv_ID :: nat
  dv_ThreadId :: nat
  dv_SenderId :: int
  dv_ReceiverId :: int
  dv_Content :: string
  dv_IsRead :: bool
  dv_CreatedAt :: int

definition messagePair :: "int \<Rightarrow> int \<Rightarrow> int \<times> int \<times> string" where
  "messagePair userId otherId =
     (if userId < otherId then (userId, otherId, fmt_d userId @ '':'' @ fmt_d otherId)
      else (otherId, userId, fmt_d otherId @ '':'' @ fmt_d userId))"

definition user_view :: "user \<Rightarrow> MessageUserView" where
  "user_view u = \<lparr>mv_ID = ID u, mv_Username = u_Username u, mv_Name = u_Name u, mv_Avatar = u_Avatar u,
     mv_Deleted = (DeletedAt u \<noteq> None)\<rparr>"

definition GetUserView :: "'x user_env_scheme \<Rightarrow> int \<Rightarrow> bool \<Rightarrow> (gerr, MessageUserView) uact" where
  "GetUserView e userId includeDeleted =
     bindE (withErr (\<lambda>er. if er = ErrRecordNotFound then Errorf ''no such user'' else er)
       (q_first e users (\<lambda>u. (includeDeleted \<or> live u) \<and> int (ID u) = userId))) (\<lambda>u.
     returnE (user_view u))"

definition messagePreview :: "string \<Rightarrow> string" where
  "messagePreview content0 =
     (let content = TrimSpace content0 in
      if rune_count content \<le> 80 then content
      else concat (map reencode (take 80 (chunks content))) @ ''...'')"

definition messageView :: "dm_message \<Rightarrow> DirectMessageView" where
  "messageView m = \<lparr>dv_ID = ID m, dv_ThreadId = m_ThreadId m, dv_SenderId = m_SenderId m,
     dv_ReceiverId = m_ReceiverId m, dv_Content = m_Content m, dv_IsRead = m_IsRead m,
     dv_CreatedAt = Unix (CreatedAt m)\<rparr>"

abbreviation "thread_first e P \<equiv> q_first e threads (\<lambda>t. live t \<and> P t)"
abbreviation "thread_update e P f \<equiv> q_update e threads threads_update (\<lambda>t. live t \<and> P t) f"
abbreviation "message_update e P f \<equiv> q_update e messages messages_update (\<lambda>m. live m \<and> P m) f"

text \<open>The rows a new thread and a new message start as.\<close>

definition thread_row :: "string \<Rightarrow> int \<Rightarrow> int \<Rightarrow> time \<Rightarrow> nat \<Rightarrow> time \<Rightarrow> dm_thread" where
  "thread_row pairKey userA userB sentAt i now =
     \<lparr>ID = i, CreatedAt = now, DeletedAt = None, t_PairKey = pairKey, t_UserAId = userA,
      t_UserBId = userB, t_LastMessageId = 0, t_LastMessagePreview = '''', t_LastSenderId = 0,
      t_LastSentAt = sentAt, t_UnreadA = 0, t_UnreadB = 0\<rparr>"

definition message_row :: "nat \<Rightarrow> int \<Rightarrow> int \<Rightarrow> string \<Rightarrow> nat \<Rightarrow> time \<Rightarrow> dm_message" where
  "message_row threadId senderId receiverId content i now =
     \<lparr>ID = i, CreatedAt = now, DeletedAt = None, m_ThreadId = threadId, m_SenderId = senderId,
      m_ReceiverId = receiverId, m_Content = content, m_IsRead = False, m_ReadAt = None\<rparr>"

definition thread_updates :: "int \<Rightarrow> int \<Rightarrow> string \<Rightarrow> dm_thread \<Rightarrow> dm_message \<Rightarrow> dm_thread \<Rightarrow> dm_thread" where
  "thread_updates senderId receiverId content thread created t =
     (let t1 = t\<lparr>t_LastMessageId := ID created, t_LastMessagePreview := messagePreview content,
                 t_LastSenderId := senderId, t_LastSentAt := CreatedAt created\<rparr>
      in if receiverId = t_UserAId thread then t1\<lparr>t_UnreadA := t_UnreadA t1 + 1\<rparr>
         else t1\<lparr>t_UnreadB := t_UnreadB t1 + 1\<rparr>)"

definition dal_Send :: "'x user_env_scheme \<Rightarrow> int \<Rightarrow> int \<Rightarrow> string \<Rightarrow> (gerr, DirectMessageView) uact" where
  "dal_Send e senderId receiverId content =
     bindE (GetUserView e receiverId False) (\<lambda>_.
     case messagePair senderId receiverId of (userA, userB, pairKey) \<Rightarrow>
     bindE (transaction e
       (bindE (tryE (thread_first e (\<lambda>t. t_PairKey t = pairKey))) (\<lambda>r.
        bindE (case r of
            Inr t \<Rightarrow> returnE t
          | Inl er \<Rightarrow>
              if er = ErrRecordNotFound then
                bindE (time_now e) (\<lambda>sentAt.
                withErr (Wrapf ''create thread failed'') (q_create e threads threads_update 
                  (thread_row pairKey userA userB sentAt)))
              else failE (Wrapf ''query thread failed'' er)) (\<lambda>thread.
        bindE (withErr (Wrapf ''send failed'') (q_create e messages messages_update
          (message_row (ID thread) senderId receiverId content))) (\<lambda>created.
        bindE (withErr (Wrapf ''update thread failed'') (thread_update e (\<lambda>t. ID t = ID thread)
          (\<lambda>now. thread_updates senderId receiverId content thread created))) (\<lambda>_.
        returnE created)))))) (\<lambda>created.
     returnE (messageView created)))"

definition userViewMap :: "'x user_env_scheme \<Rightarrow> int list \<Rightarrow> (gerr, int \<rightharpoonup> MessageUserView) uact" where
  "userViewMap e ids =
     (if ids = [] then returnE Map.empty
      else bindE (q_select e (\<lambda>d. filter (\<lambda>u. int (ID u) \<in> set ids) (rows (users d)))) (\<lambda>us.
        returnE (fold (\<lambda>u m. m(int64_of (ID u) \<mapsto> user_view u)) us Map.empty)))"

definition fallbackUserView :: "int \<Rightarrow> MessageUserView" where
  "fallbackUserView userId = \<lparr>mv_ID = u64 userId, mv_Username = '''', mv_Name = ''deleted user'',
     mv_Avatar = '''', mv_Deleted = True\<rparr>"

definition ListConversations ::
    "'x user_env_scheme \<Rightarrow> int \<Rightarrow> int \<Rightarrow> int \<Rightarrow> (gerr, ConversationView list \<times> int) uact" where
  "ListConversations e userId page pageSize =
     bindE (q_select e (\<lambda>d. int (length (filter (\<lambda>t. live t \<and> (t_UserAId t = userId \<or> t_UserBId t = userId))
        (rows (threads d)))))) (\<lambda>total.
     bindE (q_select e (\<lambda>d. page_of pageSize (i64 (i64 (page - 1) * pageSize))
        (sort_key (\<lambda>t. - t_LastSentAt t) (rev (sort_key ID
          (filter (\<lambda>t. live t \<and> (t_UserAId t = userId \<or> t_UserBId t = userId)) (rows (threads d)))))))) (\<lambda>ts.
     bindE (userViewMap e (map (\<lambda>t. if t_UserAId t = userId then t_UserBId t else t_UserAId t) ts)) (\<lambda>us.
     returnE (map (\<lambda>t.
       let (otherId, unread) = (if t_UserAId t = userId then (t_UserBId t, t_UnreadA t) else (t_UserAId t, t_UnreadB t))
       in \<lparr>cv_ThreadId = ID t,
           cv_OtherUser = (case us otherId of Some u \<Rightarrow> u | None \<Rightarrow> fallbackUserView otherId),
           cv_LastMessagePreview = t_LastMessagePreview t, cv_LastSenderId = t_LastSenderId t,
           cv_LastSentAt = Unix (t_LastSentAt t), cv_UnreadCount = unread\<rparr>) ts, total))))"

definition ListThreadMessages ::
    "'x user_env_scheme \<Rightarrow> int \<Rightarrow> int \<Rightarrow> int \<Rightarrow> int \<Rightarrow>
     (gerr, DirectMessageView list \<times> int \<times> MessageUserView) uact" where
  "ListThreadMessages e userId otherId page pageSize =
     (let pairKey = snd (snd (messagePair userId otherId)) in
      bindE (tryE (thread_first e (\<lambda>t. t_PairKey t = pairKey \<and> (t_UserAId t = userId \<or> t_UserBId t = userId)))) (\<lambda>r.
      case r of
        Inl er \<Rightarrow>
          if er = ErrRecordNotFound then bindE (GetUserView e otherId True) (\<lambda>other. returnE ([], 0, other))
          else failE er
      | Inr thread \<Rightarrow>
          bindE (q_select e (\<lambda>d. int (length (filter (\<lambda>m. live m \<and> m_ThreadId m = ID thread)
             (rows (messages d)))))) (\<lambda>total.
          bindE (q_select e (\<lambda>d. page_of pageSize (i64 (i64 (page - 1) * pageSize))
             (rev (sort_key ID (filter (\<lambda>m. live m \<and> m_ThreadId m = ID thread) (rows (messages d))))))) (\<lambda>ms.
          bindE (tryE (GetUserView e otherId True)) (\<lambda>ov.
          let other = (case ov of Inr v \<Rightarrow> v | Inl (er :: gerr) \<Rightarrow> fallbackUserView otherId) in
          returnE (map messageView (sort_key ID ms), total, other))))))"

definition MarkThreadRead :: "'x user_env_scheme \<Rightarrow> int \<Rightarrow> int \<Rightarrow> (gerr, unit) uact" where
  "MarkThreadRead e userId otherId =
     (let pairKey = snd (snd (messagePair userId otherId)) in
      transaction e
        (bindE (tryE (thread_first e (\<lambda>t. t_PairKey t = pairKey \<and> (t_UserAId t = userId \<or> t_UserBId t = userId)))) (\<lambda>r.
         case r of
           Inl er \<Rightarrow> if er = ErrRecordNotFound then returnE () else failE er
         | Inr thread \<Rightarrow>
             bindE (time_now e) (\<lambda>readAt.
             bindE (message_update e (\<lambda>m. m_ThreadId m = ID thread \<and> m_ReceiverId m = userId \<and> m_IsRead m = False)
               (\<lambda>now m. m\<lparr>m_IsRead := True, m_ReadAt := Some readAt\<rparr>)) (\<lambda>_.
             bindE (thread_update e (\<lambda>t. ID t = ID thread)
               (\<lambda>now t. if t_UserAId thread = userId then t\<lparr>t_UnreadA := 0\<rparr> else t\<lparr>t_UnreadB := 0\<rparr>)) (\<lambda>_.
             returnE ()))))))"

definition dal_UnreadCount :: "'x user_env_scheme \<Rightarrow> int \<Rightarrow> (gerr, int) uact" where
  "dal_UnreadCount e userId =
     bindE (q_select e (\<lambda>d. \<Sum>t\<leftarrow>filter (\<lambda>t. live t \<and> t_UserAId t = userId) (rows (threads d)). t_UnreadA t)) (\<lambda>sumA.
     bindE (q_select e (\<lambda>d. \<Sum>t\<leftarrow>filter (\<lambda>t. live t \<and> t_UserBId t = userId) (rows (threads d)). t_UnreadB t)) (\<lambda>sumB.
     returnE (i64 (sumA + sumB))))"

definition ListActiveUserIds :: "'x user_env_scheme \<Rightarrow> (gerr, int list) uact" where
  "ListActiveUserIds e = q_select e (\<lambda>d. map (\<lambda>u. int (ID u)) (sort_key ID (filter live (rows (users d)))))"

section \<open>Handlers\<close>

record MessageUserReply =
  mr_UserId :: int
  mr_Username :: string
  mr_Name :: string
  mr_Avatar :: string
  mr_Deleted :: bool

record ConversationItem =
  ci_ThreadId :: nat
  ci_OtherUser :: MessageUserReply
  ci_LastMessagePreview :: string
  ci_LastSenderId :: int
  ci_LastSentAt :: int
  ci_UnreadCount :: int

record ConversationListReply =
  cl_List :: "ConversationItem list"
  cl_Total :: int
  cl_Page :: int
  cl_PageSize :: int
  cl_UnreadCount :: int

record ThreadMessagesReply =
  tm_OtherUser :: MessageUserReply
  tm_List :: "DirectMessageView list"
  tm_Total :: int
  tm_Page :: int
  tm_PageSize :: int

definition currentUserId :: "'x user_env_scheme \<Rightarrow> ctx \<Rightarrow> (kerr, int) uact" where
  "currentUserId e hdr = bindE (loginE e hdr) (\<lambda>cur. returnE (int64_of (UserID cur)))"

definition normalizePage :: "int \<Rightarrow> int \<Rightarrow> int \<times> int" where
  "normalizePage page0 pageSize0 =
     (let page = (if page0 \<le> 0 then 1 else page0);
          pageSize1 = (if pageSize0 \<le> 0 then 20 else pageSize0);
          pageSize = (if pageSize1 > 50 then 50 else pageSize1)
      in (page, pageSize))"

definition normalizeMessageContent :: "string \<Rightarrow> kerr + string" where
  "normalizeMessageContent content0 =
     (let content = TrimSpace content0 in
      if content = '''' then Inl (BadRequest ''bad parameter'' ''the message is empty'')
      else if rune_count content > 1000 then Inl (BadRequest ''bad parameter'' ''the message exceeds 1000 characters'')
      else Inr content)"

definition replyUser :: "MessageUserView \<Rightarrow> MessageUserReply" where
  "replyUser v = \<lparr>mr_UserId = int64_of (mv_ID v), mr_Username = mv_Username v,
     mr_Name = (if mv_Deleted v \<or> mv_Name v = '''' then ''deleted user'' else mv_Name v),
     mr_Avatar = mv_Avatar v, mr_Deleted = mv_Deleted v\<rparr>"

definition liftE :: "'e + 'a \<Rightarrow> ('db, 'e, 'a) act" where
  "liftE r w = (r, w)"

definition Conversations :: "'x user_env_scheme \<Rightarrow> ctx \<Rightarrow> int \<Rightarrow> int \<Rightarrow> (kerr, ConversationListReply) uact" where
  "Conversations e hdr reqPage reqPageSize =
     bindE (currentUserId e hdr) (\<lambda>userId.
     case normalizePage reqPage reqPageSize of (page, pageSize) \<Rightarrow>
     bindE (withErr (\<lambda>er. InternalServer ''query failed'' (err_text er))
       (ListConversations e userId page pageSize)) (\<lambda>(rs, total).
     bindE (withErr (\<lambda>er. InternalServer ''query failed'' (err_text er)) (dal_UnreadCount e userId)) (\<lambda>unread.
     returnE \<lparr>cl_List = map (\<lambda>row. \<lparr>ci_ThreadId = cv_ThreadId row, ci_OtherUser = replyUser (cv_OtherUser row),
         ci_LastMessagePreview = cv_LastMessagePreview row, ci_LastSenderId = cv_LastSenderId row,
         ci_LastSentAt = cv_LastSentAt row, ci_UnreadCount = cv_UnreadCount row\<rparr>) rs,
       cl_Total = total, cl_Page = page, cl_PageSize = pageSize, cl_UnreadCount = unread\<rparr>)))"

definition Thread :: "'x user_env_scheme \<Rightarrow> ctx \<Rightarrow> int \<Rightarrow> int \<Rightarrow> int \<Rightarrow> (kerr, ThreadMessagesReply) uact" where
  "Thread e hdr reqUserId reqPage reqPageSize =
     bindE (currentUserId e hdr) (\<lambda>userId.
     if reqUserId = 0 then failE (BadRequest ''bad parameter'' ''choose a user'')
     else if reqUserId = userId then failE (BadRequest ''bad parameter'' ''no messages with yourself'')
     else case normalizePage reqPage reqPageSize of (page, pageSize) \<Rightarrow>
       bindE (withErr (\<lambda>er. BadRequest ''query failed'' (err_text er))
         (ListThreadMessages e userId reqUserId page pageSize)) (\<lambda>(rs, total, other).
       returnE \<lparr>tm_OtherUser = replyUser other, tm_List = rs, tm_Total = total, tm_Page = page,
         tm_PageSize = pageSize\<rparr>))"

definition Send :: "'x user_env_scheme \<Rightarrow> ctx \<Rightarrow> int \<Rightarrow> string \<Rightarrow> (kerr, DirectMessageView) uact" where
  "Send e hdr receiverId reqContent =
     bindE (currentUserId e hdr) (\<lambda>userId.
     if receiverId = 0 then failE (BadRequest ''bad parameter'' ''choose a receiver'')
     else if receiverId = userId then failE (BadRequest ''bad parameter'' ''no messages to yourself'')
     else bindE (liftE (normalizeMessageContent reqContent)) (\<lambda>content.
       withErr (\<lambda>er. BadRequest ''send failed'' (err_text er)) (dal_Send e userId receiverId content)))"

definition MarkRead :: "'x user_env_scheme \<Rightarrow> ctx \<Rightarrow> int \<Rightarrow> (kerr, unit) uact" where
  "MarkRead e hdr reqUserId =
     bindE (currentUserId e hdr) (\<lambda>userId.
     if reqUserId = 0 then failE (BadRequest ''bad parameter'' ''choose a user'')
     else if reqUserId = userId then failE (BadRequest ''bad parameter'' ''no messages with yourself'')
     else withErr (\<lambda>er. InternalServer ''mark failed'' (err_text er)) (MarkThreadRead e userId reqUserId))"

definition UnreadCount :: "'x user_env_scheme \<Rightarrow> ctx \<Rightarrow> (kerr, int) uact" where
  "UnreadCount e hdr =
     bindE (currentUserId e hdr) (\<lambda>userId.
     withErr (\<lambda>er. InternalServer ''query failed'' (err_text er)) (dal_UnreadCount e userId))"

text \<open>The loop of \<^verbatim>\<open>Broadcast\<close>; \<open>sent\<close> counts the messages sent so far.\<close>

fun broadcast_loop :: "'x user_env_scheme \<Rightarrow> int \<Rightarrow> string \<Rightarrow> int list \<Rightarrow> int \<Rightarrow> (kerr, int) uact" where
  "broadcast_loop e senderId content [] sent = returnE sent"
| "broadcast_loop e senderId content (receiverId # ids) sent =
     (if receiverId = senderId then broadcast_loop e senderId content ids sent
      else bindE (withErr (\<lambda>er. InternalServer ''broadcast failed'' (err_text er))
             (dal_Send e senderId receiverId content)) (\<lambda>_.
           broadcast_loop e senderId content ids (sent + 1)))"

definition Broadcast :: "'x user_env_scheme \<Rightarrow> ctx \<Rightarrow> string \<Rightarrow> (kerr, int) uact" where
  "Broadcast e hdr reqContent =
     bindE (loginE e hdr) (\<lambda>cur.
     bindE (withErr (\<lambda>_. Forbidden ''no permission'' ''no such user'') (GetById e (int64_of (UserID cur)))) (\<lambda>sender.
     if \<not> canBroadcastMessage (u_RoleID sender) then failE (Forbidden ''no permission'' ''only admins and coaches broadcast'')
     else bindE (liftE (normalizeMessageContent reqContent)) (\<lambda>content.
       bindE (withErr (\<lambda>er. InternalServer ''query failed'' (err_text er)) (ListActiveUserIds e)) (\<lambda>ids.
       bindE (broadcast_loop e (int64_of (UserID cur)) content ids 0) (\<lambda>sent.
       bindE (recordUserOperation e hdr ''message.broadcast'' ''message'' 0 [(''sent'', JInt sent)]) (\<lambda>_.
       returnE sent))))))"

section \<open>The invariant of the message tables\<close>

definition unread_in :: "udb \<Rightarrow> nat \<Rightarrow> int \<Rightarrow> nat" where
  "unread_in d tid uid = length (filter (\<lambda>m. live m \<and> \<not> m_IsRead m \<and> m_ThreadId m = tid \<and> m_ReceiverId m = uid)
     (rows (messages d)))"

definition unread_of :: "udb \<Rightarrow> int \<Rightarrow> nat" where
  "unread_of d uid = length (filter (\<lambda>m. live m \<and> \<not> m_IsRead m \<and> m_ReceiverId m = uid) (rows (messages d)))"

definition thread_ok :: "udb \<Rightarrow> dm_thread \<Rightarrow> bool" where
  "thread_ok d t \<longleftrightarrow> live t \<and> t_UserAId t < t_UserBId t \<and>
     t_PairKey t = fmt_d (t_UserAId t) @ '':'' @ fmt_d (t_UserBId t) \<and>
     t_UnreadA t = int (unread_in d (ID t) (t_UserAId t)) \<and>
     t_UnreadB t = int (unread_in d (ID t) (t_UserBId t))"

definition message_ok :: "udb \<Rightarrow> dm_message \<Rightarrow> bool" where
  "message_ok d m \<longleftrightarrow> live m \<and> (\<exists>t \<in> set (rows (threads d)). ID t = m_ThreadId m \<and>
     (m_SenderId m = t_UserAId t \<and> m_ReceiverId m = t_UserBId t \<or>
      m_SenderId m = t_UserBId t \<and> m_ReceiverId m = t_UserAId t))"

definition msg_inv :: "udb \<Rightarrow> bool" where
  "msg_inv d \<longleftrightarrow> wf_table (threads d) \<and> wf_table (messages d) \<and>
     (\<forall>t \<in> set (rows (threads d)). thread_ok d t) \<and>
     (\<forall>t \<in> set (rows (threads d)). \<forall>s \<in> set (rows (threads d)). t_PairKey t = t_PairKey s \<longrightarrow> ID t = ID s) \<and>
     (\<forall>m \<in> set (rows (messages d)). message_ok d m)"

lemma msg_invD:
  assumes "msg_inv d"
  shows "wf_table (threads d)" "wf_table (messages d)"
    and "t \<in> set (rows (threads d)) \<Longrightarrow> thread_ok d t"
    and "t \<in> set (rows (threads d)) \<Longrightarrow> s \<in> set (rows (threads d)) \<Longrightarrow> t_PairKey t = t_PairKey s \<Longrightarrow> ID t = ID s"
    and "m \<in> set (rows (messages d)) \<Longrightarrow> message_ok d m"
  using assms unfolding msg_inv_def by blast+

lemma msg_invI:
  assumes "wf_table (threads d)" "wf_table (messages d)"
    and "\<And>t. t \<in> set (rows (threads d)) \<Longrightarrow> thread_ok d t"
    and "\<And>t s. t \<in> set (rows (threads d)) \<Longrightarrow> s \<in> set (rows (threads d)) \<Longrightarrow> t_PairKey t = t_PairKey s \<Longrightarrow> ID t = ID s"
    and "\<And>m. m \<in> set (rows (messages d)) \<Longrightarrow> message_ok d m"
  shows "msg_inv d"
  using assms unfolding msg_inv_def by blast

lemma msg_inv_frame:
  assumes "threads d' = threads d" "messages d' = messages d"
  shows "msg_inv d' = msg_inv d"
  using assms by (simp add: msg_inv_def thread_ok_def message_ok_def unread_in_def)

lemma msg_inv_frames [simp]:
  "msg_inv (users_update fu d) = msg_inv d" "msg_inv (groups_update fg d) = msg_inv d"
  "msg_inv (invites_update fi d) = msg_inv d" "msg_inv (oplogs_update fo d) = msg_inv d"
  "msg_inv (configs_update fc d) = msg_inv d"
  by (rule msg_inv_frame; simp)+

section \<open>What each operation did when it returned\<close>

lemma messagePair_sym: "messagePair a b = messagePair b a"
  by (auto simp: messagePair_def)

lemma messagePair_key:
  "messagePair a b = (min a b, max a b, fmt_d (min a b) @ '':'' @ fmt_d (max a b))"
  by (auto simp: messagePair_def min_def max_def)

lemma split_at_eq:
  "c \<notin> set a \<Longrightarrow> c \<notin> set a' \<Longrightarrow> a @ c # b = a' @ c # b' \<Longrightarrow> a = a' \<and> b = b'"
proof (induction a arbitrary: a')
  case Nil
  then show ?case by (cases a') auto
next
  case (Cons x a)
  then show ?case by (cases a') auto
qed

lemma pair_key_inj:
  "fmt_d a @ '':'' @ fmt_d b = fmt_d c @ '':'' @ fmt_d d \<longleftrightarrow> a = c \<and> b = d"
  using split_at_eq [of "CHR '':''" "fmt_d a" "fmt_d c" "fmt_d b" "fmt_d d"]
  by (auto simp: fmt_d_no_colon dest: fmt_d_inj)

definition deliver :: "dm_thread \<Rightarrow> dm_message \<Rightarrow> udb \<Rightarrow> udb" where
  "deliver thread m d = threads_update (update_where (\<lambda>t. live t \<and> ID t = ID thread) 
       (thread_updates (m_SenderId m) (m_ReceiverId m) (m_Content m) thread m))
     (messages_update (insert_row m) d)"

definition thread_of :: "udb \<Rightarrow> int \<Rightarrow> int \<Rightarrow> dm_thread option" where
  "thread_of d a b = first_where (\<lambda>t. live t \<and> t_PairKey t = snd (snd (messagePair a b))) (threads d)"

lemma GetUserView_succ:
  "GetUserView e uid False w = (Inr v, w') \<longleftrightarrow>
     (\<exists>u. find_user (db w) uid = Some u \<and> v = user_view u) \<and> \<not> stmt_fails e (ticks w) \<and> w' = tick w"
  by (auto simp: GetUserView_def succ_simps find_user_def)

definition the_thread :: "udb \<Rightarrow> int \<Rightarrow> int \<Rightarrow> time \<Rightarrow> time \<Rightarrow> dm_thread" where
  "the_thread d a b t1 t2 = (case thread_of d a b of
     Some t \<Rightarrow> t
   | None \<Rightarrow> thread_row (snd (snd (messagePair a b))) (min a b) (max a b) t1 (seq (threads d)) t2)"

definition with_thread :: "udb \<Rightarrow> int \<Rightarrow> int \<Rightarrow> time \<Rightarrow> time \<Rightarrow> udb" where
  "with_thread d a b t1 t2 = (case thread_of d a b of
     Some t \<Rightarrow> d | None \<Rightarrow> threads_update (insert_row (the_thread d a b t1 t2)) d)"

definition sent_message :: "udb \<Rightarrow> int \<Rightarrow> int \<Rightarrow> string \<Rightarrow> time \<Rightarrow> time \<Rightarrow> time \<Rightarrow> dm_message" where
  "sent_message d a b content t1 t2 t3 =
     message_row (ID (the_thread d a b t1 t2)) a b content (seq (messages d)) t3"

lemma message_row_simps [simp]:
  "ID (message_row tid a b c i t) = i" "live (message_row tid a b c i t)" "m_ThreadId (message_row tid a b c i t) = tid"
  "m_SenderId (message_row tid a b c i t) = a" "m_ReceiverId (message_row tid a b c i t) = b"
  "m_Content (message_row tid a b c i t) = c" "m_IsRead (message_row tid a b c i t) = False"
  "CreatedAt (message_row tid a b c i t) = t"
  by (simp_all add: message_row_def live_def)

lemma thread_row_simps [simp]:
  "ID (thread_row k a b s i t) = i" "live (thread_row k a b s i t)" "t_PairKey (thread_row k a b s i t) = k"
  "t_UserAId (thread_row k a b s i t) = a" "t_UserBId (thread_row k a b s i t) = b"
  "t_UnreadA (thread_row k a b s i t) = 0" "t_UnreadB (thread_row k a b s i t) = 0"
  by (simp_all add: thread_row_def live_def)

lemma dal_Send_succ:
  assumes "dal_Send e a b content w = (Inr v, w')"
  shows "\<exists>u t1 t2 t3. find_user (db w) b = Some u \<and>
    v = messageView (sent_message (db w) a b content t1 t2 t3) \<and>
    db w' = deliver (the_thread (db w) a b t1 t2) (sent_message (db w) a b content t1 t2 t3) (with_thread (db w) a b t1 t2)"
  using assms
  by (cases "thread_of (db w) a b")
    (fastforce simp: dal_Send_def succ_simps GetUserView_succ thread_of_def messagePair_key the_thread_def
      with_thread_def sent_message_def deliver_def Let_def split: if_splits)+

section \<open>Sending keeps the invariant\<close>

lemma unread_frames [simp]:
  "unread_in (threads_update f d) = unread_in d" "unread_of (threads_update f d) = unread_of d"
  "unread_of (oplogs_update g d) = unread_of d"
  by (simp_all add: unread_in_def unread_of_def fun_eq_iff)

lemma unread_insert:
  "unread_in (messages_update (insert_row m) d) tid uid =
     unread_in d tid uid + (if live m \<and> \<not> m_IsRead m \<and> m_ThreadId m = tid \<and> m_ReceiverId m = uid then 1 else 0)"
  "unread_of (messages_update (insert_row m) d) uid =
     unread_of d uid + (if live m \<and> \<not> m_IsRead m \<and> m_ReceiverId m = uid then 1 else 0)"
  by (simp_all add: unread_in_def unread_of_def row_simps)

lemma message_thread_exists:
  "msg_inv d \<Longrightarrow> m \<in> set (rows (messages d)) \<Longrightarrow> \<exists>t \<in> set (rows (threads d)). ID t = m_ThreadId m"
  using msg_invD(5) [of d m] unfolding message_ok_def by blast

lemma unread_in_new:
  assumes "msg_inv d" and "seq (threads d) \<le> tid"
  shows "unread_in d tid uid = 0"
proof -
  have "m_ThreadId m < seq (threads d)" if "m \<in> set (rows (messages d))" for m
    using message_thread_exists [OF assms(1) that] msg_invD(1) [OF assms(1)] unfolding wf_table_def by metis
  with assms(2) show ?thesis by (force simp: unread_in_def filter_empty_conv)
qed

lemma thread_of_Some:
  assumes "msg_inv d" and "thread_of d a b = Some t"
  shows "t \<in> set (rows (threads d)) \<and> live t \<and> t_UserAId t = min a b \<and> t_UserBId t = max a b"
proof -
  from assms(2) have t: "t \<in> set (rows (threads d))" "live t"
      "t_PairKey t = fmt_d (min a b) @ '':'' @ fmt_d (max a b)"
    using first_where_Some [OF assms(2) [unfolded thread_of_def messagePair_key]] by simp_all
  with msg_invD(3) [OF assms(1) t(1)] show ?thesis
    unfolding thread_ok_def by (metis pair_key_inj)
qed

lemma the_thread_props:
  assumes "msg_inv d"
  shows "the_thread d a b t1 t2 \<in> set (rows (threads (with_thread d a b t1 t2)))"
    and "t_UserAId (the_thread d a b t1 t2) = min a b" and "t_UserBId (the_thread d a b t1 t2) = max a b"
  using thread_of_Some [OF assms, of a b]
  by (auto simp: the_thread_def with_thread_def row_simps split: option.splits)

lemma with_thread_frames [simp]:
  "messages (with_thread d a b t1 t2) = messages d" "users (with_thread d a b t1 t2) = users d"
  "unread_in (with_thread d a b t1 t2) = unread_in d" "unread_of (with_thread d a b t1 t2) = unread_of d"
  by (simp_all add: with_thread_def split: option.splits)

lemma msg_inv_with_thread:
  assumes inv: "msg_inv d" and "a \<noteq> b"
  shows "msg_inv (with_thread d a b t1 t2)"
proof (cases "thread_of d a b")
  case (Some t)
  with inv show ?thesis by (simp add: with_thread_def)
next
  case None
  let ?t = "the_thread d a b t1 t2" and ?d = "with_thread d a b t1 t2"
  have d: "?d = threads_update (insert_row ?t) d"
    and key: "t_PairKey ?t = snd (snd (messagePair a b))" "ID ?t = seq (threads d)" "live ?t"
      "t_UserAId ?t = min a b" "t_UserBId ?t = max a b" "t_UnreadA ?t = 0" "t_UnreadB ?t = 0"
    using None by (simp_all add: with_thread_def the_thread_def)
  have new: "t_PairKey s \<noteq> t_PairKey ?t" if "s \<in> set (rows (threads d))" for s
    using None that msg_invD(3) [OF inv that] unfolding thread_of_def first_where_None key thread_ok_def by blast
  have "thread_ok ?d ?t"
    using assms unread_in_new [OF inv] by (simp add: thread_ok_def key messagePair_key)
  moreover have "thread_ok ?d s" if "s \<in> set (rows (threads d))" for s
    using msg_invD(3) [OF inv that] by (simp add: thread_ok_def)
  ultimately show ?thesis
  proof (intro msg_invI)
    show "wf_table (threads ?d)" "wf_table (messages ?d)"
      using msg_invD(1,2) [OF inv] by (simp_all add: d wf_insert_row key(2))
    show "thread_ok ?d t" if "t \<in> set (rows (threads ?d))" for t
      using that \<open>thread_ok ?d ?t\<close> \<open>\<And>s. s \<in> set (rows (threads d)) \<Longrightarrow> thread_ok ?d s\<close> by (auto simp: d row_simps)
    show "ID t = ID s" if "t \<in> set (rows (threads ?d))" "s \<in> set (rows (threads ?d))" "t_PairKey t = t_PairKey s" for t s
      using that new msg_invD(4) [OF inv, of t s] by (simp add: d row_simps) metis
    show "message_ok ?d m" if "m \<in> set (rows (messages ?d))" for m
      using that msg_invD(5) [OF inv, of m] by (simp add: message_ok_def d row_simps)
  qed
qed

lemma thread_updates_simps [simp]:
  "ID (thread_updates a b c th m t) = ID t" "live (thread_updates a b c th m t) = live t"
  "t_PairKey (thread_updates a b c th m t) = t_PairKey t"
  "t_UserAId (thread_updates a b c th m t) = t_UserAId t" "t_UserBId (thread_updates a b c th m t) = t_UserBId t"
  "t_UnreadA (thread_updates a b c th m t) = t_UnreadA t + (if b = t_UserAId th then 1 else 0)"
  "t_UnreadB (thread_updates a b c th m t) = t_UnreadB t + (if b = t_UserAId th then 0 else 1)"
  by (simp_all add: thread_updates_def Let_def live_def)

lemma msg_inv_deliver:
  assumes inv: "msg_inv d" and th: "thread \<in> set (rows (threads d))" and ne: "a \<noteq> b"
    and ab: "t_UserAId thread = min a b" "t_UserBId thread = max a b"
    and m: "m = message_row (ID thread) a b c (seq (messages d)) t3"
  shows "msg_inv (deliver thread m d)"
proof -
  let ?f = "thread_updates a b c thread m" and ?d = "deliver thread m d"
  have rows: "rows (threads ?d) = map (\<lambda>t. if live t \<and> ID t = ID thread then ?f t else t) (rows (threads d))"
    by (simp add: deliver_def row_simps m)
  have same: "t = thread" if "t \<in> set (rows (threads d))" "ID t = ID thread" for t
    using wf_table_id_inj [OF msg_invD(1) [OF inv] that(1) th that(2)] .
  have unread: "unread_in ?d tid uid = unread_in d tid uid + (if tid = ID thread \<and> uid = b then 1 else 0)" for tid uid
    by (auto simp: deliver_def unread_insert m)
  have upd: "(if live t \<and> ID t = ID thread then ?f t else t) = (if ID t = ID thread then ?f t else t)"
    if "t \<in> set (rows (threads d))" for t
    using msg_invD(3) [OF inv that] by (simp add: thread_ok_def)
  show ?thesis
  proof (rule msg_invI)
    show "wf_table (threads ?d)" "wf_table (messages ?d)"
      using msg_invD(1,2) [OF inv] by (simp_all add: deliver_def wf_update_where wf_insert_row m)
  next
    fix t assume "t \<in> set (rows (threads ?d))"
    then obtain s where s: "s \<in> set (rows (threads d))" "t = (if ID s = ID thread then ?f s else s)"
      by (auto simp: rows upd)
    show "thread_ok ?d t"
    proof (cases "ID s = ID thread")
      case True
      with same s(1) have "s = thread" by blast
      with True s msg_invD(3) [OF inv th] ab ne show ?thesis
        by (simp add: thread_ok_def unread min_def max_def split: if_splits)
    next
      case False
      with s msg_invD(3) [OF inv s(1)] show ?thesis by (simp add: thread_ok_def unread)
    qed
  next
    fix t s assume "t \<in> set (rows (threads ?d))" "s \<in> set (rows (threads ?d))" "t_PairKey t = t_PairKey s"
    then obtain t0 s0 where "t0 \<in> set (rows (threads d))" "s0 \<in> set (rows (threads d))"
        "ID t = ID t0" "ID s = ID s0" "t_PairKey t0 = t_PairKey s0"
      by (auto simp: rows split: if_splits)
    with msg_invD(4) [OF inv] show "ID t = ID s" by metis
  next
    fix k assume "k \<in> set (rows (messages ?d))"
    then consider "k = m" | "k \<in> set (rows (messages d))" by (auto simp: deliver_def row_simps)
    then have "\<exists>s \<in> set (rows (threads d)). ID s = m_ThreadId k \<and> live k \<and>
       (m_SenderId k = t_UserAId s \<and> m_ReceiverId k = t_UserBId s \<or>
        m_SenderId k = t_UserBId s \<and> m_ReceiverId k = t_UserAId s)"
    proof cases
      case 1
      with th ab show ?thesis by (intro bexI [of _ thread]) (auto simp: m min_def max_def)
    next
      case 2
      from msg_invD(5) [OF inv this] show ?thesis unfolding message_ok_def by blast
    qed
    then show "message_ok ?d k"
      unfolding message_ok_def rows set_map by (elim bexE) (rule conjI, simp, rule bexI, rule_tac [2] imageI, auto)
  qed
qed

lemma sent_message_row:
  "sent_message d a b c t1 t2 t3 =
     message_row (ID (the_thread d a b t1 t2)) a b c (seq (messages (with_thread d a b t1 t2))) t3"
  by (simp add: sent_message_def)

lemma msg_inv_sent:
  assumes "msg_inv d" "a \<noteq> b"
  shows "msg_inv (deliver (the_thread d a b t1 t2) (sent_message d a b c t1 t2 t3) (with_thread d a b t1 t2))"
  by (rule msg_inv_deliver [OF msg_inv_with_thread [OF assms] the_thread_props(1) [OF assms(1)] assms(2)
      the_thread_props(2,3) [OF assms(1)] sent_message_row])

lemma unread_of_sent:
  "unread_of (deliver (the_thread d a b t1 t2) (sent_message d a b c t1 t2 t3) (with_thread d a b t1 t2)) uid =
     unread_of d uid + (if uid = b then 1 else 0)"
  by (simp add: deliver_def unread_insert sent_message_def)

lemma deliver_frames [simp]:
  "users (deliver th m d) = users d" "oplogs (deliver th m d) = oplogs d"
  by (simp_all add: deliver_def)

interpretation send_message: atomic_act "dal_Send e a b c" for e :: "'x user_env_scheme" and a b c
  by unfold_locales
    (auto simp: dal_Send_def GetUserView_def bindE_def returnE_def withErr_def q_first_succ split: prod.splits sum.splits
      dest!: transaction_err stmt_err(1))

lemma keeps_dal_Send [keeps_intros]: "a \<noteq> b \<Longrightarrow> keeps msg_inv (dal_Send e a b c)"
  by (rule send_message.keeps_success) (auto dest!: dal_Send_succ intro: msg_inv_sent)

section \<open>Reading\<close>

definition read_messages :: "dm_thread \<Rightarrow> int \<Rightarrow> time \<Rightarrow> udb \<Rightarrow> udb" where
  "read_messages thread uid now d =
     threads_update (update_where (\<lambda>t. live t \<and> ID t = ID thread)
         (\<lambda>t. if t_UserAId thread = uid then t\<lparr>t_UnreadA := 0\<rparr> else t\<lparr>t_UnreadB := 0\<rparr>))
       (messages_update (update_where (\<lambda>m. live m \<and> m_ThreadId m = ID thread \<and> m_ReceiverId m = uid \<and> m_IsRead m = False)
         (\<lambda>m. m\<lparr>m_IsRead := True, m_ReadAt := Some now\<rparr>)) d)"

lemma MarkThreadRead_succ:
  assumes "msg_inv (db w)" and "MarkThreadRead e uid other w = (Inr (), w')"
  shows "case thread_of (db w) uid other of
      None \<Rightarrow> db w' = db w
    | Some t \<Rightarrow> \<exists>now. db w' = read_messages t uid now (db w)"
proof -
  have eq: "first_where (\<lambda>t. live t \<and> t_PairKey t = snd (snd (messagePair uid other)) \<and>
      (t_UserAId t = uid \<or> t_UserBId t = uid)) (threads (db w)) = thread_of (db w) uid other"
    unfolding thread_of_def
  proof (rule first_where_cong)
    fix t assume "t \<in> set (rows (threads (db w)))"
    with msg_invD(3) [OF assms(1) this] show "(live t \<and> t_PairKey t = snd (snd (messagePair uid other)) \<and>
      (t_UserAId t = uid \<or> t_UserBId t = uid)) = (live t \<and> t_PairKey t = snd (snd (messagePair uid other)))"
      unfolding messagePair_key snd_conv thread_ok_def using pair_key_inj by (metis max_def min_def)
  qed
  from assms(2) show ?thesis
    by (fastforce simp: MarkThreadRead_def Let_def succ_simps eq read_messages_def split: if_splits option.splits)
qed

lemma unread_read_messages:
  "unread_in (read_messages th uid now d) tid u = (if tid = ID th \<and> u = uid then 0 else unread_in d tid u)"
proof -
  let ?f = "\<lambda>m. if live m \<and> m_ThreadId m = ID th \<and> m_ReceiverId m = uid \<and> m_IsRead m = False
      then m\<lparr>m_IsRead := True, m_ReadAt := Some now\<rparr> else m"
  let ?P = "\<lambda>m. live m \<and> \<not> m_IsRead m \<and> m_ThreadId m = tid \<and> m_ReceiverId m = u"
  have f: "?P (?f m) \<longleftrightarrow> ?P m \<and> \<not> (tid = ID th \<and> u = uid)" for m
    by (auto simp: live_def)
  have "unread_in (read_messages th uid now d) tid u = length (filter (\<lambda>m. ?P (?f m)) (rows (messages d)))"
    by (simp add: read_messages_def unread_in_def row_simps filter_map o_def)
  then show ?thesis unfolding f by (simp add: unread_in_def)
qed

lemma msg_inv_read_messages:
  assumes inv: "msg_inv d" and th: "thread \<in> set (rows (threads d))"
    and u: "t_UserAId thread = uid \<or> t_UserBId thread = uid"
  shows "msg_inv (read_messages thread uid now d)"
proof -
  let ?d = "read_messages thread uid now d"
  let ?f = "\<lambda>t :: dm_thread. if t_UserAId thread = uid then t\<lparr>t_UnreadA := 0\<rparr> else t\<lparr>t_UnreadB := 0\<rparr>"
  have keep: "ID (?f t) = ID t" "live (?f t) = live t" "t_PairKey (?f t) = t_PairKey t"
    "t_UserAId (?f t) = t_UserAId t" "t_UserBId (?f t) = t_UserBId t" for t by (simp_all add: live_def)
  have rows: "\<exists>s \<in> set (rows (threads d)). t = (if ID s = ID thread then ?f s else s)"
    if "t \<in> set (rows (threads ?d))" for t
    using that msg_invD(3) [OF inv] unfolding read_messages_def
    by (auto dest!: update_where_rowD simp: thread_ok_def)
  have rows': "\<exists>t \<in> set (rows (threads ?d)). ID t = ID s \<and> t_UserAId t = t_UserAId s \<and> t_UserBId t = t_UserBId s"
    if "s \<in> set (rows (threads d))" for s
    using that keep
    by (intro bexI [of _ "if live s \<and> ID s = ID thread then ?f s else s"])
      (simp_all add: read_messages_def row_simps)
  have same: "s = thread" if "s \<in> set (rows (threads d))" "ID s = ID thread" for s
    using wf_table_id_inj [OF msg_invD(1) [OF inv] that(1) th that(2)] .
  show ?thesis
  proof (rule msg_invI)
    show "wf_table (threads ?d)" "wf_table (messages ?d)"
      using msg_invD(1,2) [OF inv] by (simp_all add: read_messages_def wf_update_where)
  next
    fix t assume "t \<in> set (rows (threads ?d))"
    from rows [OF this] obtain s where s: "s \<in> set (rows (threads d))" "t = (if ID s = ID thread then ?f s else s)" ..
    show "thread_ok ?d t"
    proof (cases "ID s = ID thread")
      case True
      with same s(1) have "s = thread" by blast
      with True s msg_invD(3) [OF inv th] u show ?thesis
        by (auto simp: thread_ok_def unread_read_messages live_def)
    next
      case False
      with s msg_invD(3) [OF inv s(1)] show ?thesis by (simp add: thread_ok_def unread_read_messages)
    qed
  next
    fix t s assume "t \<in> set (rows (threads ?d))" "s \<in> set (rows (threads ?d))" "t_PairKey t = t_PairKey s"
    moreover have "\<exists>t0 \<in> set (rows (threads d)). ID t = ID t0 \<and> t_PairKey t = t_PairKey t0"
      if "t \<in> set (rows (threads ?d))" for t
      using rows [OF that] keep by (elim bexE) (rule bexI, simp_all)
    ultimately show "ID t = ID s" using msg_invD(4) [OF inv] by metis
  next
    fix m assume "m \<in> set (rows (messages ?d))"
    then have "m \<in> set (rows (update_where (\<lambda>m. live m \<and> m_ThreadId m = ID thread \<and> m_ReceiverId m = uid \<and> m_IsRead m = False)
         (\<lambda>m. m\<lparr>m_IsRead := True, m_ReadAt := Some now\<rparr>) (messages d)))" by (simp add: read_messages_def)
    from update_where_rowD [OF this] obtain k where k0: "k \<in> set (rows (messages d))"
        "m = (if live k \<and> m_ThreadId k = ID thread \<and> m_ReceiverId k = uid \<and> m_IsRead k = False
            then k\<lparr>m_IsRead := True, m_ReadAt := Some now\<rparr> else k)" ..
    then have k: "k \<in> set (rows (messages d))" "m_ThreadId m = m_ThreadId k" "m_SenderId m = m_SenderId k"
        "m_ReceiverId m = m_ReceiverId k" "live m = live k"
      by (simp_all add: live_def)
    from msg_invD(5) [OF inv k(1)] rows' show "message_ok ?d m"
      unfolding message_ok_def k(2-5) by metis
  qed
qed

interpretation mark_read: atomic_act "MarkThreadRead e uid other" for e :: "'x user_env_scheme" and uid other
  by unfold_locales (auto simp: MarkThreadRead_def Let_def dest: transaction_err)

lemma keeps_MarkThreadRead [keeps_intros]: "keeps msg_inv (MarkThreadRead e uid other)"
proof (rule mark_read.keeps_success)
  fix w a w' assume inv: "msg_inv (db w)" and r: "MarkThreadRead e uid other w = (Inr a, w')"
  from r have "MarkThreadRead e uid other w = (Inr (), w')" by simp
  note s = MarkThreadRead_succ [OF inv this]
  show "msg_inv (db w')"
  proof (cases "thread_of (db w) uid other")
    case None
    with s inv show ?thesis by simp
  next
    case (Some t)
    from thread_of_Some [OF inv Some] have "t \<in> set (rows (threads (db w)))" "t_UserAId t = uid \<or> t_UserBId t = uid"
      by (auto simp: min_def max_def)
    with s Some inv msg_inv_read_messages show ?thesis by auto
  qed
qed

text \<open>Every unread message is counted in exactly one thread.\<close>

lemma sum_indicator:
  "distinct (map f xs) \<Longrightarrow> y \<in> f ` set xs \<Longrightarrow> (\<Sum>x\<leftarrow>xs. if y = f x then 1 else 0 :: nat) = 1"
proof (induction xs)
  case (Cons x xs)
  show ?case
  proof (cases "y = f x")
    case True
    with Cons.prems(1) have "\<forall>z \<in> set xs. y \<noteq> f z" by auto
    then have "map (\<lambda>x. if y = f x then 1 else 0 :: nat) xs = map (\<lambda>_. 0) xs" by simp
    with True show ?thesis by simp
  next
    case False
    with Cons show ?thesis by auto
  qed
qed simp

lemma unread_of_threads:
  assumes inv: "msg_inv d"
  shows "unread_of d uid = (\<Sum>t\<leftarrow>rows (threads d). unread_in d (ID t) uid)"
proof -
  have one: "(\<Sum>t\<leftarrow>rows (threads d). if m_ThreadId m = ID t then 1 else 0 :: nat) = 1"
    if "m \<in> set (rows (messages d))" for m
  proof (rule sum_indicator)
    show "distinct (map ID (rows (threads d)))" using msg_invD(1) [OF inv] by (simp add: wf_table_def)
    show "m_ThreadId m \<in> ID ` set (rows (threads d))" using message_thread_exists [OF inv that] by (metis image_eqI)
  qed
  have "length (filter (\<lambda>m. live m \<and> \<not> m_IsRead m \<and> m_ReceiverId m = uid) ms) =
      (\<Sum>t\<leftarrow>rows (threads d). length (filter (\<lambda>m. live m \<and> \<not> m_IsRead m \<and> m_ThreadId m = ID t \<and> m_ReceiverId m = uid) ms))"
    if "set ms \<subseteq> set (rows (messages d))" for ms
    using that
  proof (induction ms)
    case (Cons m ms)
    let ?c = "\<lambda>t. length (filter (\<lambda>m. live m \<and> \<not> m_IsRead m \<and> m_ThreadId m = ID t \<and> m_ReceiverId m = uid) ms)"
    have "(\<Sum>t\<leftarrow>rows (threads d). (if live m \<and> \<not> m_IsRead m \<and> m_ThreadId m = ID t \<and> m_ReceiverId m = uid then 1 else 0) + ?c t)
       = (if live m \<and> \<not> m_IsRead m \<and> m_ReceiverId m = uid then 1 else 0) + (\<Sum>t\<leftarrow>rows (threads d). ?c t)"
      using one [of m] Cons.prems by (auto simp: sum_list_addf)
    moreover have "(\<Sum>t\<leftarrow>rows (threads d). length (filter (\<lambda>m. live m \<and> \<not> m_IsRead m \<and> m_ThreadId m = ID t \<and> m_ReceiverId m = uid) (m # ms)))
       = (\<Sum>t\<leftarrow>rows (threads d). (if live m \<and> \<not> m_IsRead m \<and> m_ThreadId m = ID t \<and> m_ReceiverId m = uid then 1 else 0) + ?c t)"
      by (intro arg_cong [of _ _ sum_list] map_cong) auto
    ultimately show ?case using Cons by simp
  qed simp
  then show ?thesis by (simp add: unread_of_def unread_in_def)
qed

lemma unread_in_counter:
  assumes inv: "msg_inv d" and t: "t \<in> set (rows (threads d))"
  shows "int (unread_in d (ID t) uid) =
    (if live t \<and> t_UserAId t = uid then t_UnreadA t else 0) + (if live t \<and> t_UserBId t = uid then t_UnreadB t else 0)"
proof (cases "t_UserAId t = uid \<or> t_UserBId t = uid")
  case True
  with msg_invD(3) [OF inv t] show ?thesis by (auto simp: thread_ok_def)
next
  case False
  have "m_ReceiverId m \<noteq> uid" if "m \<in> set (rows (messages d))" "m_ThreadId m = ID t" for m
  proof -
    from msg_invD(5) [OF inv that(1)] that(2) obtain s where s: "s \<in> set (rows (threads d))" "ID s = ID t"
        "m_ReceiverId m = t_UserBId s \<or> m_ReceiverId m = t_UserAId s"
      unfolding message_ok_def by auto
    with wf_table_id_inj [OF msg_invD(1) [OF inv] s(1) t] False show ?thesis by auto
  qed
  then have "unread_in d (ID t) uid = 0" by (auto simp: unread_in_def filter_empty_conv)
  with False show ?thesis by simp
qed

lemma int_sum_map: "int (\<Sum>x\<leftarrow>xs. f x) = (\<Sum>x\<leftarrow>xs. int (f x))"
  by (induction xs) simp_all

lemma unread_of_split:
  assumes inv: "msg_inv d"
  shows "int (unread_of d uid) = (\<Sum>t\<leftarrow>filter (\<lambda>t. live t \<and> t_UserAId t = uid) (rows (threads d)). t_UnreadA t) +
    (\<Sum>t\<leftarrow>filter (\<lambda>t. live t \<and> t_UserBId t = uid) (rows (threads d)). t_UnreadB t)"
proof -
  have "int (unread_of d uid) = (\<Sum>t\<leftarrow>rows (threads d). int (unread_in d (ID t) uid))"
    by (simp add: unread_of_threads [OF inv] int_sum_map)
  also have "\<dots> = (\<Sum>t\<leftarrow>rows (threads d). (if live t \<and> t_UserAId t = uid then t_UnreadA t else 0) +
      (if live t \<and> t_UserBId t = uid then t_UnreadB t else 0))"
    by (intro arg_cong [of _ _ sum_list] map_cong) (simp_all add: unread_in_counter [OF inv])
  finally show ?thesis by (simp add: sum_list_addf sum_list_map_filter')
qed

lemma dal_UnreadCount_succ:
  "dal_UnreadCount e uid w = (Inr n, w') \<Longrightarrow> msg_inv (db w) \<Longrightarrow> n = i64 (int (unread_of (db w) uid)) \<and> db w' = db w"
  by (auto simp: dal_UnreadCount_def succ_simps unread_of_split)

section \<open>Handlers\<close>

lemma currentUserId_succ [succ_simps]:
  "currentUserId e hdr w = (Inr uid, w') \<longleftrightarrow>
     (\<exists>cur. GetCurrentUser e hdr = Some cur \<and> UserID cur \<noteq> 0 \<and> uid = int64_of (UserID cur)) \<and> w' = w"
  by (auto simp: currentUserId_def succ_simps)

lemma liftE_succ [succ_simps]: "liftE r w = (Inr a, w') \<longleftrightarrow> r = Inr a \<and> w' = w"
  by (auto simp: liftE_def)

lemma keeps_liftE [keeps_intros]: "keeps I (liftE r)"
  by (auto simp: keeps_def liftE_def)

lemma keeps_message_reads [keeps_intros]:
  "keeps I (currentUserId e hdr)" "keeps I (GetUserView e uid incl)" "keeps I (userViewMap e ids)"
  "keeps I (dal_UnreadCount e uid)" "keeps I (ListActiveUserIds e)" "keeps I (GetById e uid)"
  unfolding currentUserId_def GetUserView_def userViewMap_def dal_UnreadCount_def ListActiveUserIds_def GetById_def
  by (intro keeps_intros)+

lemma keeps_message_lists [keeps_intros]:
  "keeps I (ListConversations e uid page sz)" "keeps I (ListThreadMessages e uid other page sz)"
  unfolding ListConversations_def ListThreadMessages_def Let_def by (intro keeps_intros)+

lemma keeps_message_handler_reads [keeps_intros]:
  "keeps I (Conversations e hdr page sz)" "keeps I (Thread e hdr uid page sz)" "keeps I (UnreadCount e hdr)"
  unfolding Conversations_def Thread_def UnreadCount_def by (intro keeps_intros)+

lemma keeps_msg_audit [keeps_intros]: "keeps msg_inv (recordUserOperation e hdr a t i d)"
  by (rule keeps_recordUserOperation) simp

lemma keeps_broadcast_loop:
  assumes "\<And>b. a \<noteq> b \<Longrightarrow> keeps I (dal_Send e a b c)"
  shows "keeps I (broadcast_loop e a c ids n)"
  by (induction ids arbitrary: n) (auto intro!: keeps_intros assms)

lemma keeps_message_handlers [keeps_intros]:
  "keeps msg_inv (Send e hdr receiver content)"
  "keeps msg_inv (MarkRead e hdr uid)"
  "keeps msg_inv (Broadcast e hdr content)"
  unfolding Send_def MarkRead_def Broadcast_def
  by (intro keeps_intros keeps_broadcast_loop; simp)+

lemma recordUserOperation_unread:
  "recordUserOperation e hdr a t i d w = (r, w') \<Longrightarrow> unread_of (db w') = unread_of (db w)"
  by (auto dest!: recordUserOperation_frame simp: fun_eq_iff)

lemma broadcast_loop_succ:
  "broadcast_loop e a c ids n w = (Inr k, w') \<Longrightarrow>
     k = n + int (length (filter (\<lambda>i. i \<noteq> a) ids)) \<and>
     (\<forall>uid. unread_of (db w') uid = unread_of (db w) uid + count_list (filter (\<lambda>i. i \<noteq> a) ids) uid)"
proof (induction ids arbitrary: n w)
  case Nil
  then show ?case by (simp add: returnE_def)
next
  case (Cons b ids)
  show ?case
  proof (cases "b = a")
    case True
    with Cons show ?thesis by simp
  next
    case False
    with Cons.prems obtain v w1 where s: "dal_Send e a b c w = (Inr v, w1)"
        and l: "broadcast_loop e a c ids (n + 1) w1 = (Inr k, w')"
      by (auto simp: succ_simps)
    from dal_Send_succ [OF s] have "unread_of (db w1) uid = unread_of (db w) uid + (if uid = b then 1 else 0)" for uid
      by (auto simp: unread_of_sent)
    with Cons.IH [OF l] False show ?thesis by auto
  qed
qed

section \<open>Unread messages of a conversation\<close>

definition unread_from :: "udb \<Rightarrow> int \<Rightarrow> int \<Rightarrow> nat" where
  "unread_from d uid other = length (filter (\<lambda>m. live m \<and> \<not> m_IsRead m \<and> m_ReceiverId m = uid \<and> m_SenderId m = other)
     (rows (messages d)))"

lemma message_pair_thread:
  assumes inv: "msg_inv d" and m: "m \<in> set (rows (messages d))"
    and sr: "m_SenderId m = a" "m_ReceiverId m = b"
  shows "\<exists>t \<in> set (rows (threads d)). ID t = m_ThreadId m \<and> live t \<and> t_PairKey t = snd (snd (messagePair a b))"
proof -
  from msg_invD(5) [OF inv m] obtain t where t: "t \<in> set (rows (threads d))" "ID t = m_ThreadId m"
    "a = t_UserAId t \<and> b = t_UserBId t \<or> a = t_UserBId t \<and> b = t_UserAId t"
    unfolding message_ok_def sr by blast
  with msg_invD(3) [OF inv t(1)] have "t_PairKey t = snd (snd (messagePair a b))" "live t"
    by (auto simp: thread_ok_def messagePair_key min_def max_def)
  with t show ?thesis by blast
qed

lemma thread_messages:
  assumes inv: "msg_inv d" and t: "thread_of d uid other = Some t" and m: "m \<in> set (rows (messages d))" and ne: "uid \<noteq> other"
  shows "m_ThreadId m = ID t \<and> m_ReceiverId m = uid \<longleftrightarrow> m_SenderId m = other \<and> m_ReceiverId m = uid"
proof
  assume a: "m_ThreadId m = ID t \<and> m_ReceiverId m = uid"
  note tt = thread_of_Some [OF inv t]
  from msg_invD(5) [OF inv m] obtain s where s: "s \<in> set (rows (threads d))" "ID s = m_ThreadId m"
    "m_SenderId m = t_UserAId s \<and> m_ReceiverId m = t_UserBId s \<or> m_SenderId m = t_UserBId s \<and> m_ReceiverId m = t_UserAId s"
    unfolding message_ok_def by blast
  have "s = t" by (rule wf_table_id_inj [OF msg_invD(1) [OF inv] s(1)]) (use a s(2) tt in auto)
  with s(3) tt a ne show "m_SenderId m = other \<and> m_ReceiverId m = uid" by (auto simp: min_def max_def split: if_splits)
next
  assume a: "m_SenderId m = other \<and> m_ReceiverId m = uid"
  from message_pair_thread [OF inv m, of other uid] a obtain s where s: "s \<in> set (rows (threads d))" "ID s = m_ThreadId m"
    "t_PairKey s = snd (snd (messagePair uid other))" by (auto simp: messagePair_sym [of other])
  have "t_PairKey t = snd (snd (messagePair uid other))"
    using first_where_Some [OF t [unfolded thread_of_def]] by simp
  with msg_invD(4) [OF inv s(1), of t] thread_of_Some [OF inv t] s a show "m_ThreadId m = ID t \<and> m_ReceiverId m = uid" by auto
qed

lemma no_thread_no_messages:
  assumes inv: "msg_inv d" and t: "thread_of d uid other = None"
  shows "unread_from d uid other = 0"
proof -
  have "\<not> (m_ReceiverId m = uid \<and> m_SenderId m = other)" if m: "m \<in> set (rows (messages d))" for m
    using message_pair_thread [OF inv m, of other uid] t by (auto simp: thread_of_def first_where_None messagePair_sym [of other])
  then show ?thesis by (auto simp: unread_from_def filter_empty_conv)
qed

lemma messages_read_messages:
  "rows (messages (read_messages t uid now d)) =
     map (\<lambda>m. if live m \<and> m_ThreadId m = ID t \<and> m_ReceiverId m = uid \<and> m_IsRead m = False
       then m\<lparr>m_IsRead := True, m_ReadAt := Some now\<rparr> else m) (rows (messages d))"
  by (simp add: read_messages_def row_simps)

lemma length_filter_split:
  "length (filter P xs) = length (filter (\<lambda>x. P x \<and> \<not> Q x) xs) + length (filter (\<lambda>x. P x \<and> Q x) xs)"
  by (induction xs) auto

lemma unread_of_read_messages:
  assumes inv: "msg_inv d" and t: "thread_of d uid other = Some t" and ne: "uid \<noteq> other"
  shows "unread_of (read_messages t uid now d) x + (if x = uid then unread_from d uid other else 0) = unread_of d x"
proof -
  let ?R = "\<lambda>m. live m \<and> m_ThreadId m = ID t \<and> m_ReceiverId m = uid \<and> m_IsRead m = False"
  let ?f = "\<lambda>m. if ?R m then m\<lparr>m_IsRead := True, m_ReadAt := Some now\<rparr> else m"
  have f: "live (?f m) \<and> \<not> m_IsRead (?f m) \<and> m_ReceiverId (?f m) = x \<longleftrightarrow>
      (live m \<and> \<not> m_IsRead m \<and> m_ReceiverId m = x) \<and> \<not> ?R m" for m by (simp add: live_def)
  have "unread_of (read_messages t uid now d) x =
      length (filter (\<lambda>m. live (?f m) \<and> \<not> m_IsRead (?f m) \<and> m_ReceiverId (?f m) = x) (rows (messages d)))"
    by (simp only: unread_of_def messages_read_messages filter_map o_def length_map)
  then have 1: "unread_of (read_messages t uid now d) x =
      length (filter (\<lambda>m. (live m \<and> \<not> m_IsRead m \<and> m_ReceiverId m = x) \<and> \<not> ?R m) (rows (messages d)))"
    by (simp only: f)
  have 2: "(if x = uid then unread_from d uid other else 0) =
      length (filter (\<lambda>m. (live m \<and> \<not> m_IsRead m \<and> m_ReceiverId m = x) \<and> ?R m) (rows (messages d)))"
  proof (cases "x = uid")
    case True
    have "filter (\<lambda>m. live m \<and> \<not> m_IsRead m \<and> m_ReceiverId m = uid \<and> m_SenderId m = other) (rows (messages d)) =
        filter (\<lambda>m. (live m \<and> \<not> m_IsRead m \<and> m_ReceiverId m = x) \<and> ?R m) (rows (messages d))"
      using thread_messages [OF inv t _ ne] True by (intro filter_cong) blast+
    with True show ?thesis by (simp add: unread_from_def)
  next
    case False
    then have "filter (\<lambda>m. (live m \<and> \<not> m_IsRead m \<and> m_ReceiverId m = x) \<and> ?R m) (rows (messages d)) = []"
      by (simp add: filter_empty_conv)
    with False show ?thesis by simp
  qed
  show ?thesis
    unfolding 1 2
    using length_filter_split [of "\<lambda>m. live m \<and> \<not> m_IsRead m \<and> m_ReceiverId m = x" "rows (messages d)" ?R]
    by (simp add: unread_of_def)
qed

lemma count_list_distinct: "distinct xs \<Longrightarrow> count_list xs x = (if x \<in> set xs then 1 else 0)"
  by (induction xs) auto

end
