(* ===== verification/UserSystem.thy ===== *)
theory UserSystem
  imports Message
begin

text \<open>
  The user service as one system: the handlers its HTTP and gRPC servers register
  (\<^verbatim>\<open>app/user/internal/server/http.go\<close>), as a step function on the world, and the predicates that
  every run of requests keeps. The locale \<open>side_invariant\<close> states what a predicate must satisfy
  to be kept by the team, group and profile handlers, \<open>account_invariant\<close> adds the message
  handlers; their lemmas go through every handler once, and the invariants of the service are
  interpretations of the two.
\<close>

section \<open>Requests\<close>

datatype user_op =
    RTeamDetail int
  | RCreateTeam ctx string string string
  | RUpdateTeam ctx int string string string
  | RInviteTeamMember ctx int
  | RRemoveTeamMember ctx int
  | RTransferTeamOwner ctx int
  | RLeaveTeam ctx
  | RDisbandTeam ctx
  | RListTeamInvites ctx
  | RRespondTeamInvite ctx nat bool
  | RGroupCreate ctx string string
  | RGroupDelete ctx int
  | RGroupGet int
  | RGroupList int int
  | RGroupUpdate ctx int string string
  | RGetByName string
  | RMoveGroup ctx nat int
  | RGetList int int
  | RUpdate ctx nat string string string
  | RChangePassword ctx int string string
  | RDeleteUser ctx int
  | RGetById int
  | RGetUserIdsByGroup int
  | RGetByIds "int list"
  | RSetEmailEnabled ctx int bool
  | RSetUserRole ctx int int
  | RLogin string string
  | RRegister string string string string string
  | RGetRegisterInviteCode ctx
  | RUpdateRegisterInviteCode ctx string
  | ROperationLogs ctx int int string
  | RConversations ctx int int
  | RThread ctx int int int
  | RSend ctx int string
  | RMarkRead ctx int
  | RUnreadCount ctx
  | RBroadcast ctx string

fun user_step :: "'x user_env_scheme \<Rightarrow> string \<Rightarrow> user_op \<Rightarrow> udb world \<Rightarrow> udb world" where
  "user_step e key (RTeamDetail g) w = snd (TeamDetail e g w)"
| "user_step e key (RCreateTeam h n a d) w = snd (CreateTeam e h n a d w)"
| "user_step e key (RUpdateTeam h g n a d) w = snd (UpdateTeam e h g n a d w)"
| "user_step e key (RInviteTeamMember h u) w = snd (InviteTeamMember e h u w)"
| "user_step e key (RRemoveTeamMember h u) w = snd (RemoveTeamMember e h u w)"
| "user_step e key (RTransferTeamOwner h u) w = snd (TransferTeamOwner e h u w)"
| "user_step e key (RLeaveTeam h) w = snd (LeaveTeam e h w)"
| "user_step e key (RDisbandTeam h) w = snd (DisbandTeam e h w)"
| "user_step e key (RListTeamInvites h) w = snd (ListTeamInvites e h w)"
| "user_step e key (RRespondTeamInvite h i acc) w = snd (RespondTeamInvite e h i acc w)"
| "user_step e key (RGroupCreate h n d) w = snd (group_svc_Create e h n d w)"
| "user_step e key (RGroupDelete h g) w = snd (group_svc_Delete e h g w)"
| "user_step e key (RGroupGet g) w = snd (group_svc_Get e g w)"
| "user_step e key (RGroupList p s) w = snd (group_svc_List e p s w)"
| "user_step e key (RGroupUpdate h g n d) w = snd (group_svc_Update e h g n d w)"
| "user_step e key (RGetByName n) w = snd (svc_GetByName e n w)"
| "user_step e key (RMoveGroup h u g) w = snd (MoveGroup e h u g w)"
| "user_step e key (RGetList s p) w = snd (svc_GetList e s p w)"
| "user_step e key (RUpdate h u a n m) w = snd (svc_Update e h u a n m w)"
| "user_step e key (RChangePassword h u old new) w = snd (ChangePassword e h u old new w)"
| "user_step e key (RDeleteUser h u) w = snd (DeleteUser e h u w)"
| "user_step e key (RGetById u) w = snd (svc_GetById e u w)"
| "user_step e key (RGetUserIdsByGroup g) w = snd (GetUserIdsByGroup e g w)"
| "user_step e key (RGetByIds us) w = snd (GetByIds e us w)"
| "user_step e key (RSetEmailEnabled h u b) w = snd (SetEmailEnabled e h u b w)"
| "user_step e key (RSetUserRole h u r) w = snd (SetUserRole e h u r w)"
| "user_step e key (RLogin n p) w = snd (Login e key n p w)"
| "user_step e key (RRegister c n p nm em) w = snd (Register e c n p nm em w)"
| "user_step e key (RGetRegisterInviteCode h) w = snd (GetRegisterInviteCode e h w)"
| "user_step e key (RUpdateRegisterInviteCode h c) w = snd (UpdateRegisterInviteCode e h c w)"
| "user_step e key (ROperationLogs h p s a) w = snd (OperationLogs e h p s a w)"
| "user_step e key (RConversations h p s) w = snd (Conversations e h p s w)"
| "user_step e key (RThread h u p s) w = snd (Thread e h u p s w)"
| "user_step e key (RSend h u c) w = snd (Send e h u c w)"
| "user_step e key (RMarkRead h u) w = snd (MarkRead e h u w)"
| "user_step e key (RUnreadCount h) w = snd (UnreadCount e h w)"
| "user_step e key (RBroadcast h c) w = snd (Broadcast e h c w)"

definition user_run :: "'x user_env_scheme \<Rightarrow> string \<Rightarrow> user_op list \<Rightarrow> udb world \<Rightarrow> udb world" where
  "user_run e key = fold (user_step e key)"

section \<open>Handlers that only read\<close>

lemma keeps_account_reads [keeps_intros]:
  "keeps I (GetByName e n)" "keeps I (dal_GetList e s p)" "keeps I (dal_GetUserIdsByGroup e g)"
  "keeps I (dal_GetByIds e us)" "keeps I (getRegisterInviteCode e)"
  unfolding GetByName_def dal_GetList_def dal_GetUserIdsByGroup_def dal_GetByIds_def getRegisterInviteCode_def
  by (intro keeps_intros)+

lemma keeps_account_handler_reads [keeps_intros]:
  "keeps I (svc_GetByName e n)" "keeps I (svc_GetList e s p)" "keeps I (svc_GetById e u)"
  "keeps I (GetUserIdsByGroup e g)" "keeps I (GetByIds e us)" "keeps I (GetRegisterInviteCode e h)"
  "keeps I (OperationLogs e h p s a)" "keeps I (ListTeamInvites e h)" "keeps I (group_svc_List e p s)"
  unfolding svc_GetByName_def svc_GetList_def svc_GetById_def GetUserIdsByGroup_def GetByIds_def
    GetRegisterInviteCode_def OperationLogs_def ListTeamInvites_def group_svc_List_def Let_def
  by (intro keeps_intros)+

lemma keeps_hashPassword [keeps_intros]: "keeps I (hashPassword e p)"
  by (auto simp: keeps_def hashPassword_def)

lemma keeps_tx: "keeps I m \<Longrightarrow> keeps I (transaction e m)"
  by (rule keeps_transaction) (rule keepsD)

section \<open>Predicates on accounts\<close>

locale side_invariant =
  fixes I :: "udb \<Rightarrow> bool"
  assumes groups: "I (groups_update fg d) = I d"
    and invites: "I (invites_update fi d) = I d"
    and oplogs: "I (oplogs_update fo d) = I d"
    and configs: "I (configs_update fc d) = I d"
    and neutral: "(\<And>u. ID (f u) = ID u \<and> DeletedAt (f u) = DeletedAt u \<and> u_RoleID (f u) = u_RoleID u \<and>
      u_Username (f u) = u_Username u) \<Longrightarrow> I d \<Longrightarrow> I (users_update (update_where P f) d)"
begin

lemma updates:
  "(\<And>now u. ID (f now u) = ID u \<and> DeletedAt (f now u) = DeletedAt u \<and> u_RoleID (f now u) = u_RoleID u \<and>
      u_Username (f now u) = u_Username u) \<Longrightarrow> keeps I (q_update e users users_update P f)"
  "keeps I (q_update e groups groups_update P1 f1)" "keeps I (q_update e invites invites_update P2 f2)"
  "keeps I (q_update e configs configs_update P3 f3)"
  by (rule keeps_update, simp add: groups invites configs neutral)+

lemma creates:
  "keeps I (q_create e groups groups_update m1)" "keeps I (q_create e invites invites_update m2)"
  "keeps I (q_create e oplogs oplogs_update m3)" "keeps I (q_create e configs configs_update m4)"
  by (rule keeps_create, simp add: groups invites configs oplogs)+

lemma audit: "keeps I (recordUserOperation e hdr a t i d)"
  by (rule keeps_recordUserOperation) (simp add: oplogs)

lemmas rules = keeps_intros keeps_tx updates creates audit

lemma team_steps:
  "keeps I (ensureGroupOwner e g)" "keeps I (clearUserCache e u)" "keeps I (clearUserCaches e us)"
  unfolding ensureGroupOwner_def clearUserCache_def
  by (intro rules; simp)+ (induction us; auto intro!: rules simp: clearUserCache_def)

lemma team_dal:
  "keeps I (GetWithUsers e g)" "keeps I (CreateTeamForUser e u n a d)" "keeps I (dal_UpdateTeam e u g n a d)"
  "keeps I (InviteUser e u v)" "keeps I (dal_RemoveTeamMember e u v)" "keeps I (dal_TransferTeamOwner e u v)"
  "keeps I (dal_LeaveTeam e u)" "keeps I (dal_DisbandTeam e u)" "keeps I (RespondInvite e u i acc)"
  unfolding GetWithUsers_def CreateTeamForUser_def dal_UpdateTeam_def InviteUser_def dal_RemoveTeamMember_def
    dal_TransferTeamOwner_def dal_LeaveTeam_def dal_DisbandTeam_def RespondInvite_def Let_def
  by (intro rules team_steps; simp)+

lemma group_dal:
  "keeps I (group_Create e n d)" "keeps I (group_Delete e g)" "keeps I (group_Update e g n d)"
  unfolding group_Create_def group_Delete_def group_Update_def Let_def
  by (intro rules; simp)+

lemma team_handlers:
  "keeps I (TeamDetail e g)" "keeps I (CreateTeam e h n a d)" "keeps I (UpdateTeam e h g n a d)"
  "keeps I (InviteTeamMember e h u)" "keeps I (RemoveTeamMember e h u)" "keeps I (TransferTeamOwner e h u)"
  "keeps I (LeaveTeam e h)" "keeps I (DisbandTeam e h)" "keeps I (RespondTeamInvite e h i acc)"
  unfolding TeamDetail_def CreateTeam_def UpdateTeam_def InviteTeamMember_def RemoveTeamMember_def
    TransferTeamOwner_def LeaveTeam_def DisbandTeam_def RespondTeamInvite_def
  by (intro rules team_dal; simp)+

lemma group_handlers:
  "keeps I (group_svc_Create e h n d)" "keeps I (group_svc_Delete e h g)" "keeps I (group_svc_Get e g)"
  "keeps I (group_svc_Update e h g n d)"
  unfolding group_svc_Create_def group_svc_Delete_def group_svc_Get_def group_svc_Update_def Let_def
  by (intro rules team_dal group_dal; simp)+

lemma account_handlers:
  "keeps I (MoveGroup e h u g)" "keeps I (svc_Update e h v a n m)" "keeps I (ChangePassword e h x old new)"
  "keeps I (SetEmailEnabled e h x b)" "keeps I (Login e key n p)" "keeps I (UpdateRegisterInviteCode e h c)"
  unfolding MoveGroup_def dal_MoveGroup_def svc_Update_def dal_Update_def ChangePassword_def dal_ChangePassword_def
    SetEmailEnabled_def dal_SetEmailEnabled_def Login_def UpdateRegisterInviteCode_def saveRegisterInviteCode_def Let_def
  by (intro rules; simp)+

text \<open>
  A predicate of this kind is kept by every request once the handlers that create, remove or
  promote accounts and those that write messages keep it.
\<close>

lemma side_step:
  assumes "\<And>h u. keeps I (DeleteUser e h u)" and "\<And>h u r. keeps I (SetUserRole e h u r)"
    and "\<And>c n p nm em. keeps I (Register e c n p nm em)"
    and "\<And>h u c. keeps I (Send e h u c)" and "\<And>h u. keeps I (MarkRead e h u)" and "\<And>h c. keeps I (Broadcast e h c)"
  shows "I (db w) \<Longrightarrow> I (db (user_step e key op w))"
  by (cases op) (simp_all add: keeps_snd assms keeps_intros team_handlers group_handlers account_handlers)

end

locale account_invariant = side_invariant +
  assumes threads: "I (threads_update ft d) = I d"
    and messages: "I (messages_update fm d) = I d"
begin

lemma message_tables:
  "keeps I (q_update e threads threads_update P1 f1)" "keeps I (q_update e messages messages_update P2 f2)"
  "keeps I (q_create e threads threads_update m1)" "keeps I (q_create e messages messages_update m2)"
  by (rule keeps_update keeps_create, simp add: threads messages)+

lemma message_handlers:
  "keeps I (Send e h u c)" "keeps I (MarkRead e h u)" "keeps I (Broadcast e h c)"
proof -
  have s: "keeps I (dal_Send e a b c)" for a b c
    unfolding dal_Send_def by (intro rules message_tables; simp)
  have m: "keeps I (MarkThreadRead e a b)" for a b
    unfolding MarkThreadRead_def Let_def by (intro rules message_tables; simp)
  show "keeps I (Send e h u c)" "keeps I (MarkRead e h u)" "keeps I (Broadcast e h c)"
    unfolding Send_def MarkRead_def Broadcast_def by (intro rules s m keeps_broadcast_loop)+
qed

lemma account_step:
  assumes "\<And>h u. keeps I (DeleteUser e h u)" and "\<And>h u r. keeps I (SetUserRole e h u r)"
    and "\<And>c n p nm em. keeps I (Register e c n p nm em)"
  shows "I (db w) \<Longrightarrow> I (db (user_step e key op w))"
  by (rule side_step [OF assms message_handlers])

end

section \<open>The administrators\<close>

definition admin_ids :: "udb \<Rightarrow> nat set" where
  "admin_ids d = ID ` {u \<in> set (rows (users d)). live u \<and> u_RoleID u = RoleAdmin}"

definition admins_are :: "nat set \<Rightarrow> udb \<Rightarrow> bool" where
  "admins_are A d \<longleftrightarrow> wf_table (users d) \<and> admin_ids d = A"

lemma admin_ids_update:
  assumes "\<And>u. u \<in> set (rows (users d)) \<Longrightarrow> P u \<Longrightarrow> ID (f u) = ID u \<and>
    (live (f u) \<and> u_RoleID (f u) = RoleAdmin \<longleftrightarrow> live u \<and> u_RoleID u = RoleAdmin)"
  shows "admin_ids (users_update (update_where P f) d) = admin_ids d"
proof -
  have s: "{u \<in> set (rows (users (users_update (update_where P f) d))). live u \<and> u_RoleID u = RoleAdmin} =
      (\<lambda>u. if P u then f u else u) ` {u \<in> set (rows (users d)). live u \<and> u_RoleID u = RoleAdmin}"
    using assms by (auto simp: row_simps)
  have "ID (if P u then f u else u) = ID u" if "u \<in> set (rows (users d))" for u
    using assms that by simp
  then show ?thesis unfolding admin_ids_def s image_image by (intro image_cong) simp_all
qed

interpretation admins: account_invariant "admins_are A" for A
proof unfold_locales
  fix f :: "user \<Rightarrow> user" and d P
  assume f: "\<And>u. ID (f u) = ID u \<and> DeletedAt (f u) = DeletedAt u \<and> u_RoleID (f u) = u_RoleID u \<and>
      u_Username (f u) = u_Username u" and d: "admins_are A d"
  then show "admins_are A (users_update (update_where P f) d)"
    by (simp add: admins_are_def wf_update_where admin_ids_update live_def)
qed (simp_all add: admins_are_def admin_ids_def)

lemma GetById_succ [succ_simps]:
  "GetById e uid w = (Inr u, w') \<longleftrightarrow> \<not> stmt_fails e (ticks w) \<and> find_user (db w) uid = Some u \<and> w' = tick w"
  by (auto simp: GetById_def succ_simps find_user_def)

lemma keeps_admins_drop:
  assumes d: "admins_are A d" and u: "find_user d uid = Some u" and r: "u_RoleID u \<noteq> RoleAdmin"
  shows "admins_are A (users_update (update_where (\<lambda>v. live v \<and> int (ID v) = uid) (\<lambda>v. v\<lparr>DeletedAt := x\<rparr>)) d)"
    and "y \<noteq> RoleAdmin \<Longrightarrow>
      admins_are A (users_update (update_where (\<lambda>v. live v \<and> int (ID v) = uid) (\<lambda>v. v\<lparr>u_RoleID := y\<rparr>)) d)"
proof -
  have same: "v = u" if "v \<in> set (rows (users d))" "int (ID v) = uid" for v
    using d that find_user_SomeD [OF u] by (auto simp: admins_are_def intro: wf_table_id_inj)
  then have *: "u_RoleID v \<noteq> RoleAdmin" if "v \<in> set (rows (users d))" "int (ID v) = uid" for v
    using r that by blast
  from d show "admins_are A (users_update (update_where (\<lambda>v. live v \<and> int (ID v) = uid) (\<lambda>v. v\<lparr>DeletedAt := x\<rparr>)) d)"
    unfolding admins_are_def by (subst admin_ids_update) (use * in \<open>auto simp: wf_update_where\<close>)
  assume "y \<noteq> RoleAdmin"
  with d show "admins_are A (users_update (update_where (\<lambda>v. live v \<and> int (ID v) = uid) (\<lambda>v. v\<lparr>u_RoleID := y\<rparr>)) d)"
    unfolding admins_are_def by (subst admin_ids_update) (use * in \<open>auto simp: wf_update_where\<close>)
qed

text \<open>Deleting and re-roling look the target up first; no write lies in between.\<close>

lemma keeps_guarded:
  assumes "\<And>w u. I (db w) \<Longrightarrow> find_user (db w) uid = Some u \<Longrightarrow> I (db (snd (k u (tick w))))"
  shows "keeps I (bindE (withErr h (GetById e uid)) k)"
proof (rule keepsI)
  fix w r w' assume "I (db w)" and "bindE (withErr h (GetById e uid)) k w = (r, w')"
  with assms [of w] show "I (db w')"
    by (cases "GetById e uid w")
      (auto simp: bindE_def withErr_def q_first_succ find_user_def GetById_def dest: stmt_err(1) split: sum.splits prod.splits)
qed

lemma keeps_admins_DeleteUser: "keeps (admins_are A) (DeleteUser e h uid)"
proof -
  have k: "admins_are A (db (snd (bindE (withErr er (dal_DeleteUser e uid)) (\<lambda>_. recordUserOperation e h a t i x) (tick w))))"
    if I: "admins_are A (db w)" and u: "find_user (db w) uid = Some u" and r: "u_RoleID u \<noteq> RoleAdmin" for w u er a t i x
  proof -
    have d: "admins_are A (db (snd (dal_DeleteUser e uid (tick w))))"
    proof (cases "dal_DeleteUser e uid (tick w)")
      case (Pair res w1)
      show ?thesis
      proof (cases res)
        case (Inl err)
        with Pair delete_user.atomic I show ?thesis by fastforce
      next
        case (Inr un)
        with Pair have "dal_DeleteUser e uid (tick w) = (Inr (), w1)" by simp
        from dal_DeleteUser_succ [OF this] u obtain t1 t2 where
            e: "db w1 = drop_user uid t2 (drop_invites uid t1 (hand_over u (db w)))" by auto
        have "admins_are A (drop_invites uid t1 (hand_over u (db w)))"
          using I by (simp add: drop_invites_def admins.invites hand_over_def admins.groups)
        moreover have "find_user (drop_invites uid t1 (hand_over u (db w))) uid = Some u"
          using u by (simp add: find_user_def drop_invites_def)
        ultimately show ?thesis
          using r keeps_admins_drop(1) unfolding Pair snd_conv e drop_user_def by blast
      qed
    qed
    show ?thesis
      by (cases "dal_DeleteUser e uid (tick w)")
        (use d in \<open>auto simp: bindE_def withErr_def intro: keeps_snd [OF admins.audit] split: sum.splits\<close>)
  qed
  show ?thesis
    unfolding DeleteUser_def
    by (intro keeps_intros keeps_guarded)
      (auto simp: canDeleteUser_iff failE_def intro: k)
qed

lemma keeps_admins_SetUserRole: "keeps (admins_are A) (SetUserRole e h uid r)"
proof -
  have k: "admins_are A (db (snd (bindE (withErr er (SetRoleId e uid r)) (\<lambda>_. recordUserOperation e h a t i x) (tick w))))"
    if I: "admins_are A (db w)" and u: "find_user (db w) uid = Some u" and r: "u_RoleID u \<noteq> RoleAdmin" "r \<noteq> RoleAdmin"
    for w u er a t i x r
  proof -
    have "admins_are A (db (snd (SetRoleId e uid r (tick w))))"
      using I keeps_admins_drop(2) [OF I u r]
      by (simp add: SetRoleId_def UpdateCacheDal_def bindE_def q_update_def stmt_def returnE_def rdb_del_def)
    then show ?thesis
      by (cases "SetRoleId e uid r (tick w)")
        (auto simp: bindE_def withErr_def intro: keeps_snd [OF admins.audit] split: sum.splits)
  qed
  show ?thesis
    unfolding SetUserRole_def
    by (rule keeps_bind, intro keeps_intros, rule keeps_sum, rule keeps_fail,
        intro keeps_if keeps_fail keeps_guarded)
      (auto simp: canSetUserRole_iff failE_def RoleUser_def RoleCoach_def RoleAdmin_def intro: k [unfolded RoleAdmin_def])
qed

lemma keeps_admins_Register: "keeps (admins_are A) (Register e c n p nm em)"
proof -
  have c: "keeps (admins_are A) (q_create e users users_update (\<lambda>i now. mk i now))"
    if "\<And>i now. ID (mk i now) = i \<and> u_RoleID (mk i now) = 0" for mk :: "nat \<Rightarrow> time \<Rightarrow> user"
    by (rule keeps_create)
      (use that in \<open>auto simp: admins_are_def wf_insert_row admin_ids_def row_simps role_defs\<close>)
  show ?thesis unfolding Register_def Let_def by (intro keeps_intros c) simp
qed

interpretation admins_run: invariant_system "user_step e key" "\<lambda>w. admins_are A (db w)"
  for e :: "'x user_env_scheme" and key A
  by unfold_locales
    (rule admins.account_step [OF keeps_admins_DeleteUser keeps_admins_SetUserRole keeps_admins_Register])

section \<open>User names\<close>

definition names_ok :: "udb \<Rightarrow> bool" where
  "names_ok d \<longleftrightarrow> wf_table (users d) \<and> (\<forall>u \<in> set (rows (users d)). \<forall>v \<in> set (rows (users d)).
     live u \<and> live v \<and> u_Username u = u_Username v \<longrightarrow> ID u = ID v)"

lemma names_okD:
  "names_ok d \<Longrightarrow> u \<in> set (rows (users d)) \<Longrightarrow> v \<in> set (rows (users d)) \<Longrightarrow> live u \<Longrightarrow> live v \<Longrightarrow>
   u_Username u = u_Username v \<Longrightarrow> ID u = ID v"
  unfolding names_ok_def by blast

lemma names_okI:
  assumes "wf_table (users d)"
    and "\<And>u v. u \<in> set (rows (users d)) \<Longrightarrow> v \<in> set (rows (users d)) \<Longrightarrow> live u \<Longrightarrow> live v \<Longrightarrow>
      u_Username u = u_Username v \<Longrightarrow> ID u = ID v"
  shows "names_ok d"
  using assms unfolding names_ok_def by blast

lemma names_ok_update:
  assumes "names_ok d" and f: "\<And>u. ID (f u) = ID u \<and> (live (f u) \<longrightarrow> live u) \<and> u_Username (f u) = u_Username u"
  shows "names_ok (users_update (update_where P f) d)"
proof -
  have "ID u = ID v" if u: "u \<in> set (rows (users (users_update (update_where P f) d)))"
      and v: "v \<in> set (rows (users (users_update (update_where P f) d)))"
      and l: "live u" "live v" "u_Username u = u_Username v" for u v
  proof -
    have orig: "\<exists>y \<in> set (rows (users d)). ID x = ID y \<and> live y \<and> u_Username x = u_Username y"
      if "x \<in> set (rows (users (users_update (update_where P f) d)))" "live x" for x
    proof -
      from that(1) have "x \<in> set (rows (update_where P f (users d)))" by simp
      from update_where_rowD [OF this] obtain g where g: "g \<in> set (rows (users d))" "x = (if P g then f g else g)" ..
      with f [of g] that(2) show ?thesis by (intro bexI [of _ g]) (auto split: if_splits)
    qed
    from orig [OF u l(1)] obtain y where y: "y \<in> set (rows (users d))" "ID u = ID y" "live y" "u_Username u = u_Username y"
      by blast
    from orig [OF v l(2)] obtain z where z: "z \<in> set (rows (users d))" "ID v = ID z" "live z" "u_Username v = u_Username z"
      by blast
    have "ID y = ID z"
      by (rule names_okD [OF assms(1) y(1) z(1) y(3) z(3)]) (use y(4) z(4) l(3) in simp)
    with y(2) z(2) show ?thesis by simp
  qed
  moreover have "wf_table (users (users_update (update_where P f) d))"
    using assms by (simp add: names_ok_def wf_update_where)
  ultimately show ?thesis by (intro names_okI)
qed

interpretation names: account_invariant names_ok
proof unfold_locales
  fix f :: "user \<Rightarrow> user" and d P
  assume "\<And>u. ID (f u) = ID u \<and> DeletedAt (f u) = DeletedAt u \<and> u_RoleID (f u) = u_RoleID u \<and>
      u_Username (f u) = u_Username u" and "names_ok d"
  then show "names_ok (users_update (update_where P f) d)"
    by (intro names_ok_update) (simp_all add: live_def)
qed (simp_all add: names_ok_def)

lemma keeps_names_DeleteUser: "keeps names_ok (DeleteUser e h uid)"
proof -
  have u: "keeps names_ok (user_update e Q (\<lambda>now u. u\<lparr>DeletedAt := Some now\<rparr>))" for Q
    by (rule keeps_update) (auto intro!: names_ok_update simp: live_def)
  have "keeps names_ok (dal_DeleteUser e uid)"
    unfolding dal_DeleteUser_def by (intro u keeps_intros keeps_tx names.updates(2-))
  then show ?thesis unfolding DeleteUser_def by (intro names.rules)
qed

lemma keeps_names_SetUserRole: "keeps names_ok (SetUserRole e h uid r)"
proof -
  have u: "keeps names_ok (user_update e Q (\<lambda>now u. u\<lparr>u_RoleID := r\<rparr>))" for Q
    by (rule keeps_update) (auto intro!: names_ok_update simp: live_def)
  have "keeps names_ok (SetRoleId e uid r)"
    unfolding SetRoleId_def by (intro u keeps_intros)
  then show ?thesis unfolding SetUserRole_def by (intro names.rules)
qed

lemma names_ok_insert:
  assumes d: "names_ok d" and i: "ID u = seq (users d)" and n: "u_Username u = n"
    and f: "filter (\<lambda>u. live u \<and> u_Username u = n) (rows (users d)) = []"
  shows "names_ok (users_update (insert_row u) d)"
proof (rule names_okI)
  show "wf_table (users (users_update (insert_row u) d))"
    using d i by (simp add: names_ok_def wf_insert_row)
  fix x y assume "x \<in> set (rows (users (users_update (insert_row u) d)))" "y \<in> set (rows (users (users_update (insert_row u) d)))"
    and l: "live x" "live y" "u_Username x = u_Username y"
  then have xy: "x = u \<or> x \<in> set (rows (users d))" "y = u \<or> y \<in> set (rows (users d))" by (simp_all add: row_simps)
  have no: "u_Username v \<noteq> n" if "v \<in> set (rows (users d))" "live v" for v
    using that f by (simp add: filter_empty_conv)
  show "ID x = ID y"
  proof (cases "x = u \<or> y = u")
    case True
    with xy l n no have "x = u \<and> y = u" by metis
    then show ?thesis by simp
  next
    case False
    with xy have "x \<in> set (rows (users d))" "y \<in> set (rows (users d))" by simp_all
    then show ?thesis by (rule names_okD [OF d _ _ l])
  qed
qed

text \<open>Registration checks the name with a query whose error is ignored, so this needs a database
  that answers.\<close>

lemma keeps_names_Register:
  assumes "reliable e"
  shows "keeps names_ok (Register e c n p nm em)"
proof (rule keepsI)
  fix w r w' assume d: "names_ok (db w)" and r: "Register e c n p nm em w = (r, w')"
  have "db w' = db w \<or> (\<exists>hash t. filter (\<lambda>u. live u \<and> u_Username u = n) (rows (users (db w))) = [] \<and>
      db w' = users_update (insert_row (newUser n hash nm em (seq (users (db w))) t)) (db w))"
    using r assms
    by (auto simp: Register_def getRegisterInviteCode_def bindE_def tryE_def q_first_def q_select_def q_create_def
        stmt_def returnE_def hashPassword_def reliable_def Let_def Suc_le_eq
        split: prod.splits sum.splits option.splits if_splits) blast+
  then show "names_ok (db w')"
  proof (elim disjE exE conjE)
    assume "db w' = db w"
    with d show ?thesis by simp
  next
    fix hash t assume "filter (\<lambda>u. live u \<and> u_Username u = n) (rows (users (db w))) = []"
      "db w' = users_update (insert_row (newUser n hash nm em (seq (users (db w))) t)) (db w)"
    with names_ok_insert [OF d] show ?thesis by simp
  qed
qed

lemma names_run:
  assumes "reliable e"
  shows "names_ok (db w) \<Longrightarrow> names_ok (db (user_run e key ops w))"
  unfolding user_run_def
  by (induction ops arbitrary: w)
    (simp_all add: names.account_step [OF keeps_names_DeleteUser keeps_names_SetUserRole keeps_names_Register [OF assms]])

section \<open>Messages and teams along a run\<close>

interpretation msgs: side_invariant msg_inv
  by unfold_locales simp_all

lemma keeps_msg_accounts:
  "keeps msg_inv (DeleteUser e h uid)" "keeps msg_inv (SetUserRole e h uid r)" "keeps msg_inv (Register e c n p nm em)"
proof -
  have u: "keeps msg_inv (q_update e users users_update P f)" "keeps msg_inv (q_create e users users_update m)" for P f m
    by (rule keeps_update keeps_create, simp)+
  have d: "keeps msg_inv (dal_DeleteUser e uid)" "keeps msg_inv (SetRoleId e uid r)"
    unfolding dal_DeleteUser_def SetRoleId_def by (intro u keeps_intros keeps_tx msgs.updates(2-))+
  show "keeps msg_inv (DeleteUser e h uid)" "keeps msg_inv (SetUserRole e h uid r)"
    unfolding DeleteUser_def SetUserRole_def by (intro d msgs.rules)+
  show "keeps msg_inv (Register e c n p nm em)"
    unfolding Register_def Let_def by (intro u msgs.rules)
qed

interpretation msgs_run: invariant_system "user_step e key" "\<lambda>w. msg_inv (db w)"
  for e :: "'x user_env_scheme" and key
  by unfold_locales (rule msgs.side_step [OF keeps_msg_accounts keeps_message_handlers])

text \<open>
  The team tables: the requests other than \<^verbatim>\<open>MoveGroup\<close>, which writes a user's team without looking
  at captains.
\<close>

fun moves :: "user_op \<Rightarrow> bool" where
  "moves (RMoveGroup h u g) = True"
| "moves _ = False"

lemma team_inv_frame:
  "users d' = users d \<Longrightarrow> groups d' = groups d \<Longrightarrow> invites d' = invites d \<Longrightarrow> team_inv d' = team_inv d"
  by (simp add: team_inv_def owner_ok_def pending_ok_def)

lemma team_inv_frames [simp]:
  "team_inv (threads_update ft d) = team_inv d" "team_inv (messages_update fm d) = team_inv d"
  "team_inv (configs_update fc d) = team_inv d"
  by (rule team_inv_frame; simp)+

lemma team_inv_user_edit:
  assumes d: "team_inv d" and f: "\<And>u. ID (f u) = ID u \<and> DeletedAt (f u) = DeletedAt u \<and> u_GroupId (f u) = u_GroupId u"
  shows "team_inv (users_update (update_where P f) d)"
proof -
  have "owner_ok (users_update (update_where P f) d)"
    unfolding owner_ok_def
  proof (intro ballI impI)
    fix g assume "g \<in> set (rows (groups (users_update (update_where P f) d)))" "live g \<and> g_OwnerId g \<noteq> 0"
    with d obtain u where u: "u \<in> set (rows (users d))" "live u" "int (ID u) = g_OwnerId g" "u_GroupId u = int (ID g)"
      by (auto simp: team_inv_def dest: owner_okD)
    then show "\<exists>u \<in> set (rows (users (users_update (update_where P f) d))).
        live u \<and> int (ID u) = g_OwnerId g \<and> u_GroupId u = int (ID g)"
      using f [of u] by (intro bexI [of _ "if P u then f u else u"]) (auto simp: row_simps live_def)
  qed
  with d f show ?thesis by (simp add: team_inv_def wf_update_where)
qed

lemma team_inv_new_user:
  "team_inv d \<Longrightarrow> ID u = seq (users d) \<Longrightarrow> team_inv (users_update (insert_row u) d)"
  by (auto simp: team_inv_def owner_ok_def row_simps wf_insert_row)

lemma team_rules:
  "(\<And>now u. ID (f now u) = ID u \<and> DeletedAt (f now u) = DeletedAt u \<and> u_GroupId (f now u) = u_GroupId u) \<Longrightarrow>
     keeps team_inv (q_update e users users_update P f)"
  "(\<And>i now. ID (m i now) = i) \<Longrightarrow> keeps team_inv (q_create e users users_update m)"
  "keeps team_inv (q_update e threads threads_update P1 f1)" "keeps team_inv (q_create e threads threads_update m1)"
  "keeps team_inv (q_update e messages messages_update P2 f2)" "keeps team_inv (q_create e messages messages_update m2)"
  "keeps team_inv (q_update e configs configs_update P3 f3)" "keeps team_inv (q_create e configs configs_update m3)"
  by (rule keeps_update keeps_create, simp add: team_inv_user_edit team_inv_new_user)+

lemma keeps_team_accounts [keeps_intros]:
  "keeps team_inv (svc_Update e h v a n m)" "keeps team_inv (ChangePassword e h x old new)"
  "keeps team_inv (SetEmailEnabled e h x b)" "keeps team_inv (Login e key n p)"
  "keeps team_inv (UpdateRegisterInviteCode e h c)" "keeps team_inv (SetUserRole e h x r)"
  "keeps team_inv (Register e c n p nm em)" "keeps team_inv (DeleteUser e h x)"
  unfolding svc_Update_def dal_Update_def ChangePassword_def dal_ChangePassword_def SetEmailEnabled_def
    dal_SetEmailEnabled_def Login_def UpdateRegisterInviteCode_def saveRegisterInviteCode_def SetUserRole_def
    SetRoleId_def Register_def DeleteUser_def Let_def
  by (intro keeps_intros team_rules; simp)+

lemma keeps_team_messages [keeps_intros]:
  "keeps team_inv (Send e h u c)" "keeps team_inv (MarkRead e h u)" "keeps team_inv (Broadcast e h c)"
proof -
  have s: "keeps team_inv (dal_Send e a b c)" "keeps team_inv (MarkThreadRead e a b)" for a b c
    unfolding dal_Send_def MarkThreadRead_def Let_def by (intro keeps_intros keeps_tx team_rules; simp)+
  show "keeps team_inv (Send e h u c)" "keeps team_inv (MarkRead e h u)" "keeps team_inv (Broadcast e h c)"
    unfolding Send_def MarkRead_def Broadcast_def by (intro keeps_intros s keeps_broadcast_loop)+
qed

lemma team_step: "\<not> moves op \<Longrightarrow> team_inv (db w) \<Longrightarrow> team_inv (db (user_step e key op w))"
  by (cases op) (simp_all add: keeps_snd keeps_intros)

interpretation team_run: invariant_system
  "\<lambda>op w. if moves op then w else user_step e key op w" "\<lambda>w. team_inv (db w)"
  for e :: "'x user_env_scheme" and key
  by unfold_locales (simp add: team_step)

end
