(* ===== verification/Samples.thy ===== *)
theory Samples
  imports UserSystem
begin

text \<open>
  A small world and an environment for it, the concrete inputs on which the properties of the
  user service are exercised: three users, of whom the first two form a team.
\<close>

definition u_ex :: "nat \<Rightarrow> string \<Rightarrow> int \<Rightarrow> int \<Rightarrow> user" where
  "u_ex i n g r = \<lparr>ID = i, CreatedAt = 0, DeletedAt = None, u_Username = n, u_Password = ''$2a$'' @ n,
     u_Avatar = '''', u_Name = n, u_Email = '''', u_GroupId = g, u_RoleID = r, u_EmailEnabled = True\<rparr>"

definition d_ex :: udb where
  "d_ex = \<lparr>users = \<lparr>rows = [u_ex 1 ''ann'' 1 1, u_ex 2 ''bob'' 1 0, u_ex 3 ''cat'' 0 2], seq = 4\<rparr>,
     groups = \<lparr>rows = [\<lparr>ID = 1, CreatedAt = 0, DeletedAt = None, g_Name = Some ''red'', g_Describe = '''',
       g_Avatar = '''', g_OwnerId = 1\<rparr>], seq = 2\<rparr>,
     invites = \<lparr>rows = [], seq = 1\<rparr>, threads = \<lparr>rows = [], seq = 1\<rparr>, messages = \<lparr>rows = [], seq = 1\<rparr>,
     oplogs = \<lparr>rows = [], seq = 1\<rparr>, configs = \<lparr>rows = [], seq = 1\<rparr>\<rparr>"

definition w_ex :: "udb world" where
  "w_ex = \<lparr>db = d_ex, rdb = (\<lambda>_. None), ticks = 0\<rparr>"

text \<open>An environment without failures; a token's payload segment is the user id in one digit.\<close>

definition pay_ex :: "string \<Rightarrow> JwtPayload option" where
  "pay_ex s = (if s = ''1'' then Some \<lparr>UserID = 1, jwt_Username = ''ann'', jwt_Name = ''ann'', jwt_Email = '''', RoleID = 1\<rparr>
     else if s = ''2'' then Some \<lparr>UserID = 2, jwt_Username = ''bob'', jwt_Name = ''bob'', jwt_Email = '''', RoleID = 0\<rparr>
     else if s = ''3'' then Some \<lparr>UserID = 3, jwt_Username = ''cat'', jwt_Name = ''cat'', jwt_Email = '''', RoleID = 2\<rparr>
     else None)"

definition e_ex :: user_env where
  "e_ex = \<lparr>stmt_fails = (\<lambda>_. False), clock = (\<lambda>n. int n), decode_payload = pay_ex,
     bcrypt_generate = (\<lambda>_ p. Inr (''$2a$'' @ p)), bcrypt_compare = (\<lambda>h p. h = ''$2a$'' @ p),
     jwt_sign = (\<lambda>_ c. Inr (cl_username c)), json_marshal = (\<lambda>_. Some ''{}''), json_valid = (\<lambda>_. True),
     rpc_last_submit = (\<lambda>_ _. None), rpc_spiders = (\<lambda>_ _. Inr [])\<rparr>"

lemmas ex_defs = u_ex_def d_ex_def w_ex_def pay_ex_def e_ex_def

lemma team_inv_ex: "team_inv d_ex"
  by (simp add: team_inv_def wf_table_def owner_ok_def pending_ok_def d_ex_def u_ex_def live_def)

lemma msg_inv_ex: "msg_inv d_ex"
  by (simp add: msg_inv_def wf_table_def d_ex_def)

definition e_flaky :: "nat \<Rightarrow> user_env" where
  "e_flaky n = e_ex\<lparr>stmt_fails := (\<lambda>k. k = n)\<rparr>"

text \<open>A world in which an account still has a plain password.\<close>

definition w_old :: "udb world" where
  "w_old = w_ex\<lparr>db := d_ex\<lparr>users := \<lparr>rows = [(u_ex 2 ''bob'' 1 0)\<lparr>u_Password := ''old''\<rparr>], seq = 3\<rparr>\<rparr>\<rparr>"

end
