(* ===== verification/UserProperties.thy ===== *)
theory UserProperties
  imports Samples
begin

text \<open>
  The properties of the user service. Each is a short step from the lemmas of the component
  theories; the witnesses run the definitions on the world of theory \<open>Samples\<close>.
\<close>

section \<open>Teams\<close>

text \<open>C1. Captains stay members of their team and a user has at most one pending invitation per team, along every run of requests of the user service other than \<^verbatim>\<open>MoveGroup\<close>, whichever statements fail on the way.\<close>

theorem team_invariant_run:
  assumes "team_inv (db w)" and "\<forall>op \<in> set ops. \<not> moves op"
  shows "team_inv (db (user_run e key ops w))"
proof -
  have "user_run e key ops w = fold (\<lambda>op w. if moves op then w else user_step e key op w) ops w"
    using assms(2) unfolding user_run_def by (intro fold_cong) simp_all
  with team_run.run_inv [OF assms(1)] show ?thesis by simp
qed

theorem team_invariant_run_witness:
  "team_inv (db (user_run e_ex [] [RRemoveTeamMember ''Bearer a.1.c'' 2, RDeleteUser ''Bearer a.1.c'' 3] w_ex))"
  by (rule team_invariant_run) (simp_all add: w_ex_def team_inv_ex)

text \<open>C4. A signed-in user who is not the captain of their team cannot update it, invite, remove a member, hand the captaincy on or disband: the request errors and the tables are as before.\<close>

theorem captain_only:
  assumes "GetCurrentUser e hdr = Some cur" and "\<not> is_captain (db w) (int64_of (UserID cur))"
  shows "(\<exists>er w'. UpdateTeam e hdr gid name avatar descr w = (Inl er, w') \<and> db w' = db w) \<and>
    (\<exists>er w'. InviteTeamMember e hdr uid w = (Inl er, w') \<and> db w' = db w) \<and>
    (\<exists>er w'. RemoveTeamMember e hdr uid w = (Inl er, w') \<and> db w' = db w) \<and>
    (\<exists>er w'. TransferTeamOwner e hdr uid w = (Inl er, w') \<and> db w' = db w) \<and>
    (\<exists>er w'. DisbandTeam e hdr w = (Inl er, w') \<and> db w' = db w)"
  using assms
  by (intro conjI must_fail) (auto dest: team_handlers_atomic captain_of_handler [OF assms(1)])

theorem captain_only_witness:
  "\<exists>er w'. DisbandTeam e_ex ''Bearer a.2.c'' w_ex = (Inl er, w') \<and> db w' = db w_ex"
proof -
  have "GetCurrentUser e_ex ''Bearer a.2.c'' = pay_ex ''2''" by code_simp
  then have "GetCurrentUser e_ex ''Bearer a.2.c'' = Some \<lparr>UserID = 2, jwt_Username = ''bob'', jwt_Name = ''bob'', jwt_Email = '''', RoleID = 0\<rparr>"
    by (simp add: pay_ex_def)
  moreover have "\<not> is_captain (db w_ex) 2"
    by (simp add: is_captain_def find_user_def find_group_def first_where_def ex_defs live_def captain_def)
  ultimately show ?thesis
    using captain_only [of e_ex "''Bearer a.2.c''" _ w_ex] by simp
qed

text \<open>C5. A team request that errors, at any statement or guard, has changed nothing in the tables.\<close>

theorem failed_team_request_changes_nothing:
  "(CreateTeam e hdr name avatar descr w = (Inl er, w') \<longrightarrow> db w' = db w) \<and>
   (UpdateTeam e hdr gid name avatar descr w = (Inl er, w') \<longrightarrow> db w' = db w) \<and>
   (InviteTeamMember e hdr uid w = (Inl er, w') \<longrightarrow> db w' = db w) \<and>
   (RemoveTeamMember e hdr uid w = (Inl er, w') \<longrightarrow> db w' = db w) \<and>
   (TransferTeamOwner e hdr uid w = (Inl er, w') \<longrightarrow> db w' = db w) \<and>
   (LeaveTeam e hdr w = (Inl er, w') \<longrightarrow> db w' = db w) \<and>
   (DisbandTeam e hdr w = (Inl er, w') \<longrightarrow> db w' = db w) \<and>
   (RespondTeamInvite e hdr iid accept w = (Inl er, w') \<longrightarrow> db w' = db w)"
  by (intro conjI impI) (erule team_handlers_atomic)+

theorem failed_team_request_witness:
  "\<exists>er w'. DisbandTeam (e_flaky 4) ''Bearer a.1.c'' w_ex = (Inl er, w') \<and> db w' = db w_ex"
proof -
  have "isl (fst (DisbandTeam (e_flaky 4) ''Bearer a.1.c'' w_ex))" by code_simp
  then obtain er w' where "DisbandTeam (e_flaky 4) ''Bearer a.1.c'' w_ex = (Inl er, w')"
    by (metis isl_def prod.collapse)
  with failed_team_request_changes_nothing [of "e_flaky 4" "''Bearer a.1.c''" _ _ _ w_ex er w'] show ?thesis by auto
qed

text \<open>Removing a member clears that user's team, touches no other user, and leaves no pending invitation of theirs.\<close>

theorem remove_member_effect:
  assumes "RemoveTeamMember e hdr uid w = (Inr v, w')"
  shows "rows (users (db w')) =
      map (\<lambda>u. if live u \<and> int (ID u) = uid then u\<lparr>u_GroupId := 0\<rparr> else u) (rows (users (db w))) \<and>
    (\<forall>i \<in> set (rows (invites (db w'))). pending i \<longrightarrow> i_InviteeId i \<noteq> uid)"
proof -
  from team_handlers_succ(3) [OF assms] obtain cur :: JwtPayload and w1 where
    "dal_RemoveTeamMember e (int64_of (UserID cur)) uid w = (Inr (), w1)"
    and eq: "users (db w') = users (db w1)" "invites (db w') = invites (db w1)" by auto
  from RemoveTeamMember_succ [OF this(1)] obtain g where
    d: "db w1 = reject_pending (\<lambda>i. i_InviteeId i = uid) (set_team uid 0 (set_captain g (db w)))" by blast
  show ?thesis
    unfolding eq d using none_pending [of _ "\<lambda>i. i_InviteeId i = uid"]
    by (auto simp: set_team_def row_simps)
qed

theorem remove_member_effect_witness:
  "\<exists>v w'. RemoveTeamMember e_ex ''Bearer a.1.c'' 2 w_ex = (Inr v, w') \<and>
     rows (users (db w')) = [u_ex 1 ''ann'' 1 1, u_ex 2 ''bob'' 0 0, u_ex 3 ''cat'' 0 2]"
proof -
  have "\<not> isl (fst (RemoveTeamMember e_ex ''Bearer a.1.c'' 2 w_ex))" by code_simp
  then obtain v w' where r: "RemoveTeamMember e_ex ''Bearer a.1.c'' 2 w_ex = (Inr v, w')"
    by (metis isl_def old.sum.exhaust prod.collapse)
  with remove_member_effect [OF r] show ?thesis by (simp add: w_ex_def d_ex_def u_ex_def live_def)
qed

text \<open>Disbanding deletes the captain's team, takes every member and no one else out of it, and leaves no pending invitation to it.\<close>

theorem disband_effect:
  assumes "DisbandTeam e hdr w = (Inr v, w')"
  shows "\<exists>gid. gid \<noteq> 0 \<and>
    (\<forall>g \<in> set (rows (groups (db w'))). live g \<longrightarrow> int (ID g) \<noteq> gid) \<and>
    (\<forall>i \<in> set (rows (invites (db w'))). pending i \<longrightarrow> i_GroupId i \<noteq> gid) \<and>
    rows (users (db w')) = map (\<lambda>u. if live u \<and> u_GroupId u = gid then u\<lparr>u_GroupId := 0\<rparr> else u) (rows (users (db w)))"
proof -
  from team_handlers_succ(5) [OF assms] obtain cur :: JwtPayload and w1 where
    "dal_DisbandTeam e (int64_of (UserID cur)) w = (Inr (), w1)"
    and eq: "users (db w') = users (db w1)" "groups (db w') = groups (db w1)" "invites (db w') = invites (db w1)" by auto
  from DisbandTeam_succ [OF this(1)] obtain u :: user and g t where gid: "u_GroupId u \<noteq> 0" and
    d: "db w1 = groups_update (update_where (\<lambda>h. live h \<and> int (ID h) = u_GroupId u) (\<lambda>h. h\<lparr>DeletedAt := Some t\<rparr>))
        (reject_pending (\<lambda>i. i_GroupId i = u_GroupId u)
          (users_update (update_where (\<lambda>v. live v \<and> u_GroupId v = u_GroupId u) (\<lambda>v. v\<lparr>u_GroupId := 0\<rparr>))
            (set_captain g (db w))))" by blast
  have "int (ID h) \<noteq> u_GroupId u" if h: "h \<in> set (rows (groups (db w1)))" "live h" for h
  proof -
    from h(1) have "h \<in> set (rows (update_where (\<lambda>h. live h \<and> int (ID h) = u_GroupId u) (\<lambda>h. h\<lparr>DeletedAt := Some t\<rparr>)
        (groups (set_captain g (db w)))))" by (simp add: d)
    from update_where_rowD [OF this] h(2) show ?thesis by (elim bexE) (simp add: live_def split: if_splits)
  qed
  then show ?thesis
    using gid none_pending [of _ "\<lambda>i. i_GroupId i = u_GroupId u"] unfolding eq
    by (intro exI [of _ "u_GroupId u"]) (auto simp: d row_simps)
qed

theorem disband_effect_witness:
  "\<exists>v w' gid. DisbandTeam e_ex ''Bearer a.1.c'' w_ex = (Inr v, w') \<and> gid \<noteq> 0 \<and>
     (\<forall>g \<in> set (rows (groups (db w'))). live g \<longrightarrow> int (ID g) \<noteq> gid)"
proof -
  have "\<not> isl (fst (DisbandTeam e_ex ''Bearer a.1.c'' w_ex))" by code_simp
  then obtain v w' where r: "DisbandTeam e_ex ''Bearer a.1.c'' w_ex = (Inr v, w')"
    by (metis isl_def old.sum.exhaust prod.collapse)
  with disband_effect [OF r] show ?thesis by blast
qed

text \<open>Accepting an invitation puts a user who was in no team into the inviting, still existing team, and closes all other invitations of that user.\<close>

theorem accept_invite_effect:
  assumes "team_inv (db w)" and "RespondTeamInvite e hdr iid True w = (Inr v, w')"
  shows "\<exists>cur u g. GetCurrentUser e hdr = Some cur \<and>
    find_user (db w) (int64_of (UserID cur)) = Some u \<and> u_GroupId u = 0 \<and>
    find_user (db w') (int64_of (UserID cur)) = Some (u\<lparr>u_GroupId := int (ID g)\<rparr>) \<and>
    find_group (db w) (int (ID g)) = Some g \<and>
    (\<forall>i \<in> set (rows (invites (db w'))). pending i \<longrightarrow> i_InviteeId i \<noteq> int64_of (UserID cur))"
proof -
  from team_handlers_succ(6) [OF assms(2)] obtain cur where cur: "GetCurrentUser e hdr = Some cur"
    and r: "RespondInvite e (int64_of (UserID cur)) iid True w = (Inr (), w')" by auto
  let ?uid = "int64_of (UserID cur)"
  from RespondInvite_succ [OF r] obtain iv u g where
      iv: "first_where (\<lambda>i. live i \<and> ID i = iid \<and> i_InviteeId i = ?uid \<and> i_Status i = ''pending'') (invites (db w)) = Some iv"
    and u: "find_user (db w) ?uid = Some u" "u_GroupId u = 0" and g: "find_group (db w) (i_GroupId iv) = Some g"
    and d: "db w' = reject_pending (\<lambda>i. i_InviteeId i = ?uid \<and> ID i \<noteq> iid)
            (invites_update (update_where (\<lambda>i. live i \<and> ID i = iid) (\<lambda>i. i\<lparr>i_Status := ''accepted''\<rparr>))
              (set_team ?uid (i_GroupId iv) (db w)))"
    by auto
  have gi: "i_GroupId iv = int (ID g)" using find_group_SomeD [OF g] by simp
  have us: "users (db w') = update_where (\<lambda>v. live v \<and> int (ID v) = ?uid) (\<lambda>v. v\<lparr>u_GroupId := int (ID g)\<rparr>) (users (db w))"
    by (simp add: d gi set_team_def)
  have "u\<lparr>u_GroupId := int (ID g)\<rparr> \<in> set (rows (users (db w')))"
    using find_user_SomeD [OF u(1)] unfolding us rows_update_where set_map by (intro image_eqI [of _ _ u]) simp_all
  moreover have "wf_table (users (db w'))"
    using assms(1) unfolding us by (simp add: team_inv_def wf_update_where)
  ultimately have "find_user (db w') ?uid = Some (u\<lparr>u_GroupId := int (ID g)\<rparr>)"
    using find_user_row [of "db w'" "u\<lparr>u_GroupId := int (ID g)\<rparr>"] find_user_SomeD [OF u(1)] by (simp add: live_def)
  moreover have "\<not> (pending i \<and> i_InviteeId i = ?uid)" if i: "i \<in> set (rows (invites (db w')))" for i
  proof (cases "ID i = iid")
    case False
    with none_pending [OF i [unfolded d]] show ?thesis by auto
  next
    case True
    let ?A = "update_where (\<lambda>i. live i \<and> ID i = iid) (\<lambda>i. i\<lparr>i_Status := ''accepted''\<rparr>) (invites (db w))"
    from i have "i \<in> set (rows (update_where (\<lambda>i. pending i \<and> i_InviteeId i = ?uid \<and> ID i \<noteq> iid)
        (\<lambda>i. i\<lparr>i_Status := ''rejected''\<rparr>) ?A))" by (simp add: d reject_pending_def)
    from update_where_rowD [OF this] obtain j where "j \<in> set (rows ?A)"
        "i = (if pending j \<and> i_InviteeId j = ?uid \<and> ID j \<noteq> iid then j\<lparr>i_Status := ''rejected''\<rparr> else j)" ..
    with True have "i \<in> set (rows ?A)" by (simp split: if_splits)
    from update_where_rowD [OF this] True show ?thesis
      by (elim bexE) (simp add: pending_def live_def split: if_splits)
  qed
  ultimately show ?thesis using cur u g gi by auto
qed

theorem accept_invite_effect_witness:
  "\<exists>v w'. RespondTeamInvite e_ex ''Bearer a.3.c'' 1 True (snd (InviteTeamMember e_ex ''Bearer a.1.c'' 3 w_ex)) = (Inr v, w') \<and>
     (\<exists>u. find_user (db w') 3 = Some u \<and> u_GroupId u \<noteq> 0)"
proof -
  let ?w = "snd (InviteTeamMember e_ex ''Bearer a.1.c'' 3 w_ex)"
  have "\<not> isl (fst (RespondTeamInvite e_ex ''Bearer a.3.c'' 1 True ?w))" by code_simp
  then obtain v w' where r: "RespondTeamInvite e_ex ''Bearer a.3.c'' 1 True ?w = (Inr v, w')"
    by (metis isl_def old.sum.exhaust prod.collapse)
  have t: "team_inv (db ?w)" by (rule keeps_snd [OF keeps_team_handlers(4)]) (simp add: w_ex_def team_inv_ex)
  have cur: "map_option UserID (GetCurrentUser e_ex ''Bearer a.3.c'') = Some 3" by code_simp
  from accept_invite_effect [OF t r] obtain cur u g where c: "GetCurrentUser e_ex ''Bearer a.3.c'' = Some cur"
      "find_user (db w') (int64_of (UserID cur)) = Some (u\<lparr>u_GroupId := int (ID g)\<rparr>)" "find_group (db ?w) (int (ID g)) = Some g"
    by blast
  with cur have "UserID cur = 3" by simp
  moreover from find_group_SomeD [OF c(3)] t have "ID g > 0" by (auto simp: team_inv_def wf_table_def)
  ultimately show ?thesis using r c(2) by auto
qed

text \<open>Inviting is idempotent: after a successful invitation there is exactly one pending one for the pair, its id is the reply, and if it was there before nothing was added.\<close>

theorem invite_once:
  assumes inv: "team_inv (db w)" and "InviteTeamMember e hdr uid w = (Inr iv, w')"
  shows "\<exists>cur u i. GetCurrentUser e hdr = Some cur \<and> find_user (db w) (int64_of (UserID cur)) = Some u \<and>
    {j \<in> set (rows (invites (db w'))). pending j \<and> i_GroupId j = u_GroupId u \<and> i_InviteeId j = uid} = {i} \<and>
    tr_InviteId iv = ID i \<and>
    (pending_invite (db w) (u_GroupId u) uid \<noteq> None \<longrightarrow> invites (db w') = invites (db w))"
proof -
  from team_handlers_succ(2) [OF assms(2)] obtain cur w1 row where cur: "GetCurrentUser e hdr = Some cur"
    and r: "InviteUser e (int64_of (UserID cur)) uid w = (Inr row, w1)"
    and iv: "tr_InviteId iv = ID row" "invites (db w') = invites (db w1)" by auto
  from InviteUser_succ [OF r] obtain u g where u: "find_user (db w) (int64_of (UserID cur)) = Some u"
    and c: "case pending_invite (db w) (u_GroupId u) uid of
         Some i \<Rightarrow> row = i \<and> db w1 = set_captain g (db w)
       | None \<Rightarrow> ID row = seq (invites (db w)) \<and> DeletedAt row = None \<and> i_GroupId row = u_GroupId u \<and>
           i_InviterId row = int64_of (UserID cur) \<and> i_InviteeId row = uid \<and> i_Status row = ''pending'' \<and>
           db w1 = invites_update (insert_row row) (set_captain g (db w))" by blast
  have row: "row \<in> set (rows (invites (db w1)))" "pending row" "i_GroupId row = u_GroupId u" "i_InviteeId row = uid"
    using c by (auto simp: row_simps pending_def live_def split: option.splits dest!: pending_invite_Some)
  have inv1: "team_inv (db w1)"
    using keepsD [OF keeps_InviteUser inv r] .
  have "j = row" if "j \<in> set (rows (invites (db w1)))" "pending j" "i_GroupId j = u_GroupId u" "i_InviteeId j = uid" for j
  proof -
    from inv1 that row have "ID j = ID row" unfolding team_inv_def pending_ok_def by metis
    with inv1 that(1) row(1) show ?thesis unfolding team_inv_def by (blast intro: wf_table_id_inj)
  qed
  with row have "{j \<in> set (rows (invites (db w'))). pending j \<and> i_GroupId j = u_GroupId u \<and> i_InviteeId j = uid} = {row}"
    unfolding iv(2) by blast
  moreover have "pending_invite (db w) (u_GroupId u) uid \<noteq> None \<longrightarrow> invites (db w') = invites (db w)"
    using c iv(2) by auto
  ultimately show ?thesis using cur u iv(1) by blast
qed

theorem invite_once_witness:
  "\<exists>iv w' i. InviteTeamMember e_ex ''Bearer a.1.c'' 3 w_ex = (Inr iv, w') \<and>
     {j \<in> set (rows (invites (db w'))). pending j \<and> i_GroupId j = 1 \<and> i_InviteeId j = 3} = {i}"
proof -
  have "fst (InviteTeamMember e_ex ''Bearer a.1.c'' 3 w_ex) =
      Inr \<lparr>ts_Success = True, ts_Message = ''invitation sent'', tr_InviteId = 1\<rparr>" by code_simp
  then obtain w' where r: "InviteTeamMember e_ex ''Bearer a.1.c'' 3 w_ex =
      (Inr \<lparr>ts_Success = True, ts_Message = ''invitation sent'', tr_InviteId = 1\<rparr>, w')" by (metis prod.collapse)
  have cur: "map_option UserID (GetCurrentUser e_ex ''Bearer a.1.c'') = Some 1" by code_simp
  have u: "map_option u_GroupId (find_user (db w_ex) 1) = Some 1" by code_simp
  have "team_inv (db w_ex)" by (simp add: w_ex_def team_inv_ex)
  from invite_once [OF this r] obtain cur0 u0 i where c: "GetCurrentUser e_ex ''Bearer a.1.c'' = Some cur0"
      "find_user (db w_ex) (int64_of (UserID cur0)) = Some u0"
      "{j \<in> set (rows (invites (db w'))). pending j \<and> i_GroupId j = u_GroupId u0 \<and> i_InviteeId j = 3} = {i}" by blast
  with cur have "UserID cur0 = 1" by simp
  with c(2) u have "u_GroupId u0 = 1" by simp
  with c(3) r show ?thesis by auto
qed

text \<open>\<^verbatim>\<open>MoveGroup\<close> breaks the ownership rule: it moves a captain to a team that does not exist and leaves the old team with a captain who is no member.\<close>

theorem move_group_breaks_ownership:
  "team_inv (db w_ex) \<and> (\<exists>v w'. MoveGroup e_ex ''Bearer a.1.c'' 1 7 w_ex = (Inr v, w') \<and> \<not> team_inv (db w'))"
proof -
  have "fst (MoveGroup e_ex ''Bearer a.1.c'' 1 7 w_ex) = Inr ()" by code_simp
  moreover have "rows (users (db (snd (MoveGroup e_ex ''Bearer a.1.c'' 1 7 w_ex)))) =
      [u_ex 1 ''ann'' 7 1, u_ex 2 ''bob'' 1 0, u_ex 3 ''cat'' 0 2]" by code_simp
  moreover have "rows (groups (db (snd (MoveGroup e_ex ''Bearer a.1.c'' 1 7 w_ex)))) = rows (groups d_ex)" by code_simp
  ultimately show ?thesis
    by (cases "MoveGroup e_ex ''Bearer a.1.c'' 1 7 w_ex")
      (simp add: w_ex_def team_inv_ex, simp add: team_inv_def owner_ok_def d_ex_def u_ex_def live_def)
qed

section \<open>Accounts\<close>

text \<open>C2. No run of requests adds or removes an administrator: the set of live accounts with the administrator role is fixed.\<close>

theorem admins_fixed:
  assumes "wf_table (users (db w))"
  shows "admin_ids (db (user_run e key ops w)) = admin_ids (db w)"
  using admins_run.run_inv [of "admin_ids (db w)" w e key ops] assms
  by (simp add: admins_are_def user_run_def)

theorem admins_fixed_witness:
  "admin_ids (db (user_run e_ex [] [RSetUserRole ''Bearer a.1.c'' 2 2, RDeleteUser ''Bearer a.1.c'' 3] w_ex)) = admin_ids (db w_ex)"
  by (rule admins_fixed) (simp add: w_ex_def d_ex_def wf_table_def u_ex_def)

text \<open>User names of live accounts stay unique along every run on a database that answers.\<close>

theorem usernames_stay_unique:
  assumes "reliable e" and "names_ok (db w)"
  shows "names_ok (db (user_run e key ops w))"
  using names_run [OF assms] .

theorem usernames_stay_unique_witness:
  "names_ok (db (user_run e_ex [] [RRegister ''wustacm666'' ''dan'' ''pw'' ''dan'' '''', RRegister ''wustacm666'' ''dan'' ''pw'' ''dan'' ''''] w_ex))"
  by (rule usernames_stay_unique)
    (simp_all add: reliable_def names_ok_def wf_table_def ex_defs live_def)

text \<open>Registration ignores the error of its name lookup: when that one statement fails, a taken name is registered a second time.\<close>

theorem register_duplicates_on_lookup_error:
  "let w' = snd (Register (e_flaky 1) ''wustacm666'' ''ann'' ''pw'' ''ann'' '''' w_ex) in
   names_ok (db w_ex) \<and> fst (Register (e_flaky 1) ''wustacm666'' ''ann'' ''pw'' ''ann'' '''' w_ex) =
     Inr \<lparr>rr_Success = True, rr_Message = ''registered''\<rparr> \<and> \<not> names_ok (db w')"
proof -
  have "fst (Register (e_flaky 1) ''wustacm666'' ''ann'' ''pw'' ''ann'' '''' w_ex) =
     Inr \<lparr>rr_Success = True, rr_Message = ''registered''\<rparr>" by code_simp
  moreover have "map (\<lambda>u. (ID u, live u, u_Username u)) (rows (users (db (snd (Register (e_flaky 1) ''wustacm666'' ''ann'' ''pw'' ''ann'' '''' w_ex)))))
     = [(1, True, ''ann''), (2, True, ''bob''), (3, True, ''cat''), (4, True, ''ann'')]" by code_simp
  then have "\<not> names_ok (db (snd (Register (e_flaky 1) ''wustacm666'' ''ann'' ''pw'' ''ann'' '''' w_ex)))"
    by (auto simp: names_ok_def map_eq_Cons_conv)
  moreover have "names_ok (db w_ex)" by (simp add: names_ok_def wf_table_def ex_defs live_def)
  ultimately show ?thesis by (simp add: Let_def)
qed

text \<open>C8. A password changes only for its owner who gave the old one, or by an administrator on a non-administrator; then exactly that user's hash is replaced, and any other outcome changes nothing.\<close>

theorem ChangePassword_rules:
  assumes "ChangePassword e hdr uid old new w = (r, w')"
  shows "(case r of
      Inr rep \<Rightarrow> cp_Success rep \<longrightarrow>
        (\<exists>cur t h k. GetCurrentUser e hdr = Some cur \<and> find_user (db w) uid = Some t \<and>
          (if int64_of (UserID cur) = uid then fst (verifyPassword e (u_Password t) old)
           else RoleID cur = RoleAdmin \<and> u_RoleID t \<noteq> RoleAdmin) \<and>
          bcrypt_generate e k new = Inr h \<and>
          users (db w') = update_where (\<lambda>u. live u \<and> int (ID u) = uid) (\<lambda>u. u\<lparr>u_Password := h\<rparr>) (users (db w)))
    | Inl er \<Rightarrow> True) \<and>
    ((case r of Inr rep \<Rightarrow> \<not> cp_Success rep | Inl er \<Rightarrow> True) \<longrightarrow> db w' = db w)"
proof (cases r)
  case (Inr rep)
  have "\<exists>cur t h k. GetCurrentUser e hdr = Some cur \<and> find_user (db w) uid = Some t \<and>
          (if int64_of (UserID cur) = uid then fst (verifyPassword e (u_Password t) old)
           else RoleID cur = RoleAdmin \<and> u_RoleID t \<noteq> RoleAdmin) \<and>
          bcrypt_generate e k new = Inr h \<and> users (db w') =
            update_where (\<lambda>u. live u \<and> int (ID u) = uid) (\<lambda>u. u\<lparr>u_Password := h\<rparr>) (users (db w))" if "cp_Success rep"
    using assms that Inr
    by (fastforce simp: ChangePassword_def Let_def succ_simps hashPassword_def dal_ChangePassword_def
        split: if_splits dest!: recordUserOperation_tables)
  moreover have "db w' = db w" if "\<not> cp_Success rep"
    using assms that Inr
    by (auto simp: ChangePassword_def Let_def succ_simps split: if_splits)
  ultimately show ?thesis using Inr by simp
next
  case (Inl er)
  have "db w' = db w"
    using assms Inl
    by (auto simp: ChangePassword_def Let_def err_simps succ_simps returnE_def failE_def
        hashPassword_def GetById_def split: if_splits dest!: loginE_err stmt_err(1) dal_ChangePassword_err)
  with Inl show ?thesis by simp
qed


theorem ChangePassword_rules_witness:
  "\<exists>rep w' h. ChangePassword e_ex ''Bearer a.2.c'' 2 ''bob'' ''new'' w_ex = (Inr rep, w') \<and> cp_Success rep \<and>
     users (db w') = update_where (\<lambda>u. live u \<and> int (ID u) = 2) (\<lambda>u. u\<lparr>u_Password := h\<rparr>) (users (db w_ex))"
proof -
  have f: "fst (ChangePassword e_ex ''Bearer a.2.c'' 2 ''bob'' ''new'' w_ex) =
      Inr \<lparr>cp_Success = True, cp_Message = ''password updated''\<rparr>" by code_simp
  then obtain w' where r: "ChangePassword e_ex ''Bearer a.2.c'' 2 ''bob'' ''new'' w_ex =
      (Inr \<lparr>cp_Success = True, cp_Message = ''password updated''\<rparr>, w')" by (metis prod.collapse)
  from ChangePassword_rules [OF r] r show ?thesis by auto
qed

text \<open>C7. A successful sign-in presented the stored account's password, and its token carries that account's claims.\<close>

theorem login_needs_password:
  assumes "Login e key n p w = (Inr res, w')" and "lr_Success res"
  shows "\<exists>u now1 now2. first_where (\<lambda>u. live u \<and> u_Username u = n) (users (db w)) = Some u \<and>
    (if isBcryptHash (u_Password u) then bcrypt_compare e (u_Password u) p else u_Password u = p) \<and>
    jwt_sign e key (login_claims u now1 now2) = Inr (lr_JwtToken res)"
proof -
  from assms obtain u now1 now2 where "first_where (\<lambda>u. live u \<and> u_Username u = n) (users (db w)) = Some u"
      "fst (verifyPassword e (u_Password u) p)" "jwt_sign e key (login_claims u now1 now2) = Inr (lr_JwtToken res)"
    by (auto simp: Login_def Let_def succ_simps returnE_def case_prod_beta split: if_splits sum.splits)
  then show ?thesis by (auto simp: verifyPassword_def split: if_splits)
qed

theorem login_needs_password_witness:
  "\<exists>res w' u. Login e_ex ''key'' ''bob'' ''bob'' w_ex = (Inr res, w') \<and>
     first_where (\<lambda>u. live u \<and> u_Username u = ''bob'') (users (db w_ex)) = Some u \<and> bcrypt_compare e_ex (u_Password u) ''bob''"
proof -
  have "fst (Login e_ex ''key'' ''bob'' ''bob'' w_ex) = Inr \<lparr>lr_Success = True, lr_Message = ''logged in'', lr_JwtToken = ''bob''\<rparr>"
    by code_simp
  then obtain w' where r: "Login e_ex ''key'' ''bob'' ''bob'' w_ex =
      (Inr \<lparr>lr_Success = True, lr_Message = ''logged in'', lr_JwtToken = ''bob''\<rparr>, w')" by (metis prod.collapse)
  have b: "map_option (\<lambda>u. isBcryptHash (u_Password u)) (first_where (\<lambda>u. live u \<and> u_Username u = ''bob'') (users (db w_ex))) = Some True"
    by code_simp
  from login_needs_password [OF r] r b show ?thesis by auto
qed



text \<open>Signing in to an account that still stores a plain password succeeds and replaces it by a bcrypt hash of the same password.\<close>

theorem legacy_login_rehashes:
  assumes rel: "reliable e" and b: "bcrypt_ok e" and s: "\<forall>k c. \<exists>tok. jwt_sign e k c = Inr tok"
    and u: "first_where (\<lambda>u. live u \<and> u_Username u = n) (users (db w)) = Some u" and plain: "\<not> isBcryptHash (u_Password u)"
  shows "\<exists>h tok w'. Login e key n (u_Password u) w = (Inr \<lparr>lr_Success = True, lr_Message = ''logged in'', lr_JwtToken = tok\<rparr>, w') \<and>
    isBcryptHash h \<and> bcrypt_compare e h (u_Password u) \<and>
    users (db w') = update_where (\<lambda>v. live v \<and> ID v = ID u) (\<lambda>v. v\<lparr>u_Password := h\<rparr>) (users (db w))"
proof -
  from b obtain h where h: "bcrypt_generate e (Suc (ticks w)) (u_Password u) = Inr h" "isBcryptHash h" "bcrypt_compare e h (u_Password u)"
    unfolding bcrypt_ok_def by blast
  obtain tok where "jwt_sign e key (login_claims u (clock e (Suc (Suc (Suc (ticks w)))))
      (clock e (Suc (Suc (Suc (Suc (ticks w))))))) = Inr tok"
    using s by blast
  with rel u plain h show ?thesis
    by (simp add: Login_def Let_def bindE_def tryE_def q_first_def q_update_def stmt_def reliable_def verifyPassword_def
        returnE_def time_now_def hashPassword_def) blast
qed

theorem legacy_login_rehashes_witness:
  "\<exists>h tok w'. Login e_ex ''key'' ''bob'' ''old'' w_old = (Inr \<lparr>lr_Success = True, lr_Message = ''logged in'', lr_JwtToken = tok\<rparr>, w') \<and>
     isBcryptHash h \<and> bcrypt_compare e_ex h ''old''"
proof -
  let ?u = "(u_ex 2 ''bob'' 1 0)\<lparr>u_Password := ''old''\<rparr>"
  have "reliable e_ex" "bcrypt_ok e_ex" "\<forall>k c. \<exists>tok. jwt_sign e_ex k c = Inr tok"
    by (simp_all add: reliable_def bcrypt_ok_def e_ex_def isBcryptHash_def)
  moreover have "first_where (\<lambda>u. live u \<and> u_Username u = ''bob'') (users (db w_old)) = Some ?u"
    by (simp add: w_old_def first_where_def ex_defs live_def)
  moreover have "\<not> isBcryptHash (u_Password ?u)" by code_simp
  ultimately show ?thesis using legacy_login_rehashes [of e_ex "''bob''" w_old ?u "''key''"] by auto
qed

text \<open>The role guards on valid roles: the guard for administrators lets coaches through, and the guard for coaches refuses administrators.\<close>

theorem role_guards:
  assumes "parsePayload e hdr = Some pd" and "IsValid (RoleID pd)"
  shows "(VerifyMinRole e hdr RoleAdmin \<longleftrightarrow> RoleID pd = RoleAdmin \<or> RoleID pd = RoleCoach) \<and>
    (VerifyMinRole e hdr RoleCoach \<longleftrightarrow> RoleID pd = RoleCoach)"
  using assms by (auto simp: VerifyMinRole_def IsValid_def role_defs)

theorem role_guards_witness:
  "\<not> VerifyMinRole e_ex ''Bearer a.1.c'' RoleCoach \<and> VerifyMinRole e_ex ''Bearer a.1.c'' RoleAdmin"
proof -
  have "parsePayload e_ex ''Bearer a.1.c'' = pay_ex ''1''" by code_simp
  then have "parsePayload e_ex ''Bearer a.1.c'' = Some \<lparr>UserID = 1, jwt_Username = ''ann'', jwt_Name = ''ann'', jwt_Email = [], RoleID = 1\<rparr>"
    by (simp add: pay_ex_def)
  from role_guards [OF this] show ?thesis by (simp add: IsValid_def role_defs)
qed

section \<open>Messages\<close>

text \<open>C3. The unread counters of every thread equal the number of its unread messages, and messages belong to the thread of their two users, along every run of requests, whichever statements fail.\<close>

theorem unread_counters_run:
  assumes "msg_inv (db w)"
  shows "msg_inv (db (user_run e key ops w))"
  using msgs_run.run_inv [OF assms] by (simp add: user_run_def)

theorem unread_counters_run_witness:
  "msg_inv (db (user_run e_ex [] [RSend ''Bearer a.1.c'' 2 ''hi'', RMarkRead ''Bearer a.2.c'' 1, RBroadcast ''Bearer a.1.c'' ''all''] w_ex))"
  by (rule unread_counters_run) (simp add: w_ex_def msg_inv_ex)

text \<open>The unread count a user is shown is the number of unread messages addressed to them.\<close>

theorem UnreadCount_exact:
  assumes "msg_inv (db w)" and "UnreadCount e hdr w = (Inr n, w')" and "length (rows (messages (db w))) < 2 ^ 63"
  shows "\<exists>cur. GetCurrentUser e hdr = Some cur \<and> n = int (unread_of (db w) (int64_of (UserID cur)))"
proof -
  from assms(2) obtain cur w1 where cur: "GetCurrentUser e hdr = Some cur"
    and c: "dal_UnreadCount e (int64_of (UserID cur)) w = (Inr n, w1)"
    by (auto simp: UnreadCount_def succ_simps)
  let ?k = "unread_of (db w) (int64_of (UserID cur))"
  have "?k \<le> length (rows (messages (db w)))" by (simp add: unread_of_def)
  with assms(3) have "i64 (int ?k) = int ?k" by (intro i64_id) auto
  with dal_UnreadCount_succ [OF c assms(1)] cur show ?thesis by auto
qed

theorem UnreadCount_exact_witness:
  "\<exists>n w'. UnreadCount e_ex ''Bearer a.2.c'' (snd (Send e_ex ''Bearer a.1.c'' 2 ''hi'' w_ex)) = (Inr n, w') \<and>
     n = int (unread_of (db (snd (Send e_ex ''Bearer a.1.c'' 2 ''hi'' w_ex))) 2)"
proof -
  let ?w = "snd (Send e_ex ''Bearer a.1.c'' 2 ''hi'' w_ex)"
  have "\<not> isl (fst (UnreadCount e_ex ''Bearer a.2.c'' ?w))" by code_simp
  then obtain n w' where r: "UnreadCount e_ex ''Bearer a.2.c'' ?w = (Inr n, w')"
    by (metis isl_def old.sum.exhaust prod.collapse)
  have m: "msg_inv (db ?w)" by (rule keeps_snd [OF keeps_message_handlers(1)]) (simp add: w_ex_def msg_inv_ex)
  have l: "length (rows (messages (db ?w))) = 1" by code_simp
  have cur: "map_option UserID (GetCurrentUser e_ex ''Bearer a.2.c'') = Some 2" by code_simp
  from UnreadCount_exact [OF m r] l obtain cur where "GetCurrentUser e_ex ''Bearer a.2.c'' = Some cur"
      "n = int (unread_of (db ?w) (int64_of (UserID cur)))" by auto
  with cur r show ?thesis by auto
qed

text \<open>Sending stores the trimmed text, of 1 to 1000 characters, for an existing receiver other than the sender, and raises the receiver's unread count by one and no one else's.\<close>

theorem Send_effect:
  assumes "Send e hdr receiver content w = (Inr v, w')"
  shows "receiver \<noteq> 0 \<and> (\<exists>u. find_user (db w) receiver = Some u) \<and>
    (\<exists>cur. GetCurrentUser e hdr = Some cur \<and> int64_of (UserID cur) \<noteq> receiver \<and> dv_SenderId v = int64_of (UserID cur)) \<and>
    dv_ReceiverId v = receiver \<and> dv_Content v = TrimSpace content \<and> 0 < rune_count (TrimSpace content) \<and>
    rune_count (TrimSpace content) \<le> 1000 \<and>
    (\<forall>uid. unread_of (db w') uid = unread_of (db w) uid + (if uid = receiver then 1 else 0))"
proof -
  from assms obtain cur where cur: "GetCurrentUser e hdr = Some cur" "receiver \<noteq> 0" "receiver \<noteq> int64_of (UserID cur)"
    and n: "normalizeMessageContent content = Inr (TrimSpace content)" "TrimSpace content \<noteq> []" "rune_count (TrimSpace content) \<le> 1000"
    and s: "dal_Send e (int64_of (UserID cur)) receiver (TrimSpace content) w = (Inr v, w')"
    by (auto simp: Send_def succ_simps normalizeMessageContent_def Let_def split: if_splits)
  have "chunks s \<noteq> []" if "s \<noteq> []" for s using that concat_chunks [of s] by fastforce
  with n(2) have "0 < rune_count (TrimSpace content)" by (simp add: rune_count_def)
  with cur n dal_Send_succ [OF s] show ?thesis
    by (auto simp: unread_of_sent [unfolded sent_message_def] messageView_def sent_message_def)
qed

theorem Send_effect_witness:
  "\<exists>v w'. Send e_ex ''Bearer a.1.c'' 2 '' hi '' w_ex = (Inr v, w') \<and> unread_of (db w') 2 = unread_of (db w_ex) 2 + 1"
proof -
  have "\<not> isl (fst (Send e_ex ''Bearer a.1.c'' 2 '' hi '' w_ex))" by code_simp
  then obtain v w' where s: "Send e_ex ''Bearer a.1.c'' 2 '' hi '' w_ex = (Inr v, w')"
    by (metis isl_def old.sum.exhaust prod.collapse)
  from Send_effect [OF this] show ?thesis using s by auto
qed

text \<open>Marking a conversation read clears exactly the unread messages from the other user, and changes no one else's count.\<close>

theorem MarkRead_effect:
  assumes inv: "msg_inv (db w)" and r: "MarkRead e hdr other w = (Inr v, w')"
  shows "\<exists>cur. GetCurrentUser e hdr = Some cur \<and> unread_from (db w') (int64_of (UserID cur)) other = 0 \<and>
    unread_of (db w') (int64_of (UserID cur)) + unread_from (db w) (int64_of (UserID cur)) other =
      unread_of (db w) (int64_of (UserID cur)) \<and>
    (\<forall>x. x \<noteq> int64_of (UserID cur) \<longrightarrow> unread_of (db w') x = unread_of (db w) x)"
proof -
  from r obtain cur where cur: "GetCurrentUser e hdr = Some cur" and ne: "int64_of (UserID cur) \<noteq> other"
    and m: "MarkThreadRead e (int64_of (UserID cur)) other w = (Inr (), w')"
    by (auto simp: MarkRead_def succ_simps split: if_splits)
  let ?uid = "int64_of (UserID cur)"
  note s = MarkThreadRead_succ [OF inv m]
  show ?thesis
  proof (cases "thread_of (db w) ?uid other")
    case None
    with s no_thread_no_messages [OF inv None] cur show ?thesis by auto
  next
    case (Some t)
    with s obtain now where d: "db w' = read_messages t ?uid now (db w)" by auto
    have "\<not> (live m \<and> \<not> m_IsRead m \<and> m_ReceiverId m = ?uid \<and> m_SenderId m = other)"
      if m: "m \<in> set (rows (messages (db w')))" for m
    proof -
      from m obtain k where k: "k \<in> set (rows (messages (db w)))" "m = (if live k \<and> m_ThreadId k = ID t \<and> m_ReceiverId k = ?uid \<and> m_IsRead k = False
          then k\<lparr>m_IsRead := True, m_ReadAt := Some now\<rparr> else k)"
        unfolding d messages_read_messages set_map by blast
      with thread_messages [OF inv Some k(1) ne] show ?thesis by (auto simp: live_def split: if_splits)
    qed
    then have z: "unread_from (db w') ?uid other = 0" by (simp add: unread_from_def filter_empty_conv)
    have "unread_of (db w') x + (if x = ?uid then unread_from (db w) ?uid other else 0) = unread_of (db w) x" for x
      unfolding d by (rule unread_of_read_messages [OF inv Some ne])
    from this [of ?uid] this z cur show ?thesis by (intro exI [of _ cur]) (metis add.right_neutral)
  qed
qed

theorem MarkRead_effect_witness:
  "\<exists>v w'. MarkRead e_ex ''Bearer a.2.c'' 1 (snd (Send e_ex ''Bearer a.1.c'' 2 ''hi'' w_ex)) = (Inr v, w') \<and>
     unread_from (db w') 2 1 = 0"
proof -
  let ?w = "snd (Send e_ex ''Bearer a.1.c'' 2 ''hi'' w_ex)"
  have "\<not> isl (fst (MarkRead e_ex ''Bearer a.2.c'' 1 ?w))" by code_simp
  then obtain v w' where r: "MarkRead e_ex ''Bearer a.2.c'' 1 ?w = (Inr v, w')"
    by (metis isl_def old.sum.exhaust prod.collapse)
  have m: "msg_inv (db ?w)" by (rule keeps_snd [OF keeps_message_handlers(1)]) (simp add: w_ex_def msg_inv_ex)
  have cur: "map_option UserID (GetCurrentUser e_ex ''Bearer a.2.c'') = Some 2" by code_simp
  from MarkRead_effect [OF m r] cur r show ?thesis by auto
qed

text \<open>A broadcast by a coach or administrator that returns has reached every other live user exactly once, and the reply is their number.\<close>

theorem Broadcast_effect:
  assumes wf: "wf_table (users (db w))" and r: "Broadcast e hdr content w = (Inr n, w')"
  shows "\<exists>cur u. GetCurrentUser e hdr = Some cur \<and> find_user (db w) (int64_of (UserID cur)) = Some u \<and>
    canBroadcastMessage (u_RoleID u) \<and>
    n = int (card {uid. uid \<noteq> int64_of (UserID cur) \<and> (\<exists>v. find_user (db w) uid = Some v)}) \<and>
    (\<forall>uid. unread_of (db w') uid = unread_of (db w) uid +
      (if uid \<noteq> int64_of (UserID cur) \<and> (\<exists>v. find_user (db w) uid = Some v) then 1 else 0))"
proof -
  from r obtain cur u c ids w1 w2 where cur: "GetCurrentUser e hdr = Some cur" "find_user (db w) (int64_of (UserID cur)) = Some u"
      "canBroadcastMessage (u_RoleID u)"
    and ids: "ids = map (\<lambda>u. int (ID u)) (sort_key ID (filter live (rows (users (db w)))))"
    and l: "broadcast_loop e (int64_of (UserID cur)) c ids 0 w1 = (Inr n, w2)" and w1: "db w1 = db w"
    and w2: "unread_of (db w') = unread_of (db w2)"
    by (auto simp: Broadcast_def succ_simps ListActiveUserIds_def split: if_splits dest!: recordUserOperation_unread)
  let ?ids = "filter (\<lambda>i. i \<noteq> int64_of (UserID cur)) ids"
  have "inj_on ID (set (filter live (rows (users (db w)))))" "distinct (rows (users (db w)))"
    using wf by (auto simp: wf_table_def distinct_map intro: inj_on_subset)
  then have dist: "distinct ?ids" by (simp add: ids distinct_map inj_on_def)
  have set: "set ?ids = {uid. uid \<noteq> int64_of (UserID cur) \<and> (\<exists>v. find_user (db w) uid = Some v)}"
    using wf by (auto simp: ids dest: find_user_SomeD find_user_row)
  from broadcast_loop_succ [OF l] w1 w2 distinct_card [OF dist] count_list_distinct [OF dist] cur show ?thesis
    unfolding set by auto
qed

theorem Broadcast_effect_witness:
  "\<exists>n w'. Broadcast e_ex ''Bearer a.1.c'' ''hi'' w_ex = (Inr n, w') \<and> unread_of (db w') 2 = unread_of (db w_ex) 2 + 1"
proof -
  have "\<not> isl (fst (Broadcast e_ex ''Bearer a.1.c'' ''hi'' w_ex))" by code_simp
  then obtain n w' where r: "Broadcast e_ex ''Bearer a.1.c'' ''hi'' w_ex = (Inr n, w')"
    by (metis isl_def old.sum.exhaust prod.collapse)
  have wf: "wf_table (users (db w_ex))" by (simp add: w_ex_def d_ex_def wf_table_def u_ex_def)
  have cur: "map_option UserID (GetCurrentUser e_ex ''Bearer a.1.c'') = Some 1" by code_simp
  have u: "find_user (db w_ex) 2 \<noteq> None" by (simp add: find_user_def first_where_def ex_defs live_def)
  from Broadcast_effect [OF wf r] cur u r show ?thesis by auto
qed

end
