(* ===== verification/CoreModel.thy ===== *)
theory CoreModel
  imports Permission
begin

text \<open>
  The tables of the core-data service (\<^verbatim>\<open>app/core_data/internal/data/model\<close>), its environment, the
  message broker client of \<^verbatim>\<open>app/common/event\<close>, the audit log, and the Redis operations the
  service uses.

  The environment adds what comes from outside: the platform crawlers (which providers are
  registered, what they implement and what a fetch returns at a point of the run), the broker's
  answers, the rate limiter of package \<^verbatim>\<open>golang.org/x/time/rate\<close>, JSON, and the user service
  as the periodic tasks call it (total number of users and the ids on a page).
\<close>

section \<open>Rows\<close>

record platform_row = row0 +
  p_UserID :: int
  p_Platform :: string
  p_Username :: string

record SubmitLog = row0 +
  s_Platform :: string
  s_UserID :: int
  s_SubmitID :: string
  s_Contest :: string
  s_Problem :: string
  s_Lang :: string
  s_Status :: string
  s_Time :: time

record ContestLog = row0 +
  k_Platform :: string
  k_UserID :: int
  k_ContestId :: string
  k_ContestName :: string
  k_ContestUrl :: string
  k_Rank :: int
  k_TotalCount :: int
  k_AcCount :: int
  k_Time :: time
  k_EndTime :: time

record SpiderSyncStatus = row0 +
  y_UserID :: int
  y_Platform :: string
  y_Username :: string
  y_Status :: string
  y_LastStartedAt :: "time option"
  y_LastFinishedAt :: "time option"
  y_LastSuccessAt :: "time option"
  y_LastError :: string
  y_LastFetchedCount :: int
  y_LastSkippedCount :: int
  y_ConsecutiveFailure :: int
  y_CreatedAt :: time
  y_UpdatedAt :: time

record SpiderRefreshJob = row0 +
  j_UserID :: int
  j_RequesterID :: int
  j_Source :: string
  j_Status :: string
  j_NeedAll :: bool
  j_CurrentPlatform :: string
  j_TotalPlatforms :: int
  j_FinishedPlatforms :: int
  j_Error :: string
  j_StartedAt :: "time option"
  j_FinishedAt :: "time option"
  j_CreatedAt :: time
  j_UpdatedAt :: time

record core_oplog = row0 +
  co_OperatorID :: int
  co_OperatorRole :: int
  co_Action :: string
  co_TargetType :: string
  co_TargetID :: int
  co_Detail :: string
  co_CreatedAt :: time

record SpiderEvent =
  ev_UserId :: int
  ev_NeedAll :: bool
  ev_JobId :: int
  ev_Platform :: string

record Bulletin = row0 +
  bu_Title :: string
  bu_Content :: string
  bu_AuthorID :: int
  bu_AuthorName :: string
  bu_IsPinned :: bool
  bu_CreatedAt :: time
  bu_UpdatedAt :: time

record FeatureSnapshot = row0 +
  fs_UserID :: int
  fs_Kind :: string
  fs_SourceHash :: string
  fs_Payload :: string
  fs_GeneratedAt :: time
  fs_CreatedAt :: time
  fs_UpdatedAt :: time

text \<open>\<open>lastCleanup\<close> is the package variable \<^verbatim>\<open>featureSnapshotLastCleanup\<close>. \<open>mq_ready\<close> says whether the broker client holds a channel, \<open>mq\<close> lists what it published: queue
  and body.\<close>

record cdb =
  platforms :: "platform_row table"
  submits :: "SubmitLog table"
  contests :: "ContestLog table"
  statuses :: "SpiderSyncStatus table"
  jobs :: "SpiderRefreshJob table"
  core_oplogs :: "core_oplog table"
  bulletins :: "Bulletin table"
  snapshots :: "FeatureSnapshot table"
  lastCleanup :: time
  mq_ready :: bool
  mq :: "(string \<times> string) list"

section \<open>Environment\<close>

datatype cval = CInt int | CStr string

text \<open>\<open>spider_Get p\<close>: whether a provider of that name is registered and, if so, whether it implements
  the submission and the contest interface.\<close>

record core_env = jwt_env +
  spider_Get :: "string \<Rightarrow> (bool \<times> bool) option"
  FetchSubmitLog :: "nat \<Rightarrow> string \<Rightarrow> int \<Rightarrow> string \<Rightarrow> bool \<Rightarrow> gerr + SubmitLog list"
  FetchContestLog :: "nat \<Rightarrow> string \<Rightarrow> int \<Rightarrow> string \<Rightarrow> bool \<Rightarrow> gerr + ContestLog list"
  unlinked :: "nat \<Rightarrow> string \<Rightarrow> bool"
  mq_dial :: "nat \<Rightarrow> gerr option"
  mq_open :: "nat \<Rightarrow> gerr option"
  mq_declare :: "nat \<Rightarrow> gerr option"
  mq_send :: "nat \<Rightarrow> gerr option"
  marshal_event :: "SpiderEvent \<Rightarrow> gerr + string"
  unmarshal_event :: "string \<Rightarrow> SpiderEvent option"
  limiter_Allow :: "nat \<Rightarrow> string \<Rightarrow> int \<Rightarrow> bool"
  core_json :: "(string \<times> cval) list \<Rightarrow> string option"
  marshal_summary :: "int \<Rightarrow> string \<Rightarrow> gerr + string"
  userRPC :: "nat \<Rightarrow> gerr option"
  profile_GetList :: "nat \<Rightarrow> int \<Rightarrow> int \<Rightarrow> gerr + (int \<times> nat list)"

type_synonym ('e, 'a) cact = "(cdb, 'e, 'a) act"

section \<open>Strings\<close>

text \<open>The glob patterns of Redis \<^verbatim>\<open>SCAN\<close>; the service's patterns use \<^verbatim>\<open>*\<close> only.\<close>

fun glob :: "string \<Rightarrow> string \<Rightarrow> bool" where
  "glob [] s = (s = [])"
| "glob (p # ps) s =
     (if p = CHR ''*'' then glob ps s \<or> (case s of [] \<Rightarrow> False | _ # s' \<Rightarrow> glob (p # ps) s')
      else case s of [] \<Rightarrow> False | c # s' \<Rightarrow> c = p \<and> glob ps s')"

section \<open>Redis\<close>

text \<open>\<^verbatim>\<open>DEL\<close> of several keys in one command, error dropped.\<close>

definition rdb_del_keys :: "'x env_scheme \<Rightarrow> string list \<Rightarrow> ('db, 'e, unit) act" where
  "rdb_del_keys e ks w = (Inr (),
     if stmt_fails e (ticks w) then tick w
     else (tick w)\<lparr>rdb := (\<lambda>k. if k \<in> set ks then None else rdb w k)\<rparr>)"

text \<open>
  A \<^verbatim>\<open>SCAN\<close> loop that unlinks the keys it meets, errors logged: of the matching keys those are
  gone that the scan reached and whose removal succeeded, which \<open>unlinked\<close> says.
\<close>

definition rdb_unlink_pattern :: "'x core_env_scheme \<Rightarrow> string \<Rightarrow> ('db, 'e, unit) act" where
  "rdb_unlink_pattern e p w = (Inr (),
     (tick w)\<lparr>rdb := (\<lambda>k. if glob p k \<and> unlinked e (ticks w) k then None else rdb w k)\<rparr>)"

fun rdb_unlink_patterns :: "'x core_env_scheme \<Rightarrow> string list \<Rightarrow> ('db, 'e, unit) act" where
  "rdb_unlink_patterns e [] = returnE ()"
| "rdb_unlink_patterns e (p # ps) = bindE (rdb_unlink_pattern e p) (\<lambda>_. rdb_unlink_patterns e ps)"

section \<open>The broker client\<close>

definition mq_set :: "bool \<Rightarrow> ('e, unit) cact" where
  "mq_set b w = (Inr (), w\<lparr>db := (db w)\<lparr>mq_ready := b\<rparr>\<rparr>)"

definition mq_call :: "(nat \<Rightarrow> gerr option) \<Rightarrow> (gerr, unit) cact" where
  "mq_call f w = (case f (ticks w) of Some er \<Rightarrow> (Inl er, tick w) | None \<Rightarrow> (Inr (), tick w))"

text \<open>The channel itself is not a value of the model: \<open>True\<close> stands for it, \<open>False\<close> for nil.\<close>

definition Channel :: "(gerr, bool) cact" where
  "Channel w = (if mq_ready (db w) then (Inr True, w)
     else (Inl (Errorf ''rabbitmq channel is not ready''), w))"

definition closeLocked :: "('e, unit) cact" where
  "closeLocked = mq_set False"

definition Reconnect :: "'x core_env_scheme \<Rightarrow> (gerr, bool) cact" where
  "Reconnect e =
     bindE closeLocked (\<lambda>_.
     bindE (mq_call (mq_dial e)) (\<lambda>_.
     bindE (mq_call (mq_open e)) (\<lambda>_.
     bindE (mq_set True) (\<lambda>_. returnE True))))"

definition publishToQueue :: "'x core_env_scheme \<Rightarrow> bool \<Rightarrow> string \<Rightarrow> string \<Rightarrow> (gerr, unit) cact" where
  "publishToQueue e ch queue body =
     (if \<not> ch then failE (Errorf ''rabbitmq channel is not ready'')
      else bindE (mq_call (mq_declare e)) (\<lambda>_.
           bindE (mq_call (mq_send e)) (\<lambda>_.
           (\<lambda>w. (Inr (), w\<lparr>db := (db w)\<lparr>mq := mq (db w) @ [(queue, body)]\<rparr>\<rparr>)))))"

section \<open>Audit log\<close>

definition recordCoreOperation ::
    "'x core_env_scheme \<Rightarrow> ctx \<Rightarrow> string \<Rightarrow> string \<Rightarrow> int \<Rightarrow> (string \<times> cval) list \<Rightarrow> ('e, unit) cact" where
  "recordCoreOperation e hdr action targetType targetID detail =
     (let cur = GetCurrentUser e hdr;
          operatorID = (case cur of None \<Rightarrow> 0 | Some c \<Rightarrow> int64_of (UserID c));
          operatorRole = (case cur of None \<Rightarrow> 0 | Some c \<Rightarrow> RoleID c);
          detailJSON = (if detail = [] then ''{}''
                        else case core_json e detail of Some s \<Rightarrow> s | None \<Rightarrow> ''{}'')
      in bindE (tryE (q_create e core_oplogs core_oplogs_update (\<lambda>i now.
           \<lparr>ID = i, co_OperatorID = operatorID, co_OperatorRole = operatorRole, co_Action = action,
            co_TargetType = targetType, co_TargetID = targetID, co_Detail = detailJSON,
            co_CreatedAt = now\<rparr>))) (\<lambda>_. returnE ()))"

end
