(* ===== verification/Spider.thy ===== *)
theory Spider
  imports CoreModel
begin

text \<open>
  The crawling pipeline of the core-data service: \<^verbatim>\<open>internal/biz/service/spider.go\<close>,
  \<^verbatim>\<open>spider_normalize.go\<close> and the delivery handler of \<^verbatim>\<open>consumer.go\<close>. A delivery names a user and
  perhaps a platform; \<open>LoadData\<close> fetches the submissions and contests of each bound platform,
  replaces or merges the stored rows, and keeps the job row and the sync-status row of the
  platform up to date.

  The crawlers are parameters of the environment. A Go function that returns several values
  and an error is an action that returns the tuple, its error as an option.
\<close>

section \<open>Normalisation of fetched submissions\<close>

text \<open>The word the pipeline looks for in an error text to tell a permanent failure, in UTF-8.\<close>

definition platform_word :: string where
  "platform_word = [CHR 0xE5, CHR 0xB9, CHR 0xB3, CHR 0xE5, CHR 0x8F, CHR 0xB0]"

definition clean_log :: "int \<Rightarrow> string \<Rightarrow> SubmitLog \<Rightarrow> SubmitLog" where
  "clean_log userId platform item =
     item\<lparr>s_UserID := userId, s_Platform := platform, s_SubmitID := TrimSpace (s_SubmitID item),
          s_Contest := TrimSpace (s_Contest item), s_Problem := TrimSpace (s_Problem item),
          s_Lang := TrimSpace (s_Lang item), s_Status := TrimSpace (s_Status item)\<rparr>"

text \<open>One round of the loop: the list built so far, the position of each submission id in it, and the
  number of skipped entries.\<close>

type_synonym norm_state = "SubmitLog list \<times> (string \<rightharpoonup> nat) \<times> int"

definition norm_step :: "int \<Rightarrow> string \<Rightarrow> norm_state \<Rightarrow> SubmitLog \<Rightarrow> norm_state" where
  "norm_step userId platform st item =
     (case st of (normalized, indexBySubmitID, skipped) \<Rightarrow>
        let submitID = TrimSpace (s_SubmitID item) in
        if submitID = '''' \<or> s_Time item = zero_time then (normalized, indexBySubmitID, skipped + 1)
        else case indexBySubmitID submitID of
          Some existingIndex \<Rightarrow>
            (normalized[existingIndex := clean_log userId platform item], indexBySubmitID, skipped + 1)
        | None \<Rightarrow>
            (normalized @ [clean_log userId platform item],
             indexBySubmitID(submitID \<mapsto> length normalized), skipped))"

definition normalizeFetchedSubmitLogs ::
    "int \<Rightarrow> string \<Rightarrow> SubmitLog list \<Rightarrow> SubmitLog list \<times> int \<times> gerr option" where
  "normalizeFetchedSubmitLogs userId platform logs =
     (case foldl (norm_step userId platform) ([], Map.empty, 0) logs of
        (normalized, _, skipped) \<Rightarrow>
          if logs \<noteq> [] \<and> normalized = []
          then ([], skipped, Some (Errorf (platform @ '' fetch result is all invalid, refused'')))
          else (normalized, skipped, None))"

definition rejectIncompleteFullFetch :: "string \<Rightarrow> int \<Rightarrow> int \<Rightarrow> bool \<Rightarrow> gerr option" where
  "rejectIncompleteFullFetch platform fetchedCount existingCount needAll =
     (if \<not> needAll \<or> existingCount \<le> 0 \<or> existingCount \<le> fetchedCount then None
      else Some (Errorf (platform @ '' full fetch of '' @ fmt_d fetchedCount @ '' rows is less than the '' @
        fmt_d existingCount @ '' stored, '' @ platform_word @ '' answer looks incomplete, refused'')))"

section \<open>Storing submissions\<close>

definition submit_key :: "SubmitLog \<Rightarrow> string \<times> string" where
  "submit_key r = (s_Platform r, s_SubmitID r)"

text \<open>
  \<^verbatim>\<open>INSERT \<dots> ON CONFLICT (platform, submit_id) DO UPDATE SET \<dots>\<close> for one row: the six assigned
  columns of a row with the key, or a new row. The id sequence advances either way.
\<close>

definition assign_submit :: "SubmitLog \<Rightarrow> SubmitLog \<Rightarrow> SubmitLog" where
  "assign_submit x r =
     r\<lparr>s_UserID := s_UserID x, s_Contest := s_Contest x, s_Problem := s_Problem x,
       s_Lang := s_Lang x, s_Status := s_Status x, s_Time := s_Time x\<rparr>"

definition upsert_submit :: "SubmitLog \<Rightarrow> SubmitLog table \<Rightarrow> SubmitLog table" where
  "upsert_submit x t =
     (if submit_key x \<in> submit_key ` set (rows t)
      then (update_where (\<lambda>r. submit_key r = submit_key x) (assign_submit x) t)\<lparr>seq := Suc (seq t)\<rparr>
      else insert_row (x\<lparr>ID := seq t\<rparr>) t)"

text \<open>Postgres refuses a statement that would touch a row twice.\<close>

definition upsert_batch :: "'x env_scheme \<Rightarrow> SubmitLog list \<Rightarrow> (gerr, unit) cact" where
  "upsert_batch e xs = stmt e (\<lambda>now d.
     if distinct (map submit_key xs) then (Inr (), submits_update (fold upsert_submit xs) d)
     else (Inl DbError, d))"

definition spiderInsertBatchSize :: nat where
  "spiderInsertBatchSize = 500"

text \<open>\<^verbatim>\<open>CreateInBatches\<close>: one statement for each run of at most that many rows.\<close>

function batches :: "nat \<Rightarrow> 'a list \<Rightarrow> 'a list list" where
  "batches n xs = (if xs = [] \<or> n = 0 then [] else take n xs # batches n (drop n xs))"
  by pat_completeness auto
termination
  by (relation "measure (\<lambda>(n, xs). length xs)") auto

declare batches.simps [simp del]

fun for_each :: "('a \<Rightarrow> ('db, 'e, unit) act) \<Rightarrow> 'a list \<Rightarrow> ('db, 'e, unit) act" where
  "for_each f [] = returnE ()"
| "for_each f (x # xs) = bindE (f x) (\<lambda>_. for_each f xs)"

definition of_user_platform :: "int \<Rightarrow> string \<Rightarrow> SubmitLog \<Rightarrow> bool" where
  "of_user_platform userId platform r \<longleftrightarrow> s_UserID r = userId \<and> s_Platform r = platform"

definition save_submits :: "'x env_scheme \<Rightarrow> int \<Rightarrow> string \<Rightarrow> bool \<Rightarrow> SubmitLog list \<Rightarrow> (gerr, unit) cact" where
  "save_submits e userId platform needAll tmp =
     transaction e
       (bindE (if needAll then q_delete e submits submits_update (of_user_platform userId platform) else returnE 0) (\<lambda>_.
        if tmp = [] then returnE ()
        else for_each (upsert_batch e) (batches spiderInsertBatchSize tmp)))"

definition guard_full_fetch :: "'x env_scheme \<Rightarrow> int \<Rightarrow> string \<Rightarrow> bool \<Rightarrow> int \<Rightarrow> (gerr, unit) cact" where
  "guard_full_fetch e userId platform needAll fetched =
     (if needAll then
        bindE (q_select e (\<lambda>d. int (length (filter (of_user_platform userId platform) (rows (submits d)))))) (\<lambda>existingCount.
        case rejectIncompleteFullFetch platform fetched existingCount needAll of
          Some er \<Rightarrow> failE er
        | None \<Rightarrow> returnE ())
      else returnE ())"

text \<open>The part of \<open>fetchAndSave\<close> after a fetch that returned \<open>logs\<close>.\<close>

definition store_fetched ::
    "'x env_scheme \<Rightarrow> int \<Rightarrow> string \<Rightarrow> bool \<Rightarrow> SubmitLog list \<Rightarrow> ('e, int \<times> int \<times> gerr option) cact" where
  "store_fetched e userId platform needAll logs =
     (case normalizeFetchedSubmitLogs userId platform logs of
        (tmp, skipped, Some er) \<Rightarrow> returnE (0, skipped, Some er)
      | (tmp, skipped, None) \<Rightarrow>
          bindE (tryE (guard_full_fetch e userId platform needAll (int (length tmp)))) (\<lambda>g.
          case g of
            Inl er \<Rightarrow> returnE (0, skipped, Some er)
          | Inr _ \<Rightarrow>
              bindE (tryE (save_submits e userId platform needAll tmp)) (\<lambda>s.
              returnE (int (length tmp), skipped, case s of Inl er \<Rightarrow> Some er | Inr _ \<Rightarrow> None))))"

definition fetchAndSave ::
    "'x core_env_scheme \<Rightarrow> int \<Rightarrow> platform_row \<Rightarrow> bool \<Rightarrow> ('e, int \<times> int \<times> gerr option) cact" where
  "fetchAndSave e userId plat needAll =
     (case spider_Get e (p_Platform plat) of
        None \<Rightarrow> returnE (0, 0, Some (Errorf (platform_word @ '' plugin does not exist'')))
      | Some (isSubmitLogFetcher, _) \<Rightarrow>
          if \<not> isSubmitLogFetcher
          then returnE (0, 0, Some (Errorf (platform_word @ '' does not implement SubmitLogFetcher'')))
          else bindE (rpcE (\<lambda>n. FetchSubmitLog e n (p_Platform plat) userId (p_Username plat) needAll)) (\<lambda>fetched.
            case fetched of
              Inl er \<Rightarrow> returnE (0, 0, Some er)
            | Inr logs \<Rightarrow> store_fetched e userId (p_Platform plat) needAll logs))"

section \<open>Storing contests\<close>

definition contest_key :: "ContestLog \<Rightarrow> string \<times> int" where
  "contest_key r = (k_ContestId r, k_UserID r)"

text \<open>\<^verbatim>\<open>ON CONFLICT (contest_id, user_id) DO NOTHING\<close>.\<close>

definition insert_contest :: "ContestLog \<Rightarrow> ContestLog table \<Rightarrow> ContestLog table" where
  "insert_contest x t =
     (if contest_key x \<in> contest_key ` set (rows t) then t\<lparr>seq := Suc (seq t)\<rparr>
      else insert_row (x\<lparr>ID := seq t\<rparr>) t)"

definition insert_contest_batch :: "'x env_scheme \<Rightarrow> ContestLog list \<Rightarrow> (gerr, unit) cact" where
  "insert_contest_batch e xs = stmt e (\<lambda>now d. (Inr (), contests_update (fold insert_contest xs) d))"

definition fetchAndSaveContest ::
    "'x core_env_scheme \<Rightarrow> int \<Rightarrow> platform_row \<Rightarrow> bool \<Rightarrow> (gerr, unit) cact" where
  "fetchAndSaveContest e userId plat needAll =
     (case spider_Get e (p_Platform plat) of
        None \<Rightarrow> failE (Errorf (platform_word @ '' plugin does not exist''))
      | Some (_, isSubmitContestFetcher) \<Rightarrow>
          if \<not> isSubmitContestFetcher
          then failE (Errorf (platform_word @ '' does not implement SubmitContestFetcher''))
          else bindE (rpcE (\<lambda>n. FetchContestLog e n (p_Platform plat) userId (p_Username plat) needAll)) (\<lambda>fetched.
            case fetched of
              Inl er \<Rightarrow> failE er
            | Inr tmp \<Rightarrow>
                if tmp = [] then returnE ()
                else transaction e
                  (bindE (if needAll
                          then q_delete e contests contests_update
                                 (\<lambda>r. k_UserID r = userId \<and> k_Platform r = p_Platform plat)
                          else returnE 0) (\<lambda>_.
                   for_each (insert_contest_batch e) (batches spiderInsertBatchSize tmp)))))"

section \<open>Cache invalidation\<close>

definition invalidated_keys :: "int \<Rightarrow> string list" where
  "invalidated_keys userId =
     [''core:submit_log:user:'' @ fmt_d userId, ''core:submit_log:user:-1'',
      ''user:'' @ fmt_d userId @ '':lastSubmitTime'', ''statistic:period:'' @ fmt_d userId,
      ''statistic:period:-1'', ''statistic:platform-period:'' @ fmt_d userId,
      ''statistic:platform-period:-1'', ''core:contest_log:user:'' @ fmt_d userId]"

definition invalidated_patterns :: "int \<Rightarrow> string list" where
  "invalidated_patterns userId =
     [''core:submit_log:detail:*'', ''statistic:heatmap:'' @ fmt_d userId @ '':*:*:*'',
      ''statistic:heatmap:0:*:*:*'', ''core:contest_log:user:'' @ fmt_d userId @ '':*'',
      ''core:contest_log:detail:*'']"

definition invalidateCache :: "'x core_env_scheme \<Rightarrow> int \<Rightarrow> ('db, 'e, unit) act" where
  "invalidateCache e userId =
     bindE (rdb_del_keys e (invalidated_keys userId)) (\<lambda>_.
     rdb_unlink_patterns e (invalidated_patterns userId))"

section \<open>Job rows\<close>

text \<open>An \<^verbatim>\<open>Updates\<close> on the job with that id, its error dropped; GORM sets \<^verbatim>\<open>updated_at\<close>.\<close>

definition update_job :: "'x env_scheme \<Rightarrow> int \<Rightarrow> (SpiderRefreshJob \<Rightarrow> SpiderRefreshJob) \<Rightarrow> ('e, unit) cact" where
  "update_job e jobId f =
     bindE (tryE (q_update e jobs jobs_update (\<lambda>j. int (ID j) = jobId) (\<lambda>now j. (f j)\<lparr>j_UpdatedAt := now\<rparr>)))
       (\<lambda>_. returnE ())"

definition started :: "time \<Rightarrow> int \<Rightarrow> SpiderRefreshJob \<Rightarrow> SpiderRefreshJob" where
  "started now totalPlatforms j =
     j\<lparr>j_Status := ''running'', j_StartedAt := Some now, j_TotalPlatforms := totalPlatforms,
       j_FinishedPlatforms := 0, j_Error := ''''\<rparr>"

definition finished :: "time \<Rightarrow> string \<Rightarrow> string \<Rightarrow> SpiderRefreshJob \<Rightarrow> SpiderRefreshJob" where
  "finished now status errText j =
     j\<lparr>j_Status := status, j_Error := errText, j_FinishedAt := Some now\<rparr>"

definition platform_done :: "string \<Rightarrow> SpiderRefreshJob \<Rightarrow> SpiderRefreshJob" where
  "platform_done platform j =
     j\<lparr>j_CurrentPlatform := platform, j_FinishedPlatforms := j_FinishedPlatforms j + 1\<rparr>"

definition startJob :: "'x env_scheme \<Rightarrow> int \<Rightarrow> nat \<Rightarrow> ('e, unit) cact" where
  "startJob e jobId totalPlatforms =
     (if jobId \<le> 0 then returnE ()
      else bindE (time_now e) (\<lambda>now. update_job e jobId (started now (i32 (int totalPlatforms)))))"

definition finishJob :: "'x env_scheme \<Rightarrow> int \<Rightarrow> string \<Rightarrow> string \<Rightarrow> ('e, unit) cact" where
  "finishJob e jobId status errText =
     (if jobId \<le> 0 then returnE ()
      else bindE (time_now e) (\<lambda>now. update_job e jobId (finished now status errText)))"

definition finishPlatform :: "'x env_scheme \<Rightarrow> int \<Rightarrow> string \<Rightarrow> ('e, unit) cact" where
  "finishPlatform e jobId platform =
     (if jobId \<le> 0 then returnE () else update_job e jobId (platform_done platform))"

definition setCurrentPlatform :: "'x env_scheme \<Rightarrow> int \<Rightarrow> string \<Rightarrow> ('e, unit) cact" where
  "setCurrentPlatform e jobId platform =
     (if jobId \<le> 0 then returnE () else update_job e jobId (\<lambda>j. j\<lparr>j_CurrentPlatform := platform\<rparr>))"

section \<open>Sync status rows\<close>

definition status_of :: "int \<Rightarrow> string \<Rightarrow> SpiderSyncStatus \<Rightarrow> bool" where
  "status_of userId platform r \<longleftrightarrow> y_UserID r = userId \<and> y_Platform r = platform"

definition new_status :: "int \<Rightarrow> platform_row \<Rightarrow> nat \<Rightarrow> time \<Rightarrow> SpiderSyncStatus" where
  "new_status userId plat i now =
     \<lparr>ID = i, y_UserID = userId, y_Platform = p_Platform plat, y_Username = p_Username plat,
      y_Status = '''', y_LastStartedAt = None, y_LastFinishedAt = None, y_LastSuccessAt = None,
      y_LastError = '''', y_LastFetchedCount = 0, y_LastSkippedCount = 0, y_ConsecutiveFailure = 0,
      y_CreatedAt = now, y_UpdatedAt = now\<rparr>"

definition firstOrCreate_status ::
    "'x env_scheme \<Rightarrow> int \<Rightarrow> platform_row \<Rightarrow> (gerr, SpiderSyncStatus) cact" where
  "firstOrCreate_status e userId plat =
     bindE (tryE (q_first e statuses (status_of userId (p_Platform plat)))) (\<lambda>r.
     case r of
       Inr s \<Rightarrow> returnE s
     | Inl er \<Rightarrow>
         if er = ErrRecordNotFound then q_create e statuses statuses_update (new_status userId plat)
         else failE er)"

definition upsertPlatformStatus ::
    "'x env_scheme \<Rightarrow> int \<Rightarrow> platform_row \<Rightarrow> (SpiderSyncStatus \<Rightarrow> SpiderSyncStatus) \<Rightarrow> ('e, unit) cact" where
  "upsertPlatformStatus e userId plat updates =
     bindE (tryE
       (bindE (firstOrCreate_status e userId plat) (\<lambda>s.
        q_update e statuses statuses_update (\<lambda>r. ID r = ID s) (\<lambda>now r. (updates r)\<lparr>y_UpdatedAt := now\<rparr>))))
       (\<lambda>_. returnE ())"

definition running_updates :: "time \<Rightarrow> string \<Rightarrow> SpiderSyncStatus \<Rightarrow> SpiderSyncStatus" where
  "running_updates now username r =
     r\<lparr>y_Username := username, y_Status := ''running'', y_LastStartedAt := Some now, y_LastError := ''''\<rparr>"

definition success_updates :: "time \<Rightarrow> string \<Rightarrow> int \<Rightarrow> int \<Rightarrow> SpiderSyncStatus \<Rightarrow> SpiderSyncStatus" where
  "success_updates now username count skipped r =
     r\<lparr>y_Username := username, y_Status := ''success'', y_LastFinishedAt := Some now,
       y_LastSuccessAt := Some now, y_LastFetchedCount := count, y_LastSkippedCount := skipped,
       y_LastError := '''', y_ConsecutiveFailure := 0\<rparr>"

definition failed_updates :: "time \<Rightarrow> string \<Rightarrow> string \<Rightarrow> SpiderSyncStatus \<Rightarrow> SpiderSyncStatus" where
  "failed_updates now username errText r =
     r\<lparr>y_Username := username, y_Status := ''failed'', y_LastFinishedAt := Some now,
       y_LastError := errText, y_ConsecutiveFailure := y_ConsecutiveFailure r + 1\<rparr>"

definition markPlatformRunning :: "'x env_scheme \<Rightarrow> int \<Rightarrow> platform_row \<Rightarrow> ('e, unit) cact" where
  "markPlatformRunning e userId plat =
     bindE (time_now e) (\<lambda>now. upsertPlatformStatus e userId plat (running_updates now (p_Username plat)))"

definition markPlatformSuccess :: "'x env_scheme \<Rightarrow> int \<Rightarrow> platform_row \<Rightarrow> int \<Rightarrow> int \<Rightarrow> ('e, unit) cact" where
  "markPlatformSuccess e userId plat count skipped =
     bindE (time_now e) (\<lambda>now.
     upsertPlatformStatus e userId plat (success_updates now (p_Username plat) count skipped))"

definition markPlatformFailed :: "'x env_scheme \<Rightarrow> int \<Rightarrow> platform_row \<Rightarrow> gerr \<Rightarrow> ('e, unit) cact" where
  "markPlatformFailed e userId plat er =
     bindE (time_now e) (\<lambda>now.
     upsertPlatformStatus e userId plat (failed_updates now (p_Username plat) (err_text er)))"

section \<open>Loading\<close>

definition CodeForces :: string where
  "CodeForces = ''CodeForces''"

text \<open>\<^verbatim>\<open>time.Time.Sub\<close> saturates at the ends of \<^verbatim>\<open>time.Duration\<close>.\<close>

definition Sub :: "time \<Rightarrow> time \<Rightarrow> int" where
  "Sub t u = max (- 9223372036854775808) (min 9223372036854775807 (t - u))"

definition codeforcesRefreshSkipWindow :: int where
  "codeforcesRefreshSkipWindow = 30 * 60 * 1000000000"

definition platformRefreshStartedWithin ::
    "'x env_scheme \<Rightarrow> int \<Rightarrow> string \<Rightarrow> int \<Rightarrow> ('e, bool) cact" where
  "platformRefreshStartedWithin e userId platform window =
     (if window \<le> 0 then returnE False
      else bindE (tryE (q_first e statuses (status_of userId platform))) (\<lambda>r.
        case r of
          Inl er \<Rightarrow> returnE False
        | Inr s \<Rightarrow>
            (case y_LastStartedAt s of
               None \<Rightarrow> returnE False
             | Some t \<Rightarrow> bindE (time_now e) (\<lambda>now. returnE (Sub now t < window)))))"

definition shouldSkipRecentCodeforcesRefresh ::
    "'x env_scheme \<Rightarrow> int \<Rightarrow> platform_row \<Rightarrow> ('e, bool) cact" where
  "shouldSkipRecentCodeforcesRefresh e userId plat =
     (if EqualFold (TrimSpace (p_Platform plat)) CodeForces
      then platformRefreshStartedWithin e userId (p_Platform plat) codeforcesRefreshSkipWindow
      else returnE False)"

fun filterRecentCodeforcesRefresh ::
    "'x env_scheme \<Rightarrow> int \<Rightarrow> platform_row list \<Rightarrow> ('e, platform_row list) cact" where
  "filterRecentCodeforcesRefresh e userId [] = returnE []"
| "filterRecentCodeforcesRefresh e userId (plat # plats) =
     bindE (shouldSkipRecentCodeforcesRefresh e userId plat) (\<lambda>skip.
     bindE (filterRecentCodeforcesRefresh e userId plats) (\<lambda>rest.
     returnE (if skip then rest else plat # rest)))"

text \<open>The retry loop with \<open>n\<close> rounds left.\<close>

fun load_rounds ::
    "'x core_env_scheme \<Rightarrow> int \<Rightarrow> platform_row \<Rightarrow> bool \<Rightarrow> nat \<Rightarrow> nat \<Rightarrow> gerr option \<Rightarrow>
     ('e, int \<times> int \<times> gerr option) cact" where
  "load_rounds e userId plat needAll maxRetries 0 lastErr =
     returnE (0, 0, Some (case lastErr of
       None \<Rightarrow> Errorf (''max retries '' @ fmt_d (int maxRetries) @ '' reached'') | Some er \<Rightarrow> er))"
| "load_rounds e userId plat needAll maxRetries (Suc n) lastErr =
     bindE (fetchAndSave e userId plat needAll) (\<lambda>(count, skipped, err).
     bindE (tryE (fetchAndSaveContest e userId plat needAll)) (\<lambda>_.
     case err of
       None \<Rightarrow> bindE (invalidateCache e userId) (\<lambda>_. returnE (count, skipped, None))
     | Some er \<Rightarrow>
         if Contains (err_text er) platform_word then returnE (0, skipped, Some er)
         else if \<not> needAll then returnE (0, skipped, Some er)
         else load_rounds e userId plat needAll maxRetries n (Some er)))"

definition loadOnePlatform ::
    "'x core_env_scheme \<Rightarrow> int \<Rightarrow> platform_row \<Rightarrow> bool \<Rightarrow> ('e, int \<times> int \<times> gerr option) cact" where
  "loadOnePlatform e userId plat needAll =
     bindE (markPlatformRunning e userId plat) (\<lambda>_.
     let maxRetries = (if p_Platform plat = CodeForces then 1 else 12)
     in load_rounds e userId plat needAll maxRetries maxRetries None)"

fun load_platforms ::
    "'x core_env_scheme \<Rightarrow> int \<Rightarrow> int \<Rightarrow> bool \<Rightarrow> platform_row list \<Rightarrow> string list \<Rightarrow> ('e, string list) cact" where
  "load_platforms e jobId userId needAll [] failed = returnE failed"
| "load_platforms e jobId userId needAll (plat # plats) failed =
     bindE (setCurrentPlatform e jobId (p_Platform plat)) (\<lambda>_.
     bindE (loadOnePlatform e userId plat needAll) (\<lambda>(count, skipped, err).
     bindE (finishPlatform e jobId (p_Platform plat)) (\<lambda>_.
     case err of
       Some er \<Rightarrow>
         bindE (markPlatformFailed e userId plat er) (\<lambda>_.
         load_platforms e jobId userId needAll plats (failed @ [p_Platform plat @ '': '' @ err_text er]))
     | None \<Rightarrow>
         bindE (markPlatformSuccess e userId plat count skipped) (\<lambda>_.
         load_platforms e jobId userId needAll plats failed))))"

definition fail_run :: "'x env_scheme \<Rightarrow> int \<Rightarrow> gerr \<Rightarrow> (gerr, unit) cact" where
  "fail_run e jobId er = bindE (finishJob e jobId ''failed'' (err_text er)) (\<lambda>_. failE er)"

definition run_platforms ::
    "'x core_env_scheme \<Rightarrow> int \<Rightarrow> int \<Rightarrow> bool \<Rightarrow> platform_row list \<Rightarrow> (gerr, unit) cact" where
  "run_platforms e jobId userId needAll plats =
     bindE (startJob e jobId (length plats)) (\<lambda>_.
     if plats = [] then finishJob e jobId ''success'' ''''
     else bindE (load_platforms e jobId userId needAll plats []) (\<lambda>failed.
       if failed \<noteq> [] then fail_run e jobId (Errorf (Join failed ''; ''))
       else finishJob e jobId ''success'' ''''))"

definition not_bound :: "string \<Rightarrow> gerr" where
  "not_bound targetPlatform =
     (if targetPlatform = '''' then Errorf (''no OJ '' @ platform_word @ '' bound'')
      else Errorf (''not bound: '' @ platform_word @ '' '' @ targetPlatform))"

definition load_bound ::
    "'x core_env_scheme \<Rightarrow> int \<Rightarrow> int \<Rightarrow> bool \<Rightarrow> string \<Rightarrow> platform_row list \<Rightarrow> (gerr, unit) cact" where
  "load_bound e jobId userId needAll targetPlatform plats =
     (if plats = [] then fail_run e jobId (not_bound targetPlatform)
      else if targetPlatform = ''''
      then bindE (filterRecentCodeforcesRefresh e userId plats) (run_platforms e jobId userId needAll)
      else bindE (shouldSkipRecentCodeforcesRefresh e userId (hd plats)) (\<lambda>skip.
        if skip
        then bindE (startJob e jobId 0) (\<lambda>_. finishJob e jobId ''success'' '''')
        else run_platforms e jobId userId needAll plats))"

definition load_body ::
    "'x core_env_scheme \<Rightarrow> int \<Rightarrow> int \<Rightarrow> bool \<Rightarrow> string \<Rightarrow> (gerr, unit) cact" where
  "load_body e jobId userId needAll targetPlatform =
     bindE (tryE (q_select e (\<lambda>d. filter (\<lambda>p. p_UserID p = userId \<and>
       (targetPlatform = '''' \<or> p_Platform p = targetPlatform)) (rows (platforms d))))) (\<lambda>r.
     case r of
       Inl er \<Rightarrow> fail_run e jobId er
     | Inr plats \<Rightarrow> load_bound e jobId userId needAll targetPlatform plats)"

text \<open>\<^verbatim>\<open>defer uc.invalidateCache(userId)\<close>.\<close>

definition LoadData ::
    "'x core_env_scheme \<Rightarrow> int \<Rightarrow> int \<Rightarrow> bool \<Rightarrow> string \<Rightarrow> (gerr, unit) cact" where
  "LoadData e jobId userId needAll targetPlatform =
     bindE (tryE (load_body e jobId userId needAll targetPlatform)) (\<lambda>r.
     bindE (invalidateCache e userId) (\<lambda>_.
     case r of Inl er \<Rightarrow> failE er | Inr _ \<Rightarrow> returnE ()))"

section \<open>The consumer\<close>

datatype verdict = Ack | Nack

text \<open>The goroutine of one delivery: what the broker is told.\<close>

definition handle_delivery :: "'x core_env_scheme \<Rightarrow> string \<Rightarrow> ('e, verdict) cact" where
  "handle_delivery e body =
     (case unmarshal_event e body of
        None \<Rightarrow> returnE Nack
      | Some msg \<Rightarrow>
          bindE (tryE (LoadData e (ev_JobId msg) (ev_UserId msg) (ev_NeedAll msg) (ev_Platform msg))) (\<lambda>r.
          case r of Inl er \<Rightarrow> returnE Nack | Inr _ \<Rightarrow> returnE Ack))"

section \<open>Normalisation: lemmas\<close>

definition norm_inv :: "norm_state \<Rightarrow> bool" where
  "norm_inv st \<longleftrightarrow> (case st of (xs, idx, _) \<Rightarrow>
     distinct (map s_SubmitID xs) \<and> dom idx = s_SubmitID ` set xs \<and>
     (\<forall>k i. idx k = Some i \<longrightarrow> i < length xs \<and> s_SubmitID (xs ! i) = k))"

definition valid_log :: "SubmitLog \<Rightarrow> bool" where
  "valid_log x \<longleftrightarrow> TrimSpace (s_SubmitID x) \<noteq> '''' \<and> s_Time x \<noteq> zero_time"

text \<open>The abstract reading of the loop: for each submission id the last valid entry.\<close>

definition last_by_id :: "int \<Rightarrow> string \<Rightarrow> SubmitLog list \<Rightarrow> string \<rightharpoonup> SubmitLog" where
  "last_by_id u p logs = foldl (\<lambda>m x. if valid_log x then m(TrimSpace (s_SubmitID x) \<mapsto> clean_log u p x) else m) Map.empty logs"

definition by_id :: "SubmitLog list \<Rightarrow> string \<rightharpoonup> SubmitLog" where
  "by_id xs = map_of (map (\<lambda>x. (s_SubmitID x, x)) xs)"

lemma clean_log_id [simp]: "s_SubmitID (clean_log u p x) = TrimSpace (s_SubmitID x)"
  by (simp add: clean_log_def)

lemma by_id_append:
  "s_SubmitID x \<notin> s_SubmitID ` set xs \<Longrightarrow> by_id (xs @ [x]) = (by_id xs)(s_SubmitID x \<mapsto> x)"
  by (induction xs) (auto simp: by_id_def fun_eq_iff)

lemma by_id_update:
  "distinct (map s_SubmitID xs) \<Longrightarrow> i < length xs \<Longrightarrow> s_SubmitID (xs ! i) = s_SubmitID x \<Longrightarrow>
   by_id (xs[i := x]) = (by_id xs)(s_SubmitID x \<mapsto> x)"
proof (induction xs arbitrary: i)
  case (Cons y ys)
  show ?case
  proof (cases i)
    case 0
    with Cons.prems show ?thesis by (simp add: by_id_def fun_eq_iff)
  next
    case (Suc j)
    with Cons.prems have "s_SubmitID y \<noteq> s_SubmitID x"
      by (metis Suc_less_eq distinct.simps(2) image_eqI length_Cons list.set_map list.simps(9) nth_Cons_Suc nth_mem)
    with Cons Suc show ?thesis by (simp add: by_id_def fun_eq_iff)
  qed
qed simp

lemma map_id_update:
  "i < length xs \<Longrightarrow> s_SubmitID (xs ! i) = s_SubmitID x \<Longrightarrow> map s_SubmitID (xs[i := x]) = map s_SubmitID xs"
  by (metis list_update_id map_update nth_map)

lemma norm_step_cases:
  obtains (skip) "\<not> valid_log x" "norm_step u p (xs, idx, sk) x = (xs, idx, sk + 1)"
  | (again) i where "valid_log x" "idx (TrimSpace (s_SubmitID x)) = Some i"
      "norm_step u p (xs, idx, sk) x = (xs[i := clean_log u p x], idx, sk + 1)"
  | (fresh) "valid_log x" "idx (TrimSpace (s_SubmitID x)) = None"
      "norm_step u p (xs, idx, sk) x =
        (xs @ [clean_log u p x], idx(TrimSpace (s_SubmitID x) \<mapsto> length xs), sk)"
  by (cases "valid_log x"; cases "idx (TrimSpace (s_SubmitID x))")
    (auto simp: norm_step_def valid_log_def Let_def)

lemma norm_step_inv:
  assumes "norm_inv st"
  shows "norm_inv (norm_step u p st x)"
proof -
  obtain xs idx sk where st: "st = (xs, idx, sk)" by (cases st)
  have d: "distinct (map s_SubmitID xs)" and dm: "dom idx = s_SubmitID ` set xs"
    and ix: "\<And>k i. idx k = Some i \<Longrightarrow> i < length xs \<and> s_SubmitID (xs ! i) = k"
    using assms by (auto simp: norm_inv_def st)
  show ?thesis
  proof (cases rule: norm_step_cases [of x u p xs idx sk])
    case skip
    with assms show ?thesis by (simp add: st norm_inv_def)
  next
    case (again i)
    with ix have i: "i < length xs" "s_SubmitID (xs ! i) = s_SubmitID (clean_log u p x)" by auto
    have m: "map s_SubmitID (xs[i := clean_log u p x]) = map s_SubmitID xs"
      by (rule map_id_update [OF i])
    then have s: "s_SubmitID ` set (xs[i := clean_log u p x]) = s_SubmitID ` set xs"
      by (metis list.set_map)
    have n: "s_SubmitID (xs[i := clean_log u p x] ! k) = s_SubmitID (xs ! k)" if "k < length xs" for k
      using m that by (metis length_list_update nth_map)
    show ?thesis using again(3) d dm ix m s n by (simp add: st norm_inv_def)
  next
    case fresh
    then have "TrimSpace (s_SubmitID x) \<notin> s_SubmitID ` set xs" using dm by (metis domIff)
    with fresh d dm ix show ?thesis
      by (auto simp: st norm_inv_def nth_append less_Suc_eq split: if_splits dest!: ix)
  qed
qed

lemma norm_step_view:
  assumes "norm_inv (xs, idx, sk)" and "norm_step u p (xs, idx, sk) x = (ys, idx', sk')"
  shows "by_id ys = (if valid_log x then (by_id xs)(TrimSpace (s_SubmitID x) \<mapsto> clean_log u p x) else by_id xs)"
    and "int (length ys) + sk' = int (length xs) + sk + 1"
    and "set ys \<subseteq> insert (clean_log u p x) (set xs)"
    and "valid_log x \<Longrightarrow> ys \<noteq> []"
    and "\<not> valid_log x \<Longrightarrow> ys = xs"
    and "ys = [] \<Longrightarrow> xs = []"
proof -
  have d: "distinct (map s_SubmitID xs)" and dm: "dom idx = s_SubmitID ` set xs"
    and ix: "\<And>k i. idx k = Some i \<Longrightarrow> i < length xs \<and> s_SubmitID (xs ! i) = k"
    using assms by (auto simp: norm_inv_def)
  show "by_id ys = (if valid_log x then (by_id xs)(TrimSpace (s_SubmitID x) \<mapsto> clean_log u p x) else by_id xs)"
  proof (cases rule: norm_step_cases [of x u p xs idx sk])
    case skip
    with assms show ?thesis by simp
  next
    case (again i)
    with ix have "i < length xs" "s_SubmitID (xs ! i) = s_SubmitID (clean_log u p x)" by auto
    from by_id_update [OF d this] again assms(2) show ?thesis by simp
  next
    case fresh
    then have "s_SubmitID (clean_log u p x) \<notin> s_SubmitID ` set xs" using dm by (metis clean_log_id domIff)
    from by_id_append [OF this] fresh assms(2) show ?thesis by simp
  qed
  show "int (length ys) + sk' = int (length xs) + sk + 1" "set ys \<subseteq> insert (clean_log u p x) (set xs)"
    "\<not> valid_log x \<Longrightarrow> ys = xs" "ys = [] \<Longrightarrow> xs = []"
    using assms(2) by (cases rule: norm_step_cases [of x u p xs idx sk]; auto dest: set_update_subset_insert [THEN subsetD])+
  show "valid_log x \<Longrightarrow> ys \<noteq> []"
    using assms(2) ix by (cases rule: norm_step_cases [of x u p xs idx sk]) (auto, fastforce)
qed

lemma norm_fold:
  assumes "norm_inv st"
  shows "norm_inv (foldl (norm_step u p) st logs) \<and>
    by_id (fst (foldl (norm_step u p) st logs)) =
      foldl (\<lambda>m x. if valid_log x then m(TrimSpace (s_SubmitID x) \<mapsto> clean_log u p x) else m) (by_id (fst st)) logs \<and>
    int (length (fst (foldl (norm_step u p) st logs))) + snd (snd (foldl (norm_step u p) st logs)) =
      int (length (fst st)) + snd (snd st) + int (length logs) \<and>
    set (fst (foldl (norm_step u p) st logs)) \<subseteq> set (fst st) \<union> clean_log u p ` set logs"
  using assms
proof (induction logs arbitrary: st)
  case (Cons x logs)
  obtain xs idx sk ys idx' sk' where st: "st = (xs, idx, sk)"
    and st': "norm_step u p st x = (ys, idx', sk')"
    by (metis prod_cases3)
  note v = norm_step_view [OF Cons.prems [unfolded st] st' [unfolded st]]
  from Cons.IH [OF norm_step_inv [OF Cons.prems], of u p x] v(1,2,3) show ?case
    using st' by (auto simp: st simp del: fun_upd_apply)
qed simp

lemma normalize_spec:
  assumes "normalizeFetchedSubmitLogs u p logs = (tmp, skipped, None)"
  shows "by_id tmp = last_by_id u p logs" and "distinct (map s_SubmitID tmp)"
    and "int (length tmp) + skipped = int (length logs)"
    and "set tmp \<subseteq> clean_log u p ` set logs"
proof -
  have "norm_inv ([], Map.empty, 0)" by (simp add: norm_inv_def)
  note f = norm_fold [OF this, of u p logs]
  from assms have "tmp = fst (foldl (norm_step u p) ([], Map.empty, 0) logs)"
    "skipped = snd (snd (foldl (norm_step u p) ([], Map.empty, 0) logs))"
    by (auto simp: normalizeFetchedSubmitLogs_def split: prod.splits if_splits)
  with f show "by_id tmp = last_by_id u p logs" "distinct (map s_SubmitID tmp)"
    "int (length tmp) + skipped = int (length logs)" "set tmp \<subseteq> clean_log u p ` set logs"
    by (auto simp: last_by_id_def by_id_def norm_inv_def split: prod.splits)
qed

lemma by_id_empty: "by_id xs = Map.empty \<longleftrightarrow> xs = []"
  by (cases xs) (auto simp: by_id_def)

lemma last_by_id_empty: "last_by_id u p logs = Map.empty \<longleftrightarrow> (\<forall>x \<in> set logs. \<not> valid_log x)"
proof (induction logs rule: rev_induct)
  case (snoc x xs)
  have "last_by_id u p (xs @ [x]) =
      (if valid_log x then (last_by_id u p xs)(TrimSpace (s_SubmitID x) \<mapsto> clean_log u p x) else last_by_id u p xs)"
    by (simp add: last_by_id_def)
  moreover have "(last_by_id u p xs)(TrimSpace (s_SubmitID x) \<mapsto> clean_log u p x) \<noteq> Map.empty"
    by (rule map_upd_nonempty)
  ultimately show ?case using snoc by (simp del: fun_upd_apply)
qed (simp add: last_by_id_def)

lemma normalize_refused:
  "snd (snd (normalizeFetchedSubmitLogs u p logs)) \<noteq> None \<longleftrightarrow>
     logs \<noteq> [] \<and> (\<forall>x \<in> set logs. \<not> valid_log x)"
proof -
  obtain xs idx sk where f: "foldl (norm_step u p) ([], Map.empty, 0) logs = (xs, idx, sk)"
    by (metis prod_cases3)
  have "norm_inv ([], Map.empty, 0)" by (simp add: norm_inv_def)
  from norm_fold [OF this, of u p logs] have "by_id xs = last_by_id u p logs"
    unfolding f last_by_id_def by (simp add: by_id_def)
  with by_id_empty [of xs] last_by_id_empty [of u p logs]
  have "xs = [] \<longleftrightarrow> (\<forall>x \<in> set logs. \<not> valid_log x)" by metis
  then show ?thesis by (simp add: normalizeFetchedSubmitLogs_def f)
qed

section \<open>The submission table: lemmas\<close>

text \<open>What the table says: for each platform and submission id the other columns.\<close>

type_synonym submit_content = "int \<times> string \<times> string \<times> string \<times> string \<times> time"

definition submit_content :: "SubmitLog \<Rightarrow> submit_content" where
  "submit_content r = (s_UserID r, s_Contest r, s_Problem r, s_Lang r, s_Status r, s_Time r)"

definition submit_view :: "SubmitLog table \<Rightarrow> string \<times> string \<rightharpoonup> submit_content" where
  "submit_view t = map_of (map (\<lambda>r. (submit_key r, submit_content r)) (rows t))"

definition unique_submits :: "SubmitLog table \<Rightarrow> bool" where
  "unique_submits t \<longleftrightarrow> distinct (map submit_key (rows t))"

lemma assign_submit_simps [simp]:
  "submit_key (assign_submit x r) = submit_key r" "submit_content (assign_submit x r) = submit_content x"
  "ID (assign_submit x r) = ID r"
  by (simp_all add: assign_submit_def submit_key_def submit_content_def)

lemma submit_ID_simps [simp]:
  "submit_key (x\<lparr>ID := i\<rparr>) = submit_key x" "submit_content (x\<lparr>ID := i\<rparr>) = submit_content x"
  by (simp_all add: submit_key_def submit_content_def)

lemma unique_upsert [intro]: "unique_submits t \<Longrightarrow> unique_submits (upsert_submit x t)"
proof -
  have k: "submit_key \<circ> (\<lambda>r. if submit_key r = submit_key x then assign_submit x r else r) = submit_key"
    by auto
  assume "unique_submits t"
  then show ?thesis by (auto simp: unique_submits_def upsert_submit_def row_simps k)
qed

lemma unique_delete [intro]: "unique_submits t \<Longrightarrow> unique_submits (delete_where P t)"
  by (auto simp: unique_submits_def row_simps distinct_map intro: inj_on_subset)

lemma unique_fold_upsert [intro]: "unique_submits t \<Longrightarrow> unique_submits (fold upsert_submit xs t)"
  by (induction xs arbitrary: t) auto

lemma map_of_update_key:
  "k \<in> f ` set rs \<Longrightarrow>
   map_of (map (\<lambda>r. (f r, if f r = k then c else g r)) rs) = (map_of (map (\<lambda>r. (f r, g r)) rs))(k \<mapsto> c)"
proof -
  assume "k \<in> f ` set rs"
  moreover have "map_of (map (\<lambda>r. (f r, if f r = k then c else g r)) rs) x =
      (if x = k \<and> k \<in> f ` set rs then Some c else map_of (map (\<lambda>r. (f r, g r)) rs) x)" for x
    by (induction rs) (auto simp: map_of_eq_None_iff)
  ultimately show ?thesis by auto
qed

lemma view_upsert: "submit_view (upsert_submit x t) = (submit_view t)(submit_key x \<mapsto> submit_content x)"
proof (cases "submit_key x \<in> submit_key ` set (rows t)")
  case True
  have "map (\<lambda>r. (submit_key r, submit_content r)) (rows (upsert_submit x t)) =
      map (\<lambda>r. (submit_key r, if submit_key r = submit_key x then submit_content x else submit_content r)) (rows t)"
    using True by (auto simp: upsert_submit_def row_simps)
  with map_of_update_key [OF True] show ?thesis by (simp add: submit_view_def)
next
  case False
  then have "map_of (map (\<lambda>r. (submit_key r, submit_content r)) (rows t)) (submit_key x) = None"
    by (auto simp: map_of_eq_None_iff)
  with False show ?thesis
    by (auto simp: submit_view_def upsert_submit_def row_simps map_add_def fun_eq_iff split: option.splits)
qed

definition row_map :: "SubmitLog list \<Rightarrow> string \<times> string \<rightharpoonup> submit_content" where
  "row_map xs = map_of (map (\<lambda>r. (submit_key r, submit_content r)) xs)"

lemma view_fold_upsert:
  "distinct (map submit_key xs) \<Longrightarrow> submit_view (fold upsert_submit xs t) = submit_view t ++ row_map xs"
proof (induction xs arbitrary: t)
  case (Cons x xs)
  then have "submit_key x \<notin> dom (row_map xs)" by (simp add: row_map_def dom_map_of_conv_image_fst image_image)
  moreover have "row_map (x # xs) = (row_map xs)(submit_key x \<mapsto> submit_content x)"
    by (simp add: row_map_def)
  ultimately show ?case using Cons by (simp add: view_upsert map_add_upd_left del: fun_upd_apply)
qed (simp add: row_map_def)

definition without_user :: "int \<Rightarrow> string \<Rightarrow> (string \<times> string \<rightharpoonup> submit_content) \<Rightarrow> string \<times> string \<rightharpoonup> submit_content" where
  "without_user u p v = (\<lambda>k. case v k of None \<Rightarrow> None | Some c \<Rightarrow> if fst k = p \<and> fst c = u then None else Some c)"

lemma view_delete:
  assumes "unique_submits t"
  shows "submit_view (delete_where (of_user_platform u p) t) = without_user u p (submit_view t)"
proof -
  have "map_of (map (\<lambda>r. (submit_key r, submit_content r)) (filter (\<lambda>r. \<not> of_user_platform u p r) rs)) =
      without_user u p (map_of (map (\<lambda>r. (submit_key r, submit_content r)) rs))"
    if "distinct (map submit_key rs)" for rs
    using that
  proof (induction rs)
    case (Cons r rs)
    then have "map_of (map (\<lambda>r. (submit_key r, submit_content r)) rs) (submit_key r) = None"
      by (auto simp: map_of_eq_None_iff)
    with Cons show ?case
      by (auto simp: without_user_def fun_eq_iff of_user_platform_def submit_key_def submit_content_def)
  qed (simp add: without_user_def)
  with assms show ?thesis by (simp add: unique_submits_def submit_view_def row_simps)
qed

lemma concat_batches: "n \<noteq> 0 \<Longrightarrow> concat (batches n xs) = xs"
  by (induction n xs rule: batches.induct) (subst batches.simps, simp)

lemma batch_bound: "b \<in> set (batches n xs) \<Longrightarrow> length b \<le> n"
  by (induction n xs rule: batches.induct) (subst (asm) (2) batches.simps, auto split: if_splits)

section \<open>Storing: lemmas\<close>

lemma upsert_batch_succ [succ_simps]:
  "upsert_batch e xs w = (Inr x, w') \<longleftrightarrow>
     \<not> stmt_fails e (ticks w) \<and> distinct (map submit_key xs) \<and>
     w' = (tick w)\<lparr>db := submits_update (fold upsert_submit xs) (db w)\<rparr>"
  by (auto simp: upsert_batch_def stmt_def)

lemma upsert_batches_succ:
  "for_each (upsert_batch e) bs w = (Inr x, w') \<Longrightarrow>
     db w' = submits_update (fold upsert_submit (concat bs)) (db w) \<and> rdb w' = rdb w"
proof (induction bs arbitrary: w)
  case Nil
  then show ?case by (simp add: returnE_def fold_def)
next
  case (Cons b bs)
  then obtain w1 where "upsert_batch e b w = (Inr (), w1)" "for_each (upsert_batch e) bs w1 = (Inr x, w')"
    by (auto simp: succ_simps)
  with Cons.IH [OF this(2)] show ?case
    by (cases "db w") (simp add: succ_simps fold_append o_def)
qed

lemma upsert_batches_total:
  assumes "reliable e" and "distinct (map submit_key (concat bs))"
  shows "\<exists>w'. for_each (upsert_batch e) bs w = (Inr (), w')"
  using assms(2)
proof (induction bs arbitrary: w)
  case (Cons b bs)
  with assms(1) have "upsert_batch e b w = (Inr (), (tick w)\<lparr>db := submits_update (fold upsert_submit b) (db w)\<rparr>)"
    by (simp add: upsert_batch_succ reliable_def)
  with Cons show ?case by (simp add: bindE_def)
qed (simp add: returnE_def)

definition replace_submits :: "int \<Rightarrow> string \<Rightarrow> bool \<Rightarrow> SubmitLog list \<Rightarrow> SubmitLog table \<Rightarrow> SubmitLog table" where
  "replace_submits u p needAll tmp t =
     fold upsert_submit tmp (if needAll then delete_where (of_user_platform u p) t else t)"

lemma save_submits_succ:
  "save_submits e u p needAll tmp w = (Inr x, w') \<Longrightarrow>
     db w' = submits_update (replace_submits u p needAll tmp) (db w) \<and> rdb w' = rdb w"
  using concat_batches [of spiderInsertBatchSize tmp]
  by (cases "db w")
    (auto simp: save_submits_def replace_submits_def succ_simps spiderInsertBatchSize_def
      dest!: upsert_batches_succ split: if_splits)

lemma save_submits_err: "save_submits e u p needAll tmp w = (Inl er, w') \<Longrightarrow> db w' = db w"
  by (auto simp: save_submits_def dest: transaction_err)

interpretation save_tx: atomic_act "save_submits e u p needAll tmp" for e u p needAll tmp
  by unfold_locales (rule save_submits_err)

lemma guard_full_fetch_db: "guard_full_fetch e u p needAll n w = (r, w') \<Longrightarrow> db w' = db w"
  by (auto simp: guard_full_fetch_def bindE_def q_select_def stmt_def returnE_def failE_def
      split: if_splits option.splits)

lemma guard_full_fetch_succ:
  "guard_full_fetch e u p needAll n w = (Inr x, w') \<Longrightarrow> needAll \<Longrightarrow>
     int (length (filter (of_user_platform u p) (rows (submits (db w))))) \<le> n \<or>
     filter (of_user_platform u p) (rows (submits (db w))) = []"
  by (auto simp: guard_full_fetch_def rejectIncompleteFullFetch_def succ_simps split: if_splits option.splits)

text \<open>Storing ends in one of two ways: an error with every table as it was, or success.\<close>

lemma store_fetched_cases:
  assumes "store_fetched e u p needAll logs w = (r, w')"
  obtains (failed) c sk er where "r = Inr (c, sk, Some er)" "db w' = db w"
  | (ok) tmp sk where "r = Inr (int (length tmp), sk, None)"
      "normalizeFetchedSubmitLogs u p logs = (tmp, sk, None)"
      "db w' = submits_update (replace_submits u p needAll tmp) (db w)"
      "needAll \<Longrightarrow> length (filter (of_user_platform u p) (rows (submits (db w)))) \<le> length tmp"
proof -
  obtain tmp sk nerr where n: "normalizeFetchedSubmitLogs u p logs = (tmp, sk, nerr)"
    by (metis prod_cases3)
  show thesis
  proof (cases nerr)
    case (Some er)
    with assms n show thesis by (intro failed) (auto simp: store_fetched_def returnE_def)
  next
    case None
    obtain g w1 where g: "guard_full_fetch e u p needAll (int (length tmp)) w = (g, w1)" by fastforce
    note d1 = guard_full_fetch_db [OF g]
    show thesis
    proof (cases g)
      case (Inl er)
      with assms n None g d1 show thesis
        by (intro failed) (auto simp: store_fetched_def bindE_def tryE_def returnE_def)
    next
      case (Inr x)
      obtain s w2 where s: "save_submits e u p needAll tmp w1 = (s, w2)" by fastforce
      from assms n None g Inr s
      have r: "r = Inr (int (length tmp), sk, case s of Inl er \<Rightarrow> Some er | Inr _ \<Rightarrow> None)" "w' = w2"
        by (auto simp: store_fetched_def bindE_def tryE_def returnE_def)
      show thesis
      proof (cases s)
        case (Inl er)
        with r s d1 show thesis by (intro failed) (auto dest: save_submits_err)
      next
        case s': (Inr y)
        have "needAll \<Longrightarrow> length (filter (of_user_platform u p) (rows (submits (db w)))) \<le> length tmp"
          using guard_full_fetch_succ [OF g [unfolded Inr]] by auto
        with r s s' d1 n None show thesis
          by (intro ok [of tmp sk]) (auto dest!: save_submits_succ)
      qed
    qed
  qed
qed

lemma fetchAndSave_cases:
  assumes "fetchAndSave e u plat needAll w = (r, w')"
  obtains (failed) c sk er where "r = Inr (c, sk, Some er)" "db w' = db w"
  | (ok) logs tmp sk where "r = Inr (int (length tmp), sk, None)"
      "FetchSubmitLog e (ticks w) (p_Platform plat) u (p_Username plat) needAll = Inr logs"
      "normalizeFetchedSubmitLogs u (p_Platform plat) logs = (tmp, sk, None)"
      "db w' = submits_update (replace_submits u (p_Platform plat) needAll tmp) (db w)"
      "needAll \<Longrightarrow> length (filter (of_user_platform u (p_Platform plat)) (rows (submits (db w)))) \<le> length tmp"
proof -
  consider (direct) c sk er where "r = Inr (c, sk, Some er)" "db w' = db w"
    | (fetched) logs where "FetchSubmitLog e (ticks w) (p_Platform plat) u (p_Username plat) needAll = Inr logs"
      "store_fetched e u (p_Platform plat) needAll logs (tick w) = (r, w')"
    using assms
    by (auto simp: fetchAndSave_def returnE_def bindE_def rpcE_def
        split: option.splits prod.splits if_splits sum.splits)
  then show thesis
  proof cases
    case direct
    then show thesis by (rule failed)
  next
    case fetched
    from fetched(2) show thesis
      by (cases rule: store_fetched_cases) (auto intro: failed ok [OF _ fetched(1)])
  qed
qed

lemma normalize_owner:
  assumes "normalizeFetchedSubmitLogs u p logs = (tmp, sk, None)" and "x \<in> set tmp"
  shows "s_UserID x = u \<and> s_Platform x = p"
  using normalize_spec(4) [OF assms(1)] assms(2) by (auto simp: clean_log_def)

lemma normalize_keys:
  assumes "normalizeFetchedSubmitLogs u p logs = (tmp, sk, None)"
  shows "distinct (map submit_key tmp)"
  using normalize_spec(2) [OF assms] by (auto simp: distinct_map submit_key_def inj_on_def)

lemma row_map_by_id:
  "\<forall>x \<in> set xs. s_Platform x = p \<Longrightarrow>
   row_map xs = (\<lambda>(q, sid). if q = p then map_option submit_content (by_id xs sid) else None)"
  by (induction xs) (auto simp: row_map_def by_id_def submit_key_def fun_eq_iff)

lemma view_replace:
  assumes "unique_submits t" and "normalizeFetchedSubmitLogs u p logs = (tmp, sk, None)"
  shows "submit_view (replace_submits u p needAll tmp t) =
    (if needAll then without_user u p (submit_view t) else submit_view t) ++
    (\<lambda>(q, sid). if q = p then map_option submit_content (last_by_id u p logs sid) else None)"
proof -
  have "row_map tmp = (\<lambda>(q, sid). if q = p then map_option submit_content (last_by_id u p logs sid) else None)"
    using row_map_by_id [of tmp p] normalize_owner [OF assms(2)] normalize_spec(1) [OF assms(2)] by auto
  then show ?thesis
    using assms(1) view_fold_upsert [OF normalize_keys [OF assms(2)]]
    by (simp add: replace_submits_def view_delete)
qed

lemma unique_replace [intro]: "unique_submits t \<Longrightarrow> unique_submits (replace_submits u p needAll tmp t)"
  by (auto simp: replace_submits_def)

definition stored :: "int \<Rightarrow> string \<Rightarrow> SubmitLog table \<Rightarrow> nat" where
  "stored u p t = length (filter (of_user_platform u p) (rows t))"

definition owned :: "int \<Rightarrow> string \<Rightarrow> (string \<times> string \<rightharpoonup> submit_content) \<Rightarrow> string set" where
  "owned u p v = {sid. \<exists>c. v (p, sid) = Some c \<and> fst c = u}"

lemma view_iff:
  assumes "unique_submits t"
  shows "submit_view t k = Some c \<longleftrightarrow> (\<exists>r \<in> set (rows t). submit_key r = k \<and> submit_content r = c)"
  using assms by (auto simp: submit_view_def unique_submits_def o_def)

lemma owned_rows:
  assumes "unique_submits t"
  shows "owned u p (submit_view t) = s_SubmitID ` set (filter (of_user_platform u p) (rows t))"
proof -
  have "(\<exists>c. submit_view t (p, sid) = Some c \<and> fst c = u) \<longleftrightarrow>
      (\<exists>r \<in> set (rows t). submit_key r = (p, sid) \<and> fst (submit_content r) = u)" for sid
    using view_iff [OF assms] by metis
  then show ?thesis
    unfolding owned_def by (auto simp: of_user_platform_def submit_key_def submit_content_def)
qed

lemma stored_card:
  assumes "unique_submits t"
  shows "stored u p t = card (owned u p (submit_view t))" and "finite (owned u p (submit_view t))"
proof -
  have "distinct (map s_SubmitID (filter (of_user_platform u p) (rows t)))"
    using assms by (auto simp: unique_submits_def distinct_map inj_on_def submit_key_def of_user_platform_def)
  then have "card (s_SubmitID ` set (filter (of_user_platform u p) (rows t))) = stored u p t"
    unfolding stored_def by (metis distinct_card length_map list.set_map)
  then show "stored u p t = card (owned u p (submit_view t))" "finite (owned u p (submit_view t))"
    unfolding owned_rows [OF assms] by auto
qed

lemma by_id_dom: "dom (by_id xs) = s_SubmitID ` set xs"
  by (simp add: by_id_def dom_map_of_conv_image_fst image_image)

lemma by_id_SomeD: "by_id xs k = Some x \<Longrightarrow> x \<in> set xs"
  by (auto simp: by_id_def dest!: map_of_SomeD)

lemma owned_replace:
  assumes "unique_submits t" and n: "normalizeFetchedSubmitLogs u p logs = (tmp, sk, None)"
  shows "owned u p (submit_view (replace_submits u p needAll tmp t)) =
    s_SubmitID ` set tmp \<union> (if needAll then {} else owned u p (submit_view t))"
proof -
  have id: "last_by_id u p logs = by_id tmp" using normalize_spec(1) [OF n] by simp
  have c: "\<exists>c. submit_content x = (u, c)" if "by_id tmp sid = Some x" for sid x
    using normalize_owner [OF n by_id_SomeD [OF that]] by (simp add: submit_content_def)
  have "owned u p (v ++ (\<lambda>(q, sid). if q = p then map_option submit_content (by_id tmp sid) else None)) =
      dom (by_id tmp) \<union> owned u p v" for v
    using c by (fastforce simp: owned_def map_add_def split: option.splits)
  moreover have "owned u p (without_user u p v) = {}" for v
    by (auto simp: owned_def without_user_def split: option.splits)
  ultimately show ?thesis
    unfolding view_replace [OF assms] id by (simp add: by_id_dom)
qed

lemma stored_replace:
  assumes u: "unique_submits t" and n: "normalizeFetchedSubmitLogs u p logs = (tmp, sk, None)"
  shows "needAll \<Longrightarrow> stored u p (replace_submits u p needAll tmp t) = length tmp"
    and "\<not> needAll \<Longrightarrow> stored u p t \<le> stored u p (replace_submits u p needAll tmp t)"
proof -
  have "card (s_SubmitID ` set tmp) = length tmp"
    using normalize_spec(2) [OF n] by (metis distinct_card length_map list.set_map)
  then show "needAll \<Longrightarrow> stored u p (replace_submits u p needAll tmp t) = length tmp"
    using stored_card(1) [OF unique_replace [OF u]] owned_replace [OF u n] by auto
  show "stored u p t \<le> stored u p (replace_submits u p needAll tmp t)" if "\<not> needAll"
    unfolding stored_card(1) [OF u] stored_card(1) [OF unique_replace [OF u]]
    using that owned_replace [OF u n, of needAll] by (intro card_mono stored_card(2) unique_replace u) simp
qed

lemma save_submits_total:
  assumes "reliable e" and "distinct (map submit_key tmp)"
  shows "\<exists>w'. save_submits e u p needAll tmp w = (Inr (), w')"
proof -
  let ?d = "if needAll then q_delete e submits submits_update (of_user_platform u p) else returnE 0"
  obtain n w1 where d: "?d w = (Inr n, w1)"
    using assms(1) by (cases needAll) (auto simp: q_delete_succ returnE_def reliable_def)
  obtain w2 where "(if tmp = [] then returnE () else for_each (upsert_batch e) (batches spiderInsertBatchSize tmp)) w1 = (Inr (), w2)"
    using upsert_batches_total [OF assms(1), of "batches spiderInsertBatchSize tmp" w1] assms(2)
      concat_batches [of spiderInsertBatchSize tmp]
    by (cases "tmp = []") (auto simp: spiderInsertBatchSize_def returnE_def)
  with d assms(1) have "save_submits e u p needAll tmp w = (Inr (), tick w2)"
    unfolding save_submits_def by (simp add: transaction_succ bindE_succ reliable_def)
  then show ?thesis ..
qed

end
