(* ===== verification/SpiderTask.thy ===== *)
theory SpiderTask
  imports Spider
begin

text \<open>
  Refresh jobs: \<^verbatim>\<open>app/core_data/task\<close> (which creates a job row and publishes it to the queue, and
  the periodic tasks) and the handlers of \<^verbatim>\<open>internal/service/spider.go\<close>.

  \<open>Do\<close> returns the job id together with its error, so its error type has the sentinel
  \<open>ErrActiveRefreshJob\<close> as a constructor of its own. The rate limiters are a parameter of the
  environment, asked with the key and the interval the code gives them.
\<close>

section \<open>Publishing\<close>

definition publish :: "'x core_env_scheme \<Rightarrow> string \<Rightarrow> string \<Rightarrow> (gerr, unit) cact" where
  "publish e queue body =
     bindE (tryE (bindE Channel (\<lambda>ch. publishToQueue e ch queue body))) (\<lambda>r.
     case r of
       Inr _ \<Rightarrow> returnE ()
     | Inl er \<Rightarrow>
         bindE (withErr (\<lambda>rer. Errorf (err_text er @ ''; reconnect failed: '' @ err_text rer)) (Reconnect e)) (\<lambda>ch.
         publishToQueue e ch queue body))"

section \<open>Active jobs\<close>

definition ActiveRefreshConflictCondition :: "string \<Rightarrow> SpiderRefreshJob \<Rightarrow> bool" where
  "ActiveRefreshConflictCondition platform j =
     (if platform = '''' then j_CurrentPlatform j = '''' \<or> j_TotalPlatforms j \<noteq> 1
      else j_CurrentPlatform j = platform \<or> j_CurrentPlatform j = '''' \<or> j_TotalPlatforms j \<noteq> 1)"

definition is_active :: "SpiderRefreshJob \<Rightarrow> bool" where
  "is_active j \<longleftrightarrow> j_Status j = ''queued'' \<or> j_Status j = ''running''"

definition conflicts :: "int \<Rightarrow> string \<Rightarrow> SpiderRefreshJob \<Rightarrow> bool" where
  "conflicts userId platform j \<longleftrightarrow>
     j_UserID j = userId \<and> is_active j \<and> ActiveRefreshConflictCondition platform j"

definition activeRefreshJobTTL :: int where
  "activeRefreshJobTTL = 2 * 60 * 60"

definition stale_error :: string where
  "stale_error = ''refresh job not updated for long, marked as failed, start it again''"

text \<open>The statement compares with the clock of its own execution.\<close>

definition job_failed :: "string \<Rightarrow> time \<Rightarrow> SpiderRefreshJob \<Rightarrow> SpiderRefreshJob" where
  "job_failed errText now j = j\<lparr>j_Status := ''failed'', j_Error := errText, j_UpdatedAt := now\<rparr>"

definition stale :: "time \<Rightarrow> SpiderRefreshJob \<Rightarrow> bool" where
  "stale now j \<longleftrightarrow> j_UpdatedAt j < now - activeRefreshJobTTL * 1000000000"

definition expireStaleActiveJobs :: "'x env_scheme \<Rightarrow> int \<Rightarrow> string \<Rightarrow> (gerr, unit) cact" where
  "expireStaleActiveJobs e userId platform = stmt e (\<lambda>now d.
     (Inr (), jobs_update (update_where (\<lambda>j. conflicts userId platform j \<and> stale now j)
                (job_failed stale_error now)) d))"

text \<open>\<^verbatim>\<open>ORDER BY updated_at DESC, id LIMIT 1\<close>; no row gives the zero job, here \<open>None\<close>.\<close>

definition latest_job :: "(SpiderRefreshJob \<Rightarrow> bool) \<Rightarrow> SpiderRefreshJob table \<Rightarrow> SpiderRefreshJob option" where
  "latest_job P t =
     (case sort_key (\<lambda>j. - j_UpdatedAt j) (sort_key ID (filter P (rows t))) of
        [] \<Rightarrow> None | j # _ \<Rightarrow> Some j)"

definition findActiveJob :: "'x env_scheme \<Rightarrow> int \<Rightarrow> string \<Rightarrow> (gerr, SpiderRefreshJob option) cact" where
  "findActiveJob e userId platform =
     bindE (expireStaleActiveJobs e userId platform) (\<lambda>_.
     q_select e (\<lambda>d. latest_job (conflicts userId platform) (jobs d)))"

section \<open>Starting a job\<close>

datatype task_err = ErrActiveRefreshJob | TaskErr gerr

definition new_job :: "int \<Rightarrow> bool \<Rightarrow> string \<Rightarrow> int \<Rightarrow> string \<Rightarrow> nat \<Rightarrow> time \<Rightarrow> SpiderRefreshJob" where
  "new_job userId needAll source requesterId platform i now =
     \<lparr>ID = i, j_UserID = userId, j_RequesterID = requesterId, j_Source = source,
      j_Status = ''queued'', j_NeedAll = needAll, j_CurrentPlatform = platform,
      j_TotalPlatforms = (if platform = '''' then 0 else 1), j_FinishedPlatforms = 0, j_Error = '''',
      j_StartedAt = None, j_FinishedAt = None, j_CreatedAt = now, j_UpdatedAt = now\<rparr>"

definition fail_job :: "'x env_scheme \<Rightarrow> nat \<Rightarrow> gerr \<Rightarrow> ('e, unit) cact" where
  "fail_job e i er =
     bindE (tryE (q_update e jobs jobs_update (\<lambda>j. ID j = i) (job_failed (err_text er)))) (\<lambda>_. returnE ())"

text \<open>The part of \<open>Do\<close> after the search found no active job.\<close>

definition publish_job :: "'x core_env_scheme \<Rightarrow> SpiderEvent \<Rightarrow> (gerr, unit) cact" where
  "publish_job e ev = (case marshal_event e ev of Inl er \<Rightarrow> failE er | Inr body \<Rightarrow> publish e ''spider'' body)"

definition create_job ::
    "'x core_env_scheme \<Rightarrow> int \<Rightarrow> bool \<Rightarrow> string \<Rightarrow> int \<Rightarrow> string \<Rightarrow> ('e, int \<times> task_err option) cact" where
  "create_job e userId needAll source requesterId platform =
     bindE (tryE (q_create e jobs jobs_update (new_job userId needAll source requesterId platform))) (\<lambda>created.
     case created of
       Inl er \<Rightarrow> returnE (0, Some (TaskErr er))
     | Inr job \<Rightarrow>
         bindE (tryE (publish_job e \<lparr>ev_UserId = userId, ev_NeedAll = needAll,
           ev_JobId = int64_of (ID job), ev_Platform = platform\<rparr>)) (\<lambda>r.
         case r of
           Inl er \<Rightarrow> bindE (fail_job e (ID job) er) (\<lambda>_. returnE (int64_of (ID job), Some (TaskErr er)))
         | Inr _ \<Rightarrow> returnE (int64_of (ID job), None)))"

definition Do ::
    "'x core_env_scheme \<Rightarrow> int \<Rightarrow> bool \<Rightarrow> string \<Rightarrow> int \<Rightarrow> string \<Rightarrow> ('e, int \<times> task_err option) cact" where
  "Do e userId needAll source requesterId platform =
     bindE (tryE (findActiveJob e userId platform)) (\<lambda>found.
     case found of
       Inl er \<Rightarrow> returnE (0, Some (TaskErr er))
     | Inr activeJob \<Rightarrow>
         let activeID = (case activeJob of None \<Rightarrow> 0 | Some j \<Rightarrow> ID j) in
         if 0 < activeID then returnE (int64_of activeID, Some ErrActiveRefreshJob)
         else create_job e userId needAll source requesterId platform)"

section \<open>Periodic tasks\<close>

definition SummaryTask_Do :: "'x core_env_scheme \<Rightarrow> int \<Rightarrow> string \<Rightarrow> ('e, unit) cact" where
  "SummaryTask_Do e userId typ =
     (case marshal_summary e userId typ of
        Inl er \<Rightarrow> returnE ()
      | Inr body \<Rightarrow> bindE (tryE (publish e ''summary'' body)) (\<lambda>_. returnE ()))"

fun user_pages :: "'x core_env_scheme \<Rightarrow> int list \<Rightarrow> ('e, nat list) cact" where
  "user_pages e [] = returnE []"
| "user_pages e (i # is) =
     bindE (rpcE (\<lambda>n. profile_GetList e n 100 i)) (\<lambda>r.
     bindE (user_pages e is) (\<lambda>rest.
     returnE (case r of Inl er \<Rightarrow> rest | Inr (_, ids) \<Rightarrow> ids @ rest)))"

definition getUserIds :: "'x core_env_scheme \<Rightarrow> ('e, int list) cact" where
  "getUserIds e =
     bindE (rpcE (userRPC e)) (\<lambda>conn.
     case conn of
       Some er \<Rightarrow> returnE []
     | None \<Rightarrow>
         bindE (rpcE (\<lambda>n. profile_GetList e n 100 1)) (\<lambda>r.
         case r of
           Inl er \<Rightarrow> returnE []
         | Inr (tot, ids) \<Rightarrow>
             bindE (user_pages e [2..i64 (tot + 99) div 100]) (\<lambda>rest.
             returnE (map int64_of (ids @ rest)))))"

definition cron_refresh :: "'x core_env_scheme \<Rightarrow> ('e, unit) cact" where
  "cron_refresh e =
     bindE (getUserIds e) (\<lambda>userIds.
     for_each (\<lambda>v. bindE (Do e v False ''cron'' 0 '''') (\<lambda>_. returnE ())) userIds)"

definition cron_summary :: "'x core_env_scheme \<Rightarrow> string \<Rightarrow> ('e, unit) cact" where
  "cron_summary e typ =
     bindE (getUserIds e) (\<lambda>userIds. for_each (\<lambda>v. SummaryTask_Do e v typ) userIds)"

section \<open>Service: platform names and windows\<close>

definition SetForbidden :: kerr where
  "SetForbidden = Forbidden ''permission'' ''not allowed to set''"

definition InternalError :: kerr where
  "InternalError = InternalServer ''internal'' ''internal error''"

definition RateLimitError :: kerr where
  "RateLimitError = KErr 429 ''TOO_MANY_REQUESTS'' ''too many requests''"

definition CodeforcesRateLimitError :: kerr where
  "CodeforcesRateLimitError = KErr 429 ''TOO_MANY_REQUESTS'' ''Codeforces limits its API, try again in 30 minutes''"

definition isCodeforcesPlatform :: "string \<Rightarrow> bool" where
  "isCodeforcesPlatform platform \<longleftrightarrow> EqualFold (TrimSpace platform) ''CodeForces''"

definition samePlatformUsername :: "string \<Rightarrow> string \<Rightarrow> string \<Rightarrow> bool" where
  "samePlatformUsername platform current next =
     (if isCodeforcesPlatform platform then EqualFold (TrimSpace current) (TrimSpace next)
      else TrimSpace current = TrimSpace next)"

definition codeforcesManualRefreshWindow :: int where
  "codeforcesManualRefreshWindow = 30 * 60 * 1000000000"

definition defaultManualRefreshWindow :: int where
  "defaultManualRefreshWindow = 60 * 1000000000"

definition staleAfter :: int where
  "staleAfter = 24 * 60 * 60 * 1000000000"

definition manualRefreshWindow :: "string \<Rightarrow> int" where
  "manualRefreshWindow platform =
     (if isCodeforcesPlatform platform then codeforcesManualRefreshWindow else defaultManualRefreshWindow)"

definition allow :: "'x core_env_scheme \<Rightarrow> string \<Rightarrow> int \<Rightarrow> ('e, bool) cact" where
  "allow e key interval = rpcE (\<lambda>n. limiter_Allow e n key interval)"

section \<open>Service: replies\<close>

record UpdateRes =
  ur_Message :: string
  ur_JobId :: int

record JobInfo =
  ji_JobId :: int
  ji_UserId :: int
  ji_RequesterId :: int
  ji_Source :: string
  ji_Status :: string
  ji_NeedAll :: bool
  ji_CurrentPlatform :: string
  ji_TotalPlatforms :: int
  ji_FinishedPlatforms :: int
  ji_Error :: string
  ji_CreatedAt :: int
  ji_StartedAt :: int
  ji_FinishedAt :: int
  ji_UpdatedAt :: int

record RebuildAllReply =
  ra_TotalUsers :: int
  ra_QueuedJobs :: int
  ra_Skipped :: int
  ra_JobIds :: "int list"

record HealthReply =
  hr_Queued :: int
  hr_Running :: int
  hr_FailedToday :: int
  hr_GeneratedAt :: int

record SyncStatusInfo =
  si_Platform :: string
  si_Username :: string
  si_Status :: string
  si_LastStartedAt :: int
  si_LastFinishedAt :: int
  si_LastSuccessAt :: int
  si_LastError :: string
  si_LastFetchedCount :: int
  si_IsStale :: bool
  si_CanViewError :: bool
  si_UpdatedAt :: int

definition toUnix :: "time option \<Rightarrow> int" where
  "toUnix t = (case t of None \<Rightarrow> 0 | Some x \<Rightarrow> Unix x)"

definition jobToPb :: "SpiderRefreshJob \<Rightarrow> bool \<Rightarrow> JobInfo" where
  "jobToPb job canViewError =
     \<lparr>ji_JobId = int64_of (ID job), ji_UserId = j_UserID job, ji_RequesterId = j_RequesterID job,
      ji_Source = j_Source job, ji_Status = j_Status job, ji_NeedAll = j_NeedAll job,
      ji_CurrentPlatform = j_CurrentPlatform job, ji_TotalPlatforms = j_TotalPlatforms job,
      ji_FinishedPlatforms = j_FinishedPlatforms job,
      ji_Error = (if canViewError then j_Error job else ''''),
      ji_CreatedAt = Unix (j_CreatedAt job), ji_StartedAt = toUnix (j_StartedAt job),
      ji_FinishedAt = toUnix (j_FinishedAt job), ji_UpdatedAt = Unix (j_UpdatedAt job)\<rparr>"

section \<open>Service: handlers\<close>

text \<open>\<open>header\<close> is the value of the \<^verbatim>\<open>X-Spider-Platform\<close> header, empty when it is absent.\<close>

definition requested_platform :: "string \<Rightarrow> string \<Rightarrow> string" where
  "requested_platform req_platform header =
     (let platform = TrimSpace req_platform in if platform = '''' then TrimSpace header else platform)"

definition svc_SpiderUpdate ::
    "'x core_env_scheme \<Rightarrow> ctx \<Rightarrow> string \<Rightarrow> int \<Rightarrow> string \<Rightarrow> (kerr, UpdateRes) cact" where
  "svc_SpiderUpdate e hdr header userId req_platform =
     (let platform = requested_platform req_platform header;
          limiterKey = (if platform = '''' then ''update:'' @ fmt_d userId @ '':all''
                        else ''update:'' @ fmt_d userId @ '':'' @ platform)
      in bindE (if isCodeforcesPlatform platform
                then platformRefreshStartedWithin e userId platform codeforcesManualRefreshWindow
                else returnE False) (\<lambda>recent.
         if recent then returnE \<lparr>ur_Message = ''Codeforces refreshed recently'', ur_JobId = 0\<rparr>
         else bindE (allow e limiterKey (manualRefreshWindow platform)) (\<lambda>ok.
           if \<not> ok then failE (if isCodeforcesPlatform platform then CodeforcesRateLimitError else RateLimitError)
           else bindE (Do e userId True ''manual''
                  (case GetCurrentUser e hdr of None \<Rightarrow> 0 | Some cur \<Rightarrow> int64_of (UserID cur)) platform) (\<lambda>(jobId, err).
             case err of
               Some ErrActiveRefreshJob \<Rightarrow>
                 returnE \<lparr>ur_Message = ''a refresh job is running'', ur_JobId = jobId\<rparr>
             | Some (TaskErr er) \<Rightarrow> failE InternalError
             | None \<Rightarrow>
                 bindE (recordCoreOperation e hdr ''spider.update'' ''user'' userId
                   [(''platform'', CStr platform), (''jobId'', CInt jobId), (''source'', CStr ''manual'')]) (\<lambda>_.
                 returnE \<lparr>ur_Message = (if platform = '''' then ''updating'' else ''updating '' @ platform),
                           ur_JobId = jobId\<rparr>)))))"

definition GetSpider :: "'x core_env_scheme \<Rightarrow> int \<Rightarrow> (kerr, (string \<times> string) list) cact" where
  "GetSpider e userId =
     withErr (\<lambda>_. InternalError)
       (q_select e (\<lambda>d. map (\<lambda>p. (p_Platform p, p_Username p))
                          (filter (\<lambda>p. p_UserID p = userId) (rows (platforms d)))))"

definition svc_Job :: "'x core_env_scheme \<Rightarrow> ctx \<Rightarrow> int \<Rightarrow> (kerr, JobInfo) cact" where
  "svc_Job e hdr jobId =
     (if jobId \<le> 0 then failE (BadRequest ''argument'' ''jobId required'')
      else bindE (withErr (\<lambda>_. NotFoundErr ''no job'' ''job not found'')
                   (q_first e jobs (\<lambda>j. int (ID j) = jobId))) (\<lambda>job.
        if \<not> canViewUserDetail e hdr (j_UserID job) then failE (Forbidden ''permission'' ''not allowed to view the job'')
        else returnE (jobToPb job True)))"

definition jobs_page :: "int \<Rightarrow> int" where
  "jobs_page page = (if page \<le> 0 then 1 else page)"

definition jobs_page_size :: "int \<Rightarrow> int" where
  "jobs_page_size pageSize = (if pageSize \<le> 0 \<or> 100 < pageSize then 20 else pageSize)"

definition job_visible :: "bool \<Rightarrow> nat \<Rightarrow> int \<Rightarrow> string \<Rightarrow> SpiderRefreshJob \<Rightarrow> bool" where
  "job_visible scopeAll currentId userId status j \<longleftrightarrow>
     (if scopeAll then 0 < userId \<longrightarrow> j_UserID j = userId
      else j_UserID j = int currentId \<or> j_RequesterID j = int currentId) \<and>
     (status \<noteq> '''' \<longrightarrow> j_Status j = status)"

definition svc_Jobs ::
    "'x core_env_scheme \<Rightarrow> ctx \<Rightarrow> int \<Rightarrow> int \<Rightarrow> string \<Rightarrow> int \<Rightarrow> string \<Rightarrow> (kerr, JobInfo list \<times> int) cact" where
  "svc_Jobs e hdr req_page req_pageSize scope userId status =
     (let page = jobs_page req_page; pageSize = jobs_page_size req_pageSize in
      case GetCurrentUser e hdr of
        None \<Rightarrow> failE (Unauthorized ''not logged in'' ''log in first'')
      | Some cur \<Rightarrow>
          if scope = ''all'' \<and> \<not> isCoachOrAdmin e hdr
          then failE (Forbidden ''permission'' ''not allowed to view all jobs'')
          else let vis = job_visible (scope = ''all'') (UserID cur) userId status in
            bindE (withErr (\<lambda>_. InternalError) (q_select e (\<lambda>d. int (length (filter vis (rows (jobs d))))))) (\<lambda>count.
            bindE (withErr (\<lambda>_. InternalError) (q_select e (\<lambda>d.
              page_of pageSize (i64 (i64 (page - 1) * pageSize))
                (sort_key (\<lambda>j. - j_UpdatedAt j) (filter vis (rows (jobs d))))))) (\<lambda>found.
            returnE (map (\<lambda>job. jobToPb job (canViewUserDetail e hdr (j_UserID job))) found, count))))"

definition svc_Health :: "'x core_env_scheme \<Rightarrow> ctx \<Rightarrow> (kerr, HealthReply) cact" where
  "svc_Health e hdr =
     (if GetCurrentUser e hdr = None then failE (Unauthorized ''not logged in'' ''log in first'')
      else let countWhere = (\<lambda>P. withErr (\<lambda>_. InternalError)
             (q_select e (\<lambda>d. int (length (filter P (rows (jobs d)))))))
        in bindE (countWhere (\<lambda>j. j_Status j = ''queued'')) (\<lambda>queued.
           bindE (countWhere (\<lambda>j. j_Status j = ''running'')) (\<lambda>running.
           bindE (time_now e) (\<lambda>now.
           bindE (countWhere (\<lambda>j. j_Status j = ''failed'' \<and> now - 24 * 60 * 60 * 1000000000 \<le> j_UpdatedAt j)) (\<lambda>failedToday.
           bindE (time_now e) (\<lambda>generated.
           returnE \<lparr>hr_Queued = queued, hr_Running = running, hr_FailedToday = failedToday,
                     hr_GeneratedAt = Unix generated\<rparr>))))))"

definition retry_platform :: "SpiderRefreshJob \<Rightarrow> string" where
  "retry_platform job = (if j_TotalPlatforms job \<noteq> 1 then '''' else j_CurrentPlatform job)"

definition svc_Retry :: "'x core_env_scheme \<Rightarrow> ctx \<Rightarrow> int \<Rightarrow> (kerr, UpdateRes) cact" where
  "svc_Retry e hdr jobId =
     (if jobId \<le> 0 then failE (BadRequest ''argument'' ''jobId required'')
      else case GetCurrentUser e hdr of
        None \<Rightarrow> failE (Unauthorized ''not logged in'' ''log in first'')
      | Some cur \<Rightarrow>
          bindE (withErr (\<lambda>_. NotFoundErr ''no job'' ''job not found'')
                   (q_first e jobs (\<lambda>j. int (ID j) = jobId))) (\<lambda>job.
          if j_Status job \<noteq> ''failed'' then failE (BadRequest ''status'' ''only a failed job can be retried'')
          else if \<not> canViewUserDetail e hdr (j_UserID job) then failE (Forbidden ''permission'' ''not allowed to retry the job'')
          else bindE (Do e (j_UserID job) (j_NeedAll job) ''retry'' (int64_of (UserID cur)) (retry_platform job)) (\<lambda>(newJobId, err).
            case err of
              Some ErrActiveRefreshJob \<Rightarrow>
                returnE \<lparr>ur_Message = ''a refresh job is running'', ur_JobId = newJobId\<rparr>
            | Some (TaskErr er) \<Rightarrow> failE InternalError
            | None \<Rightarrow>
                bindE (recordCoreOperation e hdr ''spider.retry'' ''spider_job'' jobId
                  [(''userId'', CInt (j_UserID job)), (''platform'', CStr (retry_platform job)),
                   (''newJobId'', CInt newJobId)]) (\<lambda>_.
                returnE \<lparr>ur_Message = ''retry queued'', ur_JobId = newJobId\<rparr>))))"

fun rebuild_users ::
    "'x core_env_scheme \<Rightarrow> int \<Rightarrow> int list \<Rightarrow> RebuildAllReply \<Rightarrow> (kerr, RebuildAllReply) cact" where
  "rebuild_users e requesterId [] reply = returnE reply"
| "rebuild_users e requesterId (userId # userIds) reply =
     bindE (Do e userId True ''admin_rebuild'' requesterId '''') (\<lambda>(jobId, err).
     case err of
       Some ErrActiveRefreshJob \<Rightarrow>
         rebuild_users e requesterId userIds
           (reply\<lparr>ra_Skipped := ra_Skipped reply + 1,
                  ra_JobIds := (if 0 < jobId then ra_JobIds reply @ [jobId] else ra_JobIds reply)\<rparr>)
     | Some (TaskErr er) \<Rightarrow> failE InternalError
     | None \<Rightarrow>
         rebuild_users e requesterId userIds
           (reply\<lparr>ra_QueuedJobs := ra_QueuedJobs reply + 1, ra_JobIds := ra_JobIds reply @ [jobId]\<rparr>))"

definition RebuildAll :: "'x core_env_scheme \<Rightarrow> ctx \<Rightarrow> (kerr, RebuildAllReply) cact" where
  "RebuildAll e hdr =
     (case GetCurrentUser e hdr of
        None \<Rightarrow> failE (Unauthorized ''not logged in'' ''log in first'')
      | Some cur \<Rightarrow>
          if \<not> canManageCoreOps (RoleID cur) then failE (Forbidden ''permission'' ''admins and coaches only'')
          else bindE (withErr (\<lambda>_. InternalError)
                 (q_select e (\<lambda>d. sort (remdups (map p_UserID (rows (platforms d))))))) (\<lambda>userIds.
            bindE (rebuild_users e (int64_of (UserID cur)) userIds
              \<lparr>ra_TotalUsers = int (length userIds), ra_QueuedJobs = 0, ra_Skipped = 0, ra_JobIds = []\<rparr>) (\<lambda>reply.
            bindE (recordCoreOperation e hdr ''spider.rebuild_all'' ''spider_job'' 0
              [(''totalUsers'', CInt (ra_TotalUsers reply)), (''queuedJobs'', CInt (ra_QueuedJobs reply)),
               (''skipped'', CInt (ra_Skipped reply))]) (\<lambda>_.
            returnE reply))))"

definition status_info ::
    "time \<Rightarrow> bool \<Rightarrow> (string \<rightharpoonup> SpiderSyncStatus) \<Rightarrow> platform_row \<Rightarrow> SyncStatusInfo" where
  "status_info now canViewError statusByPlatform plat =
     (case statusByPlatform (p_Platform plat) of
        None \<Rightarrow>
          \<lparr>si_Platform = p_Platform plat, si_Username = p_Username plat, si_Status = ''never'',
           si_LastStartedAt = 0, si_LastFinishedAt = 0, si_LastSuccessAt = 0, si_LastError = '''',
           si_LastFetchedCount = 0, si_IsStale = True, si_CanViewError = canViewError, si_UpdatedAt = 0\<rparr>
      | Some item \<Rightarrow>
          \<lparr>si_Platform = p_Platform plat, si_Username = p_Username plat, si_Status = y_Status item,
           si_LastStartedAt = toUnix (y_LastStartedAt item),
           si_LastFinishedAt = toUnix (y_LastFinishedAt item),
           si_LastSuccessAt = toUnix (y_LastSuccessAt item),
           si_LastError = (if canViewError then y_LastError item else ''''),
           si_LastFetchedCount = y_LastFetchedCount item,
           si_IsStale = (case y_LastSuccessAt item of None \<Rightarrow> True | Some t \<Rightarrow> staleAfter < Sub now t),
           si_CanViewError = canViewError, si_UpdatedAt = Unix (y_UpdatedAt item)\<rparr>)"

definition svc_Status :: "'x core_env_scheme \<Rightarrow> ctx \<Rightarrow> int \<Rightarrow> (kerr, SyncStatusInfo list \<times> int \<times> int) cact" where
  "svc_Status e hdr userId =
     (if userId \<le> 0 then failE (BadRequest ''argument'' ''userId required'')
      else if \<not> VerifySelfOrAbove e hdr (u64 userId) \<and> \<not> isCoachOrAdmin e hdr
      then failE (Forbidden ''permission'' ''not allowed to view the status'')
      else bindE (withErr (\<lambda>_. InternalError)
                    (q_select e (\<lambda>d. filter (\<lambda>p. p_UserID p = userId) (rows (platforms d))))) (\<lambda>plats.
           bindE (withErr (\<lambda>_. InternalError)
                    (q_select e (\<lambda>d. filter (\<lambda>s. y_UserID s = userId) (rows (statuses d))))) (\<lambda>stats.
           bindE (time_now e) (\<lambda>now.
           returnE (map (status_info now (canViewUserDetail e hdr userId)
                      (foldl (\<lambda>m item. m(y_Platform item \<mapsto> item)) Map.empty stats)) plats,
                    staleAfter div 1000000000, Unix now)))))"

definition statistic_keys :: "int \<Rightarrow> string list" where
  "statistic_keys userId =
     [''core:submit_log:user:'' @ fmt_d userId, ''core:submit_log:user:-1'',
      ''user:'' @ fmt_d userId @ '':lastSubmitTime'', ''statistic:period:'' @ fmt_d userId,
      ''statistic:period:-1'', ''statistic:platform-period:'' @ fmt_d userId,
      ''statistic:platform-period:-1'']"

definition invalidateUserStatisticCache :: "'x core_env_scheme \<Rightarrow> int \<Rightarrow> ('db, 'e, unit) act" where
  "invalidateUserStatisticCache e userId =
     bindE (rdb_del_keys e (statistic_keys userId)) (\<lambda>_.
     rdb_unlink_patterns e
       [''statistic:heatmap:'' @ fmt_d userId @ '':*:*:*'', ''statistic:heatmap:0:*:*:*''])"

definition binding_of :: "int \<Rightarrow> string \<Rightarrow> platform_row \<Rightarrow> bool" where
  "binding_of userId platform p \<longleftrightarrow> p_UserID p = userId \<and> p_Platform p = platform"

text \<open>The part of \<open>SetSpider\<close> that replaces the binding and queues its refresh.\<close>

definition rebind ::
    "'x core_env_scheme \<Rightarrow> ctx \<Rightarrow> int \<Rightarrow> string \<Rightarrow> string \<Rightarrow> bool \<Rightarrow> (kerr, unit) cact" where
  "rebind e hdr userId platform username dropStatus =
     bindE (if dropStatus then tryE (q_delete e statuses statuses_update (status_of userId platform))
            else returnE (Inr 0)) (\<lambda>_.
     bindE (tryE (q_delete e platforms platforms_update (binding_of userId platform))) (\<lambda>_.
     bindE (tryE (q_delete e submits submits_update (of_user_platform userId platform))) (\<lambda>_.
     bindE (invalidateUserStatisticCache e userId) (\<lambda>_.
     bindE (withErr (\<lambda>_. InternalError) (q_create e platforms platforms_update (\<lambda>i now.
       \<lparr>ID = i, p_UserID = userId, p_Platform = platform, p_Username = username\<rparr>))) (\<lambda>_.
     bindE (Do e userId True ''bind'' (int64_of (GetCurrentUserId e hdr)) platform) (\<lambda>_.
     recordCoreOperation e hdr ''spider.set_binding'' ''user'' userId [(''platform'', CStr platform)]))))))"

definition sameBinding :: "string \<Rightarrow> string \<Rightarrow> gerr + platform_row \<Rightarrow> bool" where
  "sameBinding platform username existing =
     (case existing of Inl er \<Rightarrow> False | Inr p \<Rightarrow> samePlatformUsername platform (p_Username p) username)"

definition recent_binding :: "'x core_env_scheme \<Rightarrow> int \<Rightarrow> string \<Rightarrow> bool \<Rightarrow> (kerr, bool) cact" where
  "recent_binding e userId platform isSameBinding =
     (if isCodeforcesPlatform platform \<and> isSameBinding
      then platformRefreshStartedWithin e userId platform codeforcesManualRefreshWindow
      else returnE False)"

definition bind_platform ::
    "'x core_env_scheme \<Rightarrow> ctx \<Rightarrow> int \<Rightarrow> string \<Rightarrow> string \<Rightarrow> (kerr, string) cact" where
  "bind_platform e hdr userId platform username =
     bindE (tryE (q_first e platforms (binding_of userId platform))) (\<lambda>existing.
     bindE (recent_binding e userId platform (sameBinding platform username existing)) (\<lambda>recent.
     if recent then returnE ''Codeforces refreshed recently''
     else bindE (rebind e hdr userId platform username
                   (isCodeforcesPlatform platform \<and> \<not> isl existing \<and> \<not> sameBinding platform username existing)) (\<lambda>_.
       returnE ''binding set'')))"

definition SetSpider ::
    "'x core_env_scheme \<Rightarrow> ctx \<Rightarrow> int \<Rightarrow> string \<Rightarrow> string \<Rightarrow> (kerr, string) cact" where
  "SetSpider e hdr userId req_platform req_username =
     (if \<not> VerifySelfOrAbove e hdr (u64 userId) then failE SetForbidden
      else bindE (allow e (''user:'' @ fmt_d userId) (30 * 1000000000)) (\<lambda>ok.
        if \<not> ok then failE RateLimitError
        else bind_platform e hdr userId (TrimSpace req_platform) (TrimSpace req_username)))"

end
