(* ===== verification/CoreSystem.thy ===== *)
theory CoreSystem
  imports SpiderTask
begin

text \<open>
  The refresh-job service and the crawling pipeline as one system: the operations that change
  its state, the invariant they keep (primary keys and the unique indexes of submissions,
  contests and sync statuses), and the facts about jobs and sync statuses the properties rest
  on. Statements may fail at any point and crawlers may return anything.
\<close>

section \<open>The invariant\<close>

definition unique_contests :: "ContestLog table \<Rightarrow> bool" where
  "unique_contests t \<longleftrightarrow> distinct (map contest_key (rows t))"

definition status_key :: "SpiderSyncStatus \<Rightarrow> int \<times> string" where
  "status_key r = (y_UserID r, y_Platform r)"

definition unique_statuses :: "SpiderSyncStatus table \<Rightarrow> bool" where
  "unique_statuses t \<longleftrightarrow> distinct (map status_key (rows t))"

definition core_inv :: "cdb \<Rightarrow> bool" where
  "core_inv d \<longleftrightarrow>
     wf_table (platforms d) \<and> wf_table (submits d) \<and> wf_table (contests d) \<and> wf_table (statuses d) \<and>
     wf_table (jobs d) \<and> wf_table (core_oplogs d) \<and>
     unique_submits (submits d) \<and> unique_contests (contests d) \<and> unique_statuses (statuses d)"

section \<open>Operations of the service as a system\<close>

datatype core_op =
    COpUpdate ctx string int string
  | COpSetSpider ctx int string string
  | COpRetry ctx int
  | COpRebuildAll ctx
  | COpDelivery string
  | COpCronRefresh
  | COpCronSummary string

fun core_step :: "'x core_env_scheme \<Rightarrow> core_op \<Rightarrow> cdb world \<Rightarrow> cdb world" where
  "core_step e (COpUpdate hdr header userId platform) w = snd (svc_SpiderUpdate e hdr header userId platform w)"
| "core_step e (COpSetSpider hdr userId platform username) w = snd (SetSpider e hdr userId platform username w)"
| "core_step e (COpRetry hdr jobId) w = snd (svc_Retry e hdr jobId w)"
| "core_step e (COpRebuildAll hdr) w = snd (RebuildAll e hdr w)"
| "core_step e (COpDelivery body) w = snd (handle_delivery e body w :: (kerr + verdict) \<times> cdb world)"
| "core_step e COpCronRefresh w = snd (cron_refresh e w :: (kerr + unit) \<times> cdb world)"
| "core_step e (COpCronSummary typ) w = snd (cron_summary e typ w :: (kerr + unit) \<times> cdb world)"

definition core_run :: "'x core_env_scheme \<Rightarrow> core_op list \<Rightarrow> cdb world \<Rightarrow> cdb world" where
  "core_run e ops = fold (core_step e) ops"

section \<open>Actions that keep a predicate\<close>

lemma keeps_rdb_del_keys [keeps_intros]: "keeps I (rdb_del_keys e ks)"
  by (auto simp: keeps_def rdb_del_keys_def)

lemma keeps_unlink [keeps_intros]: "keeps I (rdb_unlink_patterns e ps)"
proof (induction ps)
  case (Cons p ps)
  have "keeps I (rdb_unlink_pattern e p)" by (auto simp: keeps_def rdb_unlink_pattern_def)
  with Cons show ?case by (auto intro!: keeps_intros)
qed (simp add: keeps_return)

lemma keeps_invalidate [keeps_intros]:
  "keeps I (invalidateCache e u)" "keeps I (invalidateUserStatisticCache e u)"
  unfolding invalidateCache_def invalidateUserStatisticCache_def by (intro keeps_intros)+

lemma keeps_allow [keeps_intros]: "keeps I (allow e k i)"
  by (simp add: allow_def keeps_rpcE)

lemma keeps_started_within [keeps_intros]: "keeps I (platformRefreshStartedWithin e u p win)"
  by (auto simp: platformRefreshStartedWithin_def intro!: keeps_intros)

lemma keeps_skip [keeps_intros]: "keeps I (shouldSkipRecentCodeforcesRefresh e u plat)"
  by (auto simp: shouldSkipRecentCodeforcesRefresh_def intro!: keeps_intros)

lemma keeps_filterRecent [keeps_intros]: "keeps I (filterRecentCodeforcesRefresh e u plats)"
  by (induction plats) (auto intro!: keeps_intros)

lemma keeps_guard [keeps_intros]: "keeps I (guard_full_fetch e u p na n)"
  by (auto simp: guard_full_fetch_def intro!: keeps_intros split: option.splits)

lemma keeps_for_each [keeps_intros]: "(\<And>x. keeps I (f x)) \<Longrightarrow> keeps I (for_each f xs)"
  by (induction xs) (auto intro!: keeps_intros)

lemma keeps_user_ids [keeps_intros]: "keeps I (getUserIds e)"
proof -
  have "keeps I (user_pages e is)" for "is"
    by (induction "is") (auto intro!: keeps_intros)
  then show ?thesis by (auto simp: getUserIds_def intro!: keeps_intros)
qed

text \<open>
  What loading one delivery needs of a predicate: the five writes of the pipeline keep it. Then
  the whole of \<open>LoadData\<close> does, at every failure of any statement or fetch.
\<close>

locale load_keeps =
  fixes I :: "cdb \<Rightarrow> bool" and e :: "'x core_env_scheme" and jobId :: int
  assumes save: "keeps I (save_submits e u p needAll tmp)"
    and contest: "keeps I (fetchAndSaveContest e u plat needAll)"
    and status: "(\<And>r. ID (f r) = ID r \<and> status_key (f r) = status_key r) \<Longrightarrow>
      keeps I (upsertPlatformStatus e u plat f :: (gerr, unit) cact)"
    and job: "(\<And>j. ID (g j) = ID j) \<Longrightarrow> keeps I (update_job e jobId g :: (gerr, unit) cact)"
begin

lemma job_ops:
  "keeps I (startJob e jobId n :: (gerr, unit) cact)" "keeps I (finishJob e jobId s t :: (gerr, unit) cact)"
  "keeps I (finishPlatform e jobId p :: (gerr, unit) cact)" "keeps I (setCurrentPlatform e jobId p :: (gerr, unit) cact)"
  by (auto simp: startJob_def finishJob_def finishPlatform_def setCurrentPlatform_def started_def finished_def
      platform_done_def intro!: keeps_intros job)

lemma status_ops:
  "keeps I (markPlatformRunning e u plat :: (gerr, unit) cact)"
  "keeps I (markPlatformSuccess e u plat c sk :: (gerr, unit) cact)"
  "keeps I (markPlatformFailed e u plat er :: (gerr, unit) cact)"
  by (auto simp: markPlatformRunning_def markPlatformSuccess_def markPlatformFailed_def running_updates_def
      success_updates_def failed_updates_def status_key_def intro!: keeps_intros status)

lemma fetch: "keeps I (fetchAndSave e u plat needAll :: (gerr, _) cact)"
  unfolding fetchAndSave_def store_fetched_def
  by (auto intro!: keeps_intros save split: prod.splits option.splits)

lemma rounds: "keeps I (load_rounds e u plat needAll k n er :: (gerr, _) cact)"
  by (induction n arbitrary: er) (auto intro!: keeps_intros fetch contest)

lemma one_platform: "keeps I (loadOnePlatform e u plat needAll :: (gerr, _) cact)"
  unfolding loadOnePlatform_def Let_def by (intro keeps_intros status_ops rounds)

lemma all_platforms: "keeps I (load_platforms e jobId u needAll plats failed :: (gerr, _) cact)"
  by (induction plats arbitrary: failed) (auto intro!: keeps_intros job_ops status_ops one_platform)

lemma body: "keeps I (load_body e jobId u needAll target)"
  unfolding load_body_def load_bound_def run_platforms_def fail_run_def
  by (intro keeps_intros job_ops all_platforms)

lemma LoadData_keeps: "keeps I (LoadData e jobId u needAll target)"
  unfolding LoadData_def by (intro keeps_intros body)

end


section \<open>Every operation keeps the invariant\<close>

lemma wf_seq_Suc: "wf_table t \<Longrightarrow> wf_table (t\<lparr>seq := Suc (seq t)\<rparr>)"
  by (auto simp: wf_table_def less_Suc_eq)

lemma wf_upsert: "wf_table t \<Longrightarrow> wf_table (upsert_submit x t)"
  using wf_seq_Suc [OF wf_update_where [of t "assign_submit x"], of "\<lambda>r. submit_key r = submit_key x"]
  by (auto simp: upsert_submit_def row_simps)

lemma wf_insert_contest: "wf_table t \<Longrightarrow> wf_table (insert_contest x t)"
  by (auto simp: insert_contest_def intro: wf_seq_Suc)

lemma unique_insert_contest: "unique_contests t \<Longrightarrow> unique_contests (insert_contest x t)"
  by (auto simp: unique_contests_def insert_contest_def row_simps contest_key_def)

lemma unique_deletes:
  "unique_contests t \<Longrightarrow> unique_contests (delete_where P t)"
  "unique_statuses v \<Longrightarrow> unique_statuses (delete_where Q v)"
  by (simp_all add: unique_contests_def unique_statuses_def row_simps distinct_map_filter)

lemma fold_keeps: "(\<And>x t. P t \<Longrightarrow> P (f x t)) \<Longrightarrow> P t \<Longrightarrow> P (fold f xs t)"
  by (induction xs arbitrary: t) auto

lemma core_inv_submits:
  "core_inv d \<Longrightarrow> wf_table (g (submits d)) \<Longrightarrow> unique_submits (g (submits d)) \<Longrightarrow> core_inv (submits_update g d)"
  by (simp add: core_inv_def)

lemma core_inv_contests:
  "core_inv d \<Longrightarrow> wf_table (g (contests d)) \<Longrightarrow> unique_contests (g (contests d)) \<Longrightarrow> core_inv (contests_update g d)"
  by (simp add: core_inv_def)

lemma core_inv_statuses:
  "core_inv d \<Longrightarrow> wf_table (g (statuses d)) \<Longrightarrow> unique_statuses (g (statuses d)) \<Longrightarrow> core_inv (statuses_update g d)"
  by (simp add: core_inv_def)

lemma core_inv_others:
  "core_inv d \<Longrightarrow> wf_table (g (jobs d)) \<Longrightarrow> core_inv (jobs_update g d)"
  "core_inv d \<Longrightarrow> wf_table (h (platforms d)) \<Longrightarrow> core_inv (platforms_update h d)"
  "core_inv d \<Longrightarrow> wf_table (k (core_oplogs d)) \<Longrightarrow> core_inv (core_oplogs_update k d)"
  "core_inv d \<Longrightarrow> core_inv (d\<lparr>mq_ready := b\<rparr>)" "core_inv d \<Longrightarrow> core_inv (d\<lparr>mq := q\<rparr>)"
  by (simp_all add: core_inv_def)

lemma core_invD:
  "core_inv d \<Longrightarrow> wf_table (platforms d)" "core_inv d \<Longrightarrow> wf_table (submits d)"
  "core_inv d \<Longrightarrow> wf_table (contests d)" "core_inv d \<Longrightarrow> wf_table (statuses d)"
  "core_inv d \<Longrightarrow> wf_table (jobs d)" "core_inv d \<Longrightarrow> wf_table (core_oplogs d)"
  "core_inv d \<Longrightarrow> unique_submits (submits d)" "core_inv d \<Longrightarrow> unique_contests (contests d)"
  "core_inv d \<Longrightarrow> unique_statuses (statuses d)"
  by (simp_all add: core_inv_def)

lemma core_delete_submits: "keeps core_inv (q_delete e submits submits_update P)"
  by (intro keeps_delete core_inv_submits) (auto dest: core_invD)

lemma core_save: "keeps core_inv (save_submits e u p needAll tmp)"
proof -
  have "keeps core_inv (upsert_batch e xs)" for e :: "'x env_scheme" and xs
    unfolding upsert_batch_def
    by (rule keeps_stmt)
      (auto intro!: core_inv_submits fold_keeps [of wf_table] unique_fold_upsert wf_upsert dest: core_invD)
  then show ?thesis
    unfolding save_submits_def
    by (intro keeps_transaction_body keeps_intros core_delete_submits)
qed

lemma core_contest: "keeps core_inv (fetchAndSaveContest e u plat needAll)"
proof -
  have "keeps core_inv (insert_contest_batch e xs)" for xs
    unfolding insert_contest_batch_def
    by (rule keeps_stmt)
      (auto intro!: core_inv_contests fold_keeps [of wf_table] fold_keeps [of unique_contests]
        wf_insert_contest unique_insert_contest dest: core_invD)
  moreover have "keeps core_inv (q_delete e contests contests_update P)" for P
    by (intro keeps_delete core_inv_contests)
      (auto dest: core_invD intro: unique_deletes)
  ultimately show ?thesis
    unfolding fetchAndSaveContest_def by (intro keeps_transaction_body keeps_intros)
qed

lemma core_job_update:
  "(\<And>now j. ID (f now j) = ID j) \<Longrightarrow> keeps core_inv (q_update e jobs jobs_update P f)"
  by (intro keeps_update core_inv_others wf_update_where) (auto dest: core_invD)

lemma unique_status_update:
  "unique_statuses t \<Longrightarrow> (\<And>r. status_key (f r) = status_key r) \<Longrightarrow> unique_statuses (update_where P f t)"
proof -
  assume u: "unique_statuses t" and k: "\<And>r. status_key (f r) = status_key r"
  then have "status_key \<circ> (\<lambda>r. if P r then f r else r) = status_key" by auto
  with u show ?thesis by (simp add: unique_statuses_def row_simps)
qed

lemma status_key_updated_at [simp]: "status_key (r\<lparr>y_UpdatedAt := t\<rparr>) = status_key r"
  by (simp add: status_key_def)

lemma core_firstOrCreate: "keeps core_inv (firstOrCreate_status e u plat)"
proof (rule keepsI)
  fix w r w'
  assume I: "core_inv (db w)" and m: "firstOrCreate_status e u plat w = (r, w')"
  let ?q = "q_first e statuses (status_of u (p_Platform plat))"
  obtain r1 w1 where q: "?q w = (r1, w1)" by fastforce
  have w1: "db w1 = db w" using keepsD [OF keeps_first [of "\<lambda>d. d = db w"] _ q] by simp
  show "core_inv (db w')"
  proof (cases "r1 = Inl ErrRecordNotFound")
    case False
    with m q w1 I show ?thesis
      by (auto simp: firstOrCreate_status_def bindE_def tryE_def returnE_def failE_def split: sum.splits if_splits)
  next
    case True
    with q have none: "\<forall>s \<in> set (rows (statuses (db w))). \<not> status_of u (p_Platform plat) s"
      by (auto simp: q_first_missing first_where_None)
    from True m q have c: "q_create e statuses statuses_update (new_status u plat) w1 = (r, w')"
      by (auto simp: firstOrCreate_status_def bindE_def tryE_def)
    let ?n = "new_status u plat (seq (statuses (db w1))) (clock e (ticks w1))"
    have "unique_statuses (insert_row ?n (statuses (db w)))"
      using none core_invD(9) [OF I]
      by (auto simp: unique_statuses_def row_simps status_key_def new_status_def status_of_def)
    moreover have "wf_table (insert_row ?n (statuses (db w)))"
      using core_invD(4) [OF I] w1 by (intro wf_insert_row) (auto simp: new_status_def)
    ultimately have "core_inv (statuses_update (insert_row ?n) (db w1))"
      using I w1 by (intro core_inv_statuses) simp_all
    with c w1 I show ?thesis
      by (auto simp: q_create_def stmt_def Let_def split: if_splits)
  qed
qed

lemma core_status:
  assumes "\<And>r. ID (f r) = ID r \<and> status_key (f r) = status_key r"
  shows "keeps core_inv (upsertPlatformStatus e u plat f)"
proof -
  have "keeps core_inv (q_update e statuses statuses_update P (\<lambda>now r. (f r)\<lparr>y_UpdatedAt := now\<rparr>))" for P
    using assms by (intro keeps_update core_inv_statuses wf_update_where unique_status_update) (auto dest: core_invD)
  then show ?thesis
    unfolding upsertPlatformStatus_def by (intro keeps_intros core_firstOrCreate)
qed

lemma core_update_job: "(\<And>j. ID (f j) = ID j) \<Longrightarrow> keeps core_inv (update_job e i f)"
  unfolding update_job_def by (intro keeps_intros core_job_update) auto

interpretation core_load: load_keeps core_inv e jobId for e jobId
  by unfold_locales (auto intro: core_save core_contest core_status core_update_job)

lemma core_delivery: "keeps core_inv (handle_delivery e body)"
  unfolding handle_delivery_def by (intro keeps_intros core_load.LoadData_keeps)

lemma core_publish: "keeps core_inv (publish e q body)"
proof -
  have "keeps core_inv (mq_call f)" for f
    by (auto simp: keeps_def mq_call_def split: option.splits)
  moreover have "keeps core_inv (mq_set b :: ('e, unit) cact)" for b
    by (auto simp: keeps_def mq_set_def intro: core_inv_others)
  moreover have "keeps core_inv Channel"
    by (auto simp: keeps_def Channel_def split: if_splits)
  moreover have "keeps core_inv (\<lambda>w. (Inr (), w\<lparr>db := (db w)\<lparr>mq := mq (db w) @ [(q, body)]\<rparr>\<rparr>))"
    by (auto simp: keeps_def intro: core_inv_others)
  ultimately show ?thesis
    unfolding publish_def publishToQueue_def Reconnect_def closeLocked_def by (intro keeps_intros)
qed

lemma core_record: "keeps core_inv (recordCoreOperation e hdr a tt ti det)"
  unfolding recordCoreOperation_def Let_def
  by (intro keeps_intros keeps_create core_inv_others wf_insert_row) (auto dest: core_invD)

lemma core_expire: "keeps core_inv (expireStaleActiveJobs e u p)"
  unfolding expireStaleActiveJobs_def
  by (intro keeps_stmt) (auto simp: job_failed_def intro!: core_inv_others wf_update_where dest: core_invD)

lemma core_Do: "keeps core_inv (Do e u na src req p)"
proof -
  have "keeps core_inv (fail_job e i er)" for i er
    unfolding fail_job_def by (intro keeps_intros core_job_update) (simp add: job_failed_def)
  moreover have "keeps core_inv (q_create e jobs jobs_update (new_job u na src req p))"
    by (intro keeps_create core_inv_others wf_insert_row) (auto simp: new_job_def dest: core_invD)
  ultimately show ?thesis
    unfolding Do_def create_job_def publish_job_def findActiveJob_def Let_def
    by (intro keeps_intros core_publish core_expire)
qed

lemma core_rebind: "keeps core_inv (rebind e hdr u p un ds)"
proof -
  have "keeps core_inv (q_delete e statuses statuses_update P)" for P
    by (intro keeps_delete core_inv_statuses)
      (auto dest: core_invD intro: unique_deletes)
  moreover have "keeps core_inv (q_delete e platforms platforms_update P)" for P
    by (intro keeps_delete core_inv_others) (auto dest: core_invD)
  moreover have "keeps core_inv (q_create e platforms platforms_update (\<lambda>i now.
       \<lparr>ID = i, p_UserID = u, p_Platform = p, p_Username = un\<rparr>))"
    by (intro keeps_create core_inv_others wf_insert_row) (auto dest: core_invD)
  ultimately show ?thesis
    unfolding rebind_def by (intro keeps_intros core_delete_submits core_Do core_record)
qed

lemma core_rebuild: "keeps core_inv (rebuild_users e req us reply)"
proof (induction us arbitrary: reply)
  case (Cons u us)
  then show ?case
    by (auto intro!: keeps_intros core_Do split: option.splits task_err.splits)
qed (simp add: keeps_return)

lemma core_handlers:
  "keeps core_inv (svc_SpiderUpdate e hdr h u p)" "keeps core_inv (SetSpider e hdr u p un)"
  "keeps core_inv (svc_Retry e hdr i)" "keeps core_inv (RebuildAll e hdr)"
  "keeps core_inv (cron_refresh e)" "keeps core_inv (cron_summary e typ)"
  unfolding svc_SpiderUpdate_def SetSpider_def bind_platform_def recent_binding_def svc_Retry_def RebuildAll_def cron_refresh_def cron_summary_def
    SummaryTask_Do_def Let_def
  by ((intro keeps_intros core_Do core_record core_rebind core_rebuild core_publish;
       auto split: option.splits task_err.splits intro!: keeps_intros core_record)+)

interpretation core: invariant_system "core_step e" "\<lambda>w. core_inv (db w)" for e
proof
  fix w :: "cdb world" and op assume "core_inv (db w)"
  then show "core_inv (db (core_step e op w))"
    by (cases op) (auto intro: keeps_snd core_handlers core_delivery)
qed

section \<open>Jobs while a delivery is loaded\<close>

definition has_job :: "int \<Rightarrow> cdb \<Rightarrow> bool" where
  "has_job i d \<longleftrightarrow> (\<exists>j \<in> set (rows (jobs d)). int (ID j) = i)"

definition other_jobs :: "int \<Rightarrow> cdb \<Rightarrow> SpiderRefreshJob list" where
  "other_jobs i d = filter (\<lambda>j. int (ID j) \<noteq> i) (rows (jobs d))"

text \<open>A predicate of the job table and the published messages: only the job writes matter to it.\<close>

lemma keeps_jobs_only:
  assumes "\<And>d d'. jobs d' = jobs d \<Longrightarrow> mq d' = mq d \<Longrightarrow> I d' = I d"
  shows "keeps I (save_submits e u p na tmp)" "keeps I (fetchAndSaveContest e u plat na)"
    "keeps I (upsertPlatformStatus e u plat f)"
proof -
  have I: "I (submits_update g d) = I d" "I (contests_update g2 d) = I d" "I (statuses_update g3 d) = I d"
    for g g2 g3 d by (rule assms; simp)+
  have d: "keeps I (q_delete e1 submits submits_update P)" "keeps I (q_delete e1 contests contests_update Q)"
    for e1 :: "'c env_scheme" and P Q
    by (auto intro!: keeps_delete simp: I)
  have b: "keeps I (upsert_batch e xs)" for xs
    unfolding upsert_batch_def by (rule keeps_stmt) (simp add: I)
  have c: "keeps I (insert_contest_batch e2 xs)" for e2 :: "'d env_scheme" and xs
    unfolding insert_contest_batch_def by (rule keeps_stmt) (simp add: I)
  have s: "keeps I (q_create e3 statuses statuses_update mk)" "keeps I (q_update e3 statuses statuses_update P h)"
    for e3 :: "'f env_scheme" and mk P h by (auto intro!: keeps_create keeps_update simp: I)
  show "keeps I (save_submits e u p na tmp)"
    unfolding save_submits_def by (intro keeps_transaction_body keeps_intros d b)
  show "keeps I (fetchAndSaveContest e u plat na)"
    unfolding fetchAndSaveContest_def by (intro keeps_transaction_body keeps_intros d c)
  show "keeps I (upsertPlatformStatus e u plat f)"
    unfolding upsertPlatformStatus_def firstOrCreate_status_def by (intro keeps_intros s)
qed

lemma keeps_update_job:
  assumes "\<And>d now. I d \<Longrightarrow> I (jobs_update (update_where (\<lambda>j. int (ID j) = i) (\<lambda>j. (f j)\<lparr>j_UpdatedAt := now\<rparr>)) d)"
  shows "keeps I (update_job e i f)"
  unfolding update_job_def by (intro keeps_intros keeps_update assms)

lemma ids_update_where: "(\<And>j. ID (f j) = ID j) \<Longrightarrow> map ID (rows (update_where P f t)) = map ID (rows t)"
  by (simp add: row_simps)

lemma has_job_ids: "has_job i d \<longleftrightarrow> i \<in> int ` set (map ID (rows (jobs d)))"
  by (auto simp: has_job_def)

lemma has_job_update: "(\<And>j. ID (f j) = ID j) \<Longrightarrow> has_job i (jobs_update (update_where P f) d) = has_job i d"
  unfolding has_job_ids by (simp add: ids_update_where del: set_map)

lemma other_jobs_update:
  assumes "\<And>j. ID (f j) = ID j"
  shows "other_jobs i (jobs_update (update_where (\<lambda>j. int (ID j) = i) f) d) = other_jobs i d"
proof -
  have "filter (\<lambda>j. int (ID j) \<noteq> i) (map (\<lambda>j. if int (ID j) = i then f j else j) js) =
      filter (\<lambda>j. int (ID j) \<noteq> i) js" for js
    by (induction js) (auto simp: assms)
  then show ?thesis by (simp add: other_jobs_def row_simps)
qed

definition job_frame :: "int \<Rightarrow> SpiderRefreshJob list \<Rightarrow> (string \<times> string) list \<Rightarrow> cdb \<Rightarrow> bool" where
  "job_frame i js q d \<longleftrightarrow> has_job i d \<and> other_jobs i d = js \<and> mq d = q"

lemma job_frame_cong: "jobs d' = jobs d \<Longrightarrow> mq d' = mq d \<Longrightarrow> job_frame i js q d' = job_frame i js q d"
  by (simp add: job_frame_def has_job_def other_jobs_def)

interpretation load_job: load_keeps "job_frame i js q" e i for e i js q
proof
  fix g :: "SpiderRefreshJob \<Rightarrow> SpiderRefreshJob"
  assume "\<And>j. ID (g j) = ID j"
  then show "keeps (job_frame i js q) (update_job e i g :: (gerr, unit) cact)"
    by (intro keeps_update_job) (simp add: job_frame_def has_job_update other_jobs_update)
qed (intro keeps_jobs_only job_frame_cong; assumption)+

text \<open>Whatever happened before, the job ends with the status and the error given to \<open>finishJob\<close>.\<close>

definition job_ended :: "int \<Rightarrow> string \<Rightarrow> string \<Rightarrow> cdb \<Rightarrow> bool" where
  "job_ended i status errText d \<longleftrightarrow>
     (\<forall>j \<in> set (rows (jobs d)). int (ID j) = i \<longrightarrow>
        j_Status j = status \<and> j_Error j = errText \<and> j_FinishedAt j \<noteq> None)"

lemma update_job_reliable:
  "reliable e \<Longrightarrow> update_job e i f w = (Inr (), (tick w)\<lparr>db :=
     jobs_update (update_where (\<lambda>j. int (ID j) = i) (\<lambda>j. (f j)\<lparr>j_UpdatedAt := clock e (ticks w)\<rparr>)) (db w)\<rparr>)"
  by (simp add: update_job_def reliable_def bindE_def tryE_def q_update_def stmt_def returnE_def)

lemma finishJob_ended:
  assumes "reliable e" and "0 < i" and "finishJob e i status errText w = (r, w')"
  shows "job_ended i status errText (db w')" and "r = Inr ()"
proof -
  let ?f = "\<lambda>j. (finished (clock e (ticks w)) status errText j)\<lparr>j_UpdatedAt := clock e (ticks (tick w))\<rparr>"
  have "update_job e i (finished (clock e (ticks w)) status errText) (tick w) = (r, w')"
    using assms by (simp add: finishJob_def bindE_def time_now_def)
  with assms(1) have r: "r = Inr ()"
    and w': "jobs (db w') = update_where (\<lambda>j. int (ID j) = i) ?f (jobs (db w))"
    by (auto simp: update_job_reliable)
  show "r = Inr ()" by (fact r)
  show "job_ended i status errText (db w')"
    unfolding job_ended_def w' by (auto dest!: update_where_rowD simp: finished_def)
qed

definition ended_as :: "int \<Rightarrow> gerr + unit \<Rightarrow> cdb \<Rightarrow> bool" where
  "ended_as i r d = (case r of Inl er \<Rightarrow> job_ended i ''failed'' (err_text er) d | Inr _ \<Rightarrow> job_ended i ''success'' '''' d)"

lemma fail_run_ended:
  assumes "reliable e" and "0 < i" and "fail_run e i er w = (r, w')"
  shows "ended_as i r (db w')"
proof -
  obtain r1 w1 where f: "finishJob e i ''failed'' (err_text er) w = (r1 :: gerr + unit, w1)" by fastforce
  from finishJob_ended [OF assms(1,2) f] assms(3) f show ?thesis
    by (auto simp: fail_run_def ended_as_def bindE_def failE_def)
qed

lemma finish_ok_ended:
  "reliable e \<Longrightarrow> 0 < i \<Longrightarrow> finishJob e i ''success'' '''' w = (r, w') \<Longrightarrow> ended_as i r (db w')"
  using finishJob_ended by (fastforce simp: ended_as_def)

lemma ok_cache [ok_intros]: "never_fails (rdb_del_keys e ks)" "never_fails (rdb_unlink_patterns e2 ps)"
proof -
  show "never_fails (rdb_del_keys e ks)" by (simp add: never_fails_def rdb_del_keys_def)
  have "never_fails (rdb_unlink_pattern e2 p)" for p by (simp add: never_fails_def rdb_unlink_pattern_def)
  then show "never_fails (rdb_unlink_patterns e2 ps)"
    by (induction ps) (auto intro!: ok_intros)
qed

lemma ok_invalidate [ok_intros]: "never_fails (invalidateCache e u)"
  unfolding invalidateCache_def by (intro ok_intros)

lemma ok_jobs [ok_intros]:
  "never_fails (update_job e i f)" "never_fails (startJob e i n)" "never_fails (finishJob e i s t)"
  "never_fails (finishPlatform e i p)" "never_fails (setCurrentPlatform e i p)"
  unfolding startJob_def finishJob_def finishPlatform_def setCurrentPlatform_def update_job_def
  by (intro ok_intros)+

lemma ok_status [ok_intros]:
  "never_fails (markPlatformRunning e u plat)" "never_fails (markPlatformSuccess e u plat c sk)"
  "never_fails (markPlatformFailed e u plat er)"
  unfolding markPlatformRunning_def markPlatformSuccess_def markPlatformFailed_def upsertPlatformStatus_def
  by (intro ok_intros)+

lemma ok_fetch [ok_intros]: "never_fails (fetchAndSave e u plat na)"
  unfolding fetchAndSave_def store_fetched_def by (intro ok_intros)

lemma ok_rounds [ok_intros]: "never_fails (load_rounds e u plat na k n er)"
  by (induction n arbitrary: er) (auto intro!: ok_intros)

lemma ok_one [ok_intros]: "never_fails (loadOnePlatform e u plat na)"
  unfolding loadOnePlatform_def Let_def by (intro ok_intros)

lemma ok_platforms [ok_intros]: "never_fails (load_platforms e i u na plats failed)"
  by (induction plats arbitrary: failed) (auto intro!: ok_intros)

lemma ok_within [ok_intros]: "never_fails (platformRefreshStartedWithin e u p win)"
  unfolding platformRefreshStartedWithin_def by (intro ok_intros)

lemma ok_skip [ok_intros]: "never_fails (shouldSkipRecentCodeforcesRefresh e u plat)"
  unfolding shouldSkipRecentCodeforcesRefresh_def by (intro ok_intros)

lemma ok_filter [ok_intros]: "never_fails (filterRecentCodeforcesRefresh e u plats)"
  by (induction plats) (auto intro!: ok_intros)

lemma bind_ok:
  assumes "bindE m k w = (r, w')" and "never_fails m"
  obtains a w1 where "m w = (Inr a, w1)" "k a w1 = (r, w')"
proof -
  obtain a w1 where "m w = (Inr a, w1)" by (rule never_failsE [OF assms(2)])
  with assms(1) show thesis by (intro that [of a w1]) (simp_all add: bindE_def)
qed

lemma run_platforms_ended:
  assumes "reliable e" and "0 < i" and "run_platforms e i u na plats w = (r, w')"
  shows "ended_as i r (db w')"
proof -
  note fin = fail_run_ended [OF assms(1,2)] finish_ok_ended [OF assms(1,2)]
  from assms(3) obtain w0 where
    k: "(if plats = [] then finishJob e i ''success'' ''''
      else bindE (load_platforms e i u na plats []) (\<lambda>failed.
        if failed \<noteq> [] then fail_run e i (Errorf (Join failed ''; '')) else finishJob e i ''success'' '''')) w0 = (r, w')"
    unfolding run_platforms_def by (rule bind_ok) (intro ok_intros)
  show ?thesis
  proof (cases "plats = []")
    case True
    with k show ?thesis by (simp add: fin)
  next
    case False
    with k have "bindE (load_platforms e i u na plats []) (\<lambda>failed.
        if failed \<noteq> [] then fail_run e i (Errorf (Join failed ''; '')) else finishJob e i ''success'' '''') w0 = (r, w')"
      by simp
    then show ?thesis
      by (rule bind_ok) (auto intro: ok_intros fin split: if_splits)
  qed
qed

lemma load_bound_ended:
  assumes "reliable e" and "0 < i" and "load_bound e i u na target plats w = (r, w')"
  shows "ended_as i r (db w')"
proof -
  note fin = fail_run_ended [OF assms(1,2)] finish_ok_ended [OF assms(1,2)] run_platforms_ended [OF assms(1,2)]
  consider "plats = []" | "plats \<noteq> []" "target = ''''" | "plats \<noteq> []" "target \<noteq> ''''" by blast
  then show ?thesis
  proof cases
    case 1
    with assms(3) show ?thesis by (simp add: load_bound_def fin)
  next
    case 2
    with assms(3) have "bindE (filterRecentCodeforcesRefresh e u plats) (run_platforms e i u na) w = (r, w')"
      by (simp add: load_bound_def)
    then show ?thesis by (rule bind_ok) (auto intro: ok_intros fin(3))
  next
    case 3
    with assms(3) have "bindE (shouldSkipRecentCodeforcesRefresh e u (hd plats)) (\<lambda>skip.
         if skip then bindE (startJob e i 0) (\<lambda>_. finishJob e i ''success'' '''')
         else run_platforms e i u na plats) w = (r, w')"
      by (simp add: load_bound_def)
    then obtain skip w1 where s: "(if skip then bindE (startJob e i 0) (\<lambda>_. finishJob e i ''success'' '''')
         else run_platforms e i u na plats) w1 = (r, w')"
      by (rule bind_ok) (intro ok_intros)
    show ?thesis
    proof (cases skip)
      case True
      with s have "bindE (startJob e i 0) (\<lambda>_. finishJob e i ''success'' '''') w1 = (r, w')" by simp
      then show ?thesis by (rule bind_ok) (auto intro: ok_intros fin(2))
    qed (use s in \<open>auto intro: fin(3)\<close>)
  qed
qed

lemma load_body_ended:
  assumes "reliable e" and "0 < i" and "load_body e i u na target w = (r, w')"
  shows "ended_as i r (db w')"
  using assms(3) unfolding load_body_def
proof (rule bind_ok)
  fix a w1
  assume k: "(case a of Inl er \<Rightarrow> fail_run e i er | Inr plats \<Rightarrow> load_bound e i u na target plats) w1 = (r, w')"
  show "ended_as i r (db w')"
    using k fail_run_ended [OF assms(1,2)] load_bound_ended [OF assms(1,2)] by (cases a) auto
qed (intro ok_intros)

text \<open>The deferred cache invalidation changes neither the result nor a table.\<close>

lemma LoadData_body:
  assumes "LoadData e i u na target w = (r, w')"
  obtains w0 where "load_body e i u na target w = (r, w0)" "db w' = db w0"
proof -
  from assms obtain r0 w0 where b: "load_body e i u na target w = (r0, w0)"
    and k: "bindE (invalidateCache e u) (\<lambda>_. case r0 of Inl er \<Rightarrow> failE er | Inr _ \<Rightarrow> returnE ()) w0 = (r, w')"
    unfolding LoadData_def by (rule bind_ok) (auto simp: tryE_succ intro: ok_intros)
  from k obtain w1 where i: "invalidateCache e u w0 = (Inr () :: gerr + unit, w1)"
    and r: "(case r0 of Inl er \<Rightarrow> failE er | Inr _ \<Rightarrow> returnE ()) w1 = (r, w')"
    by (rule bind_ok) (auto intro: ok_intros)
  from r have "r = r0" "w' = w1" by (auto simp: failE_def returnE_def split: sum.splits)
  moreover have "db w1 = db w0" using keepsD [OF keeps_invalidate(1) [of "\<lambda>d. d = db w0"] _ i] by simp
  ultimately show thesis using b by (intro that) simp_all
qed

lemma LoadData_ended:
  "reliable e \<Longrightarrow> 0 < i \<Longrightarrow> LoadData e i u na target w = (r, w') \<Longrightarrow> ended_as i r (db w')"
  by (erule LoadData_body) (auto intro: load_body_ended)

end
