(* ===== verification/RefreshJobs.thy ===== *)
theory RefreshJobs
  imports CoreSystem
begin

text \<open>
  What starting a refresh job does: expiry of stale jobs, the search for an active one, the new
  row, and the message on the queue, on every branch of \<open>Do\<close>.
\<close>

section \<open>Starting a job\<close>

lemma latest_job_Some: "latest_job P t = Some j \<Longrightarrow> j \<in> set (rows t) \<and> P j"
proof -
  assume "latest_job P t = Some j"
  then obtain js where "sort_key (\<lambda>j. - j_UpdatedAt j) (sort_key ID (filter P (rows t))) = j # js"
    by (auto simp: latest_job_def split: list.splits)
  then have "j \<in> set (sort_key (\<lambda>j. - j_UpdatedAt j) (sort_key ID (filter P (rows t))))"
    by (metis list.set_intros(1))
  then show ?thesis by simp
qed

lemma latest_job_None: "latest_job P t = None \<longleftrightarrow> filter P (rows t) = []"
proof -
  have "sort_key f (sort_key g xs) = [] \<longleftrightarrow> xs = []" for f :: "SpiderRefreshJob \<Rightarrow> int" and g :: "SpiderRefreshJob \<Rightarrow> nat" and xs
    by (metis length_0_conv length_sort)
  then show ?thesis by (auto simp: latest_job_def split: list.splits)
qed

lemma mq_call_db: "mq_call f w = (r, w') \<Longrightarrow> db w' = db w"
  by (auto simp: mq_call_def split: option.splits)

lemma publishToQueue_db:
  "publishToQueue e ch q body w = (r, w') \<Longrightarrow>
     db w' = (db w)\<lparr>mq := mq (db w) @ (if isl r then [] else [(q, body)])\<rparr>"
  by (auto simp: publishToQueue_def bindE_def failE_def dest!: mq_call_db split: if_splits prod.splits sum.splits)

lemma Reconnect_db: "Reconnect e w = (r, w') \<Longrightarrow> \<exists>b. db w' = (db w)\<lparr>mq_ready := b\<rparr>"
  by (auto simp: Reconnect_def closeLocked_def mq_set_def bindE_def returnE_def
      dest!: mq_call_db split: prod.splits sum.splits)

lemma Channel_db: "Channel w = (r, w') \<Longrightarrow> w' = w"
  by (auto simp: Channel_def split: if_splits)

lemma publish_db:
  assumes "publish e q body w = (r, w')"
  shows "\<exists>b. db w' = (db w)\<lparr>mq_ready := b, mq := mq (db w) @ (if isl r then [] else [(q, body)])\<rparr>"
proof -
  obtain r1 w1 where first: "bindE Channel (\<lambda>ch. publishToQueue e ch q body) w = (r1, w1)" by fastforce
  have d1: "db w1 = (db w)\<lparr>mq := mq (db w) @ (if isl r1 then [] else [(q, body)])\<rparr>"
    using first
    by (auto simp: bindE_def dest!: Channel_db publishToQueue_db split: prod.splits sum.splits)
  show ?thesis
  proof (cases r1)
    case (Inr x)
    with assms first have "r = Inr ()" "w' = w1" by (auto simp: publish_def bindE_def tryE_def returnE_def)
    with d1 Inr show ?thesis by (intro exI [of _ "mq_ready (db w)"]) simp
  next
    case (Inl er)
    with d1 have w1: "db w1 = db w" by simp
    obtain r2 w2 where rc: "Reconnect e w1 = (r2, w2)" by fastforce
    from Reconnect_db [OF rc] w1 obtain b where w2: "db w2 = (db w)\<lparr>mq_ready := b\<rparr>" by auto
    from assms first Inl rc
    have "(r2 = Inl er2 \<longrightarrow> isl r \<and> w' = w2) \<and> (\<forall>ch. r2 = Inr ch \<longrightarrow> publishToQueue e ch q body w2 = (r, w'))" for er2
      by (auto simp: publish_def bindE_def tryE_def withErr_def split: prod.splits)
    with w2 show ?thesis
      by (cases r2) (auto dest!: publishToQueue_db intro!: exI [of _ b])
  qed
qed

definition expired :: "time \<Rightarrow> int \<Rightarrow> string \<Rightarrow> SpiderRefreshJob table \<Rightarrow> SpiderRefreshJob table" where
  "expired now u p = update_where (\<lambda>j. conflicts u p j \<and> stale now j) (job_failed stale_error now)"

lemma findActiveJob_succ:
  "findActiveJob e u p w = (Inr a, w') \<longleftrightarrow>
     \<not> stmt_fails e (ticks w) \<and> \<not> stmt_fails e (Suc (ticks w)) \<and>
     w' = (tick (tick w))\<lparr>db := jobs_update (expired (clock e (ticks w)) u p) (db w)\<rparr> \<and>
     a = latest_job (conflicts u p) (expired (clock e (ticks w)) u p (jobs (db w)))"
  by (auto simp: findActiveJob_def expireStaleActiveJobs_def bindE_succ stmt_def q_select_succ expired_def tick_def)

lemma findActiveJob_err:
  "findActiveJob e u p w = (Inl er, w') \<Longrightarrow> stmt_fails e (ticks w) \<or> stmt_fails e (Suc (ticks w))"
  by (auto simp: findActiveJob_def expireStaleActiveJobs_def bindE_def stmt_def q_select_def split: if_splits)

lemma job_failed_inactive [simp]: "\<not> is_active (job_failed t now j)"
  by (simp add: is_active_def job_failed_def)

lemma job_failed_no_conflict [simp]: "\<not> conflicts u p (job_failed t now j)"
  by (simp add: conflicts_def)

lemma job_failed_ID [simp]: "ID (job_failed t now j) = ID j"
  by (simp add: job_failed_def)

lemma wf_expired: "wf_table t \<Longrightarrow> wf_table (expired now u p t)"
  by (auto simp: expired_def)

lemma expired_seq [simp]: "seq (expired now u p t) = seq t"
  by (simp add: expired_def row_simps)

lemma expired_fresh:
  "j \<in> set (rows t) \<Longrightarrow> \<not> stale now j \<Longrightarrow> j \<in> set (rows (expired now u p t))"
  by (force simp: expired_def row_simps)

lemma new_job_simps [simp]:
  "ID (new_job u na src req p i now) = i" "conflicts u p (new_job u na src req p i now)"
  by (auto simp: new_job_def conflicts_def is_active_def ActiveRefreshConflictCondition_def)

lemma Do_cases:
  assumes "wf_table (jobs (db w))" and "Do e u na src req p w = (r, w')"
  obtains (lookup_failed) er where "stmt_fails e (ticks w) \<or> stmt_fails e (Suc (ticks w))"
      "r = Inr (0, Some (TaskErr er))"
  | (active) j where "j \<in> set (rows (expired (clock e (ticks w)) u p (jobs (db w))))" "conflicts u p j"
      "r = Inr (int64_of (ID j), Some ErrActiveRefreshJob)"
      "db w' = jobs_update (expired (clock e (ticks w)) u p) (db w)"
  | (free) w1 where "filter (conflicts u p) (rows (expired (clock e (ticks w)) u p (jobs (db w)))) = []"
      "db w1 = jobs_update (expired (clock e (ticks w)) u p) (db w)"
      "create_job e u na src req p w1 = (r, w')"
proof -
  obtain f w1 where f: "findActiveJob e u p w = (f, w1)" by fastforce
  show thesis
  proof (cases f)
    case (Inl er)
    with f assms(2) show thesis
      by (intro lookup_failed [of er]) (auto simp: Do_def bindE_def tryE_def returnE_def dest: findActiveJob_err)
  next
    case (Inr a)
    note fs = f [unfolded Inr findActiveJob_succ]
    show thesis
    proof (cases a)
      case None
      with f Inr assms(2) have "create_job e u na src req p w1 = (r, w')"
        by (simp add: Do_def bindE_def tryE_def)
      moreover have "filter (conflicts u p) (rows (expired (clock e (ticks w)) u p (jobs (db w)))) = []"
        using fs None latest_job_None by metis
      ultimately show thesis using fs by (intro free) auto
    next
      case (Some j)
      with fs have j: "j \<in> set (rows (expired (clock e (ticks w)) u p (jobs (db w))))" "conflicts u p j"
        using latest_job_Some by metis+
      with wf_expired [OF assms(1)] have "0 < ID j" unfolding wf_table_def by blast
      with f Inr Some assms(2) have "r = Inr (int64_of (ID j), Some ErrActiveRefreshJob)" "w' = w1"
        by (simp_all add: Do_def bindE_def tryE_def returnE_def)
      with j fs show thesis by (intro active) auto
    qed
  qed
qed

lemma publish_job_db:
  assumes "publish_job e ev w = (r, w')"
  shows "\<exists>b. db w' = (db w)\<lparr>mq_ready := b, mq := mq (db w) @
    (case r of Inl _ \<Rightarrow> [] | Inr _ \<Rightarrow> (case marshal_event e ev of Inr body \<Rightarrow> [(''spider'', body)] | Inl _ \<Rightarrow> []))\<rparr>"
    and "r = Inr x \<Longrightarrow> \<exists>body. marshal_event e ev = Inr body"
proof -
  show "\<exists>b. db w' = (db w)\<lparr>mq_ready := b, mq := mq (db w) @
    (case r of Inl _ \<Rightarrow> [] | Inr _ \<Rightarrow> (case marshal_event e ev of Inr body \<Rightarrow> [(''spider'', body)] | Inl _ \<Rightarrow> []))\<rparr>"
  proof (cases "marshal_event e ev")
    case (Inl er)
    with assms show ?thesis by (auto simp: publish_job_def failE_def intro!: exI [of _ "mq_ready (db w)"])
  next
    case (Inr body)
    with assms have "publish e ''spider'' body w = (r, w')" by (simp add: publish_job_def)
    from publish_db [OF this] Inr show ?thesis by (cases r) auto
  qed
  show "r = Inr x \<Longrightarrow> \<exists>body. marshal_event e ev = Inr body"
    using assms by (auto simp: publish_job_def failE_def split: sum.splits)
qed

text \<open>Creating a job on a table without conflicting ones.\<close>

lemma create_job_cases:
  assumes "create_job e u na src req p w = (r, w')"
  obtains (not_created) er where "stmt_fails e (ticks w)" "r = Inr (0, Some (TaskErr er))" "db w' = db w"
  | (unpublished) er job where "job = new_job u na src req p (seq (jobs (db w))) (clock e (ticks w))"
      "r = Inr (int64_of (ID job), Some (TaskErr er))"
      "mq (db w') = mq (db w)"
      "reliable e \<Longrightarrow> \<exists>now. jobs (db w') =
        update_where (\<lambda>j. ID j = ID job) (job_failed (err_text er) now) (insert_row job (jobs (db w)))"
  | (published) b body job where "job = new_job u na src req p (seq (jobs (db w))) (clock e (ticks w))"
      "r = Inr (int64_of (ID job), None)"
      "marshal_event e \<lparr>ev_UserId = u, ev_NeedAll = na, ev_JobId = int64_of (ID job), ev_Platform = p\<rparr> = Inr body"
      "db w' = (jobs_update (insert_row job) (db w))\<lparr>mq_ready := b, mq := mq (db w) @ [(''spider'', body)]\<rparr>"
proof (cases "stmt_fails e (ticks w)")
  case True
  with assms show thesis
    by (intro not_created) (auto simp: create_job_def bindE_def tryE_def returnE_def q_create_def stmt_def)
next
  case False
  let ?job = "new_job u na src req p (seq (jobs (db w))) (clock e (ticks w))"
  let ?ev = "\<lparr>ev_UserId = u, ev_NeedAll = na, ev_JobId = int64_of (ID ?job), ev_Platform = p\<rparr>"
  let ?w1 = "(tick w)\<lparr>db := jobs_update (insert_row ?job) (db w)\<rparr>"
  obtain s w2 where s: "publish_job e ?ev ?w1 = (s, w2)" by fastforce
  have c: "q_create e jobs jobs_update (new_job u na src req p) w = (Inr ?job, ?w1)"
    using False by (simp add: q_create_succ)
  show thesis
  proof (cases s)
    case (Inr x)
    from publish_job_db(2) [OF s Inr] obtain body where m: "marshal_event e ?ev = Inr body" by blast
    moreover from publish_job_db(1) [OF s] m Inr obtain b where
      "db w2 = (jobs_update (insert_row ?job) (db w))\<lparr>mq_ready := b, mq := mq (db w) @ [(''spider'', body)]\<rparr>" by auto
    moreover have "r = Inr (int64_of (ID ?job), None)" "w' = w2"
      using assms c s Inr by (simp_all add: create_job_def bindE_def tryE_def returnE_def)
    ultimately show thesis by (intro published [OF refl]) auto
  next
    case (Inl er)
    from publish_job_db(1) [OF s] Inl obtain b where
      w2: "db w2 = (jobs_update (insert_row ?job) (db w))\<lparr>mq_ready := b\<rparr>" by auto
    have r: "r = Inr (int64_of (ID ?job), Some (TaskErr er))"
      "db w' = (if stmt_fails e (ticks w2) then db w2
        else jobs_update (update_where (\<lambda>j. ID j = ID ?job) (job_failed (err_text er) (clock e (ticks w2)))) (db w2))"
      using assms c s Inl
      by (auto simp: create_job_def fail_job_def bindE_def tryE_def returnE_def q_update_def stmt_def split: if_splits)
    show thesis
      by (rule unpublished [OF refl r(1)]) (use r(2) w2 in \<open>auto simp: reliable_def split: if_splits\<close>)
  qed
qed

lemma rebuild_users_count:
  "rebuild_users e req us reply w = (Inr reply', w') \<Longrightarrow>
     ra_TotalUsers reply' = ra_TotalUsers reply \<and>
     ra_QueuedJobs reply' + ra_Skipped reply' = ra_QueuedJobs reply + ra_Skipped reply + int (length us)"
proof (induction us arbitrary: reply w)
  case (Cons u us)
  from Cons.prems obtain i err w1 where d: "Do e u True ''admin_rebuild'' req '''' w = (Inr (i, err) :: kerr + _, w1)"
    and k: "(case err of
       Some ErrActiveRefreshJob \<Rightarrow>
         rebuild_users e req us
           (reply\<lparr>ra_Skipped := ra_Skipped reply + 1,
                  ra_JobIds := (if 0 < i then ra_JobIds reply @ [i] else ra_JobIds reply)\<rparr>)
     | Some (TaskErr er) \<Rightarrow> failE InternalError
     | None \<Rightarrow>
         rebuild_users e req us
           (reply\<lparr>ra_QueuedJobs := ra_QueuedJobs reply + 1, ra_JobIds := ra_JobIds reply @ [i]\<rparr>)) w1 = (Inr reply', w')"
    unfolding rebuild_users.simps(2) bindE_succ by fast
  show ?case
    using k by (cases err) (auto simp: failE_def dest!: Cons.IH split: task_err.splits)
qed (simp add: returnE_def)

end
