(* ===== verification/SyncStatus.thy ===== *)
theory SyncStatus
  imports CoreSystem
begin

text \<open>
  The sync-status row of a user and a platform: how \<open>upsertPlatformStatus\<close> changes it and what is
  recorded once a platform was loaded.
\<close>

section \<open>Sync statuses\<close>

definition status_row :: "int \<Rightarrow> string \<Rightarrow> cdb \<Rightarrow> SpiderSyncStatus option" where
  "status_row u p d = first_where (status_of u p) (statuses d)"

definition status_or_new :: "int \<Rightarrow> platform_row \<Rightarrow> time \<Rightarrow> cdb \<Rightarrow> SpiderSyncStatus" where
  "status_or_new u plat now d =
     (case status_row u (p_Platform plat) d of Some s \<Rightarrow> s | None \<Rightarrow> new_status u plat (seq (statuses d)) now)"

lemma status_of_key: "status_of u p s \<longleftrightarrow> status_key s = (u, p)"
  by (auto simp: status_of_def status_key_def)

lemma status_row_eq:
  assumes "unique_statuses (statuses d)" and "s \<in> set (rows (statuses d))" and "status_key s = (u, p)"
  shows "status_row u p d = Some s"
proof (cases "status_row u p d")
  case None
  with assms show ?thesis by (auto simp: status_row_def first_where_None status_of_key)
next
  case (Some x)
  then have "x \<in> set (rows (statuses d))" "status_key x = (u, p)"
    by (auto simp: status_row_def status_of_key dest: first_where_Some)
  with assms have "x = s" by (auto simp: unique_statuses_def distinct_map inj_on_def)
  with Some show ?thesis by simp
qed

lemma firstOrCreate_reliable:
  assumes "reliable e"
  obtains w1 now where "firstOrCreate_status e u plat w = (Inr (status_or_new u plat now (db w)), w1)"
    "status_or_new u plat now (db w) \<in> set (rows (statuses (db w1)))"
proof (cases "status_row u (p_Platform plat) (db w)")
  case (Some s)
  with assms show thesis
    by (intro that [of 0 "tick w"])
      (auto simp: firstOrCreate_status_def bindE_def tryE_def q_first_def stmt_def reliable_def status_row_def
        status_or_new_def returnE_def tick_def dest: first_where_Some)
next
  case None
  with assms show thesis
    by (intro that [of "clock e (Suc (ticks w))"])
      (auto simp: firstOrCreate_status_def bindE_def tryE_def q_first_def q_create_def stmt_def reliable_def status_row_def
        status_or_new_def returnE_def row_simps Let_def)
qed

lemma upsert_status_reliable:
  assumes "reliable e" and inv: "core_inv (db w)"
    and f: "\<And>r. ID (f r) = ID r \<and> status_key (f r) = status_key r"
    and u: "upsertPlatformStatus e u plat f w = (r, w')"
  obtains now now' where
    "status_row u (p_Platform plat) (db w') = Some ((f (status_or_new u plat now (db w)))\<lparr>y_UpdatedAt := now'\<rparr>)"
proof -
  obtain w1 now where c: "firstOrCreate_status e u plat w = (Inr (status_or_new u plat now (db w)), w1)"
    and s: "status_or_new u plat now (db w) \<in> set (rows (statuses (db w1)))" (is "?s \<in> _")
    by (rule firstOrCreate_reliable [OF assms(1)])
  let ?g = "\<lambda>r. (f r)\<lparr>y_UpdatedAt := clock e (ticks w1)\<rparr>"
  have w': "statuses (db w') = update_where (\<lambda>r. ID r = ID ?s) ?g (statuses (db w1))"
    using u c assms(1)
    by (auto simp: upsertPlatformStatus_def bindE_def tryE_def q_update_def stmt_def reliable_def returnE_def)
  have k: "status_key ?s = (u, p_Platform plat)"
    by (auto simp: status_or_new_def status_row_def new_status_def status_key_def status_of_def
        split: option.splits dest: first_where_Some)
  have "?g ?s \<in> set (rows (statuses (db w')))"
    unfolding w' row_simps using s by force
  moreover have "status_key (?g ?s) = (u, p_Platform plat)" using f k by simp
  moreover have "core_inv (db w')" using keepsD [OF core_status [OF f] inv u] .
  ultimately show thesis using status_row_eq by (intro that) (auto dest: core_invD)
qed

lemma keeps_status_only:
  assumes "\<And>d d'. statuses d' = statuses d \<Longrightarrow> I d' = I d"
  shows "keeps I (save_submits e u p na tmp)" "keeps I (fetchAndSaveContest e u2 plat na)"
    "keeps I (update_job e i f)"
proof -
  have I: "I (submits_update g d) = I d" "I (contests_update g2 d) = I d" "I (jobs_update g3 d) = I d"
    for g g2 g3 d by (rule assms; simp)+
  have d: "keeps I (q_delete e1 submits submits_update P)" for e1 :: "'c env_scheme" and P
    by (auto intro!: keeps_delete simp: I)
  have d2: "keeps I (q_delete e1 contests contests_update Q)" for e1 :: "'c env_scheme" and Q
    by (auto intro!: keeps_delete simp: I)
  have b: "keeps I (upsert_batch e1 xs)" for e1 :: "'c env_scheme" and xs
    unfolding upsert_batch_def by (rule keeps_stmt) (simp add: I)
  have c: "keeps I (insert_contest_batch e1 xs)" for e1 :: "'c env_scheme" and xs
    unfolding insert_contest_batch_def by (rule keeps_stmt) (simp add: I)
  show "keeps I (save_submits e u p na tmp)"
    unfolding save_submits_def by (intro keeps_transaction_body keeps_intros d b)
  show "keeps I (fetchAndSaveContest e u2 plat na)"
    unfolding fetchAndSaveContest_def by (intro keeps_transaction_body keeps_intros d2 c)
  show "keeps I (update_job e i f)"
    unfolding update_job_def by (intro keeps_intros keeps_update) (simp add: I)
qed

lemma rounds_statuses: "load_rounds e u plat na k n er w = (r, w') \<Longrightarrow> statuses (db w') = statuses (db w)"
proof -
  let ?I = "\<lambda>d. statuses d = statuses (db w)"
  note base = keeps_status_only [of ?I]
  have f: "keeps ?I (fetchAndSave e u plat na)"
    unfolding fetchAndSave_def store_fetched_def by (intro keeps_intros base) simp
  have "keeps ?I (load_rounds e u plat na k n er)"
    by (induction n arbitrary: er) (auto intro!: keeps_intros f base)
  then show "load_rounds e u plat na k n er w = (r, w') \<Longrightarrow> ?thesis" by (auto dest: keepsD)
qed


text \<open>What is recorded about a platform after it was loaded.\<close>

definition recorded_success :: "SpiderSyncStatus \<Rightarrow> bool" where
  "recorded_success s \<longleftrightarrow>
     y_Status s = ''success'' \<and> y_LastError s = '''' \<and> y_ConsecutiveFailure s = 0 \<and>
     y_LastFinishedAt s \<noteq> None \<and> y_LastSuccessAt s = y_LastFinishedAt s \<and> y_LastStartedAt s \<noteq> None"

definition recorded_failure :: "SpiderSyncStatus option \<Rightarrow> string \<Rightarrow> SpiderSyncStatus \<Rightarrow> bool" where
  "recorded_failure before errText s \<longleftrightarrow>
     y_Status s = ''failed'' \<and> y_LastError s = errText \<and> y_LastFinishedAt s \<noteq> None \<and> y_LastStartedAt s \<noteq> None \<and>
     y_ConsecutiveFailure s = (case before of None \<Rightarrow> 0 | Some s0 \<Rightarrow> y_ConsecutiveFailure s0) + 1 \<and>
     y_LastSuccessAt s = (case before of None \<Rightarrow> None | Some s0 \<Rightarrow> y_LastSuccessAt s0)"

lemma mark_keys:
  "ID (running_updates t n r) = ID r \<and> status_key (running_updates t n r) = status_key r"
  "ID (success_updates t n c k r) = ID r \<and> status_key (success_updates t n c k r) = status_key r"
  "ID (failed_updates t n er r) = ID r \<and> status_key (failed_updates t n er r) = status_key r"
  by (simp_all add: running_updates_def success_updates_def failed_updates_def status_key_def)

lemma mark_reliable:
  assumes "reliable e" and "core_inv (db w)"
  shows "markPlatformRunning e u plat w = (r, w') \<Longrightarrow> \<exists>t now now'. status_row u (p_Platform plat) (db w') =
      Some ((running_updates t (p_Username plat) (status_or_new u plat now (db w)))\<lparr>y_UpdatedAt := now'\<rparr>)"
    and "markPlatformSuccess e u plat c k w = (r, w') \<Longrightarrow> \<exists>t now now'. status_row u (p_Platform plat) (db w') =
      Some ((success_updates t (p_Username plat) c k (status_or_new u plat now (db w)))\<lparr>y_UpdatedAt := now'\<rparr>)"
    and "markPlatformFailed e u plat er w = (r, w') \<Longrightarrow> \<exists>t now now'. status_row u (p_Platform plat) (db w') =
      Some ((failed_updates t (p_Username plat) (err_text er) (status_or_new u plat now (db w)))\<lparr>y_UpdatedAt := now'\<rparr>)"
proof -
  have inv: "core_inv (db (tick w))" using assms(2) by simp
  note up = upsert_status_reliable [OF assms(1) inv]
  show "\<exists>t now now'. status_row u (p_Platform plat) (db w') =
      Some ((running_updates t (p_Username plat) (status_or_new u plat now (db w)))\<lparr>y_UpdatedAt := now'\<rparr>)"
    if "markPlatformRunning e u plat w = (r, w')"
  proof -
    have "upsertPlatformStatus e u plat (running_updates (clock e (ticks w)) (p_Username plat)) (tick w) = (r, w')"
      using that by (simp add: markPlatformRunning_def bindE_def time_now_def)
    then show ?thesis by (rule up [OF mark_keys(1)]) auto
  qed
  show "\<exists>t now now'. status_row u (p_Platform plat) (db w') =
      Some ((success_updates t (p_Username plat) c k (status_or_new u plat now (db w)))\<lparr>y_UpdatedAt := now'\<rparr>)"
    if "markPlatformSuccess e u plat c k w = (r, w')"
  proof -
    have "upsertPlatformStatus e u plat (success_updates (clock e (ticks w)) (p_Username plat) c k) (tick w) = (r, w')"
      using that by (simp add: markPlatformSuccess_def bindE_def time_now_def)
    then show ?thesis by (rule up [OF mark_keys(2)]) auto
  qed
  show "\<exists>t now now'. status_row u (p_Platform plat) (db w') =
      Some ((failed_updates t (p_Username plat) (err_text er) (status_or_new u plat now (db w)))\<lparr>y_UpdatedAt := now'\<rparr>)"
    if "markPlatformFailed e u plat er w = (r, w')"
  proof -
    have "upsertPlatformStatus e u plat (failed_updates (clock e (ticks w)) (p_Username plat) (err_text er)) (tick w) = (r, w')"
      using that by (simp add: markPlatformFailed_def bindE_def time_now_def)
    then show ?thesis by (rule up [OF mark_keys(3)]) auto
  qed
qed

lemma job_ops_statuses:
  fixes e :: "'x core_env_scheme"
  shows "setCurrentPlatform e i p w = (r, w') \<Longrightarrow> statuses (db w') = statuses (db w)"
  "finishPlatform e i p w = (r, w') \<Longrightarrow> statuses (db w') = statuses (db w)"
proof -
  have k: "keeps (\<lambda>d. statuses d = statuses (db w)) (setCurrentPlatform e i p)"
    "keeps (\<lambda>d. statuses d = statuses (db w)) (finishPlatform e i p)"
    by (auto simp: setCurrentPlatform_def finishPlatform_def intro!: keeps_intros keeps_status_only(3))
  show "setCurrentPlatform e i p w = (r, w') \<Longrightarrow> statuses (db w') = statuses (db w)"
    using keepsD [OF k(1), of w r w'] by simp
  show "finishPlatform e i p w = (r, w') \<Longrightarrow> statuses (db w') = statuses (db w)"
    using keepsD [OF k(2), of w r w'] by simp
qed

lemma loadOnePlatform_status:
  assumes "reliable e" and "core_inv (db w)" and "loadOnePlatform e u plat na w = (r, w')"
  shows "\<exists>t now now'. status_row u (p_Platform plat) (db w') =
      Some ((running_updates t (p_Username plat) (status_or_new u plat now (db w)))\<lparr>y_UpdatedAt := now'\<rparr>)"
  using assms(3) unfolding loadOnePlatform_def Let_def
proof (rule bind_ok)
  fix w1 a
  assume m: "markPlatformRunning e u plat w = (Inr a, w1)"
    and l: "load_rounds e u plat na (if p_Platform plat = CodeForces then 1 else 12)
              (if p_Platform plat = CodeForces then 1 else 12) None w1 = (r, w')"
  from mark_reliable(1) [OF assms(1,2) m] rounds_statuses [OF l] show ?thesis by (simp add: status_row_def)
qed (intro ok_intros)

lemma platform_recorded:
  assumes "reliable e" and inv: "core_inv (db w)"
    and l: "load_platforms e i u na [plat] [] w = (Inr failed :: gerr + string list, w')"
  obtains (success) s where "failed = []" "status_row u (p_Platform plat) (db w') = Some s" "recorded_success s"
  | (failure) s errText where "failed = [p_Platform plat @ '': '' @ errText]"
      "status_row u (p_Platform plat) (db w') = Some s"
      "recorded_failure (status_row u (p_Platform plat) (db w)) errText s"
proof -
  from l obtain x w1 where a: "setCurrentPlatform e i (p_Platform plat) w = (Inr x :: gerr + unit, w1)"
    and l1: "bindE (loadOnePlatform e u plat na) (\<lambda>(count, skipped, err).
     bindE (finishPlatform e i (p_Platform plat)) (\<lambda>_.
     case err of
       Some er \<Rightarrow> bindE (markPlatformFailed e u plat er)
         (\<lambda>_. load_platforms e i u na [] ([] @ [p_Platform plat @ '': '' @ err_text er]))
     | None \<Rightarrow> bindE (markPlatformSuccess e u plat count skipped) (\<lambda>_. load_platforms e i u na [] []))) w1 = (Inr failed :: gerr + string list, w')"
    unfolding load_platforms.simps(2) by (rule bind_ok) (intro ok_intros, rule that)
  from l1 obtain out w2 where b: "loadOnePlatform e u plat na w1 = (Inr out :: gerr + _, w2)"
    and l2: "(case out of (count, skipped, err) \<Rightarrow>
     bindE (finishPlatform e i (p_Platform plat)) (\<lambda>_.
     case err of
       Some er \<Rightarrow> bindE (markPlatformFailed e u plat er)
         (\<lambda>_. load_platforms e i u na [] ([] @ [p_Platform plat @ '': '' @ err_text er]))
     | None \<Rightarrow> bindE (markPlatformSuccess e u plat count skipped) (\<lambda>_. load_platforms e i u na [] []))) w2 = (Inr failed :: gerr + string list, w')"
    by (rule bind_ok) (intro ok_intros, rule that)
  obtain c k err where o: "out = (c, k, err)" by (metis prod_cases3)
  from l2 obtain y w3 where f: "finishPlatform e i (p_Platform plat) w2 = (Inr y :: gerr + unit, w3)"
    and m: "(case err of
       Some er \<Rightarrow> bindE (markPlatformFailed e u plat er)
         (\<lambda>_. load_platforms e i u na [] ([] @ [p_Platform plat @ '': '' @ err_text er]))
     | None \<Rightarrow> bindE (markPlatformSuccess e u plat c k) (\<lambda>_. load_platforms e i u na [] [])) w3 = (Inr failed :: gerr + string list, w')"
    unfolding o prod.case by (rule bind_ok) (intro ok_intros, rule that)
  note core = core_load.job_ops core_load.one_platform
  have inv1: "core_inv (db w1)" using keepsD [OF core(4) inv a] .
  have inv2: "core_inv (db w2)" using keepsD [OF core(5) inv1 b] .
  have inv3: "core_inv (db w3)" using keepsD [OF core(3) inv2 f] .
  have s0: "status_row u (p_Platform plat) (db w1) = status_row u (p_Platform plat) (db w)"
    using job_ops_statuses(1) [OF a] by (simp add: status_row_def)
  from loadOnePlatform_status [OF assms(1) inv1 b] job_ops_statuses(2) [OF f] obtain t now now' where
    s3: "status_row u (p_Platform plat) (db w3) =
      Some ((running_updates t (p_Username plat) (status_or_new u plat now (db w1)))\<lparr>y_UpdatedAt := now'\<rparr>)"
    by (auto simp: status_row_def)
  show thesis
  proof (cases err)
    case None
    with m obtain y where "markPlatformSuccess e u plat c k w3 = (Inr y :: gerr + unit, w')" "failed = []"
      by (auto simp: bindE_succ returnE_def)
    with mark_reliable(2) [OF assms(1) inv3 this(1)] s3 show thesis
      by (auto intro!: success simp: status_or_new_def recorded_success_def success_updates_def running_updates_def)
  next
    case (Some er)
    with m obtain y where "markPlatformFailed e u plat er w3 = (Inr y :: gerr + unit, w')"
      "failed = [p_Platform plat @ '': '' @ err_text er]"
      by (auto simp: bindE_succ returnE_def)
    with mark_reliable(3) [OF assms(1) inv3 this(1)] s3 s0 show thesis
      by (auto intro!: failure [of "err_text er"] simp: status_or_new_def recorded_failure_def failed_updates_def
          running_updates_def new_status_def split: option.splits)
  qed
qed

end
