(* ===== verification/Bindings.thy ===== *)
theory Bindings
  imports RefreshJobs SyncStatus
begin

text \<open>
  Platform bindings: which operations leave them alone and what \<open>SetSpider\<close> does to them. The
  frame conditions are two locales: what queueing a refresh never touches, and what no part of
  the service but \<open>SetSpider\<close> touches.
\<close>

section \<open>What queueing a refresh leaves alone\<close>

locale enqueue_frame =
  fixes I :: "cdb \<Rightarrow> bool"
  assumes on_jobs: "I (jobs_update f d) = I d"
    and on_oplogs: "I (core_oplogs_update h d) = I d"
    and on_ready: "I (d\<lparr>mq_ready := b\<rparr>) = I d"
    and on_mq: "I (d\<lparr>mq := q\<rparr>) = I d"
begin

lemma publish_keeps: "keeps I (publish e q body)"
proof (rule keepsI)
  fix w r w' assume I: "I (db w)" and p: "publish e q body w = (r, w')"
  obtain b where "db w' = (db w)\<lparr>mq_ready := b, mq := mq (db w) @ (if isl r then [] else [(q, body)])\<rparr>"
    using publish_db [OF p] by blast
  with I show "I (db w')" by (simp add: on_ready on_mq)
qed

lemma jobs_keep: "keeps I (q_create e jobs jobs_update mk)" "keeps I (q_update e2 jobs jobs_update P g)"
  by (auto intro!: keeps_create keeps_update simp: on_jobs)

lemma create_keeps: "keeps I (create_job e u na src req p)"
  unfolding create_job_def publish_job_def fail_job_def by (intro keeps_intros jobs_keep publish_keeps)

lemma Do_keeps: "keeps I (Do e u na src req p)"
proof -
  have "keeps I (expireStaleActiveJobs e u p)"
    unfolding expireStaleActiveJobs_def by (rule keeps_stmt) (simp add: on_jobs)
  then show ?thesis
    unfolding Do_def findActiveJob_def Let_def by (intro keeps_intros create_keeps)
qed

lemma record_keeps: "keeps I (recordCoreOperation e hdr a tt ti det)"
  unfolding recordCoreOperation_def Let_def by (intro keeps_intros keeps_create) (simp add: on_oplogs)

lemma rebuild_keeps: "keeps I (rebuild_users e req us reply)"
proof (induction us arbitrary: reply)
  case (Cons u us)
  then show ?case by (auto intro!: keeps_intros Do_keeps split: option.splits task_err.splits)
qed (simp add: keeps_return)

lemma handlers_keep:
  "keeps I (svc_SpiderUpdate e hdr h u p)" "keeps I (svc_Retry e hdr i)" "keeps I (RebuildAll e hdr)"
  "keeps I (cron_refresh e)" "keeps I (cron_summary e typ)"
  unfolding svc_SpiderUpdate_def svc_Retry_def RebuildAll_def cron_refresh_def cron_summary_def
    SummaryTask_Do_def Let_def
  by ((intro keeps_intros Do_keeps record_keeps rebuild_keeps publish_keeps;
       auto split: option.splits task_err.splits intro!: keeps_intros record_keeps)+)

end

locale platform_frame = enqueue_frame +
  assumes on_submits: "I (submits_update k d) = I d"
    and on_contests: "I (contests_update l d) = I d"
    and on_statuses: "I (statuses_update m d) = I d"

sublocale platform_frame \<subseteq> load_keeps I e jobId for e jobId
proof
  show "keeps I (save_submits e u p na tmp)" for u p na tmp
  proof -
    have "keeps I (upsert_batch e xs)" for xs
      unfolding upsert_batch_def by (rule keeps_stmt) (simp add: on_submits)
    moreover have "keeps I (q_delete e submits submits_update P)" for P
      by (rule keeps_delete) (simp add: on_submits)
    ultimately show ?thesis unfolding save_submits_def by (intro keeps_transaction_body keeps_intros)
  qed
  show "keeps I (fetchAndSaveContest e u plat na)" for u plat na
  proof -
    have "keeps I (insert_contest_batch e xs)" for xs
      unfolding insert_contest_batch_def by (rule keeps_stmt) (simp add: on_contests)
    moreover have "keeps I (q_delete e contests contests_update P)" for P
      by (rule keeps_delete) (simp add: on_contests)
    ultimately show ?thesis unfolding fetchAndSaveContest_def by (intro keeps_transaction_body keeps_intros)
  qed
  show "keeps I (upsertPlatformStatus e u plat f :: (gerr, unit) cact)" for u plat f
  proof -
    have "keeps I (q_create e statuses statuses_update mk)" "keeps I (q_update e statuses statuses_update P g)" for mk P g
      by (auto intro!: keeps_create keeps_update simp: on_statuses)
    then show ?thesis unfolding upsertPlatformStatus_def firstOrCreate_status_def by (intro keeps_intros)
  qed
  show "keeps I (update_job e jobId g :: (gerr, unit) cact)" for g
    unfolding update_job_def by (intro keeps_intros jobs_keep)
qed

interpretation bindings_and_submits: enqueue_frame "\<lambda>d. platforms d = ps \<and> submits d = ss" for ps ss
  by unfold_locales simp_all

interpretation bindings: platform_frame "\<lambda>d. platforms d = ps" for ps
  by unfold_locales simp_all

section \<open>Bindings\<close>

lemma rebind_effect:
  assumes "reliable e" and "rebind e hdr u p un ds w = (Inr x, w')"
  shows "platforms (db w') = insert_row \<lparr>ID = seq (platforms (db w)), p_UserID = u, p_Platform = p, p_Username = un\<rparr>
      (delete_where (binding_of u p) (platforms (db w)))"
    and "submits (db w') = delete_where (of_user_platform u p) (submits (db w))"
proof -
  let ?I = "\<lambda>d. platforms d = insert_row \<lparr>ID = seq (platforms (db w)), p_UserID = u, p_Platform = p, p_Username = un\<rparr>
      (delete_where (binding_of u p) (platforms (db w))) \<and> submits d = delete_where (of_user_platform u p) (submits (db w))"
  have nf: "\<not> stmt_fails e n" for n using assms(1) by (simp add: reliable_def)
  from assms(2) obtain a1 w1 a2 w2 a3 w3 w4 a5 w5 where
    s: "(if ds then tryE (q_delete e statuses statuses_update (status_of u p)) else returnE (Inr 0)) w = (Inr a1 :: kerr + _, w1)"
    and d: "tryE (q_delete e platforms platforms_update (binding_of u p)) w1 = (Inr a2 :: kerr + _, w2)"
    and t: "tryE (q_delete e submits submits_update (of_user_platform u p)) w2 = (Inr a3 :: kerr + _, w3)"
    and i: "invalidateUserStatisticCache e u w3 = (Inr () :: kerr + _, w4)"
    and c: "withErr (\<lambda>_. InternalError) (q_create e platforms platforms_update (\<lambda>i now.
       \<lparr>ID = i, p_UserID = u, p_Platform = p, p_Username = un\<rparr>)) w4 = (Inr a5, w5)"
    and k: "bindE (Do e u True ''bind'' (int64_of (GetCurrentUserId e hdr)) p) (\<lambda>_.
     recordCoreOperation e hdr ''spider.set_binding'' ''user'' u [(''platform'', CStr p)]) w5 = (Inr x :: kerr + _, w')"
    unfolding rebind_def by (auto simp: bindE_succ)
  have w1: "platforms (db w1) = platforms (db w)" "submits (db w1) = submits (db w)"
    using s nf by (auto simp: tryE_def q_delete_def stmt_def returnE_def split: if_splits)
  have w3: "platforms (db w3) = delete_where (binding_of u p) (platforms (db w))"
    "submits (db w3) = delete_where (of_user_platform u p) (submits (db w))"
    using d t nf w1 by (auto simp: tryE_def q_delete_def stmt_def)
  have w4: "db w4 = db w3"
    using keepsD [OF keeps_invalidate(2) [of "\<lambda>d. d = db w3"] _ i] by simp
  have "?I (db w5)"
    using c w3 w4 by (auto simp: withErr_succ q_create_succ row_simps)
  moreover have "keeps ?I (bindE (Do e u True ''bind'' (int64_of (GetCurrentUserId e hdr)) p) (\<lambda>_.
     recordCoreOperation e hdr ''spider.set_binding'' ''user'' u [(''platform'', CStr p)]))"
    by (intro keeps_bind bindings_and_submits.Do_keeps bindings_and_submits.record_keeps)
  ultimately have "?I (db w')" using keepsD k by blast
  then show "platforms (db w') = insert_row \<lparr>ID = seq (platforms (db w)), p_UserID = u, p_Platform = p, p_Username = un\<rparr>
      (delete_where (binding_of u p) (platforms (db w)))"
    "submits (db w') = delete_where (of_user_platform u p) (submits (db w))" by auto
qed

lemma SetSpider_rebinds:
  assumes "SetSpider e hdr u p un w = (Inr msg, w')" and "msg \<noteq> ''Codeforces refreshed recently''"
  obtains ds w1 where "db w1 = db w" "rebind e hdr u (TrimSpace p) (TrimSpace un) ds w1 = (Inr (), w')"
proof -
  let ?p = "TrimSpace p" and ?u = "TrimSpace un"
  have "bindE (allow e (''user:'' @ fmt_d u) (30 * 1000000000)) (\<lambda>ok.
        if \<not> ok then failE RateLimitError else bind_platform e hdr u ?p ?u) w = (Inr msg, w')"
    using assms(1) by (simp add: SetSpider_def failE_def split: if_splits)
  then obtain ok w1 where a: "allow e (''user:'' @ fmt_d u) (30 * 1000000000) w = (Inr ok :: kerr + bool, w1)"
    and k: "bind_platform e hdr u ?p ?u w1 = (Inr msg, w')"
    unfolding bindE_succ by (force simp: failE_def split: if_splits)
  from k obtain ex w2 rc w3 where q: "q_first e platforms (binding_of u ?p) w1 = (ex, w2)"
    and b: "recent_binding e u ?p (sameBinding ?p ?u ex) w2 = (Inr rc, w3)"
    and k2: "(if rc then returnE ''Codeforces refreshed recently''
       else bindE (rebind e hdr u ?p ?u (isCodeforcesPlatform ?p \<and> \<not> isl ex \<and> \<not> sameBinding ?p ?u ex))
         (\<lambda>_. returnE ''binding set'')) w3 = (Inr msg, w')"
    unfolding bind_platform_def bindE_succ tryE_succ by blast
  from k2 assms(2) obtain ds where r: "rebind e hdr u ?p ?u ds w3 = (Inr (), w')"
    by (cases rc) (auto simp: bindE_succ returnE_def)
  have "db w1 = db w" using keepsD [OF keeps_allow [of "\<lambda>d. d = db w"] _ a] by simp
  moreover have "db w2 = db w1" using keepsD [OF keeps_first [of "\<lambda>d. d = db w1"] _ q] by simp
  moreover have "keeps (\<lambda>d. d = db w2) (recent_binding e u ?p (sameBinding ?p ?u ex))"
    unfolding recent_binding_def by (intro keeps_intros)
  from keepsD [OF this _ b] have "db w3 = db w2" by simp
  ultimately show thesis using r by (intro that) simp_all
qed

definition user_bindings :: "int \<Rightarrow> cdb \<Rightarrow> platform_row list" where
  "user_bindings u d = filter (\<lambda>p. p_UserID p = u) (rows (platforms d))"

interpretation user_frame: platform_frame "\<lambda>d. user_bindings u d = ps" for u ps
  by unfold_locales (simp_all add: user_bindings_def)

lemma rebind_other_user:
  assumes "v \<noteq> u"
  shows "keeps (\<lambda>d. user_bindings u d = ps) (rebind e hdr v p un ds)"
proof -
  have "filter (\<lambda>q. p_UserID q = u \<and> \<not> binding_of v p q) rs = filter (\<lambda>q. p_UserID q = u) rs" for rs
    using assms by (intro filter_cong) (auto simp: binding_of_def)
  then have "keeps (\<lambda>d. user_bindings u d = ps) (q_delete e platforms platforms_update (binding_of v p))"
    by (intro keeps_delete) (simp add: user_bindings_def row_simps conj_commute)
  moreover have "keeps (\<lambda>d. user_bindings u d = ps) (q_create e platforms platforms_update (\<lambda>i now.
       \<lparr>ID = i, p_UserID = v, p_Platform = p, p_Username = un\<rparr>))"
    using assms by (intro keeps_create) (simp add: user_bindings_def row_simps)
  moreover have "keeps (\<lambda>d. user_bindings u d = ps) (q_delete e statuses statuses_update P)"
    "keeps (\<lambda>d. user_bindings u d = ps) (q_delete e submits submits_update Q)" for P Q
    by (auto intro!: keeps_delete simp: user_bindings_def)
  ultimately show ?thesis
    unfolding rebind_def by (intro keeps_intros user_frame.Do_keeps user_frame.record_keeps)
qed

lemma SetSpider_keeps:
  assumes "VerifySelfOrAbove e hdr (u64 v) \<Longrightarrow> v \<noteq> u"
  shows "keeps (\<lambda>d. user_bindings u d = ps) (SetSpider e hdr v p un)"
  unfolding SetSpider_def bind_platform_def recent_binding_def using assms by (intro keeps_intros rebind_other_user) auto

end
