(* ===== verification/CoreSamples.thy ===== *)
theory CoreSamples
  imports Bindings
begin

text \<open>
  A small world of the core-data service and an environment for it, the concrete inputs on which
  its properties are exercised: one user with one bound platform and one stored submission.
\<close>

definition log_ex :: "string \<Rightarrow> string \<Rightarrow> SubmitLog" where
  "log_ex i st = \<lparr>ID = 0, s_Platform = '''', s_UserID = 0, s_SubmitID = i, s_Contest = '''', s_Problem = ''A'',
     s_Lang = ''C++'', s_Status = st, s_Time = 5\<rparr>"

definition row_ex :: "nat \<Rightarrow> int \<Rightarrow> string \<Rightarrow> string \<Rightarrow> SubmitLog" where
  "row_ex i u p s = (log_ex s ''WA'')\<lparr>ID := i, s_UserID := u, s_Platform := p\<rparr>"

definition plat_ex :: platform_row where
  "plat_ex = \<lparr>ID = 1, p_UserID = 2, p_Platform = ''AtCoder'', p_Username = ''bob''\<rparr>"

definition cd_ex :: cdb where
  "cd_ex = \<lparr>platforms = \<lparr>rows = [plat_ex], seq = 2\<rparr>,
     submits = \<lparr>rows = [row_ex 1 2 ''AtCoder'' ''7'', row_ex 2 9 ''AtCoder'' ''8''], seq = 3\<rparr>,
     contests = \<lparr>rows = [], seq = 1\<rparr>, statuses = \<lparr>rows = [], seq = 1\<rparr>, jobs = \<lparr>rows = [], seq = 1\<rparr>,
     core_oplogs = \<lparr>rows = [], seq = 1\<rparr>,
     bulletins = \<lparr>rows = [], seq = 1\<rparr>, snapshots = \<lparr>rows = [], seq = 1\<rparr>, lastCleanup = 0, mq_ready = True, mq = []\<rparr>"

definition cw_ex :: "cdb world" where
  "cw_ex = \<lparr>db = cd_ex, rdb = (\<lambda>_. None), ticks = 0\<rparr>"

definition cpay_ex :: "string \<Rightarrow> JwtPayload option" where
  "cpay_ex s = (if s = ''1'' then Some \<lparr>UserID = 1, jwt_Username = ''ann'', jwt_Name = ''ann'', jwt_Email = '''', RoleID = 1\<rparr>
     else if s = ''2'' then Some \<lparr>UserID = 2, jwt_Username = ''bob'', jwt_Name = ''bob'', jwt_Email = '''', RoleID = 0\<rparr>
     else None)"

text \<open>An environment without failures, whose crawler answers every fetch with three entries.\<close>

definition ce_ex :: core_env where
  "ce_ex = \<lparr>stmt_fails = (\<lambda>_. False), clock = (\<lambda>n. int n), decode_payload = cpay_ex,
     spider_Get = (\<lambda>_. Some (True, True)),
     FetchSubmitLog = (\<lambda>_ _ _ _ _. Inr [log_ex ''7'' ''WA'', log_ex '' 7 '' ''AC'', log_ex ''9'' ''AC'', log_ex '' '' ''AC'']),
     FetchContestLog = (\<lambda>_ _ _ _ _. Inr []), unlinked = (\<lambda>_ _. True),
     mq_dial = (\<lambda>_. None), mq_open = (\<lambda>_. None), mq_declare = (\<lambda>_. None), mq_send = (\<lambda>_. None),
     marshal_event = (\<lambda>ev. Inr (fmt_d (ev_JobId ev))), unmarshal_event = (\<lambda>_. None),
     limiter_Allow = (\<lambda>_ _ _. True), core_json = (\<lambda>_. None), marshal_summary = (\<lambda>_ t. Inr t),
     userRPC = (\<lambda>_. None), profile_GetList = (\<lambda>_ _ _. Inr (1, [2]))\<rparr>"

lemmas cex_defs = log_ex_def row_ex_def plat_ex_def cd_ex_def cw_ex_def cpay_ex_def ce_ex_def

lemma core_inv_ex: "core_inv cd_ex"
  by (simp add: core_inv_def wf_table_def unique_submits_def unique_contests_def unique_statuses_def
      submit_key_def cex_defs)

lemma core_inv_ex' [simp]: "core_inv (db cw_ex)"
  by (simp add: cw_ex_def core_inv_ex)

lemma reliable_ex [simp]: "reliable ce_ex"
  by (simp add: reliable_def ce_ex_def)

definition cw_job :: "cdb world" where
  "cw_job = snd (Do ce_ex 2 True ''manual'' 2 '''' cw_ex :: (gerr + _) \<times> _)"

definition ce_none :: core_env where
  "ce_none = ce_ex\<lparr>spider_Get := (\<lambda>_. None)\<rparr>"

end
