(* ===== verification/CoreProperties.thy ===== *)
theory CoreProperties
  imports CoreSamples
begin

text \<open>
  The properties of the crawling pipeline, the refresh jobs and the platform bindings. Each is a
  short step from the lemmas of the component theories; the witnesses run the definitions on the
  world of theory \<open>CoreSamples\<close>.
\<close>

section \<open>Fetched submissions\<close>

text \<open>C11. The normalised list holds, for each trimmed submission id, exactly the last fetched entry with that id and a time, cleaned and stamped with the user and the platform; ids are distinct, every other entry is counted as skipped, and an answer is refused exactly when it has entries and none is valid.\<close>

theorem normalize_last_wins:
  "(\<forall>tmp skipped. normalizeFetchedSubmitLogs u p logs = (tmp, skipped, None) \<longrightarrow>
      by_id tmp = last_by_id u p logs \<and> distinct (map s_SubmitID tmp) \<and>
      int (length tmp) + skipped = int (length logs)) \<and>
   (snd (snd (normalizeFetchedSubmitLogs u p logs)) \<noteq> None \<longleftrightarrow>
      logs \<noteq> [] \<and> (\<forall>x \<in> set logs. \<not> valid_log x))"
  by (intro conjI allI impI normalize_refused) (rule normalize_spec, assumption)+

theorem normalize_last_wins_witness:
  "by_id (fst (normalizeFetchedSubmitLogs 2 ''AtCoder'' [log_ex ''7'' ''WA'', log_ex '' 7 '' ''AC''])) =
     last_by_id 2 ''AtCoder'' [log_ex ''7'' ''WA'', log_ex '' 7 '' ''AC'']"
proof -
  let ?logs = "[log_ex ''7'' ''WA'', log_ex '' 7 '' ''AC'']"
  have "snd (snd (normalizeFetchedSubmitLogs 2 ''AtCoder'' ?logs)) = None" by code_simp
  then obtain tmp sk where n: "normalizeFetchedSubmitLogs 2 ''AtCoder'' ?logs = (tmp, sk, None)"
    by (metis prod.collapse)
  with normalize_last_wins [of 2 "''AtCoder''" ?logs] show ?thesis by simp
qed

text \<open>C9. One fetch of a user's platform refines one step on the abstract table that maps platform and submission id to the other columns: it either reports an error and leaves every table alone, or the user's old entries of the platform go (in a full refresh only) and the last valid fetched entry of each id takes its place. Two entries of one answer never collide in an insert.\<close>

theorem fetch_refines:
  assumes "unique_submits (submits (db w))"
    and "fetchAndSave e u plat needAll w = (Inr (count, skipped, err), w')"
  shows "case err of
      Some _ \<Rightarrow> db w' = db w
    | None \<Rightarrow> \<exists>logs. FetchSubmitLog e (ticks w) (p_Platform plat) u (p_Username plat) needAll = Inr logs \<and>
        submit_view (submits (db w')) =
          (if needAll then without_user u (p_Platform plat) (submit_view (submits (db w)))
           else submit_view (submits (db w))) ++
          (\<lambda>(q, sid). if q = p_Platform plat
             then map_option submit_content (last_by_id u (p_Platform plat) logs sid) else None)"
  using assms(2)
proof (cases rule: fetchAndSave_cases)
  case (ok logs tmp sk)
  with view_replace [OF assms(1) ok(3), of needAll] show ?thesis by auto
qed simp

lemma fetch_ex:
  obtains w' where "fetchAndSave ce_ex 2 plat_ex True cw_ex = (Inr (2, 2, None) :: gerr + _, w')"
proof -
  have "fst (fetchAndSave ce_ex 2 plat_ex True cw_ex) = (Inr (2, 2, None) :: gerr + _)" by code_simp
  then show thesis using that by (metis prod.collapse)
qed

theorem fetch_refines_witness:
  "\<exists>w' logs. fetchAndSave ce_ex 2 plat_ex True cw_ex = (Inr (2, 2, None) :: gerr + _, w') \<and>
     submit_view (submits (db w')) = without_user 2 ''AtCoder'' (submit_view (submits (db cw_ex))) ++
       (\<lambda>(q, sid). if q = ''AtCoder'' then map_option submit_content (last_by_id 2 ''AtCoder'' logs sid) else None)"
proof -
  have u: "unique_submits (submits (db cw_ex))" by (simp add: core_invD)
  obtain w' where f: "fetchAndSave ce_ex 2 plat_ex True cw_ex = (Inr (2, 2, None) :: gerr + _, w')"
    by (rule fetch_ex)
  have "p_Platform plat_ex = ''AtCoder''" by (simp add: plat_ex_def)
  from fetch_refines [OF u f, unfolded this option.case if_True] f show ?thesis by blast
qed

text \<open>C10. A refresh never loses submissions of the user it refreshes: whatever a fetch returns and whichever statement fails, the number of stored submissions of the user on the platform does not go down, and after a full refresh that succeeds it is the reported count.\<close>

theorem refresh_never_shrinks:
  assumes "unique_submits (submits (db w))"
    and "fetchAndSave e u plat needAll w = (Inr (count, skipped, err), w')"
  shows "stored u (p_Platform plat) (submits (db w)) \<le> stored u (p_Platform plat) (submits (db w')) \<and>
    (needAll \<and> err = None \<longrightarrow> int (stored u (p_Platform plat) (submits (db w'))) = count)"
  using assms(2)
proof (cases rule: fetchAndSave_cases)
  case (ok logs tmp sk)
  with stored_replace [OF assms(1) ok(3), of needAll] show ?thesis
    by (cases needAll) (auto simp: stored_def [of u "p_Platform plat" "submits (db w)"])
qed simp

theorem refresh_never_shrinks_witness:
  "\<exists>w'. fetchAndSave ce_ex 2 plat_ex True cw_ex = (Inr (2, 2, None) :: gerr + _, w') \<and>
     stored 2 ''AtCoder'' (submits (db w')) = 2"
proof -
  have u: "unique_submits (submits (db cw_ex))" by (simp add: core_invD)
  obtain w' where f: "fetchAndSave ce_ex 2 plat_ex True cw_ex = (Inr (2, 2, None) :: gerr + _, w')"
    by (rule fetch_ex)
  with refresh_never_shrinks [OF u f] show ?thesis by (simp add: plat_ex_def)
qed

text \<open>On a database that answers, a valid answer of a registered crawler is stored: the fetch succeeds unless a full refresh brought fewer submissions than are stored already.\<close>

theorem fetch_stores:
  assumes "reliable e" and "spider_Get e (p_Platform plat) = Some (True, c)"
    and "FetchSubmitLog e (ticks w) (p_Platform plat) u (p_Username plat) needAll = Inr logs"
    and "logs = [] \<or> (\<exists>x \<in> set logs. valid_log x)"
    and "needAll \<Longrightarrow> stored u (p_Platform plat) (submits (db w)) \<le> card (dom (last_by_id u (p_Platform plat) logs))"
  shows "\<exists>count skipped w'. fetchAndSave e u plat needAll w = (Inr (count, skipped, None), w')"
proof -
  let ?p = "p_Platform plat"
  obtain tmp sk where n: "normalizeFetchedSubmitLogs u ?p logs = (tmp, sk, None)"
    using normalize_refused [of u ?p logs] assms(4) by (metis prod.collapse)
  have len: "card (dom (last_by_id u ?p logs)) = length tmp"
    using normalize_spec(1,2) [OF n] by_id_dom [of tmp] by (metis distinct_card length_map list.set_map)
  have g: "guard_full_fetch e u ?p needAll (int (length tmp)) (tick w) =
      (Inr (), if needAll then tick (tick w) else tick w)"
    using assms(1,5) len
    by (auto simp: guard_full_fetch_def rejectIncompleteFullFetch_def bindE_def q_select_def stmt_def reliable_def
        returnE_def stored_def tick_def)
  obtain w2 where s: "save_submits e u ?p needAll tmp (if needAll then tick (tick w) else tick w) = (Inr (), w2)"
    using save_submits_total [OF assms(1) normalize_keys [OF n]] by blast
  show ?thesis
    using assms(2,3) n g s
    by (simp add: fetchAndSave_def store_fetched_def bindE_def rpcE_def tryE_def returnE_def)
qed

theorem fetch_stores_witness:
  "\<exists>count skipped w'. fetchAndSave ce_ex 2 plat_ex True cw_ex = (Inr (count, skipped, None) :: gerr + _, w')"
proof (rule fetch_stores)
  show "FetchSubmitLog ce_ex (ticks cw_ex) (p_Platform plat_ex) 2 (p_Username plat_ex) True =
      Inr [log_ex ''7'' ''WA'', log_ex '' 7 '' ''AC'', log_ex ''9'' ''AC'', log_ex '' '' ''AC'']"
    by (simp add: ce_ex_def)
  show "spider_Get ce_ex (p_Platform plat_ex) = Some (True, True)" by (simp add: ce_ex_def)
  have "valid_log (log_ex ''9'' ''AC'')" by code_simp
  then show "[log_ex ''7'' ''WA'', log_ex '' 7 '' ''AC'', log_ex ''9'' ''AC'', log_ex '' '' ''AC''] = [] \<or>
      (\<exists>x \<in> set [log_ex ''7'' ''WA'', log_ex '' 7 '' ''AC'', log_ex ''9'' ''AC'', log_ex '' '' ''AC'']. valid_log x)"
    by simp
  let ?l = "last_by_id 2 (p_Platform plat_ex) [log_ex ''7'' ''WA'', log_ex '' 7 '' ''AC'', log_ex ''9'' ''AC'', log_ex '' '' ''AC'']"
  have "?l ''9'' \<noteq> None" by code_simp
  moreover have "finite (dom ?l)"
    by (simp add: last_by_id_def)
  ultimately have "1 \<le> card (dom ?l)" by (metis One_nat_def Suc_leI card_gt_0_iff domIff empty_iff)
  moreover have "stored 2 (p_Platform plat_ex) (submits (db cw_ex)) = 1" by code_simp
  ultimately show "stored 2 (p_Platform plat_ex) (submits (db cw_ex)) \<le> card (dom ?l)" by simp
qed simp

section \<open>The service as a system\<close>

text \<open>Primary keys, the unique index of submissions on platform and submission id, that of contests on contest and user, and that of sync statuses on user and platform hold after every sequence of requests, deliveries and periodic tasks, whichever statements fail and whatever the crawlers and the broker answer.\<close>

theorem core_invariant_run:
  assumes "core_inv (db w)"
  shows "core_inv (db (core_run e ops w))"
  unfolding core_run_def by (rule core.run_inv [OF assms])

theorem core_invariant_run_witness:
  "core_inv (db (core_run ce_ex [COpUpdate ''Bearer a.2.c'' '''' 2 '''', COpCronRefresh] cw_ex))"
  by (rule core_invariant_run) simp

text \<open>C12. A delivery that names a job leaves it finished on a database that answers: successful with no error text when \<open>LoadData\<close> succeeds and failed with the text of its error otherwise. No other job changes and nothing is published, also when statements fail.\<close>

theorem LoadData_ends_job:
  assumes "0 < i" and "has_job i (db w)" and "LoadData e i u needAll target w = (r, w')"
  shows "has_job i (db w') \<and> other_jobs i (db w') = other_jobs i (db w) \<and> mq (db w') = mq (db w) \<and>
    (reliable e \<longrightarrow> ended_as i r (db w'))"
proof -
  have "job_frame i (other_jobs i (db w)) (mq (db w)) (db w)" using assms(2) by (simp add: job_frame_def)
  from keepsD [OF load_job.LoadData_keeps this assms(3)] LoadData_ended [OF _ assms(1,3)]
  show ?thesis by (simp add: job_frame_def)
qed

theorem LoadData_ends_job_witness:
  "\<exists>w'. LoadData ce_ex 1 5 True '''' cw_job = (Inl (not_bound ''''), w') \<and>
     job_ended 1 ''failed'' (err_text (not_bound '''')) (db w')"
proof -
  have "fst (LoadData ce_ex 1 5 True '''' cw_job) = Inl (not_bound '''')" by code_simp
  then obtain w' where l: "LoadData ce_ex 1 5 True '''' cw_job = (Inl (not_bound ''''), w')" by (metis prod.collapse)
  have "has_job 1 (db cw_job)" by code_simp
  from LoadData_ends_job [OF _ this l] l show ?thesis by (simp add: ended_as_def)
qed

text \<open>Loading a platform on a database that answers records its outcome in the sync-status row of the user and the platform: a success resets the failure counter and stores the time, a failure adds one to the counter of the row before, stores the error text reported for the job and keeps the time of the last success.\<close>

theorem platform_outcome_recorded:
  assumes "reliable e" and "core_inv (db w)"
    and "load_platforms e i u needAll [plat] [] w = (Inr failed :: gerr + string list, w')"
  shows "\<exists>s. status_row u (p_Platform plat) (db w') = Some s \<and>
    (if failed = [] then recorded_success s
     else \<exists>errText. failed = [p_Platform plat @ '': '' @ errText] \<and>
       recorded_failure (status_row u (p_Platform plat) (db w)) errText s)"
  using assms by (rule platform_recorded) auto

theorem platform_outcome_recorded_witness:
  "\<exists>failed w' s. load_platforms ce_none 0 2 True [plat_ex] [] cw_ex = (Inr failed :: gerr + string list, w') \<and>
     status_row 2 ''AtCoder'' (db w') = Some s \<and> y_Status s = ''failed'' \<and> y_ConsecutiveFailure s = 1"
proof -
  have "\<not> isl (fst (load_platforms ce_none 0 2 True [plat_ex] [] cw_ex :: (gerr + _) \<times> _)) \<and>
      projr (fst (load_platforms ce_none 0 2 True [plat_ex] [] cw_ex :: (gerr + _) \<times> _)) \<noteq> []" by code_simp
  then obtain failed w' where
    l: "load_platforms ce_none 0 2 True [plat_ex] [] cw_ex = (Inr failed :: gerr + string list, w')" "failed \<noteq> []"
    by (metis prod.collapse sum.collapse(2))
  have "reliable ce_none" by (simp add: ce_none_def reliable_def ce_ex_def)
  moreover have "status_row 2 ''AtCoder'' (db cw_ex) = None" by code_simp
  ultimately show ?thesis
    using platform_outcome_recorded [of ce_none cw_ex 0 2 True plat_ex failed w'] l
    by (auto simp: recorded_failure_def plat_ex_def)
qed

section \<open>Refresh jobs\<close>

text \<open>C13. A refresh request is answered with an active job exactly when one is in its way: as long as a queued or running job of the user that conflicts with the platform was updated within the last two hours, no row is created and nothing is published; and the job reported is such a job.\<close>

theorem active_job_blocks:
  assumes "wf_table (jobs (db w))" and "Do e u needAll src req p w = (Inr (i, err), w')"
    and "\<not> stmt_fails e (ticks w)" and "\<not> stmt_fails e (Suc (ticks w))"
  shows "(err = Some ErrActiveRefreshJob \<longleftrightarrow>
      (\<exists>j \<in> set (rows (jobs (db w))). conflicts u p j \<and> \<not> stale (clock e (ticks w)) j)) \<and>
    (err = Some ErrActiveRefreshJob \<longrightarrow> mq (db w') = mq (db w) \<and>
      map ID (rows (jobs (db w'))) = map ID (rows (jobs (db w))) \<and>
      (\<exists>j \<in> set (rows (jobs (db w))). conflicts u p j \<and> \<not> stale (clock e (ticks w)) j \<and> i = int64_of (ID j)))"
proof -
  let ?now = "clock e (ticks w)"
  have old: "j \<in> set (rows (jobs (db w))) \<and> \<not> stale ?now j"
    if "j \<in> set (rows (expired ?now u p (jobs (db w))))" "conflicts u p j" for j
    using that by (auto simp: expired_def dest!: update_where_rowD split: if_splits)
  have ids: "map ID (rows (expired ?now u p t)) = map ID (rows t)" for t
    unfolding expired_def by (rule ids_update_where) simp
  from assms(1,2) show ?thesis
  proof (cases rule: Do_cases)
    case (lookup_failed er)
    with assms(3,4) show ?thesis by simp
  next
    case (active j)
    with old [OF active(1,2)] ids show ?thesis by auto
  next
    case (free w1)
    then have "\<not> (\<exists>j \<in> set (rows (jobs (db w))). conflicts u p j \<and> \<not> stale ?now j)"
      using expired_fresh by (fastforce simp: filter_empty_conv)
    moreover have "err \<noteq> Some ErrActiveRefreshJob"
      using free(3) by (cases rule: create_job_cases) auto
    ultimately show ?thesis by simp
  qed
qed

theorem active_job_blocks_witness:
  "\<exists>w'. Do ce_ex 2 True ''manual'' 2 ''AtCoder'' cw_job = (Inr (1, Some ErrActiveRefreshJob) :: gerr + _, w') \<and>
     mq (db w') = mq (db cw_job)"
proof -
  have "fst (Do ce_ex 2 True ''manual'' 2 ''AtCoder'' cw_job) = (Inr (1, Some ErrActiveRefreshJob) :: gerr + _)" by code_simp
  then obtain w' where d: "Do ce_ex 2 True ''manual'' 2 ''AtCoder'' cw_job = (Inr (1, Some ErrActiveRefreshJob) :: gerr + _, w')"
    by (metis prod.collapse)
  have "core_inv (db cw_job)" unfolding cw_job_def by (rule keeps_snd [OF core_Do]) simp
  then have "wf_table (jobs (db cw_job))" by (rule core_invD)
  from active_job_blocks [OF this d] d show ?thesis by (simp add: ce_ex_def)
qed

text \<open>A refresh that is started has exactly one row in its way, its own: the row is new, queued, and carries the request, and exactly one message with its id was added to the spider queue. When the job cannot be announced its row is left failed with the error text, so that it blocks nothing.\<close>

theorem started_job_announced:
  assumes "wf_table (jobs (db w))" and "Do e u needAll src req p w = (Inr (i, err), w')"
  shows "case err of
      None \<Rightarrow> \<exists>t body. i = int64_of (seq (jobs (db w))) \<and>
        filter (conflicts u p) (rows (jobs (db w'))) = [new_job u needAll src req p (seq (jobs (db w))) t] \<and>
        marshal_event e \<lparr>ev_UserId = u, ev_NeedAll = needAll, ev_JobId = i, ev_Platform = p\<rparr> = Inr body \<and>
        mq (db w') = mq (db w) @ [(''spider'', body)]
    | Some ErrActiveRefreshJob \<Rightarrow> mq (db w') = mq (db w)
    | Some (TaskErr er) \<Rightarrow> reliable e \<longrightarrow>
        mq (db w') = mq (db w) \<and> filter (conflicts u p) (rows (jobs (db w'))) = [] \<and>
        (\<exists>j \<in> set (rows (jobs (db w'))). i = int64_of (ID j) \<and> j_Status j = ''failed'' \<and> j_Error j = err_text er)"
  using assms
proof (cases rule: Do_cases)
  case (lookup_failed er)
  then show ?thesis by (simp add: reliable_def) metis
next
  case (active j)
  then show ?thesis by simp
next
  case (free w1)
  let ?n = "seq (jobs (db w))"
  have w1: "jobs (db w1) = expired (clock e (ticks w)) u p (jobs (db w))" "mq (db w1) = mq (db w)" "seq (jobs (db w1)) = ?n"
    by (simp_all add: free(2))
  have none: "filter (conflicts u p) (rows (jobs (db w1))) = []" using free(1) w1 by simp
  from free(3) show ?thesis
  proof (cases rule: create_job_cases)
    case (not_created er)
    then show ?thesis by (simp add: reliable_def) metis
  next
    case (published b body job)
    then show ?thesis using none w1 by (auto simp: row_simps)
  next
    case (unpublished er job)
    have ids: "j \<in> set (rows (jobs (db w1))) \<Longrightarrow> ID j \<noteq> ?n" for j
      using wf_expired [OF assms(1)] w1 unfolding wf_table_def by fastforce
    have "filter (conflicts u p) (rows (update_where (\<lambda>j. ID j = ID job) (job_failed (err_text er) now) (insert_row job (jobs (db w1))))) = []"
      for now using none unpublished(1) w1
      by (auto simp: filter_empty_conv row_simps split: if_splits)
    moreover have "job_failed (err_text er) now job \<in>
      set (rows (update_where (\<lambda>j. ID j = ID job) (job_failed (err_text er) now) (insert_row job (jobs (db w1)))))" for now
      by (simp add: row_simps)
    moreover have "\<exists>now. jobs (db w') = update_where (\<lambda>j. ID j = ID job) (job_failed (err_text er) now) (insert_row job (jobs (db w1)))"
      if "reliable e" using unpublished(4) that by blast
    ultimately have "reliable e \<longrightarrow> filter (conflicts u p) (rows (jobs (db w'))) = [] \<and>
        (\<exists>now. job_failed (err_text er) now job \<in> set (rows (jobs (db w'))))" by metis
    moreover have "ID (job_failed (err_text er) now job) = ID job \<and> j_Status (job_failed (err_text er) now job) = ''failed'' \<and>
        j_Error (job_failed (err_text er) now job) = err_text er" for now
      by (simp add: job_failed_def)
    ultimately have "reliable e \<longrightarrow> filter (conflicts u p) (rows (jobs (db w'))) = [] \<and>
        (\<exists>j \<in> set (rows (jobs (db w'))). int64_of (ID job) = int64_of (ID j) \<and> j_Status j = ''failed'' \<and> j_Error j = err_text er)"
      by metis
    with unpublished(2,3) w1(2) show ?thesis by simp
  qed
qed

theorem started_job_announced_witness:
  "\<exists>w' body. Do ce_ex 2 True ''manual'' 2 '''' cw_ex = (Inr (1, None) :: gerr + _, w') \<and>
     mq (db w') = mq (db cw_ex) @ [(''spider'', body)]"
proof -
  have "fst (Do ce_ex 2 True ''manual'' 2 '''' cw_ex) = (Inr (1, None) :: gerr + _)" by code_simp
  then obtain w' where d: "Do ce_ex 2 True ''manual'' 2 '''' cw_ex = (Inr (1, None) :: gerr + _, w')"
    by (metis prod.collapse)
  have "wf_table (jobs (db cw_ex))" by (simp add: core_invD)
  from started_job_announced [OF this d] d show ?thesis by auto
qed

text \<open>The conflict test does not see a full refresh that has one platform to load: once such a job runs, its row looks like that of a single-platform refresh, and a second full refresh of the same user is accepted while the first runs.\<close>

theorem full_refresh_not_blocked:
  "let w1 = snd (Do ce_ex 2 True ''manual'' 2 '''' cw_ex :: (gerr + _) \<times> _);
       w2 = snd (startJob ce_ex 1 1 w1 :: (gerr + _) \<times> _);
       w3 = snd (setCurrentPlatform ce_ex 1 ''AtCoder'' w2 :: (gerr + _) \<times> _);
       (r, w4) = Do ce_ex 2 True ''manual'' 2 '''' w3
   in r = (Inr (2, None) :: gerr + _) \<and> map is_active (rows (jobs (db w4))) = [True, True]"
  by code_simp

section \<open>Bindings\<close>

text \<open>C14. The platform accounts bound to a user change only by a request of that user or of an administrator to bind a platform; no other request, delivery or periodic task touches them.\<close>

theorem bindings_guarded:
  assumes "user_bindings u (db (core_step e op w)) \<noteq> user_bindings u (db w)"
  shows "\<exists>hdr p un cur. op = COpSetSpider hdr u p un \<and> GetCurrentUser e hdr = Some cur \<and>
    (RoleID cur = RoleAdmin \<or> UserID cur = u64 u)"
proof -
  let ?I = "\<lambda>d. user_bindings u d = user_bindings u (db w)"
  have d: "keeps ?I (handle_delivery e body :: (kerr, verdict) cact)" for body
    unfolding handle_delivery_def by (intro keeps_intros user_frame.LoadData_keeps)
  have h: "?I (db (snd (svc_SpiderUpdate e hdr h v p w)))" "?I (db (snd (svc_Retry e hdr i w)))"
    "?I (db (snd (RebuildAll e hdr w)))" "?I (db (snd (cron_refresh e w :: (kerr + unit) \<times> cdb world)))"
    for hdr h v p i
    by (rule keeps_snd [OF user_frame.handlers_keep(1)] keeps_snd [OF user_frame.handlers_keep(2)]
        keeps_snd [OF user_frame.handlers_keep(3)] keeps_snd [OF user_frame.handlers_keep(4)]; rule refl)+
  have h2: "\<forall>typ. ?I (db (snd (cron_summary e typ w :: (kerr + unit) \<times> cdb world)))"
    "\<forall>body. ?I (db (snd (handle_delivery e body w :: (kerr + verdict) \<times> cdb world)))"
    by (auto intro!: keeps_snd [of ?I, OF user_frame.handlers_keep(5)] keeps_snd [of ?I, OF d])
  obtain hdr p un where op: "op = COpSetSpider hdr u p un" and v: "VerifySelfOrAbove e hdr (u64 u)"
  proof (cases op)
    case (COpSetSpider hdr v p un)
    then have "\<not> ?I (db (snd (SetSpider e hdr v p un w)))" using assms by simp
    then have "v = u" "VerifySelfOrAbove e hdr (u64 v)"
      using keeps_snd [OF SetSpider_keeps [of e hdr v u], of w "user_bindings u (db w)"] by blast+
    with COpSetSpider show thesis by (intro that) simp_all
  qed (use assms h h2 in auto)
  from v have "\<exists>cur. GetCurrentUser e hdr = Some cur \<and> (RoleID cur = RoleAdmin \<or> UserID cur = u64 u)"
    by (auto simp: VerifySelfOrAbove_def GetCurrentUser_def split: option.splits if_splits)
  with op show ?thesis by blast
qed

theorem bindings_guarded_witness:
  "user_bindings 2 (db (core_step ce_ex (COpSetSpider ''Bearer a.2.c'' 2 '' QOJ '' ''bob'') cw_ex)) \<noteq> user_bindings 2 (db cw_ex) \<and>
   (\<exists>cur. GetCurrentUser ce_ex ''Bearer a.2.c'' = Some cur \<and> (RoleID cur = RoleAdmin \<or> UserID cur = u64 2))"
proof -
  have c: "user_bindings 2 (db (core_step ce_ex (COpSetSpider ''Bearer a.2.c'' 2 '' QOJ '' ''bob'') cw_ex)) \<noteq> user_bindings 2 (db cw_ex)"
    by code_simp
  from bindings_guarded [OF this] c show ?thesis by auto
qed

text \<open>On a database that answers, a successful binding leaves the user with exactly one account on the platform, the trimmed one of the request, and with no submissions of the old account there.\<close>

theorem SetSpider_effect:
  assumes "reliable e" and "SetSpider e hdr u p un w = (Inr msg, w')" and "msg \<noteq> ''Codeforces refreshed recently''"
  shows "\<exists>i. filter (binding_of u (TrimSpace p)) (rows (platforms (db w'))) =
      [\<lparr>ID = i, p_UserID = u, p_Platform = TrimSpace p, p_Username = TrimSpace un\<rparr>] \<and>
    filter (of_user_platform u (TrimSpace p)) (rows (submits (db w'))) = [] \<and>
    filter (\<lambda>q. \<not> binding_of u (TrimSpace p) q) (rows (platforms (db w'))) =
      filter (\<lambda>q. \<not> binding_of u (TrimSpace p) q) (rows (platforms (db w)))"
proof -
  from assms(2,3) obtain ds w1 where w1: "db w1 = db w"
    and r: "rebind e hdr u (TrimSpace p) (TrimSpace un) ds w1 = (Inr (), w')"
    by (rule SetSpider_rebinds)
  have "filter (binding_of u q) (filter (\<lambda>r. \<not> binding_of u q r) rs) = []"
    "filter (of_user_platform u q) (filter (\<lambda>r. \<not> of_user_platform u q r) ss) = []" for q rs ss
    by (auto simp: filter_empty_conv)
  with rebind_effect [OF assms(1) r] show ?thesis
    by (auto simp: w1 row_simps binding_of_def)
qed

theorem SetSpider_effect_witness:
  "\<exists>w' i. SetSpider ce_ex ''Bearer a.2.c'' 2 '' AtCoder '' ''rob'' cw_ex = (Inr ''binding set'', w') \<and>
     filter (binding_of 2 (TrimSpace '' AtCoder '')) (rows (platforms (db w'))) =
       [\<lparr>ID = i, p_UserID = 2, p_Platform = TrimSpace '' AtCoder '', p_Username = TrimSpace ''rob''\<rparr>]"
proof -
  have "fst (SetSpider ce_ex ''Bearer a.2.c'' 2 '' AtCoder '' ''rob'' cw_ex) = Inr ''binding set''" by code_simp
  then obtain w' where s: "SetSpider ce_ex ''Bearer a.2.c'' 2 '' AtCoder '' ''rob'' cw_ex = (Inr ''binding set'', w')"
    by (metis prod.collapse)
  from SetSpider_effect [OF reliable_ex s] s show ?thesis by auto
qed

text \<open>When the statement that deletes the old binding fails, \<open>SetSpider\<close> goes on and leaves the user with two accounts bound on the platform.\<close>

theorem SetSpider_duplicates_on_delete_error:
  "let (r, w') = SetSpider (ce_ex\<lparr>stmt_fails := (\<lambda>n. n = 2)\<rparr>) ''Bearer a.2.c'' 2 ''AtCoder'' ''rob'' cw_ex
   in r = Inr ''binding set'' \<and> map p_Username (filter (binding_of 2 ''AtCoder'') (rows (platforms (db w')))) = [''bob'', ''rob'']"
  by code_simp

section \<open>Reading jobs\<close>

text \<open>The job list shows a caller at most 100 jobs, each of which they own or requested unless they are coach or administrator, and the error text of a job only when it is their own or they are coach or administrator.\<close>

theorem jobs_list_private:
  assumes "svc_Jobs e hdr page pageSize scope userId status w = (Inr (list, count), w')"
  shows "\<exists>cur. GetCurrentUser e hdr = Some cur \<and> length list \<le> 100 \<and>
    (\<forall>info \<in> set list. \<exists>j \<in> set (rows (jobs (db w))). ji_JobId info = int64_of (ID j) \<and>
       (j_UserID j = int (UserID cur) \<or> j_RequesterID j = int (UserID cur) \<or> canManageCoreOps (RoleID cur)) \<and>
       (ji_Error info \<noteq> '''' \<longrightarrow> ji_Error info = j_Error j \<and> canOperateUserDetail (int64_of (UserID cur)) (RoleID cur) (j_UserID j)))"
proof -
  from assms obtain cur where cur: "GetCurrentUser e hdr = Some cur"
    by (auto simp: svc_Jobs_def Let_def failE_def split: option.splits)
  let ?vis = "job_visible (scope = ''all'') (UserID cur) userId status"
  let ?found = "page_of (jobs_page_size pageSize) (i64 (i64 (jobs_page page - 1) * jobs_page_size pageSize))
      (sort_key (\<lambda>j. - j_UpdatedAt j) (filter ?vis (rows (jobs (db w)))))"
  from assms cur have l: "list = map (\<lambda>job. jobToPb job (canViewUserDetail e hdr (j_UserID job))) ?found"
    and all: "scope = ''all'' \<Longrightarrow> canManageCoreOps (RoleID cur)"
    by (auto simp: svc_Jobs_def Let_def failE_def succ_simps isCoachOrAdmin_def split: if_splits)
  have sub: "set ?found \<subseteq> {j \<in> set (rows (jobs (db w))). ?vis j}"
    by (auto simp: page_of_def Let_def dest!: in_set_takeD in_set_dropD split: if_splits)
  have "length ?found \<le> 100"
    by (auto simp: page_of_def jobs_page_size_def Let_def)
  moreover have "canViewUserDetail e hdr v = canOperateUserDetail (int64_of (UserID cur)) (RoleID cur) v" for v
    by (simp add: canViewUserDetail_def cur)
  ultimately show ?thesis
    using cur sub all unfolding l by (fastforce simp: jobToPb_def job_visible_def split: if_splits)
qed

theorem jobs_list_private_witness:
  "\<exists>list count w'. svc_Jobs ce_ex ''Bearer a.2.c'' 0 0 '''' 0 '''' cw_job = (Inr (list, count), w') \<and> length list \<le> 100"
proof -
  have "\<not> isl (fst (svc_Jobs ce_ex ''Bearer a.2.c'' 0 0 '''' 0 '''' cw_job))" by code_simp
  then obtain list count w' where s: "svc_Jobs ce_ex ''Bearer a.2.c'' 0 0 '''' 0 '''' cw_job = (Inr (list, count), w')"
    by (metis isl_def old.sum.exhaust prod.collapse)
  from jobs_list_private [OF s] s show ?thesis by blast
qed

text \<open>A rebuild of all users that returns was asked for by a coach or administrator, and every user with a binding was either queued or skipped because a job of theirs is active.\<close>

theorem rebuild_accounts_for_all:
  assumes "RebuildAll e hdr w = (Inr reply, w')"
  shows "ra_QueuedJobs reply + ra_Skipped reply = ra_TotalUsers reply \<and>
    ra_TotalUsers reply = int (card (p_UserID ` set (rows (platforms (db w))))) \<and>
    (\<exists>cur. GetCurrentUser e hdr = Some cur \<and> canManageCoreOps (RoleID cur))"
proof -
  from assms obtain cur where cur: "GetCurrentUser e hdr = Some cur" "canManageCoreOps (RoleID cur)"
    by (auto simp: RebuildAll_def failE_def split: option.splits if_splits)
  let ?us = "sort (remdups (map p_UserID (rows (platforms (db w)))))"
  from assms cur obtain w1 w2 where
    "rebuild_users e (int64_of (UserID cur)) ?us
       \<lparr>ra_TotalUsers = int (length ?us), ra_QueuedJobs = 0, ra_Skipped = 0, ra_JobIds = []\<rparr> w1 = (Inr reply, w2)"
    by (auto simp: RebuildAll_def succ_simps)
  from rebuild_users_count [OF this] cur show ?thesis by (auto simp: length_remdups_card_conv)
qed

theorem rebuild_accounts_for_all_witness:
  "\<exists>reply w'. RebuildAll ce_ex ''Bearer a.1.c'' cw_ex = (Inr reply, w') \<and>
     ra_QueuedJobs reply + ra_Skipped reply = ra_TotalUsers reply"
proof -
  have "\<not> isl (fst (RebuildAll ce_ex ''Bearer a.1.c'' cw_ex))" by code_simp
  then obtain reply w' where s: "RebuildAll ce_ex ''Bearer a.1.c'' cw_ex = (Inr reply, w')"
    by (metis isl_def old.sum.exhaust prod.collapse)
  from rebuild_accounts_for_all [OF s] s show ?thesis by blast
qed

end
