(* ===== verification/Calendar.thy ===== *)
theory Calendar
  imports Prelude
begin

text \<open>
  The calendar arithmetic of package \<^verbatim>\<open>time\<close> in the zone the statistics use, Asia/Shanghai: eight
  hours ahead of UTC all year (as it has been since 1992). A day is numbered from 1 January 1970;
  \<open>Date\<close> accepts months and days out of range and normalises them, as \<^verbatim>\<open>time.Date\<close> does.
\<close>

section \<open>Definitions\<close>

definition ns_day :: int where
  "ns_day = 86400000000000"

definition zone :: int where
  "zone = 28800000000000"

definition local_day :: "time \<Rightarrow> int" where
  "local_day t = (t + zone) div ns_day"

definition midnight :: "int \<Rightarrow> time" where
  "midnight d = d * ns_day - zone"

definition leap :: "int \<Rightarrow> bool" where
  "leap y \<longleftrightarrow> y mod 4 = 0 \<and> (y mod 100 \<noteq> 0 \<or> y mod 400 = 0)"

text \<open>The day number of 1 January, and the days of a year before each of its months.\<close>

definition jan1 :: "int \<Rightarrow> int" where
  "jan1 y = 365 * (y - 1970) + (y - 1) div 4 - (y - 1) div 100 + (y - 1) div 400 - 477"

definition month_start :: "int \<Rightarrow> nat \<Rightarrow> int" where
  "month_start y i =
     [0, 31, 59, 90, 120, 151, 181, 212, 243, 273, 304, 334] ! i + (if leap y \<and> 2 \<le> i then 1 else 0)"

text \<open>A guess from the mean length of a year, corrected by at most one.\<close>

definition year_of :: "int \<Rightarrow> int" where
  "year_of d =
     (let y = 1970 + 400 * d div 146097 in
      if d < jan1 y then y - 1 else if jan1 (y + 1) \<le> d then y + 1 else y)"

definition Year :: "time \<Rightarrow> int" where
  "Year t = year_of (local_day t)"

text \<open>The last index up to \<open>n\<close> at which \<open>f\<close> is at most \<open>x\<close>.\<close>

fun last_le :: "(nat \<Rightarrow> int) \<Rightarrow> int \<Rightarrow> nat \<Rightarrow> nat" where
  "last_le f x 0 = 0"
| "last_le f x (Suc n) = (if f (Suc n) \<le> x then Suc n else last_le f x n)"

definition month_index :: "int \<Rightarrow> nat" where
  "month_index d = last_le (month_start (year_of d)) (d - jan1 (year_of d)) 11"

definition Month :: "time \<Rightarrow> int" where
  "Month t = int (month_index (local_day t)) + 1"

definition Day :: "time \<Rightarrow> int" where
  "Day t = local_day t - jan1 (Year t) - month_start (Year t) (month_index (local_day t)) + 1"

definition day_number :: "int \<Rightarrow> int \<Rightarrow> int \<Rightarrow> int" where
  "day_number y m d =
     (let y' = y + (m - 1) div 12 in jan1 y' + month_start y' (nat ((m - 1) mod 12)) + d - 1)"

text \<open>\<^verbatim>\<open>time.Date(y, m, d, 0, 0, 0, 0, loc)\<close>.\<close>

definition Date :: "int \<Rightarrow> int \<Rightarrow> int \<Rightarrow> time" where
  "Date y m d = midnight (day_number y m d)"

definition AddDate :: "time \<Rightarrow> int \<Rightarrow> int \<Rightarrow> int \<Rightarrow> time" where
  "AddDate t dy dm dd = Date (Year t + dy) (Month t + dm) (Day t + dd) + (t - midnight (local_day t))"

text \<open>0 is Sunday.\<close>

definition Weekday :: "time \<Rightarrow> int" where
  "Weekday t = (local_day t + 4) mod 7"

definition getWeekStart :: "time \<Rightarrow> time" where
  "getWeekStart t =
     (let weekday = (if Weekday t = 0 then 7 else Weekday t);
          days = weekday - 1;
          start = AddDate t 0 0 (- days)
      in Date (Year start) (Month start) (Day start))"

section \<open>Days and years\<close>

lemma midnight_le: "midnight (local_day t) \<le> t" and midnight_gt: "t < midnight (local_day t + 1)"
proof -
  have "ns_day * ((t + zone) div ns_day) \<le> t + zone" "t + zone < ns_day * ((t + zone) div ns_day) + ns_day"
    by (simp_all add: ns_day_def)
  then show "midnight (local_day t) \<le> t" "t < midnight (local_day t + 1)"
    by (simp_all add: midnight_def local_day_def algebra_simps)
qed

lemma midnight_mono [simp]: "midnight a \<le> midnight b \<longleftrightarrow> a \<le> b" "midnight a < midnight b \<longleftrightarrow> a < b"
  by (simp_all add: midnight_def ns_day_def)

lemma local_day_midnight: "0 \<le> r \<Longrightarrow> r < ns_day \<Longrightarrow> local_day (midnight d + r) = d"
  by (simp add: local_day_def midnight_def div_mult_self3 ns_day_def)

lemma div_step:
  fixes y n :: int
  assumes "0 < n"
  shows "y div n = (y - 1) div n + (if y mod n = 0 then 1 else 0)"
proof (cases "y mod n = 0")
  case True
  then have "y - 1 = n * (y div n - 1) + (n - 1)" by (simp add: algebra_simps minus_mod_eq_mult_div [symmetric])
  then have "(y - 1) div n = y div n - 1" using assms by (intro int_div_pos_eq [where r = "n - 1"]) simp_all
  with True show ?thesis by simp
next
  case False
  have "0 \<le> y mod n" "y mod n < n" using assms by simp_all
  moreover have "y - 1 = n * (y div n) + (y mod n - 1)" by simp
  ultimately have "(y - 1) div n = y div n" using False by (intro int_div_pos_eq [where r = "y mod n - 1"]) simp_all
  with False show ?thesis by simp
qed

lemma jan1_Suc: "jan1 (y + 1) = jan1 y + 365 + (if leap y then 1 else 0)"
proof -
  define a b c where "a \<longleftrightarrow> y mod 4 = 0" and "b \<longleftrightarrow> y mod 100 = 0" and "c \<longleftrightarrow> y mod 400 = 0"
  note abc = a_def b_def c_def
  have m: "b \<Longrightarrow> a" "c \<Longrightarrow> b"
    using dvd_trans [of 4 100 y] dvd_trans [of 100 400 y] by (simp_all add: abc mod_eq_0_iff_dvd)
  have j: "jan1 (y + 1) = 365 * (y - 1970) + 365 + y div 4 - y div 100 + y div 400 - 477"
    unfolding jan1_def add_diff_cancel_right' by (simp only: algebra_simps)
  have d: "y div 4 = (y - 1) div 4 + (if a then 1 else 0)" "y div 100 = (y - 1) div 100 + (if b then 1 else 0)"
    "y div 400 = (y - 1) div 400 + (if c then 1 else 0)"
    unfolding abc by (rule div_step, simp)+
  have "jan1 (y + 1) = jan1 y + 365 + ((if a then 1 else 0) - (if b then 1 else 0) + (if c then 1 else 0))"
    unfolding j unfolding jan1_def d by (simp only: algebra_simps)
  moreover have "leap y \<longleftrightarrow> a \<and> (\<not> b \<or> c)" unfolding leap_def abc ..
  ultimately show ?thesis using m by (cases a; cases b; cases c) simp_all
qed

lemma jan1_bounds: "146097 * (y - 1970) - 800 \<le> 400 * jan1 y \<and> 400 * jan1 y \<le> 146097 * (y - 1970) + 800"
proof -
  have b: "n * ((y - 1) div n) \<le> y - 1 \<and> y - 1 < n * ((y - 1) div n) + n" if "0 < n" for n :: int
    using that pos_mod_bound [of n "y - 1"] pos_mod_sign [of n "y - 1"] mult_div_mod_eq [of n "y - 1"] by linarith
  show ?thesis using b [of 4] b [of 100] b [of 400] by (simp add: jan1_def)
qed

lemma year_of_bounds: "jan1 (year_of d) \<le> d \<and> d < jan1 (year_of d + 1)"
proof -
  define k where "k = 400 * d div 146097"
  have k: "146097 * k \<le> 400 * d" "400 * d < 146097 * k + 146097" by (simp_all add: k_def)
  have "jan1 (1970 + k - 1) \<le> d" "d < jan1 (1970 + k + 1 + 1)"
    using k jan1_bounds [of "1970 + k - 1"] jan1_bounds [of "1970 + k + 1 + 1"] by simp_all
  then show ?thesis
    by (auto simp: year_of_def Let_def k_def [symmetric])
qed

lemma jan1_less: "a < b \<Longrightarrow> jan1 a < jan1 b"
proof (induction "nat (b - a)" arbitrary: b)
  case (Suc n)
  show ?case
  proof (cases "b = a + 1")
    case True
    then show ?thesis by (simp add: jan1_Suc)
  next
    case False
    with Suc have "jan1 a < jan1 (b - 1)" by (intro Suc.hyps(1)) auto
    moreover have "jan1 (b - 1) < jan1 b" using jan1_Suc [of "b - 1"] by simp
    ultimately show ?thesis by simp
  qed
qed simp

lemma jan1_mono: "a \<le> b \<Longrightarrow> jan1 a \<le> jan1 b"
  using jan1_less [of a b] by (cases "a = b") auto

text \<open>A day lies in exactly one year.\<close>

lemma year_of_eq: "jan1 y \<le> d \<Longrightarrow> d < jan1 (y + 1) \<Longrightarrow> year_of d = y"
proof (rule ccontr)
  assume d: "jan1 y \<le> d" "d < jan1 (y + 1)" and n: "year_of d \<noteq> y"
  from n consider "year_of d + 1 \<le> y" | "y + 1 \<le> year_of d" by linarith
  then show False
  proof cases
    case 1
    from jan1_mono [OF 1] d year_of_bounds [of d] show False by linarith
  next
    case 2
    from jan1_mono [OF 2] d year_of_bounds [of d] show False by linarith
  qed
qed

section \<open>Months and days\<close>

lemma last_le_bound: "last_le f x n \<le> n"
  by (induction n) auto

lemma last_le_spec: "f 0 \<le> x \<Longrightarrow> f (last_le f x n) \<le> x"
  by (induction n) auto

lemma last_le_eq: "f i \<le> x \<Longrightarrow> (\<And>j. i < j \<Longrightarrow> j \<le> n \<Longrightarrow> x < f j) \<Longrightarrow> i \<le> n \<Longrightarrow> last_le f x n = i"
proof (induction n)
  case (Suc n)
  then show ?case by (cases "i = Suc n") (auto simp: not_le)
qed simp

lemma month_start_0 [simp]: "month_start y 0 = 0"
  by (simp add: month_start_def)

lemma month_cases: "i < 12 \<Longrightarrow> i \<in> {0, 1, 2, 3, 4, 5, 6, 7, 8, 9, 10, 11 :: nat}"
  by (simp add: numeral_eq_Suc less_Suc_eq)

lemma month_start_Suc: "i < 11 \<Longrightarrow> month_start y i + 28 \<le> month_start y (Suc i)"
  using month_cases [of i] by (auto simp: month_start_def)

lemma month_start_mono: "i \<le> j \<Longrightarrow> j < 12 \<Longrightarrow> month_start y i \<le> month_start y j"
proof (induction j)
  case (Suc j)
  then show ?case using month_start_Suc [of j y] by (cases "i = Suc j") auto
qed simp

lemma month_start_next_year: "i < 12 \<Longrightarrow> month_start y i \<le> month_start (y + 1) i + 1"
  using month_cases [of i] by (auto simp: month_start_def)

lemma month_index_spec:
  "month_index d < 12"
  "month_start (year_of d) (month_index d) \<le> d - jan1 (year_of d)"
  using last_le_bound [of _ _ 11] year_of_bounds [of d]
  by (auto simp: month_index_def less_Suc_eq_le numeral_eq_Suc intro!: last_le_spec)

lemma Month_range: "1 \<le> Month t" "Month t \<le> 12"
  using month_index_spec(1) [of "local_day t"] by (auto simp: Month_def)

lemma Day_pos: "1 \<le> Day t"
  using month_index_spec(2) [of "local_day t"] by (simp add: Day_def Year_def)

text \<open>Taking a time apart and putting it together again gives the start of its day.\<close>

lemma day_number_self: "day_number (Year t) (Month t) (Day t + k) = local_day t + k"
  using month_index_spec(1) [of "local_day t"]
  by (simp add: day_number_def Month_def Day_def Let_def)

lemma Date_self: "Date (Year t) (Month t) (Day t) = midnight (local_day t)"
  using day_number_self [of t 0] by (simp add: Date_def)

text \<open>The other direction, for a date that exists.\<close>

definition month_length :: "int \<Rightarrow> nat \<Rightarrow> int" where
  "month_length y i = (if i = 11 then 31 else month_start y (Suc i) - month_start y i)"

lemma Date_roundtrip:
  assumes "1 \<le> m" "m \<le> 12" "1 \<le> d" "d \<le> month_length y (nat (m - 1))"
  shows "Year (Date y m d) = y" "Month (Date y m d) = m" "Day (Date y m d) = d"
proof -
  let ?i = "nat (m - 1)"
  have i: "?i < 12" "int ?i = m - 1" using assms by auto
  have n: "day_number y m d = jan1 y + month_start y ?i + d - 1"
    using assms by (simp add: day_number_def Let_def div_pos_pos_trivial mod_pos_pos_trivial)
  have l: "local_day (Date y m d) = day_number y m d"
    using local_day_midnight [of 0] by (simp add: Date_def ns_day_def)
  have hi: "month_start y ?i + d - 1 < 365 + (if leap y then 1 else 0)"
    and next_month: "\<And>j. ?i < j \<Longrightarrow> j \<le> 11 \<Longrightarrow> month_start y ?i + d - 1 < month_start y j"
  proof -
    have last: "month_start y 11 + 31 = 365 + (if leap y then 1 else 0)" by (simp add: month_start_def)
    show "month_start y ?i + d - 1 < 365 + (if leap y then 1 else 0)"
    proof (cases "?i = 11")
      case True
      with assms(4) last show ?thesis by (simp add: month_length_def)
    next
      case False
      with i month_start_mono [of "Suc ?i" 11 y] assms(4) last show ?thesis by (auto simp: month_length_def)
    qed
    fix j assume "?i < j" "j \<le> (11 :: nat)"
    with month_start_mono [of "Suc ?i" j y] assms(4) show "month_start y ?i + d - 1 < month_start y j"
      by (auto simp: month_length_def)
  qed
  have pos: "0 \<le> month_start y ?i" using month_start_mono [of 0 ?i y] i by simp
  have y: "year_of (day_number y m d) = y"
    using hi pos assms(3) by (intro year_of_eq) (simp_all add: n jan1_Suc)
  then show "Year (Date y m d) = y" by (simp add: Year_def l)
  have mi: "month_index (day_number y m d) = ?i"
    unfolding month_index_def y
  proof (rule last_le_eq)
    fix j assume "?i < j" "j \<le> 11"
    from next_month [OF this] show "day_number y m d - jan1 y < month_start y j" by (simp add: n)
  qed (use i assms(3) in \<open>simp_all add: n\<close>)
  then show "Month (Date y m d) = m" using i by (simp add: Month_def l)
  show "Day (Date y m d) = d" unfolding Day_def Year_def l mi y unfolding n by simp
qed

section \<open>The starts of periods\<close>

lemma days_since_monday: "(if (d + 4) mod 7 = 0 then 7 else (d + 4) mod 7) - 1 = (d + 3) mod (7 :: int)"
proof -
  have "(d + 3) mod 7 = ((d + 4) mod 7 - 1) mod 7" by (simp add: mod_diff_left_eq add.commute)
  moreover have "0 \<le> (d + 4) mod 7" "(d + 4) mod 7 < 7" by simp_all
  ultimately show ?thesis by (cases "(d + 4) mod 7 = 0") (simp_all add: mod_pos_pos_trivial)
qed

lemma getWeekStart_eq: "getWeekStart t = midnight (local_day t - (local_day t + 3) mod 7)"
proof -
  define days where "days = (if Weekday t = 0 then 7 else Weekday t) - 1"
  have days: "days = (local_day t + 3) mod 7" unfolding days_def Weekday_def by (rule days_since_monday)
  let ?start = "AddDate t 0 0 (- days)"
  have "?start = midnight (local_day t - days) + (t - midnight (local_day t))"
    using day_number_self [of t "- days"] by (simp add: AddDate_def Date_def)
  moreover have "0 \<le> t - midnight (local_day t)" "t - midnight (local_day t) < ns_day"
    using midnight_le [of t] midnight_gt [of t] by (simp_all add: midnight_def algebra_simps)
  ultimately have "local_day ?start = local_day t - days" by (simp add: local_day_midnight)
  then show ?thesis
    unfolding getWeekStart_def Let_def days_def [symmetric] Date_self days [symmetric] by simp
qed

lemma week_start_bounds: "getWeekStart t \<le> midnight (local_day t)" "midnight (local_day t) - 6 * ns_day \<le> getWeekStart t"
  using pos_mod_bound [of 7 "local_day t + 3"]
  by (auto simp: getWeekStart_eq midnight_def algebra_simps ns_day_def)

lemma month_start_le_day: "Date (Year t) (Month t) 1 \<le> midnight (local_day t)"
  using day_number_self [of t 0] Day_pos [of t] by (simp add: Date_def day_number_def Let_def)

lemma year_start_le_month: "Date (Year t) 1 1 \<le> Date (Year t) (Month t) 1"
  using Month_range [of t] month_start_mono [of 0 "nat (Month t - 1)" "Year t"]
  by (simp add: Date_def day_number_def Let_def div_pos_pos_trivial mod_pos_pos_trivial)

lemma previous_month: "1 \<le> m \<Longrightarrow> m \<le> 12 \<Longrightarrow> day_number y (m - 1) d < day_number y m d"
proof (cases "m = 1")
  case True
  have "jan1 (y - 1) + 365 \<le> jan1 y" using jan1_Suc [of "y - 1"] by simp
  with True show ?thesis by (simp add: day_number_def Let_def month_start_def)
next
  case False
  assume m: "1 \<le> m" "m \<le> 12"
  then have "nat (m - 2) < 11" by simp
  with m False month_start_Suc [of "nat (m - 2)" y] show ?thesis
    by (simp add: day_number_def Let_def div_pos_pos_trivial mod_pos_pos_trivial Suc_nat_eq_nat_zadd1)
qed

lemma previous_year:
  assumes "1 \<le> m" "m \<le> 12"
  shows "day_number (y - 1) m d < day_number y m d"
proof -
  from assms have "nat (m - 1) < 12" by simp
  then have "month_start (y - 1) (nat (m - 1)) \<le> month_start y (nat (m - 1)) + 1"
    using month_start_next_year [of "nat (m - 1)" "y - 1"] by simp
  moreover have "jan1 (y - 1) + 365 \<le> jan1 y" using jan1_Suc [of "y - 1"] by simp
  ultimately show ?thesis
    using assms by (simp add: day_number_def Let_def div_pos_pos_trivial mod_pos_pos_trivial)
qed

lemma AddDate_less:
  "AddDate t 0 (-1) 0 < t" "AddDate t (-1) 0 0 < t"
  using previous_month [of "Month t" "Year t" "Day t"] previous_year [of "Month t" "Year t" "Day t"]
    Month_range [of t] day_number_self [of t 0]
  by (simp_all add: AddDate_def Date_def midnight_def ns_day_def)

end
