(* ===== verification/Statistic.thy ===== *)
theory Statistic
  imports CoreModel Calendar
begin

text \<open>
  Submission statistics of the core-data service: \<^verbatim>\<open>internal/data/dal/statistic.go\<close> and
  \<^verbatim>\<open>statistic_rules.go\<close>, the use case \<^verbatim>\<open>internal/biz/service/statistic.go\<close> with the cache of
  \<^verbatim>\<open>app/common/data/dal.go\<close>, and \<^verbatim>\<open>internal/service/statistic.go\<close>. A SQL query is the function of the
  rows it computes. Columns are never null: every row is written from a Go struct.

  The environment is extended with what these parts call from outside: the expiry of Redis keys,
  the gob encoding of cached values, how Postgres reads a date, stores a JSON text and takes the
  least of some texts, how Go prints a day and checks JSON, and what Redis answers to a scan of its
  keys, a question for the life time of a key and a removal by pattern. The session zone of the database is Asia/Shanghai, as configured.
\<close>

section \<open>Rules on statuses and problems\<close>

definition correct_zh :: string where
  "correct_zh = [CHR 0xE6, CHR 0xAD, CHR 0xA3, CHR 0xE7, CHR 0xA1, CHR 0xAE]"

definition wrong_zh :: string where
  "wrong_zh = [CHR 0xE7, CHR 0xAD, CHR 0x94, CHR 0xE6, CHR 0xA1, CHR 0x88,
               CHR 0xE9, CHR 0x94, CHR 0x99, CHR 0xE8, CHR 0xAF, CHR 0xAF]"

text \<open>\<^verbatim>\<open>s ILIKE '%p%'\<close> for a pattern without wildcards. Case is folded for ASCII letters.\<close>

definition ilike_contains :: "string \<Rightarrow> string \<Rightarrow> bool" where
  "ilike_contains s p \<longleftrightarrow> Contains (ToLower s) (ToLower p)"

definition acCondition :: "SubmitLog \<Rightarrow> bool" where
  "acCondition r \<longleftrightarrow> ilike_contains (s_Status r) ''AC'' \<or> ilike_contains (s_Status r) correct_zh
     \<or> ilike_contains (s_Status r) ''OK''"

definition waCondition :: "SubmitLog \<Rightarrow> bool" where
  "waCondition r \<longleftrightarrow> ilike_contains (s_Status r) ''WA'' \<or> ilike_contains (s_Status r) ''Wrong Answer''
     \<or> ilike_contains (s_Status r) wrong_zh"

definition IsAcceptedStatus :: "string \<Rightarrow> bool" where
  "IsAcceptedStatus status =
     (let normalized = ToUpper (TrimSpace status) in
      normalized = ''AC'' \<or> normalized = ''OK'' \<or> Contains normalized ''ACCEPTED'' \<or> Contains status correct_zh)"

text \<open>The rule of package \<^verbatim>\<open>service\<close>.\<close>

definition isAcceptedStatus :: "string \<Rightarrow> bool" where
  "isAcceptedStatus st =
     (let status = ToLower (TrimSpace st) in
      Contains status ''ac'' \<or> Contains status ''accepted'' \<or> Contains status correct_zh \<or> Contains status ''ok'')"

text \<open>SQL's \<^verbatim>\<open>BTRIM\<close> removes blanks only. \<open>problem_key\<close> is
  \<^verbatim>\<open>COALESCE(NULLIF(BTRIM(problem), ''), submit_id)\<close>.\<close>

definition BTRIM :: "string \<Rightarrow> string" where
  "BTRIM s = rev (dropWhile (\<lambda>c. c = CHR '' '') (rev (dropWhile (\<lambda>c. c = CHR '' '') s)))"

definition problem_key :: "SubmitLog \<Rightarrow> string" where
  "problem_key r = (if BTRIM (s_Problem r) = '''' then s_SubmitID r else BTRIM (s_Problem r))"

definition acDistinctKey :: "SubmitLog \<Rightarrow> string" where
  "acDistinctKey r = fmt_d (s_UserID r) @ ''|'' @ s_Platform r @ ''|'' @ problem_key r"

definition BuildProblemDistinctKey :: "int \<Rightarrow> string \<Rightarrow> string \<Rightarrow> string \<Rightarrow> string" where
  "BuildProblemDistinctKey userId platform problem submitId =
     (let problemKey = (if TrimSpace problem = '''' then submitId else TrimSpace problem)
      in fmt_d userId @ ''|'' @ platform @ ''|'' @ problemKey)"

section \<open>Types\<close>

record DailyCount =
  dc_Day :: time
  dc_Cnt :: int

record PeriodSubmitCount =
  pc_Today :: int
  pc_ThisWeek :: int
  pc_LastWeek :: int
  pc_ThisMonth :: int
  pc_LastMonth :: int
  pc_ThisYear :: int
  pc_LastYear :: int
  pc_Total :: int

type_synonym PeriodAcCount = PeriodSubmitCount

record PlatformPeriodCount =
  pp_Platform :: string
  pp_Submit :: PeriodSubmitCount
  pp_Ac :: PeriodAcCount

record TeamMemberPeriodCount =
  tm_UserID :: int
  tm_Submit :: PeriodSubmitCount
  tm_Ac :: PeriodAcCount
  tm_WaTotal :: int

record stat_env = core_env +
  key_expired :: "nat \<Rightarrow> string \<Rightarrow> bool"
  gob_heatmap :: "DailyCount list \<Rightarrow> string option"
  ungob_heatmap :: "string \<Rightarrow> DailyCount list option"
  gob_period :: "PeriodSubmitCount \<times> PeriodAcCount \<Rightarrow> string option"
  ungob_period :: "string \<Rightarrow> (PeriodSubmitCount \<times> PeriodAcCount) option"
  gob_platforms :: "PlatformPeriodCount list \<Rightarrow> string option"
  ungob_platforms :: "string \<Rightarrow> PlatformPeriodCount list option"
  parse_date :: "string \<Rightarrow> int option"
  format_day :: "time \<Rightarrow> string"
  json_Valid :: "string \<Rightarrow> bool"
  jsonb :: "string \<Rightarrow> string option"
  marshal_raw :: "string \<Rightarrow> string"
  sql_min :: "string list \<Rightarrow> string"
  rdb_scan :: "nat \<Rightarrow> string \<Rightarrow> string list"
  rdb_ttl :: "nat \<Rightarrow> string \<Rightarrow> gerr + int"
  unlink_count :: "nat \<Rightarrow> string \<Rightarrow> int"

section \<open>Periods\<close>

text \<open>The limits the queries compute from the current time.\<close>

definition todayStart :: "time \<Rightarrow> time" where
  "todayStart now = Date (Year now) (Month now) (Day now)"

definition lastWeekStart :: "time \<Rightarrow> time" where
  "lastWeekStart now = getWeekStart now - 7 * ns_day"

definition thisMonthStart :: "time \<Rightarrow> time" where
  "thisMonthStart now = Date (Year now) (Month now) 1"

definition lastMonthStart :: "time \<Rightarrow> time" where
  "lastMonthStart now = AddDate (thisMonthStart now) 0 (-1) 0"

definition thisYearStart :: "time \<Rightarrow> time" where
  "thisYearStart now = Date (Year now) 1 1"

definition lastYearStart :: "time \<Rightarrow> time" where
  "lastYearStart now = AddDate (thisYearStart now) (-1) 0 0"

text \<open>The eight numbers of a result from a count of a range and the count of everything.\<close>

definition fill_periods :: "(time \<Rightarrow> time \<Rightarrow> int) \<Rightarrow> int \<Rightarrow> time \<Rightarrow> PeriodSubmitCount" where
  "fill_periods count whole now =
     \<lparr>pc_Today = count (todayStart now) now,
      pc_ThisWeek = count (getWeekStart now) now,
      pc_LastWeek = count (lastWeekStart now) (getWeekStart now),
      pc_ThisMonth = count (thisMonthStart now) now,
      pc_LastMonth = count (lastMonthStart now) (thisMonthStart now),
      pc_ThisYear = count (thisYearStart now) now,
      pc_LastYear = count (lastYearStart now) (thisYearStart now),
      pc_Total = whole\<rparr>"

definition between :: "time \<Rightarrow> time \<Rightarrow> SubmitLog \<Rightarrow> bool" where
  "between start end r \<longleftrightarrow> start \<le> s_Time r \<and> s_Time r < end"

definition count_rows :: "(SubmitLog \<Rightarrow> bool) \<Rightarrow> SubmitLog list \<Rightarrow> int" where
  "count_rows P rs = int (length (filter P rs))"

text \<open>\<^verbatim>\<open>COUNT(DISTINCT CASE WHEN p THEN k END)\<close>.\<close>

definition count_distinct :: "(SubmitLog \<Rightarrow> string) \<Rightarrow> (SubmitLog \<Rightarrow> bool) \<Rightarrow> SubmitLog list \<Rightarrow> int" where
  "count_distinct k P rs = int (length (remdups (map k (filter P rs))))"

section \<open>Counting queries\<close>

definition in_scope :: "int \<Rightarrow> string \<Rightarrow> SubmitLog \<Rightarrow> bool" where
  "in_scope userId platform r \<longleftrightarrow>
     (userId \<noteq> -1 \<longrightarrow> s_UserID r = userId) \<and> (platform \<noteq> '''' \<longrightarrow> s_Platform r = platform)"

text \<open>A failing count is logged and answered with 0.\<close>

definition count_or_zero :: "'x core_env_scheme \<Rightarrow> (SubmitLog list \<Rightarrow> int) \<Rightarrow> ('e, int) cact" where
  "count_or_zero e f =
     bindE (tryE (q_select e (\<lambda>d. f (rows (submits d))))) (\<lambda>r.
     returnE (case r of Inl _ \<Rightarrow> 0 | Inr n \<Rightarrow> n))"

definition countQueryByPlatform :: "'x core_env_scheme \<Rightarrow> int \<Rightarrow> string \<Rightarrow> time \<Rightarrow> time \<Rightarrow> ('e, int) cact" where
  "countQueryByPlatform e userId platform start end =
     count_or_zero e (count_rows (\<lambda>r. between start end r \<and> in_scope userId platform r))"

definition countQuery :: "'x core_env_scheme \<Rightarrow> int \<Rightarrow> time \<Rightarrow> time \<Rightarrow> ('e, int) cact" where
  "countQuery e userId = countQueryByPlatform e userId ''''"

definition countQueryTotalByPlatform :: "'x core_env_scheme \<Rightarrow> int \<Rightarrow> string \<Rightarrow> ('e, int) cact" where
  "countQueryTotalByPlatform e userId platform = count_or_zero e (count_rows (in_scope userId platform))"

definition countQueryTotal :: "'x core_env_scheme \<Rightarrow> int \<Rightarrow> ('e, int) cact" where
  "countQueryTotal e userId = countQueryTotalByPlatform e userId ''''"

definition countAcDistinctQueryByPlatform ::
    "'x core_env_scheme \<Rightarrow> int \<Rightarrow> string \<Rightarrow> time \<Rightarrow> time \<Rightarrow> ('e, int) cact" where
  "countAcDistinctQueryByPlatform e userId platform start end =
     count_or_zero e (count_distinct acDistinctKey
       (\<lambda>r. acCondition r \<and> between start end r \<and> in_scope userId platform r))"

definition countAcDistinctQuery :: "'x core_env_scheme \<Rightarrow> int \<Rightarrow> time \<Rightarrow> time \<Rightarrow> ('e, int) cact" where
  "countAcDistinctQuery e userId = countAcDistinctQueryByPlatform e userId ''''"

definition countAcDistinctTotalByPlatform :: "'x core_env_scheme \<Rightarrow> int \<Rightarrow> string \<Rightarrow> ('e, int) cact" where
  "countAcDistinctTotalByPlatform e userId platform =
     count_or_zero e (count_distinct acDistinctKey (\<lambda>r. acCondition r \<and> in_scope userId platform r))"

definition countAcDistinctTotal :: "'x core_env_scheme \<Rightarrow> int \<Rightarrow> ('e, int) cact" where
  "countAcDistinctTotal e userId = countAcDistinctTotalByPlatform e userId ''''"

text \<open>The eight calls in the order of the code.\<close>

definition query_periods ::
    "(time \<Rightarrow> time \<Rightarrow> ('e, int) cact) \<Rightarrow> ('e, int) cact \<Rightarrow> time \<Rightarrow> ('e, PeriodSubmitCount) cact" where
  "query_periods count whole now =
     bindE (count (todayStart now) now) (\<lambda>today.
     bindE (count (getWeekStart now) now) (\<lambda>thisWeek.
     bindE (count (lastWeekStart now) (getWeekStart now)) (\<lambda>lastWeek.
     bindE (count (thisMonthStart now) now) (\<lambda>thisMonth.
     bindE (count (lastMonthStart now) (thisMonthStart now)) (\<lambda>lastMonth.
     bindE (count (thisYearStart now) now) (\<lambda>thisYear.
     bindE (count (lastYearStart now) (thisYearStart now)) (\<lambda>lastYear.
     bindE whole (\<lambda>all.
     returnE \<lparr>pc_Today = today, pc_ThisWeek = thisWeek, pc_LastWeek = lastWeek, pc_ThisMonth = thisMonth,
               pc_LastMonth = lastMonth, pc_ThisYear = thisYear, pc_LastYear = lastYear, pc_Total = all\<rparr>))))))))"

definition GetPeriodCount :: "'x core_env_scheme \<Rightarrow> int \<Rightarrow> (gerr, PeriodSubmitCount \<times> PeriodAcCount) cact" where
  "GetPeriodCount e userId =
     bindE (time_now e) (\<lambda>now.
     bindE (query_periods (countQuery e userId) (countQueryTotal e userId) now) (\<lambda>submit.
     bindE (query_periods (countAcDistinctQuery e userId) (countAcDistinctTotal e userId) now) (\<lambda>ac.
     returnE (submit, ac))))"

section \<open>Grouped queries\<close>

text \<open>The columns of one group: \<^verbatim>\<open>COUNT(*) FILTER\<close> and \<^verbatim>\<open>COUNT(DISTINCT CASE ...)\<close> over its rows.\<close>

definition submit_columns :: "time \<Rightarrow> SubmitLog list \<Rightarrow> PeriodSubmitCount" where
  "submit_columns now rs =
     fill_periods (\<lambda>a b. count_rows (between a b) rs) (int (length rs)) now"

definition ac_columns :: "time \<Rightarrow> SubmitLog list \<Rightarrow> PeriodAcCount" where
  "ac_columns now rs =
     fill_periods (\<lambda>a b. count_distinct acDistinctKey (\<lambda>r. acCondition r \<and> between a b r) rs)
       (count_distinct acDistinctKey acCondition rs) now"

definition zero_counts :: PeriodSubmitCount where
  "zero_counts = \<lparr>pc_Today = 0, pc_ThisWeek = 0, pc_LastWeek = 0, pc_ThisMonth = 0, pc_LastMonth = 0,
     pc_ThisYear = 0, pc_LastYear = 0, pc_Total = 0\<rparr>"

text \<open>\<^verbatim>\<open>GROUP BY k\<close>: one result for each key that occurs.\<close>

definition group_by :: "('r \<Rightarrow> 'k) \<Rightarrow> ('k \<Rightarrow> 'r list \<Rightarrow> 'a) \<Rightarrow> 'r list \<Rightarrow> 'a list" where
  "group_by k f rs = map (\<lambda>x. f x (filter (\<lambda>r. k r = x) rs)) (remdups (map k rs))"

definition platform_rows :: "int \<Rightarrow> string list \<Rightarrow> time \<Rightarrow> SubmitLog list \<Rightarrow> PlatformPeriodCount list" where
  "platform_rows userId names now rs =
     group_by s_Platform
       (\<lambda>p g. \<lparr>pp_Platform = p, pp_Submit = submit_columns now g, pp_Ac = ac_columns now g\<rparr>)
       (filter (\<lambda>r. s_Platform r \<in> set names \<and> (userId \<noteq> -1 \<longrightarrow> s_UserID r = userId)) rs)"

definition GetPlatformPeriodCount ::
    "'x core_env_scheme \<Rightarrow> int \<Rightarrow> string list \<Rightarrow> (gerr, PlatformPeriodCount list) cact" where
  "GetPlatformPeriodCount e userId names =
     bindE (time_now e) (\<lambda>now.
     bindE (q_select e (\<lambda>d. platform_rows userId names now (rows (submits d)))) (\<lambda>found.
     let rowByPlatform = foldl (\<lambda>m row. m(pp_Platform row \<mapsto> row)) Map.empty found
     in returnE (map (\<lambda>platform. case rowByPlatform platform of
            Some row \<Rightarrow> \<lparr>pp_Platform = platform, pp_Submit = pp_Submit row, pp_Ac = pp_Ac row\<rparr>
          | None \<Rightarrow> \<lparr>pp_Platform = platform, pp_Submit = zero_counts, pp_Ac = zero_counts\<rparr>) names)))"

definition team_rows :: "int list \<Rightarrow> time \<Rightarrow> SubmitLog list \<Rightarrow> TeamMemberPeriodCount list" where
  "team_rows userIds now rs =
     group_by s_UserID
       (\<lambda>u g. \<lparr>tm_UserID = u, tm_Submit = submit_columns now g, tm_Ac = ac_columns now g,
               tm_WaTotal = count_rows waCondition g\<rparr>)
       (filter (\<lambda>r. s_UserID r \<in> set userIds) rs)"

definition GetTeamPeriodCount :: "'x core_env_scheme \<Rightarrow> int list \<Rightarrow> (gerr, TeamMemberPeriodCount list) cact" where
  "GetTeamPeriodCount e userIds =
     bindE (time_now e) (\<lambda>now.
     bindE (q_select e (\<lambda>d. team_rows userIds now (rows (submits d)))) (\<lambda>found.
     let rowByUserID = foldl (\<lambda>m row. m(tm_UserID row \<mapsto> row)) Map.empty found
     in returnE (map (\<lambda>userId. case rowByUserID userId of
            Some row \<Rightarrow> \<lparr>tm_UserID = userId, tm_Submit = tm_Submit row, tm_Ac = tm_Ac row, tm_WaTotal = tm_WaTotal row\<rparr>
          | None \<Rightarrow> \<lparr>tm_UserID = userId, tm_Submit = zero_counts, tm_Ac = zero_counts, tm_WaTotal = 0\<rparr>) userIds)))"

section \<open>Heat map\<close>

definition heatmap_rows :: "int \<Rightarrow> int \<Rightarrow> int \<Rightarrow> bool \<Rightarrow> SubmitLog list \<Rightarrow> DailyCount list" where
  "heatmap_rows startDay endDay userId isAc rs =
     map (\<lambda>day. \<lparr>dc_Day = midnight day,
            dc_Cnt = count_rows (\<lambda>r. between (midnight day) (midnight (day + 1)) r \<and>
              (isAc \<longrightarrow> acCondition r) \<and> (userId \<noteq> 0 \<longrightarrow> s_UserID r = userId)) rs\<rparr>)
       [startDay..endDay]"

definition HeatmapQuery ::
    "'x stat_env_scheme \<Rightarrow> string \<Rightarrow> string \<Rightarrow> int \<Rightarrow> bool \<Rightarrow> (gerr, DailyCount list) cact" where
  "HeatmapQuery e startDate endDate userId isAc =
     stmt e (\<lambda>_ d. case (parse_date e startDate, parse_date e endDate) of
        (Some a, Some b) \<Rightarrow> (Inr (heatmap_rows a b userId isAc (rows (submits d))), d)
      | _ \<Rightarrow> (Inl DbError, d))"

section \<open>Cached queries\<close>

definition rdb_get :: "'x stat_env_scheme \<Rightarrow> string \<Rightarrow> ('db, 'e, string option) act" where
  "rdb_get e k w =
     (if stmt_fails e (ticks w) then (Inr None, tick w)
      else if key_expired e (ticks w) k then (Inr None, (tick w)\<lparr>rdb := (rdb w)(k := None)\<rparr>)
      else (Inr (rdb w k), tick w))"

definition rdb_set :: "'x env_scheme \<Rightarrow> string \<Rightarrow> string \<Rightarrow> ('db, 'e, unit) act" where
  "rdb_set e k v w = (Inr (),
     if stmt_fails e (ticks w) then tick w else (tick w)\<lparr>rdb := (rdb w)(k \<mapsto> v)\<rparr>)"

definition GetCacheDalWithTTL ::
    "'x stat_env_scheme \<Rightarrow> ('a \<Rightarrow> string option) \<Rightarrow> (string \<Rightarrow> 'a option) \<Rightarrow> string \<Rightarrow>
     ('db, gerr, 'a) act \<Rightarrow> ('db, gerr, 'a \<times> bool) act" where
  "GetCacheDalWithTTL e enc dec cacheKey dbFunc =
     bindE (rdb_get e cacheKey) (\<lambda>rVal.
     case rVal of
       None \<Rightarrow>
         bindE dbFunc (\<lambda>data.
         case enc data of
           None \<Rightarrow> failE (Errorf ''gob encoding failed'')
         | Some b \<Rightarrow> bindE (rdb_set e cacheKey b) (\<lambda>_. returnE (data, False)))
     | Some v \<Rightarrow>
         (case dec v of
            None \<Rightarrow> failE (Errorf ''cached value does not parse'')
          | Some data \<Rightarrow> returnE (data, True)))"

abbreviation "internal er \<equiv> InternalServer ''internal error'' (err_text er)"

definition fmt_t :: "bool \<Rightarrow> string" where
  "fmt_t b = (if b then ''true'' else ''false'')"

definition uc_Heatmap ::
    "'x stat_env_scheme \<Rightarrow> int \<Rightarrow> string \<Rightarrow> string \<Rightarrow> bool \<Rightarrow> (kerr, (string \<times> int) list) cact" where
  "uc_Heatmap e userId startDate endDate isAc =
     (if startDate = '''' \<or> endDate = '''' then failE (BadRequest ''argument'' ''bad date'')
      else let cacheKey = ''statistic:heatmap:'' @ fmt_d userId @ '':'' @ startDate @ '':'' @ endDate @ '':'' @ fmt_t isAc
        in bindE (withErr (\<lambda>er. internal er) (GetCacheDalWithTTL e (gob_heatmap e) (ungob_heatmap e) cacheKey
                    (HeatmapQuery e startDate endDate userId isAc))) (\<lambda>(result, _).
           returnE (map (\<lambda>v. (format_day e (dc_Day v), dc_Cnt v)) result)))"

definition uc_PeriodCount :: "'x stat_env_scheme \<Rightarrow> int \<Rightarrow> (kerr, PeriodSubmitCount \<times> PeriodAcCount) cact" where
  "uc_PeriodCount e userId =
     bindE (withErr (\<lambda>er. internal er) (GetCacheDalWithTTL e (gob_period e) (ungob_period e)
              (''statistic:period:'' @ fmt_d userId) (GetPeriodCount e userId))) (\<lambda>(result, _).
     returnE result)"

definition statistic_platforms :: "string list" where
  "statistic_platforms = [''AtCoder'', ''NowCoder'', ''LuoGu'', ''CodeForces'', ''QOJ'']"

definition uc_PlatformPeriodCount :: "'x stat_env_scheme \<Rightarrow> int \<Rightarrow> (kerr, PlatformPeriodCount list) cact" where
  "uc_PlatformPeriodCount e userId =
     bindE (withErr (\<lambda>er. internal er) (GetCacheDalWithTTL e (gob_platforms e) (ungob_platforms e)
              (''statistic:platform-period:'' @ fmt_d userId)
              (GetPlatformPeriodCount e userId statistic_platforms))) (\<lambda>(result, _).
     returnE result)"

definition uc_TeamPeriodCount :: "'x stat_env_scheme \<Rightarrow> int list \<Rightarrow> (kerr, TeamMemberPeriodCount list) cact" where
  "uc_TeamPeriodCount e userIds =
     (if userIds = [] then returnE []
      else withErr (\<lambda>er. internal er) (GetTeamPeriodCount e userIds))"

section \<open>Service\<close>

text \<open>The response types of the service have the fields of the query results.\<close>

definition PlatformPeriod :: "'x stat_env_scheme \<Rightarrow> int \<Rightarrow> (kerr, PlatformPeriodCount list) cact" where
  "PlatformPeriod e userId =
     bindE (uc_PlatformPeriodCount e userId) (\<lambda>data.
     returnE (map (\<lambda>item. \<lparr>pp_Platform = pp_Platform item, pp_Submit = pp_Submit item, pp_Ac = pp_Ac item\<rparr>) data))"

definition add_counts :: "PeriodSubmitCount \<Rightarrow> PeriodSubmitCount \<Rightarrow> PeriodSubmitCount" where
  "add_counts all item =
     \<lparr>pc_Today = i64 (pc_Today all + pc_Today item),
      pc_ThisWeek = i64 (pc_ThisWeek all + pc_ThisWeek item),
      pc_LastWeek = i64 (pc_LastWeek all + pc_LastWeek item),
      pc_ThisMonth = i64 (pc_ThisMonth all + pc_ThisMonth item),
      pc_LastMonth = i64 (pc_LastMonth all + pc_LastMonth item),
      pc_ThisYear = i64 (pc_ThisYear all + pc_ThisYear item),
      pc_LastYear = i64 (pc_LastYear all + pc_LastYear item),
      pc_Total = i64 (pc_Total all + pc_Total item)\<rparr>"

record TeamPeriodResponse =
  tr_Members :: "TeamMemberPeriodCount list"
  tr_Total :: TeamMemberPeriodCount

definition TeamPeriod :: "'x stat_env_scheme \<Rightarrow> int list \<Rightarrow> (kerr, TeamPeriodResponse) cact" where
  "TeamPeriod e userIds =
     bindE (uc_TeamPeriodCount e userIds) (\<lambda>data.
     returnE \<lparr>tr_Members = data,
       tr_Total = foldl (\<lambda>t item. t\<lparr>tm_Submit := add_counts (tm_Submit t) (tm_Submit item),
           tm_Ac := add_counts (tm_Ac t) (tm_Ac item), tm_WaTotal := i64 (tm_WaTotal t + tm_WaTotal item)\<rparr>)
         \<lparr>tm_UserID = 0, tm_Submit = zero_counts, tm_Ac = zero_counts, tm_WaTotal = 0\<rparr> data\<rparr>)"

end
