(* ===== verification/StatisticFacts.thy ===== *)
theory StatisticFacts
  imports Statistic
begin

text \<open>
  Facts about the statistics: the acceptance rules of SQL and Go agree, counts over nested and
  adjacent ranges, what the single and the grouped queries return on a database that answers, and
  how counts of parts add up.
\<close>

section \<open>Substrings and trimming\<close>

lemma HasPrefix_iff: "HasPrefix s p \<longleftrightarrow> (\<exists>v. s = p @ v)"
  by (induction s p rule: HasPrefix.induct) auto

lemma Contains_iff: "Contains s p \<longleftrightarrow> (\<exists>u v. s = u @ p @ v)"
proof (induction s)
  case (Cons c s)
  have "(\<exists>u v. c # s = u @ p @ v) \<longleftrightarrow> (\<exists>v. c # s = p @ v) \<or> (\<exists>u v. s = u @ p @ v)"
    by (metis append_Cons append_eq_Cons_conv append_self_conv2)
  with Cons show ?case by (simp add: HasPrefix_iff)
qed simp

lemma Contains_map: "Contains s p \<Longrightarrow> Contains (map f s) (map f p)"
  by (auto simp: Contains_iff) (metis append_assoc)

lemma Contains_trans: "Contains s p \<Longrightarrow> Contains p q \<Longrightarrow> Contains s q"
  by (auto simp: Contains_iff) (metis append_assoc)

lemma Contains_append_left: "set a \<inter> set p = {} \<Longrightarrow> p \<noteq> [] \<Longrightarrow> Contains (a @ s) p = Contains s p"
proof (induction a)
  case (Cons x a)
  then have "\<not> HasPrefix (x # a @ s) p" by (cases p) auto
  with Cons show ?case by simp
qed simp

lemma Contains_rev: "Contains (rev s) (rev p) = Contains s p"
proof -
  have "Contains s p \<Longrightarrow> Contains (rev s) (rev p)" for s p
    by (auto simp: Contains_iff) blast
  from this [of s p] this [of "rev s" "rev p"] show ?thesis by auto
qed

lemma Contains_append_right: "set c \<inter> set p = {} \<Longrightarrow> p \<noteq> [] \<Longrightarrow> Contains (s @ c) p = Contains s p"
  using Contains_append_left [of "rev c" "rev p" "rev s"] Contains_rev [of "s @ c" p] Contains_rev [of s p] by simp

definition space_bytes :: "nat list" where
  "space_bytes = [9, 10, 11, 12, 13, 32, 194, 133, 160, 225, 154, 128, 226, 129, 130, 131, 132, 134, 135, 136, 137, 138,
     168, 169, 175, 159, 227]"

lemma is_space_bytes: "is_space ch \<Longrightarrow> c \<in> set ch \<Longrightarrow> of_char c \<in> set space_bytes"
  by (auto simp: is_space_def space_bytes_def)

lemma TrimSpace_split:
  obtains a c where "s = a @ TrimSpace s @ c"
    "\<And>x. x \<in> set a \<Longrightarrow> of_char x \<in> set space_bytes" "\<And>x. x \<in> set c \<Longrightarrow> of_char x \<in> set space_bytes"
proof -
  let ?t = "dropWhile is_space (chunks s)"
  have cs: "chunks s = takeWhile is_space (chunks s) @ trim_chunks (chunks s) @ rev (takeWhile is_space (rev ?t))"
    unfolding trim_chunks_def rev_append [symmetric] takeWhile_dropWhile_id by simp
  have "s = concat (takeWhile is_space (chunks s)) @ TrimSpace s @ concat (rev (takeWhile is_space (rev ?t)))"
    by (subst concat_chunks [symmetric], subst cs) (simp add: TrimSpace_def)
  moreover have "x \<in> set (concat (takeWhile is_space l)) \<Longrightarrow> of_char x \<in> set space_bytes" for x l
    by (auto dest!: set_takeWhileD intro: is_space_bytes)
  moreover have "x \<in> set (concat (rev (takeWhile is_space l))) \<Longrightarrow> of_char x \<in> set space_bytes" for x l
    by (auto dest!: set_takeWhileD intro: is_space_bytes)
  ultimately show thesis by (rule that)
qed

definition no_space :: "string \<Rightarrow> bool" where
  "no_space p \<longleftrightarrow> p \<noteq> [] \<and> (\<forall>x \<in> set p. (of_char x :: nat) \<notin> set space_bytes)"

lemma ToLower_append: "ToLower (a @ b) = ToLower a @ ToLower b"
  by (simp add: ToLower_def)

lemma ToLower_space: "(\<And>x. x \<in> set a \<Longrightarrow> of_char x \<in> set space_bytes) \<Longrightarrow> ToLower a = a"
proof -
  assume a: "\<And>x. x \<in> set a \<Longrightarrow> of_char x \<in> set space_bytes"
  have "\<not> in_range 65 90 x" if "x \<in> set a" for x
    using a [OF that] by (auto simp: in_range_def space_bytes_def)
  then show ?thesis by (auto simp: ToLower_def intro: map_idI)
qed

text \<open>Trimming white space neither adds nor removes an occurrence of a text without white space.\<close>

lemma Contains_trim: "no_space p \<Longrightarrow> Contains (ToLower (TrimSpace s)) p = Contains (ToLower s) p"
proof -
  assume p: "no_space p"
  obtain a c where s: "s = a @ TrimSpace s @ c"
    and a: "\<And>x. x \<in> set a \<Longrightarrow> of_char x \<in> set space_bytes" and c: "\<And>x. x \<in> set c \<Longrightarrow> of_char x \<in> set space_bytes"
    by (rule TrimSpace_split [of s]) blast
  have "set a \<inter> set p = {}" "set c \<inter> set p = {}" "p \<noteq> []" using a c p by (auto simp: no_space_def)
  moreover have "ToLower s = a @ ToLower (TrimSpace s) @ c"
    by (subst s) (simp add: ToLower_append ToLower_space a c)
  ultimately show ?thesis by (simp add: Contains_append_left Contains_append_right)
qed

lemma no_space_patterns: "no_space ''ac''" "no_space ''ok''" "no_space correct_zh"
  by (simp_all add: no_space_def space_bytes_def correct_zh_def)

lemma lower_patterns: "ToLower ''AC'' = ''ac''" "ToLower ''OK'' = ''ok''" "ToLower correct_zh = correct_zh"
  "ToLower ''ACCEPTED'' = ''accepted''"
  by code_simp+

text \<open>The Go rule of the service and the SQL condition accept the same statuses.\<close>

lemma isAccepted_SQL: "isAcceptedStatus (s_Status r) = acCondition r"
proof -
  let ?t = "ToLower (TrimSpace (s_Status r))"
  have "Contains ''accepted'' ''ac''" by code_simp
  then have "Contains ?t ''accepted'' \<Longrightarrow> Contains ?t ''ac''" using Contains_trans by blast
  then have "isAcceptedStatus (s_Status r) \<longleftrightarrow> Contains ?t ''ac'' \<or> Contains ?t correct_zh \<or> Contains ?t ''ok''"
    unfolding isAcceptedStatus_def Let_def by blast
  then show ?thesis
    by (simp add: acCondition_def ilike_contains_def lower_patterns Contains_trim no_space_patterns)
qed

lemma lower_upper: "ToLower (ToUpper s) = ToLower s"
proof -
  have "(if in_range 65 90 (if in_range 97 122 c then char_of ((of_char c :: nat) - 32) else c)
      then char_of ((of_char (if in_range 97 122 c then char_of ((of_char c :: nat) - 32) else c) :: nat) + 32)
      else (if in_range 97 122 c then char_of ((of_char c :: nat) - 32) else c)) =
    (if in_range 65 90 c then char_of ((of_char c :: nat) + 32) else c)" for c :: char
    by (auto simp: in_range_def)
  then show ?thesis by (simp add: ToLower_def ToUpper_def o_def)
qed

lemma IsAccepted_weaker: "IsAcceptedStatus s \<Longrightarrow> isAcceptedStatus s"
proof -
  let ?t = "TrimSpace s"
  assume "IsAcceptedStatus s"
  then consider "ToUpper ?t = ''AC''" | "ToUpper ?t = ''OK''" | "Contains (ToUpper ?t) ''ACCEPTED''" | "Contains s correct_zh"
    by (auto simp: IsAcceptedStatus_def Let_def)
  then show ?thesis
  proof cases
    case 3
    then have "Contains (ToLower (ToUpper ?t)) (ToLower ''ACCEPTED'')" unfolding ToLower_def by (rule Contains_map)
    then have "Contains (ToLower ?t) ''accepted''" by (simp add: lower_upper lower_patterns)
    then show ?thesis by (simp add: isAcceptedStatus_def)
  next
    case 4
    then have "Contains (ToLower s) (ToLower correct_zh)" unfolding ToLower_def by (rule Contains_map)
    then show ?thesis by (simp add: lower_patterns isAcceptedStatus_def Contains_trim no_space_patterns)
  qed (use lower_upper [of ?t] in \<open>simp_all add: isAcceptedStatus_def lower_patterns flip: lower_upper [of ?t]\<close>)
qed

section \<open>Counting in ranges\<close>

lemma count_rows_mono: "(\<And>r. P r \<Longrightarrow> Q r) \<Longrightarrow> count_rows P rs \<le> count_rows Q rs"
proof -
  assume "\<And>r. P r \<Longrightarrow> Q r"
  then have "filter P rs = filter P (filter Q rs)" by (auto simp: intro!: filter_cong)
  then show ?thesis unfolding count_rows_def using length_filter_le [of P "filter Q rs"] by simp
qed

lemma count_rows_add: "(\<And>r. \<not> (P r \<and> Q r)) \<Longrightarrow> count_rows P rs + count_rows Q rs = count_rows (\<lambda>r. P r \<or> Q r) rs"
  by (induction rs) (auto simp: count_rows_def)

lemma count_distinct_card: "count_distinct k P rs = int (card (k ` {r \<in> set rs. P r}))"
  by (simp add: count_distinct_def length_remdups_card_conv)

lemma count_distinct_mono: "(\<And>r. P r \<Longrightarrow> Q r) \<Longrightarrow> count_distinct k P rs \<le> count_distinct k Q rs"
  unfolding count_distinct_card by (auto intro!: card_mono)

lemma count_distinct_le_rows: "count_distinct k P rs \<le> count_rows P rs"
  unfolding count_distinct_def count_rows_def
  using length_remdups_leq [of "map k (filter P rs)"] by simp

text \<open>
  What the results of the period queries need of a count of a range: longer ranges have larger
  counts, and none exceeds the count of everything. Then the eight numbers are ordered.
\<close>

definition ordered_counts :: "PeriodSubmitCount \<Rightarrow> bool" where
  "ordered_counts c \<longleftrightarrow>
     0 \<le> pc_Today c \<and> pc_Today c \<le> pc_ThisWeek c \<and> pc_Today c \<le> pc_ThisMonth c \<and>
     pc_ThisMonth c \<le> pc_ThisYear c \<and> pc_ThisYear c \<le> pc_Total c \<and> pc_ThisWeek c \<le> pc_Total c \<and>
     0 \<le> pc_LastWeek c \<and> pc_LastWeek c \<le> pc_Total c \<and> 0 \<le> pc_LastMonth c \<and> pc_LastMonth c \<le> pc_Total c \<and>
     0 \<le> pc_LastYear c \<and> pc_LastYear c \<le> pc_Total c"

definition disjoint_counts :: "PeriodSubmitCount \<Rightarrow> bool" where
  "disjoint_counts c \<longleftrightarrow> pc_ThisWeek c + pc_LastWeek c \<le> pc_Total c \<and>
     pc_ThisMonth c + pc_LastMonth c \<le> pc_Total c \<and> pc_ThisYear c + pc_LastYear c \<le> pc_Total c"

definition counts_le :: "PeriodSubmitCount \<Rightarrow> PeriodSubmitCount \<Rightarrow> bool" where
  "counts_le a c \<longleftrightarrow> pc_Today a \<le> pc_Today c \<and> pc_ThisWeek a \<le> pc_ThisWeek c \<and> pc_LastWeek a \<le> pc_LastWeek c \<and>
     pc_ThisMonth a \<le> pc_ThisMonth c \<and> pc_LastMonth a \<le> pc_LastMonth c \<and> pc_ThisYear a \<le> pc_ThisYear c \<and>
     pc_LastYear a \<le> pc_LastYear c \<and> pc_Total a \<le> pc_Total c"

lemma todayStart_eq: "todayStart now = midnight (local_day now)"
  by (simp add: todayStart_def Date_self)

lemma period_order:
  "todayStart now \<le> now" "getWeekStart now \<le> todayStart now" "thisMonthStart now \<le> todayStart now"
  "thisYearStart now \<le> thisMonthStart now" "lastWeekStart now \<le> getWeekStart now"
  "lastMonthStart now \<le> thisMonthStart now" "lastYearStart now \<le> thisYearStart now"
  using week_start_bounds [of now] month_start_le_day [of now] year_start_le_month [of now] midnight_le [of now]
    AddDate_less [of "thisMonthStart now"] AddDate_less [of "thisYearStart now"]
  by (simp_all add: todayStart_eq thisMonthStart_def thisYearStart_def lastWeekStart_def lastMonthStart_def
      lastYearStart_def ns_day_def)

locale range_count =
  fixes cnt :: "time \<Rightarrow> time \<Rightarrow> int" and whole :: int
  assumes nonneg: "0 \<le> cnt a b"
    and mono: "a' \<le> a \<Longrightarrow> cnt a b \<le> cnt a' b"
    and part: "cnt a b \<le> whole"
begin

lemma ordered: "ordered_counts (fill_periods cnt whole now)"
  using period_order [of now] by (simp add: ordered_counts_def fill_periods_def nonneg part mono)

end

locale additive_count = range_count +
  assumes split: "a \<le> b \<Longrightarrow> b \<le> c \<Longrightarrow> cnt a b + cnt b c = cnt a c"
begin

lemma pair: "a \<le> b \<Longrightarrow> b \<le> c \<Longrightarrow> cnt b c + cnt a b \<le> whole"
  using split [of a b c] part [of a c] by simp

lemma disjoint: "disjoint_counts (fill_periods cnt whole now)"
proof -
  note o = period_order [of now]
  have "getWeekStart now \<le> now" "thisMonthStart now \<le> now" "thisYearStart now \<le> now"
    using o by linarith+
  with o show ?thesis by (simp add: disjoint_counts_def fill_periods_def pair)
qed

end

interpretation submits_in: additive_count "\<lambda>a b. count_rows (\<lambda>r. between a b r \<and> Q r) rs" "count_rows Q rs" for Q rs
proof
  fix a b c :: time
  assume "a \<le> b" "b \<le> c"
  then have "(\<lambda>r. between a b r \<and> Q r \<or> between b c r \<and> Q r) = (\<lambda>r. between a c r \<and> Q r)"
    by (auto simp: between_def fun_eq_iff)
  then show "count_rows (\<lambda>r. between a b r \<and> Q r) rs + count_rows (\<lambda>r. between b c r \<and> Q r) rs =
      count_rows (\<lambda>r. between a c r \<and> Q r) rs"
    by (subst count_rows_add) (auto simp: between_def)
qed (auto simp: between_def intro!: count_rows_mono, simp add: count_rows_def)

interpretation accepted_in: range_count "\<lambda>a b. count_distinct k (\<lambda>r. acCondition r \<and> between a b r \<and> Q r) rs"
    "count_distinct k (\<lambda>r. acCondition r \<and> Q r) rs" for k Q rs
  by unfold_locales (auto simp: between_def intro!: count_distinct_mono, simp add: count_distinct_def)

lemma accepted_le_submits:
  "counts_le
     (fill_periods (\<lambda>a b. count_distinct k (\<lambda>r. acCondition r \<and> between a b r \<and> Q r) rs)
        (count_distinct k (\<lambda>r. acCondition r \<and> Q r) rs) now)
     (fill_periods (\<lambda>a b. count_rows (\<lambda>r. between a b r \<and> Q r) rs) (count_rows Q rs) now)"
proof -
  have "count_distinct k (\<lambda>r. acCondition r \<and> R r) rs \<le> count_rows R rs" for R
    using count_distinct_le_rows [of k "\<lambda>r. acCondition r \<and> R r" rs]
      count_rows_mono [of "\<lambda>r. acCondition r \<and> R r" R rs] by simp
  then show ?thesis by (simp add: counts_le_def fill_periods_def)
qed

section \<open>What the queries return\<close>

lemma count_or_zero_reliable:
  "reliable e \<Longrightarrow> count_or_zero e f w = (Inr (f (rows (submits (db w)))), tick w)"
  by (simp add: count_or_zero_def bindE_def tryE_def q_select_def stmt_def reliable_def returnE_def tick_def)

lemma query_periods_reliable:
  assumes c: "\<And>a b w. count a b w = (Inr (cnt a b (db w)), tick w)" and t: "\<And>w. whole w = (Inr (n (db w)), tick w)"
  obtains w' where "query_periods count whole now w =
      (Inr (fill_periods (\<lambda>a b. cnt a b (db w)) (n (db w)) now), w')" "db w' = db w"
  by (rule that [of "(tick ^^ 8) w"])
    (simp_all add: query_periods_def fill_periods_def bindE_def c t returnE_def numeral_eq_Suc)

lemma in_scope_user: "u \<noteq> -1 \<Longrightarrow> in_scope u '''' = (\<lambda>r. s_UserID r = u)"
  by (simp add: in_scope_def fun_eq_iff)

definition submit_counts :: "(SubmitLog \<Rightarrow> bool) \<Rightarrow> SubmitLog list \<Rightarrow> time \<Rightarrow> PeriodSubmitCount" where
  "submit_counts Q rs = fill_periods (\<lambda>a b. count_rows (\<lambda>r. between a b r \<and> Q r) rs) (count_rows Q rs)"

definition ac_counts :: "(SubmitLog \<Rightarrow> bool) \<Rightarrow> SubmitLog list \<Rightarrow> time \<Rightarrow> PeriodSubmitCount" where
  "ac_counts Q rs =
     fill_periods (\<lambda>a b. count_distinct acDistinctKey (\<lambda>r. acCondition r \<and> between a b r \<and> Q r) rs)
       (count_distinct acDistinctKey (\<lambda>r. acCondition r \<and> Q r) rs)"

lemma GetPeriodCount_reliable:
  assumes "reliable e"
  shows "fst (GetPeriodCount e u w) =
    Inr (submit_counts (in_scope u '''') (rows (submits (db w))) (clock e (ticks w)),
         ac_counts (in_scope u '''') (rows (submits (db w))) (clock e (ticks w)))"
proof -
  let ?now = "clock e (ticks w)"
  note r = count_or_zero_reliable [OF assms]
  obtain w1 where 1: "query_periods (countQuery e u) (countQueryTotal e u) ?now (tick w) =
      (Inr (submit_counts (in_scope u '''') (rows (submits (db w))) ?now) :: gerr + _, w1)" and d: "db w1 = db w"
    by (rule query_periods_reliable [of "countQuery e u"
          "\<lambda>a b d. count_rows (\<lambda>r. between a b r \<and> in_scope u '''' r) (rows (submits d))" "countQueryTotal e u"
          "\<lambda>d. count_rows (in_scope u '''') (rows (submits d))" ?now "tick w"])
      (simp_all add: countQuery_def countQueryByPlatform_def countQueryTotal_def countQueryTotalByPlatform_def r
        submit_counts_def)
  obtain w2 where 2: "query_periods (countAcDistinctQuery e u) (countAcDistinctTotal e u) ?now w1 =
      (Inr (ac_counts (in_scope u '''') (rows (submits (db w))) ?now) :: gerr + _, w2)"
    by (rule query_periods_reliable [of "countAcDistinctQuery e u"
          "\<lambda>a b d. count_distinct acDistinctKey (\<lambda>r. acCondition r \<and> between a b r \<and> in_scope u '''' r) (rows (submits d))"
          "countAcDistinctTotal e u"
          "\<lambda>d. count_distinct acDistinctKey (\<lambda>r. acCondition r \<and> in_scope u '''' r) (rows (submits d))" ?now w1])
      (simp_all add: countAcDistinctQuery_def countAcDistinctQueryByPlatform_def countAcDistinctTotal_def
        countAcDistinctTotalByPlatform_def r ac_counts_def d)
  show ?thesis by (simp add: GetPeriodCount_def bindE_def time_now_def 1 2 returnE_def)
qed

section \<open>Groups\<close>

lemma index_rows: "foldl (\<lambda>m row. m(k row \<mapsto> row)) Map.empty rs = map_of (rev (map (\<lambda>r. (k r, r)) rs))"
proof -
  have "foldl (\<lambda>m row. m(k row \<mapsto> row)) m rs = m ++ map_of (rev (map (\<lambda>r. (k r, r)) rs))" for m
    by (induction rs arbitrary: m) (simp_all add: map_add_def fun_eq_iff split: option.splits)
  then show ?thesis by simp
qed

lemma group_by_lookup:
  assumes "\<And>x g. key (f x g) = x"
  shows "foldl (\<lambda>m row. m(key row \<mapsto> row)) Map.empty (group_by k f rs) x =
    (if x \<in> k ` set rs then Some (f x (filter (\<lambda>r. k r = x) rs)) else None)"
proof -
  let ?al = "map (\<lambda>x. (x, f x (filter (\<lambda>r. k r = x) rs))) (remdups (map k rs))"
  have "map (\<lambda>r. (key r, r)) (group_by k f rs) = ?al"
    using assms by (simp add: group_by_def)
  moreover have "map_of (rev ?al) = map_of ?al"
    by (subst map_of_inject_set) (simp_all add: o_def rev_map)
  ultimately show ?thesis
    unfolding index_rows by (simp add: map_of_map_restrict restrict_map_def)
qed

lemma columns_empty: "submit_columns now [] = zero_counts" "ac_columns now [] = zero_counts"
  by (simp_all add: submit_columns_def ac_columns_def fill_periods_def zero_counts_def count_rows_def count_distinct_def)

lemma columns_filter:
  "submit_columns now (filter Q rs) = submit_counts Q rs now"
  "ac_columns now (filter Q rs) = ac_counts Q rs now"
  by (simp_all add: submit_columns_def submit_counts_def ac_columns_def ac_counts_def count_rows_def count_distinct_def
      conj_commute conj_left_commute)

definition member_counts :: "SubmitLog list \<Rightarrow> time \<Rightarrow> int \<Rightarrow> TeamMemberPeriodCount" where
  "member_counts rs now u =
     \<lparr>tm_UserID = u, tm_Submit = submit_counts (\<lambda>r. s_UserID r = u) rs now,
      tm_Ac = ac_counts (\<lambda>r. s_UserID r = u) rs now,
      tm_WaTotal = count_rows (\<lambda>r. s_UserID r = u \<and> waCondition r) rs\<rparr>"

text \<open>The lookup in the grouped result, with the zero row for a key that does not occur.\<close>

lemma group_lookup_default:
  assumes key: "\<And>x g. key (f x g) = x" and x: "x \<in> S" and z: "z = h (f x [])"
  shows "(case foldl (\<lambda>m row. m(key row \<mapsto> row)) Map.empty (group_by k f (filter (\<lambda>r. k r \<in> S \<and> Q r) rs)) x of
      None \<Rightarrow> z | Some row \<Rightarrow> h row) = h (f x (filter (\<lambda>r. k r = x \<and> Q r) rs))"
proof -
  let ?sel = "filter (\<lambda>r. k r \<in> S \<and> Q r) rs"
  have "filter (\<lambda>r. k r = x) ?sel = filter (\<lambda>r. k r = x \<and> Q r) rs"
    using x by (auto intro: filter_cong)
  moreover have "x \<notin> k ` set ?sel \<Longrightarrow> filter (\<lambda>r. k r = x \<and> Q r) rs = []"
    using x by (auto simp: filter_empty_conv)
  ultimately show ?thesis
    unfolding group_by_lookup [of key f, OF key] by (auto simp: z)
qed

lemma GetTeamPeriodCount_reliable:
  assumes "reliable e"
  shows "fst (GetTeamPeriodCount e us w) = Inr (map (member_counts (rows (submits (db w))) (clock e (ticks w))) us)"
proof -
  let ?rs = "rows (submits (db w))" and ?now = "clock e (ticks w)"
  have "(case foldl (\<lambda>m row. m(tm_UserID row \<mapsto> row)) Map.empty (team_rows us ?now ?rs) u of
        Some row \<Rightarrow> \<lparr>tm_UserID = u, tm_Submit = tm_Submit row, tm_Ac = tm_Ac row, tm_WaTotal = tm_WaTotal row\<rparr>
      | None \<Rightarrow> \<lparr>tm_UserID = u, tm_Submit = zero_counts, tm_Ac = zero_counts, tm_WaTotal = 0\<rparr>) = member_counts ?rs ?now u"
    if "u \<in> set us" for u
    unfolding team_rows_def
    using group_lookup_default [of tm_UserID "\<lambda>u g. \<lparr>tm_UserID = u, tm_Submit = submit_columns ?now g, tm_Ac = ac_columns ?now g,
        tm_WaTotal = count_rows waCondition g\<rparr>" u "set us" _
        "\<lambda>row. \<lparr>tm_UserID = u, tm_Submit = tm_Submit row, tm_Ac = tm_Ac row, tm_WaTotal = tm_WaTotal row\<rparr>"
        s_UserID "\<lambda>_. True" ?rs] that
    by (simp add: columns_empty columns_filter member_counts_def count_rows_def)
  then show ?thesis
    using assms by (simp add: GetTeamPeriodCount_def bindE_def time_now_def q_select_def stmt_def reliable_def returnE_def
        Let_def tick_def)
qed

definition on_platform :: "int \<Rightarrow> string \<Rightarrow> SubmitLog \<Rightarrow> bool" where
  "on_platform u p r \<longleftrightarrow> s_Platform r = p \<and> (u \<noteq> -1 \<longrightarrow> s_UserID r = u)"

definition platform_counts :: "SubmitLog list \<Rightarrow> time \<Rightarrow> int \<Rightarrow> string \<Rightarrow> PlatformPeriodCount" where
  "platform_counts rs now u p =
     \<lparr>pp_Platform = p, pp_Submit = submit_counts (on_platform u p) rs now, pp_Ac = ac_counts (on_platform u p) rs now\<rparr>"

lemma GetPlatformPeriodCount_reliable:
  assumes "reliable e"
  shows "fst (GetPlatformPeriodCount e u ps w) = Inr (map (platform_counts (rows (submits (db w))) (clock e (ticks w)) u) ps)"
proof -
  let ?rs = "rows (submits (db w))" and ?now = "clock e (ticks w)"
  have "(case foldl (\<lambda>m row. m(pp_Platform row \<mapsto> row)) Map.empty (platform_rows u ps ?now ?rs) p of
        Some row \<Rightarrow> \<lparr>pp_Platform = p, pp_Submit = pp_Submit row, pp_Ac = pp_Ac row\<rparr>
      | None \<Rightarrow> \<lparr>pp_Platform = p, pp_Submit = zero_counts, pp_Ac = zero_counts\<rparr>) = platform_counts ?rs ?now u p"
    if "p \<in> set ps" for p
    unfolding platform_rows_def
    using group_lookup_default [of pp_Platform "\<lambda>p g. \<lparr>pp_Platform = p, pp_Submit = submit_columns ?now g, pp_Ac = ac_columns ?now g\<rparr>"
        p "set ps" _ "\<lambda>row. \<lparr>pp_Platform = p, pp_Submit = pp_Submit row, pp_Ac = pp_Ac row\<rparr>"
        s_Platform "\<lambda>r. u \<noteq> -1 \<longrightarrow> s_UserID r = u" ?rs] that
    by (simp add: columns_empty columns_filter platform_counts_def on_platform_def [abs_def])
  then show ?thesis
    using assms by (simp add: GetPlatformPeriodCount_def bindE_def time_now_def q_select_def stmt_def reliable_def returnE_def
        Let_def tick_def)
qed

section \<open>Parts that add up\<close>

text \<open>Rows that a distinct key counts once agree on their user, and on their platform when its name has no separator.\<close>

lemma sep_inj: "(x :: char) \<notin> set a \<Longrightarrow> x \<notin> set a' \<Longrightarrow> a @ x # b = a' @ x # b' \<Longrightarrow> a = a' \<and> b = b'"
  by (metis SplitN2_prefix list.inject)

lemma bar_fmt_d: "CHR ''|'' \<notin> set (fmt_d x)"
  using fmt_nat_no_char [of "CHR ''|''"] by (auto simp: fmt_d_def)

lemma acDistinctKey_user: "acDistinctKey r = acDistinctKey r' \<Longrightarrow> s_UserID r = s_UserID r'"
proof -
  assume "acDistinctKey r = acDistinctKey r'"
  then have "fmt_d (s_UserID r) = fmt_d (s_UserID r')"
    using sep_inj [OF bar_fmt_d bar_fmt_d] by (simp add: acDistinctKey_def)
  then show ?thesis by (rule fmt_d_inj)
qed

definition plain_name :: "string \<Rightarrow> bool" where
  "plain_name p \<longleftrightarrow> CHR ''|'' \<notin> set p"

lemma acDistinctKey_platform:
  "acDistinctKey r = acDistinctKey r' \<Longrightarrow> plain_name (s_Platform r) \<Longrightarrow> plain_name (s_Platform r') \<Longrightarrow>
    s_Platform r = s_Platform r'"
  using sep_inj [of "CHR ''|''" "s_Platform r" "s_Platform r'" "problem_key r" "problem_key r'"]
    sep_inj [OF bar_fmt_d bar_fmt_d, of "s_UserID r" _ "s_UserID r'"]
  unfolding acDistinctKey_def plain_name_def append_Cons append_Nil by blast

definition sum_counts :: "PeriodSubmitCount list \<Rightarrow> PeriodSubmitCount" where
  "sum_counts cs =
     \<lparr>pc_Today = sum_list (map pc_Today cs), pc_ThisWeek = sum_list (map pc_ThisWeek cs),
      pc_LastWeek = sum_list (map pc_LastWeek cs), pc_ThisMonth = sum_list (map pc_ThisMonth cs),
      pc_LastMonth = sum_list (map pc_LastMonth cs), pc_ThisYear = sum_list (map pc_ThisYear cs),
      pc_LastYear = sum_list (map pc_LastYear cs), pc_Total = sum_list (map pc_Total cs)\<rparr>"

lemma sum_fill_periods:
  "sum_counts (map (\<lambda>x. fill_periods (c x) (t x) now) xs) =
    fill_periods (\<lambda>a b. \<Sum>x\<leftarrow>xs. c x a b) (\<Sum>x\<leftarrow>xs. t x) now"
  by (simp add: sum_counts_def fill_periods_def o_def)

text \<open>
  A classification of submissions that the distinct key respects on a set of classes: counts of the
  classes in a list without repetition add up to the count of their union.
\<close>

locale key_class =
  fixes cls :: "SubmitLog \<Rightarrow> 'k" and ok :: "'k \<Rightarrow> bool"
  assumes key: "acDistinctKey r = acDistinctKey r' \<Longrightarrow> ok (cls r) \<Longrightarrow> ok (cls r') \<Longrightarrow> cls r = cls r'"
begin

lemma rows_sum: "distinct xs \<Longrightarrow>
  (\<Sum>x\<leftarrow>xs. count_rows (\<lambda>r. R r \<and> cls r = x \<and> U r) rs) = count_rows (\<lambda>r. R r \<and> cls r \<in> set xs \<and> U r) rs"
proof (induction xs)
  case (Cons x xs)
  then have "(\<lambda>r. R r \<and> cls r \<in> set (x # xs) \<and> U r) = (\<lambda>r. R r \<and> cls r = x \<and> U r \<or> R r \<and> cls r \<in> set xs \<and> U r)"
    by auto
  with Cons show ?case by (simp only: list.map sum_list.Cons) (subst count_rows_add [symmetric], auto)
qed (simp add: count_rows_def)

lemma distinct_sum: "distinct xs \<Longrightarrow> list_all ok xs \<Longrightarrow>
  (\<Sum>x\<leftarrow>xs. count_distinct acDistinctKey (\<lambda>r. R r \<and> cls r = x \<and> U r) rs) =
    count_distinct acDistinctKey (\<lambda>r. R r \<and> cls r \<in> set xs \<and> U r) rs"
proof (induction xs)
  case (Cons x xs)
  let ?A = "{r \<in> set rs. R r \<and> cls r = x \<and> U r}" and ?B = "{r \<in> set rs. R r \<and> cls r \<in> set xs \<and> U r}"
  have "{r \<in> set rs. R r \<and> cls r \<in> set (x # xs) \<and> U r} = ?A \<union> ?B" by auto
  moreover have "acDistinctKey ` ?A \<inter> acDistinctKey ` ?B = {}"
    using Cons.prems by (fastforce simp: list_all_iff dest: key)
  ultimately have "card (acDistinctKey ` {r \<in> set rs. R r \<and> cls r \<in> set (x # xs) \<and> U r}) =
      card (acDistinctKey ` ?A) + card (acDistinctKey ` ?B)"
    by (simp only: image_Un) (rule card_Un_disjoint, simp_all)
  with Cons show ?case by (simp add: count_distinct_card)
qed (simp add: count_distinct_def)

lemma submit_sum: "distinct xs \<Longrightarrow>
  sum_counts (map (\<lambda>x. submit_counts (\<lambda>r. cls r = x \<and> U r) rs now) xs) = submit_counts (\<lambda>r. cls r \<in> set xs \<and> U r) rs now"
  using rows_sum [where R = "\<lambda>_. True" and xs = xs and U = U] by (simp add: submit_counts_def sum_fill_periods rows_sum)

lemma ac_sum: "distinct xs \<Longrightarrow> list_all ok xs \<Longrightarrow>
  sum_counts (map (\<lambda>x. ac_counts (\<lambda>r. cls r = x \<and> U r) rs now) xs) = ac_counts (\<lambda>r. cls r \<in> set xs \<and> U r) rs now"
  using distinct_sum [where R = "\<lambda>r. acCondition r \<and> between a b r" and xs = xs and U = U for a b]
  by (simp add: ac_counts_def sum_fill_periods distinct_sum)

end

interpretation by_user: key_class s_UserID "\<lambda>_. True"
  by unfold_locales (rule acDistinctKey_user)

interpretation by_platform: key_class s_Platform plain_name
  by unfold_locales (rule acDistinctKey_platform)

section \<open>Totals of a team\<close>

lemma add_counts_assoc: "add_counts (add_counts t x) y = add_counts t (sum_counts [x, y])"
  by (simp add: add_counts_def sum_counts_def i64_add add.assoc)

lemma sum_counts_Cons: "add_counts t (sum_counts [x, sum_counts xs]) = add_counts t (sum_counts (x # xs))"
  by (simp add: sum_counts_def)

definition add_member :: "TeamMemberPeriodCount \<Rightarrow> TeamMemberPeriodCount \<Rightarrow> TeamMemberPeriodCount" where
  "add_member t item = t\<lparr>tm_Submit := add_counts (tm_Submit t) (tm_Submit item),
     tm_Ac := add_counts (tm_Ac t) (tm_Ac item), tm_WaTotal := i64 (tm_WaTotal t + tm_WaTotal item)\<rparr>"

lemma foldl_add_member:
  "foldl add_member (add_member t x) xs =
     t\<lparr>tm_Submit := add_counts (tm_Submit t) (sum_counts (map tm_Submit (x # xs))),
       tm_Ac := add_counts (tm_Ac t) (sum_counts (map tm_Ac (x # xs))),
       tm_WaTotal := i64 (tm_WaTotal t + sum_list (map tm_WaTotal (x # xs)))\<rparr>"
proof (induction xs arbitrary: t x)
  case Nil
  show ?case by (simp add: add_member_def sum_counts_def add_counts_def)
next
  case (Cons y xs)
  show ?case
    by (simp add: Cons) (simp add: add_member_def add_counts_assoc sum_counts_Cons i64_add add.assoc)
qed

definition fits :: "PeriodSubmitCount \<Rightarrow> int \<Rightarrow> bool" where
  "fits c n \<longleftrightarrow> ordered_counts c \<and> pc_Total c \<le> n"

lemma add_zero_counts: "fits c n \<Longrightarrow> n < 9223372036854775808 \<Longrightarrow> add_counts zero_counts c = c"
  by (cases c) (simp add: fits_def ordered_counts_def add_counts_def zero_counts_def)

lemma count_rows_le: "count_rows P rs \<le> int (length rs)"
  by (simp add: count_rows_def)

lemma fits_counts:
  "fits (submit_counts Q rs now) (int (length rs))" "fits (ac_counts Q rs now) (int (length rs))"
  using submits_in.ordered [of Q rs now] accepted_in.ordered [of acDistinctKey Q rs now] count_rows_le [of Q rs]
    count_distinct_le_rows [of acDistinctKey "\<lambda>r. acCondition r \<and> Q r" rs] count_rows_le [of "\<lambda>r. acCondition r \<and> Q r" rs]
  by (auto simp: fits_def submit_counts_def ac_counts_def fill_periods_def)

definition team_counts :: "SubmitLog list \<Rightarrow> time \<Rightarrow> int set \<Rightarrow> TeamMemberPeriodCount" where
  "team_counts rs now us =
     \<lparr>tm_UserID = 0, tm_Submit = submit_counts (\<lambda>r. s_UserID r \<in> us) rs now, tm_Ac = ac_counts (\<lambda>r. s_UserID r \<in> us) rs now,
      tm_WaTotal = count_rows (\<lambda>r. s_UserID r \<in> us \<and> waCondition r) rs\<rparr>"

lemma team_total:
  assumes "distinct us" and n: "length rs < 9223372036854775808"
  shows "foldl add_member \<lparr>tm_UserID = 0, tm_Submit = zero_counts, tm_Ac = zero_counts, tm_WaTotal = 0\<rparr>
      (map (member_counts rs now) us) = team_counts rs now (set us)"
proof (cases us)
  case Nil
  have "submit_counts (\<lambda>r. False) rs now = zero_counts" "ac_counts (\<lambda>r. False) rs now = zero_counts"
    using columns_filter [of now "\<lambda>_. False" rs] columns_empty by simp_all
  with Nil show ?thesis by (simp add: team_counts_def count_rows_def)
next
  case (Cons v vs)
  let ?ms = "map (member_counts rs now) us"
  have s: "sum_counts (map tm_Submit ?ms) = submit_counts (\<lambda>r. s_UserID r \<in> set us) rs now"
    using by_user.submit_sum [OF assms(1), of "\<lambda>_. True"] by (simp add: o_def member_counts_def)
  have a: "sum_counts (map tm_Ac ?ms) = ac_counts (\<lambda>r. s_UserID r \<in> set us) rs now"
    using by_user.ac_sum [OF assms(1), of "\<lambda>_. True"] by (simp add: o_def member_counts_def list_all_iff)
  have w: "sum_list (map tm_WaTotal ?ms) = count_rows (\<lambda>r. s_UserID r \<in> set us \<and> waCondition r) rs"
    using by_user.rows_sum [OF assms(1), of "\<lambda>_. True" waCondition] by (simp add: o_def member_counts_def)
  have "foldl add_member \<lparr>tm_UserID = 0, tm_Submit = zero_counts, tm_Ac = zero_counts, tm_WaTotal = 0\<rparr> ?ms =
      \<lparr>tm_UserID = 0, tm_Submit = add_counts zero_counts (sum_counts (map tm_Submit ?ms)),
       tm_Ac = add_counts zero_counts (sum_counts (map tm_Ac ?ms)), tm_WaTotal = i64 (sum_list (map tm_WaTotal ?ms))\<rparr>"
    using foldl_add_member [of "\<lparr>tm_UserID = 0, tm_Submit = zero_counts, tm_Ac = zero_counts, tm_WaTotal = 0\<rparr>"
        "member_counts rs now v" "map (member_counts rs now) vs"] by (simp only: Cons list.map foldl_Cons) simp
  moreover have "i64 (count_rows (\<lambda>r. s_UserID r \<in> set us \<and> waCondition r) rs) = count_rows (\<lambda>r. s_UserID r \<in> set us \<and> waCondition r) rs"
    using n by (intro i64_id) (simp_all add: count_rows_def le_less_trans [OF length_filter_le])
  ultimately show ?thesis
    using n by (simp only: s a w) (simp add: team_counts_def add_zero_counts [OF fits_counts(1)] add_zero_counts [OF fits_counts(2)])
qed

lemma TeamPeriod_reliable:
  assumes "reliable e" and "distinct us" and "length (rows (submits (db w))) < 9223372036854775808"
  shows "fst (TeamPeriod e us w) =
    Inr \<lparr>tr_Members = map (member_counts (rows (submits (db w))) (clock e (ticks w))) us,
         tr_Total = team_counts (rows (submits (db w))) (clock e (ticks w)) (set us)\<rparr>"
proof -
  have "fst (uc_TeamPeriodCount e us w) = Inr (map (member_counts (rows (submits (db w))) (clock e (ticks w))) us)"
    using GetTeamPeriodCount_reliable [OF assms(1), of us w]
    by (cases "GetTeamPeriodCount e us w") (simp add: uc_TeamPeriodCount_def returnE_def withErr_def)
  then show ?thesis
    unfolding TeamPeriod_def add_member_def [symmetric]
    using team_total [OF assms(2,3), of "clock e (ticks w)"]
    by (cases "uc_TeamPeriodCount e us w") (simp add: bindE_def returnE_def)
qed

section \<open>Days of a heat map\<close>

lemma daily_sum:
  "a \<le> b + 1 \<Longrightarrow> (\<Sum>d\<leftarrow>[a..b]. count_rows (\<lambda>r. between (midnight d) (midnight (d + 1)) r \<and> Q r) rs) =
    count_rows (\<lambda>r. between (midnight a) (midnight (b + 1)) r \<and> Q r) rs"
proof (induction "nat (b + 1 - a)" arbitrary: a)
  case 0
  then show ?case by (simp add: count_rows_def between_def)
next
  case (Suc n)
  then have a: "a \<le> b" by simp
  then have "[a..b] = a # [a + 1..b]" by (simp add: upto_rec1)
  moreover have "(\<Sum>d\<leftarrow>[a + 1..b]. count_rows (\<lambda>r. between (midnight d) (midnight (d + 1)) r \<and> Q r) rs) =
      count_rows (\<lambda>r. between (midnight (a + 1)) (midnight (b + 1)) r \<and> Q r) rs"
    using Suc by (intro Suc.hyps(1)) auto
  moreover have "count_rows (\<lambda>r. between (midnight a) (midnight (a + 1)) r \<and> Q r) rs +
      count_rows (\<lambda>r. between (midnight (a + 1)) (midnight (b + 1)) r \<and> Q r) rs =
      count_rows (\<lambda>r. between (midnight a) (midnight (b + 1)) r \<and> Q r) rs"
    using a by (intro submits_in.split) simp_all
  ultimately show ?case by simp
qed

end
