(* ===== verification/StatisticOps.thy ===== *)
theory StatisticOps
  imports StatisticFacts SpiderTask
begin

text \<open>
  Details and audits of the statistics, the operation log and the cache controls:
  \<^verbatim>\<open>internal/service/statistic_ops.go\<close> up to the snapshots. Texts are written in English.
\<close>

section \<open>Response types\<close>

record StatisticPlatformSummary =
  ps_RawSubmits :: int
  ps_AcceptedSubmits :: int
  ps_DistinctSubmitted :: int
  ps_DistinctAc :: int
  ps_FilteredDuplicate :: int
  ps_FilteredInvalid :: int

record StatisticDetailRecord =
  dr_ID :: nat
  dr_SubmitID :: string
  dr_Platform :: string
  dr_Problem :: string
  dr_ProblemKey :: string
  dr_Contest :: string
  dr_Lang :: string
  dr_Status :: string
  dr_Time :: int
  dr_IncludedInAc :: bool
  dr_AuditReason :: string

record StatisticProblemRecord =
  pr_ProblemKey :: string
  pr_Problem :: string
  pr_FirstAcAt :: int
  pr_AcceptedSubmits :: int
  pr_TotalSubmits :: int

record StatisticPlatformDetail =
  pd_UserID :: int
  pd_Platform :: string
  pd_Mode :: string
  pd_Page :: int
  pd_PageSize :: int
  pd_Total :: int
  pd_Summary :: StatisticPlatformSummary
  pd_Policy :: "string list"
  pd_Records :: "StatisticDetailRecord list"
  pd_Problems :: "StatisticProblemRecord list"

record SpiderAuditItem =
  au_Platform :: string
  au_Username :: string
  au_Status :: string
  au_LastStartedAt :: int
  au_LastFinishedAt :: int
  au_LastSuccessAt :: int
  au_LastRawFetchedCount :: int
  au_LastFetchedCount :: int
  au_LastSkippedCount :: int
  au_LastError :: string
  au_RawSubmitCount :: int
  au_DistinctSubmitCount :: int
  au_AcceptedSubmitCount :: int
  au_DistinctAcCount :: int
  au_InvalidRowCount :: int
  au_FilteredDuplicateCount :: int
  au_FilteredAbnormalCount :: int
  au_CountPolicy :: "string list"
  au_FilterReasons :: "string list"
  au_AuditNotes :: "string list"
  au_IsStale :: bool

record OperationLogItem =
  ol_ID :: nat
  ol_OperatorID :: int
  ol_OperatorRole :: int
  ol_Action :: string
  ol_TargetType :: string
  ol_TargetID :: int
  ol_Detail :: string
  ol_CreatedAt :: int

record CacheKeyInfo =
  ck_Key :: string
  ck_Exists :: bool
  ck_TTL :: int

text \<open>An error that is passed on as it is reaches the client as Kratos' unknown error.\<close>

abbreviation "unknown er \<equiv> KErr 500 '''' (err_text er)"

definition statisticStaleAfter :: int where
  "statisticStaleAfter = 24 * 60 * 60 * 1000000000"

section \<open>Explanations\<close>

definition statisticCountPolicy :: "string \<Rightarrow> string list" where
  "statisticCountPolicy platform =
     (let policy =
        [''raw submissions: all stored submissions of the platform'',
         ''distinct submissions: by problem key'',
         ''accepted submissions: status AC, Accepted or OK'',
         ''distinct accepted: by platform and problem key'',
         ''problem key: the problem, or submit_id when it is missing'']
      in if ToLower platform = ''luogu'' then policy @ [''all fetched records are kept'']
         else if ToLower platform = ''codeforces'' then policy @ [''based on user.status'']
         else if ToLower platform = ''nowcoder'' then policy @ [''by the problem of the record'']
         else policy)"

definition auditReason :: "SubmitLog \<Rightarrow> string" where
  "auditReason row =
     (let problem = TrimSpace (s_Problem row); submitID = TrimSpace (s_SubmitID row) in
      if submitID = '''' then ''submit id missing, abnormal record''
      else let keySource = (if problem = '''' then ''submit_id'' else ''problem'') in
        if isAcceptedStatus (s_Status row) then ''accepted; distinct by '' @ keySource
        else ''not accepted; key from '' @ keySource)"

definition auditNotes :: "string \<Rightarrow> SpiderAuditItem \<Rightarrow> string list" where
  "auditNotes platform audit =
     [''stored '' @ fmt_d (au_RawSubmitCount audit) @ '', distinct '' @ fmt_d (au_DistinctSubmitCount audit),
      ''accepted '' @ fmt_d (au_AcceptedSubmitCount audit) @ '', distinct '' @ fmt_d (au_DistinctAcCount audit)]
     @ (if 0 < au_LastStartedAt audit
        then [''last fetch returned '' @ fmt_d (au_LastRawFetchedCount audit) @ '', stored '' @ fmt_d (au_LastFetchedCount audit)
               @ '', skipped '' @ fmt_d (au_LastSkippedCount audit)] else [])
     @ (if 0 < au_FilteredDuplicateCount audit then [fmt_d (au_FilteredDuplicateCount audit) @ '' duplicates''] else [])
     @ (if 0 < au_InvalidRowCount audit then [fmt_d (au_InvalidRowCount audit) @ '' abnormal records''] else [])
     @ (if au_IsStale audit then [''no success for 24 hours''] else [])
     @ (if au_LastError audit \<noteq> '''' then [''the last fetch failed''] else [])
     @ (let p = ToLower platform in
        if p = ''luogu'' then [''luogu hides some records on its pages'']
        else if p = ''codeforces'' then [''codeforces may count differently'']
        else if p = ''nowcoder'' then [''nowcoder has several views'']
        else if p = ''qoj'' then [''qoj may hide problems'']
        else if p = ''atcoder'' then [''atcoder archives late''] else [])"

section \<open>Details of a platform\<close>

definition page_or_first :: "int \<Rightarrow> int" where
  "page_or_first page = (if page \<le> 0 then 1 else page)"

definition page_size_or_30 :: "int \<Rightarrow> int" where
  "page_size_or_30 pageSize = (if pageSize \<le> 0 \<or> 100 < pageSize then 30 else pageSize)"

definition user_platform_rows :: "int \<Rightarrow> string \<Rightarrow> cdb \<Rightarrow> SubmitLog list" where
  "user_platform_rows userId platform d =
     filter (\<lambda>r. s_UserID r = userId \<and> s_Platform r = platform) (rows (submits d))"

definition invalid_row :: "SubmitLog \<Rightarrow> bool" where
  "invalid_row r \<longleftrightarrow> BTRIM (s_SubmitID r) = ''''"

definition summary_columns :: "SubmitLog list \<Rightarrow> StatisticPlatformSummary" where
  "summary_columns rs =
     \<lparr>ps_RawSubmits = int (length rs),
      ps_AcceptedSubmits = count_rows acCondition rs,
      ps_DistinctSubmitted = count_distinct problem_key (\<lambda>_. True) rs,
      ps_DistinctAc = count_distinct problem_key acCondition rs,
      ps_FilteredDuplicate = max (int (length rs) - count_distinct problem_key (\<lambda>_. True) rs) 0,
      ps_FilteredInvalid = count_rows invalid_row rs\<rparr>"

definition detail_record :: "SubmitLog \<Rightarrow> StatisticDetailRecord" where
  "detail_record row =
     (let problemKey = (if TrimSpace (s_Problem row) = '''' then s_SubmitID row else TrimSpace (s_Problem row)) in
      \<lparr>dr_ID = ID row, dr_SubmitID = s_SubmitID row, dr_Platform = s_Platform row, dr_Problem = s_Problem row,
       dr_ProblemKey = s_Platform row @ ''|'' @ problemKey, dr_Contest = s_Contest row, dr_Lang = s_Lang row,
       dr_Status = s_Status row, dr_Time = Unix (s_Time row),
       dr_IncludedInAc = isAcceptedStatus (s_Status row), dr_AuditReason = auditReason row\<rparr>)"

text \<open>The accepted problems with their first acceptance; \<open>(key, problem, first, accepted)\<close>.\<close>

definition ac_problems :: "'x stat_env_scheme \<Rightarrow> SubmitLog list \<Rightarrow> (string \<times> string \<times> time \<times> int) list" where
  "ac_problems e rs =
     sort_key (\<lambda>(_, _, first, _). - first)
       (group_by problem_key
         (\<lambda>k g. (k, sql_min e (map s_Problem g), Min (set (map s_Time g)), int (length g)))
         (filter acCondition rs))"

definition problem_record :: "string \<Rightarrow> SubmitLog list \<Rightarrow> string \<times> string \<times> time \<times> int \<Rightarrow> StatisticProblemRecord" where
  "problem_record platform rs row = (case row of (k, problem, first, accepted) \<Rightarrow>
     \<lparr>pr_ProblemKey = platform @ ''|'' @ k, pr_Problem = problem, pr_FirstAcAt = Unix first,
      pr_AcceptedSubmits = accepted, pr_TotalSubmits = count_rows (\<lambda>r. problem_key r = k) rs\<rparr>)"

text \<open>A negative \<^verbatim>\<open>OFFSET\<close> in the raw statement is an error; GORM leaves it out of the other one.\<close>

definition PlatformDetail ::
    "'x stat_env_scheme \<Rightarrow> int \<Rightarrow> string \<Rightarrow> string \<Rightarrow> int \<Rightarrow> int \<Rightarrow> (kerr, StatisticPlatformDetail) cact" where
  "PlatformDetail e userId req_platform req_mode req_page req_pageSize =
     (if userId \<le> 0 then failE (BadRequest ''argument'' ''userId required'')
      else let platform = TrimSpace req_platform in
      if platform = '''' then failE (BadRequest ''argument'' ''platform required'')
      else let page = page_or_first req_page;
               pageSize = page_size_or_30 req_pageSize;
               mode = (if req_mode = '''' then ''ac'' else req_mode);
               offset = i64 (i64 (page - 1) * pageSize);
               own = user_platform_rows userId platform
        in bindE (withErr (\<lambda>er. unknown er) (q_select e (\<lambda>d. summary_columns (own d)))) (\<lambda>summary.
           let resp = \<lparr>pd_UserID = userId, pd_Platform = platform, pd_Mode = mode, pd_Page = page, pd_PageSize = pageSize,
                       pd_Total = 0, pd_Summary = summary, pd_Policy = statisticCountPolicy platform,
                       pd_Records = [], pd_Problems = []\<rparr>
           in if mode = ''submit'' then
                bindE (withErr (\<lambda>er. unknown er) (q_select e (\<lambda>d. int (length (own d))))) (\<lambda>count.
                bindE (withErr (\<lambda>er. unknown er) (q_select e (\<lambda>d.
                  page_of pageSize offset (sort_key (\<lambda>r. - s_Time r) (own d))))) (\<lambda>found.
                returnE (resp\<lparr>pd_Total := count, pd_Records := map detail_record found\<rparr>)))
              else
                bindE (withErr (\<lambda>er. unknown er) (q_select e (\<lambda>d.
                  int (length (group_by problem_key (\<lambda>k _. k) (filter acCondition (own d))))))) (\<lambda>count.
                bindE (withErr (\<lambda>er. unknown er) (stmt e (\<lambda>_ d.
                  if offset < 0 then (Inl DbError, d)
                  else (Inr (map (problem_record platform (own d)) (take (nat pageSize) (drop (nat offset) (ac_problems e (own d))))), d)))) (\<lambda>found.
                returnE (resp\<lparr>pd_Total := count, pd_Problems := found\<rparr>)))))"

section \<open>Audit of the crawls\<close>

definition filter_reasons :: "string list" where
  "filter_reasons = [''duplicates count once'', ''abnormal: submit_id or time missing'', ''not accepted: kept, not counted as AC'']"

definition audit_item :: "time \<Rightarrow> SpiderSyncStatus option \<Rightarrow> platform_row \<Rightarrow> SpiderAuditItem" where
  "audit_item now st plat =
     (let fetched = (case st of None \<Rightarrow> 0 | Some s \<Rightarrow> y_LastFetchedCount s);
          skipped = (case st of None \<Rightarrow> 0 | Some s \<Rightarrow> y_LastSkippedCount s);
          at = (\<lambda>f. toUnix (case st of None \<Rightarrow> None | Some s \<Rightarrow> f s))
      in \<lparr>au_Platform = p_Platform plat, au_Username = p_Username plat,
          au_Status = (case st of None \<Rightarrow> ''never'' | Some s \<Rightarrow> if y_Status s \<noteq> '''' then y_Status s else ''never''),
          au_LastStartedAt = at y_LastStartedAt, au_LastFinishedAt = at y_LastFinishedAt, au_LastSuccessAt = at y_LastSuccessAt,
          au_LastRawFetchedCount = i64 (fetched + skipped), au_LastFetchedCount = fetched, au_LastSkippedCount = skipped,
          au_LastError = (case st of None \<Rightarrow> '''' | Some s \<Rightarrow> y_LastError s),
          au_RawSubmitCount = 0, au_DistinctSubmitCount = 0, au_AcceptedSubmitCount = 0, au_DistinctAcCount = 0,
          au_InvalidRowCount = 0, au_FilteredDuplicateCount = 0, au_FilteredAbnormalCount = 0,
          au_CountPolicy = statisticCountPolicy (p_Platform plat), au_FilterReasons = [], au_AuditNotes = [],
          au_IsStale = (case st of None \<Rightarrow> True | Some s \<Rightarrow> (case y_LastSuccessAt s of None \<Rightarrow> True
                         | Some t \<Rightarrow> statisticStaleAfter < Sub now t))\<rparr>)"

definition with_counts :: "StatisticPlatformSummary \<Rightarrow> SpiderAuditItem \<Rightarrow> SpiderAuditItem" where
  "with_counts c audit = audit\<lparr>au_RawSubmitCount := ps_RawSubmits c, au_DistinctSubmitCount := ps_DistinctSubmitted c,
     au_AcceptedSubmitCount := ps_AcceptedSubmits c, au_DistinctAcCount := ps_DistinctAc c,
     au_InvalidRowCount := ps_FilteredInvalid c, au_FilteredDuplicateCount := ps_FilteredDuplicate c\<rparr>"

definition finish_audit :: "SpiderAuditItem \<Rightarrow> SpiderAuditItem" where
  "finish_audit audit =
     (let a = audit\<lparr>au_FilteredAbnormalCount := i64 (au_InvalidRowCount audit + au_LastSkippedCount audit),
                    au_FilterReasons := filter_reasons\<rparr>
      in a\<lparr>au_AuditNotes := auditNotes (au_Platform audit) a\<rparr>)"

text \<open>The error of the counting statement is dropped: its columns stay 0.\<close>

fun audit_platforms ::
    "'x core_env_scheme \<Rightarrow> int \<Rightarrow> time \<Rightarrow> (string \<rightharpoonup> SpiderSyncStatus) \<Rightarrow> platform_row list \<Rightarrow> ('e, SpiderAuditItem list) cact" where
  "audit_platforms e userId now st [] = returnE []"
| "audit_platforms e userId now st (plat # plats) =
     bindE (tryE (q_select e (\<lambda>d. summary_columns (user_platform_rows userId (p_Platform plat) d)))) (\<lambda>r.
     let audit = audit_item now (st (p_Platform plat)) plat;
         counted = (case r of Inl _ \<Rightarrow> audit | Inr c \<Rightarrow> with_counts c audit)
     in bindE (audit_platforms e userId now st plats) (\<lambda>rest. returnE (finish_audit counted # rest)))"

definition SpiderAudit :: "'x core_env_scheme \<Rightarrow> ctx \<Rightarrow> int \<Rightarrow> (kerr, SpiderAuditItem list \<times> int) cact" where
  "SpiderAudit e hdr userId =
     (if userId \<le> 0 then failE (BadRequest ''argument'' ''userId required'')
      else if \<not> canViewUserDetail e hdr userId then failE (Forbidden ''permission'' ''not allowed to view the audit'')
      else bindE (withErr (\<lambda>er. unknown er) (q_select e (\<lambda>d. filter (\<lambda>p. p_UserID p = userId) (rows (platforms d))))) (\<lambda>plats.
           bindE (withErr (\<lambda>er. unknown er) (q_select e (\<lambda>d. filter (\<lambda>s. y_UserID s = userId) (rows (statuses d))))) (\<lambda>stats.
           bindE (time_now e) (\<lambda>now.
           bindE (audit_platforms e userId now (foldl (\<lambda>m item. m(y_Platform item \<mapsto> item)) Map.empty stats) plats) (\<lambda>data.
           returnE (data, statisticStaleAfter div 1000000000))))))"

section \<open>Cache control\<close>

definition statisticCacheKeys :: "int \<Rightarrow> string list" where
  "statisticCacheKeys userId =
     [''statistic:period:'' @ fmt_d userId, ''statistic:platform-period:'' @ fmt_d userId,
      ''core:submit_log:user:'' @ fmt_d userId, ''core:contest_log:user:'' @ fmt_d userId,
      ''statistic:period:-1'', ''statistic:platform-period:-1'']"

definition statisticCachePatterns :: "int \<Rightarrow> string list" where
  "statisticCachePatterns userId =
     [''statistic:heatmap:'' @ fmt_d userId @ '':*'', ''statistic:heatmap:0:*'', ''core:submit_log:detail:*'',
      ''core:contest_log:user:'' @ fmt_d userId @ '':*'', ''core:contest_log:detail:*'']"

text \<open>\<^verbatim>\<open>TTL\<close> answers -2 for a missing key; an error gives 0.\<close>

definition key_info :: "'x stat_env_scheme \<Rightarrow> string \<Rightarrow> ('e, CacheKeyInfo) cact" where
  "key_info e key w =
     (let r = rdb_ttl e (ticks w) key; ttl = (case r of Inl _ \<Rightarrow> 0 | Inr t \<Rightarrow> t)
      in (Inr \<lparr>ck_Key = key, ck_Exists = (\<not> isl r \<and> ttl \<noteq> -2), ck_TTL = ttl\<rparr>, tick w))"

fun key_infos :: "'x stat_env_scheme \<Rightarrow> string list \<Rightarrow> CacheKeyInfo list \<Rightarrow> ('e, CacheKeyInfo list) cact" where
  "key_infos e [] result = returnE result"
| "key_infos e (key # keys) result = bindE (key_info e key) (\<lambda>i. key_infos e keys (result @ [i]))"

text \<open>The loop over one pattern ends once thirty keys are listed; the loop over patterns goes on.\<close>

fun scanned_infos :: "'x stat_env_scheme \<Rightarrow> string list \<Rightarrow> CacheKeyInfo list \<Rightarrow> ('e, CacheKeyInfo list) cact" where
  "scanned_infos e [] result = returnE result"
| "scanned_infos e (key # keys) result =
     bindE (key_info e key) (\<lambda>i.
     if 30 \<le> length (result @ [i]) then returnE (result @ [i]) else scanned_infos e keys (result @ [i]))"

fun pattern_infos :: "'x stat_env_scheme \<Rightarrow> string list \<Rightarrow> CacheKeyInfo list \<Rightarrow> ('e, CacheKeyInfo list) cact" where
  "pattern_infos e [] result = returnE result"
| "pattern_infos e (p # ps) result =
     bindE (rpcE (\<lambda>n. rdb_scan e n p)) (\<lambda>keys.
     bindE (scanned_infos e keys result) (\<lambda>result'. pattern_infos e ps result'))"

definition cache_user :: "int \<Rightarrow> int" where
  "cache_user userId = (if userId \<le> 0 then -1 else userId)"

definition CacheStatus :: "'x stat_env_scheme \<Rightarrow> ctx \<Rightarrow> int \<Rightarrow> (kerr, int \<times> CacheKeyInfo list) cact" where
  "CacheStatus e hdr req_userId =
     (let userId = cache_user req_userId in
      if \<not> isCoachOrAdmin e hdr then failE (Forbidden ''permission'' ''not allowed to view the cache'')
      else bindE (key_infos e (statisticCacheKeys userId) []) (\<lambda>result.
           bindE (pattern_infos e (statisticCachePatterns userId) result) (\<lambda>result'.
           returnE (userId, result'))))"

text \<open>\<^verbatim>\<open>DEL\<close> with the number of keys it removed, 0 on an error.\<close>

definition rdb_del_count :: "'x env_scheme \<Rightarrow> string list \<Rightarrow> ('db, 'e, int) act" where
  "rdb_del_count e ks w =
     (if stmt_fails e (ticks w) then (Inr 0, tick w)
      else (Inr (int (length (filter (\<lambda>k. rdb w k \<noteq> None) (remdups ks)))),
            (tick w)\<lparr>rdb := (\<lambda>k. if k \<in> set ks then None else rdb w k)\<rparr>))"

text \<open>The batches of one pattern: what they remove is \<open>rdb_unlink_pattern\<close>, how many \<open>unlink_count\<close>.\<close>

fun unlink_patterns_count :: "'x stat_env_scheme \<Rightarrow> string list \<Rightarrow> int \<Rightarrow> ('db, 'e, int) act" where
  "unlink_patterns_count e [] deleted = returnE deleted"
| "unlink_patterns_count e (p # ps) deleted =
     bindE (\<lambda>w. (Inr (unlink_count e (ticks w) p), w)) (\<lambda>n.
     bindE (rdb_unlink_pattern e p) (\<lambda>_. unlink_patterns_count e ps (i64 (deleted + n))))"

definition ClearCache :: "'x stat_env_scheme \<Rightarrow> ctx \<Rightarrow> int \<Rightarrow> (kerr, int \<times> int) cact" where
  "ClearCache e hdr req_userId =
     (let userId = cache_user req_userId in
      case GetCurrentUser e hdr of
        None \<Rightarrow> failE (Forbidden ''permission'' ''not allowed to clear the cache'')
      | Some cur \<Rightarrow>
          if \<not> canManageCoreOps (RoleID cur) then failE (Forbidden ''permission'' ''not allowed to clear the cache'')
          else bindE (rdb_del_count e (statisticCacheKeys userId)) (\<lambda>n.
               bindE (unlink_patterns_count e (statisticCachePatterns userId) n) (\<lambda>deleted.
               bindE (recordCoreOperation e hdr ''statistic.clear_cache'' ''user'' userId [(''deletedKeys'', CInt deleted)]) (\<lambda>_.
               returnE (userId, deleted)))))"

section \<open>Operation log\<close>

definition operationDetailJSON :: "'x stat_env_scheme \<Rightarrow> string \<Rightarrow> string" where
  "operationDetailJSON e detail =
     (if TrimSpace detail = '''' then ''{}'' else if json_Valid e detail then detail else marshal_raw e detail)"

definition log_item :: "'x stat_env_scheme \<Rightarrow> core_oplog \<Rightarrow> OperationLogItem" where
  "log_item e row =
     \<lparr>ol_ID = ID row, ol_OperatorID = co_OperatorID row, ol_OperatorRole = co_OperatorRole row, ol_Action = co_Action row,
      ol_TargetType = co_TargetType row, ol_TargetID = co_TargetID row, ol_Detail = operationDetailJSON e (co_Detail row),
      ol_CreatedAt = Unix (co_CreatedAt row)\<rparr>"

definition core_OperationLogs ::
    "'x stat_env_scheme \<Rightarrow> ctx \<Rightarrow> int \<Rightarrow> int \<Rightarrow> string \<Rightarrow> (kerr, OperationLogItem list \<times> int) cact" where
  "core_OperationLogs e hdr req_page req_pageSize action =
     (case GetCurrentUser e hdr of
        None \<Rightarrow> failE (Forbidden ''permission'' ''not allowed to view the log'')
      | Some cur \<Rightarrow>
          if \<not> canManageCoreOps (RoleID cur) then failE (Forbidden ''permission'' ''not allowed to view the log'')
          else let page = page_or_first req_page; pageSize = page_size_or_30 req_pageSize;
                   query = (\<lambda>d. filter (\<lambda>r. TrimSpace action \<noteq> '''' \<longrightarrow> co_Action r = TrimSpace action) (rows (core_oplogs d)))
            in bindE (withErr (\<lambda>er. unknown er) (q_select e (\<lambda>d. int (length (query d))))) (\<lambda>count.
               bindE (withErr (\<lambda>er. unknown er) (q_select e (\<lambda>d.
                 page_of pageSize (i64 (i64 (page - 1) * pageSize)) (sort_key (\<lambda>r. - co_CreatedAt r) (query d))))) (\<lambda>found.
               returnE (map (log_item e) found, count))))"

section \<open>Details of a platform\<close>

lemma ac_problems_keys: "distinct (map fst (ac_problems e rs))"
proof -
  let ?g = "group_by problem_key (\<lambda>k g. (k, sql_min e (map s_Problem g), Min (set (map s_Time g)), int (length g)))
      (filter acCondition rs)"
  have "map fst ?g = remdups (map problem_key (filter acCondition rs))" by (simp add: group_by_def o_def)
  then have "distinct (map fst ?g)" by simp
  then show ?thesis unfolding ac_problems_def by (simp only: distinct_map distinct_sort set_sort)
qed

lemma ac_problems_row:
  assumes "(k, p, t, n) \<in> set (ac_problems e rs)"
  shows "1 \<le> n" and "n \<le> count_rows (\<lambda>r. problem_key r = k) rs"
proof -
  from assms have k: "k \<in> problem_key ` set (filter acCondition rs)"
    and n: "n = int (length (filter (\<lambda>r. problem_key r = k) (filter acCondition rs)))"
    by (auto simp: ac_problems_def group_by_def)
  from k obtain x where "x \<in> set (filter (\<lambda>r. problem_key r = k) (filter acCondition rs))" by auto
  then have "0 < length (filter (\<lambda>r. problem_key r = k) (filter acCondition rs))" by (rule length_pos_if_in_set)
  then show "1 \<le> n" unfolding n by linarith
  have "n = count_rows (\<lambda>r. acCondition r \<and> problem_key r = k) rs" by (simp add: n count_rows_def conj_commute)
  also have "\<dots> \<le> count_rows (\<lambda>r. problem_key r = k) rs" by (rule count_rows_mono) simp
  finally show "n \<le> count_rows (\<lambda>r. problem_key r = k) rs" .
qed

lemma ac_problems_sorted: "sorted_wrt (\<lambda>a b. fst (snd (snd b)) \<le> fst (snd (snd a))) (ac_problems e rs)"
proof -
  have "sorted_wrt (\<lambda>a b. f a \<le> f b) (sort_key f xs)" for f :: "'c \<Rightarrow> int" and xs
    using sorted_sort_key [of f xs] by (simp add: sorted_wrt_map)
  from this [of "\<lambda>(_, _, first, _). - first"] show ?thesis
    unfolding ac_problems_def by (auto simp: case_prod_unfold)
qed

definition good_problems :: "int \<Rightarrow> StatisticProblemRecord list \<Rightarrow> bool" where
  "good_problems n qs \<longleftrightarrow> int (length qs) \<le> n \<and> distinct (map pr_ProblemKey qs) \<and>
     sorted_wrt (\<lambda>a b. pr_FirstAcAt b \<le> pr_FirstAcAt a) qs \<and>
     list_all (\<lambda>q. 1 \<le> pr_AcceptedSubmits q \<and> pr_AcceptedSubmits q \<le> pr_TotalSubmits q) qs"

lemma Unix_mono: "a \<le> b \<Longrightarrow> Unix a \<le> Unix b"
  by (simp add: Unix_def zdiv_mono1)

lemma problem_page_good:
  assumes "0 \<le> n"
  shows "good_problems n (map (problem_record p rs) (take (nat n) (drop off (ac_problems e rs))))"
proof -
  let ?xs = "take (nat n) (drop off (ac_problems e rs))"
  have keys: "map pr_ProblemKey (map (problem_record p rs) ?xs) = map (\<lambda>k. p @ ''|'' @ k) (map fst ?xs)"
    by (simp add: problem_record_def case_prod_unfold)
  have "distinct (map fst ?xs)" using ac_problems_keys [of e rs] by (simp add: take_map [symmetric] drop_map [symmetric])
  then have "distinct (map pr_ProblemKey (map (problem_record p rs) ?xs))"
    unfolding keys by (subst distinct_map) (simp add: inj_on_def)
  moreover have "sorted_wrt (\<lambda>a b. fst (snd (snd b)) \<le> fst (snd (snd a))) ?xs"
    by (intro sorted_wrt_take sorted_wrt_drop ac_problems_sorted)
  then have "sorted_wrt (\<lambda>a b. pr_FirstAcAt b \<le> pr_FirstAcAt a) (map (problem_record p rs) ?xs)"
    unfolding sorted_wrt_map by (rule sorted_wrt_mono_rel [rotated])
      (auto simp: problem_record_def case_prod_unfold intro: Unix_mono)
  moreover have "list_all (\<lambda>q. 1 \<le> pr_AcceptedSubmits q \<and> pr_AcceptedSubmits q \<le> pr_TotalSubmits q) (map (problem_record p rs) ?xs)"
    using ac_problems_row by (auto simp: list_all_iff problem_record_def dest!: in_set_takeD in_set_dropD)
  ultimately show ?thesis using assms by (simp add: good_problems_def)
qed

definition good_summary :: "StatisticPlatformSummary \<Rightarrow> bool" where
  "good_summary s \<longleftrightarrow> ps_RawSubmits s = ps_DistinctSubmitted s + ps_FilteredDuplicate s \<and>
     0 \<le> ps_DistinctAc s \<and> ps_DistinctAc s \<le> ps_AcceptedSubmits s \<and> ps_AcceptedSubmits s \<le> ps_RawSubmits s \<and>
     ps_DistinctAc s \<le> ps_DistinctSubmitted s \<and> ps_FilteredInvalid s \<le> ps_RawSubmits s"

lemma summary_good: "good_summary (summary_columns rs)"
proof -
  have "count_distinct problem_key (\<lambda>_. True) rs \<le> int (length rs)"
    using count_distinct_le_rows [of problem_key "\<lambda>_. True" rs] by (simp add: count_rows_def)
  moreover have "count_distinct problem_key acCondition rs \<le> count_distinct problem_key (\<lambda>_. True) rs"
    by (rule count_distinct_mono) simp
  moreover have "0 \<le> count_distinct problem_key acCondition rs" by (simp add: count_distinct_def)
  ultimately show ?thesis
    using count_distinct_le_rows [of problem_key acCondition rs] count_rows_le [of acCondition rs] count_rows_le [of invalid_row rs]
    by (simp add: good_summary_def summary_columns_def)
qed

lemma page_size_bounds: "1 \<le> page_size_or_30 n" "page_size_or_30 n \<le> 100"
  by (auto simp: page_size_or_30_def)

lemma length_page_of: "0 \<le> limit \<Longrightarrow> int (length (page_of limit offset rs)) \<le> limit"
  by (simp add: page_of_def Let_def)

section \<open>The listed cache keys\<close>

lemma key_infos_length: "key_infos e ks r w = (Inr r', w') \<Longrightarrow> length r' = length r + length ks"
  by (induction ks arbitrary: r w) (auto simp: succ_simps)

lemma scanned_infos_length: "scanned_infos e ks r w = (Inr r', w') \<Longrightarrow> length r' \<le> max 30 (length r + 1)"
  by (induction ks arbitrary: r w) (fastforce simp: succ_simps split: if_splits)+

text \<open>The limit of thirty ends one pattern only: each further pattern may add a key.\<close>

lemma pattern_infos_length: "pattern_infos e ps r w = (Inr r' :: 'er + _, w') \<Longrightarrow> length r \<le> 30 \<Longrightarrow> length r' \<le> 30 + length ps"
proof -
  have "pattern_infos e ps r w = (Inr r' :: 'er + _, w') \<Longrightarrow> length r \<le> 30 + n \<Longrightarrow> length r' \<le> 30 + n + length ps" for n
  proof (induction ps arbitrary: r w n)
    case (Cons p ps)
    then obtain r1 w2 where s: "scanned_infos e (rdb_scan e (ticks w) p) r (tick w) = (Inr r1 :: 'er + _, w2)"
      and t: "pattern_infos e ps r1 w2 = (Inr r' :: 'er + _, w')" by (auto simp: succ_simps)
    from scanned_infos_length [OF s] Cons.prems(2) have "length r1 \<le> 30 + Suc n" by auto
    from Cons.IH [OF t this] show ?case by simp
  qed (simp add: succ_simps)
  from this [of 0] show "pattern_infos e ps r w = (Inr r' :: 'er + _, w') \<Longrightarrow> length r \<le> 30 \<Longrightarrow> length r' \<le> 30 + length ps" by simp
qed

end
