(* ===== verification/Snapshot.thy ===== *)
theory Snapshot
  imports StatisticOps
begin

text \<open>
  Stored feature snapshots (weekly reports and achievements) with their clean-up, and the order
  statistics of the achievements: the second half of \<^verbatim>\<open>internal/service/statistic_ops.go\<close>.
\<close>

section \<open>Clean-up\<close>

definition featureSnapshotRetention :: int where
  "featureSnapshotRetention = 30 * 24 * 60 * 60 * 1000000000"

definition featureSnapshotCleanupInterval :: int where
  "featureSnapshotCleanupInterval = 60 * 60 * 1000000000"

definition featureSnapshotMaxRows :: nat where
  "featureSnapshotMaxRows = 5000"

definition featureSnapshotKeepRows :: nat where
  "featureSnapshotKeepRows = 3000"

definition user_snapshot :: "FeatureSnapshot \<Rightarrow> bool" where
  "user_snapshot r \<longleftrightarrow> 0 < fs_UserID r \<and> fs_Kind r \<in> {''weekly_report'', ''achievement''}"

definition expired_before :: "time \<Rightarrow> FeatureSnapshot \<Rightarrow> bool" where
  "expired_before cutoff r \<longleftrightarrow> user_snapshot r \<and> fs_GeneratedAt r < cutoff"

definition overflow_ids :: "nat \<Rightarrow> FeatureSnapshot table \<Rightarrow> nat list" where
  "overflow_ids n t = map ID (take n (sort_key fs_GeneratedAt (filter user_snapshot (rows t))))"

definition affected :: "gerr + nat \<Rightarrow> nat" where
  "affected r = (case r of Inl _ \<Rightarrow> 0 | Inr n \<Rightarrow> n)"

definition delete_overflow :: "'x core_env_scheme \<Rightarrow> nat \<Rightarrow> ('e, nat) cact" where
  "delete_overflow e totalRows =
     (if featureSnapshotMaxRows < totalRows then
        bindE (tryE (q_select e (\<lambda>d. overflow_ids (totalRows - featureSnapshotKeepRows) (snapshots d)))) (\<lambda>r.
        case r of
          Inl _ \<Rightarrow> returnE 0
        | Inr ids \<Rightarrow>
            if ids = [] then returnE 0
            else bindE (tryE (q_delete e snapshots snapshots_update (\<lambda>r. ID r \<in> set ids))) (\<lambda>n. returnE (affected n)))
      else returnE 0)"

definition get_lastCleanup :: "('e, time) cact" where
  "get_lastCleanup w = (Inr (lastCleanup (db w)), w)"

definition set_lastCleanup :: "time \<Rightarrow> ('e, unit) cact" where
  "set_lastCleanup t w = (Inr (), w\<lparr>db := (db w)\<lparr>lastCleanup := t\<rparr>\<rparr>)"

definition cleanupExpiredFeatureSnapshots :: "'x core_env_scheme \<Rightarrow> ctx \<Rightarrow> ('e, unit) cact" where
  "cleanupExpiredFeatureSnapshots e hdr =
     bindE (time_now e) (\<lambda>now.
     bindE get_lastCleanup (\<lambda>last_run.
     if Sub now last_run < featureSnapshotCleanupInterval then returnE ()
     else
       bindE (set_lastCleanup now) (\<lambda>_.
       bindE (tryE (q_delete e snapshots snapshots_update (expired_before (now - featureSnapshotRetention)))) (\<lambda>expiredResult.
       bindE (tryE (q_select e (\<lambda>d. length (filter user_snapshot (rows (snapshots d)))))) (\<lambda>counted.
       case counted of
         Inl _ \<Rightarrow> returnE ()
       | Inr totalRows \<Rightarrow>
           bindE (delete_overflow e totalRows) (\<lambda>deletedOverflow.
           if 0 < affected expiredResult \<or> 0 < deletedOverflow
           then recordCoreOperation e hdr ''snapshot.cleanup'' ''feature_snapshot'' 0
             [(''retentionDays'', CInt 30), (''maxRows'', CInt (int featureSnapshotMaxRows)),
              (''keepRows'', CInt (int featureSnapshotKeepRows)),
              (''deletedExpired'', CInt (int (affected expiredResult))),
              (''deletedOverflow'', CInt (int deletedOverflow))]
           else returnE ()))))))"

section \<open>Reading and saving\<close>

record FeatureSnapshotResponse =
  fr_UserID :: int
  fr_Kind :: string
  fr_SourceHash :: string
  fr_Payload :: string
  fr_Exists :: bool
  fr_Stale :: bool
  fr_GeneratedAt :: int

definition normalizeSnapshotKind :: "string \<Rightarrow> kerr + string" where
  "normalizeSnapshotKind k =
     (let kind = TrimSpace k in
      if kind = ''weekly_report'' \<or> kind = ''achievement'' then Inr kind
      else Inl (BadRequest ''argument'' ''unsupported kind of snapshot''))"

definition snapshot_of :: "int \<Rightarrow> string \<Rightarrow> FeatureSnapshot \<Rightarrow> bool" where
  "snapshot_of userId kind r \<longleftrightarrow> fs_UserID r = userId \<and> fs_Kind r = kind"

definition may_operate :: "'x jwt_env_scheme \<Rightarrow> ctx \<Rightarrow> int \<Rightarrow> bool" where
  "may_operate e hdr userId = (case GetCurrentUser e hdr of
     None \<Rightarrow> False | Some cur \<Rightarrow> canOperateUserDetail (int64_of (UserID cur)) (RoleID cur) userId)"

definition GetFeatureSnapshot ::
    "'x stat_env_scheme \<Rightarrow> ctx \<Rightarrow> int \<Rightarrow> string \<Rightarrow> string \<Rightarrow> (kerr, FeatureSnapshotResponse) cact" where
  "GetFeatureSnapshot e hdr userId kind sourceHash =
     bindE (cleanupExpiredFeatureSnapshots e hdr) (\<lambda>_.
     if userId \<le> 0 then failE (BadRequest ''argument'' ''userId required'')
     else case normalizeSnapshotKind kind of
       Inl er \<Rightarrow> failE er
     | Inr normalizedKind \<Rightarrow>
         if \<not> may_operate e hdr userId then failE (Forbidden ''permission'' ''not allowed to view the snapshot'')
         else bindE (tryE (q_first e snapshots (snapshot_of userId normalizedKind))) (\<lambda>r.
           case r of
             Inl ErrRecordNotFound \<Rightarrow>
               returnE \<lparr>fr_UserID = userId, fr_Kind = normalizedKind, fr_SourceHash = '''', fr_Payload = ''{}'',
                         fr_Exists = False, fr_Stale = True, fr_GeneratedAt = 0\<rparr>
           | Inl er \<Rightarrow> failE (unknown er)
           | Inr snapshot \<Rightarrow>
               returnE \<lparr>fr_UserID = userId, fr_Kind = normalizedKind, fr_SourceHash = fs_SourceHash snapshot,
                         fr_Payload = (if json_Valid e (fs_Payload snapshot) then fs_Payload snapshot else ''{}''),
                         fr_Exists = True, fr_Stale = (sourceHash \<noteq> '''' \<and> fs_SourceHash snapshot \<noteq> sourceHash),
                         fr_GeneratedAt = Unix (fs_GeneratedAt snapshot)\<rparr>))"

text \<open>
  \<^verbatim>\<open>Where(...).Assign(...).FirstOrCreate\<close>: a missing row is created with the assigned values, a found one
  updated with those that are not zero values, so an empty hash keeps the stored one. The column of
  the payload has type \<^verbatim>\<open>jsonb\<close>: Postgres keeps its own form of the text.
\<close>

definition create_snapshot ::
    "'x stat_env_scheme \<Rightarrow> int \<Rightarrow> string \<Rightarrow> string \<Rightarrow> string \<Rightarrow> time \<Rightarrow> (gerr, unit) cact" where
  "create_snapshot e userId kind hash payload generated =
     stmt e (\<lambda>now d. case jsonb e payload of
       None \<Rightarrow> (Inl DbError, d)
     | Some js \<Rightarrow> (Inr (), snapshots_update (\<lambda>t. insert_row
         \<lparr>ID = seq t, fs_UserID = userId, fs_Kind = kind, fs_SourceHash = hash, fs_Payload = js,
          fs_GeneratedAt = generated, fs_CreatedAt = now, fs_UpdatedAt = now\<rparr> t) d))"

definition update_snapshot ::
    "'x stat_env_scheme \<Rightarrow> nat \<Rightarrow> string \<Rightarrow> string \<Rightarrow> time \<Rightarrow> (gerr, unit) cact" where
  "update_snapshot e i hash payload generated =
     stmt e (\<lambda>now d. case jsonb e payload of
       None \<Rightarrow> (Inl DbError, d)
     | Some js \<Rightarrow> (Inr (), snapshots_update (update_where (\<lambda>r. ID r = i) (\<lambda>r.
         r\<lparr>fs_SourceHash := (if hash \<noteq> '''' then hash else fs_SourceHash r), fs_Payload := js,
           fs_GeneratedAt := generated, fs_UpdatedAt := now\<rparr>)) d))"

definition assign_snapshot ::
    "'x stat_env_scheme \<Rightarrow> int \<Rightarrow> string \<Rightarrow> string \<Rightarrow> string \<Rightarrow> time \<Rightarrow> (gerr, unit) cact" where
  "assign_snapshot e userId kind hash payload generated =
     bindE (q_select e (\<lambda>d. first_where (snapshot_of userId kind) (snapshots d))) (\<lambda>found.
     case found of
       None \<Rightarrow> create_snapshot e userId kind hash payload generated
     | Some r \<Rightarrow> update_snapshot e (ID r) hash payload generated)"

definition SaveFeatureSnapshot ::
    "'x stat_env_scheme \<Rightarrow> ctx \<Rightarrow> int \<Rightarrow> string \<Rightarrow> string \<Rightarrow> string \<Rightarrow> (kerr, FeatureSnapshotResponse) cact" where
  "SaveFeatureSnapshot e hdr userId kind sourceHash req_payload =
     bindE (cleanupExpiredFeatureSnapshots e hdr) (\<lambda>_.
     if userId \<le> 0 then failE (BadRequest ''argument'' ''userId required'')
     else case normalizeSnapshotKind kind of
       Inl er \<Rightarrow> failE er
     | Inr normalizedKind \<Rightarrow>
         if \<not> may_operate e hdr userId then failE (Forbidden ''permission'' ''not allowed to save the snapshot'')
         else let trimmed = TrimSpace req_payload;
                  payload = (if trimmed = '''' \<or> trimmed = ''null'' then ''{}'' else trimmed)
           in if \<not> json_Valid e payload then failE (BadRequest ''argument'' ''payload must be JSON'')
              else bindE (time_now e) (\<lambda>now.
                   bindE (withErr (\<lambda>er. unknown er)
                     (assign_snapshot e userId normalizedKind (TrimSpace sourceHash) payload now)) (\<lambda>_.
                   bindE (recordCoreOperation e hdr ''snapshot.save'' ''user'' userId
                     [(''kind'', CStr normalizedKind), (''sourceHash'', CStr sourceHash)]) (\<lambda>_.
                   returnE \<lparr>fr_UserID = userId, fr_Kind = normalizedKind, fr_SourceHash = sourceHash, fr_Payload = payload,
                             fr_Exists = True, fr_Stale = False, fr_GeneratedAt = Unix now\<rparr>))))"

section \<open>Order statistics\<close>

text \<open>Over any ordered field; Go computes with \<^verbatim>\<open>float64\<close>, which is exact for the counts passed.\<close>

definition achievementPercentile :: "'a :: linordered_field list \<Rightarrow> 'a \<Rightarrow> 'a" where
  "achievementPercentile vals v =
     (if vals = [] then 0 else of_nat (length (filter (\<lambda>item. item < v) vals)) / of_nat (length vals) * 100)"

text \<open>The loop that moves larger items up; \<open>k\<close> is \<^verbatim>\<open>j + 1\<close>.\<close>

fun shift_up :: "'a :: linorder list \<Rightarrow> nat \<Rightarrow> 'a \<Rightarrow> 'a list" where
  "shift_up items 0 current = items[0 := current]"
| "shift_up items (Suc k) current =
     (if current < items ! k then shift_up (items[Suc k := items ! k]) k current else items[Suc k := current])"

definition insertion_sort :: "'a :: linorder list \<Rightarrow> 'a list" where
  "insertion_sort vals = foldl (\<lambda>items i. shift_up items i (items ! i)) vals [1..<length vals]"

definition achievementMedian :: "'a :: linordered_field list \<Rightarrow> 'a" where
  "achievementMedian vals =
     (if vals = [] then 0
      else let items = insertion_sort vals; middle = length items div 2
        in if length items mod 2 = 1 then items ! middle else (items ! (middle - 1) + items ! middle) / 2)"

end
