(* ===== verification/Bulletin.thy ===== *)
theory Bulletin
  imports CoreModel
begin

text \<open>
  Bulletins: \<^verbatim>\<open>internal/service/bulletin.go\<close> over \<^verbatim>\<open>internal/data/dal/bulletin.go\<close>. Refusals are answers
  with a code, not errors.
\<close>

section \<open>Data access\<close>

definition bulletin_GetById :: "'x core_env_scheme \<Rightarrow> int \<Rightarrow> (gerr, Bulletin) cact" where
  "bulletin_GetById e i = q_first e bulletins (\<lambda>b. int (ID b) = i)"

definition bulletin_Create :: "'x core_env_scheme \<Rightarrow> (nat \<Rightarrow> time \<Rightarrow> Bulletin) \<Rightarrow> (gerr, Bulletin) cact" where
  "bulletin_Create e mk = q_create e bulletins bulletins_update mk"

text \<open>GORM also sets \<^verbatim>\<open>updated_at\<close>.\<close>

definition bulletin_Update :: "'x core_env_scheme \<Rightarrow> int \<Rightarrow> (Bulletin \<Rightarrow> Bulletin) \<Rightarrow> (gerr, nat) cact" where
  "bulletin_Update e i f =
     q_update e bulletins bulletins_update (\<lambda>b. int (ID b) = i) (\<lambda>now b. (f b)\<lparr>bu_UpdatedAt := now\<rparr>)"

definition bulletin_Delete :: "'x core_env_scheme \<Rightarrow> int \<Rightarrow> (gerr, nat) cact" where
  "bulletin_Delete e i = q_delete e bulletins bulletins_update (\<lambda>b. int (ID b) = i)"

text \<open>Pinned ones first, then the newest.\<close>

definition listed :: "Bulletin list \<Rightarrow> Bulletin list" where
  "listed bs = sort_key (\<lambda>b. if bu_IsPinned b then 0 else 1 :: nat) (sort_key (\<lambda>b. - bu_CreatedAt b) bs)"

definition bulletin_List :: "'x core_env_scheme \<Rightarrow> int \<Rightarrow> int \<Rightarrow> (gerr, Bulletin list \<times> int) cact" where
  "bulletin_List e page pageSize =
     bindE (q_select e (\<lambda>d. int (length (rows (bulletins d))))) (\<lambda>count.
     bindE (q_select e (\<lambda>d. page_of pageSize (i64 (i64 (page - 1) * pageSize)) (listed (rows (bulletins d))))) (\<lambda>found.
     returnE (found, count)))"

section \<open>Service\<close>

record BulletinInfo =
  bi_Id :: int
  bi_Title :: string
  bi_Content :: string
  bi_AuthorId :: int
  bi_AuthorName :: string
  bi_IsPinned :: bool
  bi_CreatedAt :: int
  bi_UpdatedAt :: int

definition modelToProto :: "Bulletin \<Rightarrow> BulletinInfo" where
  "modelToProto m =
     \<lparr>bi_Id = int64_of (ID m), bi_Title = bu_Title m, bi_Content = bu_Content m, bi_AuthorId = bu_AuthorID m,
      bi_AuthorName = bu_AuthorName m, bi_IsPinned = bu_IsPinned m, bi_CreatedAt = Unix (bu_CreatedAt m),
      bi_UpdatedAt = Unix (bu_UpdatedAt m)\<rparr>"

text \<open>An answer: its code and the bulletin, if any.\<close>

type_synonym bulletin_res = "int \<times> BulletinInfo option"

definition bulletin_svc_Create ::
    "'x core_env_scheme \<Rightarrow> ctx \<Rightarrow> string \<Rightarrow> string \<Rightarrow> bool \<Rightarrow> (kerr, bulletin_res) cact" where
  "bulletin_svc_Create e hdr title content isPinned =
     (if \<not> VerifyMinRole e hdr RoleCoach then returnE (1, None)
      else if title = '''' then returnE (2, None)
      else if content = '''' then returnE (3, None)
      else case GetCurrentUser e hdr of
        None \<Rightarrow> returnE (1, None)
      | Some user \<Rightarrow>
          bindE (withErr (\<lambda>er. InternalServer ''create failed'' (err_text er))
            (bulletin_Create e (\<lambda>i now. \<lparr>ID = i, bu_Title = title, bu_Content = content,
               bu_AuthorID = int64_of (UserID user), bu_AuthorName = jwt_Name user, bu_IsPinned = isPinned,
               bu_CreatedAt = now, bu_UpdatedAt = now\<rparr>))) (\<lambda>m.
          returnE (0, Some (modelToProto m))))"

text \<open>\<^verbatim>\<open>is_pinned\<close> is always written, so the check for an empty set of fields never applies.\<close>

definition bulletin_updates :: "string \<Rightarrow> string \<Rightarrow> bool \<Rightarrow> Bulletin \<Rightarrow> Bulletin" where
  "bulletin_updates title content isPinned b =
     b\<lparr>bu_Title := (if title \<noteq> '''' then title else bu_Title b),
       bu_Content := (if content \<noteq> '''' then content else bu_Content b), bu_IsPinned := isPinned\<rparr>"

abbreviation "query_failed er \<equiv> InternalServer ''query failed'' (err_text er)"

definition bulletin_svc_Update ::
    "'x core_env_scheme \<Rightarrow> ctx \<Rightarrow> int \<Rightarrow> string \<Rightarrow> string \<Rightarrow> bool \<Rightarrow> (kerr, bulletin_res) cact" where
  "bulletin_svc_Update e hdr i title content isPinned =
     (if \<not> VerifyMinRole e hdr RoleCoach then returnE (1, None)
      else bindE (tryE (bulletin_GetById e i)) (\<lambda>r.
        case r of
          Inl ErrRecordNotFound \<Rightarrow> returnE (2, None)
        | Inl er \<Rightarrow> failE (query_failed er)
        | Inr _ \<Rightarrow>
            bindE (withErr (\<lambda>er. InternalServer ''update failed'' (err_text er))
              (bulletin_Update e i (bulletin_updates title content isPinned))) (\<lambda>_.
            bindE (withErr (\<lambda>er. query_failed er) (bulletin_GetById e i)) (\<lambda>updated.
            returnE (0, Some (modelToProto updated))))))"

definition bulletin_svc_Delete :: "'x core_env_scheme \<Rightarrow> ctx \<Rightarrow> int \<Rightarrow> (kerr, bulletin_res) cact" where
  "bulletin_svc_Delete e hdr i =
     (if \<not> VerifyMinRole e hdr RoleCoach then returnE (1, None)
      else bindE (tryE (bulletin_GetById e i)) (\<lambda>r.
        case r of
          Inl ErrRecordNotFound \<Rightarrow> returnE (2, None)
        | Inl er \<Rightarrow> failE (query_failed er)
        | Inr _ \<Rightarrow>
            bindE (withErr (\<lambda>er. InternalServer ''delete failed'' (err_text er)) (bulletin_Delete e i)) (\<lambda>_.
            returnE (0, None))))"

definition bulletin_svc_Get :: "'x core_env_scheme \<Rightarrow> int \<Rightarrow> (kerr, bulletin_res) cact" where
  "bulletin_svc_Get e i =
     bindE (tryE (bulletin_GetById e i)) (\<lambda>r.
     case r of
       Inl ErrRecordNotFound \<Rightarrow> returnE (2, None)
     | Inl er \<Rightarrow> failE (query_failed er)
     | Inr m \<Rightarrow> returnE (0, Some (modelToProto m)))"

definition bulletin_page :: "int \<Rightarrow> int" where
  "bulletin_page page = (if page < 1 then 1 else page)"

definition bulletin_page_size :: "int \<Rightarrow> int" where
  "bulletin_page_size pageSize = (let s = (if pageSize < 1 then 10 else pageSize) in if 50 < s then 50 else s)"

definition bulletin_svc_List :: "'x core_env_scheme \<Rightarrow> int \<Rightarrow> int \<Rightarrow> (kerr, BulletinInfo list \<times> int \<times> int \<times> int) cact" where
  "bulletin_svc_List e req_page req_pageSize =
     (let page = bulletin_page req_page; pageSize = bulletin_page_size req_pageSize in
      bindE (withErr (\<lambda>er. query_failed er) (bulletin_List e page pageSize)) (\<lambda>(found, count).
      returnE (map modelToProto found, count, page, pageSize)))"

end
