(* ===== verification/SnapshotFacts.thy ===== *)
theory SnapshotFacts
  imports Snapshot Bulletin CoreSystem "HOL-Library.Multiset"
begin

text \<open>
  Facts about snapshots, bulletins and the order statistics: the insertion loop sorts, the median
  splits its values, the clean-up keeps what it should, and every operation keeps the keys of the
  tables.
\<close>

section \<open>The insertion loop sorts\<close>

lemma shift_up_inserts:
  "sorted xs \<Longrightarrow> \<exists>ys. shift_up (xs @ y # zs) (length xs) c = ys @ zs \<and> sorted ys \<and> mset ys = add_mset c (mset xs)"
proof (induction xs arbitrary: y zs rule: rev_induct)
  case Nil
  have "shift_up ([] @ y # zs) (length ([] :: 'a list)) c = [c] @ zs" by simp
  then show ?case by (intro exI [of _ "[c]"]) simp
next
  case (snoc a xs)
  have s: "sorted xs" and a: "\<forall>x \<in> set xs. x \<le> a" using snoc.prems by (auto simp: sorted_append)
  show ?case
  proof (cases "c < a")
    case True
    from snoc.IH [OF s, of a "a # zs"] obtain ys where
      y: "shift_up (xs @ a # a # zs) (length xs) c = ys @ a # zs" "sorted ys" "mset ys = add_mset c (mset xs)" by auto
    have "set ys = insert c (set xs)" using arg_cong [OF y(3), of set_mset] by simp
    with y True a have "sorted (ys @ [a])" by (auto simp: sorted_append)
    with y True show ?thesis
      by (intro exI [of _ "ys @ [a]"]) (simp add: nth_append list_update_append)
  next
    case False
    with s a have "sorted (xs @ [a, c])" by (auto simp: sorted_append)
    with False show ?thesis
      by (intro exI [of _ "xs @ [a, c]"]) (simp add: nth_append list_update_append)
  qed
qed

lemma insertion_prefix:
  "1 \<le> m \<Longrightarrow> m \<le> length vals \<Longrightarrow>
    \<exists>ys. foldl (\<lambda>items i. shift_up items i (items ! i)) vals [1..<m] = ys @ drop m vals \<and>
      sorted ys \<and> mset ys = mset (take m vals)"
proof (induction m rule: nat_induct_at_least)
  case base
  then obtain v vs where "vals = v # vs" by (cases vals) auto
  then show ?case by (intro exI [of _ "[v]"]) simp
next
  case (Suc m)
  then obtain ys where f: "foldl (\<lambda>items i. shift_up items i (items ! i)) vals [1..<m] = ys @ drop m vals"
    and ys: "sorted ys" "mset ys = mset (take m vals)" by auto
  have len: "length ys = m" using arg_cong [OF ys(2), of size] Suc by simp
  have d: "drop m vals = vals ! m # drop (Suc m) vals" using Suc by (simp add: Cons_nth_drop_Suc)
  have "foldl (\<lambda>items i. shift_up items i (items ! i)) vals [1..<Suc m] =
      shift_up (ys @ vals ! m # drop (Suc m) vals) (length ys) (vals ! m)"
    using Suc.hyps f d len by (simp add: nth_append)
  moreover obtain zs where "shift_up (ys @ vals ! m # drop (Suc m) vals) (length ys) (vals ! m) = zs @ drop (Suc m) vals"
    "sorted zs" "mset zs = add_mset (vals ! m) (mset ys)"
    using shift_up_inserts [OF ys(1)] by blast
  moreover have "mset (take (Suc m) vals) = add_mset (vals ! m) (mset (take m vals))"
    using Suc by (simp add: take_Suc_conv_app_nth)
  ultimately show ?case using ys(2) by auto
qed

lemma insertion_sort_eq: "insertion_sort vals = sort vals"
proof (cases "vals = []")
  case False
  then obtain ys where "insertion_sort vals = ys" "sorted ys" "mset ys = mset vals"
    using insertion_prefix [of "length vals" vals] by (auto simp: insertion_sort_def Suc_le_eq)
  then show ?thesis using properties_for_sort [of ys vals] by simp
qed (simp add: insertion_sort_def)

section \<open>The median splits its values\<close>

lemma length_filter_sort: "length (filter P (sort_key k xs)) = length (filter P xs)"
  by (metis mset_filter mset_sort size_mset)

lemma median_middle:
  fixes vals :: "'a :: linordered_field list"
  assumes "vals \<noteq> []"
  defines "s \<equiv> sort vals" and "k \<equiv> length vals div 2"
  shows "k \<le> i \<Longrightarrow> i < length s \<Longrightarrow> achievementMedian vals \<le> s ! i"
    and "i < length s - k \<Longrightarrow> s ! i \<le> achievementMedian vals"
proof -
  have len: "length s = length vals" by (simp add: s_def)
  have le: "s ! i \<le> s ! j" if "i \<le> j" "j < length s" for i j
    using that by (intro sorted_nth_mono) (simp_all add: s_def)
  have m: "achievementMedian vals = (if length vals mod 2 = 1 then s ! k else (s ! (k - 1) + s ! k) / 2)"
    using assms(1) by (simp add: achievementMedian_def insertion_sort_eq s_def k_def Let_def)
  have pos: "0 < length vals" using assms(1) by simp
  then have k: "k < length s" by (simp add: len k_def)
  have "s ! (k - 1) \<le> s ! k" using k by (intro le) auto
  then have "(s ! (k - 1) + s ! k) / 2 \<le> s ! k" "s ! (k - 1) \<le> (s ! (k - 1) + s ! k) / 2" by (simp_all add: field_simps)
  then have up: "achievementMedian vals \<le> s ! k" and low: "s ! (k - (1 - length vals mod 2)) \<le> achievementMedian vals"
    using parity_cases [of "length vals"] by (auto simp: m)
  show "k \<le> i \<Longrightarrow> i < length s \<Longrightarrow> achievementMedian vals \<le> s ! i"
    using up le [of k i] by simp
  assume i: "i < length s - k"
  have "length vals - k \<le> Suc (k - (1 - length vals mod 2))"
    using pos unfolding k_def by presburger
  then have "s ! i \<le> s ! (k - (1 - length vals mod 2))" using i k by (intro le) (auto simp: len)
  with low show "s ! i \<le> achievementMedian vals" by simp
qed

lemma median_splits_values:
  fixes vals :: "'a :: linordered_field list"
  assumes "vals \<noteq> []"
  shows "2 * length (filter (\<lambda>x. x < achievementMedian vals) vals) \<le> length vals"
    and "2 * length (filter (\<lambda>x. achievementMedian vals < x) vals) \<le> length vals"
proof -
  let ?s = "sort vals" and ?k = "length vals div 2" and ?m = "achievementMedian vals"
  have "{i. i < length ?s \<and> ?s ! i < ?m} \<subseteq> {..<?k}"
    using median_middle(1) [OF assms] by (auto simp: not_le [symmetric])
  then have "length (filter (\<lambda>x. x < ?m) ?s) \<le> ?k"
    unfolding length_filter_conv_card using card_mono [of "{..<?k}"] by fastforce
  then show "2 * length (filter (\<lambda>x. x < ?m) vals) \<le> length vals"
    unfolding length_filter_sort by simp
  have "{i. i < length ?s \<and> ?m < ?s ! i} \<subseteq> {length ?s - ?k..<length ?s}"
    using median_middle(2) [OF assms] by (auto simp: not_less [symmetric])
  then have "length (filter (\<lambda>x. ?m < x) ?s) \<le> length ?s - (length ?s - ?k)"
    unfolding length_filter_conv_card using card_mono [of "{length ?s - ?k..<length ?s}"] by fastforce
  then show "2 * length (filter (\<lambda>x. ?m < x) vals) \<le> length vals"
    unfolding length_filter_sort by simp
qed

section \<open>The clean-up\<close>

definition prune :: "time \<Rightarrow> FeatureSnapshot table \<Rightarrow> FeatureSnapshot table" where
  "prune cutoff t =
     (let u = delete_where (expired_before cutoff) t; n = length (filter user_snapshot (rows u))
      in if featureSnapshotMaxRows < n
         then delete_where (\<lambda>r. ID r \<in> set (overflow_ids (n - featureSnapshotKeepRows) u)) u else u)"

lemma record_frame:
  obtains w' where "recordCoreOperation e hdr a t i dt w = (Inr (), w')"
    "db w' = (db w)\<lparr>core_oplogs := core_oplogs (db w')\<rparr>" "rdb w' = rdb w"
proof -
  let ?r = "recordCoreOperation e hdr a t i dt w"
  have "fst ?r = Inr ()" "db (snd ?r) = (db w)\<lparr>core_oplogs := core_oplogs (db (snd ?r))\<rparr>" "rdb (snd ?r) = rdb w"
    by (simp_all add: recordCoreOperation_def Let_def bindE_def tryE_def q_create_def stmt_def returnE_def)
  then show thesis by (intro that [of "snd ?r"]) (simp_all add: prod_eq_iff)
qed

lemma cleanup_skipped:
  "Sub (clock e (ticks w)) (lastCleanup (db w)) < featureSnapshotCleanupInterval \<Longrightarrow>
    cleanupExpiredFeatureSnapshots e hdr w = (Inr (), tick w)"
  by (simp add: cleanupExpiredFeatureSnapshots_def bindE_def time_now_def get_lastCleanup_def returnE_def)

lemma delete_overflow_reliable:
  assumes "reliable e" and n: "n = length (filter user_snapshot (rows (snapshots (db w))))"
  obtains w' k where "delete_overflow e n w = (Inr k, w')" "lastCleanup (db w') = lastCleanup (db w)"
    "snapshots (db w') =
       (if featureSnapshotMaxRows < n then delete_where (\<lambda>r. ID r \<in> set (overflow_ids (n - featureSnapshotKeepRows) (snapshots (db w)))) (snapshots (db w))
        else snapshots (db w))"
proof (cases "featureSnapshotMaxRows < n")
  case True
  then have "0 < length (overflow_ids (n - featureSnapshotKeepRows) (snapshots (db w)))"
    by (simp add: overflow_ids_def featureSnapshotMaxRows_def featureSnapshotKeepRows_def flip: n)
  then have "overflow_ids (n - featureSnapshotKeepRows) (snapshots (db w)) \<noteq> []" by auto
  with True show thesis
    by (intro that [of _ "snd (delete_overflow e n w :: (_ + _) \<times> _)"])
      (simp_all add: delete_overflow_def bindE_def tryE_def returnE_def reliable_evals [OF assms(1)])
next
  case False
  then show thesis by (intro that) (simp_all add: delete_overflow_def returnE_def)
qed

lemma cleanup_due:
  assumes "reliable e" and due: "featureSnapshotCleanupInterval \<le> Sub (clock e (ticks w)) (lastCleanup (db w))"
  obtains w' where "cleanupExpiredFeatureSnapshots e hdr w = (Inr () :: 'b + unit, w')"
    "snapshots (db w') = prune (clock e (ticks w) - featureSnapshotRetention) (snapshots (db w))"
    "lastCleanup (db w') = clock e (ticks w)"
proof -
  define now where "now = clock e (ticks w)"
  define P where "P = expired_before (now - featureSnapshotRetention)"
  define wa where "wa = (tick w)\<lparr>db := (db (tick w))\<lparr>lastCleanup := now\<rparr>\<rparr>"
  define wb where "wb = tick ((tick wa)\<lparr>db := snapshots_update (delete_where P) (db wa)\<rparr>)"
  define n where "n = length (filter user_snapshot (rows (snapshots (db wb))))"
  obtain w2 k where o: "delete_overflow e n wb = (Inr k :: 'b + nat, w2)" and l: "lastCleanup (db w2) = lastCleanup (db wb)"
    and d: "snapshots (db w2) = (if featureSnapshotMaxRows < n
      then delete_where (\<lambda>r. ID r \<in> set (overflow_ids (n - featureSnapshotKeepRows) (snapshots (db wb)))) (snapshots (db wb))
      else snapshots (db wb))"
    by (rule delete_overflow_reliable [OF assms(1) n_def])
  have sb: "snapshots (db wb) = delete_where P (snapshots (db w))" by (simp add: wb_def wa_def)
  have d2: "snapshots (db w2) = prune (now - featureSnapshotRetention) (snapshots (db w))" "lastCleanup (db w2) = now"
    using l by (simp_all add: d sb prune_def Let_def n_def P_def) (simp add: wb_def wa_def)
  let ?detail = "[(''retentionDays'', CInt 30), (''maxRows'', CInt (int featureSnapshotMaxRows)),
      (''keepRows'', CInt (int featureSnapshotKeepRows)),
      (''deletedExpired'', CInt (int (length (filter P (rows (snapshots (db wa))))))), (''deletedOverflow'', CInt (int k))]"
  have s: "time_now e w = (Inr now :: 'b + time, tick w)"
    "get_lastCleanup (tick w) = (Inr (lastCleanup (db w)) :: 'b + time, tick w)"
    "set_lastCleanup now (tick w) = (Inr () :: 'b + unit, wa)"
    "tryE (q_delete e snapshots snapshots_update P) wa =
       (Inr (Inr (length (filter P (rows (snapshots (db wa)))))) :: 'b + _, (tick wa)\<lparr>db := snapshots_update (delete_where P) (db wa)\<rparr>)"
    "tryE (q_select e (\<lambda>d. length (filter user_snapshot (rows (snapshots d)))))
       ((tick wa)\<lparr>db := snapshots_update (delete_where P) (db wa)\<rparr>) = (Inr (Inr n) :: 'b + _, wb)"
    by (simp_all add: time_now_def now_def get_lastCleanup_def set_lastCleanup_def tryE_def reliable_evals [OF assms(1)]
        wa_def wb_def n_def)
  have "\<not> Sub now (lastCleanup (db w)) < featureSnapshotCleanupInterval" using due by (simp add: now_def)
  then have eq: "cleanupExpiredFeatureSnapshots e hdr w =
      (if 0 < length (filter P (rows (snapshots (db wa)))) \<or> 0 < k
       then recordCoreOperation e hdr ''snapshot.cleanup'' ''feature_snapshot'' 0 ?detail w2 else (Inr () :: 'b + unit, w2))"
    unfolding cleanupExpiredFeatureSnapshots_def
    by (simp only: bindE_def s o prod.case sum.case if_False P_def [symmetric] affected_def)
      (simp add: returnE_apply)
  obtain w3 where r: "recordCoreOperation e hdr ''snapshot.cleanup'' ''feature_snapshot'' 0 ?detail w2 = (Inr () :: 'b + unit, w3)"
    and f: "db w3 = (db w2)\<lparr>core_oplogs := core_oplogs (db w3)\<rparr>" by (rule record_frame)
  have "snapshots (db w3) = snapshots (db w2)" "lastCleanup (db w3) = lastCleanup (db w2)"
    by (subst f, simp)+
  with eq r d2 show thesis
    by (cases "0 < length (filter P (rows (snapshots (db wa)))) \<or> 0 < k")
      (auto intro!: that simp: now_def)
qed

text \<open>What pruning leaves, on a table with unique ids.\<close>

lemma unexpired_rows: "filter user_snapshot (rows (delete_where (expired_before c) t)) =
    filter (\<lambda>r. user_snapshot r \<and> c \<le> fs_GeneratedAt r) (rows t)"
  by (auto simp: row_simps expired_before_def intro: filter_cong)

lemma prune_keeps_others: "r \<in> set (rows t) \<Longrightarrow> \<not> user_snapshot r \<Longrightarrow> wf_table t \<Longrightarrow> r \<in> set (rows (prune c t))"
  by (auto simp: prune_def Let_def row_simps expired_before_def overflow_ids_def dest!: in_set_takeD
      dest: wf_table_id_inj [of t])

lemma prune_subset: "r \<in> set (rows (prune c t)) \<Longrightarrow> r \<in> set (rows t)"
  by (auto simp: prune_def Let_def row_simps split: if_splits)

lemma prune_unexpired: "r \<in> set (rows (prune c t)) \<Longrightarrow> user_snapshot r \<Longrightarrow> c \<le> fs_GeneratedAt r"
  by (auto simp: prune_def Let_def row_simps expired_before_def split: if_splits)

lemma wf_prune: "wf_table t \<Longrightarrow> wf_table (prune c t)"
  by (auto simp: prune_def Let_def)

lemma not_in_prefix: "distinct (map k s) \<Longrightarrow> filter (\<lambda>r. k r \<notin> set (map k (take m s))) s = drop m s"
proof -
  assume d: "distinct (map k s)"
  have "distinct (map k (take m s) @ map k (drop m s))" using d by (simp flip: map_append)
  then have "filter (\<lambda>r. k r \<notin> set (map k (take m s))) (drop m s) = drop m s"
    by (auto simp: filter_id_conv)
  moreover have "filter (\<lambda>r. k r \<notin> set (map k (take m s))) (take m s) = []" by (auto simp: filter_empty_conv)
  ultimately show ?thesis
    using filter_append [of "\<lambda>r. k r \<notin> set (map k (take m s))" "take m s" "drop m s"] by simp
qed

lemma prune_user_rows:
  fixes c :: time
  assumes "wf_table t"
  defines "L \<equiv> filter (\<lambda>r. user_snapshot r \<and> c \<le> fs_GeneratedAt r) (rows t)"
  shows "mset (filter user_snapshot (rows (prune c t))) =
    mset (drop (if featureSnapshotMaxRows < length L then length L - featureSnapshotKeepRows else 0) (sort_key fs_GeneratedAt L))"
proof -
  let ?u = "delete_where (expired_before c) t" and ?s = "sort_key fs_GeneratedAt L"
  have L: "filter user_snapshot (rows ?u) = L" unfolding L_def by (rule unexpired_rows)
  show ?thesis
  proof (cases "featureSnapshotMaxRows < length L")
    case True
    let ?m = "length L - featureSnapshotKeepRows"
    have "distinct (map ID L)" using assms(1) by (auto simp: L_def wf_table_def distinct_map intro: inj_on_subset)
    then have "distinct (map ID ?s)" by (simp add: distinct_map)
    then have "mset (filter (\<lambda>r. ID r \<notin> set (map ID (take ?m ?s))) L) = mset (drop ?m ?s)"
      using not_in_prefix [of ID ?s ?m] by (metis mset_filter mset_sort)
    moreover have "filter user_snapshot (rows (prune c t)) = filter (\<lambda>r. ID r \<notin> set (map ID (take ?m ?s))) L"
    proof -
      have "prune c t = delete_where (\<lambda>r. ID r \<in> set (map ID (take ?m ?s))) ?u"
        using True unfolding prune_def Let_def L overflow_ids_def by simp
      then have "filter user_snapshot (rows (prune c t)) =
          filter (\<lambda>r. ID r \<notin> set (map ID (take ?m ?s))) (filter user_snapshot (rows ?u))"
        by (simp only: rows_delete_where(1) [of _ ?u] filter_filter) (simp only: conj_commute)
      then show ?thesis unfolding L .
    qed
    ultimately show ?thesis using True by simp
  next
    case False
    with L show ?thesis by (simp add: prune_def Let_def)
  qed
qed

section \<open>Reading what was saved\<close>

lemma first_where_update:
  assumes wf: "wf_table t" and r: "first_where P t = Some r" and f: "ID (f r) = ID r" "P (f r)"
  shows "first_where P (update_where (\<lambda>x. ID x = ID r) f t) = Some (f r)"
proof (cases "first_where P (update_where (\<lambda>x. ID x = ID r) f t)")
  case None
  from r have "r \<in> set (rows t)" by (auto dest: first_where_Some)
  with None f show ?thesis by (auto simp: first_where_None row_simps)
next
  case (Some s)
  have rt: "r \<in> set (rows t)" using r by (auto dest: first_where_Some)
  from Some have s: "s \<in> set (rows (update_where (\<lambda>x. ID x = ID r) f t))" "P s" by (auto dest: first_where_Some)
  have "f r \<in> set (rows (update_where (\<lambda>x. ID x = ID r) f t))" using rt by (force simp: row_simps)
  then have "ID s \<le> ID (f r)" using f(2) by (rule first_where_least [OF Some])
  then have le: "ID s \<le> ID r" using f(1) by simp
  obtain g where g: "g \<in> set (rows t)" "s = (if ID g = ID r then f g else g)"
    using update_where_rowD [OF s(1)] by auto
  show ?thesis
  proof (cases "ID g = ID r")
    case True
    with g rt have "s = f r" using wf_table_id_inj [OF wf] by auto
    with Some show ?thesis by simp
  next
    case False
    with g s first_where_least [OF r] le show ?thesis by force
  qed
qed

lemma first_where_insert:
  "first_where P t = None \<Longrightarrow> P r \<Longrightarrow> first_where P (insert_row r t) = Some r"
proof -
  assume "first_where P t = None" "P r"
  then have "filter P (rows (insert_row r t)) = [r]"
    by (simp add: first_where_None row_simps filter_empty_conv)
  then show ?thesis by (simp add: first_where_def)
qed

lemma assign_snapshot_stores:
  assumes "assign_snapshot e u k hash p g w = (Inr x, w')" and "wf_table (snapshots (db w))"
  obtains r js where "first_where (snapshot_of u k) (snapshots (db w')) = Some r"
    "jsonb e p = Some js" "fs_Payload r = js" "fs_GeneratedAt r = g" "hash \<noteq> '''' \<Longrightarrow> fs_SourceHash r = hash"
    "lastCleanup (db w') = lastCleanup (db w)"
proof (cases "first_where (snapshot_of u k) (snapshots (db w))")
  case None
  let ?r = "\<lambda>js now. \<lparr>ID = seq (snapshots (db w)), fs_UserID = u, fs_Kind = k, fs_SourceHash = hash, fs_Payload = js,
      fs_GeneratedAt = g, fs_CreatedAt = now, fs_UpdatedAt = now\<rparr>"
  have "first_where (snapshot_of u k) (insert_row (?r js now) (snapshots (db w))) = Some (?r js now)" for js now
    by (rule first_where_insert [OF None]) (simp add: snapshot_of_def)
  with None assms(1) show thesis
    by (auto simp: assign_snapshot_def create_snapshot_def stmt_def succ_simps split: if_splits option.splits intro!: that)
next
  case (Some r0)
  then have k: "snapshot_of u k r0" by (auto dest: first_where_Some)
  let ?f = "\<lambda>js now r. r\<lparr>fs_SourceHash := (if hash \<noteq> '''' then hash else fs_SourceHash r), fs_Payload := js,
      fs_GeneratedAt := g, fs_UpdatedAt := now\<rparr>"
  have "first_where (snapshot_of u k) (update_where (\<lambda>x. ID x = ID r0) (?f js now) (snapshots (db w))) = Some (?f js now r0)"
    for js now using k by (intro first_where_update [OF assms(2) Some]) (simp_all add: snapshot_of_def)
  with assms(1) Some show thesis
    by (auto simp: assign_snapshot_def update_snapshot_def stmt_def succ_simps split: if_splits option.splits intro!: that)
qed

section \<open>The invariant of the remaining tables\<close>

definition snapshot_key :: "FeatureSnapshot \<Rightarrow> int \<times> string" where
  "snapshot_key r = (fs_UserID r, fs_Kind r)"

definition side_inv :: "cdb \<Rightarrow> bool" where
  "side_inv d \<longleftrightarrow> wf_table (snapshots d) \<and> wf_table (bulletins d) \<and>
     distinct (map snapshot_key (rows (snapshots d)))"

lemma keeps_record_side [keeps_intros]: "keeps side_inv (recordCoreOperation e hdr a t i dt)"
  unfolding recordCoreOperation_def Let_def by (intro keeps_intros keeps_create) (auto simp: side_inv_def)

lemma distinct_filter_map: "distinct (map k xs) \<Longrightarrow> distinct (map k (filter P xs))"
  by (auto simp: distinct_map intro: inj_on_subset)

lemma side_delete: "keeps side_inv (q_delete e snapshots snapshots_update P)"
  by (rule keeps_delete) (auto simp: side_inv_def row_simps distinct_filter_map)

lemma keeps_cleanup_side [keeps_intros]: "keeps side_inv (cleanupExpiredFeatureSnapshots e hdr)"
proof -
  have g: "keeps side_inv (get_lastCleanup :: ('c, time) cact)" by (auto simp: keeps_def get_lastCleanup_def)
  have s: "keeps side_inv (set_lastCleanup t :: ('c, unit) cact)" for t
    by (auto simp: keeps_def set_lastCleanup_def side_inv_def)
  have d: "keeps side_inv (delete_overflow e n :: ('c, nat) cact)" for n
    unfolding delete_overflow_def by (intro keeps_intros side_delete)
  show ?thesis
    unfolding cleanupExpiredFeatureSnapshots_def by (intro keeps_intros g s d side_delete)
qed

lemma side_assign: "keeps side_inv (assign_snapshot e u k hash p g)"
proof (rule keepsI)
  fix w r w' assume i: "side_inv (db w)" and a: "assign_snapshot e u k hash p g w = (r, w')"
  let ?t = "snapshots (db w)"
  show "side_inv (db w')"
  proof (cases "first_where (snapshot_of u k) ?t")
    case None
    then have new: "(u, k) \<notin> snapshot_key ` set (rows ?t)"
      by (auto simp: first_where_None snapshot_of_def snapshot_key_def)
    with None i a show ?thesis
      by (auto simp: assign_snapshot_def create_snapshot_def q_select_def stmt_def bindE_def side_inv_def row_simps
          snapshot_key_def split: if_splits option.splits intro!: wf_insert_row)
  next
    case (Some r0)
    have "map snapshot_key (rows (update_where Q f ?t)) = map snapshot_key (rows ?t)" if "\<And>r. snapshot_key (f r) = snapshot_key r" for Q f
      using that by (auto simp: row_simps)
    with Some i a show ?thesis
      by (auto simp: assign_snapshot_def update_snapshot_def q_select_def stmt_def bindE_def side_inv_def
          snapshot_key_def split: if_splits option.splits intro!: wf_update_where)
  qed
qed

lemma keeps_save: "keeps side_inv (SaveFeatureSnapshot e hdr u k h p)"
  unfolding SaveFeatureSnapshot_def Let_def by (intro keeps_intros side_assign)

lemma keeps_get: "keeps side_inv (GetFeatureSnapshot e hdr u k h)"
  unfolding GetFeatureSnapshot_def by (auto intro!: keeps_intros split: gerr.splits)

lemma keeps_cache_ops [keeps_intros]:
  "keeps I (rdb_del_count e ks)" "keeps I (unlink_patterns_count e2 ps n)"
proof -
  show "keeps I (rdb_del_count e ks)" by (auto simp: keeps_def rdb_del_count_def)
  have "keeps I (unlink_patterns_count e2 ps n)" for n
  proof (induction ps arbitrary: n)
    case (Cons q ps)
    have u: "keeps I (\<lambda>w. (Inr (unlink_count e2 (ticks w) q), w))" "keeps I (rdb_unlink_pattern e2 q)"
      by (auto simp: keeps_def rdb_unlink_pattern_def)
    show ?case unfolding unlink_patterns_count.simps by (intro keeps_bind u Cons.IH)
  qed (simp add: keeps_return)
  then show "keeps I (unlink_patterns_count e2 ps n)" .
qed

lemma keeps_clear: "keeps side_inv (ClearCache e hdr u)"
  unfolding ClearCache_def Let_def by (intro keeps_intros)

lemma keeps_bulletins:
  "keeps side_inv (bulletin_svc_Create e hdr t c b)" "keeps side_inv (bulletin_svc_Update e hdr i t c b)"
  "keeps side_inv (bulletin_svc_Delete e hdr i)"
proof -
  have c: "keeps side_inv (bulletin_Create e mk)" if "\<And>i now. ID (mk i now) = i" for mk
    unfolding bulletin_Create_def by (rule keeps_create) (auto simp: side_inv_def that)
  have u: "keeps side_inv (bulletin_Update e i f)" if "\<And>b. ID (f b) = ID b" for i f
    unfolding bulletin_Update_def by (rule keeps_update) (auto simp: side_inv_def that)
  have d: "keeps side_inv (bulletin_Delete e i)" for i
    unfolding bulletin_Delete_def by (rule keeps_delete) (auto simp: side_inv_def)
  have g: "keeps side_inv (bulletin_GetById e i)" for i unfolding bulletin_GetById_def by (rule keeps_first)
  show "keeps side_inv (bulletin_svc_Create e hdr t c b)"
    unfolding bulletin_svc_Create_def by (intro keeps_intros c) simp
  show "keeps side_inv (bulletin_svc_Update e hdr i t c b)"
    unfolding bulletin_svc_Update_def by (auto intro!: keeps_intros u g simp: bulletin_updates_def split: gerr.splits)
  show "keeps side_inv (bulletin_svc_Delete e hdr i)"
    unfolding bulletin_svc_Delete_def by (auto intro!: keeps_intros d g split: gerr.splits)
qed

section \<open>Lemmas for saving and cleaning\<close>

lemma save_inversion:
  assumes "SaveFeatureSnapshot e hdr u kind h p w = (Inr saved, w1)" and "TrimSpace h = h"
  obtains k wa wb wc now where "normalizeSnapshotKind kind = Inr k" "0 < u" "may_operate e hdr u"
    "cleanupExpiredFeatureSnapshots e hdr w = (Inr () :: kerr + unit, wa)"
    "assign_snapshot e u k h (fr_Payload saved) now (tick wa) = (Inr (), wb)"
    "recordCoreOperation e hdr ''snapshot.save'' ''user'' u [(''kind'', CStr k), (''sourceHash'', CStr h)] wb = (Inr () :: kerr + unit, w1)"
    "saved = \<lparr>fr_UserID = u, fr_Kind = k, fr_SourceHash = h, fr_Payload = fr_Payload saved,
      fr_Exists = True, fr_Stale = False, fr_GeneratedAt = Unix now\<rparr>"
  using assms by (auto simp: SaveFeatureSnapshot_def Let_def succ_simps withErr_succ split: if_splits sum.splits intro!: that)

lemma record_snapshots: "recordCoreOperation e hdr a t i dt w = (r, w') \<Longrightarrow> snapshots (db w') = snapshots (db w)"
  by (auto simp: recordCoreOperation_def Let_def bindE_def tryE_def q_create_def stmt_def returnE_def split: if_splits)

lemma cleanup_wf: "wf_table (snapshots (db w)) \<Longrightarrow> cleanupExpiredFeatureSnapshots e hdr w = (r, w') \<Longrightarrow> wf_table (snapshots (db w'))"
proof -
  let ?I = "\<lambda>d. wf_table (snapshots d)"
  have d: "keeps ?I (q_delete e snapshots snapshots_update P)" for P by (rule keeps_delete) auto
  have g: "keeps ?I (get_lastCleanup :: ('c, time) cact)" by (auto simp: keeps_def get_lastCleanup_def)
  have s: "keeps ?I (set_lastCleanup t :: ('c, unit) cact)" for t by (auto simp: keeps_def set_lastCleanup_def)
  have o: "keeps ?I (delete_overflow e n :: ('c, nat) cact)" for n
    unfolding delete_overflow_def by (intro keeps_intros d)
  have r: "keeps ?I (recordCoreOperation e hdr a t i dt :: ('c, unit) cact)" for a t i dt
    unfolding recordCoreOperation_def Let_def by (intro keeps_intros keeps_create) simp
  have "keeps ?I (cleanupExpiredFeatureSnapshots e hdr :: ('c, unit) cact)"
    unfolding cleanupExpiredFeatureSnapshots_def by (intro keeps_intros g s d o r)
  then show "wf_table (snapshots (db w)) \<Longrightarrow> cleanupExpiredFeatureSnapshots e hdr w = (r, w') \<Longrightarrow> ?thesis"
    by (rule keepsD)
qed

lemma newest_kept:
  assumes "mset K = mset (drop (if featureSnapshotMaxRows < length L then length L - featureSnapshotKeepRows else 0) (sort_key fs_GeneratedAt L))"
  shows "if length L \<le> 5000 then mset K = mset L
    else length K = 3000 \<and> mset K \<subseteq># mset L \<and> (\<forall>x \<in> set L - set K. \<forall>y \<in> set K. fs_GeneratedAt x \<le> fs_GeneratedAt y)"
proof (cases "length L \<le> 5000")
  case True
  with assms show ?thesis by (simp add: featureSnapshotMaxRows_def)
next
  case False
  let ?s = "sort_key fs_GeneratedAt L" and ?m = "length L - 3000"
  have m: "mset K = mset (drop ?m ?s)"
    using False assms by (simp add: featureSnapshotMaxRows_def featureSnapshotKeepRows_def)
  have "length K = 3000" using False arg_cong [OF m, of size] by simp
  moreover have "mset (take ?m ?s) + mset (drop ?m ?s) = mset L" by (simp flip: mset_append)
  then have "mset K \<subseteq># mset L" unfolding m by (metis mset_subset_eq_add_right)
  moreover have "sorted (map fs_GeneratedAt (take ?m ?s @ drop ?m ?s))" by simp
  then have "\<forall>x \<in> set (take ?m ?s). \<forall>y \<in> set (drop ?m ?s). fs_GeneratedAt x \<le> fs_GeneratedAt y"
    unfolding map_append sorted_append by auto
  moreover have "set K = set (drop ?m ?s)" using arg_cong [OF m, of set_mset] by simp
  moreover have "set L = set (take ?m ?s) \<union> set (drop ?m ?s)" by (simp flip: set_append)
  ultimately show ?thesis using False by auto
qed

end
