(* ===== verification/DataSystem.thy ===== *)
theory DataSystem
  imports SnapshotFacts Bindings
begin

text \<open>
  The core-data service as one system: the crawling and binding operations of \<open>CoreSystem\<close> together
  with snapshots, bulletins and cache control. Every operation keeps the keys of every table, and
  the statistics are recounted after each delivery.
\<close>

section \<open>Operations\<close>

datatype data_op =
    DCore core_op
  | DSaveSnapshot ctx int string string string
  | DGetSnapshot ctx int string string
  | DClearCache ctx int
  | DCreateBulletin ctx string string bool
  | DUpdateBulletin ctx int string string bool
  | DDeleteBulletin ctx int

fun data_step :: "'x stat_env_scheme \<Rightarrow> data_op \<Rightarrow> cdb world \<Rightarrow> cdb world" where
  "data_step e (DCore op) w = core_step e op w"
| "data_step e (DSaveSnapshot hdr u k h p) w = snd (SaveFeatureSnapshot e hdr u k h p w)"
| "data_step e (DGetSnapshot hdr u k h) w = snd (GetFeatureSnapshot e hdr u k h w)"
| "data_step e (DClearCache hdr u) w = snd (ClearCache e hdr u w)"
| "data_step e (DCreateBulletin hdr t c b) w = snd (bulletin_svc_Create e hdr t c b w)"
| "data_step e (DUpdateBulletin hdr i t c b) w = snd (bulletin_svc_Update e hdr i t c b w)"
| "data_step e (DDeleteBulletin hdr i) w = snd (bulletin_svc_Delete e hdr i w)"

definition data_run :: "'x stat_env_scheme \<Rightarrow> data_op list \<Rightarrow> cdb world \<Rightarrow> cdb world" where
  "data_run e ops = fold (data_step e) ops"

text \<open>The token of a write to the bulletins.\<close>

fun bulletin_token :: "data_op \<Rightarrow> ctx option" where
  "bulletin_token (DCreateBulletin hdr _ _ _) = Some hdr"
| "bulletin_token (DUpdateBulletin hdr _ _ _ _) = Some hdr"
| "bulletin_token (DDeleteBulletin hdr _) = Some hdr"
| "bulletin_token _ = None"

section \<open>Frames\<close>

text \<open>What no crawl touches: the pipeline and the bindings keep every predicate that does not depend on
  their tables.\<close>

locale crawl_frame = platform_frame +
  assumes on_platforms: "I (platforms_update n d) = I d"
begin

lemma binding_op_keeps: "keeps I (SetSpider e hdr u p un)"
proof -
  have d: "keeps I (q_delete e statuses statuses_update P)" "keeps I (q_delete e platforms platforms_update Q)"
    "keeps I (q_delete e submits submits_update R)" for P Q R
    by (auto intro!: keeps_delete simp: on_statuses on_platforms on_submits)
  have c: "keeps I (q_create e platforms platforms_update mk)" for mk
    by (rule keeps_create) (simp add: on_platforms)
  have "keeps I (rebind e hdr u p un ds)" for u p un ds
    unfolding rebind_def by (intro keeps_intros d c Do_keeps record_keeps)
  then show ?thesis
    unfolding SetSpider_def bind_platform_def recent_binding_def Let_def
    by (auto intro!: keeps_intros Do_keeps record_keeps split: option.splits task_err.splits)
qed

lemma core_step_keeps: "I (db w) \<Longrightarrow> I (db (core_step e op w))"
proof (cases op)
  case (COpDelivery body)
  have "keeps I (handle_delivery e body :: (kerr, verdict) cact)"
    unfolding handle_delivery_def by (intro keeps_intros LoadData_keeps)
  then show "I (db w) \<Longrightarrow> ?thesis" by (simp add: COpDelivery keeps_snd)
qed (auto intro: keeps_snd handlers_keep binding_op_keeps)

end

text \<open>What no operation on snapshots or caches touches.\<close>

locale snapshot_frame =
  fixes I :: "cdb \<Rightarrow> bool"
  assumes on_snapshots: "I (snapshots_update f d) = I d"
    and on_lastCleanup: "I (d\<lparr>lastCleanup := t\<rparr>) = I d"
    and on_log: "ID r = seq (core_oplogs d) \<Longrightarrow> I d \<Longrightarrow> I (core_oplogs_update (insert_row r) d)"
begin

lemma log_keeps: "keeps I (recordCoreOperation e hdr a tp i dt)"
  unfolding recordCoreOperation_def Let_def by (intro keeps_intros keeps_create) (auto intro: on_log)

lemma cleanup_keeps: "keeps I (cleanupExpiredFeatureSnapshots e hdr)"
proof -
  have g: "keeps I (get_lastCleanup :: ('c, time) cact)" by (auto simp: keeps_def get_lastCleanup_def)
  have s: "keeps I (set_lastCleanup t :: ('c, unit) cact)" for t
    by (auto simp: keeps_def set_lastCleanup_def on_lastCleanup)
  have r: "keeps I (q_delete e snapshots snapshots_update P)" for P
    by (rule keeps_delete) (simp add: on_snapshots)
  have d: "keeps I (delete_overflow e n :: ('c, nat) cact)" for n
    unfolding delete_overflow_def by (intro keeps_intros r)
  show ?thesis
    unfolding cleanupExpiredFeatureSnapshots_def by (intro keeps_intros g s d r log_keeps)
qed

lemma assign_keeps: "keeps I (assign_snapshot e u k hash p g)"
  unfolding assign_snapshot_def create_snapshot_def update_snapshot_def
  by (intro keeps_intros keeps_stmt) (auto simp: on_snapshots split: option.splits)

lemma snapshot_ops_keep:
  "keeps I (SaveFeatureSnapshot e hdr u k h p)" "keeps I (GetFeatureSnapshot e hdr u k h)"
  unfolding SaveFeatureSnapshot_def GetFeatureSnapshot_def Let_def
  by (auto intro!: keeps_intros cleanup_keeps assign_keeps log_keeps split: gerr.splits sum.splits)

lemma ClearCache_keeps: "keeps I (ClearCache e hdr u)"
  unfolding ClearCache_def Let_def by (intro keeps_intros keeps_cache_ops log_keeps)

end

interpretation side: crawl_frame side_inv
  by unfold_locales (simp_all add: side_inv_def)

interpretation board: crawl_frame "\<lambda>d. bulletins d = bs" for bs
  by unfold_locales simp_all

interpretation board_side: snapshot_frame "\<lambda>d. bulletins d = bs" for bs
  by unfold_locales simp_all

lemma core_side_updates:
  "core_inv (snapshots_update f d) = core_inv d" "core_inv (bulletins_update g d) = core_inv d"
  "core_inv (d\<lparr>lastCleanup := t\<rparr>) = core_inv d"
  by (simp_all add: core_inv_def)

interpretation pipeline_side: snapshot_frame core_inv
  by unfold_locales (auto simp: core_inv_def intro: wf_insert_row)

section \<open>The invariant of all tables\<close>

lemma core_bulletins:
  "keeps core_inv (bulletin_svc_Create e hdr t c b)" "keeps core_inv (bulletin_svc_Update e hdr i t c b)"
  "keeps core_inv (bulletin_svc_Delete e hdr i)"
proof -
  have u: "keeps core_inv (bulletin_Create e mk)" "keeps core_inv (bulletin_Update e i f)" "keeps core_inv (bulletin_Delete e i)"
    for mk i f
    unfolding bulletin_Create_def bulletin_Update_def bulletin_Delete_def
    by (auto intro!: keeps_create keeps_update keeps_delete simp: core_side_updates)
  have g: "keeps core_inv (bulletin_GetById e i)" for i unfolding bulletin_GetById_def by (rule keeps_first)
  show "keeps core_inv (bulletin_svc_Create e hdr t c b)" "keeps core_inv (bulletin_svc_Update e hdr i t c b)"
    "keeps core_inv (bulletin_svc_Delete e hdr i)"
    unfolding bulletin_svc_Create_def bulletin_svc_Update_def bulletin_svc_Delete_def
    by (auto intro!: keeps_intros u g split: gerr.splits option.splits)
qed

interpretation data: invariant_system "data_step e" "\<lambda>w. core_inv (db w) \<and> side_inv (db w)" for e
proof
  fix w :: "cdb world" and op assume "core_inv (db w) \<and> side_inv (db w)"
  then show "core_inv (db (data_step e op w)) \<and> side_inv (db (data_step e op w))"
    by (cases op) (auto intro: core.step_inv side.core_step_keeps keeps_snd pipeline_side.snapshot_ops_keep pipeline_side.ClearCache_keeps core_bulletins
        keeps_save keeps_get keeps_clear keeps_bulletins)
qed

section \<open>Fresh statistics\<close>

lemma rdb_get_missing:
  assumes "rdb w k = None"
  obtains w1 where "rdb_get e k w = (Inr None, w1)" "db w1 = db w" "ticks w1 = Suc (ticks w)"
  using assms by (cases "stmt_fails e (ticks w) \<or> \<not> key_expired e (ticks w) k") (auto simp: rdb_get_def)

text \<open>A key that is not cached is counted anew and cached.\<close>

lemma cache_miss:
  assumes "rdb w k = None" and "\<And>w1. db w1 = db w \<Longrightarrow> ticks w1 = Suc (ticks w) \<Longrightarrow> fst (dbFunc w1) = Inr x" and "enc x \<noteq> None"
  obtains w' where "GetCacheDalWithTTL e enc dec k dbFunc w = (Inr (x, False), w')"
proof -
  obtain w1 where g: "rdb_get e k w = (Inr None :: gerr + _, w1)" "db w1 = db w" "ticks w1 = Suc (ticks w)"
    by (rule rdb_get_missing [OF assms(1)])
  obtain w2 where c: "dbFunc w1 = (Inr x, w2)" using assms(2) [OF g(2,3)] by (cases "dbFunc w1") auto
  from assms(3) obtain b where "enc x = Some b" by blast
  with g(1) c show thesis
    by (intro that) (simp add: GetCacheDalWithTTL_def bindE_def rdb_set_def returnE_def)
qed

lemma uc_PeriodCount_miss:
  assumes "reliable e" and "rdb w (''statistic:period:'' @ fmt_d u) = None" and enc: "\<And>x. gob_period e x \<noteq> None"
  shows "fst (uc_PeriodCount e u w) =
    Inr (submit_counts (in_scope u '''') (rows (submits (db w))) (clock e (Suc (ticks w))),
         ac_counts (in_scope u '''') (rows (submits (db w))) (clock e (Suc (ticks w))))"
proof -
  let ?x = "(submit_counts (in_scope u '''') (rows (submits (db w))) (clock e (Suc (ticks w))),
      ac_counts (in_scope u '''') (rows (submits (db w))) (clock e (Suc (ticks w))))"
  obtain w' where "GetCacheDalWithTTL e (gob_period e) (ungob_period e) (''statistic:period:'' @ fmt_d u) (GetPeriodCount e u) w =
      (Inr (?x, False), w')"
  proof (rule cache_miss [where k = "''statistic:period:'' @ fmt_d u" and x = ?x and enc = "gob_period e" and w = w])
    show "fst (GetPeriodCount e u w1) = Inr ?x" if "db w1 = db w" "ticks w1 = Suc (ticks w)" for w1
      using GetPeriodCount_reliable [OF assms(1), of u w1] that by simp
  qed (use assms in auto)
  then show ?thesis unfolding uc_PeriodCount_def bindE_def withErr_def by (simp add: returnE_def del: append_Cons)
qed

lemma unlink_patterns_none: "rdb w k = None \<Longrightarrow> rdb_unlink_patterns e ps w = (r, w') \<Longrightarrow> rdb w' k = None"
proof (induction ps arbitrary: w)
  case (Cons p ps)
  let ?w = "snd (rdb_unlink_pattern e p w :: ('b + unit) \<times> _)"
  from Cons.prems(2) have "rdb_unlink_patterns e ps ?w = (r, w')"
    by (simp add: bindE_def rdb_unlink_pattern_def)
  moreover have "rdb ?w k = None" using Cons.prems(1) by (simp add: rdb_unlink_pattern_def)
  ultimately show ?case by (intro Cons.IH)
qed (simp add: returnE_def)

lemma invalidateCache_drops:
  assumes "reliable e" and "k \<in> set (invalidated_keys u)" and "invalidateCache e u w = (r, w')"
  shows "rdb w' k = None"
proof -
  let ?w = "snd (rdb_del_keys e (invalidated_keys u) w :: ('b + unit) \<times> _)"
  from assms(3) have "rdb_unlink_patterns e (invalidated_patterns u) ?w = (r, w')"
    by (simp add: invalidateCache_def bindE_def rdb_del_keys_def)
  moreover have "rdb ?w k = None" using assms(1,2) by (simp add: rdb_del_keys_def reliable_def)
  ultimately show ?thesis using unlink_patterns_none by blast
qed

lemma LoadData_drops:
  assumes "reliable e" and "k \<in> set (invalidated_keys u)" and "LoadData e i u na target w = (r, w')"
  shows "rdb w' k = None"
proof -
  obtain r0 w0 where b: "tryE (load_body e i u na target) w = (Inr r0 :: gerr + _, w0)"
    by (cases "load_body e i u na target w") (simp add: tryE_def)
  with assms(3) have
    k: "bindE (invalidateCache e u) (\<lambda>_. case r0 of Inl er \<Rightarrow> failE er | Inr _ \<Rightarrow> returnE ()) w0 = (r, w')"
    unfolding LoadData_def bindE_def [of "tryE _"] by simp
  from k obtain w1 where i: "invalidateCache e u w0 = (Inr () :: gerr + unit, w1)"
    and r: "(case r0 of Inl er \<Rightarrow> failE er | Inr _ \<Rightarrow> returnE ()) w1 = (r, w')"
    by (rule bind_ok) (auto intro: ok_intros)
  from r have "w' = w1" by (auto simp: failE_def returnE_def split: sum.splits)
  then show ?thesis using invalidateCache_drops [OF assms(1,2) i] by simp
qed

end
