(* ===== verification/DataProperties.thy ===== *)
theory DataProperties
  imports DataSystem CoreSamples Complex_Main
begin

text \<open>
  The properties of statistics, snapshots and bulletins, with their witnesses on a small world: one
  user with two submissions to one problem, one of them accepted.
\<close>

section \<open>A small world\<close>

definition se_ex :: stat_env where
  "se_ex = \<lparr>stmt_fails = (\<lambda>_. False), clock = (\<lambda>n. 1000 + int n), decode_payload =
       (\<lambda>s. if s = ''3'' then Some \<lparr>UserID = 3, jwt_Username = ''cat'', jwt_Name = ''cat'', jwt_Email = '''', RoleID = 2\<rparr> else cpay_ex s),
     spider_Get = spider_Get ce_ex, FetchSubmitLog = FetchSubmitLog ce_ex, FetchContestLog = FetchContestLog ce_ex,
     unlinked = unlinked ce_ex, mq_dial = mq_dial ce_ex, mq_open = mq_open ce_ex, mq_declare = mq_declare ce_ex,
     mq_send = mq_send ce_ex, marshal_event = marshal_event ce_ex, unmarshal_event = unmarshal_event ce_ex,
     limiter_Allow = limiter_Allow ce_ex, core_json = core_json ce_ex, marshal_summary = marshal_summary ce_ex,
     userRPC = userRPC ce_ex, profile_GetList = profile_GetList ce_ex,
     key_expired = (\<lambda>_ _. False), gob_heatmap = (\<lambda>_. Some ''h''), ungob_heatmap = (\<lambda>_. None),
     gob_period = (\<lambda>_. Some ''p''), ungob_period = (\<lambda>_. None), gob_platforms = (\<lambda>_. Some ''q''), ungob_platforms = (\<lambda>_. None),
     parse_date = (\<lambda>s. if s = ''1970-01-01'' then Some 0 else if s = ''1970-01-03'' then Some 2 else None),
     format_day = (\<lambda>_. ''''), json_Valid = (\<lambda>s. s \<noteq> ''''), jsonb = Some, marshal_raw = id,
     sql_min = hd, rdb_scan = (\<lambda>_ _. []), rdb_ttl = (\<lambda>_ _. Inr 1), unlink_count = (\<lambda>_ _. 0)\<rparr>"

definition sw_ex :: "cdb world" where
  "sw_ex = cw_ex\<lparr>db := cd_ex\<lparr>submits := \<lparr>rows =
     [(log_ex ''7'' ''WA'')\<lparr>ID := 1, s_UserID := 2, s_Platform := ''AtCoder''\<rparr>,
      (log_ex ''8'' ''AC'')\<lparr>ID := 2, s_UserID := 2, s_Platform := ''AtCoder''\<rparr>], seq = 3\<rparr>\<rparr>\<rparr>"

lemma reliable_se [simp]: "reliable se_ex" "\<not> stmt_fails se_ex n"
  by (simp_all add: reliable_def se_ex_def)

section \<open>Counting\<close>

text \<open>The rule by which the service flags a submission as accepted and the SQL condition by which it counts accepted submissions agree on every status; the rule of the contest code accepts nothing they reject.\<close>

theorem acceptance_rules:
  "isAcceptedStatus (s_Status r) = acCondition r \<and> (IsAcceptedStatus (s_Status r) \<longrightarrow> acCondition r)"
  using isAccepted_SQL IsAccepted_weaker by auto

theorem acceptance_rules_witness: "acCondition (log_ex ''1'' '' Accepted'')"
proof -
  have "IsAcceptedStatus (s_Status (log_ex ''1'' '' Accepted''))" by code_simp
  with acceptance_rules [of "log_ex ''1'' '' Accepted''"] show ?thesis by blast
qed

text \<open>The converse fails: any status that contains the letters counts as accepted.\<close>

theorem acceptance_rules_differ:
  "acCondition (log_ex ''1'' ''Hacked'') \<and> \<not> IsAcceptedStatus (s_Status (log_ex ''1'' ''Hacked''))"
  by code_simp

text \<open>On a database that answers, the period counts of a user (or of all) are consistent: none is negative, a day counts no more than its week and its month, a month no more than its year, nothing more than the total; counts of submissions in this and the last week, month or year together stay within the total; and no period has more accepted problems than submissions.\<close>

theorem period_counts_consistent:
  assumes "reliable e" and "fst (GetPeriodCount e u w) = Inr (submit, ac)"
  shows "ordered_counts submit \<and> disjoint_counts submit \<and> ordered_counts ac \<and> counts_le ac submit"
proof -
  have "submit = submit_counts (in_scope u '''') (rows (submits (db w))) (clock e (ticks w))"
    "ac = ac_counts (in_scope u '''') (rows (submits (db w))) (clock e (ticks w))"
    using assms GetPeriodCount_reliable [OF assms(1), of u w] by simp_all
  then show ?thesis
    using submits_in.ordered submits_in.disjoint accepted_in.ordered accepted_le_submits
    by (simp add: submit_counts_def ac_counts_def)
qed

theorem period_counts_consistent_witness:
  "\<exists>submit ac. fst (GetPeriodCount se_ex 2 sw_ex) = Inr (submit, ac) \<and> pc_Total submit = 2 \<and> pc_Total ac = 1 \<and>
    ordered_counts submit \<and> counts_le ac submit"
proof -
  obtain submit ac where g: "fst (GetPeriodCount se_ex 2 sw_ex) = Inr (submit, ac)"
    by (simp add: GetPeriodCount_reliable)
  then have "pc_Total submit = count_rows (in_scope 2 '''') (rows (submits (db sw_ex)))"
    "pc_Total ac = count_distinct acDistinctKey (\<lambda>r. acCondition r \<and> in_scope 2 '''' r) (rows (submits (db sw_ex)))"
    by (auto simp: GetPeriodCount_reliable submit_counts_def ac_counts_def fill_periods_def)
  moreover have "count_rows (in_scope 2 '''') (rows (submits (db sw_ex))) = 2"
    "count_distinct acDistinctKey (\<lambda>r. acCondition r \<and> in_scope 2 '''' r) (rows (submits (db sw_ex))) = 1" by code_simp+
  ultimately show ?thesis using period_counts_consistent [OF reliable_se(1) g] g by auto
qed

text \<open>C16. On a database that answers, the grouped team query gives every member the numbers of their own period query, in the order asked, and the totals of a team without repeated members are the sums of its members' numbers; the accepted total is the number of distinct problems per member.\<close>

theorem team_period_adds_up:
  assumes "reliable e" and "distinct us" and "-1 \<notin> set us" and "length (rows (submits (db w))) < 2 ^ 63"
    and "fst (TeamPeriod e us w) = Inr resp"
  shows "map tm_UserID (tr_Members resp) = us \<and>
    (\<forall>m \<in> set (tr_Members resp). fst (GetPeriodCount e (tm_UserID m) w) = Inr (tm_Submit m, tm_Ac m)) \<and>
    tm_Submit (tr_Total resp) = sum_counts (map tm_Submit (tr_Members resp)) \<and>
    tm_Ac (tr_Total resp) = sum_counts (map tm_Ac (tr_Members resp)) \<and>
    pc_Total (tm_Ac (tr_Total resp)) =
      count_distinct acDistinctKey (\<lambda>r. acCondition r \<and> s_UserID r \<in> set us) (rows (submits (db w)))"
proof -
  let ?rs = "rows (submits (db w))" and ?now = "clock e (ticks w)"
  have n: "length ?rs < 9223372036854775808" using assms(4) by simp
  from assms(5) have r: "resp = \<lparr>tr_Members = map (member_counts ?rs ?now) us, tr_Total = team_counts ?rs ?now (set us)\<rparr>"
    by (simp add: TeamPeriod_reliable [OF assms(1,2) n])
  have "map tm_UserID (tr_Members resp) = us" by (simp add: r member_counts_def o_def)
  moreover have "\<forall>m \<in> set (tr_Members resp). fst (GetPeriodCount e (tm_UserID m) w) = Inr (tm_Submit m, tm_Ac m)"
  proof
    fix m assume "m \<in> set (tr_Members resp)"
    then obtain v where v: "v \<in> set us" and m: "m = member_counts ?rs ?now v" by (auto simp: r)
    with assms(3) have "in_scope v '''' = (\<lambda>r. s_UserID r = v)" by (intro in_scope_user) auto
    with m show "fst (GetPeriodCount e (tm_UserID m) w) = Inr (tm_Submit m, tm_Ac m)"
      by (simp add: member_counts_def GetPeriodCount_reliable [OF assms(1)])
  qed
  moreover have "tm_Submit (tr_Total resp) = sum_counts (map tm_Submit (tr_Members resp))"
    using by_user.submit_sum [OF assms(2), of "\<lambda>_. True" ?rs ?now] by (simp add: r team_counts_def member_counts_def o_def)
  moreover have "tm_Ac (tr_Total resp) = sum_counts (map tm_Ac (tr_Members resp))"
    using by_user.ac_sum [OF assms(2), of "\<lambda>_. True" ?rs ?now]
    by (simp add: r team_counts_def member_counts_def o_def list_all_iff)
  moreover have "pc_Total (tm_Ac (tr_Total resp)) =
      count_distinct acDistinctKey (\<lambda>r. acCondition r \<and> s_UserID r \<in> set us) ?rs"
    by (simp add: r team_counts_def ac_counts_def fill_periods_def)
  ultimately show ?thesis by blast
qed

theorem team_period_adds_up_witness:
  "\<exists>resp. fst (TeamPeriod se_ex [2, 9] sw_ex) = Inr resp \<and> map tm_UserID (tr_Members resp) = [2, 9] \<and>
    pc_Total (tm_Ac (tr_Total resp)) = 1"
proof -
  have "length (rows (submits (db sw_ex))) = 2" by code_simp
  then have l: "length (rows (submits (db sw_ex))) < 2 ^ 63" by simp
  obtain resp where r: "fst (TeamPeriod se_ex [2, 9] sw_ex) = Inr resp"
    using TeamPeriod_reliable [OF reliable_se(1), of "[2, 9]" sw_ex] l by simp
  have "count_distinct acDistinctKey (\<lambda>r. acCondition r \<and> s_UserID r \<in> set [2, 9]) (rows (submits (db sw_ex))) = 1" by code_simp
  with team_period_adds_up [OF reliable_se(1) _ _ l r] r show ?thesis by auto
qed

text \<open>On a database that answers, the platform statistics list the five platforms, and their numbers add up to the counts over all submissions to these platforms, for submissions as well as for distinct accepted problems, in every period.\<close>

theorem platform_period_partition:
  assumes "reliable e" and "fst (GetPlatformPeriodCount e u statistic_platforms w) = Inr items"
  shows "map pp_Platform items = statistic_platforms \<and>
    sum_counts (map pp_Submit items) =
      submit_counts (\<lambda>r. s_Platform r \<in> set statistic_platforms \<and> (u \<noteq> -1 \<longrightarrow> s_UserID r = u)) (rows (submits (db w))) (clock e (ticks w)) \<and>
    sum_counts (map pp_Ac items) =
      ac_counts (\<lambda>r. s_Platform r \<in> set statistic_platforms \<and> (u \<noteq> -1 \<longrightarrow> s_UserID r = u)) (rows (submits (db w))) (clock e (ticks w))"
proof -
  let ?rs = "rows (submits (db w))" and ?now = "clock e (ticks w)"
  have d: "distinct statistic_platforms" and ok: "list_all plain_name statistic_platforms" by code_simp+
  have i: "items = map (platform_counts ?rs ?now u) statistic_platforms"
    using assms by (simp add: GetPlatformPeriodCount_reliable)
  show ?thesis
    using by_platform.submit_sum [OF d, of "\<lambda>r. u \<noteq> -1 \<longrightarrow> s_UserID r = u" ?rs ?now]
      by_platform.ac_sum [OF d ok, of "\<lambda>r. u \<noteq> -1 \<longrightarrow> s_UserID r = u" ?rs ?now]
    unfolding i by (simp add: o_def platform_counts_def on_platform_def [abs_def])
qed

theorem platform_period_partition_witness:
  "\<exists>items. fst (GetPlatformPeriodCount se_ex 2 statistic_platforms sw_ex) = Inr items \<and> map pp_Platform items = statistic_platforms"
proof -
  obtain items where i: "fst (GetPlatformPeriodCount se_ex 2 statistic_platforms sw_ex) = Inr items"
    by (simp add: GetPlatformPeriodCount_reliable)
  with platform_period_partition [OF reliable_se(1) i] show ?thesis by blast
qed

text \<open>A heat map has one entry for each day of the range in order, and its counts add up to the number of submissions (accepted ones only, if asked) in the range.\<close>

theorem heatmap_partition:
  assumes "parse_date e a = Some da" and "parse_date e b = Some dz" and "da \<le> dz + 1"
    and "HeatmapQuery e a b u isAc w = (Inr items, w')"
  shows "map dc_Day items = map midnight [da..dz] \<and>
    sum_list (map dc_Cnt items) = count_rows (\<lambda>r. between (midnight da) (midnight (dz + 1)) r \<and>
      (isAc \<longrightarrow> acCondition r) \<and> (u \<noteq> 0 \<longrightarrow> s_UserID r = u)) (rows (submits (db w)))"
proof -
  have "items = heatmap_rows da dz u isAc (rows (submits (db w)))"
    using assms by (auto simp: HeatmapQuery_def stmt_def split: if_splits)
  with daily_sum [OF assms(3)] show ?thesis by (simp add: heatmap_rows_def o_def)
qed

theorem heatmap_partition_witness:
  "\<exists>items w'. HeatmapQuery se_ex ''1970-01-01'' ''1970-01-03'' 2 False sw_ex = (Inr items, w') \<and>
    map dc_Day items = map midnight [0..2] \<and> sum_list (map dc_Cnt items) = 2"
proof -
  have p: "parse_date se_ex ''1970-01-01'' = Some 0" "parse_date se_ex ''1970-01-03'' = Some 2" by code_simp+
  obtain items w' where h: "HeatmapQuery se_ex ''1970-01-01'' ''1970-01-03'' 2 False sw_ex = (Inr items, w')"
    using p by (simp add: HeatmapQuery_def stmt_def)
  have "count_rows (\<lambda>r. between (midnight 0) (midnight (2 + 1)) r \<and> (False \<longrightarrow> acCondition r) \<and> ((2 :: int) \<noteq> 0 \<longrightarrow> s_UserID r = 2))
      (rows (submits (db sw_ex))) = 2" by code_simp
  with heatmap_partition [OF p _ h] h show ?thesis by auto
qed

text \<open>C17. Once a delivery was loaded, whatever its outcome, the next period statistics of its user and of the whole site are counted from the tables as the delivery left them, provided Redis and the database answered: no count from before the load is served.\<close>

theorem fresh_after_load:
  assumes "reliable e" and "\<And>x. gob_period e x \<noteq> None" and "LoadData e i u needAll target w = (r, w')" and "v = u \<or> v = -1"
  shows "fst (uc_PeriodCount e v w') =
    Inr (submit_counts (in_scope v '''') (rows (submits (db w'))) (clock e (Suc (ticks w'))),
         ac_counts (in_scope v '''') (rows (submits (db w'))) (clock e (Suc (ticks w'))))"
proof (rule uc_PeriodCount_miss [OF assms(1)])
  have "fmt_d (- 1) = ''-1''" by code_simp
  then have "''statistic:period:'' @ fmt_d v \<in> set (invalidated_keys u)"
    using assms(4) by (auto simp: invalidated_keys_def)
  then show "rdb w' (''statistic:period:'' @ fmt_d v) = None"
    by (rule LoadData_drops [OF assms(1) _ assms(3)])
qed (rule assms(2))

theorem fresh_after_load_witness:
  "\<exists>r w'. LoadData se_ex 1 2 True '''' sw_ex = (r, w') \<and> (\<exists>c. fst (uc_PeriodCount se_ex 2 w') = Inr c)"
proof -
  obtain r w' where l: "LoadData se_ex 1 2 True '''' sw_ex = (r, w')" by fastforce
  have g: "gob_period se_ex x \<noteq> None" for x by (simp add: se_ex_def)
  from fresh_after_load [OF reliable_se(1) g l, of 2] l show ?thesis by auto
qed

section \<open>Details\<close>

text \<open>An answer of the platform details has a page size between 1 and 100; in its summary, duplicates are what distinct problems leave of the submissions and distinct accepted problems are bounded by accepted submissions and by distinct problems. Listing submissions, the total is the number of submissions; listing problems, it is the number of distinct accepted ones, and each listed problem occurs once, newest first acceptance first, with at least one accepted submission and no more of them than submissions.\<close>

theorem platform_detail_consistent:
  assumes "PlatformDetail e u p mode pg sz w = (Inr d, w')"
  shows "1 \<le> pd_PageSize d \<and> pd_PageSize d \<le> 100 \<and> good_summary (pd_Summary d) \<and>
    (if pd_Mode d = ''submit''
     then pd_Total d = ps_RawSubmits (pd_Summary d) \<and> int (length (pd_Records d)) \<le> pd_PageSize d \<and>
       list_all (\<lambda>r. dr_IncludedInAc r = isAcceptedStatus (dr_Status r)) (pd_Records d)
     else pd_Total d = ps_DistinctAc (pd_Summary d) \<and> good_problems (pd_PageSize d) (pd_Problems d))"
proof -
  let ?own = "user_platform_rows u (TrimSpace p) (db w)" and ?n = "page_size_or_30 sz"
  have b: "1 \<le> ?n" "?n \<le> 100" by (rule page_size_bounds)+
  show ?thesis
  proof (cases "(if mode = '''' then ''ac'' else mode) = ''submit''")
    case True
    with assms have d: "pd_PageSize d = ?n" "pd_Mode d = ''submit''" "pd_Summary d = summary_columns ?own" "pd_Total d = int (length ?own)"
      "pd_Records d = map detail_record (page_of ?n (i64 (i64 (page_or_first pg - 1) * ?n)) (sort_key (\<lambda>r. - s_Time r) ?own))"
      by (auto simp: PlatformDetail_def Let_def succ_simps split: if_splits)
    have "list_all (\<lambda>r. dr_IncludedInAc r = isAcceptedStatus (dr_Status r)) (map detail_record rs)" for rs
      by (simp add: list_all_iff detail_record_def Let_def)
    with d b length_page_of [of ?n] summary_good [of ?own] show ?thesis by (simp add: summary_columns_def)
  next
    case False
    with assms have d: "pd_PageSize d = ?n" "pd_Mode d \<noteq> ''submit''" "pd_Summary d = summary_columns ?own"
      "pd_Total d = int (length (group_by problem_key (\<lambda>k _. k) (filter acCondition ?own)))"
      "pd_Problems d = map (problem_record (TrimSpace p) ?own)
         (take (nat ?n) (drop (nat (i64 (i64 (page_or_first pg - 1) * ?n))) (ac_problems e ?own)))"
      by (auto simp: PlatformDetail_def Let_def succ_simps stmt_def split: if_splits)
    with b problem_page_good [of ?n] summary_good [of ?own] show ?thesis
      by (simp add: summary_columns_def group_by_def count_distinct_def)
  qed
qed

theorem platform_detail_consistent_witness:
  "\<exists>d w'. PlatformDetail se_ex 2 ''AtCoder'' '''' 1 10 sw_ex = (Inr d, w') \<and> pd_Total d = 1 \<and> good_problems 10 (pd_Problems d)"
proof -
  have t: "TrimSpace ''AtCoder'' = ''AtCoder''" "page_or_first 1 = 1" "page_size_or_30 10 = 10" "i64 (i64 (1 - 1) * 10) = 0" by code_simp+
  let ?n = "int (length (group_by problem_key (\<lambda>k _. k) (filter acCondition (user_platform_rows 2 ''AtCoder'' (db sw_ex)))))"
  obtain d w' where d: "PlatformDetail se_ex 2 ''AtCoder'' '''' 1 10 sw_ex = (Inr d, w')"
    and m: "pd_Mode d = ''ac''" "pd_PageSize d = 10" and n: "pd_Total d = ?n"
    by (simp add: PlatformDetail_def Let_def t bindE_def withErr_def returnE_def reliable_evals [OF reliable_se(1)] stmt_def)
  have "?n = 1" by code_simp
  with platform_detail_consistent [OF d] d m n show ?thesis by auto
qed

section \<open>Snapshots\<close>

text \<open>A snapshot that was saved under a trimmed, nonempty source hash is found by the next read with the same hash: it exists, is not stale, carries the saved payload in the form the database keeps it, and the reported time, provided the database answers, its JSON is valid JSON, and no clean-up is due.\<close>

theorem snapshot_roundtrip:
  assumes "reliable e" and "wf_table (snapshots (db w))"
    and "SaveFeatureSnapshot e hdr u kind h p w = (Inr saved, w1)" and "TrimSpace h = h" and "h \<noteq> ''''"
    and "\<And>js. jsonb e (fr_Payload saved) = Some js \<Longrightarrow> json_Valid e js"
    and "Sub (clock e (ticks w1)) (lastCleanup (db w1)) < featureSnapshotCleanupInterval"
  shows "\<exists>js w2. jsonb e (fr_Payload saved) = Some js \<and>
    GetFeatureSnapshot e hdr u kind h w1 = (Inr (saved\<lparr>fr_Payload := js\<rparr>), w2)"
proof -
  obtain k wa wb wc now where k: "normalizeSnapshotKind kind = Inr k" and u: "0 < u" "may_operate e hdr u"
    and c: "cleanupExpiredFeatureSnapshots e hdr w = (Inr () :: kerr + unit, wa)"
    and a: "assign_snapshot e u k h (fr_Payload saved) now (tick wa) = (Inr (), wb)"
    and r: "recordCoreOperation e hdr ''snapshot.save'' ''user'' u [(''kind'', CStr k), (''sourceHash'', CStr h)] wb = (Inr () :: kerr + unit, w1)"
    and s: "saved = \<lparr>fr_UserID = u, fr_Kind = k, fr_SourceHash = h, fr_Payload = fr_Payload saved,
      fr_Exists = True, fr_Stale = False, fr_GeneratedAt = Unix now\<rparr>"
    using assms(3) by (rule save_inversion [OF _ assms(4)])
  have "wf_table (snapshots (db wa))" by (rule cleanup_wf [OF assms(2) c])
  then have wf: "wf_table (snapshots (db (tick wa)))" by simp
  obtain row js where f: "first_where (snapshot_of u k) (snapshots (db wb)) = Some row" and js: "jsonb e (fr_Payload saved) = Some js"
    and row: "fs_Payload row = js" "fs_GeneratedAt row = now" "fs_SourceHash row = h"
    by (rule assign_snapshot_stores [OF a wf]) (use assms(5) in auto)
  have c1: "cleanupExpiredFeatureSnapshots e hdr w1 = (Inr () :: kerr + unit, tick w1)" by (rule cleanup_skipped [OF assms(7)])
  have "snapshots (db w1) = snapshots (db wb)" by (rule record_snapshots [OF r])
  then have "GetFeatureSnapshot e hdr u kind h w1 = (Inr (saved\<lparr>fr_Payload := js\<rparr>), tick (tick w1))"
    using f js row assms(6) [OF js] k u c1
    by (simp add: GetFeatureSnapshot_def bindE_def tryE_def reliable_evals [OF assms(1)] returnE_def)
      (subst s, simp)
  with js show ?thesis by blast
qed

theorem snapshot_roundtrip_witness:
  "\<exists>saved w1 w2. SaveFeatureSnapshot se_ex ''Bearer a.2.c'' 2 '' achievement'' ''h1'' ''[1]'' sw_ex = (Inr saved, w1) \<and>
    fr_Payload saved = ''[1]'' \<and> GetFeatureSnapshot se_ex ''Bearer a.2.c'' 2 '' achievement'' ''h1'' w1 = (Inr saved, w2)"
proof -
  let ?s = "SaveFeatureSnapshot se_ex ''Bearer a.2.c'' 2 '' achievement'' ''h1'' ''[1]'' sw_ex"
  have "map_sum id fr_Payload (fst ?s) = Inr ''[1]''" by code_simp
  then obtain saved w1 where s: "?s = (Inr saved, w1)" and p: "fr_Payload saved = ''[1]''"
    by (cases ?s; cases "fst ?s") auto
  have "Sub (clock se_ex (ticks (snd ?s))) (lastCleanup (db (snd ?s))) < featureSnapshotCleanupInterval" by code_simp
  then have c: "Sub (clock se_ex (ticks w1)) (lastCleanup (db w1)) < featureSnapshotCleanupInterval" unfolding s by simp
  have wf: "wf_table (snapshots (db sw_ex))" by (simp add: wf_table_def sw_ex_def cex_defs)
  have h: "TrimSpace ''h1'' = ''h1''" by code_simp
  have j: "json_Valid se_ex js" if "jsonb se_ex (fr_Payload saved) = Some js" for js
    using that p by (auto simp: se_ex_def)
  have "jsonb se_ex (fr_Payload saved) = Some (fr_Payload saved)" by (simp add: se_ex_def)
  with snapshot_roundtrip [OF reliable_se(1) wf s h _ j c] s p show ?thesis by auto
qed

text \<open>A clean-up that is due, on a database that answers, removes nothing but weekly reports and achievements of users; of these it leaves exactly the ones generated within thirty days, or, when they are more than 5000, the newest 3000 of them.\<close>

theorem cleanup_retention:
  assumes "reliable e" and "wf_table (snapshots (db w))"
    and "featureSnapshotCleanupInterval \<le> Sub (clock e (ticks w)) (lastCleanup (db w))"
    and "cleanupExpiredFeatureSnapshots e hdr w = (r, w')"
  shows "(\<forall>x. \<not> user_snapshot x \<longrightarrow> (x \<in> set (rows (snapshots (db w'))) \<longleftrightarrow> x \<in> set (rows (snapshots (db w))))) \<and>
    (let recent = filter (\<lambda>x. user_snapshot x \<and> clock e (ticks w) - featureSnapshotRetention \<le> fs_GeneratedAt x) (rows (snapshots (db w)));
         kept = filter user_snapshot (rows (snapshots (db w')))
     in if length recent \<le> 5000 then mset kept = mset recent
        else length kept = 3000 \<and> mset kept \<subseteq># mset recent \<and>
          (\<forall>x \<in> set recent - set kept. \<forall>y \<in> set kept. fs_GeneratedAt x \<le> fs_GeneratedAt y))"
proof -
  let ?c = "clock e (ticks w) - featureSnapshotRetention" and ?t = "snapshots (db w)"
  have t: "snapshots (db w') = prune ?c ?t"
    using cleanup_due [OF assms(1,3), of hdr] assms(4) by (metis prod.inject)
  have others: "\<forall>x. \<not> user_snapshot x \<longrightarrow> (x \<in> set (rows (prune ?c ?t)) \<longleftrightarrow> x \<in> set (rows ?t))"
    using prune_keeps_others [OF _ _ assms(2)] prune_subset by blast
  define L where "L = filter (\<lambda>x. user_snapshot x \<and> ?c \<le> fs_GeneratedAt x) (rows ?t)"
  define K where "K = filter user_snapshot (rows (prune ?c ?t))"
  have m: "mset K = mset (drop (if featureSnapshotMaxRows < length L then length L - featureSnapshotKeepRows else 0) (sort_key fs_GeneratedAt L))"
    unfolding K_def L_def by (rule prune_user_rows [OF assms(2)])
  have "if length L \<le> 5000 then mset K = mset L
      else length K = 3000 \<and> mset K \<subseteq># mset L \<and> (\<forall>x \<in> set L - set K. \<forall>y \<in> set K. fs_GeneratedAt x \<le> fs_GeneratedAt y)"
    by (rule newest_kept [OF m])
  with others show ?thesis unfolding t Let_def L_def K_def by blast
qed

text \<open>A world whose last clean-up was two hours ago, with an old report of a user and one of the site.\<close>

definition snap_ex :: "nat \<Rightarrow> int \<Rightarrow> FeatureSnapshot" where
  "snap_ex i u = \<lparr>ID = i, fs_UserID = u, fs_Kind = ''weekly_report'', fs_SourceHash = '''', fs_Payload = ''1'',
     fs_GeneratedAt = - (31 * 86400000000000), fs_CreatedAt = 0, fs_UpdatedAt = 0\<rparr>"

definition sw_old :: "cdb world" where
  "sw_old = sw_ex\<lparr>db := (db sw_ex)\<lparr>lastCleanup := - 7200000000000, snapshots := \<lparr>rows = [snap_ex 1 2, snap_ex 2 0], seq = 3\<rparr>\<rparr>\<rparr>"

theorem cleanup_retention_witness:
  "let t = rows (snapshots (db (snd (cleanupExpiredFeatureSnapshots se_ex '''' sw_old :: (kerr + unit) \<times> _))))
   in filter user_snapshot t = [] \<and> snap_ex 2 0 \<in> set t"
proof -
  let ?c = "cleanupExpiredFeatureSnapshots se_ex '''' sw_old :: (kerr + unit) \<times> _"
  have w: "wf_table (snapshots (db sw_old))" by (simp add: wf_table_def sw_old_def snap_ex_def)
  have d: "featureSnapshotCleanupInterval \<le> Sub (clock se_ex (ticks sw_old)) (lastCleanup (db sw_old))" by code_simp
  have n: "\<not> user_snapshot (snap_ex 2 0)" and i: "snap_ex 2 0 \<in> set (rows (snapshots (db sw_old)))"
    by (simp_all add: user_snapshot_def snap_ex_def sw_old_def)
  have r: "filter (\<lambda>x. user_snapshot x \<and> clock se_ex (ticks sw_old) - featureSnapshotRetention \<le> fs_GeneratedAt x)
      (rows (snapshots (db sw_old))) = []" by code_simp
  from cleanup_retention [OF reliable_se(1) w d, of "''''" "fst ?c" "snd ?c"] n i r show ?thesis
    by (simp add: Let_def)
qed

section \<open>Order statistics\<close>

text \<open>The insertion loop of the achievements sorts; at most half of the values lie below their median and at most half above; and a percentile is a number between 0 and 100 that grows with the value.\<close>

theorem order_statistics:
  fixes vals :: "'a :: linordered_field list"
  shows "insertion_sort vals = sort vals \<and>
    2 * length (filter (\<lambda>x. x < achievementMedian vals) vals) \<le> length vals \<and>
    2 * length (filter (\<lambda>x. achievementMedian vals < x) vals) \<le> length vals \<and>
    0 \<le> achievementPercentile vals a \<and> achievementPercentile vals a \<le> 100 \<and>
    (a \<le> b \<longrightarrow> achievementPercentile vals a \<le> achievementPercentile vals b)"
proof (cases "vals = []")
  case False
  have l: "length (filter (\<lambda>x. x < v) vals) \<le> length vals" for v by simp
  have m: "a \<le> b \<Longrightarrow> length (filter (\<lambda>x. x < a) vals) \<le> length (filter (\<lambda>x. x < b) vals)"
    unfolding length_filter_conv_card by (rule card_mono) auto
  from False have "(0 :: 'a) < of_nat (length vals)" by simp
  with l [of a] m median_splits_values [OF False] show ?thesis
    by (auto simp: insertion_sort_eq achievementPercentile_def field_simps divide_le_cancel mult_right_mono)
qed (simp add: insertion_sort_eq achievementPercentile_def)

theorem order_statistics_witness:
  "achievementPercentile [3, 1, 2 :: rat] 1 \<le> achievementPercentile [3, 1, 2] 2"
  using order_statistics [of "[3, 1, 2 :: rat]" 1 2] by simp

section \<open>Bulletins\<close>

text \<open>No operation of the service changes the bulletins but the three on bulletins, and these only with a token whose role number is at least that of coaches: neither an ordinary user nor an administrator changes them.\<close>

theorem bulletins_guarded:
  assumes "bulletins (db (data_step e op w)) \<noteq> bulletins (db w)"
  shows "\<exists>hdr cur. GetCurrentUser e hdr = Some cur \<and> RoleID cur \<noteq> RoleUser \<and> RoleID cur \<noteq> RoleAdmin \<and>
    bulletin_token op = Some hdr"
proof -
  have who: "\<exists>cur. GetCurrentUser e hdr = Some cur \<and> RoleID cur \<noteq> RoleUser \<and> RoleID cur \<noteq> RoleAdmin"
    if "VerifyMinRole e hdr RoleCoach" for hdr
    using that by (auto simp: VerifyMinRole_def GetCurrentUser_def role_defs split: option.splits)
  show ?thesis
  proof (cases op)
    case (DCore c)
    with assms show ?thesis using board.core_step_keeps [of w "bulletins (db w)" e c] by simp
  next
    case (DSaveSnapshot hdr u k h p)
    with assms show ?thesis using keeps_snd [OF board_side.snapshot_ops_keep(1)] by fastforce
  next
    case (DGetSnapshot hdr u k h)
    with assms show ?thesis using keeps_snd [OF board_side.snapshot_ops_keep(2)] by fastforce
  next
    case (DClearCache hdr u)
    with assms show ?thesis using keeps_snd [OF board_side.ClearCache_keeps] by fastforce
  next
    case (DCreateBulletin hdr t c b)
    with assms have "VerifyMinRole e hdr RoleCoach" by (auto simp: bulletin_svc_Create_def returnE_def split: if_splits)
    from who [OF this] DCreateBulletin show ?thesis by auto
  next
    case (DUpdateBulletin hdr i t c b)
    with assms have "VerifyMinRole e hdr RoleCoach" by (auto simp: bulletin_svc_Update_def returnE_def split: if_splits)
    from who [OF this] DUpdateBulletin show ?thesis by auto
  next
    case (DDeleteBulletin hdr i)
    with assms have "VerifyMinRole e hdr RoleCoach" by (auto simp: bulletin_svc_Delete_def returnE_def split: if_splits)
    from who [OF this] DDeleteBulletin show ?thesis by auto
  qed
qed

theorem bulletins_guarded_witness:
  "bulletins (db (data_step se_ex (DCreateBulletin ''Bearer a.3.c'' ''t'' ''c'' False) sw_ex)) \<noteq> bulletins (db sw_ex) \<and>
   (\<exists>cur. GetCurrentUser se_ex ''Bearer a.3.c'' = Some cur \<and> RoleID cur \<noteq> RoleAdmin)"
proof -
  have "length (rows (bulletins (db (data_step se_ex (DCreateBulletin ''Bearer a.3.c'' ''t'' ''c'' False) sw_ex)))) = 1"
    "length (rows (bulletins (db sw_ex))) = 0" by code_simp+
  then have c: "bulletins (db (data_step se_ex (DCreateBulletin ''Bearer a.3.c'' ''t'' ''c'' False) sw_ex)) \<noteq> bulletins (db sw_ex)"
    by fastforce
  from bulletins_guarded [OF c] c show ?thesis by auto
qed

section \<open>Invariant\<close>

text \<open>C15. Along every sequence of operations of the core-data service (crawls, bindings, snapshots, bulletins, cache control), whatever statements fail, the tables keep their keys: no two rows of one table share an id, no two submissions a user, platform and submission id, no two contest results or statuses their keys, and no two snapshots a user and kind.\<close>

theorem data_invariant_run:
  assumes "core_inv (db w)" and "side_inv (db w)"
  shows "core_inv (db (data_run e ops w)) \<and> side_inv (db (data_run e ops w))"
  using data.run_inv [of w e ops] assms by (simp add: data_run_def)

theorem data_invariant_run_witness:
  "side_inv (db (data_run se_ex
     [DCore (COpUpdate ''Bearer a.2.c'' '''' 2 ''''), DSaveSnapshot ''Bearer a.2.c'' 2 ''achievement'' ''h'' ''1'',
      DSaveSnapshot ''Bearer a.2.c'' 2 ''achievement'' ''h'' ''2'', DDeleteBulletin ''Bearer a.3.c'' 1] cw_ex))"
proof -
  have "side_inv (db cw_ex)" by (simp add: side_inv_def wf_table_def cex_defs)
  from data_invariant_run [OF core_inv_ex' this] show ?thesis by blast
qed

end
