(* ===== verification/ContestProblems.thy ===== *)
theory ContestProblems
  imports Statistic Spider
begin

text \<open>
  The problems of a contest and the matrix of who solved what:
  the computing part of \<^verbatim>\<open>internal/service/contest_matrix.go\<close>. Go's maps from users and problem keys to
  counters, which answer a missing key with the zero value, are functions with that default.
\<close>

section \<open>Library functions\<close>

text \<open>\<^verbatim>\<open>url.PathEscape\<close>: letters, digits and some marks stand for themselves.\<close>

definition hex_digit :: "nat \<Rightarrow> char" where
  "hex_digit n = (if n < 10 then char_of (48 + n) else char_of (55 + n))"

definition path_safe :: "char \<Rightarrow> bool" where
  "path_safe c \<longleftrightarrow> in_range 48 57 c \<or> in_range 65 90 c \<or> in_range 97 122 c \<or> c \<in> set ''-_.~$&+=:@''"

definition PathEscape :: "string \<Rightarrow> string" where
  "PathEscape s = concat (map (\<lambda>c. if path_safe c then [c]
     else [CHR ''%'', hex_digit (byte_of c div 16), hex_digit (byte_of c mod 16)]) s)"

text \<open>\<^verbatim>\<open>strings.Fields\<close>.\<close>

fun split_spaces :: "string list \<Rightarrow> string list list" where
  "split_spaces [] = [[]]"
| "split_spaces (c # cs) =
     (if is_space c then [] # split_spaces cs
      else case split_spaces cs of [] \<Rightarrow> [[c]] | g # gs \<Rightarrow> (c # g) # gs)"

definition Fields :: "string \<Rightarrow> string list" where
  "Fields s = map concat (filter (\<lambda>g. g \<noteq> []) (split_spaces (chunks s)))"

text \<open>Go's \<^verbatim>\<open><\<close> on strings.\<close>

fun bytes_less :: "string \<Rightarrow> string \<Rightarrow> bool" where
  "bytes_less _ [] = False"
| "bytes_less [] (b # t) = True"
| "bytes_less (a # s) (b # t) = (byte_of a < (byte_of b :: nat) \<or> a = b \<and> bytes_less s t)"

text \<open>
  \<^verbatim>\<open>sort.SliceStable\<close>: a new element moves down past the elements it is less than. Go sorts blocks
  of twenty elements like this and merges them; the outcome is the same for every
  strict weak order.
\<close>

fun sift :: "('a \<Rightarrow> 'a \<Rightarrow> bool) \<Rightarrow> 'a \<Rightarrow> 'a list \<Rightarrow> 'a list" where
  "sift lt x [] = [x]"
| "sift lt x (y # ys) = (if lt x y then y # sift lt x ys else x # y # ys)"

definition SliceStable :: "('a \<Rightarrow> 'a \<Rightarrow> bool) \<Rightarrow> 'a list \<Rightarrow> 'a list" where
  "SliceStable lt xs = rev (foldl (\<lambda>acc x. sift lt x acc) [] xs)"

section \<open>Platforms, indexes and links\<close>

definition AtCoder :: string where "AtCoder = ''AtCoder''"
definition NowCoder :: string where "NowCoder = ''NowCoder''"

definition isContestPlatform :: "string \<Rightarrow> string \<Rightarrow> bool" where
  "isContestPlatform platform target = EqualFold (TrimSpace platform) (TrimSpace target)"

text \<open>The regular expressions \<^verbatim>\<open>^[A-Za-z]+$\<close> and \<^verbatim>\<open>^[A-Za-z][A-Za-z0-9_+-]*$\<close>.\<close>

definition is_letter :: "char \<Rightarrow> bool" where
  "is_letter c \<longleftrightarrow> in_range 65 90 c \<or> in_range 97 122 c"

definition atCoderTaskAlphabetRe :: "string \<Rightarrow> bool" where
  "atCoderTaskAlphabetRe s \<longleftrightarrow> s \<noteq> [] \<and> list_all is_letter s"

definition nowCoderProblemIndexRe :: "string \<Rightarrow> bool" where
  "nowCoderProblemIndexRe s = (case s of
     [] \<Rightarrow> False
   | c # rest \<Rightarrow> is_letter c \<and> list_all (\<lambda>d. is_letter d \<or> is_digit d \<or> d \<in> set ''_+-'') rest)"

definition letter_index :: "nat \<Rightarrow> string" where
  "letter_index n = [char_of (65 + n mod 26)]"

definition deriveProblemIndex :: "string \<Rightarrow> string \<Rightarrow> string \<Rightarrow> nat \<Rightarrow> string" where
  "deriveProblemIndex platform contest prob fallback =
     (let problem = TrimSpace prob; contestID = TrimSpace contest;
          at_suffix = TrimPrefix problem (contestID @ ''_'');
          cf_rest = TrimSpace (TrimPrefix problem (contestID @ ''-''));
          plain = (case Fields problem of
              f # _ \<Rightarrow> if rune_count f \<le> 4 then f else letter_index fallback
            | [] \<Rightarrow> letter_index fallback)
      in if isContestPlatform platform AtCoder \<and> contestID \<noteq> '''' \<and>
            HasPrefix problem (contestID @ ''_'') \<and> atCoderTaskAlphabetRe at_suffix
         then ToUpper at_suffix
         else if isContestPlatform platform CodeForces \<and> contestID \<noteq> '''' \<and>
            HasPrefix problem (contestID @ ''-'') \<and> cf_rest \<noteq> ''''
         then hd (Fields cf_rest)
         else plain)"

definition atCoderProblemURL :: "string \<Rightarrow> string \<Rightarrow> string" where
  "atCoderProblemURL contest task =
     (let contestID = TrimSpace contest; taskID = TrimSpace task in
      if contestID = '''' \<or> taskID = '''' then ''''
      else ''https://atcoder.jp/contests/'' @ PathEscape contestID @ ''/tasks/'' @ PathEscape taskID)"

definition codeforcesProblemURLFromIndex :: "string \<Rightarrow> string \<Rightarrow> string" where
  "codeforcesProblemURLFromIndex contest ix =
     (let contestID = TrimSpace contest; index = TrimSpace ix in
      if contestID = '''' \<or> index = '''' then ''''
      else ''https://codeforces.com/contest/'' @ PathEscape contestID @ ''/problem/'' @ PathEscape index)"

definition nowCoderProblemURL :: "string \<Rightarrow> string \<Rightarrow> string" where
  "nowCoderProblemURL contest ix =
     (let contestID = TrimSpace contest; index = TrimSpace ix in
      if contestID = '''' \<or> index = '''' then ''''
      else ''https://ac.nowcoder.com/acm/contest/'' @ PathEscape contestID @ ''/'' @ PathEscape index)"

definition problemURL :: "string \<Rightarrow> string \<Rightarrow> string \<Rightarrow> string \<Rightarrow> string" where
  "problemURL platform contestID index key =
     (if isContestPlatform platform AtCoder then
        let taskID = TrimSpace key in atCoderProblemURL contestID (if taskID = '''' then TrimSpace index else taskID)
      else if isContestPlatform platform CodeForces then codeforcesProblemURLFromIndex contestID index
      else if isContestPlatform platform NowCoder then nowCoderProblemURL contestID index
      else '''')"

definition naturalProblemOrder :: "string \<Rightarrow> string \<Rightarrow> string \<Rightarrow> string \<Rightarrow> bool" where
  "naturalProblemOrder li ri leftKey rightKey =
     (let leftIndex = ToUpper (TrimSpace li); rightIndex = ToUpper (TrimSpace ri) in
      if leftIndex \<noteq> '''' \<and> rightIndex \<noteq> '''' \<and> leftIndex \<noteq> rightIndex then bytes_less leftIndex rightIndex
      else bytes_less leftKey rightKey)"

section \<open>The list of problems\<close>

record contestProblemMeta =
  pm_Key :: string
  pm_Index :: string
  pm_Name :: string
  pm_URL :: string
  pm_Aliases :: "string list"

definition by_natural_order :: "contestProblemMeta list \<Rightarrow> contestProblemMeta list" where
  "by_natural_order = SliceStable (\<lambda>a b. naturalProblemOrder (pm_Index a) (pm_Index b) (pm_Key a) (pm_Key b))"

definition nowCoderProblemAliases :: "string \<Rightarrow> string \<Rightarrow> string list" where
  "nowCoderProblemAliases ix ti =
     (let index = TrimSpace ix; title = TrimSpace ti in
      (if index \<noteq> '''' then [index, ToUpper index] else []) @
      (if title \<noteq> '''' then title # (if index \<noteq> '''' then [index @ '' '' @ title, ToUpper index @ '' '' @ title] else [])
       else []))"

text \<open>One round of the loop over the problems of the official page, and of the one over submissions.\<close>

definition add_meta ::
    "string \<Rightarrow> string \<Rightarrow> string set \<times> contestProblemMeta list \<Rightarrow> contestProblemMeta \<Rightarrow> string set \<times> contestProblemMeta list" where
  "add_meta platform contestID = (\<lambda>(seen, problems) problem.
     let key = TrimSpace (pm_Key problem) in
     if key = '''' \<or> key \<in> seen then (seen, problems)
     else let index = (if pm_Index problem = '''' then deriveProblemIndex platform contestID key (length problems) else pm_Index problem);
              name = (if pm_Name problem = '''' then key else pm_Name problem);
              url = (if pm_URL problem = '''' then problemURL platform contestID index key else pm_URL problem)
       in (insert key seen, problems @ [\<lparr>pm_Key = key, pm_Index = index, pm_Name = name, pm_URL = url,
                                        pm_Aliases = pm_Aliases problem @ [index, name]\<rparr>]))"

definition submission_key :: "SubmitLog \<Rightarrow> string" where
  "submission_key sub = (let key = TrimSpace (s_Problem sub) in if key = '''' then TrimSpace (s_SubmitID sub) else key)"

definition add_submitted ::
    "string \<Rightarrow> string \<Rightarrow> string set \<times> contestProblemMeta list \<Rightarrow> SubmitLog \<Rightarrow> string set \<times> contestProblemMeta list" where
  "add_submitted platform contestID = (\<lambda>(seen, problems) sub.
     let key = submission_key sub in
     if key = '''' \<or> key \<in> seen then (seen, problems)
     else let index = deriveProblemIndex platform contestID key (length problems)
       in (insert key seen, problems @ [\<lparr>pm_Key = key, pm_Index = index, pm_Name = key,
                                        pm_URL = problemURL platform contestID index key, pm_Aliases = []\<rparr>]))"

definition normalizeContestProblems ::
    "string \<Rightarrow> string \<Rightarrow> contestProblemMeta list \<Rightarrow> SubmitLog list \<Rightarrow> contestProblemMeta list" where
  "normalizeContestProblems platform contestID metaProblems submissions =
     (let problems = snd (foldl (add_submitted platform contestID)
            (foldl (add_meta platform contestID) ({}, []) metaProblems) submissions)
      in if metaProblems = [] then by_natural_order problems else problems)"

section \<open>Problems of a contest without an official list\<close>

text \<open>The first loop of \<^verbatim>\<open>synthesizeNowCoderProblems\<close> collects the submitted problems.\<close>

fun submitted_problems ::
    "string \<Rightarrow> nat \<Rightarrow> SubmitLog list \<Rightarrow> string set \<Rightarrow> contestProblemMeta list \<Rightarrow> string set \<times> contestProblemMeta list" where
  "submitted_problems contestID totalCount [] seen problems = (seen, problems)"
| "submitted_problems contestID totalCount (sub # subs) seen problems =
     (let key = TrimSpace (s_Problem sub) in
      if key = '''' \<or> key \<in> seen then submitted_problems contestID totalCount subs seen problems
      else let index = deriveProblemIndex NowCoder contestID key (length problems);
               problems' = problems @ [\<lparr>pm_Key = key, pm_Index = index, pm_Name = key,
                 pm_URL = nowCoderProblemURL contestID index, pm_Aliases = nowCoderProblemAliases index key\<rparr>]
        in if totalCount \<le> length problems' then (insert key seen, problems')
           else submitted_problems contestID totalCount subs (insert key seen) problems')"

definition filler_key :: "string \<Rightarrow> nat \<Rightarrow> string" where
  "filler_key contestID n = ''__nowcoder_'' @ contestID @ ''_'' @ letter_index n"

definition filler :: "string \<Rightarrow> nat \<Rightarrow> contestProblemMeta" where
  "filler contestID n = \<lparr>pm_Key = filler_key contestID n, pm_Index = letter_index n, pm_Name = letter_index n,
     pm_URL = nowCoderProblemURL contestID (letter_index n), pm_Aliases = [letter_index n]\<rparr>"

text \<open>
  The second one fills up with letters. A key that was seen restarts the loop without progress, so it
  may not end: \<open>None\<close> says that it does not.
\<close>

partial_function (option) fill_problems ::
    "string \<Rightarrow> nat \<Rightarrow> string set \<Rightarrow> contestProblemMeta list \<Rightarrow> contestProblemMeta list option" where
  "fill_problems contestID totalCount seen problems =
     (if length problems < totalCount then
        if filler_key contestID (length problems) \<in> seen then fill_problems contestID totalCount seen problems
        else fill_problems contestID totalCount (insert (filler_key contestID (length problems)) seen)
               (problems @ [filler contestID (length problems)])
      else Some problems)"

definition synthesizeNowCoderProblems :: "string \<Rightarrow> int \<Rightarrow> SubmitLog list \<Rightarrow> contestProblemMeta list option" where
  "synthesizeNowCoderProblems contestID totalCount submissions =
     (if totalCount \<le> 0 then Some []
      else case submitted_problems contestID (nat totalCount) submissions {} [] of
        (seen, problems) \<Rightarrow> fill_problems contestID (nat totalCount) seen problems)"

section \<open>Aliases\<close>

type_synonym alias_map = "string \<Rightarrow> string option"

definition registerProblemAlias :: "alias_map \<Rightarrow> string \<Rightarrow> string \<Rightarrow> alias_map" where
  "registerProblemAlias aliases al canon =
     (let alias = TrimSpace al; canonical = TrimSpace canon in
      if alias = '''' \<or> canonical = '''' then aliases
      else aliases(alias \<mapsto> canonical, ToLower alias \<mapsto> canonical))"

definition buildProblemAliasMap :: "contestProblemMeta list \<Rightarrow> alias_map" where
  "buildProblemAliasMap problems =
     foldl (\<lambda>aliases problem.
       foldl (\<lambda>m alias. registerProblemAlias m alias (pm_Key problem)) aliases
         ([pm_Key problem, pm_Index problem, pm_Name problem] @ pm_Aliases problem)) Map.empty problems"

definition canonicalProblemKey :: "string \<Rightarrow> alias_map \<Rightarrow> string" where
  "canonicalProblemKey raw aliases =
     (let key = TrimSpace raw in
      if key = '''' then ''''
      else case aliases key of
        Some canonical \<Rightarrow> canonical
      | None \<Rightarrow> (case aliases (ToLower key) of Some canonical \<Rightarrow> canonical | None \<Rightarrow> key))"

section \<open>The matrix\<close>

record problemUserState =
  us_hasContestSubmit :: bool
  us_hasContestAC :: bool
  us_contestMinute :: int
  us_wrongBeforeAC :: int
  us_contestWrong :: int
  us_upsolveAC :: bool
  us_upsolveWrong :: int

definition zero_state :: problemUserState where
  "zero_state = \<lparr>us_hasContestSubmit = False, us_hasContestAC = False, us_contestMinute = 0, us_wrongBeforeAC = 0,
     us_contestWrong = 0, us_upsolveAC = False, us_upsolveWrong = 0\<rparr>"

text \<open>
  \<^verbatim>\<open>Minutes()\<close> is a \<^verbatim>\<open>float64\<close> with a fractional part that the conversion cuts off; the times come
  from the database in microseconds, for which the integer part is exact.
\<close>

definition elapsedMinute :: "time \<Rightarrow> time \<Rightarrow> int" where
  "elapsedMinute start submitTime =
     (if start = zero_time \<or> submitTime < start then 0 else i32 (Sub submitTime start div 60000000000))"

definition update_state :: "time \<Rightarrow> time \<Rightarrow> bool \<Rightarrow> SubmitLog \<Rightarrow> problemUserState \<Rightarrow> problemUserState" where
  "update_state start end hasReliableWindow sub state =
     (let accepted = IsAcceptedStatus (s_Status sub);
          inContest = (hasReliableWindow \<longrightarrow> start \<le> s_Time sub \<and> s_Time sub < end);
          afterContest = (hasReliableWindow \<and> end \<le> s_Time sub)
      in if inContest then
           let st = state\<lparr>us_hasContestSubmit := True\<rparr> in
           if accepted then
             if \<not> us_hasContestAC st then st\<lparr>us_hasContestAC := True, us_contestMinute := elapsedMinute start (s_Time sub)\<rparr>
             else st
           else if \<not> us_hasContestAC st then
             st\<lparr>us_wrongBeforeAC := i32 (us_wrongBeforeAC st + 1), us_contestWrong := i32 (us_contestWrong st + 1)\<rparr>
           else st
         else if afterContest then
           if accepted \<and> \<not> us_hasContestAC state \<and> \<not> us_upsolveAC state then state\<lparr>us_upsolveAC := True\<rparr>
           else if \<not> accepted \<and> \<not> us_hasContestAC state \<and> \<not> us_upsolveAC state then
             state\<lparr>us_upsolveWrong := i32 (us_upsolveWrong state + 1)\<rparr>
           else state
         else state)"

type_synonym states = "int \<times> string \<Rightarrow> problemUserState"

definition record_submission ::
    "time \<Rightarrow> time \<Rightarrow> bool \<Rightarrow> string set \<Rightarrow> alias_map \<Rightarrow> states \<Rightarrow> SubmitLog \<Rightarrow> states" where
  "record_submission start end hasReliableWindow problemSet aliases st sub =
     (let key = canonicalProblemKey (submission_key sub) aliases in
      if key \<notin> problemSet then st
      else st((s_UserID sub, key) := update_state start end hasReliableWindow sub (st (s_UserID sub, key))))"

record problemColumnStat =
  cs_contestAccepted :: int
  cs_contestAttempted :: int
  cs_upsolveAccepted :: int

record contest_totals =
  ct_stats :: "string \<Rightarrow> problemColumnStat"
  ct_penalty :: "int \<Rightarrow> int"
  ct_acCount :: "int \<Rightarrow> int"

text \<open>The body of the nested loops over users and problems.\<close>

definition count_cell :: "states \<Rightarrow> int \<Rightarrow> contest_totals \<Rightarrow> contestProblemMeta \<Rightarrow> contest_totals" where
  "count_cell st userID t problem =
     (let state = st (userID, pm_Key problem);
          stat = ct_stats t (pm_Key problem);
          stat1 = (if us_hasContestSubmit state then stat\<lparr>cs_contestAttempted := i64 (cs_contestAttempted stat + 1)\<rparr> else stat);
          stat2 = (if us_hasContestAC state then stat1\<lparr>cs_contestAccepted := i64 (cs_contestAccepted stat1 + 1)\<rparr> else stat1);
          stat3 = (if us_upsolveAC state then stat2\<lparr>cs_upsolveAccepted := i64 (cs_upsolveAccepted stat2 + 1)\<rparr> else stat2);
          t1 = (if us_hasContestAC state
                then t\<lparr>ct_penalty := (ct_penalty t)(userID := i32 (ct_penalty t userID +
                         i32 (us_contestMinute state + i32 (us_wrongBeforeAC state * 20)))),
                       ct_acCount := (ct_acCount t)(userID := i32 (ct_acCount t userID + 1))\<rparr>
                else t)
      in t1\<lparr>ct_stats := (ct_stats t1)(pm_Key problem := stat3)\<rparr>)"

record ProblemResult =
  cr_ProblemKey :: string
  cr_Status :: string
  cr_AcceptedMinute :: int
  cr_WrongBeforeAc :: int
  cr_WrongAttempts :: int
  cr_Upsolved :: bool

definition problem_result :: "states \<Rightarrow> int \<Rightarrow> contestProblemMeta \<Rightarrow> ProblemResult" where
  "problem_result st userID problem =
     (let state = st (userID, pm_Key problem) in
      \<lparr>cr_ProblemKey = pm_Key problem,
       cr_Status = (if us_hasContestAC state then ''contest_ac'' else if us_upsolveAC state then ''upsolve_ac''
                    else if us_hasContestSubmit state then ''contest_failed'' else ''none''),
       cr_AcceptedMinute = us_contestMinute state, cr_WrongBeforeAc = us_wrongBeforeAC state,
       cr_WrongAttempts = i32 (us_contestWrong state + us_upsolveWrong state), cr_Upsolved = us_upsolveAC state\<rparr>)"

record contestProblemCalculation =
  cc_resultsByUser :: "int \<Rightarrow> ProblemResult list"
  cc_totals :: contest_totals

definition no_totals :: contest_totals where
  "no_totals = \<lparr>ct_stats = (\<lambda>_. \<lparr>cs_contestAccepted = 0, cs_contestAttempted = 0, cs_upsolveAccepted = 0\<rparr>),
     ct_penalty = (\<lambda>_. 0), ct_acCount = (\<lambda>_. 0)\<rparr>"

definition calculateContestProblemMatrix ::
    "time \<Rightarrow> time \<Rightarrow> bool \<Rightarrow> contestProblemMeta list \<Rightarrow> SubmitLog list \<Rightarrow> int list \<Rightarrow> int list \<Rightarrow> contestProblemCalculation" where
  "calculateContestProblemMatrix start end hasReliableWindow problems submissions pageUserIDs allUserIDs =
     (let problemSet = set (map pm_Key problems);
          aliases = buildProblemAliasMap problems;
          st = foldl (record_submission start end hasReliableWindow problemSet aliases) (\<lambda>_. zero_state) submissions
      in \<lparr>cc_resultsByUser = (\<lambda>u. if u \<in> set pageUserIDs then map (problem_result st u) problems else []),
          cc_totals = foldl (\<lambda>t u. foldl (count_cell st u) t problems) no_totals allUserIDs\<rparr>)"

end
