(* ===== verification/ContestMeta.thy ===== *)
theory ContestMeta
  imports ContestProblems
begin

text \<open>
  What the contest service learns from the judges: the caches of
  \<^verbatim>\<open>internal/service/contest_meta_cache.go\<close>, the official pages and standings fetched in
  \<^verbatim>\<open>contest_matrix.go\<close>, and the official ranks of \<^verbatim>\<open>contest_official_rank.go\<close>.

  The environment is extended with what these parts use from outside: the answer to an HTTP GET
  (an error, or the status with the error or text of reading the body), the submatches a regular expression finds
  in a page, HTML entities, dates and JSON, and the calls to the user service.
\<close>

section \<open>Types\<close>

record atCoderMatrixMeta =
  mm_Title :: string
  mm_Start :: time
  mm_End :: time
  mm_Problems :: "contestProblemMeta list"

record codeforcesMatrixProblem =
  cp_ContestID :: int
  cp_ProblemsetName :: string
  cp_Index :: string
  cp_Name :: string

text \<open>Of a row of the standings: rank and handles of the party.\<close>

record codeforcesStandingsResponse =
  st_Status :: string
  st_Comment :: string
  st_ContestName :: string
  st_StartTime :: int
  st_DurationSeconds :: int
  st_Problems :: "codeforcesMatrixProblem list"
  st_Rows :: "(int \<times> string list) list"

record atCoderUserHistoryItem =
  hi_Place :: int
  hi_ContestScreenName :: string

record UserProfile =
  up_UserId :: int
  up_Name :: string
  up_Avatar :: string
  up_GroupId :: int
  up_Username :: string

record contest_env = core_env +
  http_get :: "nat \<Rightarrow> string \<Rightarrow> gerr + (int \<times> (gerr + string))"
  UnescapeString :: "string \<Rightarrow> string"
  atCoderTaskLinkRe :: "string \<Rightarrow> (string \<times> string) list"
  atCoderMatrixTimeRe :: "string \<Rightarrow> string list"
  atCoderMatrixTitleRe :: "string \<Rightarrow> string option"
  nowCoderProblemLinkRe :: "string \<Rightarrow> (string \<times> string \<times> string \<times> string) list"
  nowCoderStartTimeRe :: "string \<Rightarrow> string option"
  nowCoderEndTimeRe :: "string \<Rightarrow> string option"
  nowCoderNameRe :: "string \<Rightarrow> string option"
  time_Parse :: "string \<Rightarrow> time option"
  unmarshal_standings :: "string \<Rightarrow> codeforcesStandingsResponse option"
  unmarshal_history :: "string \<Rightarrow> atCoderUserHistoryItem list option"
  GetUserIdsByGroup :: "nat \<Rightarrow> int \<Rightarrow> gerr + int list"
  GetByIds :: "nat \<Rightarrow> int list \<Rightarrow> gerr + UserProfile list"
  sql_less :: "string \<Rightarrow> string \<Rightarrow> bool"

section \<open>Caches\<close>

text \<open>The entries of a cache: value and time of expiry.\<close>

type_synonym 'v ttlCache = "string \<Rightarrow> ('v \<times> time) option"

definition cache_Get :: "time \<Rightarrow> string \<Rightarrow> 'v ttlCache \<Rightarrow> 'v option \<times> 'v ttlCache" where
  "cache_Get now key entries = (case entries key of
     None \<Rightarrow> (None, entries)
   | Some (v, expiresAt) \<Rightarrow> if expiresAt < now then (None, entries(key := None)) else (Some v, entries))"

definition cache_SetWithTTL :: "int \<Rightarrow> time \<Rightarrow> string \<Rightarrow> 'v \<Rightarrow> int \<Rightarrow> 'v ttlCache \<Rightarrow> 'v ttlCache" where
  "cache_SetWithTTL cache_ttl now key v ttl entries = entries(key \<mapsto> (v, now + (if ttl \<le> 0 then cache_ttl else ttl)))"

text \<open>Their default time to live.\<close>

definition six_hours :: int where
  "six_hours = 6 * 3600 * 1000000000"

text \<open>The caches are variables of the process beside the tables.\<close>

record contest_db = cdb +
  atCoderMatrixMetaCache :: "atCoderMatrixMeta ttlCache"
  codeforcesMatrixMetaCache :: "atCoderMatrixMeta ttlCache"
  codeforcesStandingsCache :: "codeforcesStandingsResponse ttlCache"
  nowCoderMatrixMetaCache :: "atCoderMatrixMeta ttlCache"
  atCoderUserHistoryCache :: "atCoderUserHistoryItem list ttlCache"
  codeforcesOfficialRankCache :: "(string \<times> int) list ttlCache"

type_synonym ('e, 'a) kact = "(contest_db, 'e, 'a) act"

definition c_get :: "'x env_scheme \<Rightarrow> (contest_db \<Rightarrow> 'v ttlCache) \<Rightarrow> (('v ttlCache \<Rightarrow> 'v ttlCache) \<Rightarrow> contest_db \<Rightarrow> contest_db) \<Rightarrow>
    string \<Rightarrow> ('e, 'v option) kact" where
  "c_get e sel upd key w =
     (case cache_Get (clock e (ticks w)) key (sel (db w)) of
        (v, entries) \<Rightarrow> (Inr v, (tick w)\<lparr>db := upd (\<lambda>_. entries) (db w)\<rparr>))"

definition c_set :: "'x env_scheme \<Rightarrow> (('v ttlCache \<Rightarrow> 'v ttlCache) \<Rightarrow> contest_db \<Rightarrow> contest_db) \<Rightarrow>
    string \<Rightarrow> 'v \<Rightarrow> int \<Rightarrow> ('e, unit) kact" where
  "c_set e upd key v ttl w =
     (Inr (), (tick w)\<lparr>db := upd (cache_SetWithTTL six_hours (clock e (ticks w)) key v ttl) (db w)\<rparr>)"

section \<open>Pages\<close>

definition fetchContestHTML :: "'x contest_env_scheme \<Rightarrow> string \<Rightarrow> (gerr, string) kact" where
  "fetchContestHTML e pageURL =
     bindE (rpcE (\<lambda>n. http_get e n pageURL)) (\<lambda>r.
     case r of
       Inl er \<Rightarrow> failE er
     | Inr (status, body) \<Rightarrow>
         if status \<noteq> 200 then failE (Errorf (''contest metadata status '' @ fmt_d status))
         else (case body of Inl er \<Rightarrow> failE er | Inr b \<Rightarrow> returnE b))"

definition fetchAtCoderContestPage :: "'x contest_env_scheme \<Rightarrow> string \<Rightarrow> atCoderMatrixMeta \<Rightarrow> (gerr, atCoderMatrixMeta) kact" where
  "fetchAtCoderContestPage e pageURL meta0 =
     bindE (fetchContestHTML e pageURL) (\<lambda>raw.
     let parsed = (\<lambda>i old. if i < length (atCoderMatrixTimeRe e raw)
                   then (case time_Parse e (TrimSpace (atCoderMatrixTimeRe e raw ! i)) of Some t \<Rightarrow> t | None \<Rightarrow> old) else old);
         meta = meta0\<lparr>mm_Title := (case atCoderMatrixTitleRe e raw of
                          Some t \<Rightarrow> TrimSpace (UnescapeString e t) | None \<Rightarrow> mm_Title meta0),
                      mm_Start := parsed 0 (mm_Start meta0), mm_End := parsed 1 (mm_End meta0)\<rparr>
     in if mm_Start meta = zero_time then failE (Errorf ''missing contest start time'') else returnE meta)"

definition add_task ::
    "'x contest_env_scheme \<Rightarrow> string \<Rightarrow> string set \<times> contestProblemMeta list \<Rightarrow> string \<times> string \<Rightarrow> string set \<times> contestProblemMeta list" where
  "add_task e contestID = (\<lambda>(seen, tasks) (m1, m2).
     let key = TrimSpace (UnescapeString e m1); title = TrimSpace (UnescapeString e m2) in
     if key = '''' \<or> title = '''' \<or> key \<in> seen then (seen, tasks)
     else (insert key seen, tasks @ [\<lparr>pm_Key = key, pm_Index = deriveProblemIndex AtCoder contestID key (length tasks),
             pm_Name = title, pm_URL = atCoderProblemURL contestID key, pm_Aliases = []\<rparr>]))"

definition fetchAtCoderTaskPage :: "'x contest_env_scheme \<Rightarrow> string \<Rightarrow> string \<Rightarrow> (gerr, contestProblemMeta list) kact" where
  "fetchAtCoderTaskPage e tasksURL contestID =
     bindE (fetchContestHTML e tasksURL) (\<lambda>raw.
     returnE (snd (foldl (add_task e contestID) ({}, []) (atCoderTaskLinkRe e raw))))"

definition empty_meta :: "string \<Rightarrow> atCoderMatrixMeta" where
  "empty_meta title = \<lparr>mm_Title = title, mm_Start = zero_time, mm_End = zero_time, mm_Problems = []\<rparr>"

definition fetchAtCoderMatrixMeta :: "'x contest_env_scheme \<Rightarrow> string \<Rightarrow> (gerr, atCoderMatrixMeta) kact" where
  "fetchAtCoderMatrixMeta e contest =
     (let contestID = TrimSpace contest; cacheKey = ToLower contestID;
          baseURL = ''https://atcoder.jp/contests/'' @ PathEscape contestID
      in if contestID = '''' then failE (Errorf ''empty contest id'')
      else bindE (c_get e atCoderMatrixMetaCache atCoderMatrixMetaCache_update cacheKey) (\<lambda>cached.
        case cached of
          Some meta \<Rightarrow> returnE meta
        | None \<Rightarrow>
            bindE (fetchAtCoderContestPage e baseURL (empty_meta contestID)) (\<lambda>meta.
            bindE (tryE (fetchAtCoderTaskPage e (baseURL @ ''/tasks'') contestID)) (\<lambda>tasks.
            let full = (case tasks of Inr ts \<Rightarrow> meta\<lparr>mm_Problems := ts\<rparr> | Inl _ \<Rightarrow> meta)
            in bindE (c_set e atCoderMatrixMetaCache_update cacheKey full six_hours) (\<lambda>_. returnE full)))))"

section \<open>Codeforces standings\<close>

definition codeforcesMatrixProblemKey :: "string \<Rightarrow> codeforcesMatrixProblem \<Rightarrow> string" where
  "codeforcesMatrixProblemKey contestID problem =
     (let problemContestID = (if cp_ContestID problem \<noteq> 0 then fmt_d (cp_ContestID problem) else TrimSpace contestID);
          parts = filter (\<lambda>s. s \<noteq> '''') [TrimSpace (cp_ProblemsetName problem), problemContestID, TrimSpace (cp_Index problem)];
          prefix = Join parts ''-''; problemName = TrimSpace (cp_Name problem)
      in if prefix \<noteq> '''' \<and> problemName \<noteq> '''' then prefix @ '' '' @ problemName
         else if prefix \<noteq> '''' then prefix else problemName)"

definition codeforcesProblemURL :: "string \<Rightarrow> codeforcesMatrixProblem \<Rightarrow> string" where
  "codeforcesProblemURL contestID problem =
     codeforcesProblemURLFromIndex
       (if cp_ContestID problem \<noteq> 0 then fmt_d (cp_ContestID problem) else TrimSpace contestID) (cp_Index problem)"

definition standing_problem :: "string \<Rightarrow> contestProblemMeta list \<Rightarrow> codeforcesMatrixProblem \<Rightarrow> contestProblemMeta list" where
  "standing_problem contestID problems problem =
     (let key = codeforcesMatrixProblemKey contestID problem; index = TrimSpace (cp_Index problem); name = TrimSpace (cp_Name problem) in
      if key = '''' then problems
      else problems @ [\<lparr>pm_Key = key,
        pm_Index = (if index = '''' then deriveProblemIndex CodeForces contestID key (length problems) else index),
        pm_Name = (if name = '''' then key else name), pm_URL = codeforcesProblemURL contestID problem, pm_Aliases = []\<rparr>])"

definition codeforcesStandingsToMeta :: "string \<Rightarrow> codeforcesStandingsResponse \<Rightarrow> atCoderMatrixMeta" where
  "codeforcesStandingsToMeta contestID parsed =
     (let start = (if 0 < st_StartTime parsed then st_StartTime parsed * 1000000000 else zero_time) in
      \<lparr>mm_Title = st_ContestName parsed, mm_Start = start,
       mm_End = (if start \<noteq> zero_time \<and> 0 < st_DurationSeconds parsed then start + i64 (st_DurationSeconds parsed * 1000000000) else zero_time),
       mm_Problems = foldl (standing_problem contestID) [] (st_Problems parsed)\<rparr>)"

definition codeforcesStandingsTTL :: "time \<Rightarrow> codeforcesStandingsResponse \<Rightarrow> int" where
  "codeforcesStandingsTTL now parsed =
     (if st_StartTime parsed \<le> 0 \<or> st_DurationSeconds parsed \<le> 0 then 60 * 1000000000
      else let end = st_StartTime parsed * 1000000000 + i64 (st_DurationSeconds parsed * 1000000000)
        in if now < end + 600 * 1000000000 then 60 * 1000000000 else six_hours)"

text \<open>\<^verbatim>\<open>url.QueryEscape\<close>.\<close>

definition QueryEscape :: "string \<Rightarrow> string" where
  "QueryEscape s = concat (map (\<lambda>c. if in_range 48 57 c \<or> is_letter c \<or> c \<in> set ''-_.~'' then [c]
     else if c = CHR '' '' then ''+''
     else [CHR ''%'', hex_digit (byte_of c div 16), hex_digit (byte_of c mod 16)]) s)"

definition fetchCodeforcesStandings :: "'x contest_env_scheme \<Rightarrow> string \<Rightarrow> (gerr, codeforcesStandingsResponse) kact" where
  "fetchCodeforcesStandings e contest =
     (let contestID = TrimSpace contest; cacheKey = ToLower contestID in
      if contestID = '''' then failE (Errorf ''empty contest id'')
      else bindE (c_get e codeforcesStandingsCache codeforcesStandingsCache_update cacheKey) (\<lambda>cached.
        case cached of
          Some parsed \<Rightarrow> returnE parsed
        | None \<Rightarrow>
            bindE (rpcE (\<lambda>n. http_get e n (''https://codeforces.com/api/contest.standings?contestId='' @ QueryEscape contestID))) (\<lambda>r.
            case r of
              Inl er \<Rightarrow> failE er
            | Inr (status, Inl er) \<Rightarrow> failE er
            | Inr (status, Inr body) \<Rightarrow>
                if status \<noteq> 200 then failE (Errorf (''codeforces standings status '' @ fmt_d status @ '': '' @ TrimSpace body))
                else (case unmarshal_standings e body of
                    None \<Rightarrow> failE (Errorf ''bad JSON'')
                  | Some parsed \<Rightarrow>
                      if st_Status parsed \<noteq> ''OK'' then failE (Errorf (''codeforces standings failed: '' @ st_Comment parsed))
                      else bindE (time_now e) (\<lambda>now.
                        bindE (c_set e codeforcesStandingsCache_update cacheKey parsed (codeforcesStandingsTTL now parsed)) (\<lambda>_.
                        returnE parsed))))))"

definition fetchCodeforcesMatrixMeta :: "'x contest_env_scheme \<Rightarrow> string \<Rightarrow> (gerr, atCoderMatrixMeta) kact" where
  "fetchCodeforcesMatrixMeta e contest =
     (let contestID = TrimSpace contest; cacheKey = ToLower contestID in
      if contestID = '''' then failE (Errorf ''empty contest id'')
      else bindE (c_get e codeforcesMatrixMetaCache codeforcesMatrixMetaCache_update cacheKey) (\<lambda>cached.
        case cached of
          Some meta \<Rightarrow> returnE meta
        | None \<Rightarrow>
            bindE (fetchCodeforcesStandings e contestID) (\<lambda>parsed.
            let meta = codeforcesStandingsToMeta contestID parsed
            in bindE (c_set e codeforcesMatrixMetaCache_update cacheKey meta six_hours) (\<lambda>_. returnE meta))))"

section \<open>NowCoder page\<close>

definition add_nowcoder ::
    "'x contest_env_scheme \<Rightarrow> string \<Rightarrow> string set \<times> contestProblemMeta list \<Rightarrow> string \<times> string \<times> string \<times> string \<Rightarrow>
     string set \<times> contestProblemMeta list" where
  "add_nowcoder e contestID = (\<lambda>(seen, problems) (m1, m2, m3, m4).
     let index = TrimSpace (UnescapeString e m3); text = TrimSpace (UnescapeString e m4);
         title = (if text = '''' then index else text)
     in if TrimSpace m2 \<noteq> contestID \<or> \<not> nowCoderProblemIndexRe index \<or> index \<in> seen then (seen, problems)
        else (insert index seen, problems @ [\<lparr>pm_Key = title, pm_Index = ToUpper index, pm_Name = title,
               pm_URL = ''https://ac.nowcoder.com'' @ TrimSpace m1, pm_Aliases = nowCoderProblemAliases index title\<rparr>]))"

definition parseNowCoderProblems :: "'x contest_env_scheme \<Rightarrow> string \<Rightarrow> string \<Rightarrow> contestProblemMeta list" where
  "parseNowCoderProblems e raw contest =
     (let contestID = TrimSpace contest in
      if contestID = '''' then []
      else by_natural_order (snd (foldl (add_nowcoder e contestID) ({}, []) (nowCoderProblemLinkRe e raw))))"

text \<open>A number of milliseconds; Go's division rounds down for the positive numbers that pass.\<close>

definition millis :: "string option \<Rightarrow> time" where
  "millis m = (case m of
     None \<Rightarrow> zero_time
   | Some s \<Rightarrow> (case ParseInt 64 s of
        None \<Rightarrow> zero_time
      | Some ms \<Rightarrow> if 0 < ms then ms div 1000 * 1000000000 else zero_time))"

definition fetchNowCoderMatrixMeta :: "'x contest_env_scheme \<Rightarrow> string \<Rightarrow> (gerr, atCoderMatrixMeta) kact" where
  "fetchNowCoderMatrixMeta e contest =
     (let contestID = TrimSpace contest; cacheKey = ToLower contestID in
      if contestID = '''' then failE (Errorf ''empty contest id'')
      else bindE (c_get e nowCoderMatrixMetaCache nowCoderMatrixMetaCache_update cacheKey) (\<lambda>cached.
        case cached of
          Some meta \<Rightarrow> returnE meta
        | None \<Rightarrow>
            bindE (fetchContestHTML e (''https://ac.nowcoder.com/acm/contest/'' @ PathEscape contestID)) (\<lambda>raw.
            let meta = \<lparr>mm_Title = (case nowCoderNameRe e raw of Some n \<Rightarrow> TrimSpace (UnescapeString e n) | None \<Rightarrow> contestID),
                        mm_Start = millis (nowCoderStartTimeRe e raw), mm_End = millis (nowCoderEndTimeRe e raw),
                        mm_Problems = parseNowCoderProblems e raw contestID\<rparr>
            in if mm_Start meta = zero_time \<or> mm_End meta = zero_time then failE (Errorf ''missing nowcoder contest window'')
               else bindE (c_set e nowCoderMatrixMetaCache_update cacheKey meta six_hours) (\<lambda>_. returnE meta))))"

end
