(* ===== verification/Contest.thy ===== *)
theory Contest
  imports ContestMeta "HOL-Library.Product_Lexorder"
begin

text \<open>
  Contests: the queries of \<^verbatim>\<open>internal/data/dal/spider.go\<close> on contest results, the official ranks of
  \<^verbatim>\<open>internal/service/contest_official_rank.go\<close>, the matrix of \<^verbatim>\<open>contest_matrix.go\<close> and the handlers of
  \<^verbatim>\<open>internal/service/contest.go\<close>.
\<close>

section \<open>Queries\<close>

text \<open>\<^verbatim>\<open>ORDER BY CASE WHEN rank > 0 THEN 0 ELSE 1 END, rank, ac_count DESC, total_count DESC, user_id\<close>.\<close>

definition ranking_order :: "ContestLog \<Rightarrow> nat \<times> int \<times> int \<times> int \<times> int" where
  "ranking_order k = (if 0 < k_Rank k then 0 else 1, k_Rank k, - k_AcCount k, - k_TotalCount k, k_UserID k)"

definition of_contest :: "string \<Rightarrow> string \<Rightarrow> int list \<Rightarrow> ContestLog \<Rightarrow> bool" where
  "of_contest contestId platform userIds k \<longleftrightarrow>
     k_ContestId k = contestId \<and> k_Platform k = platform \<and> (userIds \<noteq> [] \<longrightarrow> k_UserID k \<in> set userIds)"

definition participants :: "string \<Rightarrow> string \<Rightarrow> int list \<Rightarrow> 'x cdb_scheme \<Rightarrow> ContestLog list" where
  "participants contestId platform userIds d = sort_key ranking_order (filter (of_contest contestId platform userIds) (rows (contests d)))"

definition dal_GetContestRanking ::
    "'x env_scheme \<Rightarrow> string \<Rightarrow> string \<Rightarrow> int \<Rightarrow> int \<Rightarrow> int list \<Rightarrow> ('y cdb_scheme, gerr, ContestLog list \<times> int) act" where
  "dal_GetContestRanking e contestId platform offset limit userIds =
     bindE (q_select e (\<lambda>d. int (length (filter (of_contest contestId platform userIds) (rows (contests d)))))) (\<lambda>count.
     bindE (q_select e (\<lambda>d. page_of limit offset (participants contestId platform userIds d))) (\<lambda>found.
     returnE (found, count)))"

definition GetContestParticipants ::
    "'x env_scheme \<Rightarrow> string \<Rightarrow> string \<Rightarrow> int list \<Rightarrow> ('y cdb_scheme, gerr, ContestLog list) act" where
  "GetContestParticipants e contestId platform userIds = q_select e (participants contestId platform userIds)"

definition list_scope :: "int \<Rightarrow> string \<Rightarrow> ContestLog \<Rightarrow> bool" where
  "list_scope userId platform k \<longleftrightarrow> (userId \<noteq> -1 \<longrightarrow> k_UserID k = userId) \<and> (platform \<noteq> '''' \<longrightarrow> k_Platform k = platform)"

definition contest_pair :: "ContestLog \<Rightarrow> string \<times> string" where
  "contest_pair k = (k_Platform k, k_ContestId k)"

text \<open>\<^verbatim>\<open>platform || E'\x1f' || contest_id\<close>, also the key of the map in Go.\<close>

definition joined_key :: "string \<times> string \<Rightarrow> string" where
  "joined_key = (\<lambda>(platform, contestId). platform @ CHR 0x1F # contestId)"

text \<open>The groups with their latest time, ordered by it, then by platform and by contest downwards.\<close>

definition key_before :: "(string \<Rightarrow> string \<Rightarrow> bool) \<Rightarrow> (string \<times> string) \<times> time \<Rightarrow> (string \<times> string) \<times> time \<Rightarrow> bool" where
  "key_before sl a b =
     (if snd a \<noteq> snd b then snd b < snd a
      else if fst (fst a) \<noteq> fst (fst b) then sl (fst (fst a)) (fst (fst b))
      else sl (snd (fst b)) (snd (fst a)))"

definition contest_groups :: "(string \<Rightarrow> string \<Rightarrow> bool) \<Rightarrow> ContestLog list \<Rightarrow> ((string \<times> string) \<times> time) list" where
  "contest_groups sl ks = SliceStable (key_before sl) (group_by contest_pair (\<lambda>key g. (key, Max (set (map k_Time g)))) ks)"

definition dal_GetContestList ::
    "'x contest_env_scheme \<Rightarrow> int \<Rightarrow> int \<Rightarrow> int \<Rightarrow> string \<Rightarrow> ('y cdb_scheme, gerr, ContestLog list \<times> int) act" where
  "dal_GetContestList e userId offset limit platform =
     bindE (q_select e (\<lambda>d. int (length (remdups (map (joined_key \<circ> contest_pair)
       (filter (list_scope userId platform) (rows (contests d)))))))) (\<lambda>count.
     bindE (q_select e (\<lambda>d. page_of limit offset (contest_groups (sql_less e) (filter (list_scope userId platform) (rows (contests d)))))) (\<lambda>keyItems.
     if keyItems = [] then returnE ([], count)
     else bindE (q_select e (\<lambda>d. filter (\<lambda>k. contest_pair k \<in> set (map fst keyItems) \<and> list_scope userId platform k) (rows (contests d)))) (\<lambda>found.
       let logMap = foldl (\<lambda>m k. m(joined_key (contest_pair k) \<mapsto> k)) Map.empty found
       in returnE (List.map_filter (\<lambda>(key, _). logMap (joined_key key)) keyItems, count))))"

section \<open>Official ranks\<close>

definition add_user :: "int set \<times> int list \<Rightarrow> ContestLog \<Rightarrow> int set \<times> int list" where
  "add_user = (\<lambda>(seen, ids) k. if k_UserID k = 0 \<or> k_UserID k \<in> seen then (seen, ids)
     else (insert (k_UserID k) seen, ids @ [k_UserID k]))"

definition collectContestUserIDs :: "ContestLog list \<Rightarrow> int list" where
  "collectContestUserIDs logs = snd (foldl add_user ({}, []) logs)"

text \<open>The accounts bound on a platform; a later row replaces an earlier one.\<close>

definition bound_names :: "(string \<Rightarrow> string) \<Rightarrow> platform_row list \<Rightarrow> int \<Rightarrow> string option" where
  "bound_names norm ps = foldl (\<lambda>m p. if norm (p_Username p) \<noteq> '''' then m(p_UserID p \<mapsto> norm (p_Username p)) else m) Map.empty ps"

definition platform_bindings :: "string \<Rightarrow> int list \<Rightarrow> 'x cdb_scheme \<Rightarrow> platform_row list" where
  "platform_bindings platform userIDs d =
     filter (\<lambda>p. ToLower (p_Platform p) = ToLower platform \<and> p_UserID p \<in> set userIDs) (rows (platforms d))"

definition normalizeCodeforcesHandle :: "string \<Rightarrow> string" where
  "normalizeCodeforcesHandle handle = ToLower (TrimSpace handle)"

definition atCoderHistoryMatchesContest :: "string \<Rightarrow> atCoderUserHistoryItem \<Rightarrow> bool" where
  "atCoderHistoryMatchesContest contest item =
     (let contestID = ToLower (TrimSpace contest); screenName = ToLower (TrimSpace (hi_ContestScreenName item)) in
      contestID \<noteq> '''' \<and> (screenName = contestID @ ''.contest.atcoder.jp'' \<or> HasPrefix screenName (contestID @ ''.'')))"

definition fetchAtCoderUserHistory :: "'x contest_env_scheme \<Rightarrow> string \<Rightarrow> (gerr, atCoderUserHistoryItem list) kact" where
  "fetchAtCoderUserHistory e username =
     (let cacheKey = ToLower (TrimSpace username) in
      bindE (c_get e atCoderUserHistoryCache atCoderUserHistoryCache_update cacheKey) (\<lambda>cached.
      case cached of
        Some history \<Rightarrow> returnE history
      | None \<Rightarrow>
          bindE (rpcE (\<lambda>n. http_get e n (''https://atcoder.jp/users/'' @ PathEscape username @ ''/history/json''))) (\<lambda>r.
          case r of
            Inl er \<Rightarrow> failE er
          | Inr (status, Inl er) \<Rightarrow> failE er
          | Inr (status, Inr body) \<Rightarrow>
              if status \<noteq> 200 then failE (Errorf (''history status '' @ fmt_d status @ '': '' @ TrimSpace body))
              else (case unmarshal_history e body of
                  None \<Rightarrow> failE (Errorf ''bad JSON'')
                | Some history \<Rightarrow>
                    bindE (c_set e atCoderUserHistoryCache_update cacheKey history six_hours) (\<lambda>_. returnE history)))))"

text \<open>\<open>None\<close> is the answer \<^verbatim>\<open>(0, false)\<close>.\<close>

definition fetchAtCoderOfficialRank :: "'x contest_env_scheme \<Rightarrow> string \<Rightarrow> string \<Rightarrow> ('e, int option) kact" where
  "fetchAtCoderOfficialRank e contestID username =
     bindE (tryE (fetchAtCoderUserHistory e username)) (\<lambda>r.
     returnE (case r of
         Inl _ \<Rightarrow> None
       | Inr history \<Rightarrow> map_option hi_Place (find (\<lambda>item. 0 < hi_Place item \<and> atCoderHistoryMatchesContest contestID item) history)))"

fun official_ranks ::
    "'x contest_env_scheme \<Rightarrow> string \<Rightarrow> (int \<Rightarrow> string option) \<Rightarrow> int list \<Rightarrow> (int \<Rightarrow> int option) \<Rightarrow> ('e, int \<Rightarrow> int option) kact" where
  "official_ranks e contestID usernameByUser [] ranks = returnE ranks"
| "official_ranks e contestID usernameByUser (u # us) ranks =
     (case usernameByUser u of
        None \<Rightarrow> official_ranks e contestID usernameByUser us ranks
      | Some username \<Rightarrow>
          bindE (fetchAtCoderOfficialRank e contestID username) (\<lambda>r.
          official_ranks e contestID usernameByUser us (case r of None \<Rightarrow> ranks | Some rank \<Rightarrow> ranks(u \<mapsto> rank))))"

text \<open>The functions change the slice in place; they return it here.\<close>

definition set_atcoder_rank :: "(int \<Rightarrow> int option) \<Rightarrow> ContestLog \<Rightarrow> ContestLog" where
  "set_atcoder_rank rankByUser k = (case rankByUser (k_UserID k) of
     Some rank \<Rightarrow> if 0 < rank then k\<lparr>k_Rank := rank\<rparr> else k
   | None \<Rightarrow> k)"

definition applyAtCoderOfficialRanks :: "'x contest_env_scheme \<Rightarrow> string \<Rightarrow> ContestLog list \<Rightarrow> ('e, ContestLog list) kact" where
  "applyAtCoderOfficialRanks e contestID logs =
     (let userIDs = collectContestUserIDs logs in
      if contestID = '''' \<or> logs = [] \<or> userIDs = [] then returnE logs
      else bindE (tryE (q_select e (platform_bindings AtCoder userIDs))) (\<lambda>r.
        case r of
          Inl _ \<Rightarrow> returnE logs
        | Inr ps \<Rightarrow>
            bindE (official_ranks e contestID (bound_names TrimSpace ps) userIDs Map.empty) (\<lambda>rankByUser.
            returnE (map (set_atcoder_rank rankByUser) logs))))"

text \<open>The map from handles to ranks, as an association list.\<close>

definition add_rank :: "int \<Rightarrow> (string \<times> int) list \<Rightarrow> string \<Rightarrow> (string \<times> int) list" where
  "add_rank rank ranks member =
     (let handle = normalizeCodeforcesHandle member in
      if handle = '''' \<or> map_of ranks handle \<noteq> None then ranks else (handle, rank) # ranks)"

definition row_ranks :: "(string \<times> int) list \<Rightarrow> int \<times> string list \<Rightarrow> (string \<times> int) list" where
  "row_ranks ranks = (\<lambda>(rank, handles). if rank \<le> 0 then ranks else foldl (add_rank rank) ranks handles)"

definition standings_ranks :: "(int \<times> string list) list \<Rightarrow> (string \<times> int) list" where
  "standings_ranks = foldl row_ranks []"

definition fetchCodeforcesOfficialRankMap :: "'x contest_env_scheme \<Rightarrow> string \<Rightarrow> (gerr, (string \<times> int) list) kact" where
  "fetchCodeforcesOfficialRankMap e contestID =
     (let cacheKey = ToLower (TrimSpace contestID) in
      bindE (c_get e codeforcesOfficialRankCache codeforcesOfficialRankCache_update cacheKey) (\<lambda>cached.
      case cached of
        Some m \<Rightarrow> returnE m
      | None \<Rightarrow>
          bindE (fetchCodeforcesStandings e contestID) (\<lambda>standings.
          let rankByHandle = standings_ranks (st_Rows standings)
          in bindE (time_now e) (\<lambda>now.
             bindE (c_set e codeforcesOfficialRankCache_update cacheKey rankByHandle (codeforcesStandingsTTL now standings)) (\<lambda>_.
             returnE rankByHandle)))))"

text \<open>A user without a bound handle looks up the empty handle, which no standings have.\<close>

definition set_codeforces_rank :: "(int \<Rightarrow> string option) \<Rightarrow> (string \<times> int) list \<Rightarrow> ContestLog \<Rightarrow> ContestLog" where
  "set_codeforces_rank handleByUser rankByHandle k =
     (let handle = (case handleByUser (k_UserID k) of Some h \<Rightarrow> h | None \<Rightarrow> '''') in
      case map_of rankByHandle handle of
        Some rank \<Rightarrow> k\<lparr>k_Rank := (if 0 < rank then rank else 0)\<rparr>
      | None \<Rightarrow> k\<lparr>k_Rank := 0\<rparr>)"

definition applyCodeforcesOfficialRanks :: "'x contest_env_scheme \<Rightarrow> string \<Rightarrow> ContestLog list \<Rightarrow> ('e, ContestLog list) kact" where
  "applyCodeforcesOfficialRanks e contestID logs =
     (let userIDs = collectContestUserIDs logs in
      if contestID = '''' \<or> logs = [] \<or> userIDs = [] then returnE logs
      else bindE (tryE (q_select e (platform_bindings CodeForces userIDs))) (\<lambda>r.
        case r of
          Inl _ \<Rightarrow> returnE logs
        | Inr ps \<Rightarrow>
            let handleByUser = bound_names normalizeCodeforcesHandle ps in
            if \<forall>p \<in> set ps. normalizeCodeforcesHandle (p_Username p) = '''' then returnE logs
            else bindE (tryE (fetchCodeforcesOfficialRankMap e contestID)) (\<lambda>m.
              case m of
                Inl _ \<Rightarrow> returnE logs
              | Inr rankByHandle \<Rightarrow>
                  if rankByHandle = [] then returnE logs
                  else returnE (map (set_codeforces_rank handleByUser rankByHandle) logs))))"

section \<open>The matrix of a contest\<close>

definition loadContestSubmissions ::
    "'x env_scheme \<Rightarrow> string \<Rightarrow> string \<Rightarrow> int list \<Rightarrow> time \<Rightarrow> time \<Rightarrow> ('y cdb_scheme, 'e, SubmitLog list) act" where
  "loadContestSubmissions e platform contestID userIDs start end =
     (if userIDs = [] then returnE []
      else bindE (tryE (q_select e (\<lambda>d. sort_key s_Time (filter (\<lambda>s. ToLower (s_Platform s) = ToLower platform \<and>
             s_Contest s = contestID \<and> s_UserID s \<in> set userIDs) (rows (submits d)))))) (\<lambda>r.
        case r of
          Inl _ \<Rightarrow> returnE []
        | Inr submissions \<Rightarrow>
            if submissions \<noteq> [] \<or> start = zero_time \<or> end = zero_time \<or> \<not> start < end then returnE submissions
            else bindE (tryE (q_select e (\<lambda>d. sort_key s_Time (filter (\<lambda>s. ToLower (s_Platform s) = ToLower platform \<and>
                   s_UserID s \<in> set userIDs \<and> start \<le> s_Time s \<and> s_Time s < end) (rows (submits d)))))) (\<lambda>r2.
              returnE (case r2 of Inl _ \<Rightarrow> [] | Inr ss \<Rightarrow> ss))))"

record ProblemColumn =
  pl_Index :: string
  pl_Name :: string
  pl_ProblemKey :: string
  pl_ProblemUrl :: string
  pl_ContestAccepted :: int
  pl_ContestAttempted :: int
  pl_UpsolveAccepted :: int

record contestMatrixResult =
  mr_Problems :: "ProblemColumn list"
  mr_ResultsByUser :: "int \<Rightarrow> ProblemResult list"
  mr_PenaltyByUser :: "int \<Rightarrow> int"
  mr_ContestAcCountByUser :: "int \<Rightarrow> int"
  mr_DegradedReason :: string

definition no_matrix :: contestMatrixResult where
  "no_matrix = \<lparr>mr_Problems = [], mr_ResultsByUser = (\<lambda>_. []), mr_PenaltyByUser = (\<lambda>_. 0), mr_ContestAcCountByUser = (\<lambda>_. 0),
     mr_DegradedReason = ''''\<rparr>"

text \<open>What a platform's page changes: the window, the problems and the reason for a degraded answer.\<close>

type_synonym official = "time \<times> time \<times> contestProblemMeta list \<times> string"

definition with_official ::
    "bool \<Rightarrow> (gerr, atCoderMatrixMeta) kact \<Rightarrow> string \<Rightarrow> official \<Rightarrow> ('e, official) kact" where
  "with_official applies fetch reason = (\<lambda>(start, end, problems, degraded).
     if \<not> applies then returnE (start, end, problems, degraded)
     else bindE (tryE fetch) (\<lambda>r. returnE (case r of
         Inr meta \<Rightarrow> (if mm_Start meta \<noteq> zero_time then mm_Start meta else start,
                      if mm_End meta \<noteq> zero_time then mm_End meta else end, mm_Problems meta, degraded)
       | Inl _ \<Rightarrow> (start, end, problems, if degraded = '''' then reason else degraded))))"

definition problem_column :: "contest_totals \<Rightarrow> contestProblemMeta \<Rightarrow> ProblemColumn" where
  "problem_column t p =
     (let stat = ct_stats t (pm_Key p) in
      \<lparr>pl_Index = pm_Index p, pl_Name = pm_Name p, pl_ProblemKey = pm_Key p, pl_ProblemUrl = pm_URL p,
       pl_ContestAccepted = i32 (cs_contestAccepted stat), pl_ContestAttempted = i32 (cs_contestAttempted stat),
       pl_UpsolveAccepted = i32 (cs_upsolveAccepted stat)\<rparr>)"

text \<open>The part after the pages: \<open>None\<close> when filling up the problems does not end.\<close>

definition assemble_matrix ::
    "ContestLog \<Rightarrow> int list \<Rightarrow> int list \<Rightarrow> official \<Rightarrow> SubmitLog list \<Rightarrow> contestMatrixResult option" where
  "assemble_matrix contest pageUserIDs allUserIDs = (\<lambda>(start, end, official_problems, degraded) submissions.
     let hasReliableWindow = (start \<noteq> zero_time \<and> end \<noteq> zero_time \<and> start < end);
         reason = (if \<not> hasReliableWindow \<and> degraded = '''' then ''the official end of the contest is missing'' else degraded);
         metas = (if isContestPlatform (k_Platform contest) NowCoder \<and> official_problems = [] \<and> 0 < k_TotalCount contest
                  then synthesizeNowCoderProblems (k_ContestId contest) (k_TotalCount contest) submissions
                  else Some official_problems)
     in case metas of
          None \<Rightarrow> None
        | Some metaProblems \<Rightarrow>
            let problems = normalizeContestProblems (k_Platform contest) (k_ContestId contest) metaProblems submissions;
                calculated = calculateContestProblemMatrix start end hasReliableWindow problems submissions pageUserIDs allUserIDs
            in Some \<lparr>mr_Problems = map (problem_column (cc_totals calculated)) problems,
                 mr_ResultsByUser = cc_resultsByUser calculated, mr_PenaltyByUser = ct_penalty (cc_totals calculated),
                 mr_ContestAcCountByUser = ct_acCount (cc_totals calculated), mr_DegradedReason = reason\<rparr>)"

definition buildContestMatrix ::
    "'x contest_env_scheme \<Rightarrow> ContestLog \<Rightarrow> ContestLog list \<Rightarrow> ContestLog list \<Rightarrow> ('e, contestMatrixResult option) kact" where
  "buildContestMatrix e contest pageLogs allLogs =
     (if pageLogs = [] \<or> k_ContestId contest = '''' \<or> k_Platform contest = '''' then returnE (Some no_matrix)
      else bindE (with_official (isContestPlatform (k_Platform contest) AtCoder) (fetchAtCoderMatrixMeta e (k_ContestId contest))
             ''AtCoder page missing'' (k_Time contest, k_EndTime contest, [], '''')) (\<lambda>o1.
        bindE (with_official (isContestPlatform (k_Platform contest) CodeForces) (fetchCodeforcesMatrixMeta e (k_ContestId contest))
             ''Codeforces page missing'' o1) (\<lambda>o2.
        bindE (with_official (isContestPlatform (k_Platform contest) NowCoder) (fetchNowCoderMatrixMeta e (k_ContestId contest))
             ''NowCoder page missing'' o2) (\<lambda>o3.
        bindE (loadContestSubmissions e (k_Platform contest) (k_ContestId contest) (collectContestUserIDs allLogs) (fst o3) (fst (snd o3))) (\<lambda>submissions.
        returnE (assemble_matrix contest (collectContestUserIDs pageLogs) (collectContestUserIDs allLogs) o3 submissions))))))"

section \<open>Handlers\<close>

definition unixOrZero :: "time \<Rightarrow> int" where
  "unixOrZero v = (if v = zero_time then 0 else Unix v)"

record ContestItem =
  ci_Id :: nat
  ci_Platform :: string
  ci_ContestId :: string
  ci_ContestName :: string
  ci_ContestUrl :: string
  ci_TotalCount :: int
  ci_Time :: int
  ci_EndTime :: int

definition contest_item :: "ContestLog \<Rightarrow> ContestItem" where
  "contest_item v =
     \<lparr>ci_Id = ID v mod 4294967296, ci_Platform = k_Platform v, ci_ContestId = k_ContestId v, ci_ContestName = k_ContestName v,
      ci_ContestUrl = k_ContestUrl v, ci_TotalCount = i32 (k_TotalCount v), ci_Time = unixOrZero (k_Time v), ci_EndTime = unixOrZero (k_EndTime v)\<rparr>"

definition GetContestList :: "'x contest_env_scheme \<Rightarrow> int \<Rightarrow> int \<Rightarrow> int \<Rightarrow> string \<Rightarrow> (kerr, ContestItem list \<times> int) kact" where
  "GetContestList e userId offset limit platform =
     bindE (withErr (\<lambda>er. internal er) (dal_GetContestList e userId offset limit platform)) (\<lambda>(logs, count).
     returnE (map contest_item logs, count))"

definition contest_less :: "ContestLog \<Rightarrow> ContestLog \<Rightarrow> bool" where
  "contest_less a b =
     (let leftRanked = (0 < k_Rank a); rightRanked = (0 < k_Rank b) in
      if leftRanked \<noteq> rightRanked then leftRanked
      else if k_Rank a \<noteq> k_Rank b then
        if k_Rank a \<le> 0 then False else if k_Rank b \<le> 0 then True else k_Rank a < k_Rank b
      else if k_AcCount a \<noteq> k_AcCount b then k_AcCount b < k_AcCount a
      else if k_TotalCount a \<noteq> k_TotalCount b then k_TotalCount b < k_TotalCount a
      else k_UserID a < k_UserID b)"

definition sortContestLogs :: "ContestLog list \<Rightarrow> ContestLog list" where
  "sortContestLogs = SliceStable contest_less"

text \<open>\<open>None\<close> is the panic of a slice whose end, computed with wrap-around, lies before its start.\<close>

definition paginateContestLogs :: "ContestLog list \<Rightarrow> int \<Rightarrow> int \<Rightarrow> ContestLog list option" where
  "paginateContestLogs logs offset limit =
     (let start = (if offset < 0 then 0 else offset);
          lim = (if limit \<le> 0 then int (length logs) else limit)
      in if int (length logs) \<le> start then Some []
         else let stop = i64 (start + lim);
                  end = (if int (length logs) < stop then int (length logs) else stop)
           in if end < start then None else Some (take (nat end - nat start) (drop (nat start) logs)))"

record RankingItem =
  ri_Rank :: int
  ri_UserId :: int
  ri_Username :: string
  ri_Name :: string
  ri_Avatar :: string
  ri_AcCount :: int
  ri_TotalCount :: int
  ri_Penalty :: int
  ri_ProblemResults :: "ProblemResult list"
  ri_GroupId :: int

record RankingRes =
  rr_Contest :: ContestItem
  rr_Data :: "RankingItem list"
  rr_Total :: int
  rr_Problems :: "ProblemColumn list"
  rr_DegradedReason :: string

text \<open>The ids are asked in the order of a Go map, which is not specified; here the one of the list.\<close>

definition fetchUserNames :: "'x contest_env_scheme \<Rightarrow> bool \<Rightarrow> ContestLog list \<Rightarrow> ('e, int \<Rightarrow> UserProfile option) kact" where
  "fetchUserNames e connected logs =
     (if \<not> connected \<or> logs = [] then returnE Map.empty
      else bindE (rpcE (\<lambda>n. GetByIds e n (collectContestUserIDs logs))) (\<lambda>r.
        returnE (case r of
            Inl _ \<Rightarrow> Map.empty
          | Inr profiles \<Rightarrow> foldl (\<lambda>m p. m(up_UserId p \<mapsto> p)) Map.empty profiles)))"

definition ranking_item :: "contestMatrixResult \<Rightarrow> (int \<Rightarrow> UserProfile option) \<Rightarrow> ContestLog \<Rightarrow> RankingItem" where
  "ranking_item matrix nameMap v =
     (let u = nameMap (k_UserID v); str = (\<lambda>f. case u of None \<Rightarrow> '''' | Some p \<Rightarrow> f p) in
      \<lparr>ri_Rank = k_Rank v, ri_UserId = k_UserID v, ri_Username = str up_Username, ri_Name = str up_Name, ri_Avatar = str up_Avatar,
       ri_AcCount = (if mr_Problems matrix \<noteq> [] then mr_ContestAcCountByUser matrix (k_UserID v) else i32 (k_AcCount v)),
       ri_TotalCount = i32 (k_TotalCount v), ri_Penalty = mr_PenaltyByUser matrix (k_UserID v),
       ri_ProblemResults = mr_ResultsByUser matrix (k_UserID v), ri_GroupId = (case u of None \<Rightarrow> 0 | Some p \<Rightarrow> up_GroupId p)\<rparr>)"

definition zero_contest :: ContestLog where
  "zero_contest = \<lparr>ID = 0, k_Platform = '''', k_UserID = 0, k_ContestId = '''', k_ContestName = '''', k_ContestUrl = '''',
     k_Rank = 0, k_TotalCount = 0, k_AcCount = 0, k_Time = zero_time, k_EndTime = zero_time\<rparr>"

text \<open>The recovery middleware answers a panic with this error.\<close>

definition recovered :: kerr where
  "recovered = InternalServer ''UNKNOWN'' ''unknown request error''"

definition paginated :: "ContestLog list \<Rightarrow> int \<Rightarrow> int \<Rightarrow> (kerr, ContestLog list) kact" where
  "paginated logs offset limit =
     (case paginateContestLogs (sortContestLogs logs) offset limit of None \<Rightarrow> failE recovered | Some page \<Rightarrow> returnE page)"

text \<open>The page of the ranking, all participants and their number.\<close>

definition ranking_page ::
    "'x contest_env_scheme \<Rightarrow> ContestLog \<Rightarrow> int list \<Rightarrow> int \<Rightarrow> int \<Rightarrow> (kerr, ContestLog list \<times> ContestLog list \<times> int) kact" where
  "ranking_page e contest userIds offset limit =
     bindE (withErr (\<lambda>er. internal er) (GetContestParticipants e (k_ContestId contest) (k_Platform contest) userIds)) (\<lambda>allLogs.
     if isContestPlatform (k_Platform contest) AtCoder then
       bindE (applyAtCoderOfficialRanks e (k_ContestId contest) allLogs) (\<lambda>ranked.
       bindE (paginated ranked offset limit) (\<lambda>logs. returnE (logs, sortContestLogs ranked, int (length allLogs))))
     else if isContestPlatform (k_Platform contest) CodeForces then
       bindE (applyCodeforcesOfficialRanks e (k_ContestId contest) allLogs) (\<lambda>ranked.
       bindE (paginated ranked offset limit) (\<lambda>logs. returnE (logs, sortContestLogs ranked, int (length allLogs))))
     else
       bindE (withErr (\<lambda>er. internal er) (dal_GetContestRanking e (k_ContestId contest) (k_Platform contest) offset limit userIds)) (\<lambda>(logs, count).
       returnE (logs, allLogs, count)))"

text \<open>The answer \<open>None\<close> says that the request never returns.\<close>

definition GetContestRanking ::
    "'x contest_env_scheme \<Rightarrow> int \<Rightarrow> int option \<Rightarrow> int \<Rightarrow> int \<Rightarrow> (kerr, RankingRes option) kact" where
  "GetContestRanking e contestRowId groupId offset limit =
     bindE (tryE (q_first e contests (\<lambda>k. int (ID k) = contestRowId))) (\<lambda>found.
     let contest = (case found of Inr k \<Rightarrow> k | Inl _ \<Rightarrow> zero_contest); proto = contest_item contest in
     bindE (rpcE (userRPC e)) (\<lambda>dial.
     let connected = (dial = None) in
     bindE (case groupId of
         Some g \<Rightarrow> if connected
           then bindE (rpcE (\<lambda>n. GetUserIdsByGroup e n g)) (\<lambda>r. case r of
               Inl _ \<Rightarrow> failE (InternalServer ''internal error'' ''cannot get the users of the group'')
             | Inr ids \<Rightarrow> returnE (Some ids))
           else returnE None
       | None \<Rightarrow> returnE None) (\<lambda>members.
     if members = Some [] then
       returnE (Some \<lparr>rr_Contest = proto, rr_Data = [], rr_Total = 0, rr_Problems = [], rr_DegradedReason = ''''\<rparr>)
     else
       bindE (ranking_page e contest (case members of Some ids \<Rightarrow> ids | None \<Rightarrow> []) offset limit) (\<lambda>(logs, allLogs, count).
       bindE (fetchUserNames e connected logs) (\<lambda>nameMap.
       bindE (buildContestMatrix e contest logs allLogs) (\<lambda>built.
       returnE (map_option (\<lambda>matrix.
         \<lparr>rr_Contest = (if mr_Problems matrix \<noteq> [] then proto\<lparr>ci_TotalCount := i32 (int (length (mr_Problems matrix)))\<rparr> else proto),
          rr_Data = map (ranking_item matrix nameMap) logs, rr_Total = count, rr_Problems = mr_Problems matrix,
          rr_DegradedReason = mr_DegradedReason matrix\<rparr>) built)))))))"

end
