(* ===== verification/ContestFacts.thy ===== *)
theory ContestFacts
  imports ContestProblems "HOL-Library.Multiset"
begin

text \<open>
  Facts about contests: the stable sort, the list of problems, when filling it up ends, and the
  matrix as a function of the submissions of each user to each problem.
\<close>

section \<open>The stable sort\<close>

lemma sift_split: "sift lt x zs = takeWhile (lt x) zs @ x # dropWhile (lt x) zs"
  by (induction zs) auto

lemma SliceStable_snoc:
  "SliceStable lt (xs @ [x]) = rev (dropWhile (lt x) (rev (SliceStable lt xs))) @ x # rev (takeWhile (lt x) (rev (SliceStable lt xs)))"
  by (simp add: SliceStable_def sift_split)

lemma mset_SliceStable [simp]: "mset (SliceStable lt xs) = mset xs"
proof (induction xs rule: rev_induct)
  case (snoc x xs)
  have "mset (takeWhile (lt x) ys) + mset (dropWhile (lt x) ys) = mset ys" for ys
    by (metis mset_append takeWhile_dropWhile_id)
  from this [of "rev (SliceStable lt xs)"] snoc show ?case by (simp add: SliceStable_snoc ac_simps)
qed (simp add: SliceStable_def)

lemma set_SliceStable [simp]: "set (SliceStable lt xs) = set xs"
  by (metis mset_SliceStable set_mset_mset)

lemma SliceStable_sort_key:
  fixes k :: "'a \<Rightarrow> 'k :: linorder"
  assumes "\<And>x y. x \<in> set xs \<Longrightarrow> y \<in> set xs \<Longrightarrow> lt x y \<longleftrightarrow> k x < k y"
  shows "SliceStable lt xs = sort_key k xs"
proof -
  have "sorted (map k (SliceStable lt xs)) \<and> (\<forall>v. filter (\<lambda>y. v = k y) (SliceStable lt xs) = filter (\<lambda>y. v = k y) xs)"
    using assms
  proof (induction xs rule: rev_induct)
    case (snoc x xs)
    let ?ys = "SliceStable lt xs"
    define T where "T = rev (takeWhile (lt x) (rev ?ys))"
    define D where "D = rev (dropWhile (lt x) (rev ?ys))"
    have ys: "?ys = D @ T" unfolding T_def D_def by (metis rev_append rev_rev_ident takeWhile_dropWhile_id)
    have s: "sorted (map k (D @ T))" and f: "filter (\<lambda>y. v = k y) (D @ T) = filter (\<lambda>y. v = k y) xs" for v
      using snoc.IH snoc.prems by (auto simp flip: ys)
    have lt: "lt x y \<longleftrightarrow> k x < k y" if "y \<in> set (D @ T)" for y
      using snoc.prems that by (metis ys set_SliceStable set_append UnI1 UnI2 list.set_intros(1))
    have t: "k x < k y" if "y \<in> set T" for y
      using that lt [of y] by (auto simp: T_def dest: set_takeWhileD)
    have d: "k y \<le> k x" if "y \<in> set D" for y
    proof -
      from that obtain z zs where z: "dropWhile (lt x) (rev ?ys) = z # zs" by (cases "dropWhile (lt x) (rev ?ys)") (auto simp: D_def)
      then have "\<not> lt x z" by (metis dropWhile_eq_Cons_conv)
      moreover have D: "D = rev zs @ [z]" by (simp add: D_def z)
      ultimately have "k z \<le> k x" using lt [of z] by simp
      moreover have "k y \<le> k z" using that s by (auto simp: D sorted_append)
      ultimately show ?thesis by simp
    qed
    have r: "SliceStable lt (xs @ [x]) = D @ x # T" by (simp add: SliceStable_snoc D_def T_def)
    have "sorted (map k (D @ x # T))"
      using s d t by (auto simp: sorted_append intro: order.trans less_imp_le)
    moreover have "filter (\<lambda>y. v = k y) (D @ x # T) = filter (\<lambda>y. v = k y) (xs @ [x])" for v
    proof (cases "v = k x")
      case True
      then have "filter (\<lambda>y. v = k y) T = []" using t by (force simp: filter_empty_conv)
      with True f [of v] show ?thesis by simp
    next
      case False
      with f [of v] show ?thesis by simp
    qed
    ultimately show ?case unfolding r by blast
  qed (simp add: SliceStable_def)
  then show ?thesis by (intro properties_for_sort_key [symmetric]) auto
qed

section \<open>The list of problems\<close>

text \<open>\<open>seen\<close> is always the set of keys of the list.\<close>

definition listed_ok :: "string set \<times> contestProblemMeta list \<Rightarrow> bool" where
  "listed_ok = (\<lambda>(seen, problems). seen = set (map pm_Key problems) \<and> distinct (map pm_Key problems) \<and> '''' \<notin> seen)"

lemma add_meta_ok: "listed_ok s \<Longrightarrow> listed_ok (add_meta p c s m)"
  by (auto simp: listed_ok_def add_meta_def Let_def split: prod.splits)

lemma add_submitted_ok: "listed_ok s \<Longrightarrow> listed_ok (add_submitted p c s m)"
  by (auto simp: listed_ok_def add_submitted_def Let_def split: prod.splits)

lemma foldl_invariant: "I s \<Longrightarrow> (\<And>s x. I s \<Longrightarrow> I (f s x)) \<Longrightarrow> I (foldl f s xs)"
  by (induction xs arbitrary: s) auto

lemma add_submitted_keys:
  "fst s \<subseteq> fst (add_submitted p c s x)"
  "submission_key x \<noteq> '''' \<Longrightarrow> submission_key x \<in> fst (add_submitted p c s x)"
  by (auto simp: add_submitted_def Let_def split: prod.splits)

lemma foldl_submitted_keys:
  "fst s \<union> (submission_key ` set subs - {''''}) \<subseteq> fst (foldl (add_submitted p c) s subs)"
proof (induction subs arbitrary: s)
  case (Cons x subs)
  have "fst s \<union> (submission_key ` set (x # subs) - {''''}) \<subseteq>
      fst (add_submitted p c s x) \<union> (submission_key ` set subs - {''''})"
    using add_submitted_keys(1) [of s p c x] add_submitted_keys(2) [of x p c s] by (cases "submission_key x = ''''") auto
  with Cons.IH [of "add_submitted p c s x"] show ?case by (simp only: foldl_Cons)
qed simp

text \<open>Every problem that was submitted to has a column, no key has two, and official problems keep their
  places in front.\<close>

lemma normalize_columns:
  "distinct (map pm_Key (normalizeContestProblems p c metas subs))"
  "'''' \<notin> set (map pm_Key (normalizeContestProblems p c metas subs))"
  "submission_key ` set subs - {''''} \<subseteq> set (map pm_Key (normalizeContestProblems p c metas subs))"
proof -
  define r where "r = foldl (add_submitted p c) (foldl (add_meta p c) ({}, []) metas) subs"
  have "listed_ok (foldl (add_meta p c) ({}, []) metas)"
    by (rule foldl_invariant [of listed_ok]) (simp add: listed_ok_def, rule add_meta_ok)
  then have ok: "listed_ok r" unfolding r_def by (rule foldl_invariant [of listed_ok]) (rule add_submitted_ok)
  have keys: "submission_key ` set subs - {''''} \<subseteq> fst r" unfolding r_def using foldl_submitted_keys by blast
  have n: "normalizeContestProblems p c metas subs = (if metas = [] then by_natural_order (snd r) else snd r)"
    by (simp add: normalizeContestProblems_def r_def)
  have m: "mset (map pm_Key (by_natural_order ps)) = mset (map pm_Key ps)" for ps by (simp add: by_natural_order_def)
  have "mset (map pm_Key (normalizeContestProblems p c metas subs)) = mset (map pm_Key (snd r))" using m by (simp add: n)
  then have "distinct (map pm_Key (normalizeContestProblems p c metas subs)) = distinct (map pm_Key (snd r))"
    "set (map pm_Key (normalizeContestProblems p c metas subs)) = set (map pm_Key (snd r))"
    by (metis mset_eq_imp_distinct_iff, metis mset_eq_setD)
  with ok keys show "distinct (map pm_Key (normalizeContestProblems p c metas subs))"
    "'''' \<notin> set (map pm_Key (normalizeContestProblems p c metas subs))"
    "submission_key ` set subs - {''''} \<subseteq> set (map pm_Key (normalizeContestProblems p c metas subs))"
    by (auto simp: listed_ok_def split: prod.splits)
qed

section \<open>Filling up the problems\<close>

text \<open>A key that was seen at the current length is never left.\<close>

lemma fill_stuck:
  "length problems < total_n \<Longrightarrow> filler_key c (length problems) \<in> seen \<Longrightarrow> fill_problems c total_n seen problems = None"
proof -
  have "fill_problems c n seen ps = Some r \<Longrightarrow> length ps < n \<longrightarrow> filler_key c (length ps) \<notin> seen" for n seen ps r
    by (rule fill_problems.raw_induct [of "\<lambda>c n seen ps r. length ps < n \<longrightarrow> filler_key c (length ps) \<notin> seen"])
      (auto split: if_splits)
  then show "length problems < total_n \<Longrightarrow> filler_key c (length problems) \<in> seen \<Longrightarrow> ?thesis" by (cases "fill_problems c total_n seen problems") auto
qed

lemma letter_index_eq: "letter_index m = letter_index n \<longleftrightarrow> m mod 26 = n mod 26"
proof -
  have "of_char (char_of (65 + m mod 26) :: char) = (65 + m mod 26 :: nat)" for m :: nat
    by (simp add: of_char_of)
  then show ?thesis unfolding letter_index_def by (metis add_left_cancel list.inject)
qed

lemma filler_key_eq: "filler_key c m = filler_key c n \<longleftrightarrow> m mod 26 = n mod 26"
  by (simp add: filler_key_def letter_index_eq)

text \<open>From a list of \<open>k\<close> problems without filler keys, up to \<open>26\<close> letters can be added.\<close>

lemma fill_problems_result:
  assumes "k \<le> length ps" and "length ps \<le> k + 26" and "\<And>n. filler_key c n \<in> seen \<longleftrightarrow> (\<exists>i. k \<le> i \<and> i < length ps \<and> i mod 26 = n mod 26)"
  shows "fill_problems c total_n seen ps =
    (if total_n \<le> k + 26 then Some (ps @ map (filler c) [length ps..<total_n]) else None)"
  using assms
proof (induction "total_n - length ps" arbitrary: ps seen rule: less_induct)
  case less
  show ?case
  proof (cases "length ps < total_n")
    case False
    with less.prems(2) show ?thesis by (simp add: fill_problems.simps [of c total_n])
  next
    case True
    have new: "filler_key c (length ps) \<in> seen \<longleftrightarrow> length ps = k + 26"
    proof
      assume "filler_key c (length ps) \<in> seen"
      then obtain i where i: "k \<le> i" "i < length ps" "i mod 26 = length ps mod 26" using less.prems(3) by blast
      then have "26 dvd length ps - i" by (metis mod_eq_dvd_iff_nat less_imp_le)
      then have "26 \<le> length ps - i" using i by (intro dvd_imp_le) auto
      with i less.prems(2) show "length ps = k + 26" by linarith
    next
      assume "length ps = k + 26"
      then show "filler_key c (length ps) \<in> seen" using less.prems(3) by (auto intro!: exI [of _ k])
    qed
    show ?thesis
    proof (cases "length ps = k + 26")
      case stuck: True
      with True new show ?thesis by (simp add: fill_stuck)
    next
      case False
      with new less.prems have l: "filler_key c (length ps) \<notin> seen" "Suc (length ps) \<le> k + 26" by auto
      have s: "filler_key c n \<in> insert (filler_key c (length ps)) seen \<longleftrightarrow>
          (\<exists>i. k \<le> i \<and> i < length (ps @ [filler c (length ps)]) \<and> i mod 26 = n mod 26)" for n
        using less.prems(1,3) by (auto simp: filler_key_eq less_Suc_eq)
      have "fill_problems c total_n seen ps =
          fill_problems c total_n (insert (filler_key c (length ps)) seen) (ps @ [filler c (length ps)])"
        using True l by (subst fill_problems.simps) simp
      also have "\<dots> = (if total_n \<le> k + 26
          then Some ((ps @ [filler c (length ps)]) @ map (filler c) [length (ps @ [filler c (length ps)])..<total_n]) else None)"
        using True l less.prems(1) by (intro less.hyps s) auto
      also have "\<dots> = (if total_n \<le> k + 26 then Some (ps @ map (filler c) [length ps..<total_n]) else None)"
        using True by (simp add: upt_rec [of "length ps"])
      finally show ?thesis .
    qed
  qed
qed

definition problem_names :: "SubmitLog list \<Rightarrow> string set" where
  "problem_names subs = (\<lambda>s. TrimSpace (s_Problem s)) ` set subs - {''''}"

lemma submitted_problems_spec:
  assumes "submitted_problems c n subs seen ps = (seen', ps')" and "seen = set (map pm_Key ps)" and "distinct (map pm_Key ps)"
    and "length ps < n"
  shows "seen' = set (map pm_Key ps') \<and> distinct (map pm_Key ps') \<and> seen' \<subseteq> seen \<union> problem_names subs \<and>
    length ps' = min n (card (seen \<union> problem_names subs))"
  using assms
proof (induction c n subs seen ps rule: submitted_problems.induct)
  case (1 c n seen ps)
  then show ?case using distinct_card [of "map pm_Key ps"] by (auto simp: problem_names_def)
next
  case (2 c n sub subs seen ps)
  let ?k = "TrimSpace (s_Problem sub)"
  show ?case
  proof (cases "?k = '''' \<or> ?k \<in> seen")
    case True
    then have u: "seen \<union> problem_names (sub # subs) = seen \<union> problem_names subs" by (auto simp: problem_names_def)
    have "submitted_problems c n subs seen ps = (seen', ps')" using 2(3) True by (simp add: Let_def)
    from 2(1) [OF refl True this 2(4-6)] show ?thesis unfolding u .
  next
    case False
    then have u: "seen \<union> problem_names (sub # subs) = insert ?k seen \<union> problem_names subs" by (auto simp: problem_names_def)
    define ix where "ix = deriveProblemIndex NowCoder c ?k (length ps)"
    define qs where "qs = ps @ [\<lparr>pm_Key = ?k, pm_Index = ix, pm_Name = ?k, pm_URL = nowCoderProblemURL c ix,
      pm_Aliases = nowCoderProblemAliases ix ?k\<rparr>]"
    have q: "insert ?k seen = set (map pm_Key qs)" "distinct (map pm_Key qs)" "length qs = Suc (length ps)"
      using 2(4,5) False by (auto simp: qs_def)
    have c: "card (insert ?k seen) = length qs" using q distinct_card [of "map pm_Key qs"] by simp
    have fin: "finite (insert ?k seen \<union> problem_names subs)" using q(1) by (auto simp: problem_names_def)
    have st: "submitted_problems c n (sub # subs) seen ps =
        (if n \<le> length qs then (insert ?k seen, qs) else submitted_problems c n subs (insert ?k seen) qs)"
      using False by (simp add: Let_def qs_def ix_def)
    show ?thesis
    proof (cases "n \<le> length qs")
      case True
      with c fin have "n \<le> card (insert ?k seen \<union> problem_names subs)" by (metis Un_upper1 card_mono le_trans)
      with True 2(3,6) q st show ?thesis unfolding u by auto
    next
      case more: False
      have e: "submitted_problems c n subs (insert ?k seen) qs = (seen', ps')" using 2(3) st more by simp
      have l: "length qs < n" using more by simp
      from 2(2) [OF refl False refl qs_def [unfolded ix_def] more e q(1,2) l] show ?thesis unfolding u .
    qed
  qed
qed

text \<open>When the problems of a contest can be made up: at most 26 more than were submitted to.\<close>

lemma synthesize_result:
  assumes "0 < n" and "\<And>k. filler_key c k \<notin> problem_names subs"
  shows "\<exists>ps. length ps = min (nat n) (card (problem_names subs)) \<and> distinct (map pm_Key ps) \<and>
    set (map pm_Key ps) \<subseteq> problem_names subs \<and>
    synthesizeNowCoderProblems c n subs =
      (if nat n \<le> length ps + 26 then Some (ps @ map (filler c) [length ps..<nat n]) else None)"
proof -
  obtain seen ps where s: "submitted_problems c (nat n) subs {} [] = (seen, ps)" by fastforce
  have p: "seen = set (map pm_Key ps)" "distinct (map pm_Key ps)" "seen \<subseteq> problem_names subs"
    "length ps = min (nat n) (card (problem_names subs))"
    using submitted_problems_spec [OF s] assms(1) by auto
  have "fill_problems c (nat n) seen ps =
      (if nat n \<le> length ps + 26 then Some (ps @ map (filler c) [length ps..<nat n]) else None)"
    using p(3) assms(2) by (intro fill_problems_result) auto
  with s p assms(1) show ?thesis by (intro exI [of _ ps]) (simp add: synthesizeNowCoderProblems_def)
qed

lemma distinct_filler_keys: "b \<le> a + 26 \<Longrightarrow> distinct (map (filler_key c) [a..<b])"
proof -
  assume b: "b \<le> a + 26"
  have "m = n" if "a \<le> m" "m < b" "a \<le> n" "n < b" "m mod 26 = n mod 26" for m n
  proof (rule ccontr)
    assume "m \<noteq> n"
    then consider "m < n" | "n < m" by linarith
    then show False
    proof cases
      case 1
      then have "26 dvd n - m" using that by (metis mod_eq_dvd_iff_nat less_imp_le)
      with 1 have "26 \<le> n - m" by (intro dvd_imp_le) auto
      with that b show False by linarith
    next
      case 2
      then have "26 dvd m - n" using that by (metis mod_eq_dvd_iff_nat less_imp_le)
      with 2 have "26 \<le> m - n" by (intro dvd_imp_le) auto
      with that b show False by linarith
    qed
  qed
  then show ?thesis by (auto simp: distinct_map filler_key_eq inj_on_def)
qed

section \<open>One cell of the matrix\<close>

definition during :: "time \<Rightarrow> time \<Rightarrow> bool \<Rightarrow> SubmitLog \<Rightarrow> bool" where
  "during start end reliable_window s \<longleftrightarrow> (reliable_window \<longrightarrow> start \<le> s_Time s \<and> s_Time s < end)"

definition afterwards :: "time \<Rightarrow> bool \<Rightarrow> SubmitLog \<Rightarrow> bool" where
  "afterwards end reliable_window s \<longleftrightarrow> reliable_window \<and> end \<le> s_Time s"

abbreviation "accepted_sub s \<equiv> IsAcceptedStatus (s_Status s)"

text \<open>What the matrix shows of the submissions \<open>ss\<close> of a user to a problem, in the order of time.\<close>

definition cell :: "time \<Rightarrow> time \<Rightarrow> bool \<Rightarrow> SubmitLog list \<Rightarrow> problemUserState" where
  "cell start end rel ss =
     (let ins = filter (during start end rel) ss;
          outs = filter (afterwards end rel) ss;
          solved = (\<exists>s \<in> set ins. accepted_sub s);
          wrong = (\<lambda>xs. i32 (int (length (takeWhile (\<lambda>s. \<not> accepted_sub s) xs))))
      in \<lparr>us_hasContestSubmit = (ins \<noteq> []), us_hasContestAC = solved,
          us_contestMinute = (case find accepted_sub ins of None \<Rightarrow> 0 | Some s \<Rightarrow> elapsedMinute start (s_Time s)),
          us_wrongBeforeAC = wrong ins, us_contestWrong = wrong ins,
          us_upsolveAC = (\<not> solved \<and> (\<exists>s \<in> set outs. accepted_sub s)),
          us_upsolveWrong = (if solved then 0 else wrong outs)\<rparr>)"

lemma takeWhile_snoc: "takeWhile P (xs @ [x]) = (if \<forall>y \<in> set xs. P y then xs @ (if P x then [x] else []) else takeWhile P xs)"
  by (induction xs) auto

lemma find_snoc: "find P (xs @ [x]) = (if \<exists>y \<in> set xs. P y then find P xs else if P x then Some x else None)"
  by (induction xs) auto

lemma takeWhile_all: "\<forall>y \<in> set xs. P y \<Longrightarrow> takeWhile P xs = xs"
  by (simp add: takeWhile_eq_all_conv)

lemma during_not_after: "during start end rel s \<Longrightarrow> \<not> afterwards end rel s"
  by (auto simp: during_def afterwards_def)

lemma update_state_eq:
  "update_state start end rel s st =
     (if during start end rel s then
        if us_hasContestAC st then st\<lparr>us_hasContestSubmit := True\<rparr>
        else if accepted_sub s
        then st\<lparr>us_hasContestSubmit := True, us_hasContestAC := True, us_contestMinute := elapsedMinute start (s_Time s)\<rparr>
        else st\<lparr>us_hasContestSubmit := True, us_wrongBeforeAC := i32 (us_wrongBeforeAC st + 1),
                us_contestWrong := i32 (us_contestWrong st + 1)\<rparr>
      else if afterwards end rel s \<and> \<not> us_hasContestAC st \<and> \<not> us_upsolveAC st then
        if accepted_sub s then st\<lparr>us_upsolveAC := True\<rparr> else st\<lparr>us_upsolveWrong := i32 (us_upsolveWrong st + 1)\<rparr>
      else st)"
  by (simp add: update_state_def Let_def during_def afterwards_def)

text \<open>The loop computes the cell, provided the submissions come in the order of time.\<close>

lemma update_state_cell:
  assumes "sorted (map s_Time ss)"
  shows "foldl (\<lambda>st s. update_state start end rel s st) zero_state ss = cell start end rel ss"
  using assms
proof (induction ss rule: rev_induct)
  case Nil
  then show ?case by (simp add: cell_def zero_state_def)
next
  case (snoc s ss)
  let ?ins = "filter (during start end rel) ss" and ?outs = "filter (afterwards end rel) ss"
  have IH: "foldl (\<lambda>st s. update_state start end rel s st) zero_state ss = cell start end rel ss"
    using snoc by (simp add: sorted_append)
  have none: "?outs = []" if "during start end rel s"
    using that snoc.prems by (force simp: during_def afterwards_def sorted_append filter_empty_conv)
  have c: "foldl (\<lambda>st s. update_state start end rel s st) zero_state (ss @ [s]) = update_state start end rel s (cell start end rel ss)"
    by (simp add: IH)
  consider "during start end rel s" | "afterwards end rel s" "\<not> during start end rel s"
    | "\<not> during start end rel s" "\<not> afterwards end rel s" by blast
  then show ?case
  proof cases
    case 1
    then have "\<not> afterwards end rel s" by (rule during_not_after)
    note simps = update_state_eq cell_def Let_def takeWhile_snoc find_snoc
    show ?thesis
    proof (cases "\<exists>y \<in> set ?ins. accepted_sub y")
      case True
      with 1 \<open>\<not> afterwards end rel s\<close> none show ?thesis unfolding c by (auto simp: simps)
    next
      case False
      then have f: "find accepted_sub ?ins = None" by (auto simp: find_None_iff)
      from False have t: "takeWhile (\<lambda>s. \<not> accepted_sub s) ?ins = ?ins" by (intro takeWhile_all) auto
      show ?thesis
        unfolding c using 1 \<open>\<not> afterwards end rel s\<close> none False f
        by (cases "accepted_sub s") (simp_all add: simps t add.commute)
    qed
  next
    case 2
    then show ?thesis unfolding c
      by (auto simp: update_state_eq cell_def Let_def takeWhile_snoc takeWhile_all add.commute)
  next
    case 3
    then show ?thesis unfolding c
      by (simp add: update_state_eq cell_def Let_def)
  qed
qed

text \<open>The submissions that count for a user and a problem.\<close>

definition attempts :: "alias_map \<Rightarrow> SubmitLog list \<Rightarrow> int \<Rightarrow> string \<Rightarrow> SubmitLog list" where
  "attempts aliases subs u key =
     filter (\<lambda>s. s_UserID s = u \<and> canonicalProblemKey (submission_key s) aliases = key) subs"

lemma states_cell:
  assumes "key \<in> ks" and "sorted (map s_Time subs)"
  shows "foldl (record_submission start end rel ks aliases) (\<lambda>_. zero_state) subs (u, key) =
    cell start end rel (attempts aliases subs u key)"
proof -
  have "foldl (record_submission start end rel ks aliases) st subs (u, key) =
      foldl (\<lambda>st s. update_state start end rel s st) (st (u, key)) (attempts aliases subs u key)" for st
    using assms(1)
    by (induction subs arbitrary: st) (auto simp: attempts_def record_submission_def Let_def)
  moreover have "sorted (map s_Time (attempts aliases subs u key))"
    using assms(2) unfolding attempts_def by (rule sorted_filter)
  ultimately show ?thesis by (simp add: update_state_cell)
qed

section \<open>Totals of the matrix\<close>

definition bump :: "problemUserState \<Rightarrow> problemColumnStat \<Rightarrow> problemColumnStat" where
  "bump state stat =
     \<lparr>cs_contestAccepted = (if us_hasContestAC state then i64 (cs_contestAccepted stat + 1) else cs_contestAccepted stat),
      cs_contestAttempted = (if us_hasContestSubmit state then i64 (cs_contestAttempted stat + 1) else cs_contestAttempted stat),
      cs_upsolveAccepted = (if us_upsolveAC state then i64 (cs_upsolveAccepted stat + 1) else cs_upsolveAccepted stat)\<rparr>"

text \<open>The penalty of a solved problem.\<close>

definition penalty_of :: "problemUserState \<Rightarrow> int" where
  "penalty_of state = us_contestMinute state + us_wrongBeforeAC state * 20"

lemma bump_alt:
  "bump state stat =
     (let stat1 = (if us_hasContestSubmit state then stat\<lparr>cs_contestAttempted := i64 (cs_contestAttempted stat + 1)\<rparr> else stat);
          stat2 = (if us_hasContestAC state then stat1\<lparr>cs_contestAccepted := i64 (cs_contestAccepted stat1 + 1)\<rparr> else stat1)
      in if us_upsolveAC state then stat2\<lparr>cs_upsolveAccepted := i64 (cs_upsolveAccepted stat2 + 1)\<rparr> else stat2)"
  by (cases stat) (simp add: bump_def)

lemma count_cell_simps:
  "ct_stats (count_cell st u t p) = (ct_stats t)(pm_Key p := bump (st (u, pm_Key p)) (ct_stats t (pm_Key p)))"
  "ct_penalty (count_cell st u t p) = (if us_hasContestAC (st (u, pm_Key p))
     then (ct_penalty t)(u := i32 (ct_penalty t u + penalty_of (st (u, pm_Key p)))) else ct_penalty t)"
  "ct_acCount (count_cell st u t p) = (if us_hasContestAC (st (u, pm_Key p)) then (ct_acCount t)(u := i32 (ct_acCount t u + 1)) else ct_acCount t)"
  by (simp_all add: count_cell_def Let_def bump_alt penalty_of_def)

lemma count_row_others:
  "v \<noteq> u \<Longrightarrow> ct_penalty (foldl (count_cell st u) t ps) v = ct_penalty t v"
  "v \<noteq> u \<Longrightarrow> ct_acCount (foldl (count_cell st u) t ps) v = ct_acCount t v"
  by (induction ps arbitrary: t) (simp_all add: count_cell_simps)

lemma count_row:
  "i32 (ct_penalty t u) = ct_penalty t u \<Longrightarrow> ct_penalty (foldl (count_cell st u) t ps) u =
     i32 (ct_penalty t u + sum_list (map (\<lambda>p. penalty_of (st (u, pm_Key p))) (filter (\<lambda>p. us_hasContestAC (st (u, pm_Key p))) ps)))"
  "i32 (ct_acCount t u) = ct_acCount t u \<Longrightarrow> ct_acCount (foldl (count_cell st u) t ps) u =
     i32 (ct_acCount t u + int (length (filter (\<lambda>p. us_hasContestAC (st (u, pm_Key p))) ps)))"
proof -
  have i: "i32 (i32 x) = i32 x" for x using i32_arith(1) [of x 0] by simp
  show "i32 (ct_penalty t u) = ct_penalty t u \<Longrightarrow> ct_penalty (foldl (count_cell st u) t ps) u =
     i32 (ct_penalty t u + sum_list (map (\<lambda>p. penalty_of (st (u, pm_Key p))) (filter (\<lambda>p. us_hasContestAC (st (u, pm_Key p))) ps)))"
    by (induction ps arbitrary: t) (simp_all add: count_cell_simps i add.assoc)
  show "i32 (ct_acCount t u) = ct_acCount t u \<Longrightarrow> ct_acCount (foldl (count_cell st u) t ps) u =
     i32 (ct_acCount t u + int (length (filter (\<lambda>p. us_hasContestAC (st (u, pm_Key p))) ps)))"
    by (induction ps arbitrary: t) (simp_all add: count_cell_simps i add.assoc)
qed

lemma stats_row:
  assumes "distinct (map pm_Key ps)" and "key \<in> set (map pm_Key ps)"
  shows "ct_stats (foldl (count_cell st u) t ps) key = bump (st (u, key)) (ct_stats t key)"
proof -
  have other: "key \<notin> set (map pm_Key ps) \<Longrightarrow> ct_stats (foldl (count_cell st u) t ps) key = ct_stats t key" for t ps
    by (induction ps arbitrary: t) (simp_all add: count_cell_simps)
  show ?thesis using assms
  proof (induction ps arbitrary: t)
    case (Cons p ps)
    show ?case
    proof (cases "pm_Key p = key")
      case True
      with Cons.prems other [of ps] show ?thesis by (simp add: count_cell_simps)
    next
      case False
      with Cons.prems Cons.IH [of "count_cell st u t p"] show ?thesis by (simp add: count_cell_simps)
    qed
  qed simp
qed

text \<open>The sums of a user over the problems they solved, for users that occur once.\<close>

lemma totals_of_user:
  fixes st :: states and ps :: "contestProblemMeta list" and us :: "int list"
  assumes "distinct us" and "u \<in> set us"
  defines "tot \<equiv> foldl (\<lambda>t u. foldl (count_cell st u) t ps) no_totals us"
  defines "solved \<equiv> filter (\<lambda>p. us_hasContestAC (st (u, pm_Key p))) ps"
  shows "ct_penalty tot u = i32 (sum_list (map (\<lambda>p. penalty_of (st (u, pm_Key p))) solved))"
    and "ct_acCount tot u = i32 (int (length solved))"
proof -
  let ?step = "\<lambda>t u. foldl (count_cell st u) t ps"
  have out: "ct_penalty (foldl ?step t us) u = ct_penalty t u" "ct_acCount (foldl ?step t us) u = ct_acCount t u"
    if "u \<notin> set us" for t us
    using that by (induction us arbitrary: t) (auto simp: count_row_others)
  obtain a b where us: "us = a @ u # b" "u \<notin> set a" "u \<notin> set b" using assms(1,2) by (metis distinct.simps(2) distinct_append split_list not_distinct_conv_prefix)
  define t where "t = foldl ?step no_totals a"
  have t: "ct_penalty t u = 0" "ct_acCount t u = 0" using out [OF us(2)] by (simp_all add: t_def no_totals_def)
  have "tot = foldl ?step (?step t u) b" by (simp add: tot_def us t_def)
  then show "ct_penalty tot u = i32 (sum_list (map (\<lambda>p. penalty_of (st (u, pm_Key p))) solved))"
    "ct_acCount tot u = i32 (int (length solved))"
    using out [OF us(3)] t by (simp_all add: count_row solved_def)
qed

text \<open>A column counts users.\<close>

lemma totals_of_column:
  fixes st :: states and ps :: "contestProblemMeta list" and us :: "int list"
  assumes "distinct (map pm_Key ps)" and "key \<in> set (map pm_Key ps)"
  defines "stat \<equiv> ct_stats (foldl (\<lambda>t u. foldl (count_cell st u) t ps) no_totals us) key"
  shows "cs_contestAccepted stat = i64 (int (length (filter (\<lambda>u. us_hasContestAC (st (u, key))) us)))"
    and "cs_contestAttempted stat = i64 (int (length (filter (\<lambda>u. us_hasContestSubmit (st (u, key))) us)))"
    and "cs_upsolveAccepted stat = i64 (int (length (filter (\<lambda>u. us_upsolveAC (st (u, key))) us)))"
proof -
  have z: "i64 0 = 0" by (simp add: i64_def)
  have "ct_stats (foldl (\<lambda>t u. foldl (count_cell st u) t ps) no_totals us) key =
     \<lparr>cs_contestAccepted = i64 (int (length (filter (\<lambda>u. us_hasContestAC (st (u, key))) us))),
      cs_contestAttempted = i64 (int (length (filter (\<lambda>u. us_hasContestSubmit (st (u, key))) us))),
      cs_upsolveAccepted = i64 (int (length (filter (\<lambda>u. us_upsolveAC (st (u, key))) us)))\<rparr>"
  proof (induction us rule: rev_induct)
    case (snoc u us)
    then show ?case by (simp add: stats_row [OF assms(1,2)] bump_def i64_add add.commute [of 1])
  qed (simp add: no_totals_def z)
  then show "cs_contestAccepted stat = i64 (int (length (filter (\<lambda>u. us_hasContestAC (st (u, key))) us)))"
    "cs_contestAttempted stat = i64 (int (length (filter (\<lambda>u. us_hasContestSubmit (st (u, key))) us)))"
    "cs_upsolveAccepted stat = i64 (int (length (filter (\<lambda>u. us_upsolveAC (st (u, key))) us)))"
    by (simp_all add: stat_def)
qed

text \<open>The totals agree with the rows that are shown, whatever the submissions.\<close>

lemma shown_totals:
  fixes ps :: "contestProblemMeta list"
  assumes "distinct allUsers" and "u \<in> set allUsers" and "u \<in> set pageUsers"
    and calc: "calc = calculateContestProblemMatrix start end rel ps subs pageUsers allUsers"
  defines "won \<equiv> filter (\<lambda>r. cr_Status r = ''contest_ac'') (cc_resultsByUser calc u)"
  shows "map cr_ProblemKey (cc_resultsByUser calc u) = map pm_Key ps"
    and "ct_acCount (cc_totals calc) u = i32 (int (length won))"
    and "ct_penalty (cc_totals calc) u = i32 (sum_list (map (\<lambda>r. cr_AcceptedMinute r + cr_WrongBeforeAc r * 20) won))"
proof -
  define st where "st = foldl (record_submission start end rel (set (map pm_Key ps)) (buildProblemAliasMap ps)) (\<lambda>_. zero_state) subs"
  have r: "cc_resultsByUser calc u = map (problem_result st u) ps"
    and t: "cc_totals calc = foldl (\<lambda>t u. foldl (count_cell st u) t ps) no_totals allUsers"
    using assms(3) by (simp_all add: calc calculateContestProblemMatrix_def st_def)
  show "map cr_ProblemKey (cc_resultsByUser calc u) = map pm_Key ps"
    by (simp add: r problem_result_def Let_def o_def)
  have "cr_Status (problem_result st u p) = ''contest_ac'' \<longleftrightarrow> us_hasContestAC (st (u, pm_Key p))" for p
    by (simp add: problem_result_def Let_def)
  then have w: "won = map (problem_result st u) (filter (\<lambda>p. us_hasContestAC (st (u, pm_Key p))) ps)"
    by (simp add: won_def r filter_map o_def)
  show "ct_acCount (cc_totals calc) u = i32 (int (length won))"
    using totals_of_user(2) [OF assms(1,2), of st ps] by (simp add: t w)
  show "ct_penalty (cc_totals calc) u = i32 (sum_list (map (\<lambda>r. cr_AcceptedMinute r + cr_WrongBeforeAc r * 20) won))"
    using totals_of_user(1) [OF assms(1,2), of st ps]
    by (simp add: t w o_def penalty_of_def problem_result_def Let_def)
qed

end
