(* ===== verification/ContestSystem.thy ===== *)
theory ContestSystem
  imports Contest ContestFacts
begin

text \<open>
  Facts about the contest service: the two ways of ranking agree, pages cut the ranking without gaps,
  official ranks win, cached answers are the fetched ones, and the handler's rows fit its columns.
\<close>

section \<open>Ranking\<close>

lemma contest_less_order:
  "0 \<le> k_Rank a \<Longrightarrow> 0 \<le> k_Rank b \<Longrightarrow> contest_less a b \<longleftrightarrow> ranking_order a < ranking_order b"
  by (auto simp: contest_less_def ranking_order_def Let_def)

lemma sortContestLogs_eq:
  "\<forall>k \<in> set logs. 0 \<le> k_Rank k \<Longrightarrow> sortContestLogs logs = sort_key ranking_order logs"
  unfolding sortContestLogs_def by (rule SliceStable_sort_key) (auto simp: contest_less_order)

lemma set_sortContestLogs [simp]: "set (sortContestLogs logs) = set logs" "length (sortContestLogs logs) = length logs"
proof -
  show "set (sortContestLogs logs) = set logs" by (simp add: sortContestLogs_def)
  have "mset (sortContestLogs logs) = mset logs" by (simp add: sortContestLogs_def)
  then show "length (sortContestLogs logs) = length logs" by (metis size_mset)
qed

lemma paginate_page:
  assumes "0 \<le> offset" and "0 < limit" and "offset + limit < 9223372036854775808"
  shows "paginateContestLogs logs offset limit = Some (take (nat limit) (drop (nat offset) logs))"
proof -
  have i: "i64 (offset + limit) = offset + limit" using assms by simp
  have n: "nat (offset + limit) - nat offset = nat limit" using assms by simp
  show ?thesis
  proof (cases "int (length logs) \<le> offset")
    case True
    then have "length logs \<le> nat offset" by linarith
    with True assms show ?thesis by (simp add: paginateContestLogs_def)
  next
    case False
    show ?thesis
    proof (cases "int (length logs) < offset + limit")
      case True
      have "length logs - nat offset \<le> nat limit" using True assms by linarith
      with True False assms show ?thesis by (simp add: paginateContestLogs_def Let_def i)
    next
      case whole: False
      with False assms show ?thesis by (simp add: paginateContestLogs_def Let_def i n)
    qed
  qed
qed

lemma paginate_subset: "paginateContestLogs logs offset limit = Some page \<Longrightarrow> set page \<subseteq> set logs"
  by (auto simp: paginateContestLogs_def Let_def split: if_splits dest!: in_set_takeD in_set_dropD)

text \<open>Cutting a list into pages loses nothing and repeats nothing.\<close>

lemma concat_pages: "0 < n \<Longrightarrow> length xs \<le> n * m \<Longrightarrow> concat (map (\<lambda>i. take n (drop (n * i) xs)) [0..<m]) = xs"
proof (induction m arbitrary: xs)
  case (Suc m)
  have "concat (map (\<lambda>i. take n (drop (n * i) xs)) [0..<Suc m]) =
      take n xs @ concat (map (\<lambda>i. take n (drop (n * i) (drop n xs))) [0..<m])"
    by (simp add: upt_conv_Cons map_Suc_upt [symmetric] o_def ac_simps del: upt_Suc)
  also have "\<dots> = xs" using Suc.IH [of "drop n xs"] Suc.prems by simp
  finally show ?case .
qed simp

section \<open>Users\<close>

lemma collect_users: "distinct (collectContestUserIDs logs)" "set (collectContestUserIDs logs) = k_UserID ` set logs - {0}"
proof -
  define I where "I = (\<lambda>(seen, ids) ks. seen = set ids \<and> distinct ids \<and> set ids = k_UserID ` set (ks :: ContestLog list) - {0 :: int})"
  have "I (foldl add_user ({}, []) ks) ks" for ks
  proof (induction ks rule: rev_induct)
    case (snoc k ks)
    then show ?case by (auto simp: I_def add_user_def split: prod.splits)
  qed (simp add: I_def)
  then have "I (foldl add_user ({}, []) logs) logs" .
  then show "distinct (collectContestUserIDs logs)" "set (collectContestUserIDs logs) = k_UserID ` set logs - {0}"
    by (auto simp: I_def collectContestUserIDs_def split: prod.splits)
qed

section \<open>Official ranks\<close>

lemma add_rank_keep: "map_of ranks h = Some r \<Longrightarrow> map_of (add_rank rank ranks x) h = Some r"
  by (auto simp: add_rank_def Let_def)

lemma add_rank_new:
  "map_of ranks h = None \<Longrightarrow> map_of (add_rank rank ranks x) h = (if h \<noteq> '''' \<and> normalizeCodeforcesHandle x = h then Some rank else None)"
  by (auto simp: add_rank_def Let_def)

lemma foldl_keep:
  "(\<And>m x. map_of m h = Some r \<Longrightarrow> map_of (f m x) h = Some r) \<Longrightarrow> map_of m h = Some r \<Longrightarrow> map_of (foldl f m xs) h = Some r"
  by (induction xs arbitrary: m) auto

lemma row_ranks_keep: "map_of ranks h = Some r \<Longrightarrow> map_of (row_ranks ranks row) h = Some r"
  by (auto simp: row_ranks_def intro: foldl_keep add_rank_keep split: prod.splits)

lemma add_ranks_new:
  "map_of ranks h = None \<Longrightarrow> map_of (foldl (add_rank rank) ranks hs) h =
     (if h \<noteq> '''' \<and> h \<in> normalizeCodeforcesHandle ` set hs then Some rank else None)"
proof (induction hs arbitrary: ranks)
  case (Cons x hs)
  show ?case
  proof (cases "h \<noteq> '''' \<and> normalizeCodeforcesHandle x = h")
    case True
    then have "map_of (add_rank rank ranks x) h = Some rank" using Cons.prems by (simp add: add_rank_new)
    then have "map_of (foldl (add_rank rank) (add_rank rank ranks x) hs) h = Some rank" using add_rank_keep by (rule foldl_keep [rotated])
    with True show ?thesis by auto
  next
    case False
    then have "map_of (add_rank rank ranks x) h = None" using Cons.prems by (simp add: add_rank_new)
    with Cons.IH [of "add_rank rank ranks x"] False show ?thesis by auto
  qed
qed simp

lemma row_ranks_new:
  "map_of ranks h = None \<Longrightarrow> map_of (row_ranks ranks (rank, hs)) h =
     (if 0 < rank \<and> h \<noteq> '''' \<and> h \<in> normalizeCodeforcesHandle ` set hs then Some rank else None)"
  by (simp add: row_ranks_def add_ranks_new)

text \<open>A handle has the rank of the first ranked row it is in.\<close>

definition rank_in :: "(int \<times> string list) list \<Rightarrow> string \<Rightarrow> int option" where
  "rank_in standings h = (if h = '''' then None
     else map_option fst (find (\<lambda>(rank, hs). 0 < rank \<and> h \<in> normalizeCodeforcesHandle ` set hs) standings))"

lemma standings_ranks_eq: "map_of (standings_ranks standings) h = rank_in standings h"
proof -
  have "map_of m h = None \<Longrightarrow> map_of (foldl row_ranks m rs) h = rank_in rs h" for m rs
  proof (induction rs arbitrary: m)
    case (Cons row rs)
    obtain rank hs where row: "row = (rank, hs)" by fastforce
    show ?case
    proof (cases "0 < rank \<and> h \<noteq> '''' \<and> h \<in> normalizeCodeforcesHandle ` set hs")
      case True
      then have "map_of (row_ranks m row) h = Some rank" using Cons.prems by (simp add: row row_ranks_new)
      then have "map_of (foldl row_ranks (row_ranks m row) rs) h = Some rank" using row_ranks_keep by (rule foldl_keep [rotated])
      with True show ?thesis by (simp add: row rank_in_def)
    next
      case False
      then have "map_of (row_ranks m row) h = None" using Cons.prems by (simp add: row row_ranks_new)
      with Cons.IH [of "row_ranks m row"] False show ?thesis by (auto simp: row rank_in_def)
    qed
  qed (simp add: rank_in_def)
  then show ?thesis by (simp add: standings_ranks_def)
qed

section \<open>The rows of a ranking\<close>

lemma page_of_subset: "set (page_of limit offset xs) \<subseteq> set xs"
  by (auto simp: page_of_def Let_def dest: in_set_takeD in_set_dropD)

lemma paginated_subset: "paginated logs offset limit w = (Inr page, w') \<Longrightarrow> set page \<subseteq> set (sortContestLogs logs)"
  using paginate_subset [of "sortContestLogs logs" offset limit page] by (auto simp: paginated_def succ_simps split: option.splits)

lemma ranking_page_subset:
  "ranking_page e contest ids offset limit w = (Inr (logs, allLogs, n), w') \<Longrightarrow> set logs \<subseteq> set allLogs"
  using paginated_subset page_of_subset
  by (fastforce simp: ranking_page_def GetContestParticipants_def dal_GetContestRanking_def succ_simps split: if_splits)

text \<open>The shown results of a user: keys in the order of the columns, and the totals they add up to.\<close>

definition row_fits :: "string list \<Rightarrow> ProblemResult list \<Rightarrow> int \<Rightarrow> int \<Rightarrow> bool" where
  "row_fits keys results acs penalty \<longleftrightarrow>
     (let won = filter (\<lambda>r. cr_Status r = ''contest_ac'') results in
      map cr_ProblemKey results = keys \<and> acs = i32 (int (length won)) \<and>
      penalty = i32 (sum_list (map (\<lambda>r. cr_AcceptedMinute r + cr_WrongBeforeAc r * 20) won)))"

lemma assembled_rows:
  assumes "assemble_matrix contest pageUsers allUsers off subs = Some matrix" and "distinct allUsers"
    and "u \<in> set allUsers" and "u \<in> set pageUsers"
  shows "row_fits (map pl_ProblemKey (mr_Problems matrix)) (mr_ResultsByUser matrix u) (mr_ContestAcCountByUser matrix u) (mr_PenaltyByUser matrix u)"
proof -
  obtain start fin ps deg where off: "off = (start, fin, ps, deg)" by (metis surj_pair)
  from assms(1) obtain rel problems calc where
    c: "calc = calculateContestProblemMatrix start fin rel problems subs pageUsers allUsers"
    and m: "mr_Problems matrix = map (problem_column (cc_totals calc)) problems" "mr_ResultsByUser matrix = cc_resultsByUser calc"
      "mr_PenaltyByUser matrix = ct_penalty (cc_totals calc)" "mr_ContestAcCountByUser matrix = ct_acCount (cc_totals calc)"
    by (auto simp: off assemble_matrix_def Let_def split: option.splits)
  have "map pl_ProblemKey (mr_Problems matrix) = map pm_Key problems"
    by (simp add: m problem_column_def Let_def o_def)
  with shown_totals [OF assms(2-4) c] show ?thesis by (simp add: row_fits_def m Let_def)
qed

lemma built_rows:
  assumes "buildContestMatrix e contest logs allLogs w = (Inr (Some matrix), w')" and "mr_Problems matrix \<noteq> []"
    and "k \<in> set logs" and "set logs \<subseteq> set allLogs" and "k_UserID k \<noteq> 0"
  shows "row_fits (map pl_ProblemKey (mr_Problems matrix)) (mr_ResultsByUser matrix (k_UserID k))
    (mr_ContestAcCountByUser matrix (k_UserID k)) (mr_PenaltyByUser matrix (k_UserID k))"
proof -
  from assms(1,2) obtain off subs where
    a: "assemble_matrix contest (collectContestUserIDs logs) (collectContestUserIDs allLogs) off subs = Some matrix"
    by (auto simp: buildContestMatrix_def succ_simps no_matrix_def split: if_splits)
  have "k_UserID k \<in> set (collectContestUserIDs logs)" "k_UserID k \<in> set (collectContestUserIDs allLogs)"
    using assms(3-5) by (auto simp: collect_users)
  with assembled_rows [OF a] show ?thesis by (simp add: collect_users(1))
qed

lemma ranking_inversion:
  assumes "GetContestRanking e i g offset limit w = (Inr (Some res), w')" and "rr_Problems res \<noteq> []"
  obtains contest logs allLogs matrix names w1 w2 where "set logs \<subseteq> set allLogs"
    "buildContestMatrix e contest logs allLogs w1 = (Inr (Some matrix) :: kerr + _, w2)"
    "rr_Problems res = mr_Problems matrix" "rr_Data res = map (ranking_item matrix names) logs"
    "ci_TotalCount (rr_Contest res) = i32 (int (length (mr_Problems matrix)))"
proof -
  from assms obtain contest ids logs allLogs n wa wb names wc matrix w2 where
    p: "ranking_page e contest ids offset limit wa = (Inr (logs, allLogs, n), wb)"
    and b: "buildContestMatrix e contest logs allLogs wc = (Inr (Some matrix) :: kerr + _, w2)"
    and r: "rr_Problems res = mr_Problems matrix" "rr_Data res = map (ranking_item matrix names) logs"
      "ci_TotalCount (rr_Contest res) = i32 (int (length (mr_Problems matrix)))"
    by (auto simp: GetContestRanking_def Let_def succ_simps split: if_splits) metis
  from ranking_page_subset [OF p] b r show thesis by (rule that)
qed

section \<open>The list of contests\<close>

lemma last_by_key:
  "foldl (\<lambda>m x. m(f x \<mapsto> x)) Map.empty xs k = Some x \<Longrightarrow> x \<in> set xs \<and> f x = k"
  "x \<in> set xs \<Longrightarrow> f x = k \<Longrightarrow> foldl (\<lambda>m x. m(f x \<mapsto> x)) Map.empty xs k \<noteq> None"
proof -
  show "foldl (\<lambda>m x. m(f x \<mapsto> x)) Map.empty xs k = Some x \<Longrightarrow> x \<in> set xs \<and> f x = k"
    by (induction xs rule: rev_induct) (auto split: if_splits)
  show "x \<in> set xs \<Longrightarrow> f x = k \<Longrightarrow> foldl (\<lambda>m x. m(f x \<mapsto> x)) Map.empty xs k \<noteq> None"
    by (induction xs rule: rev_induct) auto
qed

lemma joined_key_inj: "CHR 0x1F \<notin> set (fst a) \<Longrightarrow> CHR 0x1F \<notin> set (fst b) \<Longrightarrow> joined_key a = joined_key b \<Longrightarrow> a = b"
proof -
  have "p @ CHR 0x1F # c = q @ CHR 0x1F # d \<Longrightarrow> CHR 0x1F \<notin> set p \<Longrightarrow> CHR 0x1F \<notin> set q \<Longrightarrow> p = q \<and> c = d" for p q c d :: string
    by (induction p arbitrary: q) (auto simp: Cons_eq_append_conv)
  from this [of "fst a" "snd a" "fst b" "snd b"]
  show "CHR 0x1F \<notin> set (fst a) \<Longrightarrow> CHR 0x1F \<notin> set (fst b) \<Longrightarrow> joined_key a = joined_key b \<Longrightarrow> a = b"
    unfolding joined_key_def split_def prod_eq_iff by blast
qed

lemma group_keys: "set (map fst (contest_groups sl ks)) = contest_pair ` set ks" "distinct (map fst (contest_groups sl ks))"
  "length (contest_groups sl ks) = length (remdups (map contest_pair ks))"
proof -
  let ?g = "group_by contest_pair (\<lambda>key g. (key, Max (set (map k_Time g)))) ks"
  have m: "mset (contest_groups sl ks) = mset ?g" by (simp add: contest_groups_def)
  have g: "map fst ?g = remdups (map contest_pair ks)" by (simp add: group_by_def o_def)
  from m have mm: "mset (map fst (contest_groups sl ks)) = mset (map fst ?g)" by simp
  show "set (map fst (contest_groups sl ks)) = contest_pair ` set ks" using mset_eq_setD [OF mm] unfolding g by (simp only: set_remdups set_map)
  show "distinct (map fst (contest_groups sl ks))" using mset_eq_imp_distinct_iff [OF mm] g by simp
  show "length (contest_groups sl ks) = length (remdups (map contest_pair ks))"
    using arg_cong [OF mm, of size] unfolding g by simp
qed

lemma count_joined:
  assumes "\<forall>k \<in> set ks. CHR 0x1F \<notin> set (k_Platform k)"
  shows "length (remdups (map (joined_key \<circ> contest_pair) ks)) = length (remdups (map contest_pair ks))"
proof -
  have "inj_on joined_key (contest_pair ` set ks)"
    using assms by (intro inj_onI joined_key_inj) (auto simp: contest_pair_def)
  then have "card ((joined_key \<circ> contest_pair) ` set ks) = card (contest_pair ` set ks)"
    unfolding image_comp [symmetric] by (rule card_image)
  then show ?thesis by (simp add: length_remdups_card_conv)
qed

lemma contest_list_result:
  assumes "dal_GetContestList e u offset limit p w = (Inr (logs, n), w')"
    and "\<forall>k \<in> set (rows (contests (db w))). CHR 0x1F \<notin> set (k_Platform k)"
  defines "own \<equiv> filter (list_scope u p) (rows (contests (db w)))"
  shows "n = int (length (contest_groups (sql_less e) own)) \<and>
    map contest_pair logs = map fst (page_of limit offset (contest_groups (sql_less e) own)) \<and> set logs \<subseteq> set own"
proof -
  define page where "page = page_of limit offset (contest_groups (sql_less e) own)"
  define found where "found = filter (\<lambda>k. contest_pair k \<in> set (map fst page) \<and> list_scope u p k) (rows (contests (db w)))"
  define look where "look = foldl (\<lambda>m k. m(joined_key (contest_pair k) \<mapsto> k)) Map.empty found"
  have l: "logs = List.map_filter (\<lambda>(key, _). look (joined_key key)) page" and n: "n = int (length (remdups (map (joined_key \<circ> contest_pair) own)))"
    using assms(1) by (auto simp: dal_GetContestList_def succ_simps own_def page_def found_def look_def Let_def map_filter_simps split: if_splits)
  have own: "\<forall>k \<in> set own. CHR 0x1F \<notin> set (k_Platform k)" using assms(2) by (simp add: own_def)
  have pk: "fst x \<in> contest_pair ` set own" if "x \<in> set page" for x
    using that page_of_subset [of limit offset "contest_groups (sql_less e) own"] group_keys(1) [of "sql_less e" own]
    by (force simp: page_def)
  have look: "\<exists>k \<in> set own. look (joined_key (fst x)) = Some k \<and> contest_pair k = fst x" if x: "x \<in> set page" for x
  proof -
    from pk [OF x] obtain k0 where k0: "k0 \<in> set own" "contest_pair k0 = fst x" by auto
    then have "k0 \<in> set found" using x by (auto simp: found_def own_def)
    then have "look (joined_key (fst x)) \<noteq> None" unfolding look_def using k0(2) by (intro last_by_key(2)) auto
    then obtain k where k: "look (joined_key (fst x)) = Some k" by auto
    then have f: "k \<in> set found" "joined_key (contest_pair k) = joined_key (fst x)" unfolding look_def using last_by_key(1) by force+
    then have ko: "k \<in> set own" by (auto simp: found_def own_def)
    have plain: "CHR 0x1F \<notin> set (fst (contest_pair k'))" if "k' \<in> set own" for k' using own that by (simp add: contest_pair_def)
    have "contest_pair k = contest_pair k0" by (rule joined_key_inj [OF plain [OF ko] plain [OF k0(1)]]) (simp only: k0(2) f(2))
    with k0(2) have "contest_pair k = fst x" by simp
    with k ko show ?thesis by blast
  qed
  have "map contest_pair (List.map_filter (\<lambda>(key, _). look (joined_key key)) xs) = map fst xs \<and>
      set (List.map_filter (\<lambda>(key, _). look (joined_key key)) xs) \<subseteq> set own" if "set xs \<subseteq> set page" for xs
    using that
  proof (induction xs)
    case (Cons x xs)
    from look [of x] Cons.prems obtain k where "k \<in> set own" "look (joined_key (fst x)) = Some k" "contest_pair k = fst x" by auto
    with Cons show ?case by (auto simp: map_filter_simps split: prod.splits)
  qed (simp add: map_filter_simps)
  from this [of page] show ?thesis
    using count_joined [OF own] group_keys(3) by (simp add: l n page_def)
qed

section \<open>Submissions of a contest\<close>

definition contest_submissions :: "string \<Rightarrow> string \<Rightarrow> int list \<Rightarrow> 'x cdb_scheme \<Rightarrow> SubmitLog list" where
  "contest_submissions platform contestID userIDs d =
     sort_key s_Time (filter (\<lambda>s. ToLower (s_Platform s) = ToLower platform \<and> s_Contest s = contestID \<and> s_UserID s \<in> set userIDs)
       (rows (submits d)))"

lemma load_found:
  "reliable e \<Longrightarrow> userIDs \<noteq> [] \<Longrightarrow> contest_submissions platform contestID userIDs (db w) = ss \<Longrightarrow> ss \<noteq> [] \<Longrightarrow>
    loadContestSubmissions e platform contestID userIDs start end w = (Inr ss, tick w)"
  by (auto simp: loadContestSubmissions_def contest_submissions_def bindE_def tryE_def reliable_evals returnE_def)

text \<open>They come in the order of time, which the matrix relies on.\<close>

lemma load_sorted:
  assumes "loadContestSubmissions e platform contestID userIDs start end w = (Inr ss, w')"
  shows "sorted (map s_Time ss)"
proof -
  have q: "fst (q_select e (\<lambda>d. sort_key s_Time (f d)) v) = Inr xs \<Longrightarrow> sorted (map s_Time xs)" for f :: "'b cdb_scheme \<Rightarrow> _" and v xs
    by (auto simp: q_select_def stmt_def split: if_splits)
  show ?thesis using assms
    by (auto simp: loadContestSubmissions_def bindE_def tryE_def returnE_def split: if_splits sum.splits prod.splits
        intro: q dest!: arg_cong [of _ _ fst])
qed

section \<open>Without failures\<close>

lemma contest_list_answers:
  assumes "reliable e"
  obtains items n w' where "GetContestList e u offset limit p w = (Inr (items, n), w')"
proof -
  have "\<exists>r w'. dal_GetContestList e u offset limit p w = (Inr r, w')"
    by (simp add: dal_GetContestList_def bindE_def returnE_def reliable_evals [OF assms] Let_def)
  then obtain logs n w' where "dal_GetContestList e u offset limit p w = (Inr (logs, n), w')" by auto
  then show thesis by (intro that [of "map contest_item logs" n w']) (simp add: GetContestList_def bindE_def withErr_def returnE_def)
qed

section \<open>Returning, columns and ranges\<close>

lemma synthesized_problems:
  assumes "0 < n" and "\<And>k. filler_key c k \<notin> problem_names subs"
  shows "synthesizeNowCoderProblems c n subs = None \<longleftrightarrow> n > int (card (problem_names subs)) + 26"
    and "synthesizeNowCoderProblems c n subs = Some qs \<Longrightarrow> length qs = nat n \<and> distinct (map pm_Key qs)"
proof -
  obtain ps where l: "length ps = min (nat n) (card (problem_names subs))" and d: "distinct (map pm_Key ps)"
    and s: "set (map pm_Key ps) \<subseteq> problem_names subs"
    and e: "synthesizeNowCoderProblems c n subs = (if nat n \<le> length ps + 26 then Some (ps @ map (filler c) [length ps..<nat n]) else None)"
    using synthesize_result [OF assms] by blast
  show "synthesizeNowCoderProblems c n subs = None \<longleftrightarrow> n > int (card (problem_names subs)) + 26"
    using assms(1) by (auto simp: e l)
  assume "synthesizeNowCoderProblems c n subs = Some qs"
  then have b: "nat n \<le> length ps + 26" and q: "qs = ps @ map (filler c) [length ps..<nat n]" by (auto simp: e split: if_splits)
  have "map pm_Key qs = map pm_Key ps @ map (filler_key c) [length ps..<nat n]" by (simp add: q filler_def)
  moreover have "length qs = nat n" by (simp add: q l)
  ultimately show "length qs = nat n \<and> distinct (map pm_Key qs)" using d s distinct_filler_keys [OF b] assms(2) by auto
qed

lemma assembled_columns:
  assumes "assemble_matrix contest pageUsers allUsers off subs = Some matrix"
  shows "distinct (map pl_ProblemKey (mr_Problems matrix))" and "submission_key ` set subs - {''''} \<subseteq> pl_ProblemKey ` set (mr_Problems matrix)"
proof -
  obtain start fin ps deg where off: "off = (start, fin, ps, deg)" by (metis surj_pair)
  from assms obtain t metas where
    m: "mr_Problems matrix = map (problem_column t) (normalizeContestProblems (k_Platform contest) (k_ContestId contest) metas subs)"
    by (auto simp: off assemble_matrix_def Let_def split: option.splits)
  have "map pl_ProblemKey (mr_Problems matrix) = map pm_Key (normalizeContestProblems (k_Platform contest) (k_ContestId contest) metas subs)"
    by (simp add: m problem_column_def Let_def o_def)
  with normalize_columns [where p = "k_Platform contest" and c = "k_ContestId contest" and metas = metas and subs = subs]
  show "distinct (map pl_ProblemKey (mr_Problems matrix))" "submission_key ` set subs - {''''} \<subseteq> pl_ProblemKey ` set (mr_Problems matrix)"
    by (simp, metis image_set)
qed

lemma i32_range: "- 2147483648 \<le> i32 x" "i32 x < 2147483648"
  using pos_mod_bound [of 4294967296 "x + 2147483648"] pos_mod_sign [of 4294967296 "x + 2147483648"] by (simp_all add: i32_mod)

definition in_i32 :: "int \<Rightarrow> bool" where
  "in_i32 x \<longleftrightarrow> - 2147483648 \<le> x \<and> x < 2147483648"

lemma in_i32_wrap [simp]: "in_i32 (i32 x)" "in_i32 0"
  by (simp_all add: in_i32_def i32_range)

definition state_in_i32 :: "problemUserState \<Rightarrow> bool" where
  "state_in_i32 st \<longleftrightarrow> in_i32 (us_contestMinute st) \<and> in_i32 (us_wrongBeforeAC st) \<and> in_i32 (us_contestWrong st) \<and> in_i32 (us_upsolveWrong st)"

lemma update_in_i32: "state_in_i32 st \<Longrightarrow> state_in_i32 (update_state start end rel s st)"
  by (simp add: update_state_def state_in_i32_def elapsedMinute_def Let_def)

lemma states_in_i32: "state_in_i32 (foldl (record_submission start end rel ks aliases) (\<lambda>_. zero_state) subs x)"
proof -
  have "\<forall>x. state_in_i32 (foldl (record_submission start end rel ks aliases) (\<lambda>_. zero_state) subs x)"
  proof (rule foldl_invariant [of "\<lambda>st. \<forall>x. state_in_i32 (st x)"])
    show "\<forall>x. state_in_i32 zero_state" by (simp add: state_in_i32_def zero_state_def)
  qed (simp add: record_submission_def Let_def update_in_i32)
  then show ?thesis by blast
qed

lemma totals_in_i32:
  "in_i32 (ct_penalty (foldl (\<lambda>t u. foldl (count_cell st u) t ps) no_totals us) v) \<and>
   in_i32 (ct_acCount (foldl (\<lambda>t u. foldl (count_cell st u) t ps) no_totals us) v)"
proof -
  define I where "I t = (\<forall>v. in_i32 (ct_penalty t v) \<and> in_i32 (ct_acCount t v))" for t :: contest_totals
  have row: "I t \<Longrightarrow> I (foldl (count_cell st u) t ps)" for t u
    by (rule foldl_invariant [of I]) (simp_all add: I_def count_cell_simps)
  have "I no_totals" by (simp add: I_def no_totals_def)
  then have "I (foldl (\<lambda>t u. foldl (count_cell st u) t ps) no_totals us)" by (rule foldl_invariant [of I]) (rule row)
  then show ?thesis by (simp add: I_def)
qed

end
