(* ===== verification/ContestProperties.thy ===== *)
theory ContestProperties
  imports ContestSystem CoreSamples
begin

text \<open>
  The properties of contests, with their witnesses: a contest of two problems with one participant,
  who solved one of them after a wrong attempt.
\<close>

section \<open>A small contest\<close>

definition sub_ex :: "int \<Rightarrow> string \<Rightarrow> string \<Rightarrow> int \<Rightarrow> SubmitLog" where
  "sub_ex u p st minute = (log_ex ''1'' st)\<lparr>s_UserID := u, s_Platform := ''QOJ'', s_Contest := ''c'', s_Problem := p, s_Time := minute * 60000000000\<rparr>"

definition prob_ex :: "string \<Rightarrow> contestProblemMeta" where
  "prob_ex k = \<lparr>pm_Key = k, pm_Index = k, pm_Name = k, pm_URL = '''', pm_Aliases = []\<rparr>"

definition klog_ex :: "nat \<Rightarrow> int \<Rightarrow> int \<Rightarrow> ContestLog" where
  "klog_ex i u rank = \<lparr>ID = i, k_Platform = ''QOJ'', k_UserID = u, k_ContestId = ''c'', k_ContestName = ''C'', k_ContestUrl = '''',
     k_Rank = rank, k_TotalCount = 2, k_AcCount = 0, k_Time = 0, k_EndTime = 100 * 60000000000\<rparr>"

definition ke_ex :: contest_env where
  "ke_ex = \<lparr>stmt_fails = (\<lambda>_. False), clock = (\<lambda>n. int n), decode_payload = cpay_ex,
     spider_Get = spider_Get ce_ex, FetchSubmitLog = FetchSubmitLog ce_ex, FetchContestLog = FetchContestLog ce_ex,
     unlinked = unlinked ce_ex, mq_dial = mq_dial ce_ex, mq_open = mq_open ce_ex, mq_declare = mq_declare ce_ex,
     mq_send = mq_send ce_ex, marshal_event = marshal_event ce_ex, unmarshal_event = unmarshal_event ce_ex,
     limiter_Allow = limiter_Allow ce_ex, core_json = core_json ce_ex, marshal_summary = marshal_summary ce_ex,
     userRPC = userRPC ce_ex, profile_GetList = profile_GetList ce_ex,
     http_get = (\<lambda>_ _. Inr (200, Inr ''{}'')), UnescapeString = id, atCoderTaskLinkRe = (\<lambda>_. []), atCoderMatrixTimeRe = (\<lambda>_. []),
     atCoderMatrixTitleRe = (\<lambda>_. None), nowCoderProblemLinkRe = (\<lambda>_. []), nowCoderStartTimeRe = (\<lambda>_. None), nowCoderEndTimeRe = (\<lambda>_. None),
     nowCoderNameRe = (\<lambda>_. None), time_Parse = (\<lambda>_. None),
     unmarshal_standings = (\<lambda>_. Some \<lparr>st_Status = ''OK'', st_Comment = '''', st_ContestName = ''R'', st_StartTime = 1, st_DurationSeconds = 7200,
       st_Problems = [], st_Rows = [(1, [''tourist''])]\<rparr>), unmarshal_history = (\<lambda>_. None),
     GetUserIdsByGroup = (\<lambda>_ _. Inr [2]), GetByIds = (\<lambda>_ _. Inr []), sql_less = bytes_less\<rparr>"

definition kw_ex :: "contest_db world" where
  "kw_ex = \<lparr>db = cdb.extend (cd_ex\<lparr>contests := \<lparr>rows = [klog_ex 5 2 3, klog_ex 6 9 0], seq = 3\<rparr>,
       submits := \<lparr>rows = [sub_ex 2 ''A'' ''WA'' 3, sub_ex 2 ''A'' ''AC'' 5, sub_ex 2 ''B'' ''WA'' 7], seq = 4\<rparr>\<rparr>)
     (contest_db.fields Map.empty Map.empty Map.empty Map.empty Map.empty Map.empty), rdb = (\<lambda>_. None), ticks = 0\<rparr>"

section \<open>The matrix\<close>

text \<open>C18. Given the submissions of a contest in the order of time, the matrix shows for every user and problem what an ICPC scoreboard shows: accepted in the contest if some submission during it was accepted, at the minute of the first of these, with the rejected ones before it counted; otherwise solved afterwards if a later submission was accepted. Each column counts the users who tried, solved and solved afterwards.\<close>

theorem matrix_is_scoreboard:
  assumes "sorted (map s_Time subs)" and "distinct (map pm_Key ps)" and "p \<in> set ps"
    and "calc = calculateContestProblemMatrix start end rel ps subs pageUsers allUsers"
    and "board = (\<lambda>u. cell start end rel (attempts (buildProblemAliasMap ps) subs u (pm_Key p)))"
  shows "(u \<in> set pageUsers \<longrightarrow> (\<exists>r \<in> set (cc_resultsByUser calc u). cr_ProblemKey r = pm_Key p \<and>
      cr_Status r = (if us_hasContestAC (board u) then ''contest_ac'' else if us_upsolveAC (board u) then ''upsolve_ac''
        else if us_hasContestSubmit (board u) then ''contest_failed'' else ''none'') \<and>
      cr_AcceptedMinute r = us_contestMinute (board u) \<and> cr_WrongBeforeAc r = us_wrongBeforeAC (board u))) \<and>
    ct_stats (cc_totals calc) (pm_Key p) =
      \<lparr>cs_contestAccepted = i64 (int (length (filter (\<lambda>u. us_hasContestAC (board u)) allUsers))),
       cs_contestAttempted = i64 (int (length (filter (\<lambda>u. us_hasContestSubmit (board u)) allUsers))),
       cs_upsolveAccepted = i64 (int (length (filter (\<lambda>u. us_upsolveAC (board u)) allUsers)))\<rparr>"
proof -
  define st where "st = foldl (record_submission start end rel (set (map pm_Key ps)) (buildProblemAliasMap ps)) (\<lambda>_. zero_state) subs"
  have key: "pm_Key p \<in> set (map pm_Key ps)" using assms(3) by simp
  have b: "st (u, pm_Key p) = board u" for u
    unfolding st_def assms(5) by (rule states_cell [OF key assms(1)])
  have r: "u \<in> set pageUsers \<Longrightarrow> cc_resultsByUser calc u = map (problem_result st u) ps"
    and t: "cc_totals calc = foldl (\<lambda>t u. foldl (count_cell st u) t ps) no_totals allUsers"
    by (simp_all add: assms(4) calculateContestProblemMatrix_def st_def)
  have "\<exists>r \<in> set (cc_resultsByUser calc u). cr_ProblemKey r = pm_Key p \<and>
      cr_Status r = (if us_hasContestAC (board u) then ''contest_ac'' else if us_upsolveAC (board u) then ''upsolve_ac''
        else if us_hasContestSubmit (board u) then ''contest_failed'' else ''none'') \<and>
      cr_AcceptedMinute r = us_contestMinute (board u) \<and> cr_WrongBeforeAc r = us_wrongBeforeAC (board u)" if "u \<in> set pageUsers"
  proof (rule bexI)
    show "problem_result st u p \<in> set (cc_resultsByUser calc u)" using assms(3) r [OF that] by simp
  qed (simp add: problem_result_def Let_def b)
  with totals_of_column [OF assms(2) key, of st allUsers] show ?thesis by (simp add: t b)
qed

theorem matrix_is_scoreboard_witness:
  "let calc = calculateContestProblemMatrix 0 (6 * 60000000000) True [prob_ex ''A'', prob_ex ''B'']
      [sub_ex 2 ''A'' ''WA'' 3, sub_ex 2 ''A'' ''AC'' 5, sub_ex 2 ''B'' ''WA'' 7] [2] [2]
   in \<exists>r \<in> set (cc_resultsByUser calc 2). cr_Status r = ''contest_ac'' \<and> cr_AcceptedMinute r = 5 \<and> cr_WrongBeforeAc r = 1"
proof -
  let ?ps = "[prob_ex ''A'', prob_ex ''B'']" and ?ss = "[sub_ex 2 ''A'' ''WA'' 3, sub_ex 2 ''A'' ''AC'' 5, sub_ex 2 ''B'' ''WA'' 7]"
  let ?b = "\<lambda>u. cell 0 (6 * 60000000000) True (attempts (buildProblemAliasMap ?ps) ?ss u (pm_Key (prob_ex ''A'')))"
  have s: "sorted (map s_Time ?ss)" "distinct (map pm_Key ?ps)" by code_simp+
  have b: "us_hasContestAC (?b 2)" "us_contestMinute (?b 2) = 5" "us_wrongBeforeAC (?b 2) = 1" by code_simp+
  from matrix_is_scoreboard [OF s list.set_intros(1) refl refl, of 2 "[2]" 0 "6 * 60000000000" True "[2]"] b
  show ?thesis unfolding Let_def by auto
qed

text \<open>In every answered ranking that has columns, the row of a known user lists one result per column in their order, the shown number of solved problems is the number of results accepted in the contest, and the shown penalty is the sum of their minutes plus twenty for each rejected submission before (both as 32-bit numbers); the contest's number of problems is the number of columns.\<close>

theorem ranking_rows_consistent:
  assumes "GetContestRanking e i g offset limit w = (Inr (Some res), w')" and "rr_Problems res \<noteq> []"
    and "item \<in> set (rr_Data res)" and "ri_UserId item \<noteq> 0"
  shows "row_fits (map pl_ProblemKey (rr_Problems res)) (ri_ProblemResults item) (ri_AcCount item) (ri_Penalty item) \<and>
    ci_TotalCount (rr_Contest res) = i32 (int (length (rr_Problems res)))"
proof -
  obtain contest logs allLogs matrix names w1 w2 where s: "set logs \<subseteq> set allLogs"
    and b: "buildContestMatrix e contest logs allLogs w1 = (Inr (Some matrix) :: kerr + _, w2)"
    and r: "rr_Problems res = mr_Problems matrix" "rr_Data res = map (ranking_item matrix names) logs"
      "ci_TotalCount (rr_Contest res) = i32 (int (length (mr_Problems matrix)))"
    by (rule ranking_inversion [OF assms(1,2)])
  from assms(3) r(2) obtain k where k: "k \<in> set logs" "item = ranking_item matrix names k" by auto
  have "k_UserID k \<noteq> 0" using assms(4) by (simp add: k ranking_item_def Let_def)
  with built_rows [OF b _ k(1) s] assms(2) r show ?thesis by (simp add: k(2) ranking_item_def Let_def)
qed

abbreviation "subs_ex \<equiv> [sub_ex 2 ''A'' ''WA'' 3, sub_ex 2 ''A'' ''AC'' 5, sub_ex 2 ''B'' ''WA'' 7]"

lemma reliable_ke [simp]: "reliable ke_ex" "userRPC ke_ex n = None" "GetByIds ke_ex n ids = Inr []"
  by (simp_all add: reliable_def ke_ex_def ce_ex_def)

lemma kw_tables [simp]: "contests (db kw_ex) = \<lparr>rows = [klog_ex 5 2 3, klog_ex 6 9 0], seq = 3\<rparr>"
  "submits (db kw_ex) = \<lparr>rows = subs_ex, seq = 4\<rparr>"
  by (simp_all add: kw_ex_def cdb.defs)

abbreviation "klogs_ex \<equiv> [klog_ex 5 2 3, klog_ex 6 9 0]"

lemma klog_fields [simp]: "k_Platform (klog_ex i u r) = ''QOJ''" "k_ContestId (klog_ex i u r) = ''c''" "k_UserID (klog_ex i u r) = u" "ID (klog_ex i u r) = i"
  by (simp_all add: klog_ex_def)

lemma no_official [simp]:
  "\<not> isContestPlatform ''QOJ'' AtCoder" "\<not> isContestPlatform ''QOJ'' CodeForces" "\<not> isContestPlatform ''QOJ'' NowCoder"
  by code_simp+

lemma page_ex:
  assumes "contests (db w) = \<lparr>rows = klogs_ex, seq = 3\<rparr>"
  shows "ranking_page ke_ex (klog_ex 5 2 3) [] 0 10 w = (Inr (klogs_ex, klogs_ex, 2), tick (tick (tick w)))"
proof -
  have p: "participants ''c'' ''QOJ'' [] (db w) = klogs_ex"
    by (simp add: participants_def of_contest_def assms ranking_order_def) (simp add: klog_ex_def)
  have f: "of_contest ''c'' ''QOJ'' [] (klog_ex i u r)" for i u r by (simp add: of_contest_def)
  show ?thesis
    by (simp add: ranking_page_def GetContestParticipants_def dal_GetContestRanking_def bindE_def withErr_def returnE_def
        reliable_evals [OF reliable_ke(1)] p page_of_def assms f)
qed

lemma matrix_ex:
  assumes "submits (db w) = \<lparr>rows = subs_ex, seq = 4\<rparr>"
  obtains m where "buildContestMatrix ke_ex (klog_ex 5 2 3) klogs_ex klogs_ex w = (Inr (Some m) :: kerr + _, tick w)" "mr_Problems m \<noteq> []"
proof -
  have c: "collectContestUserIDs klogs_ex = [2, 9]" by code_simp
  have "sort_key s_Time (filter (\<lambda>s. ToLower (s_Platform s) = ToLower ''QOJ'' \<and> s_Contest s = ''c'' \<and> s_UserID s \<in> set [2, 9]) subs_ex) = subs_ex" by code_simp
  then have "contest_submissions ''QOJ'' ''c'' [2, 9] (db w) = subs_ex" unfolding contest_submissions_def assms by (simp only: table.simps)
  then have l: "loadContestSubmissions ke_ex ''QOJ'' ''c'' [2, 9] s f w = (Inr subs_ex :: kerr + _, tick w)" for s f
    by (intro load_found) simp_all
  have "submission_key (sub_ex 2 ''A'' ''WA'' 3) = ''A''" by code_simp
  then have "''A'' \<in> submission_key ` set subs_ex - {''''}" by (simp only: list.set image_insert insert_iff Diff_iff) simp
  from subsetD [OF normalize_columns(3) this] have n: "normalizeContestProblems p q ms subs_ex \<noteq> []" for p q ms
    by (metis empty_iff list.map(1) list.set(1))
  let ?a = "assemble_matrix (klog_ex 5 2 3) [2, 9] [2, 9] (k_Time (klog_ex 5 2 3), k_EndTime (klog_ex 5 2 3), [], '''') subs_ex"
  have "\<exists>m. ?a = Some m \<and> mr_Problems m \<noteq> []" by (simp add: assemble_matrix_def Let_def n)
  then obtain m where m: "?a = Some m" "mr_Problems m \<noteq> []" by blast
  show thesis
    by (rule that [OF _ m(2)]) (simp add: buildContestMatrix_def bindE_def with_official_def returnE_def c l m(1))
qed

lemma ranking_ex:
  obtains res w' where "GetContestRanking ke_ex 5 None 0 10 kw_ex = (Inr (Some res), w')"
    "rr_Problems res \<noteq> []" "map ri_UserId (rr_Data res) = [2, 9]"
proof -
  have k: "first_where (\<lambda>k. ID k = 5) \<lparr>rows = klogs_ex, seq = 3\<rparr> = Some (klog_ex 5 2 3)" by (simp add: first_where_def)
  let ?w = "tick (tick (tick (tick (tick (tick kw_ex)))))"
  have s: "submits (db ?w) = \<lparr>rows = subs_ex, seq = 4\<rparr>" by simp
  obtain m where b: "buildContestMatrix ke_ex (klog_ex 5 2 3) klogs_ex klogs_ex ?w = (Inr (Some m) :: kerr + _, tick ?w)"
    and m: "mr_Problems m \<noteq> []"
    by (rule matrix_ex [OF s])
  have p: "ranking_page ke_ex (klog_ex 5 2 3) [] 0 10 (tick (tick kw_ex)) = (Inr (klogs_ex, klogs_ex, 2), tick (tick (tick (tick (tick kw_ex)))))"
    by (rule page_ex) simp
  show thesis
    by (rule that) (simp_all add: GetContestRanking_def bindE_def tryE_def returnE_def rpcE_def Let_def reliable_evals [OF reliable_ke(1)] k p
        fetchUserNames_def b m ranking_item_def, simp_all add: m)
qed

theorem ranking_rows_consistent_witness:
  "\<exists>res w' item. GetContestRanking ke_ex 5 None 0 10 kw_ex = (Inr (Some res), w') \<and> rr_Problems res \<noteq> [] \<and> item \<in> set (rr_Data res) \<and>
    ri_UserId item = 2 \<and> row_fits (map pl_ProblemKey (rr_Problems res)) (ri_ProblemResults item) (ri_AcCount item) (ri_Penalty item)"
proof -
  obtain res w' where g: "GetContestRanking ke_ex 5 None 0 10 kw_ex = (Inr (Some res), w')"
    and p: "rr_Problems res \<noteq> []" and d: "map ri_UserId (rr_Data res) = [2, 9]"
    by (rule ranking_ex)
  have "2 \<in> set (map ri_UserId (rr_Data res))" by (simp only: d) simp
  then obtain item where i: "item \<in> set (rr_Data res)" "ri_UserId item = 2" by auto
  from ranking_rows_consistent [OF g p i(1)] i g p show ?thesis by auto
qed

section \<open>Ranking and pages\<close>

text \<open>C19. For results with ranks that are not negative, the service's own sorting gives the order of the database query (ranked rows first, by rank, then by solved and total problems and by user), and the pages of any positive size, one after the other, show that whole ranking: no row is lost and none is shown twice.\<close>

theorem contest_pages:
  assumes "\<forall>k \<in> set logs. 0 \<le> k_Rank k" and "0 < n" and "length logs \<le> n * m" and "int (n * m) < 9223372036854775808"
  shows "\<exists>pages. map (\<lambda>i. paginateContestLogs (sortContestLogs logs) (int (n * i)) (int n)) [0..<m] = map Some pages \<and>
    concat pages = sort_key ranking_order logs \<and> (\<forall>page \<in> set pages. length page \<le> n)"
proof (intro exI conjI)
  let ?s = "sort_key ranking_order logs" and ?pages = "map (\<lambda>i. take n (drop (n * i) (sort_key ranking_order logs))) [0..<m]"
  have "paginateContestLogs (sortContestLogs logs) (int (n * i)) (int n) = Some (take n (drop (n * i) ?s))" if "i < m" for i
  proof -
    from that have "n * i + n \<le> n * m" by (metis Suc_leI add.commute mult_Suc_right mult_le_mono2)
    with assms(4) have "int (n * i) + int n < 9223372036854775808" by linarith
    then show ?thesis using assms(2) paginate_page [of "int (n * i)" "int n"] by (simp add: sortContestLogs_eq [OF assms(1)] del: of_nat_mult)
  qed
  then show "map (\<lambda>i. paginateContestLogs (sortContestLogs logs) (int (n * i)) (int n)) [0..<m] = map Some ?pages" by simp
  show "concat ?pages = ?s" using assms(2,3) by (intro concat_pages) simp_all
  show "\<forall>page \<in> set ?pages. length page \<le> n" by simp
qed

theorem contest_pages_witness:
  "\<exists>pages. map (\<lambda>i. paginateContestLogs (sortContestLogs [klog_ex 6 9 0, klog_ex 5 2 3, klog_ex 7 3 2]) (int (2 * i)) (int 2)) [0..<2] = map Some pages \<and>
    concat pages = [klog_ex 7 3 2, klog_ex 5 2 3, klog_ex 6 9 0]"
proof -
  let ?l = "[klog_ex 6 9 0, klog_ex 5 2 3, klog_ex 7 3 2]"
  have "\<forall>k \<in> set ?l. 0 \<le> k_Rank k" "0 < (2 :: nat)" "length ?l \<le> 2 * 2" "int (2 * 2) < 9223372036854775808"
    by (simp_all add: klog_ex_def)
  moreover have "sort_key ranking_order ?l = [klog_ex 7 3 2, klog_ex 5 2 3, klog_ex 6 9 0]"
    by (simp add: ranking_order_def klog_ex_def)
  ultimately show ?thesis using contest_pages [of ?l 2 2] by metis
qed

text \<open>The list of contests counts each contest once, whatever the number of its participants; a page lists the contests of a slice of the groups, latest first, each by the data of one of its results in scope, and the groups hold every contest in scope exactly once (platforms never contain the separator of the joined key).\<close>

theorem contest_list_pages:
  assumes "GetContestList e u offset limit p w = (Inr (items, n), w')"
    and "\<forall>k \<in> set (rows (contests (db w))). CHR 0x1F \<notin> set (k_Platform k)"
    and "own = filter (list_scope u p) (rows (contests (db w)))"
  shows "n = int (card (contest_pair ` set own)) \<and>
    map (\<lambda>i. (ci_Platform i, ci_ContestId i)) items = map fst (page_of limit offset (contest_groups (sql_less e) own)) \<and>
    set items \<subseteq> contest_item ` set own \<and>
    distinct (map fst (contest_groups (sql_less e) own)) \<and> set (map fst (contest_groups (sql_less e) own)) = contest_pair ` set own"
proof -
  from assms(1) obtain logs where d: "dal_GetContestList e u offset limit p w = (Inr (logs, n), w')" and i: "items = map contest_item logs"
    by (auto simp: GetContestList_def succ_simps)
  have "(\<lambda>i. (ci_Platform i, ci_ContestId i)) \<circ> contest_item = contest_pair" by (auto simp: contest_item_def contest_pair_def)
  with contest_list_result [OF d assms(2)] group_keys [of "sql_less e" own] show ?thesis
    by (auto simp: assms(3) i length_remdups_card_conv)
qed

theorem contest_list_pages_witness:
  "\<exists>items w'. GetContestList ke_ex (-1) 0 10 [] kw_ex = (Inr (items, 1), w') \<and> map ci_ContestId items = [''c'']"
proof -
  have s: "\<forall>k \<in> set (rows (contests (db kw_ex))). CHR 0x1F \<notin> set (k_Platform k)" by simp
  have f: "filter (list_scope (-1) []) (rows (contests (db kw_ex))) = klogs_ex" by (simp add: list_scope_def)
  have g: "contest_groups sl klogs_ex = [((''QOJ'', ''c''), 0)]" for sl
    by (simp add: contest_groups_def group_by_def contest_pair_def SliceStable_def klog_ex_def)
  obtain items n w' where e: "GetContestList ke_ex (-1) 0 10 [] kw_ex = (Inr (items, n), w')"
    by (rule contest_list_answers [OF reliable_ke(1)])
  from contest_list_pages [OF e s refl] have "n = 1" "map (\<lambda>i. (ci_Platform i, ci_ContestId i)) items = [(''QOJ'', ''c'')]"
    unfolding f g by (simp_all add: contest_pair_def page_of_def)
  with e show ?thesis by (auto simp: map_eq_Cons_conv)
qed

section \<open>Columns\<close>

text \<open>C20. Assembling the matrix of a contest returns, except for a NowCoder contest whose page gave no problems and which claims more than 26 problems beyond those that were submitted to: there it never returns, because the letters of the made-up problems repeat (submitted problems are not named like made-up ones).\<close>

theorem matrix_returns:
  assumes "\<forall>n. filler_key (k_ContestId contest) n \<notin> problem_names subs"
  shows "assemble_matrix contest pageUsers allUsers (start, fin, official_problems, degraded) subs = None \<longleftrightarrow>
    isContestPlatform (k_Platform contest) NowCoder \<and> official_problems = [] \<and> k_TotalCount contest > int (card (problem_names subs)) + 26"
proof (cases "0 < k_TotalCount contest")
  case True
  from assms have "synthesizeNowCoderProblems (k_ContestId contest) (k_TotalCount contest) subs = None \<longleftrightarrow>
      k_TotalCount contest > int (card (problem_names subs)) + 26"
    by (intro synthesized_problems(1) True) simp
  with True show ?thesis by (auto simp: assemble_matrix_def Let_def split: option.splits)
qed (simp add: assemble_matrix_def Let_def)

theorem matrix_returns_witness:
  "assemble_matrix ((klog_ex 5 2 3)\<lparr>k_Platform := ''NowCoder'', k_TotalCount := 27\<rparr>) [2] [2] (0, 1, [], []) [] = None \<and>
   assemble_matrix ((klog_ex 5 2 3)\<lparr>k_Platform := ''NowCoder'', k_TotalCount := 26\<rparr>) [2] [2] (0, 1, [], []) [] \<noteq> None"
proof -
  have n: "problem_names [] = {}" by (simp add: problem_names_def)
  have p: "isContestPlatform ''NowCoder'' NowCoder" by code_simp
  show ?thesis using matrix_returns [where subs = "[]" and official_problems = "[]" and pageUsers = "[2]" and allUsers = "[2]"
      and start = 0 and fin = 1 and degraded = "[]"] p
    by (simp add: n)
qed

text \<open>The columns of an assembled matrix have distinct keys, and every submission with a key has a column of exactly that key: a submission is never filed under the official problem that has its key only as an alias.\<close>

theorem submissions_have_columns:
  assumes "assemble_matrix contest pageUsers allUsers off subs = Some matrix" and "s \<in> set subs" and "submission_key s \<noteq> ''''"
  shows "distinct (map pl_ProblemKey (mr_Problems matrix)) \<and> (\<exists>!c. c \<in> set (mr_Problems matrix) \<and> pl_ProblemKey c = submission_key s)"
proof -
  from assms(2,3) assembled_columns(2) [OF assms(1)] obtain c where "c \<in> set (mr_Problems matrix)" "pl_ProblemKey c = submission_key s" by force
  with assembled_columns(1) [OF assms(1)] show ?thesis by (metis distinct_map inj_onD)
qed

theorem submissions_have_columns_witness:
  "\<exists>matrix. assemble_matrix (klog_ex 5 2 3) [2] [2] (0, 1, [(prob_ex ''T'')\<lparr>pm_Aliases := [''A'']\<rparr>], []) subs_ex = Some matrix \<and>
    (\<exists>!c. c \<in> set (mr_Problems matrix) \<and> pl_ProblemKey c = ''A'')"
proof -
  have k: "submission_key (sub_ex 2 ''A'' ''WA'' 3) = ''A''" by code_simp
  obtain m where m: "assemble_matrix (klog_ex 5 2 3) [2] [2] (0, 1, [(prob_ex ''T'')\<lparr>pm_Aliases := [''A'']\<rparr>], []) subs_ex = Some m"
    by (simp add: assemble_matrix_def Let_def)
  from submissions_have_columns [OF m list.set_intros(1)] k m show ?thesis by simp
qed



end
