(* ===== verification/Crawl.thy ===== *)
theory Crawl
  imports ContestMeta
begin

text \<open>
  The crawlers of \<^verbatim>\<open>internal/spider/platform\<close>, first part: what they share, Codeforces
  (\<^verbatim>\<open>codeforces.go\<close>) and AtCoder (\<^verbatim>\<open>atcoder.go\<close>).

  A crawler is an action on the state of the process: the clock, the requests sent so far, and the
  variables of the packages. The judge platforms are the parameter \<open>respond\<close>: the answer to the
  \<open>n\<close>-th step of a run. \<open>delay n\<close> is the time that step takes beyond what the code asks for. Regular
  expressions on pages, HTML selections, JSON decoding and the parsing of dates are parameters
  too. A loop without a bound is a \<^verbatim>\<open>partial_function\<close>; its value \<open>None\<close> says that it never ends.
\<close>

section \<open>Requests, parameters and state\<close>

text \<open>\<open>cq_Client\<close> is the client with a cookie jar that sends the request, if it is one of those.\<close>

record crawl_request =
  cq_Method :: string
  cq_URL :: string
  cq_Body :: string
  cq_Client :: "nat option"

definition GET :: "string \<Rightarrow> crawl_request" where
  "GET u = \<lparr>cq_Method = ''GET'', cq_URL = u, cq_Body = '''', cq_Client = None\<rparr>"

record cfJson =
  cf_ID :: int
  cf_ContestID :: int
  cf_ProblemContestID :: int
  cf_ProblemsetName :: string
  cf_Index :: string
  cf_Name :: string
  cf_Language :: string
  cf_Verdict :: string
  cf_Creation :: int

record CFResponse =
  cf_Status :: string
  cf_Comment :: string
  cf_Result :: "cfJson list"

text \<open>What the selectors find in a row of the contests of a user: name, address of the link, time, rank, solved.\<close>

record cf_contest_row =
  cx_Name :: string
  cx_Href :: "string option"
  cx_Time :: string
  cx_Rank :: string
  cx_Ac :: string

record atcJson =
  ac_ID :: int
  ac_EpochSecond :: int
  ac_ProblemID :: string
  ac_ContestID :: string
  ac_Language :: string
  ac_Result :: string

record atCoderContestMeta =
  am_Title :: string
  am_Start :: time
  am_End :: time

record crawl_env =
  respond :: "nat \<Rightarrow> crawl_request \<Rightarrow> gerr + int \<times> (gerr + string)"
  delay :: "nat \<Rightarrow> nat"
  CODEFORCES_API_BASE_URL :: string
  refused_url :: "string \<Rightarrow> bool"
  unmarshal_cf :: "string \<Rightarrow> CFResponse option"
  cf_contest_rows :: "string \<Rightarrow> cf_contest_row list option"
  unmarshal_atc :: "string \<Rightarrow> atcJson list option"
  html_Unescape :: "string \<Rightarrow> string"
  atCoderContestTitleRe :: "string \<Rightarrow> string option"
  atCoderContestTimeRe :: "string \<Rightarrow> string list"
  parse_offset :: "string \<Rightarrow> time option"
  parse_shanghai :: "string \<Rightarrow> time option"
  parse_moscow :: "string \<Rightarrow> time option"

record session =
  se_client :: "nat option"
  se_lastUsed :: time

record crawl_state =
  cr_now :: time
  cr_sent :: "(time \<times> crawl_request) list"
  codeforcesLastRequest :: time
  atCoderContestMetaMap :: "string \<Rightarrow> atCoderContestMeta option"
  luogu_session :: session
  qoj_session :: session

type_synonym crawl_world = "crawl_state world"
type_synonym ('e, 'a) wact = "(crawl_state, 'e, 'a) act"

text \<open>The outcome of a crawl: \<open>None\<close> if it never ends.\<close>

type_synonym 'a crawl = "crawl_world \<Rightarrow> ((gerr + 'a) \<times> crawl_world) option"

definition Now :: "('e, time) wact" where
  "Now w = (Inr (cr_now (db w)), w)"

definition Sleep :: "'x crawl_env_scheme \<Rightarrow> int \<Rightarrow> ('e, unit) wact" where
  "Sleep e d w = (Inr (), (tick w)\<lparr>db := (db w)\<lparr>cr_now := cr_now (db w) + max 0 d + int (delay e (ticks w))\<rparr>\<rparr>)"

text \<open>The answer is an error, or a status and a body whose reading may fail.\<close>

definition http_Do :: "'x crawl_env_scheme \<Rightarrow> crawl_request \<Rightarrow> ('e, gerr + int \<times> (gerr + string)) wact" where
  "http_Do e rq w = (Inr (respond e (ticks w) rq),
     (tick w)\<lparr>db := (db w)\<lparr>cr_now := cr_now (db w) + int (delay e (ticks w)), cr_sent := cr_sent (db w) @ [(cr_now (db w), rq)]\<rparr>\<rparr>)"

text \<open>The body as \<^verbatim>\<open>body, _ := io.ReadAll\<close> sees it: what was read is dropped with the error.\<close>

definition body_or_empty :: "gerr + string \<Rightarrow> string" where
  "body_or_empty b = (case b of Inl _ \<Rightarrow> '''' | Inr s \<Rightarrow> s)"

text \<open>
  \<^verbatim>\<open>url.Values.Encode\<close> of parameters given in the order of their names, set on an address that has
  neither a query nor a fragment.
\<close>

definition with_query :: "string \<Rightarrow> (string \<times> string) list \<Rightarrow> string" where
  "with_query base params = base @ CHR ''?'' # Join (map (\<lambda>(k, v). QueryEscape k @ CHR ''='' # QueryEscape v) params) ''&''"

text \<open>\<^verbatim>\<open>n, _ := strconv.Atoi(s)\<close>: zero for what is no number, the nearest bound for one out of range.\<close>

definition Atoi :: "string \<Rightarrow> int" where
  "Atoi s =
     (let neg = HasPrefix s ''-'';
          ds = (if neg \<or> HasPrefix s ''+'' then tl s else s)
      in if ds = [] \<or> \<not> list_all is_digit ds then 0
         else case ParseInt 64 s of Some v \<Rightarrow> v | None \<Rightarrow> if neg then - 9223372036854775808 else 9223372036854775807)"

definition ms :: "int \<Rightarrow> int" where
  "ms n = n * 1000000"

definition unix_time :: "int \<Rightarrow> time" where
  "unix_time s = s * 1000000000"

section \<open>Codeforces\<close>

definition codeforcesPageSize :: nat where "codeforcesPageSize = 1000"
definition codeforcesMaxPageAttempts :: nat where "codeforcesMaxPageAttempts = 5"
definition codeforcesMinInterval :: int where "codeforcesMinInterval = ms 2200"
definition codeforcesRetryBaseDelay :: int where "codeforcesRetryBaseDelay = ms 1000"

text \<open>\<^verbatim>\<open>codeforcesAPIError\<close> with its status and body, or another error.\<close>

datatype cf_error = codeforcesAPIError int string | OtherError gerr

definition cf_Error :: "cf_error \<Rightarrow> gerr" where
  "cf_Error er = (case er of
     codeforcesAPIError status body \<Rightarrow>
       if 0 < status then Errorf (''bad status '' @ fmt_d status @ '', '' @ body) else Errorf (''CodeForces API error: '' @ body)
   | OtherError g \<Rightarrow> g)"

definition cf_transient :: "int \<Rightarrow> string \<Rightarrow> bool" where
  "cf_transient statusCode body \<longleftrightarrow>
     statusCode = 0 \<or> statusCode = 429 \<or> statusCode = 502 \<or> statusCode = 503 \<or> statusCode = 504 \<or>
     Contains (ToLower body) ''call limit exceeded'' \<or> Contains (ToLower body) ''temporarily unavailable''"

definition buildCodeforcesProblemKey :: "cfJson \<Rightarrow> string" where
  "buildCodeforcesProblemKey sub =
     (let contestID = (if cf_ProblemContestID sub = 0 then cf_ContestID sub else cf_ProblemContestID sub);
          problemName = TrimSpace (cf_Name sub);
          parts = (if TrimSpace (cf_ProblemsetName sub) \<noteq> '''' then [TrimSpace (cf_ProblemsetName sub)] else []) @
                  (if contestID \<noteq> 0 then [fmt_d contestID] else []) @
                  (if TrimSpace (cf_Index sub) \<noteq> '''' then [TrimSpace (cf_Index sub)] else []);
          prefix = Join parts ''-''
      in if prefix \<noteq> '''' \<and> problemName \<noteq> '''' then prefix @ CHR '' '' # problemName
         else if prefix \<noteq> '''' then prefix else problemName)"

definition waitCodeforcesRateLimit :: "'x crawl_env_scheme \<Rightarrow> ('e, unit) wact" where
  "waitCodeforcesRateLimit e =
     bindE (\<lambda>w. let wait = codeforcesMinInterval - (cr_now (db w) - codeforcesLastRequest (db w))
               in if codeforcesLastRequest (db w) \<noteq> zero_time \<and> 0 < wait then Sleep e wait w else (Inr (), w)) (\<lambda>_.
     \<lambda>w. (Inr (), w\<lparr>db := (db w)\<lparr>codeforcesLastRequest := cr_now (db w)\<rparr>\<rparr>))"

definition cf_request :: "string \<Rightarrow> string \<Rightarrow> nat \<Rightarrow> nat \<Rightarrow> crawl_request" where
  "cf_request baseURL username from count =
     GET (with_query baseURL [(''count'', fmt_d (int count)), (''from'', fmt_d (int from)), (''handle'', username)])"

definition fetchCodeforcesPageOnce ::
    "'x crawl_env_scheme \<Rightarrow> string \<Rightarrow> string \<Rightarrow> nat \<Rightarrow> nat \<Rightarrow> (cf_error, CFResponse) wact" where
  "fetchCodeforcesPageOnce e baseURL username from count =
     bindE (waitCodeforcesRateLimit e) (\<lambda>_.
     bindE (http_Do e (cf_request baseURL username from count)) (\<lambda>r.
     case r of
       Inl er \<Rightarrow> failE (codeforcesAPIError 0 (''http request failed: '' @ err_text er))
     | Inr (status, b) \<Rightarrow>
         if status \<noteq> 200 then failE (codeforcesAPIError status (TrimSpace (body_or_empty b)))
         else (case b of
             Inl er \<Rightarrow> failE (OtherError (Errorf (''bad body: '' @ err_text er)))
           | Inr body \<Rightarrow> (case unmarshal_cf e body of
                 None \<Rightarrow> failE (OtherError (Errorf ''bad JSON''))
               | Some cfResp \<Rightarrow>
                   if cf_Status cfResp \<noteq> ''OK'' then
                     failE (codeforcesAPIError 0 (''API status error: '' @ cf_Status cfResp @ '', '' @
                       (if TrimSpace (cf_Comment cfResp) = '''' then cf_Status cfResp else TrimSpace (cf_Comment cfResp))))
                   else returnE cfResp))))"

text \<open>One attempt and the \<open>left\<close> ones after it; the pause grows with the square of the attempt.\<close>

fun cf_attempts :: "'x crawl_env_scheme \<Rightarrow> string \<Rightarrow> string \<Rightarrow> nat \<Rightarrow> nat \<Rightarrow> nat \<Rightarrow> nat \<Rightarrow> (cf_error, CFResponse) wact" where
  "cf_attempts e baseURL username from count n left =
     bindE (tryE (fetchCodeforcesPageOnce e baseURL username from count)) (\<lambda>r.
     case r of
       Inr cfResp \<Rightarrow> returnE cfResp
     | Inl (OtherError g) \<Rightarrow> failE (OtherError g)
     | Inl (codeforcesAPIError status body) \<Rightarrow>
         (case left of
            0 \<Rightarrow> failE (codeforcesAPIError status body)
          | Suc l \<Rightarrow> if \<not> cf_transient status body then failE (codeforcesAPIError status body)
              else bindE (Sleep e (int (n * n) * codeforcesRetryBaseDelay)) (\<lambda>_.
                cf_attempts e baseURL username from count (n + 1) l)))"

declare cf_attempts.simps [simp del]

definition fetchCodeforcesPage ::
    "'x crawl_env_scheme \<Rightarrow> string \<Rightarrow> string \<Rightarrow> nat \<Rightarrow> nat \<Rightarrow> (cf_error, CFResponse) wact" where
  "fetchCodeforcesPage e baseURL username from count =
     cf_attempts e baseURL username from count 1 (codeforcesMaxPageAttempts - 1)"

definition cf_row :: "int \<Rightarrow> cfJson \<Rightarrow> SubmitLog" where
  "cf_row userId sub =
     \<lparr>ID = 0, s_Platform = CodeForces, s_UserID = userId, s_SubmitID = fmt_d (cf_ID sub), s_Contest = fmt_d (cf_ContestID sub),
      s_Problem = buildCodeforcesProblemKey sub, s_Lang = cf_Language sub, s_Status = cf_Verdict sub, s_Time = unix_time (cf_Creation sub)\<rparr>"

definition codeforcesRowsToSubmitLogs :: "int \<Rightarrow> cfJson list \<Rightarrow> SubmitLog list" where
  "codeforcesRowsToSubmitLogs userId rs = map (cf_row userId) rs"

definition currentCodeforcesAPIBaseURL :: "'x crawl_env_scheme \<Rightarrow> string" where
  "currentCodeforcesAPIBaseURL e =
     (let baseURL = TrimSpace (CODEFORCES_API_BASE_URL e)
      in if baseURL \<noteq> '''' then baseURL else ''https://codeforces.com/api/user.status'')"

partial_function (option) cf_pages ::
    "'x crawl_env_scheme \<Rightarrow> int \<Rightarrow> string \<Rightarrow> bool \<Rightarrow> nat \<Rightarrow> SubmitLog list \<Rightarrow> SubmitLog list crawl" where
  "cf_pages e userId username needAll from res w =
     (case fetchCodeforcesPage e (currentCodeforcesAPIBaseURL e) username from codeforcesPageSize w of
        (Inl er, w1) \<Rightarrow> Some (Inl (cf_Error er), w1)
      | (Inr cfResp, w1) \<Rightarrow>
          if \<not> needAll \<or> length (cf_Result cfResp) < codeforcesPageSize
          then Some (Inr (res @ codeforcesRowsToSubmitLogs userId (cf_Result cfResp)), w1)
          else cf_pages e userId username needAll (from + length (cf_Result cfResp))
                 (res @ codeforcesRowsToSubmitLogs userId (cf_Result cfResp)) (snd (Sleep e (ms 300) w1 :: (gerr + unit) \<times> _)))"

definition cf_FetchSubmitLog :: "'x crawl_env_scheme \<Rightarrow> int \<Rightarrow> string \<Rightarrow> bool \<Rightarrow> SubmitLog list crawl" where
  "cf_FetchSubmitLog e userId user needAll w =
     (let username = TrimSpace user
      in if username = '''' then Some (Inl (Errorf ''CodeForces user name is empty''), w)
         else cf_pages e userId username needAll 1 [] w)"

text \<open>\<^verbatim>\<open>strings.Trim(s, "/")\<close>.\<close>

definition trim_slashes :: "string \<Rightarrow> string" where
  "trim_slashes s = rev (dropWhile (\<lambda>c. c = CHR ''/'') (rev (dropWhile (\<lambda>c. c = CHR ''/'') s)))"

definition empty_contest :: "string \<Rightarrow> int \<Rightarrow> ContestLog" where
  "empty_contest platform userId = \<lparr>ID = 0, k_Platform = platform, k_UserID = userId, k_ContestId = '''', k_ContestName = '''',
     k_ContestUrl = '''', k_Rank = 0, k_TotalCount = 0, k_AcCount = 0, k_Time = zero_time, k_EndTime = zero_time\<rparr>"

text \<open>The platform is written differently from \<open>CodeForces\<close> here, as in the code.\<close>

definition cf_contest :: "'x crawl_env_scheme \<Rightarrow> int \<Rightarrow> cf_contest_row \<Rightarrow> ContestLog" where
  "cf_contest e userId row =
     (let parts = (case cx_Href row of None \<Rightarrow> [] | Some href \<Rightarrow> Split CHR ''/'' (trim_slashes href));
          timeStr = TrimSpace (cx_Time row)
      in (empty_contest ''Codeforces'' userId)
           \<lparr>k_ContestName := TrimSpace (cx_Name row),
            k_ContestId := (if 2 \<le> length parts then parts ! 1 else ''''),
            k_ContestUrl := (case cx_Href row of Some href \<Rightarrow> if 2 \<le> length parts then ''https://codeforces.com'' @ href else '''' | None \<Rightarrow> ''''),
            k_Time := (if timeStr = '''' then zero_time else case parse_moscow e timeStr of Some t \<Rightarrow> t | None \<Rightarrow> zero_time),
            k_Rank := Atoi (TrimSpace (cx_Rank row)), k_AcCount := Atoi (TrimSpace (cx_Ac row))\<rparr>)"

text \<open>
  The address has the user name as it is. When \<^verbatim>\<open>http.NewRequest\<close> refuses it, the request is nil and
  setting its header panics: the value \<open>None\<close>.
\<close>

definition cf_FetchContestLog :: "'x crawl_env_scheme \<Rightarrow> int \<Rightarrow> string \<Rightarrow> bool \<Rightarrow> (gerr, ContestLog list option) wact" where
  "cf_FetchContestLog e userId username needAll =
     (let url = ''https://codeforces.com/contests/with/'' @ username @ ''?type=all'' in
      if refused_url e url then returnE None
      else bindE (http_Do e (GET url)) (\<lambda>r.
        case r of
          Inl er \<Rightarrow> failE er
        | Inr (status, b) \<Rightarrow>
            if status \<noteq> 200 then failE (Errorf (''Network Error: '' @ fmt_d status))
            else (case b of
                Inl er \<Rightarrow> failE er
              | Inr body \<Rightarrow>
                  if Contains body ''Just a moment...'' then failE (Errorf ''blocked by Cloudflare protection'')
                  else (case cf_contest_rows e body of
                      None \<Rightarrow> failE (Errorf ''bad HTML'')
                    | Some rs \<Rightarrow> returnE (Some (map (cf_contest e userId) (if needAll then rs else take 1 rs)))))))"

section \<open>AtCoder\<close>

definition atCoderPageSize :: nat where "atCoderPageSize = 500"

definition atc_request :: "string \<Rightarrow> int \<Rightarrow> crawl_request" where
  "atc_request username fromSecond =
     GET (with_query ''https://atc.luckysan.top/atcoder/atcoder-api/v3/user/submissions'' [(''from_second'', fmt_d fromSecond), (''user'', username)])"

definition fetchAtCoderLog :: "'x crawl_env_scheme \<Rightarrow> string \<Rightarrow> int \<Rightarrow> (gerr, atcJson list) wact" where
  "fetchAtCoderLog e username fromSecond =
     bindE (http_Do e (atc_request username fromSecond)) (\<lambda>r.
     case r of
       Inl er \<Rightarrow> failE (Errorf (''http request failed: '' @ err_text er))
     | Inr (status, b) \<Rightarrow>
         if status \<noteq> 200 then failE (Errorf (''bad status '' @ fmt_d status @ '', '' @ body_or_empty b))
         else (case b of
             Inl er \<Rightarrow> failE (Errorf (''bad body: '' @ err_text er))
           | Inr body \<Rightarrow> (case unmarshal_atc e body of None \<Rightarrow> failE (Errorf ''bad JSON'') | Some atc \<Rightarrow> returnE atc)))"

definition fetchAtCoderContestMeta :: "'x crawl_env_scheme \<Rightarrow> string \<Rightarrow> (gerr, atCoderContestMeta) wact" where
  "fetchAtCoderContestMeta e contest =
     (let contestID = TrimSpace contest in
      if contestID = '''' then failE (Errorf ''AtCoder contest_id is empty'')
      else (\<lambda>w. case atCoderContestMetaMap (db w) contestID of
          Some meta \<Rightarrow> (Inr meta, w)
        | None \<Rightarrow>
            bindE (http_Do e (GET (''https://atcoder.jp/contests/'' @ PathEscape contestID))) (\<lambda>r.
            case r of
              Inl er \<Rightarrow> failE er
            | Inr (status, b) \<Rightarrow>
                if status \<noteq> 200 then failE (Errorf (''AtCoder contest page status '' @ fmt_d status))
                else (case b of
                    Inl er \<Rightarrow> failE er
                  | Inr raw \<Rightarrow>
                      let times = atCoderContestTimeRe e raw;
                          at = (\<lambda>i. if i < length times then (case parse_offset e (TrimSpace (times ! i)) of Some t \<Rightarrow> t | None \<Rightarrow> zero_time) else zero_time);
                          meta = \<lparr>am_Title = (case atCoderContestTitleRe e raw of Some t \<Rightarrow> TrimSpace (html_Unescape e t) | None \<Rightarrow> contestID),
                                  am_Start = at 0, am_End = at 1\<rparr>
                      in if am_Start meta = zero_time then failE (Errorf (''AtCoder contest '' @ contestID @ '' has no start time''))
                         else (\<lambda>w. (Inr meta, w\<lparr>db := (db w)\<lparr>atCoderContestMetaMap := (atCoderContestMetaMap (db w))(contestID \<mapsto> meta)\<rparr>\<rparr>)))) w))"

definition atc_row :: "int \<Rightarrow> atcJson \<Rightarrow> SubmitLog" where
  "atc_row userId v =
     \<lparr>ID = 0, s_Platform = AtCoder, s_UserID = userId, s_SubmitID = fmt_d (ac_ID v), s_Contest = ac_ContestID v, s_Problem = ac_ProblemID v,
      s_Lang = ac_Language v, s_Status = ac_Result v, s_Time = unix_time (ac_EpochSecond v)\<rparr>"

definition atCoderRowsToSubmitLogs :: "int \<Rightarrow> atcJson list \<Rightarrow> SubmitLog list" where
  "atCoderRowsToSubmitLogs userId rs = map (atc_row userId) rs"

text \<open>The loop over a page: the latest second, the ids seen, the new rows.\<close>

definition scan_row :: "int \<times> int set \<times> atcJson list \<Rightarrow> atcJson \<Rightarrow> int \<times> int set \<times> atcJson list" where
  "scan_row = (\<lambda>(lastSecond, seen, newRows) row.
     let last' = (if lastSecond < ac_EpochSecond row then ac_EpochSecond row else lastSecond) in
     if ac_ID row \<in> seen then (last', seen, newRows)
     else (last', insert (ac_ID row) seen, newRows @ [row]))"

partial_function (option) atc_pages ::
    "'x crawl_env_scheme \<Rightarrow> string \<Rightarrow> bool \<Rightarrow> int \<Rightarrow> int set \<Rightarrow> atcJson list \<Rightarrow> atcJson list crawl" where
  "atc_pages e username needAll fromSecond seen res w =
     (case fetchAtCoderLog e username fromSecond w of
        (Inl er, w1) \<Rightarrow> Some (Inl er, w1)
      | (Inr atc, w1) \<Rightarrow>
          if atc = [] then Some (Inr res, w1)
          else (case foldl scan_row (fromSecond, seen, []) atc of
            (lastSecond, seen', newRows) \<Rightarrow>
              if \<not> needAll \<or> length atc < atCoderPageSize then Some (Inr (res @ newRows), w1)
              else if newRows = [] \<or> lastSecond \<le> fromSecond then Some (Inl (Errorf ''AtCoder paging makes no progress''), w1)
              else atc_pages e username needAll lastSecond seen' (res @ newRows) (snd (Sleep e (ms 300) w1 :: (gerr + unit) \<times> _))))"

definition fetchAtCoderRows :: "'x crawl_env_scheme \<Rightarrow> string \<Rightarrow> bool \<Rightarrow> atcJson list crawl" where
  "fetchAtCoderRows e user needAll w =
     (let username = TrimSpace user
      in if username = '''' then Some (Inl (Errorf ''AtCoder user name is empty''), w)
         else atc_pages e username needAll (if needAll then 0 else Unix (cr_now (db w) - ms 3600000)) {} [] w)"

definition atc_FetchSubmitLog :: "'x crawl_env_scheme \<Rightarrow> int \<Rightarrow> string \<Rightarrow> bool \<Rightarrow> SubmitLog list crawl" where
  "atc_FetchSubmitLog e userId username needAll w =
     map_option (\<lambda>(r, w1). (map_sum id (atCoderRowsToSubmitLogs userId) r, w1)) (fetchAtCoderRows e username needAll w)"

text \<open>The contests of a user, gathered from the rows; \<open>aggs\<close> lists them in the order in which they are met.\<close>

record contestAgg =
  ag_log :: ContestLog
  ag_submitted :: "string set"
  ag_accepted :: "string set"

type_synonym meta_results = "string \<Rightarrow> (gerr + atCoderContestMeta) option"

definition getMeta :: "'x crawl_env_scheme \<Rightarrow> meta_results \<Rightarrow> string \<Rightarrow> ('e, (gerr + atCoderContestMeta) \<times> meta_results) wact" where
  "getMeta e results contestID =
     (case results contestID of
        Some r \<Rightarrow> returnE (r, results)
      | None \<Rightarrow> bindE (tryE (fetchAtCoderContestMeta e contestID)) (\<lambda>r. returnE (r, results(contestID \<mapsto> r))))"

definition new_agg :: "int \<Rightarrow> string \<Rightarrow> time \<Rightarrow> gerr + atCoderContestMeta \<Rightarrow> contestAgg" where
  "new_agg userId contestID submitTime r =
     \<lparr>ag_log = (empty_contest AtCoder userId)
        \<lparr>k_ContestId := contestID, k_ContestName := (case r of Inr meta \<Rightarrow> am_Title meta | Inl _ \<Rightarrow> contestID),
         k_ContestUrl := ''https://atcoder.jp/contests/'' @ contestID, k_Time := (case r of Inr meta \<Rightarrow> am_Start meta | Inl _ \<Rightarrow> submitTime)\<rparr>,
      ag_submitted = {}, ag_accepted = {}\<rparr>"

definition agg_problem :: "atcJson \<Rightarrow> gerr + atCoderContestMeta \<Rightarrow> contestAgg \<Rightarrow> contestAgg" where
  "agg_problem row r agg =
     (let problemID = TrimSpace (ac_ProblemID row);
          early = ((case r of Inl _ \<Rightarrow> True | Inr _ \<Rightarrow> False) \<and> ac_EpochSecond row < Unix (k_Time (ag_log agg)))
      in \<lparr>ag_log = (if early then (ag_log agg)\<lparr>k_Time := unix_time (ac_EpochSecond row)\<rparr> else ag_log agg),
          ag_submitted = insert problemID (ag_submitted agg),
          ag_accepted = (if EqualFold (TrimSpace (ac_Result row)) ''AC'' then insert problemID (ag_accepted agg) else ag_accepted agg)\<rparr>)"

text \<open>A submission outside the official window is none of the contest.\<close>

definition outside_window :: "gerr + atCoderContestMeta \<Rightarrow> time \<Rightarrow> bool" where
  "outside_window r submitTime = (case r of
     Inl _ \<Rightarrow> False
   | Inr meta \<Rightarrow> am_End meta \<noteq> zero_time \<and> (submitTime < am_Start meta \<or> am_End meta \<le> submitTime))"

definition upd_agg :: "string \<Rightarrow> contestAgg \<Rightarrow> (contestAgg \<Rightarrow> contestAgg) \<Rightarrow> (string \<times> contestAgg) list \<Rightarrow> (string \<times> contestAgg) list" where
  "upd_agg k new f aggs =
     (if k \<in> fst ` set aggs then map (\<lambda>(k', a). (k', if k' = k then f a else a)) aggs else aggs @ [(k, f new)])"

fun agg_rows ::
    "'x crawl_env_scheme \<Rightarrow> int \<Rightarrow> atcJson list \<Rightarrow> meta_results \<Rightarrow> (string \<times> contestAgg) list \<Rightarrow> ('e, (string \<times> contestAgg) list) wact" where
  "agg_rows e userId [] results aggs = returnE aggs"
| "agg_rows e userId (row # rs) results aggs =
     (let contestID = TrimSpace (ac_ContestID row); submitTime = unix_time (ac_EpochSecond row) in
      if contestID = '''' \<or> TrimSpace (ac_ProblemID row) = '''' then agg_rows e userId rs results aggs
      else bindE (getMeta e results contestID) (\<lambda>(r, results').
        if outside_window r submitTime then agg_rows e userId rs results' aggs
        else agg_rows e userId rs results' (upd_agg contestID (new_agg userId contestID submitTime r) (agg_problem row r) aggs)))"

definition close_agg :: "gerr + atCoderContestMeta \<Rightarrow> contestAgg \<Rightarrow> ContestLog" where
  "close_agg r agg =
     (let log = (case r of Inr meta \<Rightarrow> (ag_log agg)\<lparr>k_ContestName := am_Title meta, k_Time := am_Start meta, k_EndTime := am_End meta\<rparr>
                 | Inl _ \<Rightarrow> ag_log agg)
      in log\<lparr>k_TotalCount := int (card (ag_submitted agg)), k_AcCount := int (card (ag_accepted agg))\<rparr>)"

text \<open>The code visits the contests in the order of a Go map, which is not specified; here the one of the rows.\<close>

fun close_aggs :: "'x crawl_env_scheme \<Rightarrow> (string \<times> contestAgg) list \<Rightarrow> ('e, ContestLog list) wact" where
  "close_aggs e [] = returnE []"
| "close_aggs e ((_, agg) # aggs) =
     bindE (tryE (fetchAtCoderContestMeta e (k_ContestId (ag_log agg)))) (\<lambda>r.
     bindE (close_aggs e aggs) (\<lambda>logs. returnE (close_agg r agg # logs)))"

definition atc_FetchContestLog :: "'x crawl_env_scheme \<Rightarrow> int \<Rightarrow> string \<Rightarrow> bool \<Rightarrow> ContestLog list crawl" where
  "atc_FetchContestLog e userId username needAll w =
     (case fetchAtCoderRows e username needAll w of
        None \<Rightarrow> None
      | Some (Inl er, w1) \<Rightarrow> Some (Inl er, w1)
      | Some (Inr rs, w1) \<Rightarrow> Some (bindE (agg_rows e userId rs Map.empty []) (close_aggs e) w1))"

end
