(* ===== verification/SubmitQuery.thy ===== *)
theory SubmitQuery
  imports Contest Crawl "HOL-Library.Char_ord" "HOL-Library.List_Lexorder"
begin

text \<open>
  Reading submissions and contest histories through Redis: \<^verbatim>\<open>GetByUserId\<close>, \<^verbatim>\<open>SetCache\<close>,
  \<^verbatim>\<open>GetContestByUserId\<close> and \<^verbatim>\<open>SetContestCache\<close> of \<^verbatim>\<open>data/dal/spider.go\<close>, \<^verbatim>\<open>service/submit_log.go\<close> and the contest
  history of \<^verbatim>\<open>service/contest.go\<close>.

  The ids of the rows of a user are in a sorted set, ordered by the second of the row, and the rows
  themselves under keys of their own. A page that is not found there is read from the database and
  put into Redis by a goroutine: the list \<open>tasks\<close> has those that did not run yet. The content of a key with a
  sorted set is in \<open>zsets\<close>; the key itself is in the map of keys, so that its removal empties the set.
\<close>

section \<open>State\<close>

datatype cache_task = SubmitTask "SubmitLog list" int | ContestTask "ContestLog list" int string

record query_db =
  core :: cdb
  zsets :: "string \<Rightarrow> (string \<times> int) list"
  tasks :: "cache_task list"

record query_env = core_env +
  gob_submit :: "SubmitLog \<Rightarrow> string"
  ungob_submit :: "string \<Rightarrow> SubmitLog"
  gob_contest :: "ContestLog \<Rightarrow> string"
  ungob_contest :: "string \<Rightarrow> ContestLog"
  gob_times :: "(int \<times> int) list \<Rightarrow> string option"

datatype dal_error = Dal gerr | DalPanic

type_synonym query_world = "query_db world"
type_synonym ('e, 'a) qact = "(query_db, 'e, 'a) act"

text \<open>An action of the service on its tables.\<close>

definition in_core :: "('e, 'a) cact \<Rightarrow> ('e, 'a) qact" where
  "in_core m w =
     (case m \<lparr>db = core (db w), rdb = rdb w, ticks = ticks w\<rparr> of
        (r, w1) \<Rightarrow> (r, \<lparr>db = (db w)\<lparr>core := db w1\<rparr>, rdb = rdb w1, ticks = ticks w1\<rparr>))"

section \<open>Redis commands\<close>

definition zmembers :: "string \<Rightarrow> query_world \<Rightarrow> (string \<times> int) list" where
  "zmembers key w = (case rdb w key of None \<Rightarrow> [] | Some _ \<Rightarrow> zsets (db w) key)"

text \<open>The members with a score below \<open>cursor\<close>, highest first and those of one score by name downwards; no limit unless it is positive.\<close>

definition zrange :: "(string \<times> int) list \<Rightarrow> int \<Rightarrow> int \<Rightarrow> string list" where
  "zrange zs cursor limit =
     (let ids = map fst (filter (\<lambda>z. snd z < cursor) (rev (sort_key snd (sort_key fst zs))))
      in if 0 < limit then take (nat limit) ids else ids)"

definition ZRevRangeByScore :: "'x env_scheme \<Rightarrow> string \<Rightarrow> int \<Rightarrow> int \<Rightarrow> (gerr, string list) qact" where
  "ZRevRangeByScore e key cursor limit w =
     (if stmt_fails e (ticks w) then (Inl DbError, tick w) else (Inr (zrange (zmembers key w) cursor limit), tick w))"

text \<open>\<^verbatim>\<open>MGET\<close>, an error without keys.\<close>

definition MGet :: "'x env_scheme \<Rightarrow> string list \<Rightarrow> (gerr, string option list) qact" where
  "MGet e ks w =
     (if ks = [] then (Inl (Errorf ''wrong number of arguments''), tick w)
      else if stmt_fails e (ticks w) then (Inl DbError, tick w) else (Inr (map (rdb w) ks), tick w))"

definition ZAdd :: "'x env_scheme \<Rightarrow> string \<Rightarrow> string \<Rightarrow> int \<Rightarrow> ('e, unit) qact" where
  "ZAdd e key member score w = (Inr (),
     if stmt_fails e (ticks w) then tick w
     else (tick w)\<lparr>db := (db w)\<lparr>zsets := (zsets (db w))(key := (member, score) # filter (\<lambda>z. fst z \<noteq> member) (zmembers key w))\<rparr>,
       rdb := (rdb w)(key \<mapsto> '''')\<rparr>)"

definition rdb_Set :: "'x env_scheme \<Rightarrow> string \<Rightarrow> string \<Rightarrow> ('e, unit) qact" where
  "rdb_Set e key v w = (Inr (), if stmt_fails e (ticks w) then tick w else (tick w)\<lparr>rdb := (rdb w)(key \<mapsto> v)\<rparr>)"

section \<open>Keys\<close>

definition submit_zkey :: "int \<Rightarrow> string" where "submit_zkey userId = ''core:submit_log:user:'' @ fmt_d userId"
definition submit_detail :: "string \<Rightarrow> string" where "submit_detail i = ''core:submit_log:detail:'' @ i"
definition contest_zkey :: "int \<Rightarrow> string \<Rightarrow> string" where
  "contest_zkey userId platform = ''core:contest_log:user:'' @ fmt_d userId @ (if platform \<noteq> '''' then CHR '':'' # platform else '''')"
definition contest_detail :: "string \<Rightarrow> string" where "contest_detail i = ''core:contest_log:detail:'' @ i"
definition lastSubmitTime_key :: "int \<Rightarrow> string" where "lastSubmitTime_key userId = ''user:'' @ fmt_d userId @ '':lastSubmitTime''"

section \<open>A page through the cache\<close>

text \<open>
  The queries order by time downwards; rows of the same time come in the order of the table here, which
  the database leaves open.
\<close>

definition submit_query :: "int \<Rightarrow> int \<Rightarrow> cdb \<Rightarrow> SubmitLog list" where
  "submit_query userId cursor d =
     sort_key (\<lambda>r. - s_Time r) (filter (\<lambda>r. (userId = -1 \<or> s_UserID r = userId) \<and> s_Time r < unix_time cursor) (rows (submits d)))"

definition contest_query :: "int \<Rightarrow> int \<Rightarrow> string \<Rightarrow> cdb \<Rightarrow> ContestLog list" where
  "contest_query userId cursor platform d =
     sort_key (\<lambda>r. - k_Time r) (filter (\<lambda>r. (userId = -1 \<or> k_UserID r = userId) \<and> k_Time r < unix_time cursor \<and> (platform = '''' \<or> k_Platform r = platform))
       (rows (contests d)))"

text \<open>
  \<^verbatim>\<open>dbFunc\<close>: the rows from the database, and a goroutine that puts them into the cache. The query object is used
  twice and keeps what the first use left: its error, after which nothing more is sent, and its limit, which a limit of 0
  does not replace. When the query fails the goroutine gets the rows an earlier one left.
\<close>

definition spawn :: "('r list \<Rightarrow> cache_task) \<Rightarrow> 'r list \<Rightarrow> query_world \<Rightarrow> query_world" where
  "spawn task rs w = w\<lparr>db := (db w)\<lparr>tasks := tasks (db w) @ [task rs]\<rparr>\<rparr>"

definition dbFunc ::
    "'x env_scheme \<Rightarrow> (cdb \<Rightarrow> 'r list) \<Rightarrow> ('r list \<Rightarrow> cache_task) \<Rightarrow> int \<Rightarrow> gerr option \<Rightarrow> 'r list \<Rightarrow> (dal_error, 'r list) qact" where
  "dbFunc e query task limit failed before w = (case failed of
     Some g \<Rightarrow> (Inl (Dal g), spawn task before w)
   | None \<Rightarrow>
       if stmt_fails e (ticks w) then (Inl (Dal DbError), spawn task before (tick w))
       else let rs = page_of limit 0 (query (core (db w))) in (Inr rs, spawn task rs (tick w)))"

definition merged_limit :: "int \<Rightarrow> int" where
  "merged_limit limit = (if limit = 0 then 1 else limit)"

text \<open>
  The cache answers when it has enough ids, the newest of them is the newest row of the database, and all the
  rows are there. \<open>needRow\<close> is set where an empty table is left to the database. An empty list of
  ids is looked at without a test.
\<close>

definition cached_page ::
    "'x env_scheme \<Rightarrow> string \<Rightarrow> (string \<Rightarrow> string) \<Rightarrow> (string \<Rightarrow> 'a row0_scheme) \<Rightarrow> (cdb \<Rightarrow> 'a row0_scheme list) \<Rightarrow> ('a row0_scheme list \<Rightarrow> cache_task) \<Rightarrow>
     bool \<Rightarrow> int \<Rightarrow> int \<Rightarrow> (dal_error, 'a row0_scheme list) qact" where
  "cached_page e key detail decode query task needRow cursor limit =
     bindE (tryE (ZRevRangeByScore e key cursor limit)) (\<lambda>r. case r of
       Inl _ \<Rightarrow> dbFunc e query task limit None []
     | Inr ids \<Rightarrow> bindE (tryE (in_core (q_select e (\<lambda>d. take 1 (query d))))) (\<lambda>f. case f of
         Inl g \<Rightarrow> dbFunc e query task (merged_limit limit) (Some g) []
       | Inr one \<Rightarrow>
           if int (length ids) < limit \<or> needRow \<and> one = [] then dbFunc e query task (merged_limit limit) None one
           else if one \<noteq> [] \<and> ids = [] then failE DalPanic
           else if one \<noteq> [] \<and> fmt_d (int (ID (hd one))) \<noteq> hd ids then dbFunc e query task (merged_limit limit) None one
           else bindE (tryE (MGet e (map detail ids))) (\<lambda>g. case g of
               Inl _ \<Rightarrow> dbFunc e query task (merged_limit limit) None one
             | Inr vals \<Rightarrow> if None \<in> set vals then dbFunc e query task (merged_limit limit) None one else returnE (map (\<lambda>v. decode (the v)) vals))))"

definition GetByUserId :: "'x query_env_scheme \<Rightarrow> int \<Rightarrow> int \<Rightarrow> int \<Rightarrow> (dal_error, SubmitLog list) qact" where
  "GetByUserId e userId lastTimeUnix limit =
     (let cursor = (if lastTimeUnix = -1 then 33325619029 else lastTimeUnix) in
      cached_page e (submit_zkey userId) submit_detail (ungob_submit e) (submit_query userId cursor) (\<lambda>rs. SubmitTask rs userId) True cursor limit)"

definition GetContestByUserId :: "'x query_env_scheme \<Rightarrow> int \<Rightarrow> int \<Rightarrow> int \<Rightarrow> string \<Rightarrow> (dal_error, ContestLog list) qact" where
  "GetContestByUserId e userId cursor0 limit platform =
     (let cursor = (if cursor0 = 0 then 33325619029 else cursor0) in
      cached_page e (contest_zkey userId platform) contest_detail (ungob_contest e) (contest_query userId cursor platform)
        (\<lambda>rs. ContestTask rs userId platform) False cursor limit)"

section \<open>Filling the cache\<close>

fun cache_rows :: "'x env_scheme \<Rightarrow> string \<Rightarrow> (string \<Rightarrow> string) \<Rightarrow> (string \<times> int \<times> string) list \<Rightarrow> ('e, unit) qact" where
  "cache_rows e key detail [] = returnE ()"
| "cache_rows e key detail ((i, score, v) # rs) =
     bindE (ZAdd e key i score) (\<lambda>_. bindE (rdb_Set e (detail i) v) (\<lambda>_. cache_rows e key detail rs))"

definition SetCache :: "'x query_env_scheme \<Rightarrow> SubmitLog list \<Rightarrow> int \<Rightarrow> ('e, unit) qact" where
  "SetCache e logs userId =
     cache_rows e (submit_zkey userId) submit_detail (map (\<lambda>v. (fmt_d (int (ID v)), Unix (s_Time v), gob_submit e v)) logs)"

definition SetContestCache :: "'x query_env_scheme \<Rightarrow> ContestLog list \<Rightarrow> int \<Rightarrow> string \<Rightarrow> ('e, unit) qact" where
  "SetContestCache e logs userId platform =
     cache_rows e (contest_zkey userId platform) contest_detail (map (\<lambda>v. (fmt_d (int (ID v)), Unix (k_Time v), gob_contest e v)) logs)"

definition run_task :: "'x query_env_scheme \<Rightarrow> cache_task \<Rightarrow> ('e, unit) qact" where
  "run_task e t = (case t of SubmitTask rs u \<Rightarrow> SetCache e rs u | ContestTask rs u p \<Rightarrow> SetContestCache e rs u p)"

section \<open>Handlers\<close>

record SubmitItem =
  si_Id :: nat
  si_UserId :: int
  si_Platform :: string
  si_SubmitId :: string
  si_Contest :: string
  si_Problem :: string
  si_Lang :: string
  si_Status :: string
  si_Time :: int

definition submit_item :: "SubmitLog \<Rightarrow> SubmitItem" where
  "submit_item v = \<lparr>si_Id = ID v mod 4294967296, si_UserId = s_UserID v, si_Platform = s_Platform v, si_SubmitId = s_SubmitID v,
     si_Contest = s_Contest v, si_Problem = s_Problem v, si_Lang = s_Lang v, si_Status = s_Status v, si_Time = Unix (s_Time v)\<rparr>"

text \<open>An error of the data layer becomes an internal server error; a panic leaves the handler for the recovery middleware of the server.\<close>

datatype handler_error = Answer kerr | HandlerPanic

definition dal_answer :: "dal_error \<Rightarrow> handler_error" where
  "dal_answer er = (case er of Dal g \<Rightarrow> Answer (InternalServer ''internal server error'' (err_text g)) | DalPanic \<Rightarrow> HandlerPanic)"

definition GetSubmitLog :: "'x query_env_scheme \<Rightarrow> int \<Rightarrow> int \<Rightarrow> int \<Rightarrow> (handler_error, SubmitItem list) qact" where
  "GetSubmitLog e userId cursor limit =
     bindE (withErr dal_answer (GetByUserId e userId cursor limit)) (\<lambda>d. returnE (map submit_item d))"

definition GetUserContestHistory :: "'x query_env_scheme \<Rightarrow> int \<Rightarrow> int \<Rightarrow> int \<Rightarrow> string \<Rightarrow> (handler_error, ContestItem list) qact" where
  "GetUserContestHistory e userId cursor limit platform =
     bindE (withErr dal_answer (GetContestByUserId e userId cursor limit platform)) (\<lambda>logs. returnE (map contest_item logs))"

text \<open>\<^verbatim>\<open>timesMap\<close> as a list of users and times in which the first entry of a user counts.\<close>

fun hit_times :: "int list \<Rightarrow> string option list \<Rightarrow> (int \<times> int) list \<Rightarrow> int list \<Rightarrow> (int \<times> int) list \<times> int list" where
  "hit_times (u # us) (v # vs) tm miss = (case v of
     None \<Rightarrow> hit_times us vs tm (miss @ [u])
   | Some s \<Rightarrow> hit_times us vs ((u, Atoi s) # tm) miss)"
| "hit_times _ _ tm miss = (tm, miss)"

text \<open>\<^verbatim>\<open>DISTINCT ON (user_id) ... ORDER BY user_id, time DESC\<close>.\<close>

definition last_times :: "int list \<Rightarrow> cdb \<Rightarrow> (int \<times> time) list" where
  "last_times us d =
     map (\<lambda>u. (u, Max (s_Time ` set (filter (\<lambda>r. s_UserID r = u) (rows (submits d))))))
       (sorted_list_of_set (set (map s_UserID (filter (\<lambda>r. s_UserID r \<in> set us) (rows (submits d))))))"

fun cache_times :: "'x env_scheme \<Rightarrow> (int \<times> time) list \<Rightarrow> ('e, unit) qact" where
  "cache_times e [] = returnE ()"
| "cache_times e ((u, t) # ts) = bindE (rdb_Set e (lastSubmitTime_key u) (fmt_d (Unix t))) (\<lambda>_. cache_times e ts)"

text \<open>A failing \<^verbatim>\<open>MGET\<close> leaves the list of values nil.\<close>

definition LastSubmitTime :: "'x query_env_scheme \<Rightarrow> int list \<Rightarrow> (kerr, string) qact" where
  "LastSubmitTime e userIds =
     bindE (tryE (MGet e (map lastSubmitTime_key userIds))) (\<lambda>r.
     let (tm, missUser) = hit_times userIds (case r of Inl _ \<Rightarrow> [] | Inr vals \<Rightarrow> vals) [] [] in
     bindE (if missUser = [] then returnE tm
            else bindE (withErr (\<lambda>_. InternalServer ''internal error'' ''database query error'') (in_core (q_select e (last_times missUser)))) (\<lambda>d.
                 bindE (cache_times e d) (\<lambda>_. returnE (map (\<lambda>(u, t). (u, Unix t)) d @ tm)))) (\<lambda>timesMap.
     case gob_times e timesMap of
       None \<Rightarrow> failE (InternalServer ''internal error'' ''encoding error'')
     | Some encoded \<Rightarrow> returnE encoded))"

section \<open>Runs\<close>

text \<open>Requests, goroutines that get to run, keys that expire, and deliveries that change the tables.\<close>

datatype query_op = ReadSubmits int int int | ReadContests int int int string | RunTask nat | ExpireKey string | Refresh int int bool string

definition query_step :: "'x query_env_scheme \<Rightarrow> query_op \<Rightarrow> query_world \<Rightarrow> query_world" where
  "query_step e op w = (case op of
     ReadSubmits u cursor limit \<Rightarrow> snd (GetSubmitLog e u cursor limit w)
   | ReadContests u cursor limit p \<Rightarrow> snd (GetUserContestHistory e u cursor limit p w)
   | RunTask i \<Rightarrow> if i < length (tasks (db w))
       then snd (run_task e (tasks (db w) ! i) (w\<lparr>db := (db w)\<lparr>tasks := take i (tasks (db w)) @ drop (Suc i) (tasks (db w))\<rparr>\<rparr>) :: (gerr + unit) \<times> _)
       else w
   | ExpireKey k \<Rightarrow> w\<lparr>rdb := (rdb w)(k := None)\<rparr>
   | Refresh jobId u needAll p \<Rightarrow> snd (in_core (LoadData e jobId u needAll p) w))"

definition query_run :: "'x query_env_scheme \<Rightarrow> query_op list \<Rightarrow> query_world \<Rightarrow> query_world" where
  "query_run e ops w = fold (query_step e) ops w"

end
