(* ===== verification/QueryFacts.thy ===== *)
theory QueryFacts
  imports SubmitQuery CoreSamples StatisticFacts
begin

text \<open>
  Facts about reading through the cache: what a page holds when the cache is sound (locale \<open>row_cache\<close>, for
  submissions and for contests), that reading and filling keep it sound, what reads do without failures, and the times
  of the last submissions.
\<close>

section \<open>Sorted sets\<close>

lemma zrange_ids:
  assumes "i \<in> set (zrange zs cursor limit)"
  shows "\<exists>sc. (i, sc) \<in> set zs \<and> sc < cursor"
proof -
  have "i \<in> set (map fst (filter (\<lambda>z. snd z < cursor) (rev (sort_key snd (sort_key fst zs)))))"
    using assms by (auto simp: zrange_def Let_def dest: in_set_takeD split: if_splits)
  then show ?thesis by auto
qed

lemma zrange_distinct: "distinct (map fst zs) \<Longrightarrow> distinct (zrange zs cursor limit)"
proof -
  assume d: "distinct (map fst zs)"
  then have "distinct (map fst (rev (sort_key snd (sort_key fst zs))))" by (simp add: distinct_map rev_map [symmetric])
  then have "distinct (map fst (filter (\<lambda>z. snd z < cursor) (rev (sort_key snd (sort_key fst zs)))))" by (rule distinct_map_filter)
  then show ?thesis by (auto simp: zrange_def Let_def)
qed

lemma map_of_sorted_scores:
  assumes "distinct (map fst zs)"
  shows "sorted_wrt (\<lambda>i j. the (map_of zs j) \<le> the (map_of zs i)) (zrange zs cursor limit)"
proof -
  let ?l = "rev (sort_key snd (sort_key fst zs))"
  have "sorted_wrt (\<lambda>a b. snd b \<le> snd a) ?l" using sorted_sort_key [of snd "sort_key fst zs"] unfolding sorted_wrt_rev sorted_map .
  then have s: "sorted_wrt (\<lambda>a b. snd b \<le> snd a) (filter (\<lambda>z. snd z < cursor) ?l)" by (rule sorted_wrt_filter)
  have m: "a \<in> set ?l \<Longrightarrow> the (map_of zs (fst a)) = snd a" for a using assms by (cases a) simp
  have "sorted_wrt (\<lambda>i j. the (map_of zs j) \<le> the (map_of zs i)) (map fst (filter (\<lambda>z. snd z < cursor) ?l))"
    unfolding sorted_wrt_map by (rule sorted_wrt_mono_rel [OF _ s]) (use m in auto)
  then show ?thesis by (auto simp: zrange_def Let_def intro: sorted_wrt_take)
qed

lemma Unix_less: "Unix t < c \<longleftrightarrow> t < unix_time c"
  by (auto simp: Unix_def unix_time_def div_less_iff_less_mult)

section \<open>Where a page comes from\<close>

lemma dbFunc_ok: "dbFunc e query task limit failed before w = (Inr rs, w') \<Longrightarrow> rs = page_of limit 0 (query (core (db w)))"
  by (auto simp: dbFunc_def Let_def split: if_splits option.splits)

lemma merged_limit_pos [simp]: "0 < limit \<Longrightarrow> merged_limit limit = limit"
  by (simp add: merged_limit_def)

lemma MGet_ok: "MGet e ks w = (Inr vals, w') \<Longrightarrow> vals = map (rdb w) ks \<and> ks \<noteq> []"
  by (auto simp: MGet_def split: if_splits)

lemma select_ok: "in_core (q_select e f) w = (r, w') \<Longrightarrow> (r = Inl DbError \<or> r = Inr (f (core (db w)))) \<and> core (db w') = core (db w) \<and> rdb w' = rdb w \<and> zsets (db w') = zsets (db w) \<and> tasks (db w') = tasks (db w)"
  by (auto simp: in_core_def q_select_def stmt_def split: if_splits)

lemma zrev_ok: "ZRevRangeByScore e key cursor limit w = (r, w') \<Longrightarrow> (r = Inl DbError \<or> r = Inr (zrange (zmembers key w) cursor limit)) \<and> w' = tick w"
  by (auto simp: ZRevRangeByScore_def split: if_splits)

lemma cached_page_eq:
  assumes "ZRevRangeByScore e key cursor limit w = (r1, w1)" and "in_core (q_select e (\<lambda>d. take 1 (query d))) w1 = (r2 :: gerr + _, w2)"
  shows "cached_page e key detail decode query task needRow cursor limit w = (case r1 of
       Inl _ \<Rightarrow> dbFunc e query task limit None [] w1
     | Inr ids \<Rightarrow> (case r2 of
         Inl g \<Rightarrow> dbFunc e query task (merged_limit limit) (Some g) [] w2
       | Inr one \<Rightarrow>
           if int (length ids) < limit \<or> needRow \<and> one = [] then dbFunc e query task (merged_limit limit) None one w2
           else if one \<noteq> [] \<and> ids = [] then (Inl DalPanic, w2)
           else if one \<noteq> [] \<and> fmt_d (int (ID (hd one))) \<noteq> hd ids then dbFunc e query task (merged_limit limit) None one w2
           else (case MGet e (map detail ids) w2 of (g, w3) \<Rightarrow> (case g of
               Inl _ \<Rightarrow> dbFunc e query task (merged_limit limit) None one w3
             | Inr vals \<Rightarrow> if None \<in> set vals then dbFunc e query task (merged_limit limit) None one w3 else (Inr (map (\<lambda>v. decode (the v)) vals), w3)))))"
  using assms by (auto simp: cached_page_def bindE_def tryE_def failE_def returnE_def split: sum.splits prod.splits)

lemma cached_page_cases:
  assumes "cached_page e key detail decode query task needRow cursor limit w = (Inr rs, w')" and "0 < limit"
  obtains (database) "rs = page_of limit 0 (query (core (db w)))"
  | (hit) "rs = map (\<lambda>i. decode (the (rdb w (detail i)))) (zrange (zmembers key w) cursor limit)"
      "\<forall>i \<in> set (zrange (zmembers key w) cursor limit). rdb w (detail i) \<noteq> None"
      "limit \<le> int (length (zrange (zmembers key w) cursor limit))" "zrange (zmembers key w) cursor limit \<noteq> []"
      "needRow \<Longrightarrow> query (core (db w)) \<noteq> []"
      "query (core (db w)) \<noteq> [] \<Longrightarrow> fmt_d (int (ID (hd (query (core (db w)))))) = hd (zrange (zmembers key w) cursor limit)"
proof -
  obtain r1 w1 where z: "ZRevRangeByScore e key cursor limit w = (r1, w1)" by fastforce
  note z' = zrev_ok [OF z]
  obtain r2 w2 where q: "in_core (q_select e (\<lambda>d. take 1 (query d))) w1 = (r2 :: gerr + _, w2)" by fastforce
  note q' = select_ok [OF q]
  have c: "core (db w1) = core (db w)" "rdb w1 = rdb w" using z' by simp_all
  note run = cached_page_eq [OF z q, of detail decode task needRow]
  obtain g w3 where m: "MGet e (map detail (zrange (zmembers key w) cursor limit)) w2 = (g, w3)" by fastforce
  have m': "core (db w3) = core (db w2)" using m by (auto simp: MGet_def split: if_splits)
  have one: "take 1 (query (core (db w))) = [] \<longleftrightarrow> query (core (db w)) = []" "query (core (db w)) \<noteq> [] \<Longrightarrow> hd (take 1 (query (core (db w)))) = hd (query (core (db w)))"
    by (cases "query (core (db w))"; simp)+
  show thesis
  proof (cases "rs = page_of limit 0 (query (core (db w)))")
    case False
    then have nd: "dbFunc e query task limit g x v \<noteq> (Inr rs, w')" if "core (db v) = core (db w)" for g x v using dbFunc_ok that by metis
    note run' = run [unfolded assms(1) merged_limit_pos [OF assms(2)], symmetric]
    have "r1 \<noteq> Inl DbError" using run' nd [OF c(1), of None "[]"] by auto
    then have r1: "r1 = Inr (zrange (zmembers key w) cursor limit)" using z' by blast
    have w2: "core (db w2) = core (db w)" "core (db w3) = core (db w)" using q' c m' by simp_all
    have "r2 \<noteq> Inl DbError" using run' nd [OF w2(1), of "Some DbError" "[]"] r1 by auto
    then have r2: "r2 = Inr (take 1 (query (core (db w))))" using q' c by simp
    from run' nd [OF w2(1), of None "take 1 (query (core (db w)))"] nd [OF w2(2), of None "take 1 (query (core (db w)))"] have
      "\<not> int (length (zrange (zmembers key w) cursor limit)) < limit" "needRow \<Longrightarrow> query (core (db w)) \<noteq> []"
      "query (core (db w)) \<noteq> [] \<Longrightarrow> fmt_d (int (ID (hd (query (core (db w)))))) = hd (zrange (zmembers key w) cursor limit)"
      "\<exists>vals. g = Inr vals \<and> None \<notin> set vals \<and> rs = map (\<lambda>v. decode (the v)) vals"
      unfolding r1 r2 by (auto simp: one m split: if_splits sum.splits)
    moreover from this(4) obtain vals where vals: "g = Inr vals" "None \<notin> set vals" "rs = map (\<lambda>v. decode (the v)) vals" by blast
    moreover from MGet_ok [OF m [unfolded vals(1)]] have "vals = map (rdb w) (map detail (zrange (zmembers key w) cursor limit))"
      "zrange (zmembers key w) cursor limit \<noteq> []" using q' c by auto
    ultimately show thesis by (intro hit) (auto simp: image_iff simp flip: not_None_eq)
  qed (rule database)
qed

section \<open>A sound cache\<close>

text \<open>The members of the set are rows in scope, under their id and second, and a row found under its key is the row of the table.\<close>

definition cache_ok ::
    "string \<Rightarrow> (string \<Rightarrow> string) \<Rightarrow> (string \<Rightarrow> 'a row0_scheme) \<Rightarrow> (cdb \<Rightarrow> 'a row0_scheme table) \<Rightarrow> ('a row0_scheme \<Rightarrow> time) \<Rightarrow> ('a row0_scheme \<Rightarrow> bool) \<Rightarrow> query_world \<Rightarrow> bool" where
  "cache_ok key detail decode tbl tm scope w \<longleftrightarrow>
     distinct (map fst (zmembers key w)) \<and>
     (\<forall>z \<in> set (zmembers key w). \<exists>r \<in> set (rows (tbl (core (db w)))). scope r \<and> fst z = fmt_d (int (ID r)) \<and> snd z = Unix (tm r)) \<and>
     (\<forall>r \<in> set (rows (tbl (core (db w)))). \<forall>v. rdb w (detail (fmt_d (int (ID r)))) = Some v \<longrightarrow> decode v = r)"

text \<open>What a page promises: rows in scope older than the cursor, each once, in the order of time, no more than asked for, and the newest of them first.\<close>

definition sound_page :: "('a row0_scheme \<Rightarrow> time) \<Rightarrow> 'a row0_scheme list \<Rightarrow> int \<Rightarrow> 'a row0_scheme list \<Rightarrow> bool" where
  "sound_page tm available limit rs \<longleftrightarrow>
     set rs \<subseteq> set available \<and> distinct rs \<and> sorted_wrt (\<lambda>a b. Unix (tm b) \<le> Unix (tm a)) rs \<and> (0 \<le> limit \<longrightarrow> length rs \<le> nat limit) \<and>
     (rs \<noteq> [] \<longrightarrow> hd rs = hd available) \<and> (0 < limit \<and> available \<noteq> [] \<longrightarrow> rs \<noteq> [])"

locale row_cache =
  fixes key :: string
    and detail :: "string \<Rightarrow> string"
    and decode :: "string \<Rightarrow> 'a row0_scheme"
    and tbl :: "cdb \<Rightarrow> 'a row0_scheme table"
    and tm :: "'a row0_scheme \<Rightarrow> time"
    and scope :: "'a row0_scheme \<Rightarrow> bool"
    and query :: "int \<Rightarrow> cdb \<Rightarrow> 'a row0_scheme list"
  assumes query: "query cursor d = sort_key (\<lambda>r. - tm r) (filter (\<lambda>r. scope r \<and> tm r < unix_time cursor) (rows (tbl d)))"
begin

lemma query_set: "set (query cursor d) = {r \<in> set (rows (tbl d)). scope r \<and> tm r < unix_time cursor}"
  by (auto simp: query)

lemma query_sorted: "sorted_wrt (\<lambda>a b. Unix (tm b) \<le> Unix (tm a)) (query cursor d)"
proof -
  have "sorted (map (\<lambda>r. - tm r) (query cursor d))" unfolding query by (rule sorted_sort_key)
  then have "sorted_wrt (\<lambda>a b. tm b \<le> tm a) (query cursor d)" by (simp add: sorted_map)
  then show ?thesis by (rule sorted_wrt_mono_rel [rotated]) (simp add: Unix_def zdiv_mono1)
qed

lemma query_distinct: "wf_table (tbl d) \<Longrightarrow> distinct (query cursor d)"
  by (simp add: query wf_table_def distinct_map)

lemma db_page_sound:
  assumes "wf_table (tbl d)"
  shows "sound_page tm (query cursor d) limit (page_of limit 0 (query cursor d))"
proof -
  let ?q = "query cursor d"
  have "set (take n ?q) \<subseteq> set ?q" "distinct (take n ?q)" "sorted_wrt (\<lambda>a b. Unix (tm b) \<le> Unix (tm a)) (take n ?q)" "take n ?q \<noteq> [] \<longrightarrow> hd (take n ?q) = hd ?q" for n
    using query_distinct [OF assms, of cursor] query_sorted [of cursor d] by (auto dest: in_set_takeD intro: sorted_wrt_take simp: hd_take)
  then show ?thesis using query_distinct [OF assms, of cursor] query_sorted [of cursor d]
    by (simp add: sound_page_def page_of_def Let_def)
qed

text \<open>The rows of a page from the cache.\<close>

lemma hit_rows:
  assumes "cache_ok key detail decode tbl tm scope w" and "wf_table (tbl (core (db w)))" and "rs = map (\<lambda>i. decode (the (rdb w (detail i)))) (zrange (zmembers key w) cursor limit)"
    and "\<forall>i \<in> set (zrange (zmembers key w) cursor limit). rdb w (detail i) \<noteq> None"
  shows "map (\<lambda>r. fmt_d (int (ID r))) rs = zrange (zmembers key w) cursor limit"
    and "set rs \<subseteq> set (query cursor (core (db w)))"
    and "sorted_wrt (\<lambda>a b. Unix (tm b) \<le> Unix (tm a)) rs"
proof -
  let ?ids = "zrange (zmembers key w) cursor limit" and ?f = "\<lambda>i. decode (the (rdb w (detail i)))"
  have row: "\<exists>r \<in> set (rows (tbl (core (db w)))). scope r \<and> i = fmt_d (int (ID r)) \<and> ?f i = r \<and> the (map_of (zmembers key w) i) = Unix (tm r) \<and> tm r < unix_time cursor"
    if i: "i \<in> set ?ids" for i
  proof -
    obtain sc where sc: "(i, sc) \<in> set (zmembers key w)" "sc < cursor" using zrange_ids [OF i] by blast
    then obtain r where r: "r \<in> set (rows (tbl (core (db w))))" "scope r" "i = fmt_d (int (ID r))" "sc = Unix (tm r)"
      using assms(1) unfolding cache_ok_def by (metis fst_conv snd_conv)
    moreover obtain v where "rdb w (detail i) = Some v" using assms(4) i by blast
    moreover have "map_of (zmembers key w) i = Some sc" using sc(1) assms(1) by (simp add: cache_ok_def)
    ultimately show ?thesis using assms(1) sc(2) Unix_less unfolding cache_ok_def by (metis option.sel)
  qed
  show "map (\<lambda>r. fmt_d (int (ID r))) rs = ?ids" unfolding assms(3) map_map o_def by (rule map_idI) (use row in metis)
  show "set rs \<subseteq> set (query cursor (core (db w)))" unfolding assms(3) query_set using row by fastforce
  have "distinct (map fst (zmembers key w))" using assms(1) by (simp add: cache_ok_def)
  from map_of_sorted_scores [OF this, of cursor limit]
  show "sorted_wrt (\<lambda>a b. Unix (tm b) \<le> Unix (tm a)) rs" unfolding assms(3) sorted_wrt_map
    by (rule sorted_wrt_mono_rel [rotated]) (use row in metis)
qed

lemma ID_inj: "wf_table (tbl d) \<Longrightarrow> r \<in> set (rows (tbl d)) \<Longrightarrow> s \<in> set (rows (tbl d)) \<Longrightarrow> fmt_d (int (ID r)) = fmt_d (int (ID s)) \<Longrightarrow> r = s"
  using wf_table_id_inj fmt_d_inj by (metis of_nat_eq_iff)

theorem page_sound:
  assumes "cache_ok key detail decode tbl tm scope w" and "wf_table (tbl (core (db w)))" and "0 < limit"
    and "cached_page e key detail decode (query cursor) task True cursor limit w = (Inr rs, w')"
  shows "sound_page tm (query cursor (core (db w))) limit rs"
  using assms(4,3)
proof (cases rule: cached_page_cases)
  case database
  then show ?thesis using db_page_sound [OF assms(2)] by simp
next
  case hit
  let ?ids = "zrange (zmembers key w) cursor limit" and ?q = "query cursor (core (db w))"
  note h = hit_rows [OF assms(1,2) hit(1,2)]
  have d: "distinct ?ids" using assms(1) by (intro zrange_distinct) (simp add: cache_ok_def)
  have "rs \<noteq> []" using hit(4) h(1) by auto
  then have "fmt_d (int (ID (hd rs))) = hd ?ids" unfolding h(1) [symmetric] by (simp add: hd_map)
  moreover have "hd rs \<in> set ?q" using h(2) \<open>rs \<noteq> []\<close> hd_in_set by blast
  ultimately have "fmt_d (int (ID (hd rs))) = fmt_d (int (ID (hd ?q)))" "hd rs \<in> set ?q" using hit(5,6) by simp_all
  moreover have "hd ?q \<in> set ?q" using hit(5) by simp
  ultimately have "hd rs = hd ?q" using ID_inj [OF assms(2)] by (auto simp: query_set)
  moreover have "distinct rs" using d unfolding h(1) [symmetric] distinct_map by blast
  moreover have "length rs \<le> nat limit" using assms(3) by (simp add: hit(1) zrange_def)
  ultimately show ?thesis using h(2,3) \<open>rs \<noteq> []\<close> by (simp add: sound_page_def)
qed

end

text \<open>The two caches of the service.\<close>

definition submit_scope :: "int \<Rightarrow> SubmitLog \<Rightarrow> bool" where
  "submit_scope u r \<longleftrightarrow> u = -1 \<or> s_UserID r = u"

definition contest_scope :: "int \<Rightarrow> string \<Rightarrow> ContestLog \<Rightarrow> bool" where
  "contest_scope u p r \<longleftrightarrow> (u = -1 \<or> k_UserID r = u) \<and> (p = '''' \<or> k_Platform r = p)"

interpretation submit: row_cache "submit_zkey u" submit_detail "ungob_submit e" submits s_Time "submit_scope u" "submit_query u" for e u
  by unfold_locales (simp add: submit_query_def submit_scope_def)

interpretation contest: row_cache "contest_zkey u p" contest_detail "ungob_contest e" contests k_Time "contest_scope u p" "\<lambda>c. contest_query u c p" for e u p
  by unfold_locales (auto simp: contest_query_def contest_scope_def intro!: arg_cong [where f = "sort_key (\<lambda>r. - k_Time r)"] filter_cong)

section \<open>Reading and filling keep the cache sound\<close>

lemma zmembers_simps [simp]:
  "zmembers k (tick w) = zmembers k w"
  "zmembers k (w\<lparr>ticks := n\<rparr>) = zmembers k w"
  by (simp_all add: zmembers_def split: option.splits)

text \<open>No key of a set is the key of a row, and users have sets of their own.\<close>

lemma keys_apart: "submit_zkey u \<noteq> submit_detail i" "contest_zkey u p \<noteq> submit_zkey v" "contest_zkey u p \<noteq> submit_detail i" "contest_detail i \<noteq> submit_zkey v"
    "contest_detail i \<noteq> submit_detail j"
  by (simp_all add: submit_zkey_def submit_detail_def contest_zkey_def contest_detail_def)

lemma submit_zkey_inj: "submit_zkey u = submit_zkey v \<longleftrightarrow> u = v"
  by (auto simp: submit_zkey_def dest: fmt_d_inj)

fun task_ok :: "cdb \<Rightarrow> cache_task \<Rightarrow> bool" where
  "task_ok d (SubmitTask rs u) \<longleftrightarrow> (\<forall>r \<in> set rs. r \<in> set (rows (submits d)) \<and> submit_scope u r)"
| "task_ok d (ContestTask _ _ _) \<longleftrightarrow> True"

definition all_sound :: "'x query_env_scheme \<Rightarrow> query_world \<Rightarrow> bool" where
  "all_sound e w \<longleftrightarrow> wf_table (submits (core (db w))) \<and>
     (\<forall>u. cache_ok (submit_zkey u) submit_detail (ungob_submit e) submits s_Time (submit_scope u) w) \<and>
     (\<forall>t \<in> set (tasks (db w)). task_ok (core (db w)) t)"

lemma cache_rows_frame: "cache_rows e key detail rs w = (r, w') \<Longrightarrow> core (db w') = core (db w) \<and> tasks (db w') = tasks (db w)"
  by (induction e key detail rs arbitrary: w rule: cache_rows.induct) (auto simp: bindE_def returnE_def ZAdd_def rdb_Set_def split: if_splits)

lemma cache_rows_other:
  "cache_rows e key detail rs w = (r, w') \<Longrightarrow> k \<noteq> key \<Longrightarrow> (\<And>i. k \<noteq> detail i) \<Longrightarrow> rdb w' k = rdb w k \<and> zsets (db w') k = zsets (db w) k"
  by (induction e key detail rs arbitrary: w rule: cache_rows.induct) (auto simp: bindE_def returnE_def ZAdd_def rdb_Set_def split: if_splits)

lemma cache_ok_cong:
  "core (db w') = core (db w) \<Longrightarrow> zmembers key w' = zmembers key w \<Longrightarrow> (\<And>i. rdb w' (detail i) = rdb w (detail i)) \<Longrightarrow>
    cache_ok key detail decode tbl tm scope w' = cache_ok key detail decode tbl tm scope w"
  by (simp add: cache_ok_def)

lemma cache_ok_tick [simp]: "cache_ok key detail decode tbl tm scope (tick w) = cache_ok key detail decode tbl tm scope w"
  by (rule cache_ok_cong) simp_all

abbreviation "submits_ok e u \<equiv> cache_ok (submit_zkey u) submit_detail (ungob_submit e) submits s_Time (submit_scope u)"

lemma submits_ok_ZAdd:
  assumes "submits_ok e v w" and "r \<in> set (rows (submits (core (db w))))" and "submit_scope u r"
    and "ZAdd e' (submit_zkey u) (fmt_d (int (ID r))) (Unix (s_Time r)) w = (q, w')"
  shows "submits_ok e v w'"
proof (cases "stmt_fails e' (ticks w)")
  case True
  then show ?thesis using assms(1,4) by (auto simp: ZAdd_def)
next
  case False
  have w: "core (db w') = core (db w)" "rdb w' (submit_detail i) = rdb w (submit_detail i)" for i
    using False keys_apart(1) [of u i] assms(4) by (auto simp: ZAdd_def)
  show ?thesis
  proof (cases "v = u")
    case True
    have z: "zmembers (submit_zkey u) w' = (fmt_d (int (ID r)), Unix (s_Time r)) # filter (\<lambda>z. fst z \<noteq> fmt_d (int (ID r))) (zmembers (submit_zkey u) w)"
      using False assms(4) by (auto simp: ZAdd_def zmembers_def)
    have ok: "submits_ok e u w" using assms(1) True by simp
    then have "distinct (map fst (filter (\<lambda>z. fst z \<noteq> fmt_d (int (ID r))) (zmembers (submit_zkey u) w)))" by (intro distinct_map_filter) (simp add: cache_ok_def)
    then have "distinct (map fst (zmembers (submit_zkey u) w'))" unfolding z by auto
    moreover have "\<forall>y \<in> set (zmembers (submit_zkey u) w'). \<exists>s \<in> set (rows (submits (core (db w)))). submit_scope u s \<and> fst y = fmt_d (int (ID s)) \<and> snd y = Unix (s_Time s)"
      unfolding z using ok assms(2,3) by (auto simp: cache_ok_def)
    ultimately show ?thesis using ok w True by (simp add: cache_ok_def)
  next
    case False
    then have "zmembers (submit_zkey v) w' = zmembers (submit_zkey v) w" using assms(4) by (auto simp: ZAdd_def zmembers_def submit_zkey_inj split: option.splits if_splits)
    then show ?thesis using assms(1) w by (simp add: cache_ok_def)
  qed
qed

lemma submits_ok_Set:
  assumes "submits_ok e v w" and "wf_table (submits (core (db w)))" and "r \<in> set (rows (submits (core (db w))))" and "ungob_submit e x = r"
    and "rdb_Set e' (submit_detail (fmt_d (int (ID r)))) x w = (q, w')"
  shows "submits_ok e v w'"
proof (cases "stmt_fails e' (ticks w)")
  case True
  then show ?thesis using assms(1,5) by (auto simp: rdb_Set_def)
next
  case False
  have z: "zmembers (submit_zkey v) w' = zmembers (submit_zkey v) w" "core (db w') = core (db w)"
    using False keys_apart(1) [of v] assms(5) by (auto simp: rdb_Set_def zmembers_def split: option.splits)
  have "ungob_submit e y = s" if "s \<in> set (rows (submits (core (db w))))" "rdb w' (submit_detail (fmt_d (int (ID s)))) = Some y" for s y
  proof (cases "fmt_d (int (ID s)) = fmt_d (int (ID r))")
    case True
    then have "s = r" using submit.ID_inj [OF assms(2) that(1) assms(3)] by simp
    with that(2) False assms(4,5) show ?thesis by (auto simp: rdb_Set_def)
  next
    case ne: False
    then have "rdb w (submit_detail (fmt_d (int (ID s)))) = Some y" using that(2) False assms(5) by (auto simp: rdb_Set_def submit_detail_def)
    with that(1) assms(1) show ?thesis by (simp add: cache_ok_def)
  qed
  with assms(1) z show ?thesis by (simp add: cache_ok_def)
qed

lemma SetCache_sound:
  assumes "\<forall>r \<in> set rs. ungob_submit e (gob_submit e r) = r" and "\<forall>r \<in> set rs. r \<in> set (rows (submits (core (db w)))) \<and> submit_scope u r"
    and "wf_table (submits (core (db w)))" and "\<forall>v. submits_ok e v w"
  shows "\<forall>v. submits_ok e v (snd (SetCache e rs u w :: ('e + unit) \<times> _))"
  using assms
proof (induction rs arbitrary: w)
  case Nil
  then show ?case by (simp add: SetCache_def returnE_def)
next
  case (Cons r rs)
  obtain w1 where w1: "ZAdd e (submit_zkey u) (fmt_d (int (ID r))) (Unix (s_Time r)) w = (Inr () :: 'e + unit, w1)" by (simp add: ZAdd_def)
  obtain w2 where w2: "rdb_Set e (submit_detail (fmt_d (int (ID r)))) (gob_submit e r) w1 = (Inr () :: 'e + unit, w2)" by (simp add: rdb_Set_def)
  have c: "core (db w1) = core (db w)" "core (db w2) = core (db w)" using w1 w2 by (auto simp: ZAdd_def rdb_Set_def split: if_splits)
  have s: "SetCache e (r # rs) u w = (SetCache e rs u w2 :: ('e + unit) \<times> _)" by (simp add: SetCache_def bindE_def w1 w2)
  have r: "r \<in> set (rows (submits (core (db w))))" "submit_scope u r" "ungob_submit e (gob_submit e r) = r" using Cons.prems(1,2) by auto
  have "submits_ok e v w1" for v using Cons.prems(4) by (intro submits_ok_ZAdd [OF _ r(1,2) w1]) simp
  then have "submits_ok e v w2" for v using Cons.prems(3) r c by (intro submits_ok_Set [OF _ _ _ _ w2]) simp_all
  with Cons.IH [of w2] Cons.prems c show ?case unfolding s by simp
qed

text \<open>A request changes nothing but the list of goroutines, and gives a goroutine rows of its query only.\<close>

definition read_only :: "(cdb \<Rightarrow> 'r list) \<Rightarrow> ('r list \<Rightarrow> cache_task) \<Rightarrow> query_world \<Rightarrow> query_world \<Rightarrow> bool" where
  "read_only query task w w' \<longleftrightarrow> core (db w') = core (db w) \<and> rdb w' = rdb w \<and> zsets (db w') = zsets (db w) \<and>
     (tasks (db w') = tasks (db w) \<or> (\<exists>rs. set rs \<subseteq> set (query (core (db w))) \<and> tasks (db w') = tasks (db w) @ [task rs]))"

lemma page_rows_subset: "set (page_of limit 0 xs) \<subseteq> set xs"
  by (auto simp: page_of_def Let_def dest: in_set_takeD)

lemma dbFunc_read_only:
  assumes "dbFunc e query task limit failed before v = (r, w')" and "set before \<subseteq> set (query (core (db w)))"
    and "core (db v) = core (db w)" "rdb v = rdb w" "zsets (db v) = zsets (db w)" "tasks (db v) = tasks (db w)"
  shows "read_only query task w w'"
  using assms page_rows_subset [of limit "query (core (db w))"] by (auto simp: dbFunc_def spawn_def Let_def read_only_def split: if_splits option.splits)

lemma cached_page_read_only:
  assumes "cached_page e key detail decode query task needRow cursor limit w = (r, w')"
  shows "read_only query task w w'"
proof -
  obtain r1 w1 where z: "ZRevRangeByScore e key cursor limit w = (r1, w1)" by fastforce
  note z' = zrev_ok [OF z]
  obtain r2 w2 where q: "in_core (q_select e (\<lambda>d. take 1 (query d))) w1 = (r2 :: gerr + _, w2)" by fastforce
  note q' = select_ok [OF q]
  have m: "core (db w3) = core (db v) \<and> rdb w3 = rdb v \<and> zsets (db w3) = zsets (db v) \<and> tasks (db w3) = tasks (db v)" if "MGet e ks v = (g, w3)" for ks v g w3
    using that by (auto simp: MGet_def split: if_splits)
  have one: "set (take 1 (query (core (db w)))) \<subseteq> set (query (core (db w)))" by (meson in_set_takeD subsetI)
  have r2: "r2 = Inl DbError \<or> r2 = Inr (take 1 (query (core (db w))))" using q' z' by simp
  have fin: "read_only query task w v" if "core (db v) = core (db w)" "rdb v = rdb w" "zsets (db v) = zsets (db w)" "tasks (db v) = tasks (db w)" for v
    using that by (simp add: read_only_def)
  have w2: "core (db w2) = core (db w)" "rdb w2 = rdb w" "zsets (db w2) = zsets (db w)" "tasks (db w2) = tasks (db w)" using q' z' by simp_all
  have d: "dbFunc e query task limit failed before v = (r, w') \<Longrightarrow> before = [] \<or> before = take 1 (query (core (db w))) \<Longrightarrow> core (db v) = core (db w) \<and> rdb v = rdb w \<and>
      zsets (db v) = zsets (db w) \<and> tasks (db v) = tasks (db w) \<Longrightarrow> read_only query task w w'" for limit failed before v
    using one by (elim dbFunc_read_only) auto
  note R = assms [unfolded cached_page_eq [OF z q]]
  show ?thesis
  proof (cases r1)
    case (Inl er)
    with R z' show ?thesis by (intro d [of limit None "[]" w1]) auto
  next
    case r1: (Inr ids)
    show ?thesis
    proof (cases r2)
      case (Inl er)
      with R r1 w2 show ?thesis by (intro d [of "merged_limit limit" "Some er" "[]" w2]) auto
    next
      case (Inr x)
      then have x: "x = take 1 (query (core (db w)))" using r2 by simp
      obtain g w3 where g: "MGet e (map detail ids) w2 = (g, w3)" by fastforce
      note w3 = m [OF g, unfolded w2]
      from R consider "dbFunc e query task (merged_limit limit) None x w2 = (r, w')" | "w' = w2" | "dbFunc e query task (merged_limit limit) None x w3 = (r, w')" | "w' = w3"
        unfolding r1 Inr by (auto simp: g split: if_splits sum.splits)
      then show ?thesis
      proof cases
        case 1
        then show ?thesis by (rule d) (use x w2 in auto)
      next
        case 2
        then show ?thesis using fin [OF w2] by simp
      next
        case 3
        then show ?thesis by (rule d) (use x w3 in auto)
      next
        case 4
        then show ?thesis using fin [of w3] w3 by simp
      qed
    qed
  qed
qed

text \<open>Every step but a refresh keeps the cache sound.\<close>

lemma read_only_sound:
  assumes "read_only query task w w'" and "all_sound e w" and "\<And>rs. set rs \<subseteq> set (query (core (db w))) \<Longrightarrow> task_ok (core (db w)) (task rs)"
  shows "all_sound e w'"
proof -
  have z: "zmembers k w' = zmembers k w" for k using assms(1) by (simp add: read_only_def zmembers_def split: option.splits)
  have c: "core (db w') = core (db w)" "rdb w' = rdb w" using assms(1) by (simp_all add: read_only_def)
  have "submits_ok e u w" for u using assms(2) by (simp add: all_sound_def)
  then have "submits_ok e u w'" for u by (simp add: cache_ok_def z c)
  moreover have "task_ok (core (db w)) t" if "t \<in> set (tasks (db w'))" for t
    using that assms unfolding read_only_def all_sound_def by auto
  ultimately show ?thesis using assms(2) c by (simp add: all_sound_def)
qed

lemma submit_query_scope: "r \<in> set (submit_query u c d) \<Longrightarrow> r \<in> set (rows (submits d)) \<and> submit_scope u r"
  by (auto simp: submit_query_def submit_scope_def)

lemma withErr_snd: "snd (bindE (withErr h m) (\<lambda>d. returnE (f d)) w) = snd (m w)"
  by (auto simp: bindE_def withErr_def returnE_def split: prod.splits sum.splits)

lemma SetContestCache_other:
  assumes "SetContestCache e rs x p w = (r, w')" and "k = submit_zkey u \<or> k = submit_detail j"
  shows "rdb w' k = rdb w k \<and> zsets (db w') k = zsets (db w) k"
  by (rule cache_rows_other [OF assms(1) [unfolded SetContestCache_def]]) (use assms(2) keys_apart in \<open>metis\<close>)+

lemma run_task_frame: "run_task e t w = (r, w') \<Longrightarrow> core (db w') = core (db w) \<and> tasks (db w') = tasks (db w)"
  by (auto simp: run_task_def SetCache_def SetContestCache_def dest!: cache_rows_frame split: cache_task.splits)

fun refreshes :: "query_op \<Rightarrow> bool" where
  "refreshes (Refresh _ _ _ _) = True"
| "refreshes _ = False"

lemma step_sound:
  assumes "\<forall>r \<in> set (rows (submits (core (db w)))). ungob_submit e (gob_submit e r) = r" and "all_sound e w" and "\<not> refreshes op"
  shows "all_sound e (query_step e op w)"
proof (cases op)
  case (ReadSubmits u cursor limit)
  obtain r w' where g: "GetByUserId e u cursor limit w = (r, w')" by fastforce
  then have "all_sound e w'" unfolding GetByUserId_def Let_def
    by (rule read_only_sound [OF cached_page_read_only _ _]) (use assms(2) submit_query_scope in auto)
  then show ?thesis by (simp add: query_step_def ReadSubmits GetSubmitLog_def withErr_snd g)
next
  case (ReadContests u cursor limit p)
  obtain r w' where g: "GetContestByUserId e u cursor limit p w = (r, w')" by fastforce
  then have "all_sound e w'" unfolding GetContestByUserId_def Let_def
    by (rule read_only_sound [OF cached_page_read_only _ _]) (use assms(2) in auto)
  then show ?thesis by (simp add: query_step_def ReadContests GetUserContestHistory_def withErr_snd g)
next
  case (ExpireKey k)
  have z: "zmembers j (w\<lparr>rdb := (rdb w)(k := None)\<rparr>) = (if j = k then [] else zmembers j w)" for j
    by (simp add: zmembers_def split: option.splits)
  have "submits_ok e u w" for u using assms(2) by (simp add: all_sound_def)
  then have "submits_ok e u (w\<lparr>rdb := (rdb w)(k := None)\<rparr>)" for u
    unfolding cache_ok_def z by (auto split: if_splits)
  then show ?thesis using assms(2) by (simp add: query_step_def ExpireKey all_sound_def)
next
  case (RunTask i)
  show ?thesis
  proof (cases "i < length (tasks (db w))")
    case True
    let ?w = "w\<lparr>db := (db w)\<lparr>tasks := take i (tasks (db w)) @ drop (Suc i) (tasks (db w))\<rparr>\<rparr>"
    have t: "tasks (db w) ! i \<in> set (tasks (db w))" using True by simp
    have sub: "set (tasks (db ?w)) \<subseteq> set (tasks (db w))" by (auto dest: in_set_takeD in_set_dropD)
    have z: "zmembers k ?w = zmembers k w" for k by (simp add: zmembers_def split: option.splits)
    have "submits_ok e u w" for u using assms(2) by (simp add: all_sound_def)
    then have ok: "submits_ok e u ?w" for u by (simp add: cache_ok_def z)
    obtain r v where v: "run_task e (tasks (db w) ! i) ?w = (r :: gerr + unit, v)" by fastforce
    note f = run_task_frame [OF v]
    have "submits_ok e u v" for u
    proof (cases "tasks (db w) ! i")
      case (SubmitTask rs x)
      then have "\<forall>r \<in> set rs. r \<in> set (rows (submits (core (db w)))) \<and> submit_scope x r" using t assms(2) unfolding all_sound_def by force
      with SetCache_sound [where 'e = gerr, of rs e ?w x] ok assms(1,2) v show ?thesis by (simp add: run_task_def SubmitTask all_sound_def)
    next
      case (ContestTask rs x p)
      then have k: "rdb v k = rdb ?w k \<and> zsets (db v) k = zsets (db ?w) k" if "k = submit_zkey u \<or> k = submit_detail j" for k j
        using that v by (intro SetContestCache_other [of e rs x p ?w r]) (simp_all add: run_task_def)
      have "zmembers (submit_zkey u) v = zmembers (submit_zkey u) ?w" using k [of "submit_zkey u"] by (simp add: zmembers_def split: option.splits)
      moreover have "rdb v (submit_detail j) = rdb ?w (submit_detail j)" for j using k [of "submit_detail j" j] by simp
      ultimately show ?thesis using ok [of u] f by (simp add: cache_ok_def)
    qed
    then show ?thesis using True v f assms(2) sub unfolding all_sound_def query_step_def RunTask by auto
  qed (use assms(2) in \<open>simp add: query_step_def RunTask\<close>)
qed (use assms(3) in simp)

lemma step_core:
  assumes "\<not> refreshes op"
  shows "core (db (query_step e op w)) = core (db w)"
proof (cases op)
  case (ReadSubmits u cursor limit)
  obtain r w' where g: "GetByUserId e u cursor limit w = (r, w')" by fastforce
  then have "core (db w') = core (db w)" unfolding GetByUserId_def Let_def by (auto dest!: cached_page_read_only simp: read_only_def)
  then show ?thesis by (simp add: query_step_def ReadSubmits GetSubmitLog_def withErr_snd g)
next
  case (ReadContests u cursor limit p)
  obtain r w' where g: "GetContestByUserId e u cursor limit p w = (r, w')" by fastforce
  then have "core (db w') = core (db w)" unfolding GetContestByUserId_def Let_def by (auto dest!: cached_page_read_only simp: read_only_def)
  then show ?thesis by (simp add: query_step_def ReadContests GetUserContestHistory_def withErr_snd g)
next
  case (RunTask i)
  let ?w = "w\<lparr>db := (db w)\<lparr>tasks := take i (tasks (db w)) @ drop (Suc i) (tasks (db w))\<rparr>\<rparr>"
  obtain r v where v: "run_task e (tasks (db w) ! i) ?w = (r :: gerr + unit, v)" by fastforce
  from run_task_frame [OF v] v show ?thesis by (simp add: query_step_def RunTask)
qed (use assms in \<open>simp_all add: query_step_def\<close>)

lemma run_sound:
  assumes "\<forall>r \<in> set (rows (submits (core (db w)))). ungob_submit e (gob_submit e r) = r" and "all_sound e w" and "\<forall>op \<in> set ops. \<not> refreshes op"
  shows "all_sound e (query_run e ops w) \<and> core (db (query_run e ops w)) = core (db w)"
  using assms
proof (induction ops arbitrary: w)
  case (Cons op ops)
  have "all_sound e (query_step e op w)" "core (db (query_step e op w)) = core (db w)" using Cons.prems step_sound step_core by auto
  with Cons.IH [of "query_step e op w"] Cons.prems show ?case by (simp add: query_run_def)
qed (simp add: query_run_def)

text \<open>An empty cache is sound.\<close>

lemma empty_sound:
  assumes "wf_table (submits (core (db w)))" and "tasks (db w) = []" and "\<And>k. HasPrefix k ''core:submit_log:'' \<Longrightarrow> rdb w k = None"
  shows "all_sound e w"
proof -
  have "rdb w (submit_zkey u) = None" "rdb w (submit_detail i) = None" for u i by (simp_all add: assms(3) submit_zkey_def submit_detail_def)
  then show ?thesis using assms(1,2) by (simp add: all_sound_def cache_ok_def zmembers_def)
qed

section \<open>Runs without failures\<close>

definition filled :: "string \<Rightarrow> int \<Rightarrow> SubmitLog \<Rightarrow> query_world \<Rightarrow> query_world" where
  "filled v u r w = w\<lparr>
     db := (db w)\<lparr>tasks := [],
       zsets := (zsets (db w))(submit_zkey u := (fmt_d (int (ID r)), Unix (s_Time r)) # filter (\<lambda>z. fst z \<noteq> fmt_d (int (ID r))) (zmembers (submit_zkey u) w))\<rparr>,
     rdb := (rdb w)(submit_zkey u \<mapsto> '''', submit_detail (fmt_d (int (ID r))) \<mapsto> v)\<rparr>"

lemma short_read:
  assumes "reliable e" and "cursor \<noteq> -1" and "int (length (zrange (zmembers (submit_zkey u) w) cursor limit)) < limit"
  shows "\<exists>n. query_step e (ReadSubmits u cursor limit) w =
    w\<lparr>db := (db w)\<lparr>tasks := tasks (db w) @ [SubmitTask (page_of limit 0 (submit_query u cursor (core (db w)))) u]\<rparr>, ticks := n\<rparr>"
proof -
  have f: "\<not> stmt_fails e n" for n using assms(1) by (simp add: reliable_def)
  obtain r2 w2 where q: "in_core (q_select e (\<lambda>d. take 1 (submit_query u cursor d))) (tick w) = (r2 :: gerr + _, w2)" by fastforce
  have w2: "w2 = tick (tick w)" "r2 = Inr (take 1 (submit_query u cursor (core (db w))))" using q f by (auto simp: in_core_def q_select_def stmt_def tick_def)
  have z: "ZRevRangeByScore e (submit_zkey u) cursor limit w = (Inr (zrange (zmembers (submit_zkey u) w) cursor limit), tick w)" using f by (simp add: ZRevRangeByScore_def)
  have "snd (GetByUserId e u cursor limit w) =
      w\<lparr>db := (db w)\<lparr>tasks := tasks (db w) @ [SubmitTask (page_of limit 0 (submit_query u cursor (core (db w)))) u]\<rparr>, ticks := Suc (Suc (Suc (ticks w)))\<rparr>"
    using assms(2,3) f by (simp add: GetByUserId_def cached_page_eq [OF z q] w2 dbFunc_def spawn_def Let_def tick_def)
  then show ?thesis by (intro exI [of _ "Suc (Suc (Suc (ticks w)))"]) (simp add: query_step_def GetSubmitLog_def withErr_snd)
qed

lemma fill_one:
  assumes "reliable e" and "tasks (db w) = [SubmitTask [r] u]"
  shows "\<exists>n. query_step e (RunTask 0) w = (filled (gob_submit e r) u r w)\<lparr>ticks := n\<rparr>"
proof -
  have f: "\<not> stmt_fails e n" for n using assms(1) by (simp add: reliable_def)
  have z: "zmembers k (w\<lparr>db := (db w)\<lparr>tasks := []\<rparr>\<rparr>) = zmembers k w" for k by (simp add: zmembers_def split: option.splits)
  have "(SetCache e [r] u (w\<lparr>db := (db w)\<lparr>tasks := []\<rparr>\<rparr>) :: (gerr + unit) \<times> _) = (Inr (), (filled (gob_submit e r) u r w)\<lparr>ticks := Suc (Suc (ticks w))\<rparr>)"
    using f by (simp add: SetCache_def bindE_def ZAdd_def rdb_Set_def returnE_def tick_def z filled_def)
  then show ?thesis using assms(2) by (intro exI [of _ "Suc (Suc (ticks w))"]) (simp add: query_step_def run_task_def)
qed

lemma hit_read:
  assumes "reliable e" and "cursor \<noteq> -1" and "zrange (zmembers (submit_zkey u) w) cursor limit = ids" and "limit \<le> int (length ids)" and "ids \<noteq> []"
    and "submit_query u cursor (core (db w)) = q # qs" and "fmt_d (int (ID q)) = hd ids" and "\<forall>i \<in> set ids. rdb w (submit_detail i) \<noteq> None"
  shows "fst (GetByUserId e u cursor limit w) = Inr (map (\<lambda>i. ungob_submit e (the (rdb w (submit_detail i)))) ids)"
proof -
  have f: "\<not> stmt_fails e n" for n using assms(1) by (simp add: reliable_def)
  obtain r2 w2 where q: "in_core (q_select e (\<lambda>d. take 1 (submit_query u cursor d))) (tick w) = (r2 :: gerr + _, w2)" by fastforce
  have w2: "w2 = tick (tick w)" "r2 = Inr [q]" using q f assms(6) by (auto simp: in_core_def q_select_def stmt_def tick_def)
  have z: "ZRevRangeByScore e (submit_zkey u) cursor limit w = (Inr ids, tick w)" using f assms(3) by (simp add: ZRevRangeByScore_def)
  have "None \<notin> set (map (rdb w) (map submit_detail ids))" using assms(8) by force
  then show ?thesis using assms(2,4,5,7) f by (simp add: GetByUserId_def cached_page_eq [OF z q] w2 MGet_def)
qed

section \<open>The times of the last submissions\<close>

lemma hit_times_map:
  "hit_times us (map f us) tm miss =
     (rev (List.map_filter (\<lambda>u. map_option (\<lambda>s. (u, Atoi s)) (f u)) us) @ tm, miss @ filter (\<lambda>u. f u = None) us)"
  by (induction us arbitrary: tm miss) (auto simp: List.map_filter_simps split: option.splits)

lemma map_of_hits: "map_of (rev (List.map_filter (\<lambda>u. map_option (\<lambda>s. (u, Atoi s)) (f u)) us)) v = (if v \<in> set us then map_option Atoi (f v) else None)"
  by (induction us) (auto simp: List.map_filter_simps map_add_def split: option.splits if_splits)

lemma map_of_last_times:
  "map_of (map (\<lambda>(u, t). (u, Unix t)) (last_times us d)) v =
     (if v \<in> set us \<and> (\<exists>r \<in> set (rows (submits d)). s_UserID r = v)
      then Some (Unix (Max (s_Time ` {r \<in> set (rows (submits d)). s_UserID r = v}))) else None)"
proof -
  have "map (\<lambda>(u, t). (u, Unix t)) (last_times us d) =
     map (\<lambda>u. (u, Unix (Max (s_Time ` {r \<in> set (rows (submits d)). s_UserID r = u}))))
       (sorted_list_of_set (set (map s_UserID (filter (\<lambda>r. s_UserID r \<in> set us) (rows (submits d))))))"
    by (simp add: last_times_def)
  then show ?thesis by (auto simp: map_of_map_restrict restrict_map_def)
qed

lemma cache_times_ok: "\<exists>w'. cache_times e ts w = (Inr (), w')"
  by (induction e ts arbitrary: w rule: cache_times.induct) (auto simp: bindE_def returnE_def rdb_Set_def)

definition newest_time :: "int \<Rightarrow> cdb \<Rightarrow> int option" where
  "newest_time u d = (if \<exists>r \<in> set (rows (submits d)). s_UserID r = u
     then Some (Unix (Max (s_Time ` {r \<in> set (rows (submits d)). s_UserID r = u}))) else None)"

lemma LastSubmitTime_answer:
  assumes "reliable e" and "us \<noteq> []" and "LastSubmitTime e us w = (Inr encoded, w')"
  shows "\<exists>tm. gob_times e tm = Some encoded \<and> (\<forall>u \<in> set us. map_of tm u =
    (case rdb w (lastSubmitTime_key u) of Some s \<Rightarrow> Some (Atoi s) | None \<Rightarrow> newest_time u (core (db w))))"
proof -
  have f: "\<not> stmt_fails e n" for n using assms(1) by (simp add: reliable_def)
  let ?f = "\<lambda>u. rdb w (lastSubmitTime_key u)"
  let ?hits = "rev (List.map_filter (\<lambda>u. map_option (\<lambda>s. (u, Atoi s)) (?f u)) us)" and ?miss = "filter (\<lambda>u. ?f u = None) us"
  have h: "hit_times us (map (rdb w) (map lastSubmitTime_key us)) [] [] = (?hits, ?miss)"
    using hit_times_map [of us ?f "[]" "[]"] by (simp add: comp_def)
  have m: "MGet e (map lastSubmitTime_key us) w = (Inr (map (rdb w) (map lastSubmitTime_key us)), tick w)" using assms(2) f by (simp add: MGet_def)
  show ?thesis
  proof (cases "?miss = []")
    case True
    then have "gob_times e ?hits = Some encoded" using assms(3)
      by (simp add: LastSubmitTime_def tryE_def bindE_def m h returnE_def failE_def del: map_map split: option.splits)
    moreover have "map_of ?hits u = map_option Atoi (?f u)" if "u \<in> set us" for u using that by (simp add: map_of_hits)
    ultimately show ?thesis using True by (fastforce simp: filter_empty_conv split: option.splits)
  next
    case False
    obtain w2 where q: "in_core (q_select e (last_times ?miss)) (tick w) = (Inr (last_times ?miss (core (db w))) :: gerr + _, w2)"
      using f by (auto simp: in_core_def q_select_def stmt_def)
    obtain w3 where c: "cache_times e (last_times ?miss (core (db w))) w2 = (Inr () :: kerr + unit, w3)" using cache_times_ok by blast
    let ?d = "map (\<lambda>(u, t). (u, Unix t)) (last_times ?miss (core (db w)))"
    have "gob_times e (?d @ ?hits) = Some encoded" using assms(3) False
      by (simp add: LastSubmitTime_def tryE_def bindE_def m h q c withErr_def returnE_def failE_def del: map_map split: option.splits)
    moreover have "map_of (?d @ ?hits) u = (case ?f u of Some s \<Rightarrow> Some (Atoi s) | None \<Rightarrow> newest_time u (core (db w)))" if "u \<in> set us" for u
      using that by (auto simp: map_add_def map_of_hits map_of_last_times newest_time_def split: option.splits)
    ultimately show ?thesis by blast
  qed
qed
end
