(* ===== verification/QueryProperties.thy ===== *)
theory QueryProperties
  imports QueryFacts
begin

text \<open>
  The properties of reading submissions through the cache, with their witnesses: a user with four
  submissions, one second apart.
\<close>

section \<open>A small world\<close>

definition sub_ex :: "nat \<Rightarrow> SubmitLog" where
  "sub_ex n = (row_ex n 2 ''AtCoder'' (fmt_d (int n)))\<lparr>s_Time := unix_time (int n)\<rparr>"

definition qd_ex :: query_db where
  "qd_ex = \<lparr>core = cd_ex\<lparr>submits := \<lparr>rows = map sub_ex [1, 2, 3, 4], seq = 5\<rparr>\<rparr>, zsets = (\<lambda>_. []), tasks = []\<rparr>"

definition qw_ex :: query_world where
  "qw_ex = \<lparr>db = qd_ex, rdb = (\<lambda>_. None), ticks = 0\<rparr>"

definition qe_ex :: query_env where
  "qe_ex = core_env.extend (core_env.truncate ce_ex)
     \<lparr>gob_submit = (\<lambda>r. fmt_d (int (ID r))), ungob_submit = (\<lambda>s. sub_ex (nat (Atoi s))), gob_contest = (\<lambda>_. ''''),
      ungob_contest = (\<lambda>_. zero_contest), gob_times = (\<lambda>_. Some '''')\<rparr>"

section \<open>What a page promises\<close>

text \<open>C24. After any sequence of requests, background goroutines in any order and expiring keys, with any failures of Redis and of the database and from an empty or otherwise sound cache, a page of submissions that is answered holds submissions of the user as they are in the table, older than the cursor, each once and newest first, begins with the newest of them and is no longer than asked for.\<close>

theorem cached_reads_sound:
  assumes "\<forall>r \<in> set (rows (submits (core (db w)))). ungob_submit e (gob_submit e r) = r" and "all_sound e w" and "\<forall>op \<in> set ops. \<not> refreshes op"
    and "0 < limit" and "cursor \<noteq> -1" and "GetByUserId e u cursor limit (query_run e ops w) = (Inr rs, w')"
  shows "sound_page s_Time (submit_query u cursor (core (db w))) limit rs"
proof -
  note run = run_sound [OF assms(1,2,3)]
  from assms(6) have "cached_page e (submit_zkey u) submit_detail (ungob_submit e) (submit_query u cursor) (\<lambda>rs. SubmitTask rs u) True cursor limit (query_run e ops w) = (Inr rs, w')"
    using assms(5) by (simp add: GetByUserId_def)
  from submit.page_sound [OF _ _ assms(4) this] run show ?thesis unfolding all_sound_def by metis
qed

lemma qw_sound: "all_sound qe_ex qw_ex"
  by (rule empty_sound) (simp_all add: qw_ex_def qd_ex_def wf_table_def sub_ex_def row_ex_def)

lemma qw_decode: "\<forall>r \<in> set (rows (submits (core (db qw_ex)))). ungob_submit qe_ex (gob_submit qe_ex r) = r"
proof -
  have "map (\<lambda>r. ungob_submit qe_ex (gob_submit qe_ex r)) (rows (submits (core (db qw_ex)))) = rows (submits (core (db qw_ex)))" by code_simp
  then show ?thesis by (metis list.map_id map_eq_conv id_apply)
qed

definition gap_ops :: "query_op list" where
  "gap_ops = [ReadSubmits 2 9 1, RunTask 0, ReadSubmits 2 2 1, RunTask 0]"

lemma qe_ok: "reliable qe_ex"
  by (simp add: reliable_def qe_ex_def core_env.defs ce_ex_def)

lemma query_ex: "submit_query 2 9 (core (db qw_ex)) = map sub_ex [4, 3, 2, 1]" "submit_query 2 2 (core (db qw_ex)) = [sub_ex 1]"
  by code_simp+

lemma sub_ex_key: "fmt_d (int (ID (sub_ex 1))) = ''1''" "fmt_d (int (ID (sub_ex 4))) = ''4''"
  "Unix (s_Time (sub_ex 1)) = 1" "Unix (s_Time (sub_ex 4)) = 4" "gob_submit qe_ex (sub_ex 1) = ''1''" "gob_submit qe_ex (sub_ex 4) = ''4''"
  "ungob_submit qe_ex ''1'' = sub_ex 1" "ungob_submit qe_ex ''4'' = sub_ex 4"
  by code_simp+

lemma zrange_ex: "zrange [(''1'', 1), (''4'', 4)] 9 2 = [''4'', ''1'']" "zrange [(''4'', 4)] 2 1 = []" "zrange [] 9 1 = []"
  by code_simp+

lemma first_page: "page_of 1 0 (x # xs) = [x]"
  by (simp add: page_of_def)

text \<open>Two pages of one submission, far apart, are put into the cache.\<close>

lemma gap_state:
  obtains w where "query_run qe_ex gap_ops qw_ex = w" and "core (db w) = core (db qw_ex)" and "zmembers (submit_zkey 2) w = [(''1'', 1), (''4'', 4)]"
    and "rdb w (submit_detail ''1'') = Some ''1''" and "rdb w (submit_detail ''4'') = Some ''4''"
proof -
  have t: "tasks (db qw_ex) = []" "core (db qw_ex) = core qd_ex" "zsets (db qw_ex) k = []" "rdb qw_ex k = None" for k by (simp_all add: qw_ex_def qd_ex_def)
  have k: "submit_detail i \<noteq> submit_zkey u" "submit_zkey u \<noteq> submit_detail i" "submit_detail i = submit_detail j \<longleftrightarrow> i = j" for i j u by (simp_all add: submit_detail_def submit_zkey_def)
  have q: "submit_query 2 9 (core qd_ex) = map sub_ex [4, 3, 2, 1]" "submit_query 2 2 (core qd_ex) = [sub_ex 1]" using query_ex by (simp_all add: qw_ex_def)
  obtain n1 where 1: "query_step qe_ex (ReadSubmits 2 9 1) qw_ex = qw_ex\<lparr>db := (db qw_ex)\<lparr>tasks := [SubmitTask [sub_ex 4] 2]\<rparr>, ticks := n1\<rparr>" (is "_ = ?w1")
    using short_read [OF qe_ok, of 9 2 qw_ex 1] by (auto simp: zmembers_def t q first_page zrange_ex simp del: One_nat_def)
  obtain n2 where 2: "query_step qe_ex (RunTask 0) ?w1 = (filled ''4'' 2 (sub_ex 4) ?w1)\<lparr>ticks := n2\<rparr>" (is "_ = ?w2")
    using fill_one [OF qe_ok, of ?w1 "sub_ex 4" 2] by (auto simp: sub_ex_key simp del: One_nat_def)
  have z2: "zmembers (submit_zkey 2) ?w2 = [(''4'', 4)]" and c2: "core (db ?w2) = core qd_ex" "tasks (db ?w2) = []"
    by (simp_all add: filled_def zmembers_def t k sub_ex_key)
  obtain n3 where 3: "query_step qe_ex (ReadSubmits 2 2 1) ?w2 = ?w2\<lparr>db := (db ?w2)\<lparr>tasks := [SubmitTask [sub_ex 1] 2]\<rparr>, ticks := n3\<rparr>" (is "_ = ?w3")
    using short_read [OF qe_ok, of 2 2 ?w2 1] unfolding z2 c2 q by (auto simp: first_page zrange_ex simp del: One_nat_def)
  obtain n4 where 4: "query_step qe_ex (RunTask 0) ?w3 = (filled ''1'' 2 (sub_ex 1) ?w3)\<lparr>ticks := n4\<rparr>" (is "_ = ?w4")
    using fill_one [OF qe_ok, of ?w3 "sub_ex 1" 2] by (auto simp: sub_ex_key simp del: One_nat_def)
  have "query_run qe_ex gap_ops qw_ex = ?w4" by (simp only: gap_ops_def query_run_def fold_simps comp_def id_def foldl.simps 1 2 3 4)
  moreover have "zmembers (submit_zkey 2) ?w4 = [(''1'', 1), (''4'', 4)]" "core (db ?w4) = core (db qw_ex)"
    "rdb ?w4 (submit_detail ''1'') = Some ''1''" "rdb ?w4 (submit_detail ''4'') = Some ''4''"
    by (simp_all add: filled_def zmembers_def t k sub_ex_key del: One_nat_def)
  ultimately show ?thesis using that by blast
qed

lemma gap_read: "fst (GetByUserId qe_ex 2 9 2 (query_run qe_ex gap_ops qw_ex)) = Inr [sub_ex 4, sub_ex 1]"
proof -
  obtain w where w: "query_run qe_ex gap_ops qw_ex = w" "core (db w) = core (db qw_ex)" "zmembers (submit_zkey 2) w = [(''1'', 1), (''4'', 4)]"
    "rdb w (submit_detail ''1'') = Some ''1''" "rdb w (submit_detail ''4'') = Some ''4''" by (rule gap_state)
  have "submit_query 2 9 (core (db w)) = sub_ex 4 # map sub_ex [3, 2, 1]" using w(2) query_ex by simp
  from hit_read [OF qe_ok _ _ _ _ this, of 2 "[''4'', ''1'']"] w show ?thesis by (simp add: zrange_ex sub_ex_key del: One_nat_def)
qed

theorem cached_reads_sound_witness:
  "sound_page s_Time (submit_query 2 9 (core (db qw_ex))) 2 [sub_ex 4, sub_ex 1]"
proof (rule cached_reads_sound [OF qw_decode qw_sound])
  show "GetByUserId qe_ex 2 9 2 (query_run qe_ex gap_ops qw_ex) = (Inr [sub_ex 4, sub_ex 1], snd (GetByUserId qe_ex 2 9 2 (query_run qe_ex gap_ops qw_ex)))"
    using gap_read by (metis prod.collapse)
qed (simp_all add: gap_ops_def)

text \<open>
  The promise says nothing about rows between the ones of a page: two pages read far apart leave a gap in the cache, and a
  longer page is then answered from it although the database has rows in between.
\<close>

lemma cached_page_gap:
  "fst (GetByUserId qe_ex 2 9 2 (query_run qe_ex gap_ops qw_ex)) = Inr [sub_ex 4, sub_ex 1]
   \<and> page_of 2 0 (submit_query 2 9 (core (db qw_ex))) = [sub_ex 4, sub_ex 3]"
  using gap_read query_ex(1) by (simp add: page_of_def)

end
