(* ===== verification/CrawlPages.thy ===== *)
theory CrawlPages
  imports Crawl
begin

text \<open>
  The crawlers of \<^verbatim>\<open>internal/spider/platform\<close>, second part: NowCoder (\<^verbatim>\<open>nowcoder.go\<close>), LuoGu
  (\<^verbatim>\<open>luogu.go\<close>) and QOJ (\<^verbatim>\<open>qoj.go\<close>), and the registry of \<^verbatim>\<open>registry.go\<close>. The last two sign in and
  keep a client with its cookies; a client is the number of the step that made it.
\<close>

section \<open>What the pages hold\<close>

text \<open>A row of the table of submissions: the texts of its cells and the address of the first link of the second.\<close>

record nc_row =
  nr_cells :: "string list"
  nr_href :: "string option"

text \<open>The labels and numbers of the items of the profile, and the rows.\<close>

record nc_document =
  nd_states :: "(string \<times> string) list"
  nd_rows :: "nc_row list"

record nc_record =
  nt_QuestionNum :: string
  nt_Title :: string
  nt_ID :: int
  nt_CreatedDate :: int
  nt_Language :: string
  nt_StatusDesc :: string

record nc_training =
  nt_Success :: bool
  nt_TotalPage :: int
  nt_Records :: "nc_record list"

text \<open>Numbers of type \<^verbatim>\<open>json.Number\<close> are kept as their text.\<close>

record ContestHistoryItem =
  ch_ContestId :: string
  ch_ContestName :: string
  ch_Rank :: int
  ch_TotalCount :: int
  ch_AcCount :: int
  ch_StartTime :: string
  ch_EndTime :: string

record ResponseContest =
  rc_Msg :: string
  rc_Code :: int
  rc_DataList :: "ContestHistoryItem list"
  rc_PageCount :: int

record lg_Record =
  lr_ID :: int
  lr_SubmitTime :: int
  lr_Status :: int
  lr_Language :: int
  lr_Pid :: string
  lr_Title :: string

record Injection =
  in_Result :: "lg_Record list"
  in_PerPage :: int
  in_Count :: int

record page_env = crawl_env +
  nc_parse :: "string \<Rightarrow> nc_document option"
  training_body :: "int \<Rightarrow> string \<Rightarrow> string"
  unmarshal_training :: "string \<Rightarrow> nc_training option"
  unmarshal_joined :: "string \<Rightarrow> ResponseContest option"
  ocr_form :: "string \<Rightarrow> string"
  feInjectionRe :: "string \<Rightarrow> string option"
  unmarshal_injection :: "string \<Rightarrow> Injection option"
  tokenRe :: "string \<Rightarrow> string option"
  md5_hex :: "string \<Rightarrow> string"
  tbodyRe :: "string \<Rightarrow> string option"
  rowRe :: "string \<Rightarrow> string list"
  cellRe :: "string \<Rightarrow> string list"

text \<open>Go's division, towards zero.\<close>

definition quot :: "int \<Rightarrow> int \<Rightarrow> int" where
  "quot a b = sgn a * sgn b * (\<bar>a\<bar> div \<bar>b\<bar>)"

section \<open>NowCoder\<close>

record Submission =
  su_RunID :: string
  su_ProblemID :: string
  su_Problem :: string
  su_Result :: string
  su_Language :: string
  su_SubmitTime :: string

definition normalizeNowCoderProblem :: "string \<Rightarrow> string \<Rightarrow> string" where
  "normalizeNowCoderProblem problem ti =
     (let problemID = TrimSpace problem; title = TrimSpace ti in
      if problemID = '''' then title else if title = '''' then problemID else problemID @ CHR '' '' # title)"

text \<open>The capture of \<^verbatim>\<open>/acm/problem/([^/?#]+)\<close> at its first match.\<close>

fun nowCoderProblemPathRe :: "string \<Rightarrow> string option" where
  "nowCoderProblemPathRe [] = None"
| "nowCoderProblemPathRe (c # s) =
     (let found = takeWhile (\<lambda>c. c \<notin> set ''/?#'') (drop 12 s)
      in if HasPrefix (c # s) ''/acm/problem/'' \<and> found \<noteq> '''' then Some found else nowCoderProblemPathRe s)"

definition extractNowCoderProblemID :: "string option \<Rightarrow> string" where
  "extractNowCoderProblemID href = (case href of
     None \<Rightarrow> ''''
   | Some h \<Rightarrow> (case nowCoderProblemPathRe h of Some p \<Rightarrow> p | None \<Rightarrow> ''''))"

definition nowCoderNumericUserIDRe :: "string \<Rightarrow> bool" where
  "nowCoderNumericUserIDRe s \<longleftrightarrow> s \<noteq> '''' \<and> list_all is_digit s"

definition getSubLogResp :: "'x page_env_scheme \<Rightarrow> string \<Rightarrow> (gerr, nc_document) wact" where
  "getSubLogResp e url =
     bindE (http_Do e (GET url)) (\<lambda>r.
     case r of
       Inl er \<Rightarrow> failE (Errorf (''http request failed: '' @ err_text er))
     | Inr (status, b) \<Rightarrow>
         if status \<noteq> 200 then failE (Errorf (''bad status '' @ fmt_d status @ '', '' @ body_or_empty b))
         else (case b of
             Inl _ \<Rightarrow> failE (Errorf ''bad HTML'')
           | Inr body \<Rightarrow> (case nc_parse e body of None \<Rightarrow> failE (Errorf ''bad HTML'') | Some doc \<Rightarrow> returnE doc)))"

definition nc_submission :: "nc_row \<Rightarrow> Submission" where
  "nc_submission tr =
     (let cell = (\<lambda>i. TrimSpace (nr_cells tr ! i)) in
      \<lparr>su_RunID = cell 0, su_ProblemID = extractNowCoderProblemID (nr_href tr), su_Problem = cell 1, su_Result = cell 2,
       su_Language = cell 7, su_SubmitTime = cell 8\<rparr>)"

definition analysisSubs :: "nc_document \<Rightarrow> Submission list" where
  "analysisSubs doc = map nc_submission (filter (\<lambda>tr. 9 \<le> length (nr_cells tr)) (nd_rows doc))"

definition practice_url :: "string \<Rightarrow> int \<Rightarrow> string" where
  "practice_url username page =
     ''https://ac.nowcoder.com/acm/contest/profile/'' @ QueryEscape username @ ''/practice-coding?pageSize=100&page='' @ fmt_d page"

definition submissions_zh :: string where
  "submissions_zh = [CHR 0xE6, CHR 0xAC, CHR 0xA1, CHR 0xE6, CHR 0x8F, CHR 0x90, CHR 0xE4, CHR 0xBA, CHR 0xA4]"

definition total_submit :: "nc_document \<Rightarrow> string" where
  "total_submit doc = foldl (\<lambda>t (label, n). if TrimSpace label = submissions_zh then TrimSpace n else t) '''' (nd_states doc)"

text \<open>The pages from \<open>i\<close> on, \<open>left\<close> of them at most; an empty page ends the loop.\<close>

fun nc_pages :: "'x page_env_scheme \<Rightarrow> string \<Rightarrow> int \<Rightarrow> nat \<Rightarrow> Submission list \<Rightarrow> (gerr, Submission list) wact" where
  "nc_pages e username i 0 subs = returnE subs"
| "nc_pages e username i (Suc left) subs =
     bindE (getSubLogResp e (practice_url username i)) (\<lambda>doc.
     if analysisSubs doc = [] then returnE subs
     else nc_pages e username (i + 1) left (subs @ analysisSubs doc))"

definition nc_totPage :: "int \<Rightarrow> nat \<Rightarrow> int" where
  "nc_totPage totalS found =
     (let totPage = (if 0 < totalS then quot (i64 (totalS + 99)) 100 else 0)
      in if totPage = 0 \<and> found = 100 then 10000 else totPage)"

fun nc_convert :: "'x page_env_scheme \<Rightarrow> int \<Rightarrow> Submission list \<Rightarrow> gerr + SubmitLog list" where
  "nc_convert e userId [] = Inr []"
| "nc_convert e userId (v # vs) =
     (case parse_shanghai e (su_SubmitTime v) of
        None \<Rightarrow> Inl (Errorf (''bad NowCoder submit time, run '' @ su_RunID v))
      | Some t \<Rightarrow> (case nc_convert e userId vs of
            Inl er \<Rightarrow> Inl er
          | Inr logs \<Rightarrow> Inr (\<lparr>ID = 0, s_Platform = NowCoder, s_UserID = userId, s_SubmitID = su_RunID v, s_Contest = '''',
              s_Problem = normalizeNowCoderProblem (su_ProblemID v) (su_Problem v), s_Lang = su_Language v, s_Status = su_Result v, s_Time = t\<rparr> # logs)))"

definition nc_doReq :: "'x page_env_scheme \<Rightarrow> string \<Rightarrow> int \<Rightarrow> (gerr, nc_training) wact" where
  "nc_doReq e username page =
     bindE (http_Do e \<lparr>cq_Method = ''POST'', cq_URL = ''https://gw-c.nowcoder.com/api/sparta/user/question-training/submission-history'',
       cq_Body = training_body e page username, cq_Client = None\<rparr>) (\<lambda>r.
     case r of
       Inl er \<Rightarrow> failE er
     | Inr (status, b) \<Rightarrow>
         if status \<noteq> 200 then failE (Errorf (''nowcoder training api http '' @ fmt_d status @ '': '' @ body_or_empty b))
         else (case b of
             Inl er \<Rightarrow> failE er
           | Inr bs \<Rightarrow> (case unmarshal_training e bs of
                 None \<Rightarrow> failE (Errorf ''bad JSON'')
               | Some t \<Rightarrow> if \<not> nt_Success t then failE (Errorf (''nowcoder training api success=false page='' @ fmt_d page)) else returnE t)))"

definition training_row :: "int \<Rightarrow> string \<Rightarrow> nc_record \<Rightarrow> SubmitLog" where
  "training_row userId username it =
     \<lparr>ID = 0, s_Platform = NowCoder, s_UserID = userId, s_SubmitID = fmt_d (nt_ID it), s_Contest = ''main|'' @ username,
      s_Problem = normalizeNowCoderProblem (nt_QuestionNum it) (nt_Title it), s_Lang = nt_Language it, s_Status = nt_StatusDesc it,
      s_Time = unix_time (quot (nt_CreatedDate it) 1000)\<rparr>"

text \<open>The closure \<^verbatim>\<open>handle\<close>: appends rows until there are \<open>limit\<close>; whether to go on.\<close>

fun nc_handle :: "int \<Rightarrow> string \<Rightarrow> nat \<Rightarrow> SubmitLog list \<Rightarrow> nc_record list \<Rightarrow> SubmitLog list \<times> bool" where
  "nc_handle userId username limit res [] = (res, True)"
| "nc_handle userId username limit res (it # its) =
     (let res' = res @ [training_row userId username it]
      in if limit \<le> length res' then (res', False) else nc_handle userId username limit res' its)"

fun training_pages :: "'x page_env_scheme \<Rightarrow> int \<Rightarrow> string \<Rightarrow> nat \<Rightarrow> int \<Rightarrow> nat \<Rightarrow> SubmitLog list \<Rightarrow> (gerr, SubmitLog list) wact" where
  "training_pages e userId username limit page 0 res = returnE res"
| "training_pages e userId username limit page (Suc left) res =
     bindE (nc_doReq e username page) (\<lambda>t.
     if nt_Records t = [] then returnE res
     else case nc_handle userId username limit res (nt_Records t) of
       (res', goOn) \<Rightarrow> if \<not> goOn then returnE res' else training_pages e userId username limit (page + 1) left res')"

definition fetchSub :: "'x page_env_scheme \<Rightarrow> int \<Rightarrow> string \<Rightarrow> bool \<Rightarrow> (gerr, SubmitLog list) wact" where
  "fetchSub e userId username needAll =
     (if \<not> nowCoderNumericUserIDRe username then returnE []
      else let limit = (if needAll then 9223372036854775807 else 150)
        in bindE (nc_doReq e username 1) (\<lambda>first.
           case nc_handle userId username limit [] (nt_Records first) of
             (res, goOn) \<Rightarrow> if \<not> goOn then returnE res
               else training_pages e userId username limit 2 (nat (nt_TotalPage first - 1)) res))"

definition nc_FetchSubmitLog :: "'x page_env_scheme \<Rightarrow> int \<Rightarrow> string \<Rightarrow> bool \<Rightarrow> (gerr, SubmitLog list) wact" where
  "nc_FetchSubmitLog e userId user needAll =
     (let username = TrimSpace user in
      if username = '''' then failE (Errorf ''NowCoder user id is empty'')
      else bindE (getSubLogResp e (practice_url username 1)) (\<lambda>doc.
        let subs = analysisSubs doc; totPage = nc_totPage (Atoi (total_submit doc)) (length subs) in
        bindE (if needAll then nc_pages e username 2 (nat (totPage - 1)) subs else returnE subs) (\<lambda>all.
        case nc_convert e userId all of
          Inl er \<Rightarrow> failE er
        | Inr res \<Rightarrow> bindE (fetchSub e userId username needAll) (\<lambda>trainingLogs. returnE (res @ trainingLogs)))))"

definition joined_contest :: "int \<Rightarrow> ContestHistoryItem \<Rightarrow> ContestLog" where
  "joined_contest userId item =
     \<lparr>ID = 0, k_Platform = NowCoder, k_UserID = userId, k_ContestId = fmt_d (Atoi (ch_ContestId item)), k_ContestName = ch_ContestName item,
      k_ContestUrl = ''https://ac.nowcoder.com/acm/contest/'' @ fmt_d (Atoi (ch_ContestId item)), k_Rank = ch_Rank item,
      k_TotalCount = ch_TotalCount item, k_AcCount = ch_AcCount item, k_Time = unix_time (quot (Atoi (ch_StartTime item)) 1000),
      k_EndTime = unix_time (quot (Atoi (ch_EndTime item)) 1000)\<rparr>"

definition joined_page :: "'x page_env_scheme \<Rightarrow> string \<Rightarrow> int \<Rightarrow> (gerr, ResponseContest) wact" where
  "joined_page e username page =
     bindE (http_Do e (GET (''https://ac.nowcoder.com/acm-heavy/acm/contest/profile/contest-joined-history?token=&uid='' @ username @ ''&page='' @
       fmt_d page @ ''&onlyJoinedFilter=true&searchContestName=&onlyRatingFilter=false&contestEndFilter=true''))) (\<lambda>r.
     case r of
       Inl er \<Rightarrow> failE er
     | Inr (_, Inl er) \<Rightarrow> failE er
     | Inr (_, Inr body) \<Rightarrow> (case unmarshal_joined e body of
           None \<Rightarrow> failE (Errorf ''bad JSON'')
         | Some c \<Rightarrow> if rc_Code c \<noteq> 0 then failE (Errorf (''nowcoder api error: code='' @ fmt_d (rc_Code c) @ '', msg='' @ rc_Msg c)) else returnE c))"

partial_function (option) joined_pages ::
    "'x page_env_scheme \<Rightarrow> int \<Rightarrow> string \<Rightarrow> bool \<Rightarrow> int \<Rightarrow> ContestLog list \<Rightarrow> ContestLog list crawl" where
  "joined_pages e userId username needAll page result w =
     (case joined_page e username page w of
        (Inl er, w1) \<Rightarrow> Some (Inl er, w1)
      | (Inr c, w1) \<Rightarrow>
          if \<not> needAll \<or> rc_PageCount c \<le> page then Some (Inr (result @ map (joined_contest userId) (rc_DataList c)), w1)
          else joined_pages e userId username needAll (page + 1) (result @ map (joined_contest userId) (rc_DataList c)) w1)"

definition nc_FetchContestLog :: "'x page_env_scheme \<Rightarrow> int \<Rightarrow> string \<Rightarrow> bool \<Rightarrow> ContestLog list crawl" where
  "nc_FetchContestLog e userId username needAll = joined_pages e userId username needAll 1 []"

section \<open>Sessions\<close>

definition thirty_minutes :: int where
  "thirty_minutes = 1800000000000"

text \<open>
  \<^verbatim>\<open>getClient\<close>, which LuoGu and QOJ have alike: a client that signed in less than half an hour ago and
  is still valid is used again, and is looked at twice when the first look says it is not.
\<close>

definition session_fresh :: "(crawl_state \<Rightarrow> session) \<Rightarrow> crawl_world \<Rightarrow> nat option" where
  "session_fresh sel w =
     (if cr_now (db w) - se_lastUsed (sel (db w)) < thirty_minutes then se_client (sel (db w)) else None)"

definition valid_client ::
    "(crawl_state \<Rightarrow> session) \<Rightarrow> (nat \<Rightarrow> (gerr, bool) wact) \<Rightarrow> (gerr, nat option) wact" where
  "valid_client sel valid w =
     (case session_fresh sel w of
        None \<Rightarrow> (Inr None, w)
      | Some c \<Rightarrow> bindE (valid c) (\<lambda>ok. returnE (if ok then Some c else None)) w)"

definition getClient ::
    "(crawl_state \<Rightarrow> session) \<Rightarrow> ((session \<Rightarrow> session) \<Rightarrow> crawl_state \<Rightarrow> crawl_state) \<Rightarrow> (nat \<Rightarrow> (gerr, bool) wact) \<Rightarrow> (gerr, nat) wact \<Rightarrow>
     (gerr, nat) wact" where
  "getClient sel upd valid login =
     bindE (valid_client sel valid) (\<lambda>c1. case c1 of
       Some c \<Rightarrow> returnE c
     | None \<Rightarrow> bindE (valid_client sel valid) (\<lambda>c2. case c2 of
         Some c \<Rightarrow> returnE c
       | None \<Rightarrow> bindE login (\<lambda>c w. (Inr c, w\<lparr>db := upd (\<lambda>_. \<lparr>se_client = Some c, se_lastUsed = cr_now (db w)\<rparr>) (db w)\<rparr>))))"

text \<open>A new client: the number of the step in which it is made.\<close>

definition new_client :: "('e, nat) wact" where
  "new_client w = (Inr (ticks w), w)"

definition client_Get :: "nat \<Rightarrow> string \<Rightarrow> crawl_request" where
  "client_Get c u = (GET u)\<lparr>cq_Client := Some c\<rparr>"

definition client_Post :: "nat \<Rightarrow> string \<Rightarrow> string \<Rightarrow> crawl_request" where
  "client_Post c u body = \<lparr>cq_Method = ''POST'', cq_URL = u, cq_Body = body, cq_Client = Some c\<rparr>"

text \<open>Status and body of an answer; an error of the request or of reading the body is returned.\<close>

definition read_all :: "'x crawl_env_scheme \<Rightarrow> crawl_request \<Rightarrow> (gerr, int \<times> string) wact" where
  "read_all e rq =
     bindE (http_Do e rq) (\<lambda>r. case r of
       Inl er \<Rightarrow> failE er
     | Inr (_, Inl er) \<Rightarrow> failE er
     | Inr (status, Inr body) \<Rightarrow> returnE (status, body))"

definition maxRetry :: nat where "maxRetry = 20"

section \<open>LuoGu\<close>

definition LuoGu :: string where "LuoGu = ''LuoGu''"

definition ocrImage :: "'x page_env_scheme \<Rightarrow> nat \<Rightarrow> string \<Rightarrow> (gerr, string) wact" where
  "ocrImage e c img =
     bindE (read_all e (client_Post c ''https://api.alistgo.com/ocr/file'' (ocr_form e img))) (\<lambda>(_, b). returnE b)"

definition lg_doLogin :: "'x page_env_scheme \<Rightarrow> nat \<Rightarrow> string \<Rightarrow> string \<Rightarrow> string \<Rightarrow> (gerr, bool) wact" where
  "lg_doLogin e c username password captcha =
     bindE (read_all e (client_Post c ''https://www.luogu.com.cn/do-auth/password''
       (''{\"username\":\"'' @ username @ ''\",\"password\":\"'' @ password @ ''\",\"captcha\":\"'' @ captcha @ ''\"}''))) (\<lambda>(_, body).
     returnE (\<not> Contains body ''errorCode''))"

text \<open>The attempts left, \<^verbatim>\<open>maxRetry\<close> at first: a captcha, its recognition, the sign-in.\<close>

fun lg_login :: "'x page_env_scheme \<Rightarrow> nat \<Rightarrow> string \<Rightarrow> string \<Rightarrow> nat \<Rightarrow> (gerr, nat) wact" where
  "lg_login e c username password 0 = failE (Errorf (''login failed after '' @ fmt_d (int maxRetry) @ '' retries''))"
| "lg_login e c username password (Suc left) =
     bindE (read_all e (client_Get c ''https://www.luogu.com.cn/lg4/captcha'')) (\<lambda>(_, img).
     bindE (ocrImage e c img) (\<lambda>code.
     bindE (lg_doLogin e c username password (TrimSpace code)) (\<lambda>ok.
     if ok then returnE c else lg_login e c username password left)))"

definition hex_val :: "char \<Rightarrow> nat option" where
  "hex_val c = (if in_range 48 57 c then Some (byte_of c - 48)
     else if in_range 65 70 c then Some (byte_of c - 55) else if in_range 97 102 c then Some (byte_of c - 87) else None)"

text \<open>\<^verbatim>\<open>url.QueryUnescape\<close>; \<open>None\<close> is its error.\<close>

fun QueryUnescape :: "string \<Rightarrow> string option" where
  "QueryUnescape [] = Some []"
| "QueryUnescape (c # s) =
     (if c = CHR ''%'' then (case s of
          a # b # s' \<Rightarrow> (case (hex_val a, hex_val b) of
              (Some h, Some l) \<Rightarrow> map_option (\<lambda>t. char_of (h * 16 + l) # t) (QueryUnescape s')
            | _ \<Rightarrow> None)
        | _ \<Rightarrow> None)
      else map_option (\<lambda>t. (if c = CHR ''+'' then CHR '' '' else c) # t) (QueryUnescape s))"

definition parseLuoGuHTML :: "'x page_env_scheme \<Rightarrow> string \<Rightarrow> gerr + Injection" where
  "parseLuoGuHTML e html =
     (case feInjectionRe e html of
        None \<Rightarrow> Inl (Errorf ''_feInjection not found'')
      | Some m \<Rightarrow> (case QueryUnescape m of
            None \<Rightarrow> Inl (Errorf ''invalid URL escape'')
          | Some decoded \<Rightarrow> (case unmarshal_injection e decoded of None \<Rightarrow> Inl (Errorf ''bad JSON'') | Some ij \<Rightarrow> Inr ij)))"

definition lg_isSessionValid :: "'x page_env_scheme \<Rightarrow> nat \<Rightarrow> ('e, bool) wact" where
  "lg_isSessionValid e c =
     bindE (http_Do e (client_Get c ''https://www.luogu.com.cn/api/user/search?user=sanenchen'')) (\<lambda>r.
     returnE (case r of Inl _ \<Rightarrow> False | Inr (status, _) \<Rightarrow> status \<noteq> 301 \<and> status \<noteq> 302 \<and> status \<noteq> 307))"

definition lg_getClient :: "'x page_env_scheme \<Rightarrow> (gerr, nat) wact" where
  "lg_getClient e = getClient luogu_session luogu_session_update (lg_isSessionValid e)
     (bindE new_client (\<lambda>c. lg_login e c ''sanenchen'' ''sanenchen123'' maxRetry))"

definition normalizeLuoGuStatus :: "int \<Rightarrow> string" where
  "normalizeLuoGuStatus status =
     (if status = 12 then ''AC'' else if status = 2 then ''CE'' else if status = 5 then ''TLE'' else if status = 6 then ''WA''
      else if status = 7 then ''RE'' else if status = 11 \<or> status = 14 then ''WA'' else if status = 0 \<or> status = 1 then ''UNKNOWN''
      else if status = 3 then ''OLE'' else if status = 4 then ''MLE'' else ''LuoGu:'' @ fmt_d status)"

text \<open>The body is used as far as it was read.\<close>

definition lg_page :: "'x page_env_scheme \<Rightarrow> nat \<Rightarrow> string \<Rightarrow> int \<Rightarrow> (gerr, Injection) wact" where
  "lg_page e c username i =
     bindE (http_Do e (client_Get c (''https://www.luogu.com.cn/record/list?user='' @ QueryEscape username @ ''&page='' @ fmt_d i))) (\<lambda>r.
     case r of
       Inl er \<Rightarrow> failE er
     | Inr (status, b) \<Rightarrow>
         if status \<noteq> 200 then failE (Errorf (''LuoGu status '' @ fmt_d status @ '', '' @ body_or_empty b))
         else (case parseLuoGuHTML e (body_or_empty b) of Inl er \<Rightarrow> failE er | Inr ij \<Rightarrow> returnE ij))"

fun lg_pages :: "'x page_env_scheme \<Rightarrow> nat \<Rightarrow> string \<Rightarrow> int \<Rightarrow> nat \<Rightarrow> lg_Record list \<Rightarrow> (gerr, lg_Record list) wact" where
  "lg_pages e c username i 0 subs = returnE subs"
| "lg_pages e c username i (Suc left) subs =
     bindE (lg_page e c username i) (\<lambda>ij.
     if in_Result ij = [] then returnE subs
     else bindE (Sleep e (ms 300)) (\<lambda>_. lg_pages e c username (i + 1) left (subs @ in_Result ij)))"

definition lg_row :: "int \<Rightarrow> lg_Record \<Rightarrow> SubmitLog" where
  "lg_row userId sub =
     \<lparr>ID = 0, s_Platform = LuoGu, s_UserID = userId, s_SubmitID = fmt_d (lr_ID sub), s_Contest = '''',
      s_Problem = lr_Pid sub @ CHR '' '' # lr_Title sub, s_Lang = (if lr_Language sub = 34 then ''C++'' else ''Others''),
      s_Status = normalizeLuoGuStatus (lr_Status sub), s_Time = unix_time (lr_SubmitTime sub)\<rparr>"

definition lg_FetchSubmitLog :: "'x page_env_scheme \<Rightarrow> int \<Rightarrow> string \<Rightarrow> bool \<Rightarrow> (gerr, SubmitLog list) wact" where
  "lg_FetchSubmitLog e userId user needAll =
     (let username = TrimSpace user in
      if username = '''' then failE (Errorf ''LuoGu user id is empty'')
      else bindE (lg_getClient e) (\<lambda>c.
        bindE (lg_page e c username 1) (\<lambda>ij.
        let perPage = in_PerPage ij in
        bindE (if \<not> needAll then returnE (in_Result ij)
               else if perPage \<le> 0 then failE (Errorf (''LuoGu bad page size: '' @ fmt_d perPage))
               else lg_pages e c username 2 (nat (quot (i64 (in_Count ij + perPage - 1)) perPage - 1)) (in_Result ij)) (\<lambda>subs.
        returnE (map (lg_row userId) subs)))))"

section \<open>QOJ\<close>

definition QOJ :: string where "QOJ = ''QOJ''"

definition qoj_doLogin :: "'x page_env_scheme \<Rightarrow> nat \<Rightarrow> string \<Rightarrow> string \<Rightarrow> (gerr, bool) wact" where
  "qoj_doLogin e c username password =
     bindE (withErr (Wrapf ''login page failed'') (read_all e (client_Get c ''https://qoj.ac/login''))) (\<lambda>(_, page).
     case tokenRe e page of
       None \<Rightarrow> failE (Errorf ''failed to extract _token from page, might be blocked by Cloudflare'')
     | Some token \<Rightarrow>
         bindE (withErr (Wrapf ''POST login failed'') (read_all e (client_Post c ''https://qoj.ac/login''
           (tl (with_query '''' [(''_token'', token), (''login'', ''''), (''password'', md5_hex e password), (''trust'', ''''), (''username'', username)])))))
           (\<lambda>(_, body). returnE (TrimSpace body = ''ok'')))"

fun qoj_login :: "'x page_env_scheme \<Rightarrow> nat \<Rightarrow> string \<Rightarrow> string \<Rightarrow> nat \<Rightarrow> (gerr, nat) wact" where
  "qoj_login e c username password 0 = failE (Errorf (''login failed after '' @ fmt_d (int maxRetry) @ '' retries''))"
| "qoj_login e c username password (Suc left) =
     bindE (qoj_doLogin e c username password) (\<lambda>ok.
     if ok then returnE c else qoj_login e c username password left)"

definition qoj_isSessionValid :: "'x page_env_scheme \<Rightarrow> nat \<Rightarrow> ('e, bool) wact" where
  "qoj_isSessionValid e c =
     bindE (tryE (read_all e (client_Get c ''https://qoj.ac/''))) (\<lambda>r.
     returnE (case r of Inl _ \<Rightarrow> False | Inr (_, b) \<Rightarrow> Contains b ''/logout?_token=''))"

definition qoj_getClient :: "'x page_env_scheme \<Rightarrow> (gerr, nat) wact" where
  "qoj_getClient e = getClient qoj_session qoj_session_update (qoj_isSessionValid e)
     (bindE new_client (\<lambda>c. qoj_login e c ''sanenchen'' ''Sanenchen123'' maxRetry))"

text \<open>\<^verbatim>\<open>(?s)<[^>]*>\<close> replaced by nothing.\<close>

function drop_tags :: "string \<Rightarrow> string" where
  "drop_tags [] = []"
| "drop_tags (c # s) =
     (if c = CHR ''<'' \<and> CHR ''>'' \<in> set s then drop_tags (tl (dropWhile (\<lambda>d. d \<noteq> CHR ''>'') s)) else c # drop_tags s)"
  by pat_completeness auto
termination
proof (relation "measure length")
  fix c and s :: string
  have "length (dropWhile (\<lambda>d. d \<noteq> CHR ''>'') s) \<le> length s" by (rule length_dropWhile_le)
  then show "(tl (dropWhile (\<lambda>d. d \<noteq> CHR ''>'') s), c # s) \<in> measure length" by simp
qed simp_all

definition stripTags :: "string \<Rightarrow> string" where
  "stripTags s = TrimSpace (drop_tags s)"

definition check_mark :: string where
  "check_mark = [CHR 0xE2, CHR 0x9C, CHR 0x93]"

definition normalizeQOJStatus :: "string \<Rightarrow> string" where
  "normalizeQOJStatus rawStatus =
     (let status = TrimSpace rawStatus; upper = ToUpper status in
      if Contains status check_mark \<or> HasPrefix upper ''100'' then ''AC''
      else if HasPrefix upper ''AC'' \<or> HasPrefix upper ''ACCEPTED'' then ''AC''
      else if HasPrefix upper ''CE'' \<or> Contains upper ''COMPILE'' then ''CE''
      else if HasPrefix upper ''TLE'' \<or> upper = ''TL'' \<or> Contains upper ''TIME LIMIT'' then ''TLE''
      else if HasPrefix upper ''WA'' \<or> Contains upper ''WRONG'' then ''WA''
      else if HasPrefix upper ''RE'' \<or> Contains upper ''RUNTIME'' then ''RE''
      else if HasPrefix upper ''MLE'' \<or> upper = ''ML'' \<or> Contains upper ''MEMORY'' then ''MLE''
      else if status = ''0'' then ''WA''
      else if status = '''' then ''UNKNOWN''
      else status)"

text \<open>A row with fewer than nine cells is passed over; a bad time ends the crawl with an error.\<close>

fun qoj_rows :: "'x page_env_scheme \<Rightarrow> int \<Rightarrow> string list \<Rightarrow> gerr + SubmitLog list" where
  "qoj_rows e userId [] = Inr []"
| "qoj_rows e userId (row # rs) =
     (let cells = cellRe e row; cell = (\<lambda>i. stripTags (cells ! i)) in
      if length cells < 9 then qoj_rows e userId rs
      else let submitID = dropWhile (\<lambda>c. c = CHR ''#'') (cell 0) in
        case parse_shanghai e (cell 8) of
          None \<Rightarrow> Inl (Errorf (''bad QOJ submit time, submission '' @ submitID))
        | Some t \<Rightarrow> (case qoj_rows e userId rs of
              Inl er \<Rightarrow> Inl er
            | Inr logs \<Rightarrow> Inr (\<lparr>ID = 0, s_Platform = QOJ, s_UserID = userId, s_SubmitID = submitID, s_Contest = '''', s_Problem = cell 1,
                s_Lang = cell 6, s_Status = normalizeQOJStatus (cell 3), s_Time = t\<rparr> # logs)))"

definition qoj_page :: "'x page_env_scheme \<Rightarrow> nat \<Rightarrow> string \<Rightarrow> int \<Rightarrow> (gerr, string) wact" where
  "qoj_page e c username page =
     bindE (read_all e (client_Get c (''https://qoj.ac/submissions?submitter='' @ QueryEscape username @ ''&page='' @ fmt_d page))) (\<lambda>(status, html).
     if status \<noteq> 200 then failE (Errorf (''QOJ page '' @ fmt_d page @ '' status '' @ fmt_d status @ '', '' @ html)) else returnE html)"

partial_function (option) qoj_pages ::
    "'x page_env_scheme \<Rightarrow> int \<Rightarrow> nat \<Rightarrow> string \<Rightarrow> bool \<Rightarrow> int \<Rightarrow> SubmitLog list \<Rightarrow> SubmitLog list crawl" where
  "qoj_pages e userId c username needAll page res w =
     (case qoj_page e c username page w of
        (Inl er, w1) \<Rightarrow> Some (Inl er, w1)
      | (Inr html, w1) \<Rightarrow>
          (case tbodyRe e html of
             None \<Rightarrow> Some (Inr res, w1)
           | Some tbody \<Rightarrow>
               if rowRe e tbody = [] then Some (Inr res, w1)
               else (case qoj_rows e userId (rowRe e tbody) of
                   Inl er \<Rightarrow> Some (Inl er, w1)
                 | Inr logs \<Rightarrow>
                     if \<not> needAll \<or> \<not> Contains html (''page='' @ fmt_d (page + 1)) then Some (Inr (res @ logs), w1)
                     else qoj_pages e userId c username needAll (page + 1) (res @ logs) (snd (Sleep e (ms 500) w1 :: (gerr + unit) \<times> _)))))"

definition qoj_FetchSubmitLog :: "'x page_env_scheme \<Rightarrow> int \<Rightarrow> string \<Rightarrow> bool \<Rightarrow> SubmitLog list crawl" where
  "qoj_FetchSubmitLog e userId user needAll w =
     (let username = TrimSpace user in
      if username = '''' then Some (Inl (Errorf ''QOJ user name is empty''), w)
      else case qoj_getClient e w of
        (Inl er, w1) \<Rightarrow> Some (Inl er, w1)
      | (Inr c, w1) \<Rightarrow> qoj_pages e userId c username needAll 1 [] w1)"

section \<open>The registry\<close>

text \<open>
  The providers register themselves under their names; \<open>Get\<close> says whether a name is known and which
  of the two interfaces its provider has, for submissions and for contests.
\<close>

definition Get :: "string \<Rightarrow> (bool \<times> bool) option" where
  "Get name =
     (if name = NowCoder \<or> name = AtCoder \<or> name = CodeForces then Some (True, True)
      else if name = LuoGu \<or> name = QOJ then Some (True, False) else None)"

definition terminating :: "(gerr, 'a) wact \<Rightarrow> 'a crawl" where
  "terminating m w = Some (m w)"

text \<open>The call \<^verbatim>\<open>p.FetchSubmitLog(userId, username, needAll)\<close> on the provider of that name.\<close>

definition registry_FetchSubmitLog :: "'x page_env_scheme \<Rightarrow> string \<Rightarrow> int \<Rightarrow> string \<Rightarrow> bool \<Rightarrow> SubmitLog list crawl" where
  "registry_FetchSubmitLog e name userId username needAll =
     (if name = NowCoder then terminating (nc_FetchSubmitLog e userId username needAll)
      else if name = AtCoder then atc_FetchSubmitLog e userId username needAll
      else if name = CodeForces then cf_FetchSubmitLog e userId username needAll
      else if name = LuoGu then terminating (lg_FetchSubmitLog e userId username needAll)
      else qoj_FetchSubmitLog e userId username needAll)"

end
