(* ===== verification/CrawlFacts.thy ===== *)
theory CrawlFacts
  imports CrawlPages StatisticFacts
begin

text \<open>
  Facts about the crawlers: what every crawler promises the pipeline (locale \<open>submit_fetcher\<close>),
  that Codeforces and AtCoder are crawled completely when the platform answers, that the AtCoder
  crawl always ends, and that requests to Codeforces keep their distance in time.
\<close>

section \<open>Steps\<close>

lemma wait_ok: "\<exists>w'. waitCodeforcesRateLimit e w = (Inr (), w')"
  by (simp add: waitCodeforcesRateLimit_def bindE_def Let_def Sleep_def)

lemma bindE_assoc: "bindE (bindE m f) g = bindE m (\<lambda>a. bindE (f a) g)"
  by (rule ext) (simp add: bindE_def split: prod.splits sum.splits)

section \<open>Codeforces: complete crawls\<close>

text \<open>The platform answers every request with the slice of the submissions it asks for.\<close>

definition cf_serves :: "'x crawl_env_scheme \<Rightarrow> string \<Rightarrow> cfJson list \<Rightarrow> bool" where
  "cf_serves e username subs \<longleftrightarrow>
     (\<forall>n i. i * codeforcesPageSize \<le> length subs \<longrightarrow> (\<exists>body r.
        respond e n (cf_request (currentCodeforcesAPIBaseURL e) username (i * codeforcesPageSize + 1) codeforcesPageSize) = Inr (200, Inr body) \<and>
        unmarshal_cf e body = Some r \<and> cf_Status r = ''OK'' \<and> cf_Result r = take codeforcesPageSize (drop (i * codeforcesPageSize) subs)))"

lemma cf_page_served:
  assumes "cf_serves e username subs" and "i * codeforcesPageSize \<le> length subs"
  obtains r w' where "fetchCodeforcesPage e (currentCodeforcesAPIBaseURL e) username (i * codeforcesPageSize + 1) codeforcesPageSize w = (Inr r, w')"
    "cf_Result r = take codeforcesPageSize (drop (i * codeforcesPageSize) subs)"
proof -
  let ?fr = "i * codeforcesPageSize + 1"
  let ?rq = "cf_request (currentCodeforcesAPIBaseURL e) username ?fr codeforcesPageSize"
  obtain w0 where w0: "waitCodeforcesRateLimit e w = (Inr () :: cf_error + unit, w0)" using wait_ok by blast
  from assms obtain body r where a: "respond e (ticks w0) ?rq = Inr (200, Inr body)" "unmarshal_cf e body = Some r" "cf_Status r = ''OK''"
    and r: "cf_Result r = take codeforcesPageSize (drop (i * codeforcesPageSize) subs)" unfolding cf_serves_def by metis
  have "\<exists>w'. fetchCodeforcesPageOnce e (currentCodeforcesAPIBaseURL e) username ?fr codeforcesPageSize w = (Inr r, w')"
    by (simp only: fetchCodeforcesPageOnce_def bindE_def w0) (simp add: a [simplified] http_Do_def returnE_def)
  then obtain w' where "fetchCodeforcesPage e (currentCodeforcesAPIBaseURL e) username ?fr codeforcesPageSize w = (Inr r, w')"
    by (auto simp: fetchCodeforcesPage_def cf_attempts.simps bindE_def tryE_def returnE_def)
  from that [OF this r] show thesis .
qed

lemma cf_pages_complete:
  assumes "cf_serves e username subs" and "i * codeforcesPageSize \<le> length subs"
  shows "\<exists>w'. cf_pages e u username True (i * codeforcesPageSize + 1) res w =
    Some (Inr (res @ codeforcesRowsToSubmitLogs u (drop (i * codeforcesPageSize) subs)), w')"
  using assms(2)
proof (induction "length subs - i * codeforcesPageSize" arbitrary: i res w rule: less_induct)
  case less
  obtain r w1 where f: "fetchCodeforcesPage e (currentCodeforcesAPIBaseURL e) username (i * codeforcesPageSize + 1) codeforcesPageSize w = (Inr r, w1)"
    and r: "cf_Result r = take codeforcesPageSize (drop (i * codeforcesPageSize) subs)" by (rule cf_page_served [OF assms(1) less.prems])
  show ?case
  proof (cases "length (cf_Result r) < codeforcesPageSize")
    case True
    then have "cf_Result r = drop (i * codeforcesPageSize) subs" by (simp add: r)
    then show ?thesis using True f by (subst cf_pages.simps) simp
  next
    case False
    then have l: "length (cf_Result r) = codeforcesPageSize" and m: "(i + 1) * codeforcesPageSize \<le> length subs"
      using less.prems by (simp_all add: r)
    have p: "0 < codeforcesPageSize" by (simp add: codeforcesPageSize_def)
    let ?w = "snd (Sleep e (ms 300) w1 :: (gerr + unit) \<times> _)" and ?res = "res @ codeforcesRowsToSubmitLogs u (cf_Result r)"
    have "length subs - (i + 1) * codeforcesPageSize < length subs - i * codeforcesPageSize" using m p by simp
    from less.hyps [OF this m] obtain w' where
      n: "cf_pages e u username True ((i + 1) * codeforcesPageSize + 1) ?res ?w = Some (Inr (?res @ codeforcesRowsToSubmitLogs u (drop ((i + 1) * codeforcesPageSize) subs)), w')"
      by blast
    have "cf_Result r @ drop ((i + 1) * codeforcesPageSize) subs = drop (i * codeforcesPageSize) subs"
      using append_take_drop_id [of codeforcesPageSize "drop (i * codeforcesPageSize) subs"] by (simp add: r add.commute)
    then have "codeforcesRowsToSubmitLogs u (cf_Result r) @ codeforcesRowsToSubmitLogs u (drop ((i + 1) * codeforcesPageSize) subs) =
        codeforcesRowsToSubmitLogs u (drop (i * codeforcesPageSize) subs)"
      unfolding codeforcesRowsToSubmitLogs_def by (metis map_append)
    moreover have nx: "(i + 1) * codeforcesPageSize + 1 = i * codeforcesPageSize + 1 + codeforcesPageSize" by simp
    ultimately show ?thesis using l f n unfolding nx by (subst cf_pages.simps) simp
  qed
qed

lemma cf_newest:
  assumes "cf_serves e username subs"
  shows "\<exists>w'. cf_pages e u username False 1 [] w = Some (Inr (codeforcesRowsToSubmitLogs u (take codeforcesPageSize subs)), w')"
proof -
  obtain r w1 where "fetchCodeforcesPage e (currentCodeforcesAPIBaseURL e) username 1 codeforcesPageSize w = (Inr r, w1)"
    "cf_Result r = take codeforcesPageSize subs" using cf_page_served [OF assms, of 0 w] by auto
  then show ?thesis by (subst cf_pages.simps) simp
qed

section \<open>Codeforces: distance between requests\<close>

definition cf_times :: "'x crawl_env_scheme \<Rightarrow> crawl_state \<Rightarrow> time list" where
  "cf_times e st = map fst (filter (\<lambda>(_, rq). HasPrefix (cq_URL rq) (currentCodeforcesAPIBaseURL e @ ''?'')) (cr_sent st))"

definition cf_spaced :: "'x crawl_env_scheme \<Rightarrow> crawl_state \<Rightarrow> bool" where
  "cf_spaced e st \<longleftrightarrow>
     sorted_wrt (\<lambda>a b. a + codeforcesMinInterval \<le> b) (cf_times e st) \<and> (\<forall>t \<in> set (cf_times e st). t \<le> codeforcesLastRequest st) \<and>
     codeforcesLastRequest st \<le> cr_now st \<and> zero_time < cr_now st \<and>
     (cf_times e st \<noteq> [] \<longrightarrow> codeforcesLastRequest st \<noteq> zero_time)"

lemma prefix_of_append [simp]: "HasPrefix (p @ s) p"
  by (induction p) simp_all

lemma cf_spaced_Sleep [keeps_intros]: "keeps (cf_spaced e) (Sleep e d)"
  by (auto simp: keeps_def Sleep_def cf_spaced_def cf_times_def)

lemma cf_request_url: "HasPrefix (cq_URL (cf_request b u fr n)) (b @ ''?'')"
  using prefix_of_append [of "b @ ''?''"] by (simp add: cf_request_def GET_def with_query_def)

text \<open>A request sent right after the wait comes after the interval.\<close>

lemma cf_spaced_once [keeps_intros]: "keeps (cf_spaced e) (fetchCodeforcesPageOnce e (currentCodeforcesAPIBaseURL e) username fr n)"
proof -
  let ?rq = "cf_request (currentCodeforcesAPIBaseURL e) username fr n"
  have step: "cf_spaced e (db (snd (http_Do e ?rq w1 :: (cf_error + _) \<times> _)))"
    if I: "cf_spaced e (db w)" and w1: "waitCodeforcesRateLimit e w = (Inr () :: cf_error + unit, w1)" for w w1
  proof -
    let ?wait = "codeforcesMinInterval - (cr_now (db w) - codeforcesLastRequest (db w))"
    from w1 have l: "codeforcesLastRequest (db w1) = cr_now (db w1)" and t: "cf_times e (db w1) = cf_times e (db w)"
      and s: "cr_now (db w) \<le> cr_now (db w1)"
      and d: "codeforcesLastRequest (db w) \<noteq> zero_time \<Longrightarrow> codeforcesLastRequest (db w) + codeforcesMinInterval \<le> cr_now (db w1)"
      by (auto simp: waitCodeforcesRateLimit_def bindE_def Let_def Sleep_def cf_times_def split: if_splits)
    have "cf_times e (db (snd (http_Do e ?rq w1 :: (cf_error + _) \<times> _))) = cf_times e (db w1) @ [cr_now (db w1)]"
      by (simp add: http_Do_def cf_times_def cf_request_url)
    then show ?thesis using I l t s d
      by (force simp: cf_spaced_def http_Do_def sorted_wrt_append)
  qed
  have k: "keeps (cf_spaced e) (bindE (waitCodeforcesRateLimit e) (\<lambda>_. http_Do e ?rq) :: (cf_error, _) wact)"
  proof (rule keepsI)
    fix w r w'
    assume I: "cf_spaced e (db w)" and f: "bindE (waitCodeforcesRateLimit e) (\<lambda>_. http_Do e ?rq) w = (r :: cf_error + _, w')"
    obtain w1 where w1: "waitCodeforcesRateLimit e w = (Inr () :: cf_error + unit, w1)" using wait_ok by blast
    from step [OF I w1] f show "cf_spaced e (db w')" by (simp add: bindE_def w1)
  qed
  show ?thesis unfolding fetchCodeforcesPageOnce_def bindE_assoc [symmetric]
    by (intro keeps_bind k) (auto intro!: keeps_intros split: sum.splits option.splits)
qed

lemma cf_spaced_attempts: "keeps (cf_spaced e) (cf_attempts e (currentCodeforcesAPIBaseURL e) username fr n k left)"
proof (induction left arbitrary: k)
  case 0
  then show ?case by (subst cf_attempts.simps) (auto intro!: keeps_intros split: sum.splits cf_error.splits)
next
  case (Suc left)
  then show ?case by (subst cf_attempts.simps) (auto intro!: keeps_intros split: sum.splits cf_error.splits)
qed

lemma cf_spaced_pages:
  fixes e :: "'a crawl_env_scheme"
  assumes "cf_spaced e (db w)" and "cf_pages e u username needAll fr res w = Some rw"
  shows "cf_spaced e (db (snd rw))"
proof -
  have "cf_spaced e0 (db w) \<longrightarrow> cf_spaced e0 (db (snd rw))" if "cf_pages e0 u username needAll fr res w = Some rw" for e0 :: "'a crawl_env_scheme" and u username needAll fr res w rw
  proof (rule cf_pages.raw_induct [OF _ that, of "\<lambda>e0 u username needAll fr res w rw. cf_spaced e0 (db w) \<longrightarrow> cf_spaced e0 (db (snd rw))"])
    fix f :: "'a crawl_env_scheme \<Rightarrow> _" and e0 :: "'a crawl_env_scheme" and u username needAll fr res w rw
    assume IH: "\<And>e0 :: 'a crawl_env_scheme. \<And>u username needAll fr res w rw. f e0 u username needAll fr res w = Some rw \<Longrightarrow> cf_spaced e0 (db w) \<longrightarrow> cf_spaced e0 (db (snd rw))"
      and F: "(case fetchCodeforcesPage e0 (currentCodeforcesAPIBaseURL e0) username fr codeforcesPageSize w of
        (Inl er, w1) \<Rightarrow> Some (Inl (cf_Error er), w1)
      | (Inr cfResp, w1) \<Rightarrow>
          if \<not> needAll \<or> length (cf_Result cfResp) < codeforcesPageSize
          then Some (Inr (res @ codeforcesRowsToSubmitLogs u (cf_Result cfResp)), w1)
          else f e0 u username needAll (fr + length (cf_Result cfResp))
                 (res @ codeforcesRowsToSubmitLogs u (cf_Result cfResp)) (snd (Sleep e0 (ms 300) w1 :: (gerr + unit) \<times> _))) = Some rw"
    show "cf_spaced e0 (db w) \<longrightarrow> cf_spaced e0 (db (snd rw))"
    proof
      assume I: "cf_spaced e0 (db w)"
      obtain r w1 where f: "fetchCodeforcesPage e0 (currentCodeforcesAPIBaseURL e0) username fr codeforcesPageSize w = (r, w1)" by fastforce
      have w1: "cf_spaced e0 (db w1)" by (rule keepsD [OF cf_spaced_attempts I f [unfolded fetchCodeforcesPage_def]])
      have s: "cf_spaced e0 (db (snd (Sleep e0 (ms 300) w1 :: (gerr + unit) \<times> _)))" by (rule keeps_snd [OF cf_spaced_Sleep w1])
      show "cf_spaced e0 (db (snd rw))"
      proof (cases r)
        case (Inl er)
        with F w1 show ?thesis by (auto simp: f)
      next
        case (Inr c)
        show ?thesis
        proof (cases "\<not> needAll \<or> length (cf_Result c) < codeforcesPageSize")
          case True
          with F Inr w1 show ?thesis by (auto simp: f)
        next
          case False
          with F Inr IH s show ?thesis by (simp add: f)
        qed
      qed
    qed
  qed
  with assms show ?thesis by blast
qed

section \<open>AtCoder: the scan of a page\<close>

fun unseen :: "int set \<Rightarrow> atcJson list \<Rightarrow> atcJson list" where
  "unseen seen [] = []"
| "unseen seen (row # rs) = (if ac_ID row \<in> seen then unseen seen rs else row # unseen (insert (ac_ID row) seen) rs)"

lemma scan_rows:
  "foldl scan_row (l, seen, new) rs = (foldl max l (map ac_EpochSecond rs), seen \<union> ac_ID ` set rs, new @ unseen seen rs)"
  by (induction rs arbitrary: l seen new) (auto simp: scan_row_def Let_def max_def insert_absorb)

lemma foldl_max: "foldl max (l :: int) xs \<in> insert l (set xs)" "\<forall>x \<in> insert l (set xs). x \<le> foldl max l xs"
  by (induction xs arbitrary: l) (auto simp: max_def, fastforce+)

lemma unseen_append: "unseen seen (xs @ ys) = unseen seen xs @ unseen (seen \<union> ac_ID ` set xs) ys"
  by (induction xs arbitrary: seen) (auto simp: insert_absorb)

lemma unseen_all: "ac_ID ` set xs \<subseteq> seen \<Longrightarrow> unseen seen xs = []"
  by (induction xs) auto

lemma unseen_none: "distinct (map ac_ID xs) \<Longrightarrow> ac_ID ` set xs \<inter> seen = {} \<Longrightarrow> unseen seen xs = xs"
  by (induction xs arbitrary: seen) auto

section \<open>AtCoder: the crawl ends\<close>

text \<open>The seconds of a decoded page are 64-bit numbers.\<close>

definition epochs_i64 :: "'x crawl_env_scheme \<Rightarrow> bool" where
  "epochs_i64 e \<longleftrightarrow> (\<forall>body rs. unmarshal_atc e body = Some rs \<longrightarrow> (\<forall>r \<in> set rs. ac_EpochSecond r < 9223372036854775808))"

lemma fetched_rows: "fetchAtCoderLog e username fr w = (Inr rs, w') \<Longrightarrow> \<exists>body. unmarshal_atc e body = Some rs"
  by (auto simp: fetchAtCoderLog_def bindE_def http_Do_def failE_def returnE_def split: sum.splits prod.splits if_splits option.splits)

lemma atc_pages_end:
  assumes "epochs_i64 e"
  shows "\<exists>rw. atc_pages e username needAll fr seen res w = Some rw"
proof (induction "nat (9223372036854775808 - fr)" arbitrary: fr seen res w rule: less_induct)
  case less
  obtain r w1 where f: "fetchAtCoderLog e username fr w = (r, w1)" by fastforce
  show ?case
  proof (cases r)
    case (Inl er)
    then show ?thesis by (subst atc_pages.simps) (simp add: f)
  next
    case (Inr rs)
    let ?last = "foldl max fr (map ac_EpochSecond rs)"
    have "\<exists>rw. atc_pages e username needAll ?last s v w2 = Some rw" if "fr < ?last" for s v w2
    proof (rule less)
      from fetched_rows f Inr obtain body where "unmarshal_atc e body = Some rs" by blast
      with foldl_max(1) [of fr "map ac_EpochSecond rs"] that assms have "?last < 9223372036854775808" by (force simp: epochs_i64_def)
      with that show "nat (9223372036854775808 - ?last) < nat (9223372036854775808 - fr)" by simp
    qed
    then show ?thesis by (subst atc_pages.simps) (auto simp: f Inr scan_rows)
  qed
qed

section \<open>AtCoder: complete crawls\<close>

text \<open>
  The platform answers with the first rows from a second on, in the order of time, and no second has
  a whole page of rows.
\<close>

definition atc_serves :: "'x crawl_env_scheme \<Rightarrow> string \<Rightarrow> atcJson list \<Rightarrow> bool" where
  "atc_serves e username all \<longleftrightarrow>
     (\<forall>n. \<forall>fr \<in> insert 0 (ac_EpochSecond ` set all). \<exists>body. respond e n (atc_request username fr) = Inr (200, Inr body) \<and>
        unmarshal_atc e body = Some (take atCoderPageSize (filter (\<lambda>r. fr \<le> ac_EpochSecond r) all)))"

definition atc_account :: "atcJson list \<Rightarrow> bool" where
  "atc_account all \<longleftrightarrow> sorted (map ac_EpochSecond all) \<and> distinct (map ac_ID all) \<and>
     (\<forall>t. length (filter (\<lambda>r. ac_EpochSecond r = t) all) < atCoderPageSize) \<and> (\<forall>r \<in> set all. 0 \<le> ac_EpochSecond r)"

lemma atc_served:
  assumes "atc_serves e username all" and "fr \<in> insert 0 (ac_EpochSecond ` set all)"
  obtains w' where "fetchAtCoderLog e username fr w = (Inr (take atCoderPageSize (filter (\<lambda>r. fr \<le> ac_EpochSecond r) all)), w')"
proof -
  from assms obtain body where "respond e (ticks w) (atc_request username fr) = Inr (200, Inr body)"
    "unmarshal_atc e body = Some (take atCoderPageSize (filter (\<lambda>r. fr \<le> ac_EpochSecond r) all))" unfolding atc_serves_def by blast
  then have "\<exists>w'. fetchAtCoderLog e username fr w = (Inr (take atCoderPageSize (filter (\<lambda>r. fr \<le> ac_EpochSecond r) all)), w')"
    by (simp add: fetchAtCoderLog_def bindE_def http_Do_def returnE_def)
  then show thesis using that by blast
qed

text \<open>Where the crawl stands: \<open>res\<close> was taken, \<open>rest\<close> remains, none of it before the second \<open>fr\<close>.\<close>

definition atc_at :: "atcJson list \<Rightarrow> int \<Rightarrow> int set \<Rightarrow> atcJson list \<Rightarrow> atcJson list \<Rightarrow> bool" where
  "atc_at all fr seen res rest \<longleftrightarrow>
     all = res @ rest \<and> fr \<in> insert 0 (ac_EpochSecond ` set all) \<and> seen = ac_ID ` set res \<and> (\<forall>r \<in> set res. ac_EpochSecond r \<le> fr) \<and> (\<forall>r \<in> set rest. fr \<le> ac_EpochSecond r)"

text \<open>One page: what it repeats is shorter than a page, the rest of it is new and comes next.\<close>

lemma atc_page_shape:
  assumes "atc_account all" and "atc_at all fr seen res rest"
  obtains again where "take atCoderPageSize (filter (\<lambda>r. fr \<le> ac_EpochSecond r) all) = again @ take (atCoderPageSize - length again) rest"
    "length again < atCoderPageSize" "set again \<subseteq> set res" "\<forall>r \<in> set again. ac_EpochSecond r = fr"
    "unseen seen (again @ take (atCoderPageSize - length again) rest) = take (atCoderPageSize - length again) rest"
proof -
  let ?again = "filter (\<lambda>r. fr \<le> ac_EpochSecond r) res"
  have all: "all = res @ rest" and seen: "seen = ac_ID ` set res" using assms(2) by (simp_all add: atc_at_def)
  have eq: "?again = filter (\<lambda>r. ac_EpochSecond r = fr) res" using assms(2) by (intro filter_cong) (force simp: atc_at_def)+
  have "length (filter (\<lambda>r. ac_EpochSecond r = fr) all) < atCoderPageSize" using assms(1) by (simp add: atc_account_def)
  then have l: "length ?again < atCoderPageSize" unfolding all eq by simp
  have rest: "filter (\<lambda>r. fr \<le> ac_EpochSecond r) rest = rest" using assms(2) by (simp add: atc_at_def)
  have d: "distinct (map ac_ID (res @ rest))" using assms(1) by (simp add: atc_account_def all)
  have "unseen seen (?again @ take n rest) = take n rest" for n
  proof -
    have "unseen seen ?again = []" by (rule unseen_all) (auto simp: seen)
    moreover have "seen \<union> ac_ID ` set ?again = seen" by (auto simp: seen)
    moreover have "unseen seen (take n rest) = take n rest"
      using d by (intro unseen_none) (auto simp: seen take_map [symmetric] dest!: in_set_takeD)
    ultimately show ?thesis by (simp add: unseen_append)
  qed
  moreover have "take atCoderPageSize (filter (\<lambda>r. fr \<le> ac_EpochSecond r) all) = ?again @ take (atCoderPageSize - length ?again) rest"
    using l by (simp add: all rest)
  ultimately show thesis using l by (intro that [of ?again]) (auto simp: eq)
qed

text \<open>A full page moves on.\<close>

lemma atc_step:
  assumes "atc_account all" and "atc_at all fr seen res rest" and "0 < k" and "k \<le> length rest"
    and "lst = foldl max fr (map ac_EpochSecond (again @ take k rest))" and "\<forall>r \<in> set again. ac_EpochSecond r = fr" and "set again \<subseteq> set res"
  shows "atc_at all lst (seen \<union> ac_ID ` set (again @ take k rest)) (res @ take k rest) (drop k rest)"
proof -
  have s: "sorted (map ac_EpochSecond rest)" using assms(1,2) by (simp add: atc_account_def atc_at_def sorted_append)
  have m: "\<forall>x \<in> insert fr (ac_EpochSecond ` set (again @ take k rest)). x \<le> lst" "lst \<in> insert fr (ac_EpochSecond ` set (again @ take k rest))"
    using foldl_max [of fr "map ac_EpochSecond (again @ take k rest)"] unfolding assms(5) by auto
    have s': "sorted (map ac_EpochSecond (take k rest) @ map ac_EpochSecond (drop k rest))"
    using s by (simp only: map_append [symmetric] append_take_drop_id)
  have "ac_EpochSecond a \<le> ac_EpochSecond b" if "a \<in> set (take k rest)" "b \<in> set (drop k rest)" for a b
    using s' that by (auto simp: sorted_append)
  moreover have "fr \<le> ac_EpochSecond b" if "b \<in> set (drop k rest)" for b using assms(2) that by (auto simp: atc_at_def dest: in_set_dropD)
  ultimately have "lst \<le> ac_EpochSecond b" if "b \<in> set (drop k rest)" for b using m(2) assms(6) that by auto
  moreover have "\<forall>r \<in> set (res @ take k rest). ac_EpochSecond r \<le> lst" using m(1) assms(2) by (force simp: atc_at_def)
  moreover have "lst \<in> insert 0 (ac_EpochSecond ` set all)"
    using m(2) assms(2,7) by (auto simp: atc_at_def dest!: in_set_takeD)
  ultimately show ?thesis using assms(2,7) unfolding atc_at_def set_append image_Un by (simp add: Un_assoc Un_absorb2) blast
qed

lemma atc_pages_round:
  assumes "fetchAtCoderLog e username fr w = (Inr atc, w1)" and "foldl scan_row (fr, seen, []) atc = (l, s, new)"
  shows "length atc < atCoderPageSize \<Longrightarrow> atc_pages e username True fr seen res w = Some (Inr (if atc = [] then res else res @ new), w1)"
    and "length atc = atCoderPageSize \<Longrightarrow> new \<noteq> [] \<Longrightarrow> fr < l \<Longrightarrow> atc_pages e username True fr seen res w =
      atc_pages e username True l s (res @ new) (snd (Sleep e (ms 300) w1 :: (gerr + unit) \<times> _))"
  by (subst atc_pages.simps, use assms in \<open>force simp: atCoderPageSize_def\<close>)+

lemma filter_take_le: "length (filter P (take n (filter Q xs))) \<le> length (filter P xs)"
proof -
  have "length (filter P (take n ys)) \<le> length (filter P ys)" for ys
    by (metis append_take_drop_id filter_append length_append le_add1)
  moreover have "length (filter P (filter Q xs)) \<le> length (filter P xs)" by (induction xs) auto
  ultimately show ?thesis by (rule order_trans)
qed

lemma atc_pages_complete:
  assumes "atc_serves e username all" and "atc_account all" and "atc_at all fr seen res rest"
  shows "\<exists>w'. atc_pages e username True fr seen res w = Some (Inr all, w')"
  using assms(3)
proof (induction "length rest" arbitrary: fr seen res rest w rule: less_induct)
  case less
  obtain again where again: "take atCoderPageSize (filter (\<lambda>r. fr \<le> ac_EpochSecond r) all) = again @ take (atCoderPageSize - length again) rest"
    "length again < atCoderPageSize" "set again \<subseteq> set res" "\<forall>r \<in> set again. ac_EpochSecond r = fr"
    "unseen seen (again @ take (atCoderPageSize - length again) rest) = take (atCoderPageSize - length again) rest"
    by (rule atc_page_shape [OF assms(2) less.prems])
  have all: "all = res @ rest" and fr: "fr \<in> insert 0 (ac_EpochSecond ` set all)" using less.prems unfolding atc_at_def by blast+
  define k where "k = atCoderPageSize - length again"
  have k: "0 < k" using again(2) by (simp add: k_def)
  obtain w1 where f: "fetchAtCoderLog e username fr w = (Inr (again @ take k rest), w1)"
    by (rule atc_served [OF assms(1) fr, of w, unfolded again(1), folded k_def])
  define lst where "lst = foldl max fr (map ac_EpochSecond (again @ take k rest))"
  define seen' where "seen' = seen \<union> ac_ID ` set (again @ take k rest)"
  have scan: "foldl scan_row (fr, seen, []) (again @ take k rest) = (lst, seen', take k rest)"
    unfolding scan_rows lst_def seen'_def append_Nil again(5) [folded k_def] ..
  show ?case
  proof (cases "length rest < k")
    case True
    then have "length (again @ take k rest) < atCoderPageSize" "take k rest = rest" using again(2) by (simp_all add: k_def)
    then show ?thesis using atc_pages_round(1) [OF f scan, of res] by (simp add: all)
  next
    case False
    then have full: "length (again @ take k rest) = atCoderPageSize" using again(2) by (simp add: k_def)
    have ge: "\<forall>r \<in> set (take k rest). fr \<le> ac_EpochSecond r" using less.prems unfolding atc_at_def by (blast dest: in_set_takeD)
    have "\<exists>r \<in> set (again @ take k rest). fr < ac_EpochSecond r"
    proof (rule ccontr)
      assume no: "\<not> ?thesis"
      have "\<forall>r \<in> set (again @ take k rest). ac_EpochSecond r = fr"
      proof
        fix r assume r: "r \<in> set (again @ take k rest)"
        with no have "ac_EpochSecond r \<le> fr" by (meson not_le)
        with r ge again(4) show "ac_EpochSecond r = fr" unfolding set_append by (metis Un_iff order_antisym)
      qed
      then have "length (filter (\<lambda>r. ac_EpochSecond r = fr) (again @ take k rest)) = atCoderPageSize" using full by (simp only: filter_True)
      then have "length (filter (\<lambda>r. ac_EpochSecond r = fr) (take atCoderPageSize (filter (\<lambda>r. fr \<le> ac_EpochSecond r) all))) = atCoderPageSize"
        unfolding again(1) k_def .
      with filter_take_le [of "\<lambda>r. ac_EpochSecond r = fr" atCoderPageSize "\<lambda>r. fr \<le> ac_EpochSecond r" all]
      have "atCoderPageSize \<le> length (filter (\<lambda>r. ac_EpochSecond r = fr) all)" by simp
      moreover from assms(2) have "length (filter (\<lambda>r. ac_EpochSecond r = fr) all) < atCoderPageSize" by (simp add: atc_account_def)
      ultimately show False by simp
    qed
    then obtain r where r: "r \<in> set (again @ take k rest)" "fr < ac_EpochSecond r" by blast
    then have "ac_EpochSecond r \<le> lst" unfolding lst_def by (intro bspec [OF foldl_max(2)]) auto
    with r have more: "fr < lst" by simp
    have "atc_at all lst seen' (res @ take k rest) (drop k rest)"
      unfolding seen'_def by (rule atc_step [OF assms(2) less.prems k _ lst_def again(4,3)]) (use False in simp)
    moreover have "length (drop k rest) < length rest" using False k by simp
    ultimately obtain w' where n: "atc_pages e username True lst seen' (res @ take k rest) (snd (Sleep e (ms 300) w1 :: (gerr + unit) \<times> _)) = Some (Inr all, w')"
      using less.hyps by blast
    have "take k rest \<noteq> []" using False k by auto
    with atc_pages_round(2) [OF f scan full _ more, of res] n show ?thesis by simp
  qed
qed

section \<open>AtCoder: contests\<close>

definition agg_ok :: "int \<Rightarrow> string \<times> contestAgg \<Rightarrow> bool" where
  "agg_ok userId = (\<lambda>(k, a). k_ContestId (ag_log a) = k \<and> k_Platform (ag_log a) = AtCoder \<and> k_UserID (ag_log a) = userId \<and>
     finite (ag_submitted a) \<and> ag_submitted a \<noteq> {} \<and> ag_accepted a \<subseteq> ag_submitted a)"

definition aggs_ok :: "int \<Rightarrow> (string \<times> contestAgg) list \<Rightarrow> bool" where
  "aggs_ok userId aggs \<longleftrightarrow> distinct (map fst aggs) \<and> (\<forall>x \<in> set aggs. agg_ok userId x)"

lemma agg_problem_ok: "agg_ok u (k, a) \<Longrightarrow> agg_ok u (k, agg_problem row r a)"
  by (auto simp: agg_ok_def agg_problem_def Let_def)

lemma new_agg_ok: "agg_ok u (k, agg_problem row r (new_agg u k t r'))"
  by (auto simp: agg_ok_def agg_problem_def new_agg_def empty_contest_def Let_def)

lemma upd_agg_ok: "aggs_ok u aggs \<Longrightarrow> aggs_ok u (upd_agg k (new_agg u k t r') (agg_problem row r) aggs)"
  by (auto simp: aggs_ok_def upd_agg_def o_def split_def new_agg_ok intro: agg_problem_ok)

lemma agg_rows_ok: "aggs_ok u aggs \<Longrightarrow> agg_rows e u rs results aggs w = (Inr aggs', w') \<Longrightarrow> aggs_ok u aggs'"
proof (induction rs arbitrary: results aggs w)
  case Nil
  then show ?case by (simp add: returnE_def)
next
  case (Cons row rs)
  from Cons.prems show ?case
    by (auto simp: Let_def bindE_def split: if_splits prod.splits sum.splits intro: Cons.IH upd_agg_ok)
qed

definition contest_ok :: "int \<Rightarrow> ContestLog \<Rightarrow> bool" where
  "contest_ok userId k \<longleftrightarrow> k_Platform k = AtCoder \<and> k_UserID k = userId \<and> 0 \<le> k_AcCount k \<and> k_AcCount k \<le> k_TotalCount k \<and> 0 < k_TotalCount k"

lemma close_agg_ok: "agg_ok u (k, a) \<Longrightarrow> contest_ok u (close_agg r a) \<and> k_ContestId (close_agg r a) = k"
  by (auto simp: agg_ok_def contest_ok_def close_agg_def Let_def card_mono card_gt_0_iff split: sum.splits)

lemma close_aggs_ok:
  "aggs_ok u aggs \<Longrightarrow> close_aggs e aggs w = (Inr logs :: gerr + _, w') \<Longrightarrow> map k_ContestId logs = map fst aggs \<and> (\<forall>k \<in> set logs. contest_ok u k)"
proof (induction aggs arbitrary: w logs)
  case Nil
  then show ?case by (simp add: returnE_def)
next
  case (Cons x aggs)
  obtain k a where x: "x = (k, a)" by fastforce
  have a: "agg_ok u (k, a)" and rest: "aggs_ok u aggs" using Cons.prems(1) by (auto simp: aggs_ok_def x)
  from Cons.prems(2) obtain r w1 ls where l: "close_aggs e aggs w1 = (Inr ls :: gerr + _, w')" and logs: "logs = close_agg r a # ls"
    by (auto simp: x bindE_def tryE_def returnE_def split: prod.splits sum.splits)
  from Cons.IH [OF rest l] close_agg_ok [OF a] show ?case by (simp add: logs x)
qed

lemma atc_contests_ok:
  assumes "atc_FetchContestLog e u username needAll w = Some (Inr logs, w')"
  shows "distinct (map k_ContestId logs) \<and> (\<forall>k \<in> set logs. contest_ok u k)"
proof -
  from assms obtain rs w1 where "bindE (agg_rows e u rs Map.empty []) (close_aggs e) w1 = (Inr logs :: gerr + _, w')"
    by (auto simp: atc_FetchContestLog_def split: option.splits prod.splits sum.splits)
  then obtain aggs w2 where a: "agg_rows e u rs Map.empty [] w1 = (Inr aggs :: gerr + _, w2)" and c: "close_aggs e aggs w2 = (Inr logs :: gerr + _, w')"
    by (auto simp: bindE_def split: prod.splits sum.splits)
  have "aggs_ok u aggs" by (rule agg_rows_ok [OF _ a]) (simp add: aggs_ok_def)
  with close_aggs_ok [OF this c] show ?thesis by (simp add: aggs_ok_def)
qed

text \<open>Gathering the contests never fails: a contest page that cannot be read leaves the contest without its title and times.\<close>

lemma getMeta_ok: "\<exists>r w'. getMeta e results k w = (Inr r, w')"
  by (auto simp: getMeta_def bindE_def tryE_def returnE_def split: option.splits prod.splits)

lemma agg_rows_total: "\<exists>aggs' w'. agg_rows e u rs results aggs w = (Inr aggs', w')"
proof (induction rs arbitrary: results aggs w)
  case (Cons row rs)
  obtain r results' w1 where "getMeta e results (TrimSpace (ac_ContestID row)) w = (Inr (r, results') :: 'a + _, w1)"
    using getMeta_ok [of e results "TrimSpace (ac_ContestID row)" w] by auto
  then show ?case using Cons.IH by (simp add: Let_def bindE_def)
qed (simp add: returnE_def)

lemma close_aggs_total: "\<exists>logs w'. close_aggs e aggs w = (Inr logs, w')"
proof (induction aggs arbitrary: w)
  case (Cons x aggs)
  obtain k a where x: "x = (k, a)" by fastforce
  obtain r w1 where "tryE (fetchAtCoderContestMeta e (k_ContestId (ag_log a))) w = (Inr r :: 'a + _, w1)"
    by (cases "fetchAtCoderContestMeta e (k_ContestId (ag_log a)) w") (simp add: tryE_def)
  moreover obtain logs w2 where "close_aggs e aggs w1 = (Inr logs :: 'a + _, w2)" using Cons.IH by blast
  ultimately show ?case by (simp add: x bindE_def returnE_def)
qed (simp add: returnE_def)

lemma atc_contests_total:
  assumes "fetchAtCoderRows e username needAll w = Some (Inr rs, w1)"
  shows "\<exists>logs w'. atc_FetchContestLog e u username needAll w = Some (Inr logs, w')"
proof -
  obtain aggs w2 where a: "agg_rows e u rs Map.empty [] w1 = (Inr aggs :: gerr + _, w2)" using agg_rows_total by blast
  obtain logs w3 where "close_aggs e aggs w2 = (Inr logs :: gerr + _, w3)" using close_aggs_total by blast
  then show ?thesis by (simp add: atc_FetchContestLog_def assms bindE_def a)
qed

section \<open>What the pipeline relies on\<close>

text \<open>
  The interface of a provider of submissions: it refuses an empty account without sending anything, and
  what it returns belongs to the user it was asked for and to its own platform.
\<close>

locale submit_fetcher =
  fixes name :: string
    and fetch :: "int \<Rightarrow> string \<Rightarrow> bool \<Rightarrow> SubmitLog list crawl"
  assumes blank: "TrimSpace account = '''' \<Longrightarrow> \<exists>er. fetch u account needAll w = Some (Inl er, w)"
    and owned: "fetch u account needAll w = Some (Inr logs, w') \<Longrightarrow> s \<in> set logs \<Longrightarrow> s_UserID s = u \<and> s_Platform s = name"
begin

text \<open>The normalisation of the pipeline then changes neither user nor platform of a row.\<close>

lemma clean_owned:
  assumes "fetch u account needAll w = Some (Inr logs, w')" and "s \<in> set logs"
  shows "clean_log u name s = s\<lparr>s_SubmitID := TrimSpace (s_SubmitID s), s_Contest := TrimSpace (s_Contest s),
    s_Problem := TrimSpace (s_Problem s), s_Lang := TrimSpace (s_Lang s), s_Status := TrimSpace (s_Status s)\<rparr>"
  using owned [OF assms] by (simp add: clean_log_def)

lemma fetched_account: "fetch u account needAll w = Some (Inr logs, w') \<Longrightarrow> TrimSpace account \<noteq> ''''"
  using blank [of account u needAll w] by auto

lemma contract:
  "(fetch u account needAll w = Some (Inr logs, w') \<longrightarrow> TrimSpace account \<noteq> '''' \<and> (\<forall>s \<in> set logs. s_UserID s = u \<and> s_Platform s = name)) \<and>
   (TrimSpace account = '''' \<longrightarrow> (\<exists>er. fetch u account needAll w = Some (Inl er, w)))"
  using fetched_account owned blank by blast

end

definition rows_of :: "int \<Rightarrow> string \<Rightarrow> SubmitLog list \<Rightarrow> bool" where
  "rows_of u p logs \<longleftrightarrow> (\<forall>s \<in> set logs. s_UserID s = u \<and> s_Platform s = p)"

lemma rows_of_simps [simp]:
  "rows_of u p []" "rows_of u p (x # xs) \<longleftrightarrow> s_UserID x = u \<and> s_Platform x = p \<and> rows_of u p xs"
  "rows_of u p (xs @ ys) \<longleftrightarrow> rows_of u p xs \<and> rows_of u p ys"
  "rows_of u p (map f zs) \<longleftrightarrow> (\<forall>z \<in> set zs. s_UserID (f z) = u \<and> s_Platform (f z) = p)"
  by (auto simp: rows_of_def)

lemma cf_pages_owned:
  fixes e :: "'a crawl_env_scheme"
  assumes "cf_pages e u username needAll fr res w = Some (Inr logs, w')" and "rows_of u CodeForces res"
  shows "rows_of u CodeForces logs"
proof -
  define P where "P = (\<lambda>(e :: 'a crawl_env_scheme) u (username :: string) (needAll :: bool) (fr :: nat) res (w :: crawl_world) (rw :: (gerr + SubmitLog list) \<times> crawl_world).
    rows_of u CodeForces res \<longrightarrow> (\<forall>l. fst rw = Inr l \<longrightarrow> rows_of u CodeForces l))"
  have rows: "rows_of u CodeForces (codeforcesRowsToSubmitLogs u rs)" for u rs
    by (simp add: codeforcesRowsToSubmitLogs_def cf_row_def)
  have "P e u username needAll fr res w (Inr logs, w')"
    by (rule cf_pages.raw_induct [OF _ assms(1), of P]) (fastforce simp: P_def rows split: prod.splits sum.splits if_splits)
  with assms(2) show ?thesis by (simp add: P_def)
qed

interpretation cf: submit_fetcher CodeForces "cf_FetchSubmitLog e" for e
proof
  show "TrimSpace account = '''' \<Longrightarrow> \<exists>er. cf_FetchSubmitLog e u account needAll w = Some (Inl er, w)" for account u needAll w
    by (simp add: cf_FetchSubmitLog_def)
  show "cf_FetchSubmitLog e u account needAll w = Some (Inr logs, w') \<Longrightarrow> s \<in> set logs \<Longrightarrow> s_UserID s = u \<and> s_Platform s = CodeForces"
    for u account needAll w logs w' s
    by (auto simp: cf_FetchSubmitLog_def Let_def split: if_splits dest!: cf_pages_owned) (auto simp: rows_of_def)
qed

lemma map_sum_Inr: "map_sum f g r = Inr y \<longleftrightarrow> (\<exists>x. r = Inr x \<and> y = g x)"
  by (cases r) auto

lemma atc_submits:
  "atc_FetchSubmitLog e u account needAll w = Some (Inr logs, w') \<longleftrightarrow>
    (\<exists>rs. fetchAtCoderRows e account needAll w = Some (Inr rs, w') \<and> logs = atCoderRowsToSubmitLogs u rs)"
  by (auto simp: atc_FetchSubmitLog_def map_sum_Inr)

interpretation atc: submit_fetcher AtCoder "atc_FetchSubmitLog e" for e
proof
  show "TrimSpace account = '''' \<Longrightarrow> \<exists>er. atc_FetchSubmitLog e u account needAll w = Some (Inl er, w)" for account u needAll w
    by (simp add: atc_FetchSubmitLog_def fetchAtCoderRows_def)
qed (auto simp: atc_submits atCoderRowsToSubmitLogs_def atc_row_def)

lemma nc_convert_owned: "nc_convert e u vs = Inr logs \<Longrightarrow> rows_of u NowCoder logs"
  by (induction vs arbitrary: logs) (auto split: option.splits sum.splits)

lemma nc_handle_owned: "rows_of u NowCoder res \<Longrightarrow> nc_handle u username limit res its = (logs, b) \<Longrightarrow> rows_of u NowCoder logs"
proof (induction its arbitrary: res)
  case (Cons it its)
  from Cons.prems(1) have "rows_of u NowCoder (res @ [training_row u username it])" by (simp add: training_row_def)
  with Cons.IH Cons.prems(2) show ?case by (auto simp only: nc_handle.simps Let_def split: if_splits)
qed simp

lemma training_owned:
  "rows_of u NowCoder res \<Longrightarrow> training_pages e u username limit page left res w = (Inr logs, w') \<Longrightarrow> rows_of u NowCoder logs"
  by (induction left arbitrary: page res w)
    (auto simp: bindE_def returnE_def dest: nc_handle_owned split: prod.splits sum.splits if_splits)

lemma fetchSub_owned: "fetchSub e u username needAll w = (Inr logs, w') \<Longrightarrow> rows_of u NowCoder logs"
  by (auto simp: fetchSub_def bindE_def returnE_def Let_def split: prod.splits sum.splits if_splits
      dest: training_owned nc_handle_owned [rotated])

interpretation nc: submit_fetcher NowCoder "\<lambda>u a needAll. terminating (nc_FetchSubmitLog e u a needAll)" for e
proof
  show "TrimSpace a = '''' \<Longrightarrow> \<exists>er. terminating (nc_FetchSubmitLog e u a needAll) w = Some (Inl er, w)" for a u needAll w
    by (simp add: terminating_def nc_FetchSubmitLog_def failE_def)
  show "terminating (nc_FetchSubmitLog e u a needAll) w = Some (Inr logs, w') \<Longrightarrow> s \<in> set logs \<Longrightarrow> s_UserID s = u \<and> s_Platform s = NowCoder"
    for u a needAll w logs w' s
  proof -
    assume f: "terminating (nc_FetchSubmitLog e u a needAll) w = Some (Inr logs, w')" and s: "s \<in> set logs"
    from f obtain all res tr w1 where "nc_convert e u all = Inr res" "fetchSub e u (TrimSpace a) needAll w1 = (Inr tr, w')" "logs = res @ tr"
      by (auto simp: terminating_def nc_FetchSubmitLog_def bindE_def failE_def returnE_def Let_def split: if_splits prod.splits sum.splits)
    then have "rows_of u NowCoder logs" by (auto intro: nc_convert_owned fetchSub_owned)
    with s show ?thesis by (simp add: rows_of_def)
  qed
qed

interpretation lg: submit_fetcher LuoGu "\<lambda>u a needAll. terminating (lg_FetchSubmitLog e u a needAll)" for e
proof
  show "TrimSpace a = '''' \<Longrightarrow> \<exists>er. terminating (lg_FetchSubmitLog e u a needAll) w = Some (Inl er, w)" for a u needAll w
    by (simp add: terminating_def lg_FetchSubmitLog_def failE_def)
  show "terminating (lg_FetchSubmitLog e u a needAll) w = Some (Inr logs, w') \<Longrightarrow> s \<in> set logs \<Longrightarrow> s_UserID s = u \<and> s_Platform s = LuoGu"
    for u a needAll w logs w' s
    by (auto simp: terminating_def lg_FetchSubmitLog_def bindE_def failE_def returnE_def Let_def lg_row_def split: if_splits prod.splits sum.splits)
qed

lemma qoj_rows_owned: "qoj_rows e u rs = Inr logs \<Longrightarrow> rows_of u QOJ logs"
  by (induction rs arbitrary: logs) (auto simp: Let_def split: option.splits sum.splits if_splits)

lemma qoj_pages_owned:
  fixes e :: "'a page_env_scheme"
  assumes "qoj_pages e u c username needAll page res w = Some (Inr logs, w')" and "rows_of u QOJ res"
  shows "rows_of u QOJ logs"
proof -
  define P where "P = (\<lambda>(e :: 'a page_env_scheme) u (c :: nat) (username :: string) (needAll :: bool) (page :: int) res (w :: crawl_world)
    (rw :: (gerr + SubmitLog list) \<times> crawl_world). rows_of u QOJ res \<longrightarrow> (\<forall>l. fst rw = Inr l \<longrightarrow> rows_of u QOJ l))"
  have "P e u c username needAll page res w (Inr logs, w')"
    by (rule qoj_pages.raw_induct [OF _ assms(1), of P])
      (fastforce simp: P_def split: prod.splits sum.splits if_splits option.splits dest: qoj_rows_owned)
  with assms(2) show ?thesis by (simp add: P_def)
qed

interpretation qoj: submit_fetcher QOJ "qoj_FetchSubmitLog e" for e
proof
  show "TrimSpace a = '''' \<Longrightarrow> \<exists>er. qoj_FetchSubmitLog e u a needAll w = Some (Inl er, w)" for a u needAll w
    by (simp add: qoj_FetchSubmitLog_def)
  show "qoj_FetchSubmitLog e u a needAll w = Some (Inr logs, w') \<Longrightarrow> s \<in> set logs \<Longrightarrow> s_UserID s = u \<and> s_Platform s = QOJ"
    for u a needAll w logs w' s
    by (auto simp: qoj_FetchSubmitLog_def Let_def split: if_splits prod.splits sum.splits dest!: qoj_pages_owned) (auto simp: rows_of_def)
qed

section \<open>Into the pipeline\<close>

text \<open>A number written out has no white space around it.\<close>

lemma TrimSpace_fmt_d [simp]: "TrimSpace (fmt_d x) = fmt_d x"
proof -
  obtain a c where s: "fmt_d x = a @ TrimSpace (fmt_d x) @ c"
    and ac: "\<And>y. y \<in> set a \<Longrightarrow> of_char y \<in> set space_bytes" "\<And>y. y \<in> set c \<Longrightarrow> of_char y \<in> set space_bytes"
    by (rule TrimSpace_split [of "fmt_d x"]) blast
  have d: "of_char y \<notin> set space_bytes" if "y \<in> set (fmt_d x)" for y
    using that fmt_nat_digits by (fastforce simp: fmt_d_def space_bytes_def split: if_splits)
  have "set a \<subseteq> set (fmt_d x)" "set c \<subseteq> set (fmt_d x)" by (subst s, auto)+
  with d ac have "y \<notin> set a" "y \<notin> set c" for y by (metis subsetD)+
  then have "set a = {}" "set c = {}" by (metis equals0I)+
  with s show ?thesis by simp
qed

lemma fmt_d_nonempty [simp]: "fmt_d x \<noteq> []"
  by (simp add: fmt_d_def)

lemma last_by_id_distinct:
  "distinct (map (\<lambda>x. TrimSpace (s_SubmitID x)) logs) \<Longrightarrow> x \<in> set logs \<Longrightarrow> valid_log x \<Longrightarrow>
    last_by_id u p logs (TrimSpace (s_SubmitID x)) = Some (clean_log u p x)"
proof (induction logs rule: rev_induct)
  case (snoc y logs)
  show ?case
  proof (cases "x = y")
    case False
    with snoc.prems(2) have "x \<in> set logs" by simp
    moreover from this snoc.prems(1) have "TrimSpace (s_SubmitID x) \<noteq> TrimSpace (s_SubmitID y)" by (auto simp: image_iff)
    ultimately show ?thesis using snoc.IH snoc.prems by (simp add: last_by_id_def)
  qed (use snoc.prems(3) in \<open>simp add: last_by_id_def\<close>)
qed simp

lemma last_by_id_dom: "\<forall>x \<in> set logs. valid_log x \<Longrightarrow> dom (last_by_id u p logs) = (\<lambda>x. TrimSpace (s_SubmitID x)) ` set logs"
  by (induction logs rule: rev_induct) (auto simp: last_by_id_def)

lemma normalize_all_valid:
  assumes "normalizeFetchedSubmitLogs u p logs = (tmp, sk, None)" and "\<forall>x \<in> set logs. valid_log x"
    and "distinct (map (\<lambda>x. TrimSpace (s_SubmitID x)) logs)"
  shows "length tmp = length logs" and "sk = 0"
proof -
  have "length tmp = card (dom (last_by_id u p logs))"
    using normalize_spec(1,2) [OF assms(1)] by_id_dom [of tmp] by (metis distinct_card length_map list.set_map)
  also have "\<dots> = length logs" using last_by_id_dom [OF assms(2)] assms(3) by (metis distinct_card length_map list.set_map)
  finally show "length tmp = length logs" .
  with normalize_spec(3) [OF assms(1)] show "sk = 0" by simp
qed

lemma cf_rows_valid:
  assumes "distinct (map cf_ID subs)" and "\<forall>x \<in> set subs. 0 \<le> cf_Creation x"
  shows "\<forall>s \<in> set (codeforcesRowsToSubmitLogs u subs). valid_log s"
    and "distinct (map (\<lambda>s. TrimSpace (s_SubmitID s)) (codeforcesRowsToSubmitLogs u subs))"
proof -
  show "\<forall>s \<in> set (codeforcesRowsToSubmitLogs u subs). valid_log s"
    using assms(2) by (force simp: codeforcesRowsToSubmitLogs_def cf_row_def valid_log_def unix_time_def zero_time_def)
  have "inj_on fmt_d (set (map cf_ID subs))" by (auto intro!: inj_onI dest: fmt_d_inj)
  then have "distinct (map fmt_d (map cf_ID subs))" using assms(1) by (simp only: distinct_map)
  then show "distinct (map (\<lambda>s. TrimSpace (s_SubmitID s)) (codeforcesRowsToSubmitLogs u subs))"
    by (simp add: codeforcesRowsToSubmitLogs_def cf_row_def o_def)
qed

text \<open>Contests of other platforms stay as they are in a refresh.\<close>

definition other_contest :: "int \<Rightarrow> string \<Rightarrow> ContestLog \<Rightarrow> bool" where
  "other_contest u p r \<longleftrightarrow> \<not> (k_UserID r = u \<and> k_Platform r = p)"

lemma insert_contest_keeps: "r \<in> set (rows t) \<Longrightarrow> r \<in> set (rows (insert_contest x t))"
  by (simp add: insert_contest_def insert_row_def)

lemma insert_contests_keep: "r \<in> set (rows t) \<Longrightarrow> r \<in> set (rows (fold insert_contest xs t))"
  by (induction xs arbitrary: t) (auto intro: insert_contest_keeps)

lemma contest_kept: "other_contest u (p_Platform plat) r \<Longrightarrow> keeps (\<lambda>d. r \<in> set (rows (contests d))) (fetchAndSaveContest e u plat needAll)"
proof -
  assume o: "other_contest u (p_Platform plat) r"
  let ?I = "\<lambda>d :: cdb. r \<in> set (rows (contests d))"
  have b: "keeps ?I (insert_contest_batch e xs)" for xs
    by (auto simp: keeps_def insert_contest_batch_def stmt_def intro: insert_contests_keep split: if_splits)
  have f: "keeps ?I (for_each (insert_contest_batch e) xss)" for xss
    by (induction xss) (auto intro!: keeps_intros b)
  have d: "keeps ?I (q_delete e contests contests_update (\<lambda>k. k_UserID k = u \<and> k_Platform k = p_Platform plat))"
    using o by (auto simp: keeps_def q_delete_def stmt_def delete_where_def other_contest_def split: if_splits)
  show ?thesis unfolding fetchAndSaveContest_def by (intro keeps_transaction_body keeps_intros f d)
qed

section \<open>Names\<close>

lemma names_differ [simp]: "NowCoder \<noteq> AtCoder" "NowCoder \<noteq> CodeForces" "NowCoder \<noteq> LuoGu" "NowCoder \<noteq> QOJ" "AtCoder \<noteq> CodeForces"
  "AtCoder \<noteq> LuoGu" "AtCoder \<noteq> QOJ" "CodeForces \<noteq> LuoGu" "CodeForces \<noteq> QOJ" "LuoGu \<noteq> QOJ"
  by (simp_all add: NowCoder_def AtCoder_def CodeForces_def LuoGu_def QOJ_def)

lemmas names_differ' [simp] = names_differ [symmetric]

lemma Get_cases:
  assumes "Get name \<noteq> None"
  obtains "name = NowCoder" | "name = AtCoder" | "name = CodeForces" | "name = LuoGu" | "name = QOJ"
  using assms by (auto simp: Get_def split: if_splits)

end
