(* ===== verification/CrawlProperties.thy ===== *)
theory CrawlProperties
  imports CrawlFacts CoreSamples
begin

text \<open>
  The properties of the crawlers, with their witnesses: platforms that answer every request with one
  submission.
\<close>

section \<open>Small platforms\<close>

definition cfsub_ex :: cfJson where
  "cfsub_ex = \<lparr>cf_ID = 7, cf_ContestID = 1, cf_ProblemContestID = 1, cf_ProblemsetName = '''', cf_Index = ''A'', cf_Name = ''Sum'',
     cf_Language = ''C++'', cf_Verdict = ''OK'', cf_Creation = 100\<rparr>"

definition atcrow_ex :: atcJson where
  "atcrow_ex = \<lparr>ac_ID = 3, ac_EpochSecond = 0, ac_ProblemID = ''p'', ac_ContestID = ''abc'', ac_Language = ''C'', ac_Result = ''AC''\<rparr>"

definition cx_ex :: cf_contest_row where
  "cx_ex = \<lparr>cx_Name = ''R'', cx_Href = Some ''/contest/2217'', cx_Time = '''', cx_Rank = ''5'', cx_Ac = ''2''\<rparr>"

definition we_ex :: page_env where
  "we_ex = \<lparr>respond = (\<lambda>_ _. Inr (200, Inr ''x'')), delay = (\<lambda>_. 1), CODEFORCES_API_BASE_URL = '''', refused_url = (\<lambda>_. False),
     unmarshal_cf = (\<lambda>_. Some \<lparr>cf_Status = ''OK'', cf_Comment = '''', cf_Result = [cfsub_ex]\<rparr>),
     cf_contest_rows = (\<lambda>_. Some [cx_ex]),
     unmarshal_atc = (\<lambda>_. Some [atcrow_ex]), html_Unescape = id, atCoderContestTitleRe = (\<lambda>_. None), atCoderContestTimeRe = (\<lambda>_. []),
     parse_offset = (\<lambda>_. None), parse_shanghai = (\<lambda>_. Some 5), parse_moscow = (\<lambda>_. None),
     nc_parse = (\<lambda>_. Some \<lparr>nd_states = [], nd_rows = []\<rparr>), training_body = (\<lambda>_ _. ''''), unmarshal_training = (\<lambda>_. None),
     unmarshal_joined = (\<lambda>_. None), ocr_form = id, feInjectionRe = (\<lambda>_. None), unmarshal_injection = (\<lambda>_. None), tokenRe = (\<lambda>_. None),
     md5_hex = id, tbodyRe = (\<lambda>_. None), rowRe = (\<lambda>_. []), cellRe = (\<lambda>_. [])\<rparr>"

definition ww_ex :: crawl_world where
  "ww_ex = \<lparr>db = \<lparr>cr_now = 1000, cr_sent = [], codeforcesLastRequest = zero_time, atCoderContestMetaMap = Map.empty,
     luogu_session = \<lparr>se_client = None, se_lastUsed = zero_time\<rparr>, qoj_session = \<lparr>se_client = None, se_lastUsed = zero_time\<rparr>\<rparr>,
     rdb = (\<lambda>_. None), ticks = 0\<rparr>"

lemma cf_serves_ex: "cf_serves we_ex username [cfsub_ex]"
proof -
  have "i = 0" if "i * codeforcesPageSize \<le> length [cfsub_ex]" for i :: nat
    using that by (simp add: codeforcesPageSize_def)
  moreover have "take codeforcesPageSize (drop (0 * codeforcesPageSize) [cfsub_ex]) = [cfsub_ex]" by (simp add: codeforcesPageSize_def)
  ultimately show ?thesis unfolding cf_serves_def we_ex_def by (metis CFResponse.select_convs crawl_env.select_convs)
qed

lemma atc_serves_ex: "atc_serves we_ex username [atcrow_ex]"
  by (simp add: atc_serves_def we_ex_def atCoderPageSize_def atcrow_ex_def)

lemma atc_account_ex: "atc_account [atcrow_ex]"
  by (simp add: atc_account_def atCoderPageSize_def atcrow_ex_def)

lemma bob [simp]: "TrimSpace ''bob'' = ''bob''"
  by code_simp

section \<open>What every crawler promises\<close>



section \<open>Codeforces\<close>

text \<open>When Codeforces answers each request with the slice of the submissions of an account that it asks for, a full crawl ends and returns exactly these submissions, in their order and each once, and an incremental one the newest thousand.\<close>

theorem codeforces_crawl_complete:
  assumes "cf_serves e (TrimSpace account) subs" and "TrimSpace account \<noteq> ''''"
  shows "(\<exists>w'. cf_FetchSubmitLog e u account True w = Some (Inr (codeforcesRowsToSubmitLogs u subs), w')) \<and>
    (\<exists>w'. cf_FetchSubmitLog e u account False w = Some (Inr (codeforcesRowsToSubmitLogs u (take codeforcesPageSize subs)), w'))"
  using cf_pages_complete [OF assms(1), of 0 u "[]" w] cf_newest [OF assms(1), of u w] assms(2)
  by (simp add: cf_FetchSubmitLog_def Let_def)

theorem codeforces_crawl_complete_witness:
  "\<exists>w'. cf_FetchSubmitLog we_ex 2 ''bob'' True ww_ex = Some (Inr [cf_row 2 cfsub_ex], w')"
  using codeforces_crawl_complete [of we_ex "''bob''" "[cfsub_ex]" 2 ww_ex] cf_serves_ex by (simp add: codeforcesRowsToSubmitLogs_def)



text \<open>C23. A full refresh of a Codeforces account that succeeds stores exactly the submissions of the account: when the platform serves them and the pipeline gets the answer of the crawler, the reported count is their number, none is skipped, each is found under its id with its verdict, problem, language and time, and the user has no other row of the platform.\<close>

theorem codeforces_refresh_complete:
  assumes "cf_serves e (TrimSpace (p_Username plat)) subs" and "TrimSpace (p_Username plat) \<noteq> ''''" and "p_Platform plat = CodeForces"
    and "distinct (map cf_ID subs)" and "\<forall>x \<in> set subs. 0 \<le> cf_Creation x"
    and "cf_FetchSubmitLog e u (p_Username plat) True cw = Some (FetchSubmitLog ce (ticks w) CodeForces u (p_Username plat) True, cw')"
    and "unique_submits (submits (db w))" and "fetchAndSave ce u plat True w = (Inr (count, skipped, None), w')"
  shows "count = int (length subs) \<and> skipped = 0 \<and> stored u CodeForces (submits (db w')) = length subs \<and>
    (\<forall>x \<in> set subs. submit_view (submits (db w')) (CodeForces, fmt_d (cf_ID x)) = Some (submit_content (clean_log u CodeForces (cf_row u x))))"
  using assms(8)
proof (cases rule: fetchAndSave_cases)
  case (ok logs tmp sk)
  have "cf_FetchSubmitLog e u (p_Username plat) True cw = Some (Inr (codeforcesRowsToSubmitLogs u subs), cw')"
    using cf_pages_complete [OF assms(1), of 0 u "[]" cw] assms(2,6) by (auto simp: cf_FetchSubmitLog_def)
  then have logs: "logs = codeforcesRowsToSubmitLogs u subs" using ok(2) assms(3,6) by simp
  note v = cf_rows_valid [OF assms(4,5), of u]
  note n = ok(3) [unfolded logs assms(3)]
  have "last_by_id u CodeForces logs (fmt_d (cf_ID x)) = Some (clean_log u CodeForces (cf_row u x))" if "x \<in> set subs" for x
  proof -
    have "cf_row u x \<in> set logs" using that by (simp add: logs codeforcesRowsToSubmitLogs_def)
    with last_by_id_distinct [OF v(2), of "cf_row u x" u CodeForces] v(1) show ?thesis unfolding logs by (simp add: cf_row_def)
  qed
  with view_replace [OF assms(7) n, of True] stored_replace(1) [OF assms(7) n] normalize_all_valid [OF n v] ok(1,4)
  show ?thesis by (simp add: assms(3) logs codeforcesRowsToSubmitLogs_def map_add_def)
qed simp

definition ce_cf :: core_env where
  "ce_cf = ce_ex\<lparr>FetchSubmitLog := (\<lambda>_ _ _ _ _. Inr [cf_row 2 cfsub_ex])\<rparr>"

definition plat_cf :: platform_row where
  "plat_cf = plat_ex\<lparr>p_Platform := CodeForces\<rparr>"

theorem codeforces_refresh_complete_witness:
  "\<exists>w'. fetchAndSave ce_cf 2 plat_cf True cw_ex = (Inr (1, 0, None) :: gerr + _, w') \<and> stored 2 CodeForces (submits (db w')) = 1"
proof -
  have f: "fst (fetchAndSave ce_cf 2 plat_cf True cw_ex) = (Inr (1, 0, None) :: gerr + _)" by code_simp
  obtain w' where w': "fetchAndSave ce_cf 2 plat_cf True cw_ex = (Inr (1, 0, None) :: gerr + _, w')"
    using f by (metis prod.collapse)
  have p: "p_Username plat_cf = ''bob''" "p_Platform plat_cf = CodeForces" by (simp_all add: plat_cf_def plat_ex_def)
  obtain cw' where c: "cf_FetchSubmitLog we_ex 2 ''bob'' True ww_ex = Some (Inr (codeforcesRowsToSubmitLogs 2 [cfsub_ex]), cw')"
    using cf_pages_complete [OF cf_serves_ex, of 0 2 "''bob''" "[]" ww_ex] by (auto simp: cf_FetchSubmitLog_def)
  have "stored 2 CodeForces (submits (db w')) = length [cfsub_ex]"
  proof (rule codeforces_refresh_complete [where e = we_ex and cw = ww_ex and ce = ce_cf, THEN conjunct2, THEN conjunct2, THEN conjunct1])
    show "cf_serves we_ex (TrimSpace (p_Username plat_cf)) [cfsub_ex]" by (rule cf_serves_ex)
    show "cf_FetchSubmitLog we_ex 2 (p_Username plat_cf) True ww_ex =
        Some (FetchSubmitLog ce_cf (ticks cw_ex) CodeForces 2 (p_Username plat_cf) True, cw')"
      by (simp add: p c ce_cf_def codeforcesRowsToSubmitLogs_def)
    show "unique_submits (submits (db cw_ex))" using core_inv_ex' by (simp add: core_inv_def)
  qed (use w' in \<open>simp_all add: p cfsub_ex_def\<close>)
  with w' show ?thesis by simp
qed

text \<open>The contests crawled from Codeforces are filed under a platform name that no binding has: a full refresh of a Codeforces account never removes or replaces a stored one, so a standing that changed on the platform stays as it was first stored.\<close>

theorem codeforces_contests_stale:
  assumes "cf_FetchContestLog e u username needAll cw = (Inr (Some logs), cw')" and "p_Platform plat = CodeForces"
    and "fetchAndSaveContest ce u plat True w = (res, w')" and "r \<in> set (rows (contests (db w)))" and "k_Platform r = ''Codeforces''"
  shows "(\<forall>k \<in> set logs. k_Platform k = ''Codeforces'' \<and> k_Platform k \<noteq> p_Platform plat) \<and> r \<in> set (rows (contests (db w')))"
proof
  have "k_Platform k = ''Codeforces''" if "k \<in> set logs" for k
    using assms(1) that
    by (auto simp: cf_FetchContestLog_def Let_def bindE_def returnE_def failE_def cf_contest_def empty_contest_def
        dest!: in_set_takeD split: if_splits prod.splits sum.splits option.splits)
  then show "\<forall>k \<in> set logs. k_Platform k = ''Codeforces'' \<and> k_Platform k \<noteq> p_Platform plat"
    using assms(2) by (simp add: CodeForces_def)
  have "other_contest u (p_Platform plat) r" using assms(2,5) by (simp add: other_contest_def CodeForces_def)
  from keepsD [OF contest_kept [OF this] assms(4,3)] show "r \<in> set (rows (contests (db w')))" .
qed

definition krow_ex :: ContestLog where
  "krow_ex = (empty_contest ''Codeforces'' 2)\<lparr>ID := 1, k_ContestId := ''2217'', k_Rank := 9\<rparr>"

definition cw_cf :: "cdb world" where
  "cw_cf = cw_ex\<lparr>db := cd_ex\<lparr>contests := \<lparr>rows = [krow_ex], seq = 2\<rparr>\<rparr>\<rparr>"

lemma contest_ex: "\<exists>cw'. cf_FetchContestLog we_ex 2 ''bob'' True ww_ex = (Inr (Some [cf_contest we_ex 2 cx_ex]), cw')"
proof -
  have n: "\<not> Contains ''x'' ''Just a moment...''" by simp
  have w: "\<not> refused_url we_ex u" "respond we_ex k rq = Inr (200, Inr ''x'')" "cf_contest_rows we_ex b = Some [cx_ex]" for u k rq b
    by (simp_all add: we_ex_def)
  show ?thesis unfolding cf_FetchContestLog_def Let_def if_not_P [OF w(1)] bindE_def http_Do_def w(2)
    by (simp add: n w(3) returnE_def del: Contains.simps)
qed

lemma rank_ex: "k_Rank (cf_contest we_ex 2 cx_ex) = 5"
proof -
  have "k_Rank (cf_contest we_ex 2 cx_ex) = Atoi (TrimSpace ''5'')" by (simp add: cf_contest_def Let_def cx_ex_def)
  also have "\<dots> = 5" by code_simp
  finally show ?thesis .
qed

text \<open>The crawler reports rank 5 for a contest whose stored rank is 9, and the full refresh keeps the 9.\<close>

theorem codeforces_contests_stale_witness:
  "\<exists>logs cw'. cf_FetchContestLog we_ex 2 ''bob'' True ww_ex = (Inr (Some logs), cw') \<and> map k_Rank logs = [5] \<and>
    krow_ex \<in> set (rows (contests (db (snd (fetchAndSaveContest (ce_ex\<lparr>FetchContestLog := \<lambda>_ _ _ _ _. Inr logs\<rparr>) 2 plat_cf True cw_cf)))))"
proof -
  obtain cw' where c: "cf_FetchContestLog we_ex 2 ''bob'' True ww_ex = (Inr (Some [cf_contest we_ex 2 cx_ex]), cw')" using contest_ex by blast
  let ?e = "ce_ex\<lparr>FetchContestLog := \<lambda>_ _ _ _ _. Inr [cf_contest we_ex 2 cx_ex]\<rparr>"
  have "p_Platform plat_cf = CodeForces" "krow_ex \<in> set (rows (contests (db cw_cf)))" "k_Platform krow_ex = ''Codeforces''"
    by (simp_all add: plat_cf_def cw_cf_def krow_ex_def empty_contest_def)
  from codeforces_contests_stale [OF c this(1) prod.collapse [symmetric] this(2,3), where ce = ?e]
  have "krow_ex \<in> set (rows (contests (db (snd (fetchAndSaveContest ?e 2 plat_cf True cw_cf)))))" by (rule conjunct2)
  moreover have "map k_Rank [cf_contest we_ex 2 cx_ex] = [5]" by (simp add: rank_ex)
  ultimately show ?thesis using c by (intro exI [of _ "[cf_contest we_ex 2 cx_ex]"] exI [of _ cw']) simp
qed

section \<open>AtCoder\<close>

text \<open>A crawl of AtCoder always ends, whatever the platform answers, for submissions and for contests: a round either stops or moves to a later second, and the seconds are 64-bit numbers.\<close>

theorem atcoder_crawl_ends:
  assumes "epochs_i64 e"
  shows "(\<exists>rw. atc_FetchSubmitLog e u account needAll w = Some rw) \<and> (\<exists>rw. atc_FetchContestLog e u account needAll w = Some rw)"
proof -
  have "\<exists>rw. fetchAtCoderRows e account needAll w = Some rw"
    using atc_pages_end [OF assms] by (simp add: fetchAtCoderRows_def Let_def)
  then show ?thesis by (auto simp: atc_FetchSubmitLog_def atc_FetchContestLog_def split: prod.splits sum.splits)
qed

theorem atcoder_crawl_ends_witness:
  "(\<exists>rw. atc_FetchSubmitLog we_ex 2 ''bob'' True ww_ex = Some rw) \<and> (\<exists>rw. atc_FetchContestLog we_ex 2 ''bob'' True ww_ex = Some rw)"
  by (rule atcoder_crawl_ends) (simp add: epochs_i64_def we_ex_def atcrow_ex_def)

text \<open>C26. When AtCoder answers a request with the first five hundred submissions from the second it names, in the order of time, and no second of the account has five hundred of them, a full crawl returns every submission of the account exactly once and in order, although consecutive pages overlap.\<close>

theorem atcoder_crawl_complete:
  assumes "atc_serves e (TrimSpace account) all" and "atc_account all" and "TrimSpace account \<noteq> ''''"
  shows "\<exists>w'. atc_FetchSubmitLog e u account True w = Some (Inr (atCoderRowsToSubmitLogs u all), w')"
proof -
  have "atc_at all 0 {} [] all" using assms(2) by (simp add: atc_at_def atc_account_def)
  from atc_pages_complete [OF assms(1,2) this, of w] assms(3) show ?thesis
    by (auto simp: atc_FetchSubmitLog_def fetchAtCoderRows_def)
qed

theorem atcoder_crawl_complete_witness:
  "\<exists>w'. atc_FetchSubmitLog we_ex 2 ''bob'' True ww_ex = Some (Inr (atCoderRowsToSubmitLogs 2 [atcrow_ex]), w')"
  by (rule atcoder_crawl_complete [OF atc_serves_ex atc_account_ex]) simp

text \<open>The contests that the AtCoder crawl reports are one row per contest, each of the user and the platform asked for, with at least one attempted problem and never more accepted problems than attempted ones.\<close>

theorem atcoder_contests_ok:
  assumes "atc_FetchContestLog e u account needAll w = Some (Inr logs, w')"
  shows "distinct (map k_ContestId logs) \<and> (\<forall>k \<in> set logs. k_Platform k = AtCoder \<and> k_UserID k = u \<and> 0 < k_TotalCount k \<and>
    0 \<le> k_AcCount k \<and> k_AcCount k \<le> k_TotalCount k)"
  using atc_contests_ok [OF assms] by (simp add: contest_ok_def)

theorem atcoder_contests_ok_witness:
  "\<exists>logs w'. atc_FetchContestLog we_ex 2 ''bob'' True ww_ex = Some (Inr logs, w') \<and> distinct (map k_ContestId logs)"
proof -
  have "atc_at [atcrow_ex] 0 {} [] [atcrow_ex]" by (simp add: atc_at_def atcrow_ex_def)
  from atc_pages_complete [OF atc_serves_ex atc_account_ex this, of "''bob''" ww_ex]
  have "\<exists>w1. fetchAtCoderRows we_ex ''bob'' True ww_ex = Some (Inr [atcrow_ex], w1)" by (simp add: fetchAtCoderRows_def)
  then obtain logs w' where "atc_FetchContestLog we_ex 2 ''bob'' True ww_ex = Some (Inr logs, w')" using atc_contests_total by blast
  with atcoder_contests_ok show ?thesis by blast
qed

end
