(* ===== verification/GatewayHttp.thy ===== *)
theory GatewayHttp
  imports Prelude
begin

text \<open>
  The data the gateway works on: HTTP headers, requests and responses as package \<^verbatim>\<open>net/http\<close> has
  them, the messages of its configuration (\<^verbatim>\<open>app/gateway/api/gateway\<close>), and request paths
  (\<^verbatim>\<open>router/mux/mux.go\<close>, \<^verbatim>\<open>middleware/rewrite/rewrite.go\<close>) with the facts that a routed path is
  rooted and free of dot segments.
  \<^item> A Go map of headers is a partial map, and a header that may be the nil map an option of it:
    reading \<^verbatim>\<open>nil\<close> gives nothing, writing to it panics.
  \<^item> A body is what reading it yields. Closing a body that comes from the network makes further
    reads fail; the bodies the gateway builds itself (\<^verbatim>\<open>io.NopCloser\<close>) are not affected.
\<close>

section \<open>Headers\<close>

type_synonym header = "string \<rightharpoonup> string list"

text \<open>\<^verbatim>\<open>http.CanonicalHeaderKey\<close>: keys with a byte that is no token character are kept.\<close>

definition token_byte :: "char \<Rightarrow> bool" where
  "token_byte c \<longleftrightarrow> in_range 48 57 c \<or> in_range 65 90 c \<or> in_range 97 122 c \<or>
     c \<in> set [CHR ''!'', CHR ''#'', CHR ''$'', CHR ''%'', CHR ''&'', CHR 0x27, CHR ''*'', CHR ''+'',
       CHR ''-'', CHR ''.'', CHR ''^'', CHR ''_'', CHR 0x60, CHR ''|'', CHR ''~'']"

fun canon_loop :: "bool \<Rightarrow> string \<Rightarrow> string" where
  "canon_loop upper [] = []"
| "canon_loop upper (c # s) = (if upper then ToUpper [c] else ToLower [c]) @ canon_loop (c = CHR ''-'') s"

definition CanonicalHeaderKey :: "string \<Rightarrow> string" where
  "CanonicalHeaderKey s = (if list_all token_byte s then canon_loop True s else s)"

definition header_Get :: "header \<Rightarrow> string \<Rightarrow> string" where
  "header_Get h k = (case h (CanonicalHeaderKey k) of Some (v # _) \<Rightarrow> v | _ \<Rightarrow> '''')"

definition header_Set :: "header \<Rightarrow> string \<Rightarrow> string \<Rightarrow> header" where
  "header_Set h k v = h(CanonicalHeaderKey k \<mapsto> [v])"

definition header_Add :: "header \<Rightarrow> string \<Rightarrow> string \<Rightarrow> header" where
  "header_Add h k v = h(CanonicalHeaderKey k \<mapsto>
     (case h (CanonicalHeaderKey k) of Some vs \<Rightarrow> vs | None \<Rightarrow> []) @ [v])"

definition header_Del :: "header \<Rightarrow> string \<Rightarrow> header" where
  "header_Del h k = h(CanonicalHeaderKey k := None)"

text \<open>\<^verbatim>\<open>Get\<close> on a header that may be nil.\<close>

definition resp_Get :: "header option \<Rightarrow> string \<Rightarrow> string" where
  "resp_Get h k = (case h of None \<Rightarrow> '''' | Some h \<Rightarrow> header_Get h k)"

section \<open>Requests and responses\<close>

text \<open>
  An error, as far as the gateway looks at it: whether it is or wraps \<^verbatim>\<open>context.Canceled\<close> or
  \<^verbatim>\<open>context.DeadlineExceeded\<close>, and its text.
\<close>

record gw_err =
  ge_Canceled :: bool
  ge_Deadline :: bool
  ge_Text :: string

definition plain_err :: "string \<Rightarrow> gw_err" where
  "plain_err t = \<lparr>ge_Canceled = False, ge_Deadline = False, ge_Text = t\<rparr>"

text \<open>
  A body from the network: its data, the error that ends it instead of the end of file, and whether
  it has been closed.
\<close>

datatype body =
    NilBody
  | MemBody string
  | NetBody string "gw_err option" bool

fun close_body :: "body \<Rightarrow> body" where
  "close_body (NetBody data er _) = NetBody data er True"
| "close_body b = b"

record request =
  rq_Method :: string
  rq_Path :: string
  rq_Host :: string
  rq_URLHost :: string
  rq_Scheme :: string
  rq_Header :: header
  rq_RemoteAddr :: string
  rq_ProtoMajor :: int
  rq_Body :: string

record response =
  rs_StatusCode :: int
  rs_Header :: "header option"
  rs_Trailer :: header
  rs_Body :: body

text \<open>The outcomes of a round trip: a response, an error, or a panic.\<close>

datatype 'a trip = Reply 'a | Fails gw_err | Panics

type_synonym 's tripper = "request \<Rightarrow> 's \<Rightarrow> response trip \<times> 's"

type_synonym 's mw = "'s tripper \<Rightarrow> 's tripper"

section \<open>Configuration\<close>

datatype Protocol = Protocol_UNSPECIFIED | Protocol_HTTP | Protocol_GRPC

datatype Condition =
    ByStatusCode string
  | ByHeader (ch_Name: string) (ch_Value: string)
  | NoCondition

record mw_config =
  mc_Name :: string
  mc_Options :: "string option"
  mc_Required :: bool

record Backend =
  be_Target :: string
  be_Weight :: "int option"
  be_Tls :: bool
  be_TlsConfigName :: string
  be_Metadata :: "string \<rightharpoonup> string"

record Retry =
  rt_Attempts :: nat
  rt_PerTryTimeout :: "int option"
  rt_Conditions :: "Condition list"

record Endpoint =
  ep_Path :: string
  ep_Method :: string
  ep_Protocol :: Protocol
  ep_Timeout :: "int option"
  ep_Middlewares :: "mw_config list"
  ep_Backends :: "Backend list"
  ep_Retry :: "Retry option"
  ep_Host :: string
  ep_Stream :: bool

record Gateway =
  gw_Name :: string
  gw_Version :: string
  gw_Endpoints :: "Endpoint list"
  gw_Middlewares :: "mw_config list"

section \<open>Paths\<close>

text \<open>
  \<^verbatim>\<open>path.Clean\<close> on a rooted path: empty and \<^verbatim>\<open>.\<close> segments are dropped, and \<^verbatim>\<open>..\<close> removes the segment
  before it, if any. Both callers pass rooted paths only.
\<close>

definition clean_seg :: "string list \<Rightarrow> string \<Rightarrow> string list" where
  "clean_seg out seg =
     (if seg = '''' \<or> seg = ''.'' then out
      else if seg = ''..'' then butlast out
      else out @ [seg])"

definition clean_segs :: "string list \<Rightarrow> string list" where
  "clean_segs segs = foldl clean_seg [] segs"

definition path_Clean :: "string \<Rightarrow> string" where
  "path_Clean p = CHR ''/'' # Join (clean_segs (Split CHR ''/'' p)) ''/''"

definition cleanPath :: "string \<Rightarrow> string" where
  "cleanPath p0 =
     (if p0 = '''' then ''/''
      else let p = (if hd p0 \<noteq> CHR ''/'' then CHR ''/'' # p0 else p0);
               np = path_Clean p
           in if last p = CHR ''/'' \<and> np \<noteq> ''/'' then np @ ''/'' else np)"

text \<open>\<^verbatim>\<open>path.Join("/", out)\<close> for a non-empty \<open>out\<close>.\<close>

definition path_Join_root :: "string \<Rightarrow> string" where
  "path_Join_root out = path_Clean (CHR ''/'' # CHR ''/'' # out)"

definition stripPrefix :: "string \<Rightarrow> string \<Rightarrow> string" where
  "stripPrefix origin prefix =
     (let out = TrimPrefix origin prefix
      in if out = '''' then ''/''
         else if hd out \<noteq> CHR ''/'' then path_Join_root out
         else out)"

section \<open>Facts about headers\<close>

lemma header_Get_Set [simp]: "header_Get (header_Set h k v) k = v"
  by (simp add: header_Get_def header_Set_def)

lemma header_Get_Del [simp]: "header_Get (header_Del h k) k = ''''"
  by (simp add: header_Get_def header_Del_def)

lemma header_Get_Set_other:
  "CanonicalHeaderKey k \<noteq> CanonicalHeaderKey k' \<Longrightarrow> header_Get (header_Set h k v) k' = header_Get h k'"
  by (simp add: header_Get_def header_Set_def)

section \<open>Facts about paths\<close>

text \<open>Splitting at a separator and joining with it are inverse to each other.\<close>

lemma Split_not_Nil [simp]: "Split sep s \<noteq> []"
  by (induction s) (auto split: list.splits)

lemma Split_no_sep: "seg \<in> set (Split sep s) \<Longrightarrow> sep \<notin> set seg"
  by (induction s arbitrary: seg) (auto split: list.splits if_splits)

lemma Split_plain: "sep \<notin> set s \<Longrightarrow> Split sep s = [s]"
  by (induction s) (auto split: list.splits)

lemma Split_append_sep: "Split sep (a @ sep # b) = Split sep a @ Split sep b"
  by (induction a) (auto split: list.splits)

lemma Join_Cons: "Join (x # xs) sep = x @ (if xs = [] then '''' else sep @ Join xs sep)"
  by (simp add: Join_def split: list.splits)

lemma Split_Join:
  "xs \<noteq> [] \<Longrightarrow> \<forall>x\<in>set xs. sep \<notin> set x \<Longrightarrow> Split sep (Join xs [sep]) = xs"
  by (induction xs) (auto simp: Join_Cons Split_plain Split_append_sep)

text \<open>A segment that \<^verbatim>\<open>path.Clean\<close> keeps.\<close>

definition plain_seg :: "string \<Rightarrow> bool" where
  "plain_seg seg \<longleftrightarrow> seg \<noteq> '''' \<and> seg \<noteq> ''.'' \<and> seg \<noteq> ''..'' \<and> CHR ''/'' \<notin> set seg"

lemma list_all_butlast: "list_all P xs \<Longrightarrow> list_all P (butlast xs)"
  by (auto simp: list_all_iff dest: in_set_butlastD)

lemma foldl_clean_plain:
  "list_all plain_seg out \<Longrightarrow> \<forall>s\<in>set segs. CHR ''/'' \<notin> set s \<Longrightarrow> list_all plain_seg (foldl clean_seg out segs)"
  by (induction segs arbitrary: out) (auto simp: clean_seg_def plain_seg_def list_all_butlast)

lemma clean_segs_plain [simp]: "list_all plain_seg (clean_segs (Split (CHR ''/'') p))"
  unfolding clean_segs_def by (rule foldl_clean_plain) (auto dest: Split_no_sep)

lemma foldl_clean_id: "list_all plain_seg segs \<Longrightarrow> foldl clean_seg out segs = out @ segs"
  by (induction segs arbitrary: out) (auto simp: clean_seg_def plain_seg_def)

lemma clean_segs_append: "clean_segs (a @ b) = foldl clean_seg (clean_segs a) b"
  by (simp add: clean_segs_def)

lemma clean_segs_empty_ends [simp]:
  "clean_segs ('''' # segs) = clean_segs segs"
  "clean_segs (segs @ ['''']) = clean_segs segs"
  by (simp_all add: clean_segs_def clean_seg_def)

text \<open>A clean path is the root, or its segments with a slash before each and maybe one after.\<close>

definition slashed :: "string list \<Rightarrow> bool \<Rightarrow> string" where
  "slashed segs trailing = CHR ''/'' # Join segs ''/'' @ (if trailing then ''/'' else '''')"

definition clean_path :: "string \<Rightarrow> bool" where
  "clean_path p \<longleftrightarrow> p = ''/'' \<or> (\<exists>segs t. segs \<noteq> [] \<and> list_all plain_seg segs \<and> p = slashed segs t)"

lemma Split_slashed:
  assumes "segs \<noteq> []" "list_all plain_seg segs"
  shows "Split (CHR ''/'') (slashed segs t) = '''' # segs @ (if t then [''''] else [])"
proof -
  have "Split (CHR ''/'') (Join segs ''/'') = segs"
    using assms by (intro Split_Join) (auto simp: list_all_iff plain_seg_def)
  then show ?thesis
    by (simp add: slashed_def Split_append_sep [of _ "Join segs ''/''" "[]", simplified])
qed

lemma Join_nonempty: "segs \<noteq> [] \<Longrightarrow> list_all plain_seg segs \<Longrightarrow> Join segs ''/'' \<noteq> ''''"
  by (cases segs) (auto simp: Join_Cons plain_seg_def)

lemma path_Clean_cases:
  "path_Clean p = ''/'' \<or> (\<exists>segs. segs \<noteq> [] \<and> list_all plain_seg segs \<and> path_Clean p = slashed segs False)"
proof (cases "clean_segs (Split (CHR ''/'') p) = []")
  case True
  then show ?thesis by (simp add: path_Clean_def Join_def)
next
  case False
  then show ?thesis
    using clean_segs_plain [of p] by (auto simp: path_Clean_def slashed_def)
qed

lemma path_Clean_slashed:
  assumes "segs \<noteq> []" "list_all plain_seg segs"
  shows "path_Clean (slashed segs t) = slashed segs False"
proof -
  have "clean_segs segs = segs" using assms foldl_clean_id [of segs "[]"] by (simp add: clean_segs_def)
  then have "clean_segs (Split (CHR ''/'') (slashed segs t)) = segs"
    using assms by (simp add: Split_slashed)
  then show ?thesis by (simp add: path_Clean_def slashed_def)
qed

lemma clean_path_root [simp]: "clean_path ''/''"
  by (simp add: clean_path_def)

lemma clean_path_Clean: "clean_path (path_Clean q)"
  using path_Clean_cases [of q] unfolding clean_path_def by blast

lemma clean_path_Clean_slash: "path_Clean q \<noteq> ''/'' \<Longrightarrow> clean_path (path_Clean q @ ''/'')"
  using path_Clean_cases [of q] unfolding clean_path_def slashed_def
  by (auto intro!: exI [of _ True])

lemma cleanPath_clean: "clean_path (cleanPath p)"
  unfolding cleanPath_def Let_def
  using clean_path_Clean clean_path_Clean_slash clean_path_root by presburger

lemma last_slashed:
  assumes "segs \<noteq> []" "list_all plain_seg segs"
  shows "last (slashed segs t) = CHR ''/'' \<longleftrightarrow> t"
proof -
  have "segs \<noteq> [] \<Longrightarrow> list_all plain_seg segs \<Longrightarrow> last (Join segs ''/'') \<noteq> CHR ''/''"
    by (induction segs) (auto simp: Join_Cons plain_seg_def Join_nonempty dest: last_in_set)
  with assms show ?thesis by (auto simp: slashed_def Join_nonempty)
qed

lemma cleanPath_slashed:
  assumes "segs \<noteq> []" "list_all plain_seg segs"
  shows "cleanPath (slashed segs t) = slashed segs t"
proof -
  have s: "slashed segs t = CHR ''/'' # Join segs ''/'' @ (if t then ''/'' else '''')"
    by (simp add: slashed_def)
  have "slashed segs False \<noteq> ''/''" using Join_nonempty [OF assms] by (simp add: slashed_def)
  then show ?thesis
    using last_slashed [OF assms, of t] path_Clean_slashed [OF assms, of t]
    by (cases t) (simp_all add: cleanPath_def s, simp_all add: slashed_def)
qed

lemma cleanPath_idem: "cleanPath (cleanPath p) = cleanPath p"
proof -
  have "cleanPath ''/'' = ''/''" by code_simp
  with cleanPath_clean [of p] cleanPath_slashed show ?thesis unfolding clean_path_def by metis
qed

text \<open>What the upstream may rely on: the path is rooted and has no dot segment.\<close>

definition dot_free :: "string \<Rightarrow> bool" where
  "dot_free p \<longleftrightarrow> p \<noteq> '''' \<and> hd p = CHR ''/'' \<and>
     list_all (\<lambda>seg. seg \<noteq> ''.'' \<and> seg \<noteq> ''..'') (Split (CHR ''/'') p)"

lemma slashed_dot_free:
  assumes "segs \<noteq> []" "list_all plain_seg segs"
  shows "dot_free (slashed segs t)"
proof -
  have "list_all (\<lambda>seg. seg \<noteq> ''.'' \<and> seg \<noteq> ''..'') segs"
    using assms(2) by (auto simp: list_all_iff plain_seg_def)
  then show ?thesis
    unfolding dot_free_def Split_slashed [OF assms] by (simp add: slashed_def)
qed

lemma clean_path_dot_free: "clean_path p \<Longrightarrow> dot_free p"
  unfolding clean_path_def using slashed_dot_free by (auto simp: dot_free_def)

lemma dot_free_suffix: "dot_free (a @ CHR ''/'' # b) \<Longrightarrow> dot_free (CHR ''/'' # b)"
  by (simp add: dot_free_def Split_append_sep)

lemma HasPrefix_append: "HasPrefix s p \<Longrightarrow> \<exists>t. s = p @ t"
  by (induction s p rule: HasPrefix.induct) auto

lemma TrimPrefix_suffix: "\<exists>a. s = a @ TrimPrefix s p"
  using HasPrefix_append [of s p] by (auto simp: TrimPrefix_def)

lemma stripPrefix_dot_free:
  assumes "dot_free p"
  shows "dot_free (stripPrefix p prefix)"
proof -
  obtain a where a: "p = a @ TrimPrefix p prefix" using TrimPrefix_suffix by blast
  consider "TrimPrefix p prefix = ''''" | b where "TrimPrefix p prefix = CHR ''/'' # b"
    | c b where "TrimPrefix p prefix = c # b" "c \<noteq> CHR ''/''"
    by (cases "TrimPrefix p prefix") auto
  then show ?thesis
  proof cases
    case 2
    with a assms show ?thesis
      using dot_free_suffix [of a b] by (simp add: stripPrefix_def)
  qed (auto simp: stripPrefix_def path_Join_root_def intro: clean_path_dot_free clean_path_Clean)
qed

end
