(* ===== verification/GatewayRetry.thy ===== *)
theory GatewayRetry
  imports GatewayHttp
begin

text \<open>
  Response conditions (\<^verbatim>\<open>app/gateway/proxy/condition/condition.go\<close>) and the retry strategy of an
  endpoint (\<^verbatim>\<open>proxy/retry.go\<close>). JSON decoding (\<^verbatim>\<open>encoding/json\<close>) of a list of strings is a
  parameter; the texts of its and \<^verbatim>\<open>strconv\<close>'s errors are not looked at by the program.
\<close>

section \<open>Conditions\<close>

text \<open>The two implementations of interface \<^verbatim>\<open>Condition\<close>, after \<^verbatim>\<open>Prepare\<close>.\<close>

datatype prepared =
    byStatusCode (parsedCodes: "int list")
  | byHeader string (parsed_values: "string list")

fun parse_codes :: "string list \<Rightarrow> gw_err + int list" where
  "parse_codes [] = Inr []"
| "parse_codes (p # ps) = (case ParseInt 16 p of
     None \<Rightarrow> Inl (plain_err (''strconv.ParseInt: parsing '' @ p))
   | Some code \<Rightarrow> (case parse_codes ps of Inl er \<Rightarrow> Inl er | Inr codes \<Rightarrow> Inr (code # codes)))"

definition status_Prepare :: "string \<Rightarrow> gw_err + prepared" where
  "status_Prepare raw =
     (let parts = Split (CHR ''-'') raw
      in if length parts = 0 \<or> length parts > 2 then Inl (plain_err (''invalid condition '' @ raw))
         else map_sum id byStatusCode (parse_codes parts))"

fun status_Judge :: "int list \<Rightarrow> response \<Rightarrow> bool" where
  "status_Judge [] resp = False"
| "status_Judge [c] resp = (rs_StatusCode resp = c)"
| "status_Judge (a # b # _) resp = (a \<le> rs_StatusCode resp \<and> rs_StatusCode resp \<le> b)"

definition header_Judge :: "string \<Rightarrow> string list \<Rightarrow> response \<Rightarrow> bool" where
  "header_Judge name values resp =
     (let v = resp_Get (rs_Header resp) name in if v = '''' then False else v \<in> set values)"

definition header_Prepare :: "(string \<Rightarrow> gw_err + string list) \<Rightarrow> string \<Rightarrow> string \<Rightarrow> gw_err + prepared" where
  "header_Prepare json_strings name value =
     (if HasPrefix value ''['' then map_sum id (byHeader name) (json_strings value)
      else Inr (byHeader name [value]))"

fun Judge :: "prepared \<Rightarrow> response \<Rightarrow> bool" where
  "Judge (byStatusCode codes) resp = status_Judge codes resp"
| "Judge (byHeader name values) resp = header_Judge name values resp"

fun Prepare :: "(string \<Rightarrow> gw_err + string list) \<Rightarrow> Condition \<Rightarrow> gw_err + prepared" where
  "Prepare js (ByHeader name value) = header_Prepare js name value"
| "Prepare js (ByStatusCode raw) = status_Prepare raw"
| "Prepare js NoCondition = Inl (plain_err ''unknown condition type: <nil>'')"

fun ParseConditon :: "(string \<Rightarrow> gw_err + string list) \<Rightarrow> Condition list \<Rightarrow> gw_err + prepared list" where
  "ParseConditon js [] = Inr []"
| "ParseConditon js (c # cs) = (case Prepare js c of
     Inl er \<Rightarrow> Inl er
   | Inr p \<Rightarrow> (case ParseConditon js cs of Inl er \<Rightarrow> Inl er | Inr ps \<Rightarrow> Inr (p # ps)))"

fun judge_any :: "prepared list \<Rightarrow> response \<Rightarrow> bool" where
  "judge_any [] resp = False"
| "judge_any (c # cs) resp = (if Judge c resp then True else judge_any cs resp)"

definition JudgeConditons :: "prepared list \<Rightarrow> response \<Rightarrow> bool \<Rightarrow> bool" where
  "JudgeConditons conditions resp onEmpty = (if conditions = [] then onEmpty else judge_any conditions resp)"

section \<open>Retry strategy\<close>

record retryStrategy =
  st_attempts :: int
  st_timeout :: int
  st_perTryTimeout :: int
  st_conditions :: "prepared list"

definition time_Second :: int where
  "time_Second = 1000000000"

definition calcTimeout :: "Endpoint \<Rightarrow> int" where
  "calcTimeout endpoint =
     (let timeout = (case ep_Timeout endpoint of None \<Rightarrow> 0 | Some t \<Rightarrow> t)
      in if timeout \<le> 0 then time_Second else timeout)"

definition calcAttempts :: "Endpoint \<Rightarrow> int" where
  "calcAttempts endpoint = (case ep_Retry endpoint of
     None \<Rightarrow> 1
   | Some r \<Rightarrow> if rt_Attempts r = 0 then 1 else int (rt_Attempts r))"

definition calcPerTryTimeout :: "Endpoint \<Rightarrow> int" where
  "calcPerTryTimeout endpoint =
     (let perTryTimeout = (case Option.bind (ep_Retry endpoint) rt_PerTryTimeout of
            Some t \<Rightarrow> t
          | None \<Rightarrow> (case ep_Timeout endpoint of Some t \<Rightarrow> t | None \<Rightarrow> 0))
      in if perTryTimeout \<le> 0 then time_Second else perTryTimeout)"

definition parseRetryConditon :: "(string \<Rightarrow> gw_err + string list) \<Rightarrow> Endpoint \<Rightarrow> gw_err + prepared list" where
  "parseRetryConditon js endpoint = (case ep_Retry endpoint of
     None \<Rightarrow> Inr []
   | Some r \<Rightarrow> ParseConditon js (rt_Conditions r))"

definition prepareRetryStrategy :: "(string \<Rightarrow> gw_err + string list) \<Rightarrow> Endpoint \<Rightarrow> gw_err + retryStrategy" where
  "prepareRetryStrategy js e =
     (if ep_Stream e \<and> ep_Retry e \<noteq> None then Inl (plain_err ''cannot configure retry strategy for stream endpoints'')
      else case parseRetryConditon js e of
        Inl er \<Rightarrow> Inl er
      | Inr conditions \<Rightarrow> Inr \<lparr>st_attempts = calcAttempts e, st_timeout = calcTimeout e,
          st_perTryTimeout = calcPerTryTimeout e, st_conditions = conditions\<rparr>)"

definition judgeRetryRequired :: "prepared list \<Rightarrow> response \<Rightarrow> bool" where
  "judgeRetryRequired conditions resp = JudgeConditons conditions resp False"

section \<open>Facts\<close>

lemma judge_any_iff: "judge_any cs resp \<longleftrightarrow> (\<exists>c\<in>set cs. Judge c resp)"
  by (induction cs) auto

lemma judgeRetryRequired_iff: "judgeRetryRequired cs resp \<longleftrightarrow> (\<exists>c\<in>set cs. Judge c resp)"
  by (auto simp: judgeRetryRequired_def JudgeConditons_def judge_any_iff)

lemma strategy_bounds:
  assumes "prepareRetryStrategy js e = Inr st"
  shows "1 \<le> st_attempts st \<and> 0 < st_timeout st \<and> 0 < st_perTryTimeout st"
  using assms
  by (auto simp: prepareRetryStrategy_def calcAttempts_def calcTimeout_def calcPerTryTimeout_def
      time_Second_def Let_def split: if_splits sum.splits option.splits)

text \<open>The value of a string of digits, and so of every status code, is not negative and fits 16 bits.\<close>

lemma ParseInt_no_sign:
  assumes "ParseInt 16 p = Some v" "CHR ''-'' \<notin> set p"
  shows "0 \<le> v \<and> v < 32768"
proof -
  from assms(2) have "\<not> HasPrefix p ''-''" by (cases p) auto
  with assms(1) show ?thesis by (auto simp: ParseInt_def Let_def split: if_splits)
qed

lemma parse_codes_bounds:
  "parse_codes ps = Inr codes \<Longrightarrow> \<forall>p\<in>set ps. CHR ''-'' \<notin> set p \<Longrightarrow>
     length codes = length ps \<and> (\<forall>c\<in>set codes. 0 \<le> c \<and> c < 32768)"
  by (induction ps arbitrary: codes)
    (auto split: option.splits sum.splits dest: ParseInt_no_sign)

lemma status_Prepare_shape:
  assumes "status_Prepare raw = Inr c"
  shows "(\<exists>a. c = byStatusCode [a] \<and> 0 \<le> a \<and> a < 32768) \<or>
    (\<exists>a b. c = byStatusCode [a, b] \<and> 0 \<le> a \<and> a < 32768 \<and> 0 \<le> b \<and> b < 32768)"
proof -
  obtain codes where codes: "parse_codes (Split (CHR ''-'') raw) = Inr codes" "c = byStatusCode codes"
    and len: "length (Split (CHR ''-'') raw) \<le> 2"
    using assms by (cases "parse_codes (Split (CHR ''-'') raw)") (auto simp: status_Prepare_def Let_def split: if_splits)
  have b: "length codes = length (Split (CHR ''-'') raw)" "\<forall>c\<in>set codes. 0 \<le> c \<and> c < 32768"
    using parse_codes_bounds [OF codes(1)] Split_no_sep by auto
  with len have "length codes = 1 \<or> length codes = 2"
    by (cases "Split (CHR ''-'') raw") (auto simp: le_Suc_eq)
  then show ?thesis
    using b(2) codes(2) by (auto simp: length_Suc_conv numeral_2_eq_2)
qed

end
