(* ===== verification/GatewayMiddleware.thy ===== *)
theory GatewayMiddleware
  imports GatewayRetry
begin

text \<open>
  The middlewares of the gateway (\<^verbatim>\<open>app/gateway/middleware\<close>): the options of a request, the registry
  with its rule for optional and required middlewares, and the jwt, cors, rewrite and
  circuitbreaker middlewares as functions from one round tripper to the next, composed as
  \<^verbatim>\<open>buildMiddleware\<close> of \<^verbatim>\<open>proxy/proxy.go\<close> composes them.

  A round trip runs in a state: the \<^verbatim>\<open>RequestOptions\<close> of the request and everything outside the
  gateway (network, clocks, breakers, random sources), of which the model knows only the
  parameters of \<open>gw_env\<close>. Those act on the outside part alone.
\<close>

section \<open>Options of a request\<close>

text \<open>The four shared HTTP clients of \<^verbatim>\<open>client/node.go\<close> and those of the TLS store.\<close>

datatype http_client = GlobalClient | GlobalH2CClient | GlobalHTTPSClient | TLSClient string

record node =
  nd_address :: string
  nd_name :: string
  nd_weight :: "int option"
  nd_version :: string
  nd_metadata :: "string \<rightharpoonup> string"
  nd_client :: http_client
  nd_protocol :: Protocol
  nd_tls :: bool

text \<open>\<open>ro_DoneFunc\<close> is the pick whose \<^verbatim>\<open>done\<close> callback is stored, if one is.\<close>

record RequestOptions =
  ro_Backends :: "string list"
  ro_UpstreamStatusCode :: "int list"
  ro_CurrentNode :: "node option"
  ro_DoneFunc :: "nat option"
  ro_LastAttempt :: bool

record 'o gw =
  reqOpts :: RequestOptions
  outside :: 'o

definition NewRequestOptions :: RequestOptions where
  "NewRequestOptions = \<lparr>ro_Backends = [], ro_UpstreamStatusCode = [], ro_CurrentNode = None,
     ro_DoneFunc = None, ro_LastAttempt = False\<rparr>"

text \<open>The node filter \<^verbatim>\<open>NewRequestOptions\<close> installs.\<close>

definition retry_filter :: "RequestOptions \<Rightarrow> node list \<Rightarrow> node list" where
  "retry_filter o' nodes =
     (if ro_Backends o' = [] then nodes
      else let newNodes = filter (\<lambda>n. nd_address n \<notin> set (ro_Backends o')) nodes
           in if newNodes = [] then nodes else newNodes)"

section \<open>Options of the middlewares\<close>

record Jwt =
  jw_Secret :: string
  jw_PublicPaths :: "string list"

record Cors =
  co_AllowCredentials :: bool
  co_AllowOrigins :: "string list"
  co_AllowMethods :: "string list"
  co_AllowHeaders :: "string list"
  co_ExposeHeaders :: "string list"
  co_MaxAge :: "int option"
  co_AllowPrivateNetwork :: bool

text \<open>The maps of a headers policy are lists of pairs in the order \<^verbatim>\<open>range\<close> visits them.\<close>

record HeadersPolicy =
  hp_Set :: "(string \<times> string) list"
  hp_Add :: "(string \<times> string) list"
  hp_Remove :: "string list"

record Rewrite =
  rw_PathRewrite :: "string option"
  rw_RequestHeadersRewrite :: "HeadersPolicy option"
  rw_ResponseHeadersRewrite :: "HeadersPolicy option"
  rw_StripPrefix :: "string option"
  rw_HostRewrite :: "string option"

text \<open>The \<^verbatim>\<open>float64\<close> of \<open>sr_Success\<close> is counted in units of \<open>2\<close> to the power \<open>-1074\<close>, of which every
  finite value is a multiple.\<close>

record SuccessRatio =
  sr_Success :: int
  sr_Request :: int
  sr_Bucket :: int
  sr_Window :: "int option"

datatype trigger = TriggerSuccessRatio SuccessRatio | TriggerRatio int | NoTrigger

datatype action =
    ActionBackupService Endpoint
  | ActionResponseData int "(string \<times> string list) list" string
  | NoAction

record CircuitBreaker =
  cb_Trigger :: trigger
  cb_Action :: action
  cb_AssertCondtions :: "Condition list"

section \<open>Parameters\<close>

text \<open>A circuit breaker of package \<^verbatim>\<open>aegis\<close>.\<close>

datatype allow = Allowed | NotAllowed | AllowErr gw_err

record 'o breaker =
  br_Allow :: "'o \<Rightarrow> allow \<times> 'o"
  br_MarkSuccess :: "'o \<Rightarrow> 'o"
  br_MarkFailed :: "'o \<Rightarrow> 'o"

datatype sre_option = WithBucket int | WithRequest int | WithSuccess int | WithWindow int

datatype build_err = ErrNotFound | BuildErr gw_err

type_synonym 'o factory = "mw_config \<Rightarrow> 'o gw \<Rightarrow> (build_err + 'o gw mw) \<times> 'o gw"

text \<open>A client comes with the effect of closing it.\<close>

type_synonym 'o client_factory = "Endpoint \<Rightarrow> 'o gw \<Rightarrow> (gw_err + 'o gw tripper \<times> ('o gw \<Rightarrow> 'o gw)) \<times> 'o gw"

text \<open>
  \<^verbatim>\<open>anypb.UnmarshalTo\<close> merges the options of a configuration into the defaults it is given;
  \<^verbatim>\<open>jwt.Parse\<close> calls the key function with the algorithm of the token and reports whether the token
  is valid; \<open>url_Hostname\<close> is \<^verbatim>\<open>url.Parse\<close> followed by \<^verbatim>\<open>Hostname\<close>; \<open>new_rand\<close> makes a source for
  \<^verbatim>\<open>Int63n(10000)\<close>; \<open>other_factories\<close> are the registered middlewares that are not modelled.
\<close>

record 'o gw_env =
  json_strings :: "string \<Rightarrow> gw_err + string list"
  unmarshal_Jwt :: "string \<Rightarrow> Jwt \<Rightarrow> gw_err + Jwt"
  unmarshal_Cors :: "string \<Rightarrow> Cors \<Rightarrow> gw_err + Cors"
  unmarshal_Rewrite :: "string \<Rightarrow> Rewrite \<Rightarrow> gw_err + Rewrite"
  unmarshal_Breaker :: "string \<Rightarrow> CircuitBreaker \<Rightarrow> gw_err + CircuitBreaker"
  url_Hostname :: "string \<Rightarrow> string option"
  jwt_Parse :: "'o \<Rightarrow> string \<Rightarrow> (string \<Rightarrow> gw_err + string) \<Rightarrow> gw_err + bool"
  sre_NewBreaker :: "sre_option list \<Rightarrow> 'o \<Rightarrow> 'o breaker \<times> 'o"
  new_rand :: "'o \<Rightarrow> ('o \<Rightarrow> int \<times> 'o) \<times> 'o"
  other_factories :: "string \<rightharpoonup> 'o factory"

definition on_outside :: "('o \<Rightarrow> 'a \<times> 'o) \<Rightarrow> 'o gw \<Rightarrow> 'a \<times> 'o gw" where
  "on_outside f s = (case f (outside s) of (a, o') \<Rightarrow> (a, s\<lparr>outside := o'\<rparr>))"

definition set_outside :: "('o \<Rightarrow> 'o) \<Rightarrow> 'o gw \<Rightarrow> 'o gw" where
  "set_outside f s = s\<lparr>outside := f (outside s)\<rparr>"

section \<open>JWT\<close>

definition defaultPublicPaths :: "string list" where
  "defaultPublicPaths =
     [''/v1/user/auth/login'', ''/v1/user/auth/register'', ''/v1/user/profile/get-by-id'',
      ''/v1/user/profile/get-by-name'', ''/v1/user/profile/list'', ''/v1/user/role/list'',
      ''/v1/user/group/get'', ''/v1/user/group/list'', ''/v1/user/team/detail'',
      ''/v1/core/submit-log/get-by-id'', ''/v1/core/contest/list'', ''/v1/core/contest/ranking'',
      ''/v1/core/statistic/heatmap'', ''/v1/core/statistic/period'',
      ''/v1/core/statistic/platform-period'', ''/v1/core/statistic/team-period'',
      ''/v1/core/statistic/explanation'', ''/v1/core/statistic/platform-detail'',
      ''/v1/core/achievement/global-snapshot'', ''/v1/core/bulletin/get'', ''/v1/core/bulletin/list'']"

fun isPublicPath :: "string \<Rightarrow> string list \<Rightarrow> bool" where
  "isPublicPath path [] = False"
| "isPublicPath path (p0 # ps) =
     (let p = TrimSpace p0
      in if p = '''' then isPublicPath path ps
         else if HasSuffix p ''*'' then
           (if HasPrefix path (TrimSuffix p ''*'') then True else isPublicPath path ps)
         else if path = p then True else isPublicPath path ps)"

definition jwtOptions :: "('o, 'x) gw_env_scheme \<Rightarrow> mw_config \<Rightarrow> gw_err + Jwt" where
  "jwtOptions e c =
     (case (case mc_Options c of
              None \<Rightarrow> Inr \<lparr>jw_Secret = '''', jw_PublicPaths = []\<rparr>
            | Some any \<Rightarrow> unmarshal_Jwt e any \<lparr>jw_Secret = '''', jw_PublicPaths = []\<rparr>) of
        Inl er \<Rightarrow> Inl er
      | Inr options \<Rightarrow>
          (let secret = TrimSpace (jw_Secret options)
           in if secret = '''' then Inl (plain_err ''jwt middleware secret is required'')
              else if length secret < 32 then Inl (plain_err ''jwt middleware secret must be at least 32 characters'')
              else Inr (options\<lparr>jw_Secret := secret\<rparr>)))"

definition buildUnauthorizedResp :: "string \<Rightarrow> response" where
  "buildUnauthorizedResp msg = \<lparr>rs_StatusCode = 401, rs_Header = None, rs_Trailer = Map.empty, rs_Body = MemBody msg\<rparr>"

definition jwt_keyfunc :: "string \<Rightarrow> string \<Rightarrow> gw_err + string" where
  "jwt_keyfunc secret alg =
     (if alg \<noteq> ''HS256'' then Inl (plain_err (''unexpected jwt signing method: '' @ alg)) else Inr secret)"

definition jwt_publicPaths :: "Jwt \<Rightarrow> string list" where
  "jwt_publicPaths options = (if jw_PublicPaths options = [] then defaultPublicPaths else jw_PublicPaths options)"

definition jwt_handler :: "('o, 'x) gw_env_scheme \<Rightarrow> Jwt \<Rightarrow> 'o gw mw" where
  "jwt_handler e options next req s =
     (if isPublicPath (rq_Path req) (jwt_publicPaths options) then next req s
      else let authHeader = header_Get (rq_Header req) ''Authorization'';
               tokenStr = TrimPrefix authHeader ''Bearer ''
           in if tokenStr = authHeader then (Reply (buildUnauthorizedResp ''JWT Token not found''), s)
              else if jwt_Parse e (outside s) tokenStr (jwt_keyfunc (jw_Secret options)) \<noteq> Inr True
              then (Reply (buildUnauthorizedResp ''JWT Token invalid''), s)
              else next req s)"

definition jwt_Middleware :: "('o, 'x) gw_env_scheme \<Rightarrow> mw_config \<Rightarrow> gw_err + 'o gw mw" where
  "jwt_Middleware e c = map_sum id (jwt_handler e) (jwtOptions e c)"

section \<open>CORS\<close>

text \<open>None is the panic of \<^verbatim>\<open>host[0]\<close> on an empty string.\<close>

fun origin_matches :: "string \<Rightarrow> string list \<Rightarrow> bool option" where
  "origin_matches hostname [] = Some False"
| "origin_matches hostname (h # hosts) =
     (let host = ToLower h
      in if host = '''' then None
         else if hd host \<noteq> CHR ''*'' then
           (if hostname = host then Some True else origin_matches hostname hosts)
         else if HasSuffix hostname (TrimPrefix host ''*'') then Some True
         else origin_matches hostname hosts)"

definition isOriginAllowed :: "('o, 'x) gw_env_scheme \<Rightarrow> string \<Rightarrow> string list \<Rightarrow> bool option" where
  "isOriginAllowed e origin allowOriginHosts = (case url_Hostname e origin of
     None \<Rightarrow> Some False
   | Some h \<Rightarrow> origin_matches (ToLower h) allowOriginHosts)"

fun normalize_loop :: "string list \<Rightarrow> string list \<Rightarrow> string list" where
  "normalize_loop seen [] = []"
| "normalize_loop seen (v # vs) =
     (let value = ToLower (TrimSpace v)
      in if value \<in> set seen then normalize_loop seen vs
         else value # normalize_loop (value # seen) vs)"

definition normalize :: "string list \<Rightarrow> string list" where
  "normalize values = normalize_loop [] values"

definition convert :: "string list \<Rightarrow> (string \<Rightarrow> string) \<Rightarrow> string list" where
  "convert s c = map c s"

text \<open>\<^verbatim>\<open>int64(d / time.Second)\<close>: Go's division truncates towards zero.\<close>

definition seconds :: "int \<Rightarrow> int" where
  "seconds d = (if d < 0 then - ((- d) div time_Second) else d div time_Second)"

definition allow_headers :: "Cors \<Rightarrow> header" where
  "allow_headers c =
     (let h0 = (if co_AllowCredentials c then header_Set Map.empty ''Access-Control-Allow-Credentials'' ''true'' else Map.empty)
      in if co_AllowMethods c \<noteq> [] then
           header_Set h0 ''Access-Control-Allow-Methods'' (Join (convert (normalize (co_AllowMethods c)) ToUpper) '','')
         else h0)"

definition generateNormalHeaders :: "Cors \<Rightarrow> header" where
  "generateNormalHeaders c =
     (let h1 = allow_headers c;
          h2 = (if co_ExposeHeaders c \<noteq> [] then
                  header_Set h1 ''Access-Control-Expose-Headers''
                    (Join (convert (normalize (co_ExposeHeaders c)) CanonicalHeaderKey) '','')
                else h1)
      in header_Add h2 ''Vary'' ''Origin'')"

definition generatePreflightHeaders :: "Cors \<Rightarrow> header" where
  "generatePreflightHeaders c =
     (let h1 = allow_headers c;
          h2 = (if co_AllowHeaders c \<noteq> [] then
                  header_Set h1 ''Access-Control-Allow-Headers''
                    (Join (convert (normalize (co_AllowHeaders c)) CanonicalHeaderKey) '','')
                else h1);
          h3 = (case co_MaxAge c of None \<Rightarrow> h2
                | Some d \<Rightarrow> header_Set h2 ''Access-Control-Max-Age'' (fmt_d (seconds d)))
      in header_Add (header_Add (header_Add h3 ''Vary'' ''Origin'')
           ''Vary'' ''Access-Control-Request-Method'') ''Vary'' ''Access-Control-Request-Headers'')"

definition newResponse :: "int \<Rightarrow> header \<Rightarrow> response" where
  "newResponse statusCode h =
     \<lparr>rs_StatusCode = statusCode, rs_Header = Some h, rs_Trailer = Map.empty, rs_Body = MemBody ''''\<rparr>"

definition cors_defaults :: Cors where
  "cors_defaults = \<lparr>co_AllowCredentials = True, co_AllowOrigins = [],
     co_AllowMethods = [''GET'', ''POST'', ''PUT'', ''DELETE''],
     co_AllowHeaders = [''Origin'', ''Content-Length'', ''Content-Type''],
     co_ExposeHeaders = [], co_MaxAge = Some (600 * time_Second), co_AllowPrivateNetwork = False\<rparr>"

definition cors_preflight :: "Cors \<Rightarrow> request \<Rightarrow> string \<Rightarrow> response" where
  "cors_preflight options req origin =
     (let h = (if co_AllowPrivateNetwork options \<and>
                  header_Get (rq_Header req) ''Access-Control-Request-Private-Network'' = ''true''
               then header_Set Map.empty ''Access-Control-Allow-Private-Network'' ''true'' else Map.empty)
      in newResponse 200 (header_Set (h ++ generatePreflightHeaders options) ''Access-Control-Allow-Origin'' origin))"

definition cors_decorate :: "Cors \<Rightarrow> string \<Rightarrow> response \<Rightarrow> response" where
  "cors_decorate options origin resp =
     (let h = (case rs_Header resp of None \<Rightarrow> Map.empty | Some h \<Rightarrow> h)
      in resp\<lparr>rs_Header := Some (header_Set (h ++ generateNormalHeaders options) ''Access-Control-Allow-Origin'' origin)\<rparr>)"

definition cors_handler :: "('o, 'x) gw_env_scheme \<Rightarrow> Cors \<Rightarrow> 'o gw mw" where
  "cors_handler e options next req s =
     (let origin = header_Get (rq_Header req) ''Origin''
      in if origin = '''' then next req s
         else case isOriginAllowed e origin (co_AllowOrigins options) of
           None \<Rightarrow> (Panics, s)
         | Some False \<Rightarrow> (Reply (newResponse 403 Map.empty), s)
         | Some True \<Rightarrow>
             if rq_Method req = ''OPTIONS'' then (Reply (cors_preflight options req origin), s)
             else case next req s of
                 (Reply resp, s') \<Rightarrow> (Reply (cors_decorate options origin resp), s')
               | (Fails er, s') \<Rightarrow> (Fails er, s')
               | (Panics, s') \<Rightarrow> (Panics, s'))"

definition cors_Middleware :: "('o, 'x) gw_env_scheme \<Rightarrow> mw_config \<Rightarrow> gw_err + 'o gw mw" where
  "cors_Middleware e c = map_sum id (cors_handler e)
     (case mc_Options c of None \<Rightarrow> Inr cors_defaults | Some any \<Rightarrow> unmarshal_Cors e any cors_defaults)"

section \<open>Rewrite\<close>

definition apply_policy :: "HeadersPolicy \<Rightarrow> header \<Rightarrow> header" where
  "apply_policy p h =
     fold (\<lambda>k h. header_Del h k) (hp_Remove p)
       (fold (\<lambda>(k, v) h. header_Add h k v) (hp_Add p)
         (fold (\<lambda>(k, v) h. header_Set h k v) (hp_Set p) h))"

definition rewrite_request :: "Rewrite \<Rightarrow> request \<Rightarrow> request" where
  "rewrite_request options req =
     (let req = (case rw_PathRewrite options of None \<Rightarrow> req | Some p \<Rightarrow> req\<lparr>rq_Path := p\<rparr>);
          req = (case rw_HostRewrite options of None \<Rightarrow> req | Some h \<Rightarrow> req\<lparr>rq_Host := h\<rparr>);
          req = (case rw_StripPrefix options of None \<Rightarrow> req | Some p \<Rightarrow> req\<lparr>rq_Path := stripPrefix (rq_Path req) p\<rparr>)
      in case rw_RequestHeadersRewrite options of None \<Rightarrow> req
         | Some p \<Rightarrow> req\<lparr>rq_Header := apply_policy p (rq_Header req)\<rparr>)"

text \<open>None is the panic of a write to the nil map; deleting from it does nothing.\<close>

definition rewrite_response :: "Rewrite \<Rightarrow> response \<Rightarrow> response option" where
  "rewrite_response options resp = (case rw_ResponseHeadersRewrite options of
     None \<Rightarrow> Some resp
   | Some p \<Rightarrow> (case rs_Header resp of
       Some h \<Rightarrow> Some (resp\<lparr>rs_Header := Some (apply_policy p h)\<rparr>)
     | None \<Rightarrow> if hp_Set p = [] \<and> hp_Add p = [] then Some resp else None))"

definition rewrite_handler :: "Rewrite \<Rightarrow> 'o gw mw" where
  "rewrite_handler options next req s = (case next (rewrite_request options req) s of
     (Reply resp, s') \<Rightarrow> (case rewrite_response options resp of
         Some resp' \<Rightarrow> (Reply resp', s') | None \<Rightarrow> (Panics, s'))
   | (Fails er, s') \<Rightarrow> (Fails er, s')
   | (Panics, s') \<Rightarrow> (Panics, s'))"

definition rewrite_defaults :: Rewrite where
  "rewrite_defaults = \<lparr>rw_PathRewrite = None, rw_RequestHeadersRewrite = None,
     rw_ResponseHeadersRewrite = None, rw_StripPrefix = None, rw_HostRewrite = None\<rparr>"

definition rewrite_Middleware :: "('o, 'x) gw_env_scheme \<Rightarrow> mw_config \<Rightarrow> gw_err + 'o gw mw" where
  "rewrite_Middleware e c = map_sum id rewrite_handler
     (case mc_Options c of None \<Rightarrow> Inr rewrite_defaults | Some any \<Rightarrow> unmarshal_Rewrite e any rewrite_defaults)"

section \<open>Circuit breaker\<close>

definition newRatioTrigger :: "int \<Rightarrow> ('o \<Rightarrow> int \<times> 'o) \<Rightarrow> 'o breaker" where
  "newRatioTrigger ratio int63n =
     \<lparr>br_Allow = (\<lambda>o'. case int63n o' of (x, o'') \<Rightarrow> (if x < ratio then Allowed else NotAllowed, o'')),
      br_MarkSuccess = id, br_MarkFailed = id\<rparr>"

definition nopTrigger :: "'o breaker" where
  "nopTrigger = \<lparr>br_Allow = (\<lambda>o'. (Allowed, o')), br_MarkSuccess = id, br_MarkFailed = id\<rparr>"

definition sre_options :: "SuccessRatio \<Rightarrow> sre_option list" where
  "sre_options r =
     (if sr_Bucket r \<noteq> 0 then [WithBucket (sr_Bucket r)] else []) @
     (if sr_Request r \<noteq> 0 then [WithRequest (sr_Request r)] else []) @
     (if sr_Success r \<noteq> 0 then [WithSuccess (sr_Success r)] else []) @
     (case sr_Window r of None \<Rightarrow> [] | Some d \<Rightarrow> [WithWindow d])"

definition makeBreakerTrigger :: "('o, 'x) gw_env_scheme \<Rightarrow> CircuitBreaker \<Rightarrow> 'o \<Rightarrow> 'o breaker \<times> 'o" where
  "makeBreakerTrigger e opts o' = (case cb_Trigger opts of
     TriggerSuccessRatio r \<Rightarrow> sre_NewBreaker e (sre_options r) o'
   | TriggerRatio ratio \<Rightarrow> (case new_rand e o' of (int63n, o'') \<Rightarrow> (newRatioTrigger ratio int63n, o''))
   | NoTrigger \<Rightarrow> (nopTrigger, o'))"

definition static_tripper :: "response \<Rightarrow> 'o gw tripper" where
  "static_tripper resp req s = (Reply resp, s)"

definition response_data :: "int \<Rightarrow> (string \<times> string list) list \<Rightarrow> string \<Rightarrow> response" where
  "response_data code hs b = \<lparr>rs_StatusCode = code,
     rs_Header = Some (fold (\<lambda>(k, v) h. h(k \<mapsto> v)) hs Map.empty), rs_Trailer = Map.empty, rs_Body = MemBody b\<rparr>"

definition makeOnBreakHandler :: "'o client_factory \<Rightarrow> CircuitBreaker \<Rightarrow> 'o gw \<Rightarrow> (gw_err + 'o gw tripper) \<times> 'o gw" where
  "makeOnBreakHandler clients opts s = (case cb_Action opts of
     ActionBackupService ep \<Rightarrow> map_prod (map_sum id fst) id (clients ep s)
   | ActionResponseData code hs b \<Rightarrow> (Inr (static_tripper (response_data code hs b)), s)
   | NoAction \<Rightarrow> (Inr (static_tripper (newResponse 503 Map.empty)), s))"

definition isSuccessResponse :: "prepared list \<Rightarrow> response \<Rightarrow> bool" where
  "isSuccessResponse conditions resp = JudgeConditons conditions resp True"

definition breaker_handler :: "'o breaker \<Rightarrow> 'o gw tripper \<Rightarrow> prepared list \<Rightarrow> 'o gw mw" where
  "breaker_handler b onBreak asserts next req s =
     (case on_outside (br_Allow b) s of (a, s1) \<Rightarrow>
        if a \<noteq> Allowed then onBreak req (set_outside (br_MarkFailed b) s1)
        else (case next req s1 of
            (Fails er, s2) \<Rightarrow> (Fails er, set_outside (br_MarkFailed b) s2)
          | (Panics, s2) \<Rightarrow> (Panics, s2)
          | (Reply resp, s2) \<Rightarrow>
              if \<not> isSuccessResponse asserts resp then (Reply resp, set_outside (br_MarkFailed b) s2)
              else (Reply resp, set_outside (br_MarkSuccess b) s2)))"

definition breaker_defaults :: CircuitBreaker where
  "breaker_defaults = \<lparr>cb_Trigger = NoTrigger, cb_Action = NoAction, cb_AssertCondtions = []\<rparr>"

definition breaker_New :: "('o, 'x) gw_env_scheme \<Rightarrow> 'o client_factory \<Rightarrow> 'o factory" where
  "breaker_New e clients c s =
     (case (case mc_Options c of None \<Rightarrow> Inr breaker_defaults | Some any \<Rightarrow> unmarshal_Breaker e any breaker_defaults) of
        Inl er \<Rightarrow> (Inl (BuildErr er), s)
      | Inr options \<Rightarrow>
          (case on_outside (makeBreakerTrigger e options) s of (b, s1) \<Rightarrow>
          (case makeOnBreakHandler clients options s1 of
             (Inl er, s2) \<Rightarrow> (Inl (BuildErr er), s2)
           | (Inr onBreak, s2) \<Rightarrow>
               (case ParseConditon (json_strings e) (cb_AssertCondtions options) of
                  Inl er \<Rightarrow> (Inl (BuildErr er), s2)
                | Inr asserts \<Rightarrow> (Inr (breaker_handler b onBreak asserts), s2)))))"

section \<open>Registry\<close>

definition createFullName :: "string \<Rightarrow> string" where
  "createFullName name = ToLower (''gateway.middleware.'' @ name)"

definition wrapFactory :: "(mw_config \<Rightarrow> gw_err + 'o gw mw) \<Rightarrow> 'o factory" where
  "wrapFactory f c s = (map_sum BuildErr id (f c), s)"

definition RegisterV2 :: "string \<Rightarrow> 'o factory \<Rightarrow> (string \<rightharpoonup> 'o factory) \<Rightarrow> (string \<rightharpoonup> 'o factory)" where
  "RegisterV2 name f reg = reg(createFullName name \<mapsto> f)"

definition mw_Register :: "string \<Rightarrow> (mw_config \<Rightarrow> gw_err + 'o gw mw) \<Rightarrow> (string \<rightharpoonup> 'o factory) \<Rightarrow> (string \<rightharpoonup> 'o factory)" where
  "mw_Register name f = RegisterV2 name (wrapFactory f)"

definition getMiddleware :: "(string \<rightharpoonup> 'o factory) \<Rightarrow> string \<Rightarrow> 'o factory option" where
  "getMiddleware reg name = reg (ToLower name)"

definition EmptyMiddleware :: "'o gw mw" where
  "EmptyMiddleware next = next"

definition Create :: "(string \<rightharpoonup> 'o factory) \<Rightarrow> 'o factory" where
  "Create reg cfg s = (case getMiddleware reg (createFullName (mc_Name cfg)) of
     None \<Rightarrow> (Inl ErrNotFound, s)
   | Some method_fn \<Rightarrow>
       if mc_Required cfg then method_fn cfg s
       else (case method_fn cfg s of
           (Inl _, s') \<Rightarrow> (Inr EmptyMiddleware, s')
         | (Inr m, s') \<Rightarrow> (Inr m, s')))"

text \<open>The registrations of the packages' \<^verbatim>\<open>init\<close> functions and of \<^verbatim>\<open>circuitbreaker.Init\<close>.\<close>

definition globalRegistry :: "('o, 'x) gw_env_scheme \<Rightarrow> 'o client_factory \<Rightarrow> (string \<rightharpoonup> 'o factory)" where
  "globalRegistry e clients =
     RegisterV2 ''circuitbreaker'' (breaker_New e clients)
       (mw_Register ''rewrite'' (rewrite_Middleware e)
         (mw_Register ''jwt'' (jwt_Middleware e)
           (mw_Register ''cors'' (cors_Middleware e) (other_factories e))))"

section \<open>Chains\<close>

fun build_from :: "'o factory \<Rightarrow> mw_config list \<Rightarrow> 'o gw tripper \<Rightarrow> 'o gw \<Rightarrow> (gw_err + 'o gw tripper) \<times> 'o gw" where
  "build_from f [] next s = (Inr next, s)"
| "build_from f (m # ms) next s = (case f m s of
     (Inl ErrNotFound, s') \<Rightarrow> build_from f ms next s'
   | (Inl (BuildErr er), s') \<Rightarrow> (Inl er, s')
   | (Inr mw, s') \<Rightarrow> build_from f ms (mw next) s')"

definition buildMiddleware :: "'o factory \<Rightarrow> mw_config list \<Rightarrow> 'o gw tripper \<Rightarrow> 'o gw \<Rightarrow> (gw_err + 'o gw tripper) \<times> 'o gw" where
  "buildMiddleware f ms next s = build_from f (rev ms) next s"

end
