(* ===== verification/GatewayClient.thy ===== *)
theory GatewayClient
  imports GatewayMiddleware
begin

text \<open>
  The upstream side (\<^verbatim>\<open>app/gateway/client\<close>): targets, nodes, the factory that turns the backends of an
  endpoint into nodes of a selector, and the round trip that picks a node and calls it.

  Parameters: selector and HTTP clients, contexts with their deadlines (\<open>ctx_Err\<close> is read from the
  outside state, \<open>WithTimeout\<close> changes it), the feature flag, \<^verbatim>\<open>url.Parse\<close>, \<^verbatim>\<open>net.SplitHostPort\<close>, the
  table of gRPC codes, and the service watcher, whose own state is modelled in theory
  \<open>GatewayWatch\<close>.
\<close>

section \<open>Parameters\<close>

text \<open>
  What is read of a parsed URL, \<open>u_isSecure\<close> being the query parameter of that name. A selector is
  asked with a node filter and answers with a node and the number of the pick.
\<close>

record url =
  u_Scheme :: string
  u_Host :: string
  u_Path :: string
  u_isSecure :: string

type_synonym 'o selector = "(node list \<Rightarrow> node list) \<Rightarrow> 'o \<Rightarrow> (gw_err + node \<times> nat) \<times> 'o"

record 'o picker =
  pk_Select :: "'o selector"
  pk_Apply :: "node list \<Rightarrow> 'o \<Rightarrow> 'o"

record 'o px_env = "'o gw_env" +
  client_Do :: "node \<Rightarrow> request \<Rightarrow> 'o \<Rightarrow> (gw_err + response) \<times> 'o"
  pick_done :: "nat \<Rightarrow> gw_err option \<Rightarrow> 'o \<Rightarrow> 'o"
  retry_enabled :: "'o \<Rightarrow> bool"
  ctx_Err :: "'o \<Rightarrow> gw_err option"
  WithTimeout :: "int \<Rightarrow> 'o \<Rightarrow> 'o"
  ToGRPCCode :: "int \<Rightarrow> int"
  SplitHostPort :: "string \<Rightarrow> string option"
  url_Parse :: "string \<Rightarrow> gw_err + url"
  new_picker :: "'o \<Rightarrow> 'o picker \<times> 'o"
  AddWatch :: "string \<Rightarrow> Endpoint \<Rightarrow> 'o picker \<Rightarrow> 'o \<Rightarrow> 'o"
  cancel_applier :: "'o picker \<Rightarrow> 'o \<Rightarrow> 'o"
  tls_configs :: "string \<Rightarrow> bool"

section \<open>Targets\<close>

record Target =
  tg_Scheme :: string
  tg_Authority :: string
  tg_Endpoint :: string

definition parseTarget :: "(string \<Rightarrow> gw_err + url) \<Rightarrow> string \<Rightarrow> gw_err + Target" where
  "parseTarget parse endpoint0 =
     (let endpoint = (if Contains endpoint0 ''://'' then endpoint0 else ''direct:///'' @ endpoint0)
      in case parse endpoint of
           Inl er \<Rightarrow> Inl er
         | Inr u \<Rightarrow> Inr \<lparr>tg_Scheme = u_Scheme u, tg_Authority = u_Host u,
             tg_Endpoint = (if length (u_Path u) > 1 then tl (u_Path u) else '''')\<rparr>)"

text \<open>\<^verbatim>\<open>strconv.ParseBool\<close>.\<close>

definition ParseBool :: "string \<Rightarrow> bool option" where
  "ParseBool s =
     (if s \<in> set [''1'', ''t'', ''T'', ''true'', ''TRUE'', ''True''] then Some True
      else if s \<in> set [''0'', ''f'', ''F'', ''false'', ''FALSE'', ''False''] then Some False
      else None)"

definition IsSecure :: "url \<Rightarrow> bool" where
  "IsSecure u = (case ParseBool (u_isSecure u) of None \<Rightarrow> False | Some b \<Rightarrow> b)"

fun parseEndpoint :: "(string \<Rightarrow> gw_err + url) \<Rightarrow> string list \<Rightarrow> string \<Rightarrow> bool \<Rightarrow> gw_err + string" where
  "parseEndpoint parse [] scheme isSecure = Inr ''''"
| "parseEndpoint parse (e # es) scheme isSecure = (case parse e of
     Inl er \<Rightarrow> Inl er
   | Inr u \<Rightarrow> if u_Scheme u = scheme \<and> IsSecure u = isSecure then Inr (u_Host u)
              else parseEndpoint parse es scheme isSecure)"

section \<open>Nodes\<close>

definition GetClient :: "(string \<Rightarrow> bool) \<Rightarrow> string \<Rightarrow> http_client" where
  "GetClient configs name =
     (if name = '''' then GlobalClient else if configs name then TLSClient name else GlobalHTTPSClient)"

definition newNode :: "(string \<Rightarrow> bool) \<Rightarrow> string \<Rightarrow> Protocol \<Rightarrow> int option \<Rightarrow> (string \<rightharpoonup> string) \<Rightarrow> string \<Rightarrow> string \<Rightarrow>
    bool \<Rightarrow> string \<Rightarrow> node" where
  "newNode configs addr protocol weight md version name tls tlsConfigName =
     \<lparr>nd_address = addr, nd_name = name, nd_weight = weight, nd_version = version, nd_metadata = md,
      nd_client = (if tls then (if tlsConfigName \<noteq> '''' then GetClient configs tlsConfigName else GlobalHTTPSClient)
                   else if protocol = Protocol_GRPC then GlobalH2CClient else GlobalClient),
      nd_protocol = protocol, nd_tls = tls\<rparr>"

text \<open>A service instance of the discovery.\<close>

record ServiceInstance =
  si_ID :: string
  si_Name :: string
  si_Version :: string
  si_Metadata :: "string \<rightharpoonup> string"
  si_Endpoints :: "string list"

text \<open>
  The value \<^verbatim>\<open>strconv.ParseInt(w, 10, 64)\<close> returns beside its error: zero for ill-formed input, the
  nearest bound when the number is out of range.
\<close>

definition ParseInt_value :: "string \<Rightarrow> int" where
  "ParseInt_value w =
     (case ParseInt 64 w of
        Some v \<Rightarrow> v
      | None \<Rightarrow>
          (let neg = HasPrefix w ''-''; ds = (if neg \<or> HasPrefix w ''+'' then tl w else w)
           in if ds = [] \<or> \<not> list_all is_digit ds then 0
              else if neg then - 9223372036854775808 else 9223372036854775807))"

definition defaultWeight :: int where
  "defaultWeight = 10"

definition nodeWeight :: "ServiceInstance \<Rightarrow> int" where
  "nodeWeight n = (case si_Metadata n ''weight'' of
     Some w \<Rightarrow> (let val = ParseInt_value w in if val \<le> 0 then defaultWeight else val)
   | None \<Rightarrow> defaultWeight)"

fun protocol_name :: "Protocol \<Rightarrow> string" where
  "protocol_name Protocol_UNSPECIFIED = ''UNSPECIFIED''"
| "protocol_name Protocol_HTTP = ''HTTP''"
| "protocol_name Protocol_GRPC = ''GRPC''"

definition service_nodes :: "'o px_env \<Rightarrow> Endpoint \<Rightarrow> ServiceInstance list \<Rightarrow> node list" where
  "service_nodes e ep services =
     concat (map (\<lambda>ser. case parseEndpoint (url_Parse e) (si_Endpoints ser) (ToLower (protocol_name (ep_Protocol ep))) False of
         Inl _ \<Rightarrow> []
       | Inr addr \<Rightarrow> if addr = '''' then []
           else [newNode (tls_configs e) addr (ep_Protocol ep) (Some (nodeWeight ser)) (si_Metadata ser)
                   (si_Version ser) (si_Name ser) False ''''])
       services)"

text \<open>\<^verbatim>\<open>Callback\<close> of the applier; the boolean says whether it answered \<^verbatim>\<open>ErrCancelWatch\<close>.\<close>

definition applier_Callback :: "'o px_env \<Rightarrow> Endpoint \<Rightarrow> 'o picker \<Rightarrow> bool \<Rightarrow> ServiceInstance list \<Rightarrow> 'o \<Rightarrow> bool \<times> 'o" where
  "applier_Callback e ep pk canceled services o' =
     (if canceled then (True, o')
      else if services = [] then (False, o')
      else (False, pk_Apply pk (service_nodes e ep services) o'))"

section \<open>Factory\<close>

fun apply_backends :: "'o px_env \<Rightarrow> Endpoint \<Rightarrow> 'o picker \<Rightarrow> Backend list \<Rightarrow> node list \<Rightarrow> 'o \<Rightarrow> gw_err option \<times> 'o" where
  "apply_backends e ep pk [] nodes o' = (None, o')"
| "apply_backends e ep pk (b # bs) nodes o' =
     (case parseTarget (url_Parse e) (be_Target b) of
        Inl er \<Rightarrow> (Some er, o')
      | Inr target \<Rightarrow>
          if tg_Scheme target = ''direct'' then
            (let nodes' = nodes @ [newNode (tls_configs e) (be_Target b) (ep_Protocol ep) (be_Weight b) (be_Metadata b)
                                     '''' '''' (be_Tls b) (be_TlsConfigName b)]
             in apply_backends e ep pk bs nodes' (pk_Apply pk nodes' o'))
          else if tg_Scheme target = ''discovery'' then
            apply_backends e ep pk bs nodes (AddWatch e (tg_Endpoint target) ep pk o')
          else (Some (plain_err (''unknown scheme: '' @ tg_Scheme target)), o'))"

section \<open>Client\<close>

definition upd_opts :: "(RequestOptions \<Rightarrow> RequestOptions) \<Rightarrow> 'o gw \<Rightarrow> 'o gw" where
  "upd_opts f s = s\<lparr>reqOpts := f (reqOpts s)\<rparr>"

definition chosen :: "node \<Rightarrow> RequestOptions \<Rightarrow> RequestOptions" where
  "chosen n r = r\<lparr>ro_CurrentNode := Some n, ro_Backends := ro_Backends r @ [nd_address n]\<rparr>"

definition add_status :: "int \<Rightarrow> RequestOptions \<Rightarrow> RequestOptions" where
  "add_status code r = r\<lparr>ro_UpstreamStatusCode := ro_UpstreamStatusCode r @ [code]\<rparr>"

definition address_request :: "node \<Rightarrow> request \<Rightarrow> request" where
  "address_request n req =
     (let req = req\<lparr>rq_URLHost := nd_address n, rq_Scheme := ''http''\<rparr>;
          req = (if nd_tls n then req\<lparr>rq_Scheme := ''https'', rq_Host := nd_address n\<rparr> else req)
      in case nd_metadata n ''host'' of
           Some h \<Rightarrow> if h \<noteq> '''' then req\<lparr>rq_Host := h\<rparr> else req
         | None \<Rightarrow> req)"

definition client_RoundTrip :: "'o px_env \<Rightarrow> 'o selector \<Rightarrow> 'o gw tripper" where
  "client_RoundTrip e sel req s =
     (case on_outside (sel (retry_filter (reqOpts s))) s of
        (Inl er, s1) \<Rightarrow> (Fails er, s1)
      | (Inr (n, pick), s1) \<Rightarrow>
          (case on_outside (client_Do e n (address_request n req)) (upd_opts (chosen n) s1) of
             (Inl er, s2) \<Rightarrow> (Fails er, upd_opts (add_status 0) (set_outside (pick_done e pick (Some er)) s2))
           | (Inr resp, s2) \<Rightarrow>
               (Reply resp, upd_opts (\<lambda>r. (add_status (rs_StatusCode resp) r)\<lparr>ro_DoneFunc := Some pick\<rparr>) s2)))"

text \<open>\<^verbatim>\<open>NewFactory\<close>; closing the client cancels its applier.\<close>

definition NewFactory :: "'o px_env \<Rightarrow> 'o client_factory" where
  "NewFactory e ep s =
     (case on_outside (new_picker e) s of (pk, s1) \<Rightarrow>
        (case on_outside (apply_backends e ep pk (ep_Backends ep) []) s1 of
           (Some er, s2) \<Rightarrow> (Inl er, s2)
         | (None, s2) \<Rightarrow> (Inr (client_RoundTrip e (pk_Select pk), set_outside (cancel_applier e pk)), s2)))"

end
