(* ===== verification/GatewayProxy.thy ===== *)
theory GatewayProxy
  imports GatewayClient
begin

text \<open>
  Serving a request (\<^verbatim>\<open>app/gateway/proxy/proxy.go\<close>, \<^verbatim>\<open>error_handler.go\<close>): the loop of attempts with its
  retry breaker, the response or error written to the caller, the recovery from panics, and the
  building of endpoints. Endpoints that stream are handed to \<^verbatim>\<open>httputil.ReverseProxy\<close>; their
  handler and its wrapper of the client are parameters. Prometheus counters other than the
  retry labels are left out.
\<close>

section \<open>Attempts\<close>

record loop =
  lp_resp :: "response option"
  lp_err :: "gw_err option"
  lp_marks :: "string list"

text \<open>\<^verbatim>\<open>splitRetryMetricsHandler\<close> with the breaker marks of \<^verbatim>\<open>buildEndpoint\<close>.\<close>

definition markSuccess :: "'o breaker \<Rightarrow> nat \<Rightarrow> loop \<times> 'o gw \<Rightarrow> loop \<times> 'o gw" where
  "markSuccess rb i = (\<lambda>(l, s).
     if 0 < i then (l\<lparr>lp_marks := lp_marks l @ [''true'']\<rparr>, set_outside (br_MarkSuccess rb) s) else (l, s))"

definition markFailed :: "'o breaker \<Rightarrow> nat \<Rightarrow> gw_err \<Rightarrow> loop \<times> 'o gw \<Rightarrow> loop \<times> 'o gw" where
  "markFailed rb i er = (\<lambda>(l, s).
     if 0 < i then
       ((if ge_Canceled er then l else l\<lparr>lp_marks := lp_marks l @ [''false'']\<rparr>), set_outside (br_MarkFailed rb) s)
     else (l, s))"

definition markBreaker :: "nat \<Rightarrow> loop \<times> 'o gw \<Rightarrow> loop \<times> 'o gw" where
  "markBreaker i = (\<lambda>(l, s). if 0 < i then (l\<lparr>lp_marks := lp_marks l @ [''breaker'']\<rparr>, s) else (l, s))"

text \<open>The guards of a retry: the feature flag and the retry breaker.\<close>

definition admit :: "'o px_env \<Rightarrow> 'o breaker \<Rightarrow> nat \<Rightarrow> loop \<times> 'o gw \<Rightarrow> bool \<times> loop \<times> 'o gw" where
  "admit e rb i = (\<lambda>(l, s).
     if i = 0 then (True, l, s)
     else if \<not> retry_enabled e (outside s) then (False, l, s)
     else case on_outside (br_Allow rb) s of
         (Allowed, s1) \<Rightarrow> (True, l, s1)
       | (NotAllowed, s1) \<Rightarrow> (False, markBreaker i (l, s1))
       | (AllowErr er, s1) \<Rightarrow> (False, markFailed rb i er (l, s1)))"

definition last_attempt :: "RequestOptions \<Rightarrow> RequestOptions" where
  "last_attempt r = r\<lparr>ro_LastAttempt := True\<rparr>"

text \<open>
  One attempt: \<open>Inl\<close> when the loop breaks, \<open>Inr\<close> when it goes on. None is a panic of the round
  trip.
\<close>

definition attempt :: "'o px_env \<Rightarrow> 'o breaker \<Rightarrow> retryStrategy \<Rightarrow> 'o gw tripper \<Rightarrow> request \<Rightarrow> nat \<Rightarrow> loop \<times> 'o gw \<Rightarrow>
    (loop + loop) option \<times> 'o gw" where
  "attempt e rb st trip req i ls =
     (case admit e rb i ls of
        (False, l, s) \<Rightarrow> (Some (Inl l), s)
      | (True, l, s) \<Rightarrow>
          (let s = (if st_attempts st \<le> int i + 1 then upd_opts last_attempt s else s)
           in case ctx_Err e (outside s) of
                Some er \<Rightarrow> (case markFailed rb i er (l\<lparr>lp_err := Some er\<rparr>, s) of (l', s') \<Rightarrow> (Some (Inl l'), s'))
              | None \<Rightarrow>
                  (case trip req (set_outside (WithTimeout e (st_perTryTimeout st)) s) of
                     (Panics, s') \<Rightarrow> (None, s')
                   | (Fails er, s') \<Rightarrow>
                       (case markFailed rb i er (l\<lparr>lp_resp := None, lp_err := Some er\<rparr>, s') of (l', s'') \<Rightarrow> (Some (Inr l'), s''))
                   | (Reply resp, s') \<Rightarrow>
                       if \<not> judgeRetryRequired (st_conditions st) resp then
                         (case markSuccess rb i (l\<lparr>lp_resp := Some resp, lp_err := None\<rparr>, upd_opts last_attempt s') of
                            (l', s'') \<Rightarrow> (Some (Inl l'), s''))
                       else
                         (case markFailed rb i (plain_err ''assertion failed'')
                                 (l\<lparr>lp_resp := Some (resp\<lparr>rs_Body := close_body (rs_Body resp)\<rparr>), lp_err := None\<rparr>, s') of
                            (l', s'') \<Rightarrow> (Some (Inr l'), s'')))))"

fun attempts_from :: "'o px_env \<Rightarrow> 'o breaker \<Rightarrow> retryStrategy \<Rightarrow> 'o gw tripper \<Rightarrow> request \<Rightarrow> nat \<Rightarrow> nat \<Rightarrow> loop \<times> 'o gw \<Rightarrow>
    loop option \<times> 'o gw" where
  "attempts_from e rb st trip req 0 i (l, s) = (Some l, s)"
| "attempts_from e rb st trip req (Suc n) i (l, s) =
     (case attempt e rb st trip req i (l, s) of
        (None, s') \<Rightarrow> (None, s')
      | (Some (Inl l'), s') \<Rightarrow> (Some l', s')
      | (Some (Inr l'), s') \<Rightarrow> attempts_from e rb st trip req n (Suc i) (l', s'))"

definition run_attempts :: "'o px_env \<Rightarrow> 'o breaker \<Rightarrow> retryStrategy \<Rightarrow> 'o gw tripper \<Rightarrow> request \<Rightarrow> 'o gw \<Rightarrow>
    loop option \<times> 'o gw" where
  "run_attempts e rb st trip req s =
     attempts_from e rb st trip req (nat (st_attempts st)) 0 (\<lparr>lp_resp = None, lp_err = None, lp_marks = []\<rparr>, s)"

section \<open>Answering\<close>

text \<open>What the caller receives: status, header map, body bytes, and whether the body was cut off.\<close>

record reply =
  w_Status :: int
  w_Header :: header
  w_Body :: string
  w_Broken :: bool

definition error_status :: "gw_err \<Rightarrow> int" where
  "error_status er =
     (if ge_Canceled er \<or> ge_Text er = ''client disconnected'' then 499
      else if ge_Deadline er then 504
      else 502)"

definition writeError :: "'o px_env \<Rightarrow> Endpoint \<Rightarrow> gw_err \<Rightarrow> reply" where
  "writeError e ep er =
     (let statusCode = error_status er
      in if ep_Protocol ep = Protocol_GRPC then
           \<lparr>w_Status = 200,
            w_Header = header_Set (header_Set (header_Set Map.empty ''Content-Type'' ''application/grpc'')
              ''Grpc-Status'' (fmt_d (ToGRPCCode e statusCode))) ''Grpc-Message'' (ge_Text er),
            w_Body = '''', w_Broken = False\<rparr>
         else \<lparr>w_Status = statusCode, w_Header = Map.empty, w_Body = '''', w_Broken = False\<rparr>)"

definition DoneFunc :: "'o px_env \<Rightarrow> gw_err option \<Rightarrow> 'o gw \<Rightarrow> 'o gw" where
  "DoneFunc e er s = (case ro_DoneFunc (reqOpts s) of None \<Rightarrow> s | Some pick \<Rightarrow> set_outside (pick_done e pick er) s)"

text \<open>\<^verbatim>\<open>http.TrailerPrefix + k\<close>.\<close>

definition trailers :: "header \<Rightarrow> header" where
  "trailers h k = (if HasPrefix k ''Trailer:'' then h (drop 8 k) else None)"

text \<open>Reading a body to its end: the bytes, and the error that ended it.\<close>

fun read_body :: "body \<Rightarrow> string \<times> gw_err option" where
  "read_body NilBody = ('''', None)"
| "read_body (MemBody data) = (data, None)"
| "read_body (NetBody data er closed) =
     (if closed then ('''', Some (plain_err ''http: read on closed response body'')) else (data, er))"

definition write_response :: "'o px_env \<Rightarrow> response \<Rightarrow> 'o gw \<Rightarrow> reply \<times> 'o gw" where
  "write_response e resp s =
     (let headers = (case rs_Header resp of None \<Rightarrow> Map.empty | Some h \<Rightarrow> h)
      in if rs_Body resp = NilBody then
           (\<lparr>w_Status = rs_StatusCode resp, w_Header = headers, w_Body = '''', w_Broken = False\<rparr>, s)
         else case read_body (rs_Body resp) of
             (sent, Some er) \<Rightarrow>
               (\<lparr>w_Status = rs_StatusCode resp, w_Header = headers, w_Body = sent, w_Broken = True\<rparr>, DoneFunc e (Some er) s)
           | (sent, None) \<Rightarrow>
               (\<lparr>w_Status = rs_StatusCode resp, w_Header = headers ++ trailers (rs_Trailer resp),
                 w_Body = sent, w_Broken = False\<rparr>, DoneFunc e None s))"

text \<open>The header map of an incoming request holds no nil value, so the prior list is there or not.\<close>

definition setXFFHeader :: "'o px_env \<Rightarrow> request \<Rightarrow> request" where
  "setXFFHeader e req = (case SplitHostPort e (rq_RemoteAddr req) of
     None \<Rightarrow> req
   | Some clientIP \<Rightarrow>
       (let prior = (case rq_Header req ''X-Forwarded-For'' of None \<Rightarrow> [] | Some p \<Rightarrow> p);
            ip = (if prior \<noteq> [] then Join prior '', '' @ '', '' @ clientIP else clientIP)
        in req\<lparr>rq_Header := header_Set (rq_Header req) ''X-Forwarded-For'' ip\<rparr>))"

text \<open>The handler of an endpoint that does not stream; \<open>body\<close> is the outcome of reading the request body.\<close>

definition handle_unary :: "'o px_env \<Rightarrow> Endpoint \<Rightarrow> 'o breaker \<Rightarrow> retryStrategy \<Rightarrow> 'o gw tripper \<Rightarrow>
    request \<Rightarrow> gw_err + string \<Rightarrow> 'o gw \<Rightarrow> reply option \<times> 'o gw" where
  "handle_unary e ep rb st trip req body s =
     (let s = set_outside (WithTimeout e (st_timeout st)) (s\<lparr>reqOpts := NewRequestOptions\<rparr>)
      in case body of
           Inl er \<Rightarrow> (Some (writeError e ep er), s)
         | Inr b \<Rightarrow>
             (case run_attempts e rb st trip ((setXFFHeader e req)\<lparr>rq_Body := b\<rparr>) s of
                (None, s1) \<Rightarrow> (None, s1)
              | (Some l, s1) \<Rightarrow>
                  (case lp_err l of
                     Some er \<Rightarrow> (Some (writeError e ep er), s1)
                   | None \<Rightarrow>
                       (case lp_resp l of
                          None \<Rightarrow> (None, s1)
                        | Some resp \<Rightarrow> (case write_response e resp s1 of (w, s2) \<Rightarrow> (Some w, s2))))))"

text \<open>The router cleans the path, and \<^verbatim>\<open>ServeHTTP\<close> turns a panic into a 502.\<close>

type_synonym 'o handler = "request \<Rightarrow> gw_err + string \<Rightarrow> 'o gw \<Rightarrow> reply option \<times> 'o gw"

definition ServeHTTP :: "'o handler \<Rightarrow> request \<Rightarrow> gw_err + string \<Rightarrow> 'o gw \<Rightarrow> reply \<times> 'o gw" where
  "ServeHTTP h req body s =
     (case h (req\<lparr>rq_Path := cleanPath (rq_Path req)\<rparr>) body s of
        (Some w, s') \<Rightarrow> (w, s')
      | (None, s') \<Rightarrow> (\<lparr>w_Status = 502, w_Header = Map.empty, w_Body = '''', w_Broken = False\<rparr>, s'))"

section \<open>Building endpoints\<close>

text \<open>The success ratio 0.8 in the units of \<open>sr_Success\<close>.\<close>

definition retry_breaker_options :: "sre_option list" where
  "retry_breaker_options = [WithSuccess (7205759403792794 * 2 ^ 1021), WithRequest 10]"

definition buildEndpoint :: "'o px_env \<Rightarrow> 'o factory \<Rightarrow> 'o client_factory \<Rightarrow> ('o gw mw) \<Rightarrow>
    (Endpoint \<Rightarrow> 'o gw tripper \<Rightarrow> 'o handler) \<Rightarrow> Endpoint \<Rightarrow> mw_config list \<Rightarrow> 'o gw \<Rightarrow>
    (gw_err + 'o handler \<times> ('o gw \<Rightarrow> 'o gw)) \<times> 'o gw" where
  "buildEndpoint e mws clients streamTripper proxyStream ep ms s =
     (case clients ep s of
        (Inl er, s1) \<Rightarrow> (Inl er, s1)
      | (Inr (client, closer), s1) \<Rightarrow>
          (case buildMiddleware mws (ep_Middlewares ep) (if ep_Stream ep then streamTripper client else client) s1 of
             (Inl er, s2) \<Rightarrow> (Inl er, closer s2)
           | (Inr tripper, s2) \<Rightarrow>
               (case buildMiddleware mws ms tripper s2 of
                  (Inl er, s3) \<Rightarrow> (Inl er, closer s3)
                | (Inr tripper', s3) \<Rightarrow>
                    (case prepareRetryStrategy (json_strings e) ep of
                       Inl er \<Rightarrow> (Inl er, closer s3)
                     | Inr st \<Rightarrow>
                         (case on_outside (sre_NewBreaker e retry_breaker_options) s3 of (rb, s4) \<Rightarrow>
                            (Inr (if ep_Stream ep then proxyStream ep tripper' else handle_unary e ep rb st tripper', closer), s4))))))"

text \<open>
  \<^verbatim>\<open>Update\<close>: the endpoints are built in order; when one fails, the clients built so far are closed,
  the newest first, and the routing table stays; otherwise the new table is installed. \<open>add_route\<close>
  is \<^verbatim>\<open>Handle\<close> of the router, which may refuse a pattern.
\<close>

fun build_all :: "(Endpoint \<Rightarrow> 'o gw \<Rightarrow> (gw_err + 'o handler \<times> ('o gw \<Rightarrow> 'o gw)) \<times> 'o gw) \<Rightarrow> (Endpoint \<Rightarrow> gw_err option) \<Rightarrow>
    Endpoint list \<Rightarrow> (Endpoint \<times> 'o handler) list \<Rightarrow> ('o gw \<Rightarrow> 'o gw) list \<Rightarrow> 'o gw \<Rightarrow>
    (gw_err + (Endpoint \<times> 'o handler) list) \<times> 'o gw" where
  "build_all build add_route [] routes closers s = (Inr routes, s)"
| "build_all build add_route (ep # eps) routes closers s =
     (case build ep s of
        (Inl er, s1) \<Rightarrow> (Inl er, fold (\<lambda>c. c) closers s1)
      | (Inr (h, closer), s1) \<Rightarrow>
          (case add_route ep of
             Some er \<Rightarrow> (Inl er, fold (\<lambda>c. c) (closer # closers) s1)
           | None \<Rightarrow> build_all build add_route eps (routes @ [(ep, h)]) (closer # closers) s1))"

definition proxy_Update :: "(Endpoint \<Rightarrow> 'o gw \<Rightarrow> (gw_err + 'o handler \<times> ('o gw \<Rightarrow> 'o gw)) \<times> 'o gw) \<Rightarrow> (Endpoint \<Rightarrow> gw_err option) \<Rightarrow>
    Gateway \<Rightarrow> (Endpoint \<times> 'o handler) list \<Rightarrow> 'o gw \<Rightarrow> gw_err option \<times> (Endpoint \<times> 'o handler) list \<times> 'o gw" where
  "proxy_Update build add_route c router s =
     (case build_all build add_route (gw_Endpoints c) [] [] s of
        (Inl er, s') \<Rightarrow> (Some er, router, s')
      | (Inr routes, s') \<Rightarrow> (None, routes, s'))"

end
