(* ===== verification/GatewayFacts.thy ===== *)
theory GatewayFacts
  imports GatewayProxy
begin

text \<open>
  What holds of every chain of middlewares and of the loop of attempts, whatever the parameters
  do. Middlewares touch the options of a request only by calling what is behind them, once at
  most: a relation that one upstream call keeps between the options before and after is kept by
  a chain, and by a request step by step (locale \<open>opts_step\<close>). The loop ends with a response or an
  error, and a request the jwt middleware refuses goes no further.
\<close>

lemma map_sum_Inr_iff: "map_sum f g x = Inr y \<longleftrightarrow> (\<exists>a. x = Inr a \<and> y = g a)"
  by (cases x) auto

lemma reqOpts_set_outside [simp]: "reqOpts (set_outside f s) = reqOpts s"
  by (simp add: set_outside_def)

lemma reqOpts_on_outside: "on_outside f s = (a, s') \<Longrightarrow> reqOpts s' = reqOpts s"
  by (auto simp: on_outside_def split: prod.splits)

lemma reqOpts_upd_opts [simp]: "reqOpts (upd_opts f s) = f (reqOpts s)"
  by (simp add: upd_opts_def)

lemma outside_upd_opts [simp]: "outside (upd_opts f s) = outside s"
  by (simp add: upd_opts_def)

section \<open>Steps on the options of a request\<close>

definition steps :: "(RequestOptions \<Rightarrow> RequestOptions \<Rightarrow> bool) \<Rightarrow> 'o gw tripper \<Rightarrow> bool" where
  "steps R t \<longleftrightarrow> (\<forall>req s. R (reqOpts s) (reqOpts (snd (t req s))))"

definition steps_mw :: "(RequestOptions \<Rightarrow> RequestOptions \<Rightarrow> bool) \<Rightarrow> 'o gw mw \<Rightarrow> bool" where
  "steps_mw R m \<longleftrightarrow> (\<forall>next. steps R next \<longrightarrow> steps R (m next))"

definition steps_factory :: "(RequestOptions \<Rightarrow> RequestOptions \<Rightarrow> bool) \<Rightarrow> 'o factory \<Rightarrow> bool" where
  "steps_factory R f \<longleftrightarrow> (\<forall>c s m s'. f c s = (Inr m, s') \<longrightarrow> steps_mw R m)"

definition steps_clients :: "(RequestOptions \<Rightarrow> RequestOptions \<Rightarrow> bool) \<Rightarrow> 'o client_factory \<Rightarrow> bool" where
  "steps_clients R clients \<longleftrightarrow> (\<forall>ep s t c s'. clients ep s = (Inr (t, c), s') \<longrightarrow> steps R t)"

lemma stepsD: "steps R t \<Longrightarrow> t req s = (r, s') \<Longrightarrow> R (reqOpts s) (reqOpts s')"
  unfolding steps_def by (metis snd_conv)

lemma stepsI: "(\<And>req s r s'. t req s = (r, s') \<Longrightarrow> R (reqOpts s) (reqOpts s')) \<Longrightarrow> steps R t"
  unfolding steps_def by (metis prod.collapse)

lemma steps_mwI:
  "(\<And>next req s r s'. steps R next \<Longrightarrow> m next req s = (r, s') \<Longrightarrow> R (reqOpts s) (reqOpts s')) \<Longrightarrow> steps_mw R m"
  unfolding steps_mw_def by (blast intro: stepsI)

locale opts_step =
  fixes R :: "RequestOptions \<Rightarrow> RequestOptions \<Rightarrow> bool"
  assumes same: "R r r"
    and last_before: "R (last_attempt r) r' = R r r'"
    and last_after: "R r (last_attempt r') = R r r'"
begin

lemma jwt_steps: "steps_mw R (jwt_handler e options)"
  by (rule steps_mwI) (auto simp: jwt_handler_def Let_def same dest: stepsD split: if_splits)

lemma cors_steps: "steps_mw R (cors_handler e options)"
  by (rule steps_mwI)
    (auto simp: cors_handler_def Let_def same dest: stepsD
      split: if_splits option.splits bool.splits prod.splits trip.splits)

lemma rewrite_steps: "steps_mw R (rewrite_handler options)"
  by (rule steps_mwI)
    (auto simp: rewrite_handler_def dest: stepsD split: prod.splits trip.splits option.splits)

lemma static_steps: "steps R (static_tripper resp)"
  by (rule stepsI) (simp add: static_tripper_def same)

lemma breaker_steps:
  assumes "steps R onBreak"
  shows "steps_mw R (breaker_handler b onBreak asserts)"
proof (rule steps_mwI)
  fix "next" req s r s'
  assume n: "steps R next" and eq: "breaker_handler b onBreak asserts next req s = (r, s')"
  obtain a s1 where a: "on_outside (br_Allow b) s = (a, s1)" by fastforce
  obtain r2 s2 where r2: "next req s1 = (r2, s2)" by fastforce
  have "R (reqOpts s) (reqOpts s2)" using stepsD [OF n r2] reqOpts_on_outside [OF a] by simp
  moreover have "onBreak req (set_outside (br_MarkFailed b) s1) = (r, s') \<Longrightarrow> R (reqOpts s) (reqOpts s')"
    using stepsD [OF assms] reqOpts_on_outside [OF a] by fastforce
  ultimately show "R (reqOpts s) (reqOpts s')"
    using eq a r2 by (auto simp: breaker_handler_def split: if_splits trip.splits)
qed

lemma onBreak_steps:
  assumes c: "steps_clients R clients" and eq: "makeOnBreakHandler clients opts s = (Inr t, s')"
  shows "steps R t"
proof (cases "cb_Action opts")
  case (ActionBackupService ep)
  obtain x s1 where x: "clients ep s = (x, s1)" by fastforce
  with eq ActionBackupService obtain cl where "x = Inr (t, cl)"
    by (cases x) (auto simp: makeOnBreakHandler_def)
  with c x show ?thesis unfolding steps_clients_def by blast
qed (use eq in \<open>auto simp: makeOnBreakHandler_def static_steps\<close>)

lemma empty_steps: "steps_mw R EmptyMiddleware"
  by (simp add: steps_mw_def EmptyMiddleware_def)

lemma wrap_steps: "(\<And>c m. f c = Inr m \<Longrightarrow> steps_mw R m) \<Longrightarrow> steps_factory R (wrapFactory f)"
  by (auto simp: steps_factory_def wrapFactory_def map_sum_Inr_iff)

lemma breaker_New_steps:
  assumes "steps_clients R clients"
  shows "steps_factory R (breaker_New e clients)"
  using onBreak_steps [OF assms]
  by (auto simp: steps_factory_def breaker_New_def intro!: breaker_steps split: sum.splits prod.splits)

lemma registered_steps:
  assumes "steps_clients R clients" "\<And>name f. other_factories e name = Some f \<Longrightarrow> steps_factory R f"
    and "globalRegistry e clients name = Some f"
  shows "steps_factory R f"
proof -
  have w: "steps_factory R (wrapFactory (jwt_Middleware e))"
    "steps_factory R (wrapFactory (cors_Middleware e))" "steps_factory R (wrapFactory (rewrite_Middleware e))"
    by (auto intro!: wrap_steps simp: map_sum_Inr_iff jwt_Middleware_def cors_Middleware_def rewrite_Middleware_def
        jwt_steps cors_steps rewrite_steps)
  then show ?thesis
    using assms breaker_New_steps [OF assms(1), of e]
    by (auto simp: globalRegistry_def RegisterV2_def mw_Register_def split: if_splits)
qed

lemma Create_steps:
  assumes "\<And>name f. reg name = Some f \<Longrightarrow> steps_factory R f"
  shows "steps_factory R (Create reg)"
  using assms
  by (auto simp: steps_factory_def Create_def getMiddleware_def empty_steps split: option.splits if_splits prod.splits sum.splits)
    blast+

lemma build_from_steps:
  "steps_factory R f \<Longrightarrow> steps R next \<Longrightarrow> build_from f ms next s = (Inr t, s') \<Longrightarrow> steps R t"
proof (induction ms arbitrary: "next" s)
  case (Cons m ms)
  obtain x s1 where x: "f m s = (x, s1)" by fastforce
  have "steps R (mw next)" if "x = Inr mw" for mw
    using Cons.prems(1,2) x that by (auto simp: steps_factory_def steps_mw_def)
  with Cons x show ?case by (cases x) (auto split: build_err.splits)
qed simp

text \<open>One attempt is a step, and \<open>n\<close> attempts are \<open>n\<close> steps.\<close>

lemma attempt_step:
  assumes t: "\<And>s. R (reqOpts s) (reqOpts (snd (trip req s)))"
    and eq: "attempt e rb st trip req i (l, s) = (r, s')"
  shows "R (reqOpts s) (reqOpts s')"
proof -
  obtain b l1 s1 where a: "admit e rb i (l, s) = (b, l1, s1)" by (metis prod_cases3)
  then have 1: "reqOpts s1 = reqOpts s"
    by (auto simp: admit_def markBreaker_def markFailed_def split: if_splits prod.splits allow.splits
        dest: reqOpts_on_outside)
  define s2 where "s2 = (if st_attempts st \<le> int i + 1 then upd_opts last_attempt s1 else s1)"
  have 2: "R (reqOpts s2) r = R (reqOpts s) r" "R (reqOpts s) (reqOpts s2)" for r
    using 1 by (auto simp: s2_def last_before last_after same)
  obtain r3 s3 where r3: "trip req (set_outside (WithTimeout e (st_perTryTimeout st)) s2) = (r3, s3)" by fastforce
  have 3: "R (reqOpts s) (reqOpts s3)"
    using t [of "set_outside (WithTimeout e (st_perTryTimeout st)) s2"] r3 2 by simp
  show ?thesis
    using eq 1 2(2) 3 same [of "reqOpts s"]
    by (auto simp: attempt_def a Let_def s2_def [symmetric] r3 markFailed_def markSuccess_def last_after
        split: bool.splits option.splits trip.splits if_splits)
qed

lemma same_pow: "(R ^^ n) r r"
  by (induction n) (auto intro: same)

lemma attempts_steps:
  assumes "\<And>s. R (reqOpts s) (reqOpts (snd (trip req s)))"
  shows "attempts_from e rb st trip req n i (l, s) = (r, s') \<Longrightarrow> (R ^^ n) (reqOpts s) (reqOpts s')"
proof (induction n arbitrary: i l s)
  case (Suc n)
  obtain x s1 where x: "attempt e rb st trip req i (l, s) = (x, s1)" by fastforce
  have 1: "R (reqOpts s) (reqOpts s1)" by (rule attempt_step [OF assms x])
  have "(R ^^ n) (reqOpts s1) (reqOpts s')"
    using Suc.prems Suc.IH by (auto simp: x same_pow split: option.splits sum.splits)
  with 1 show ?case by (rule relpowp_Suc_I2)
qed simp

lemma handle_steps:
  assumes "\<And>s. R (reqOpts s) (reqOpts (snd (trip ((setXFFHeader e req)\<lparr>rq_Body := b\<rparr>) s)))"
    and eq: "handle_unary e ep rb st trip req (Inr b) s = (r, s')"
  shows "(R ^^ nat (st_attempts st)) NewRequestOptions (reqOpts s')"
proof -
  define s0 where "s0 = set_outside (WithTimeout e (st_timeout st)) (s\<lparr>reqOpts := NewRequestOptions\<rparr>)"
  obtain x s1 where x: "run_attempts e rb st trip ((setXFFHeader e req)\<lparr>rq_Body := b\<rparr>) s0 = (x, s1)" by fastforce
  have "(R ^^ nat (st_attempts st)) NewRequestOptions (reqOpts s1)"
    using attempts_steps [OF assms(1) x [unfolded run_attempts_def]] by (simp add: s0_def)
  moreover have "reqOpts (DoneFunc e er s1) = reqOpts s1" for er
    by (simp add: DoneFunc_def split: option.splits)
  then have "write_response e resp s1 = (w, s') \<Longrightarrow> reqOpts s' = reqOpts s1" for resp w
    by (auto simp: write_response_def Let_def split: if_splits prod.splits option.splits)
  then have "reqOpts s' = reqOpts s1"
    using eq by (auto simp: handle_unary_def Let_def s0_def [symmetric] x split: option.splits prod.splits)
  ultimately show ?thesis by simp
qed

end

section \<open>Building\<close>

lemma buildEndpoint_unary:
  assumes "buildEndpoint e mws clients streamTripper proxyStream ep ms s = (Inr (h, c), s')" "\<not> ep_Stream ep"
  obtains cl s1 t1 s2 t2 s3 st rb where "clients ep s = (Inr (cl, c), s1)"
    "buildMiddleware mws (ep_Middlewares ep) cl s1 = (Inr t1, s2)" "buildMiddleware mws ms t1 s2 = (Inr t2, s3)"
    "prepareRetryStrategy (json_strings e) ep = Inr st" "h = handle_unary e ep rb st t2"
  using assms by (auto simp: buildEndpoint_def split: prod.splits sum.splits)

lemma strategy_attempts: "prepareRetryStrategy js ep = Inr st \<Longrightarrow> st_attempts st = calcAttempts ep"
  by (auto simp: prepareRetryStrategy_def split: if_splits sum.splits)

section \<open>Upstream calls\<close>

definition one_call :: "RequestOptions \<Rightarrow> RequestOptions \<Rightarrow> bool" where
  "one_call r r' \<longleftrightarrow> length (ro_Backends r') \<le> length (ro_Backends r) + 1 \<and>
     (length (ro_UpstreamStatusCode r) = length (ro_Backends r) \<longrightarrow>
      length (ro_UpstreamStatusCode r') = length (ro_Backends r'))"

interpretation calls: opts_step one_call
  by unfold_locales (auto simp: one_call_def last_attempt_def)

lemma client_one_call: "steps one_call (client_RoundTrip e sel)"
  by (rule stepsI)
    (auto simp: client_RoundTrip_def one_call_def chosen_def add_status_def
      split: prod.splits sum.splits dest!: reqOpts_on_outside)

lemma one_call_pow:
  "(one_call ^^ n) r r' \<Longrightarrow> length (ro_Backends r') \<le> length (ro_Backends r) + n \<and>
     (length (ro_UpstreamStatusCode r) = length (ro_Backends r) \<longrightarrow>
      length (ro_UpstreamStatusCode r') = length (ro_Backends r'))"
  by (induction n arbitrary: r') (fastforce simp: one_call_def)+

text \<open>A request that is answered before any backend is called.\<close>

definition no_call :: "RequestOptions \<Rightarrow> RequestOptions \<Rightarrow> bool" where
  "no_call r r' \<longleftrightarrow> ro_Backends r' = ro_Backends r"

interpretation silent: opts_step no_call
  by unfold_locales (auto simp: no_call_def last_attempt_def)

lemma no_call_pow: "(no_call ^^ n) r r' \<Longrightarrow> ro_Backends r' = ro_Backends r"
  by (induction n arbitrary: r') (auto simp: no_call_def)

definition closed :: "response \<Rightarrow> response" where
  "closed resp = resp\<lparr>rs_Body := close_body (rs_Body resp)\<rparr>"

lemma closed_unauthorized: "closed (buildUnauthorizedResp msg) = buildUnauthorizedResp msg"
  by (simp add: closed_def buildUnauthorizedResp_def)

text \<open>No backend is called a second time before all have been.\<close>

definition fresh :: "node list \<Rightarrow> RequestOptions \<Rightarrow> bool" where
  "fresh nodes r \<longleftrightarrow> distinct (ro_Backends r) \<or> nd_address ` set nodes \<subseteq> set (ro_Backends r)"

definition keeps_fresh :: "node list \<Rightarrow> RequestOptions \<Rightarrow> RequestOptions \<Rightarrow> bool" where
  "keeps_fresh nodes r r' \<longleftrightarrow> (fresh nodes r \<longrightarrow> fresh nodes r')"

interpretation fresh: opts_step "keeps_fresh nodes" for nodes
  by unfold_locales (auto simp: keeps_fresh_def fresh_def last_attempt_def)

text \<open>A selector over a fixed list of nodes picks one of those its filter leaves.\<close>

definition picks_from :: "node list \<Rightarrow> 'o selector \<Rightarrow> bool" where
  "picks_from nodes sel \<longleftrightarrow> (\<forall>f o1 n p o2. sel f o1 = (Inr (n, p), o2) \<longrightarrow> n \<in> set (f nodes))"

lemma retry_filter_fresh:
  assumes "n \<in> set (retry_filter r nodes)" "fresh nodes r"
  shows "fresh nodes (chosen n r)"
  using assms
  by (auto simp: fresh_def chosen_def retry_filter_def Let_def filter_empty_conv split: if_splits)

lemma client_fresh:
  assumes "picks_from nodes sel"
  shows "steps (keeps_fresh nodes) (client_RoundTrip e sel)"
proof (rule stepsI)
  fix req s r s' assume eq: "client_RoundTrip e sel req s = (r, s')"
  obtain x s1 where x: "on_outside (sel (retry_filter (reqOpts s))) s = (x, s1)" by fastforce
  then have r1: "reqOpts s1 = reqOpts s" by (rule reqOpts_on_outside)
  show "keeps_fresh nodes (reqOpts s) (reqOpts s')"
  proof (cases x)
    case (Inl er)
    with eq x r1 show ?thesis by (simp add: client_RoundTrip_def fresh.same)
  next
    case (Inr np)
    then obtain n p where np: "x = Inr (n, p)" by (cases np) auto
    with x assms have n: "n \<in> set (retry_filter (reqOpts s) nodes)"
      unfolding on_outside_def picks_from_def by (auto split: prod.splits) blast
    have "ro_Backends (reqOpts s') = ro_Backends (chosen n (reqOpts s))"
      using eq by (auto simp: client_RoundTrip_def x np r1 add_status_def split: prod.splits sum.splits dest!: reqOpts_on_outside)
    with retry_filter_fresh [OF n] show ?thesis by (simp add: keeps_fresh_def fresh_def)
  qed
qed

lemma keeps_fresh_pow: "(keeps_fresh nodes ^^ n) r r' \<Longrightarrow> fresh nodes r \<Longrightarrow> fresh nodes r'"
  by (induction n arbitrary: r') (auto simp: keeps_fresh_def)

section \<open>The outcome of the attempts\<close>

text \<open>
  A response the loop may end with: one of the round trip, closed when its conditions ask for a
  retry. After at least one attempt the loop variables hold an error or such a response.
\<close>

definition final_response :: "retryStrategy \<Rightarrow> 'o gw tripper \<Rightarrow> request \<Rightarrow> response \<Rightarrow> bool" where
  "final_response st trip req r \<longleftrightarrow> (\<exists>s resp s'. trip req s = (Reply resp, s') \<and>
     r = (if judgeRetryRequired (st_conditions st) resp then closed resp else resp))"

definition settled :: "retryStrategy \<Rightarrow> 'o gw tripper \<Rightarrow> request \<Rightarrow> loop \<Rightarrow> bool" where
  "settled st trip req l \<longleftrightarrow> (lp_err l = None \<longrightarrow> (\<exists>resp. lp_resp l = Some resp \<and> final_response st trip req resp))"

lemma settled_marks [simp]: "settled st trip req (l\<lparr>lp_marks := ms\<rparr>) = settled st trip req l"
  by (simp add: settled_def)

lemma settled_err [simp]: "settled st trip req (l\<lparr>lp_err := Some er\<rparr>)"
  by (simp add: settled_def)

lemma settled_resp [simp]: "settled st trip req (l\<lparr>lp_resp := Some resp, lp_err := None\<rparr>) = final_response st trip req resp"
  by (simp add: settled_def)

lemma final_responseI:
  assumes "trip req s = (Reply resp, s')"
  shows "judgeRetryRequired (st_conditions st) resp \<Longrightarrow> final_response st trip req (closed resp)"
    and "\<not> judgeRetryRequired (st_conditions st) resp \<Longrightarrow> final_response st trip req resp"
  using assms unfolding final_response_def by metis+

lemma attempt_settled:
  assumes l: "i = 0 \<or> settled st trip req l" and eq: "attempt e rb st trip req i (l, s) = (Some r, s')"
  shows "settled st trip req (case r of Inl l' \<Rightarrow> l' | Inr l' \<Rightarrow> l')"
proof -
  obtain b l1 s1 where a: "admit e rb i (l, s) = (b, l1, s1)" by (metis prod_cases3)
  have 1: "\<not> b \<Longrightarrow> settled st trip req l1"
    using a l by (auto simp: admit_def markBreaker_def markFailed_def split: if_splits prod.splits allow.splits)
  define s2 where "s2 = (if st_attempts st \<le> int i + 1 then upd_opts last_attempt s1 else s1)"
  obtain r3 s3 where r3: "trip req (set_outside (WithTimeout e (st_perTryTimeout st)) s2) = (r3, s3)" by fastforce
  have F: "r3 = Reply resp \<Longrightarrow> if judgeRetryRequired (st_conditions st) resp
      then final_response st trip req (closed resp) else final_response st trip req resp" for resp
    using r3 final_responseI by (auto split: if_splits)
  show ?thesis
    using eq 1 F
    by (auto simp: attempt_def a Let_def s2_def [symmetric] r3 markFailed_def markSuccess_def closed_def [symmetric]
        split: bool.splits option.splits trip.splits if_splits)
qed

lemma attempts_settled:
  "attempts_from e rb st trip req n i (l, s) = (Some l', s') \<Longrightarrow> 0 < n \<and> i = 0 \<or> settled st trip req l \<Longrightarrow>
     settled st trip req l'"
proof (induction n arbitrary: i l s)
  case (Suc n)
  obtain x s1 where x: "attempt e rb st trip req i (l, s) = (x, s1)" by fastforce
  from Suc.prems(1) obtain r where r: "x = Some r" by (cases x) (auto simp: x)
  have "settled st trip req (case r of Inl l' \<Rightarrow> l' | Inr l' \<Rightarrow> l')"
    using attempt_settled [of i st trip req l e rb s r s1] x r Suc.prems(2) by auto
  with Suc.prems(1) Suc.IH show ?case by (auto simp: x r split: sum.splits)
qed auto

lemma attempts_no_panic:
  assumes "\<And>s. fst (trip req s) \<noteq> Panics"
  shows "fst (attempts_from e rb st trip req n i (l, s)) \<noteq> None"
proof (induction n arbitrary: i l s)
  case (Suc n)
  obtain x s1 where x: "attempt e rb st trip req i (l, s) = (x, s1)" by fastforce
  have "x \<noteq> None"
  proof
    assume "x = None"
    then obtain s2 s3 where "trip req s2 = (Panics, s3)"
      using x by (auto simp: attempt_def Let_def split: prod.splits bool.splits option.splits trip.splits if_splits)
    with assms [of s2] show False by simp
  qed
  with Suc x show ?case by (auto split: sum.splits)
qed simp

text \<open>
  The answer to the caller: an error answer, or what is written of a response the round trip gave,
  closed before it is copied when its conditions asked for a retry.
\<close>

lemma handle_cases:
  assumes a: "1 \<le> st_attempts st" and np: "\<And>s. fst (trip ((setXFFHeader e req)\<lparr>rq_Body := b\<rparr>) s) \<noteq> Panics"
    and eq: "handle_unary e ep rb st trip req (Inr b) s = (r, s')"
  shows "(\<exists>er. r = Some (writeError e ep er)) \<or>
    (\<exists>resp s1 w. final_response st trip ((setXFFHeader e req)\<lparr>rq_Body := b\<rparr>) resp \<and> r = Some w \<and> write_response e resp s1 = (w, s'))"
proof -
  define s0 where "s0 = set_outside (WithTimeout e (st_timeout st)) (s\<lparr>reqOpts := NewRequestOptions\<rparr>)"
  obtain x s1 where x: "run_attempts e rb st trip ((setXFFHeader e req)\<lparr>rq_Body := b\<rparr>) s0 = (x, s1)" by fastforce
  from x np obtain l where l: "x = Some l"
    using attempts_no_panic [of trip "(setXFFHeader e req)\<lparr>rq_Body := b\<rparr>"] unfolding run_attempts_def
    by (metis fst_conv option.exhaust)
  have "settled st trip ((setXFFHeader e req)\<lparr>rq_Body := b\<rparr>) l"
    by (rule attempts_settled [OF x [unfolded run_attempts_def l]]) (use a in auto)
  then show ?thesis
    using eq by (auto simp: handle_unary_def Let_def s0_def [symmetric] x l settled_def split: option.splits prod.splits)
qed

section \<open>The jwt guard\<close>

text \<open>A request the jwt middleware lets pass: a public path, or a valid token in the header.\<close>

definition admitted :: "('o, 'x) gw_env_scheme \<Rightarrow> Jwt \<Rightarrow> request \<Rightarrow> 'o \<Rightarrow> bool" where
  "admitted e options req o' \<longleftrightarrow> isPublicPath (rq_Path req) (jwt_publicPaths options) \<or>
     (\<exists>tok. header_Get (rq_Header req) ''Authorization'' = ''Bearer '' @ tok \<and>
        jwt_Parse e o' tok (jwt_keyfunc (jw_Secret options)) = Inr True)"

lemma jwt_refuses:
  assumes "\<not> admitted e options req (outside s)"
  shows "\<exists>msg. jwt_handler e options next req s = (Reply (buildUnauthorizedResp msg), s)"
proof -
  let ?a = "header_Get (rq_Header req) ''Authorization''"
  have p: "TrimPrefix ?a ''Bearer '' \<noteq> ?a \<Longrightarrow> ?a = ''Bearer '' @ TrimPrefix ?a ''Bearer ''"
    using HasPrefix_append [of ?a "''Bearer ''"] by (auto simp: TrimPrefix_def split: if_splits)
  then have "TrimPrefix ?a ''Bearer '' = ?a \<or>
      jwt_Parse e (outside s) (TrimPrefix ?a ''Bearer '') (jwt_keyfunc (jw_Secret options)) \<noteq> Inr True"
    using assms unfolding admitted_def by metis
  with assms show ?thesis by (auto simp: jwt_handler_def Let_def admitted_def)
qed

lemma jwt_passes: "admitted e options req (outside s) \<Longrightarrow> jwt_handler e options next req s = next req s"
  by (auto simp: jwt_handler_def admitted_def Let_def TrimPrefix_def)

text \<open>A handler whose round trips are all refused calls no backend and answers 401 or an error.\<close>

lemma refused_handled:
  assumes t: "\<And>s. \<exists>msg. trip ((setXFFHeader e req)\<lparr>rq_Body := b\<rparr>) s = (Reply (buildUnauthorizedResp msg), s)"
    and a: "1 \<le> st_attempts st" and r: "handle_unary e ep rb st trip req (Inr b) s = (r, s')"
  shows "ro_Backends (reqOpts s') = [] \<and>
    ((\<exists>er. r = Some (writeError e ep er)) \<or> (\<exists>w. r = Some w \<and> w_Status w = 401 \<and> \<not> w_Broken w))"
proof
  have "(no_call ^^ nat (st_attempts st)) NewRequestOptions (reqOpts s')"
    by (rule silent.handle_steps [OF _ r]) (metis t snd_conv silent.same)
  then show "ro_Backends (reqOpts s') = []" by (simp add: no_call_pow NewRequestOptions_def)
next
  have np: "fst (trip ((setXFFHeader e req)\<lparr>rq_Body := b\<rparr>) s) \<noteq> Panics" for s
    using t [of s] by auto
  show "(\<exists>er. r = Some (writeError e ep er)) \<or> (\<exists>w. r = Some w \<and> w_Status w = 401 \<and> \<not> w_Broken w)"
    using handle_cases [OF a np r]
  proof (elim disjE exE conjE)
    fix resp s1 w
    assume "final_response st trip ((setXFFHeader e req)\<lparr>rq_Body := b\<rparr>) resp"
      and w: "r = Some w" "write_response e resp s1 = (w, s')"
    then obtain msg where "resp = buildUnauthorizedResp msg"
      unfolding final_response_def using t closed_unauthorized by (metis prod.inject trip.inject(1))
    with w show ?thesis by (auto simp: buildUnauthorizedResp_def write_response_def)
  qed auto
qed

text \<open>The header added for the upstream does not touch the token.\<close>

lemma admitted_XFF [simp]:
  "admitted e options ((setXFFHeader e' req)\<lparr>rq_Body := b\<rparr>) o' = admitted e options req o'"
proof -
  have "CanonicalHeaderKey ''X-Forwarded-For'' \<noteq> CanonicalHeaderKey ''Authorization''" by code_simp
  then have "header_Get (rq_Header (setXFFHeader e' req)) ''Authorization'' = header_Get (rq_Header req) ''Authorization''"
    by (simp add: setXFFHeader_def Let_def header_Get_Set_other split: option.splits)
  moreover have "rq_Path (setXFFHeader e' req) = rq_Path req"
    by (simp add: setXFFHeader_def Let_def split: option.splits)
  ultimately show ?thesis by (simp add: admitted_def)
qed

lemma build_from_append:
  "build_from f (ms @ ms') next s = (case build_from f ms next s of
     (Inl er, s1) \<Rightarrow> (Inl er, s1) | (Inr t1, s1) \<Rightarrow> build_from f ms' t1 s1)"
  by (induction ms arbitrary: "next" s) (auto split: prod.splits sum.splits build_err.splits)

text \<open>A required jwt middleware at the head of a list is the outermost layer of what is built.\<close>

lemma registered_jwt [simp]: "getMiddleware (globalRegistry e clients) (createFullName ''jwt'') = Some (wrapFactory (jwt_Middleware e))"
proof -
  have "ToLower (createFullName ''jwt'') = createFullName ''jwt''" "createFullName ''jwt'' \<noteq> createFullName ''circuitbreaker''"
    "createFullName ''jwt'' \<noteq> createFullName ''rewrite''"
    by code_simp+
  then show ?thesis by (simp add: getMiddleware_def globalRegistry_def RegisterV2_def mw_Register_def)
qed

lemma required_jwt_outermost:
  assumes b: "buildMiddleware (Create (globalRegistry e clients)) (c # ms) next s = (Inr t, s')"
    and c: "mc_Name c = ''jwt''" "mc_Required c"
  shows "\<exists>options t1. jwtOptions e c = Inr options \<and> t = jwt_handler e options t1"
proof -
  obtain x s1 where x: "build_from (Create (globalRegistry e clients)) (rev ms) next s = (x, s1)" by fastforce
  with b obtain t1 where t1: "x = Inr t1"
    by (cases x) (auto simp: buildMiddleware_def build_from_append)
  with b x have "build_from (Create (globalRegistry e clients)) [c] t1 s1 = (Inr t, s')"
    by (simp add: buildMiddleware_def build_from_append)
  then show ?thesis
    by (cases "jwtOptions e c") (auto simp: Create_def c wrapFactory_def jwt_Middleware_def)
qed

section \<open>Origins\<close>

text \<open>A host pattern is a host name or, after a star, the end of one.\<close>

definition host_matches :: "string \<Rightarrow> string \<Rightarrow> bool" where
  "host_matches hostname pattern =
     (if hd (ToLower pattern) = CHR ''*'' then HasSuffix hostname (tl (ToLower pattern)) else hostname = ToLower pattern)"

lemma ToLower_Nil [simp]: "ToLower s = [] \<longleftrightarrow> s = []"
  by (simp add: ToLower_def)

lemma TrimPrefix_star: "s \<noteq> [] \<Longrightarrow> hd s = CHR ''*'' \<Longrightarrow> TrimPrefix s ''*'' = tl s"
  by (cases s) (auto simp: TrimPrefix_def)

lemma origin_matches_iff:
  "'''' \<notin> set hosts \<Longrightarrow> origin_matches hostname hosts = Some (\<exists>h\<in>set hosts. host_matches hostname h)"
  by (induction hosts) (auto simp: host_matches_def TrimPrefix_star Let_def)

end
