(* ===== verification/GatewayWatch.thy ===== *)
theory GatewayWatch
  imports GatewayHttp
begin

text \<open>
  The configuration loader (\<^verbatim>\<open>app/gateway/config/config.go\<close>) and the service watcher
  (\<^verbatim>\<open>client/servicewatch.go\<close>). Files and their digests, YAML and protobuf decoding and the discovery
  are parameters: the outcome of reading a file or of waiting for the next list of services.
\<close>

section \<open>Merging priority configurations\<close>

definition keyFn :: "Endpoint \<Rightarrow> string" where
  "keyFn e = ep_Method e @ ''-'' @ ep_Path e"

text \<open>The index: of several endpoints with one key the last position counts.\<close>

fun index_from :: "nat \<Rightarrow> Endpoint list \<Rightarrow> (string \<rightharpoonup> nat) \<Rightarrow> (string \<rightharpoonup> nat)" where
  "index_from i [] m = m"
| "index_from i (e # es) m = index_from (Suc i) es (m(keyFn e \<mapsto> i))"

definition make_index :: "Endpoint list \<Rightarrow> (string \<rightharpoonup> nat)" where
  "make_index origin = index_from 0 origin Map.empty"

definition replaceOrPrepend :: "(string \<rightharpoonup> nat) \<Rightarrow> Endpoint list \<Rightarrow> Endpoint \<Rightarrow> Endpoint list" where
  "replaceOrPrepend index dst item = (case index (keyFn item) of
     None \<Rightarrow> item # dst
   | Some idx \<Rightarrow> dst[idx := item])"

text \<open>An entry of the priority directory, with what parsing it gives.\<close>

record dir_entry =
  de_Name :: string
  de_IsDir :: bool
  de_Config :: "gw_err + Endpoint list"

definition is_yaml :: "string \<Rightarrow> bool" where
  "is_yaml name = HasSuffix name ''.yaml''"

fun merge_entries :: "(string \<rightharpoonup> nat) \<Rightarrow> dir_entry list \<Rightarrow> Endpoint list \<Rightarrow> Endpoint list" where
  "merge_entries index [] dst = dst"
| "merge_entries index (en # es) dst =
     (if de_IsDir en \<or> \<not> is_yaml (de_Name en) then merge_entries index es dst
      else case de_Config en of
        Inl _ \<Rightarrow> merge_entries index es dst
      | Inr endpoints \<Rightarrow> merge_entries index es (foldl (replaceOrPrepend index) dst endpoints))"

text \<open>\<open>dirs\<close> is None when no priority directory is configured, and an error when it cannot be read.\<close>

definition mergePriorityConfig :: "(gw_err + dir_entry list) option \<Rightarrow> Gateway \<Rightarrow> gw_err option \<times> Gateway" where
  "mergePriorityConfig dirs dst = (case dirs of
     None \<Rightarrow> (None, dst)
   | Some (Inl er) \<Rightarrow> (Some er, dst)
   | Some (Inr entrys) \<Rightarrow>
       (None, dst\<lparr>gw_Endpoints := merge_entries (make_index (gw_Endpoints dst)) entrys (gw_Endpoints dst)\<rparr>))"

definition loader_Load :: "gw_err + Gateway \<Rightarrow> (gw_err + dir_entry list) option \<Rightarrow> gw_err + Gateway" where
  "loader_Load main dirs = (case main of
     Inl er \<Rightarrow> Inl er
   | Inr out \<Rightarrow> Inr (snd (mergePriorityConfig dirs out)))"

section \<open>Watching the configuration\<close>

text \<open>
  The recorded digests; a priority digest is the list of file names and digests in directory
  order, or None, the nil map that stands for a directory that could not be read.
\<close>

record FileLoader =
  fl_confSHA256 :: string
  fl_priorityConfigHash :: "(string \<times> string) list option"

text \<open>A handler: it changes the state of the gateway and may fail.\<close>

type_synonym 's on_change = "'s \<Rightarrow> gw_err option \<times> 's"

fun executeLoader_from :: "gw_err option \<Rightarrow> 's on_change list \<Rightarrow> 's \<Rightarrow> gw_err option \<times> 's" where
  "executeLoader_from chained [] s = (chained, s)"
| "executeLoader_from chained (fn # fns) s = (case fn s of
     (Some er, s') \<Rightarrow> executeLoader_from (Some (plain_err (ge_Text er))) fns s'
   | (None, s') \<Rightarrow> executeLoader_from chained fns s')"

definition executeLoader :: "'s on_change list \<Rightarrow> 's \<Rightarrow> gw_err option \<times> 's" where
  "executeLoader fns s = executeLoader_from None fns s"

text \<open>One round of \<^verbatim>\<open>watchproc\<close>; \<open>sha\<close> is the outcome of \<^verbatim>\<open>configSHA256\<close>.\<close>

definition watch_round :: "gw_err + string \<times> (string \<times> string) list option \<Rightarrow> 's on_change list \<Rightarrow>
    FileLoader \<times> 's \<Rightarrow> FileLoader \<times> 's" where
  "watch_round sha fns = (\<lambda>(f, s). case sha of
     Inl _ \<Rightarrow> (f, s)
   | Inr (sha256hex, pfHash) \<Rightarrow>
       if sha256hex \<noteq> fl_confSHA256 f \<or> pfHash \<noteq> fl_priorityConfigHash f then
         (case executeLoader fns s of
            (Some er, s') \<Rightarrow> (f, s')
          | (None, s') \<Rightarrow> (f\<lparr>fl_confSHA256 := sha256hex, fl_priorityConfigHash := pfHash\<rparr>, s'))
       else (f, s))"

section \<open>Service watcher\<close>

text \<open>
  The appliers of an endpoint are registered under fresh ids; \<open>ap_services\<close> are the services an
  applier was last given (\<^verbatim>\<open>Callback\<close> ignores an empty list). \<open>'svc\<close> is a service instance. The maps
  are lists in the order in which \<^verbatim>\<open>range\<close> visits them, which Go leaves open. \<open>sw_pending\<close> is the
  list of services a watch goroutine has put into the cache and not yet handed to the appliers.
\<close>

record 'svc applier =
  ap_id :: nat
  ap_canceled :: bool
  ap_services :: "'svc list"

record 'svc serviceWatcher =
  sw_selected :: "string \<rightharpoonup> 'svc list"
  sw_appliers :: "string \<Rightarrow> 'svc applier list"
  sw_pending :: "string \<rightharpoonup> 'svc list"

definition applier_give :: "'svc list \<Rightarrow> 'svc applier \<Rightarrow> 'svc applier" where
  "applier_give services a =
     (if ap_canceled a \<or> services = [] then a else a\<lparr>ap_services := services\<rparr>)"

text \<open>
  \<^verbatim>\<open>Add\<close> for a new applier. \<open>watch_ok\<close> says whether \<^verbatim>\<open>discovery.Watch\<close> succeeded and \<open>initial\<close> is what the
  initial discovery gave: empty when it failed or timed out. The boolean is \<^verbatim>\<open>watcherExisted\<close>.
\<close>

definition watcher_Add :: "string \<Rightarrow> nat \<Rightarrow> bool \<Rightarrow> 'svc list \<Rightarrow> 'svc serviceWatcher \<Rightarrow> bool \<times> 'svc serviceWatcher" where
  "watcher_Add endpoint aid watch_ok initial s =
     (let a = \<lparr>ap_id = aid, ap_canceled = False, ap_services = []\<rparr>
      in case sw_selected s endpoint of
           Some services \<Rightarrow>
             (True, s\<lparr>sw_appliers := (sw_appliers s)(endpoint := sw_appliers s endpoint @ [applier_give services a])\<rparr>)
         | None \<Rightarrow>
             if \<not> watch_ok then
               (False, s\<lparr>sw_appliers := (sw_appliers s)(endpoint := sw_appliers s endpoint @ [a])\<rparr>)
             else
               (False, s\<lparr>sw_selected := (sw_selected s)(endpoint \<mapsto> initial),
                         sw_appliers := (sw_appliers s)(endpoint := sw_appliers s endpoint @ [applier_give initial a])\<rparr>))"

text \<open>A round of the watch goroutine: an error or an empty list changes nothing.\<close>

definition setSelectedCache :: "string \<Rightarrow> 'svc list \<Rightarrow> 'svc serviceWatcher \<Rightarrow> 'svc serviceWatcher" where
  "setSelectedCache endpoint services s = s\<lparr>sw_selected := (sw_selected s)(endpoint \<mapsto> services),
     sw_pending := (sw_pending s)(endpoint \<mapsto> services)\<rparr>"

definition watch_Next :: "string \<Rightarrow> gw_err + 'svc list \<Rightarrow> 'svc serviceWatcher \<Rightarrow> 'svc serviceWatcher" where
  "watch_Next endpoint answer s = (case answer of
     Inl _ \<Rightarrow> s
   | Inr services \<Rightarrow> if services = [] then s else setSelectedCache endpoint services s)"

definition doCallback :: "string \<Rightarrow> 'svc list \<Rightarrow> 'svc serviceWatcher \<Rightarrow> 'svc serviceWatcher" where
  "doCallback endpoint services s =
     s\<lparr>sw_appliers := (sw_appliers s)(endpoint := map (applier_give services) (sw_appliers s endpoint)),
       sw_pending := (sw_pending s)(endpoint := None)\<rparr>"

definition applier_Cancel :: "nat \<Rightarrow> 'svc serviceWatcher \<Rightarrow> 'svc serviceWatcher" where
  "applier_Cancel aid s = s\<lparr>sw_appliers := (\<lambda>endpoint.
     map (\<lambda>a. if ap_id a = aid then a\<lparr>ap_canceled := True\<rparr> else a) (sw_appliers s endpoint))\<rparr>"

text \<open>\<^verbatim>\<open>doCleanup\<close> over the endpoints in the given order: it returns at the first with nothing to clean.\<close>

fun doCleanup :: "string list \<Rightarrow> 'svc serviceWatcher \<Rightarrow> 'svc serviceWatcher" where
  "doCleanup [] s = s"
| "doCleanup (endpoint # es) s =
     (if filter ap_canceled (sw_appliers s endpoint) = [] then s
      else doCleanup es (s\<lparr>sw_appliers := (sw_appliers s)
             (endpoint := filter (\<lambda>a. \<not> ap_canceled a) (sw_appliers s endpoint))\<rparr>))"

text \<open>
  The steps of the watcher, interleaved in any order: one goroutine an endpoint waits for services,
  and only with its last list handed out; appliers are added and cancelled by configuration
  updates, and cleaned up by a timer.
\<close>

inductive watch_step :: "'svc serviceWatcher \<Rightarrow> 'svc serviceWatcher \<Rightarrow> bool" where
  Add: "watch_step s (snd (watcher_Add endpoint aid watch_ok initial s))"
| Next: "sw_selected s endpoint \<noteq> None \<Longrightarrow> sw_pending s endpoint = None \<Longrightarrow> watch_step s (watch_Next endpoint answer s)"
| Callback: "sw_pending s endpoint = Some services \<Longrightarrow> watch_step s (doCallback endpoint services s)"
| Cancel: "watch_step s (applier_Cancel aid s)"
| Cleanup: "watch_step s (doCleanup endpoints s)"

inductive_cases watch_stepE: "watch_step s s'"

definition newServiceWatcher :: "'svc serviceWatcher" where
  "newServiceWatcher = \<lparr>sw_selected = Map.empty, sw_appliers = (\<lambda>_. []), sw_pending = Map.empty\<rparr>"

section \<open>Facts: merging\<close>

lemma index_from_dom: "index_from i es m k = Some j \<Longrightarrow> m k = Some j \<or> i \<le> j \<and> j < i + length es"
  by (induction es arbitrary: i m) (fastforce split: if_splits)+

lemma make_index_bound: "make_index origin k = Some j \<Longrightarrow> j < length origin"
  using index_from_dom [of 0 origin Map.empty k j] by (simp add: make_index_def)

lemma index_from_other: "k \<notin> keyFn ` set es \<Longrightarrow> index_from i es m k = m k"
  by (induction es arbitrary: i m) auto

lemma index_from_nth:
  "distinct (map keyFn es) \<Longrightarrow> j < length es \<Longrightarrow> index_from i es m (keyFn (es ! j)) = Some (i + j)"
proof (induction es arbitrary: i j m)
  case (Cons e es)
  then show ?case by (cases j) (auto simp: index_from_other)
qed simp

lemma make_index_nth: "distinct (map keyFn origin) \<Longrightarrow> j < length origin \<Longrightarrow> make_index origin (keyFn (origin ! j)) = Some j"
  using index_from_nth [of origin j 0] by (simp add: make_index_def)

text \<open>What merging means: every endpoint gives way to the last item with its key.\<close>

definition override :: "Endpoint list \<Rightarrow> Endpoint \<Rightarrow> Endpoint" where
  "override items e = (case find (\<lambda>it. keyFn it = keyFn e) (rev items) of None \<Rightarrow> e | Some it \<Rightarrow> it)"

lemma override_snoc: "override (items @ [it]) e = (if keyFn it = keyFn e then it else override items e)"
  by (simp add: override_def)

lemma keyFn_override: "keyFn (override items e) = keyFn e"
  by (auto simp: override_def find_Some_iff split: option.splits)

lemma replace_all:
  assumes d: "distinct (map keyFn origin)"
  shows "\<forall>it\<in>set items. keyFn it \<in> keyFn ` set origin \<Longrightarrow>
    foldl (replaceOrPrepend (make_index origin)) origin items = map (override items) origin"
proof (induction items rule: rev_induct)
  case (snoc it items)
  then obtain j where j: "j < length origin" "keyFn it = keyFn (origin ! j)"
    by (auto simp: in_set_conv_nth)
  have "map (override (items @ [it])) origin = (map (override items) origin)[j := it]"
  proof (rule nth_equalityI)
    fix i assume i: "i < length (map (override (items @ [it])) origin)"
    have "keyFn it = keyFn (origin ! i) \<longleftrightarrow> i = j"
      using d i j by (auto simp: distinct_conv_nth)
    with i j show "map (override (items @ [it])) origin ! i = (map (override items) origin)[j := it] ! i"
      by (auto simp: override_snoc nth_list_update)
  qed simp
  with snoc j show ?case by (simp add: replaceOrPrepend_def make_index_nth [OF d])
qed (simp add: override_def map_idI)

section \<open>Facts: watching\<close>

lemma executeLoader_from_error: "fst (executeLoader_from (Some er) fns s) \<noteq> None"
  by (induction fns arbitrary: er s) (auto split: prod.splits option.splits)

text \<open>With unchanged files, rounds run the handlers until they succeed once and not again.\<close>

lemma rounds_idle: "fl_confSHA256 f = h \<Longrightarrow> fl_priorityConfigHash f = p \<Longrightarrow> (watch_round (Inr (h, p)) fns ^^ n) (f, s) = (f, s)"
  by (induction n) (simp_all add: watch_round_def)

lemma round_changed:
  assumes "h \<noteq> fl_confSHA256 f \<or> p \<noteq> fl_priorityConfigHash f"
  shows "watch_round (Inr (h, p)) fns (f, s) = (case executeLoader fns s of
     (Some er, s') \<Rightarrow> (f, s')
   | (None, s') \<Rightarrow> (f\<lparr>fl_confSHA256 := h, fl_priorityConfigHash := p\<rparr>, s'))"
  using assms by (simp add: watch_round_def split: prod.splits option.splits)

definition reload :: "'s on_change list \<Rightarrow> 's \<Rightarrow> 's" where
  "reload fns s = snd (executeLoader fns s)"

lemma rounds_until_success:
  assumes "h \<noteq> fl_confSHA256 f \<or> p \<noteq> fl_priorityConfigHash f"
    and "\<And>i. i < j \<Longrightarrow> fst (executeLoader fns ((reload fns ^^ i) s)) \<noteq> None"
    and "fst (executeLoader fns ((reload fns ^^ j) s)) = None"
  shows "(watch_round (Inr (h, p)) fns ^^ (n + Suc j)) (f, s) =
    (f\<lparr>fl_confSHA256 := h, fl_priorityConfigHash := p\<rparr>, (reload fns ^^ Suc j) s)"
proof -
  have run: "watch_round (Inr (h, p)) fns (f, s) = (if fst (executeLoader fns s) = None
      then (f\<lparr>fl_confSHA256 := h, fl_priorityConfigHash := p\<rparr>, reload fns s) else (f, reload fns s))" for s
    by (auto simp: round_changed [OF assms(1)] reload_def split: prod.splits option.splits)
  have k: "k \<le> j \<Longrightarrow> (watch_round (Inr (h, p)) fns ^^ k) (f, s) = (f, (reload fns ^^ k) s)" for k
    by (induction k) (auto simp: run assms(2))
  have "(watch_round (Inr (h, p)) fns ^^ Suc j) (f, s) =
      (f\<lparr>fl_confSHA256 := h, fl_priorityConfigHash := p\<rparr>, (reload fns ^^ Suc j) s)"
    using k [of j] by (simp add: run assms(3))
  then show ?thesis
    by (simp only: funpow_add o_apply) (simp add: rounds_idle)
qed

section \<open>Facts: appliers\<close>

text \<open>
  No list of services is lost: whenever an endpoint has none waiting to be handed out, a live
  applier registered with it holds the cached list, or has been given none yet.
\<close>

definition in_sync :: "'svc serviceWatcher \<Rightarrow> bool" where
  "in_sync s \<longleftrightarrow> (\<forall>endpoint. case sw_pending s endpoint of
       Some p \<Rightarrow> sw_selected s endpoint = Some p \<and> p \<noteq> []
     | None \<Rightarrow> \<forall>a\<in>set (sw_appliers s endpoint). \<not> ap_canceled a \<longrightarrow>
         ap_services a = [] \<or> sw_selected s endpoint = Some (ap_services a))"

lemma in_syncD:
  assumes "in_sync s"
  shows "sw_pending s endpoint = Some p \<Longrightarrow> sw_selected s endpoint = Some p \<and> p \<noteq> []"
    and "sw_pending s endpoint = None \<Longrightarrow> a \<in> set (sw_appliers s endpoint) \<Longrightarrow> \<not> ap_canceled a \<Longrightarrow>
      ap_services a = [] \<or> sw_selected s endpoint = Some (ap_services a)"
  using spec [OF assms [unfolded in_sync_def], of endpoint] by auto

lemma in_syncI:
  assumes "\<And>endpoint p. sw_pending s endpoint = Some p \<Longrightarrow> sw_selected s endpoint = Some p \<and> p \<noteq> []"
    and "\<And>endpoint a. sw_pending s endpoint = None \<Longrightarrow> a \<in> set (sw_appliers s endpoint) \<Longrightarrow> \<not> ap_canceled a \<Longrightarrow>
      ap_services a = [] \<or> sw_selected s endpoint = Some (ap_services a)"
  shows "in_sync s"
  using assms unfolding in_sync_def by (auto split: option.splits)

lemma Add_sync: "in_sync s \<Longrightarrow> in_sync (snd (watcher_Add endpoint aid watch_ok initial s))"
  by (rule in_syncI)
    (auto simp: watcher_Add_def Let_def applier_give_def split: option.splits if_splits dest: in_syncD)

lemma Next_sync:
  "in_sync s \<Longrightarrow> sw_pending s endpoint = None \<Longrightarrow> in_sync (watch_Next endpoint answer s)"
  by (rule in_syncI)
    (auto simp: watch_Next_def setSelectedCache_def split: sum.splits if_splits dest: in_syncD)

lemma Callback_sync:
  "in_sync s \<Longrightarrow> sw_pending s endpoint = Some services \<Longrightarrow> in_sync (doCallback endpoint services s)"
  by (rule in_syncI) (auto simp: doCallback_def applier_give_def split: if_splits dest: in_syncD)

lemma Cancel_sync: "in_sync s \<Longrightarrow> in_sync (applier_Cancel aid s)"
  by (rule in_syncI) (auto simp: applier_Cancel_def split: if_splits dest: in_syncD)

lemma Cleanup_frame:
  "sw_selected (doCleanup es s) = sw_selected s" "sw_pending (doCleanup es s) = sw_pending s"
  by (induction es arbitrary: s) auto

lemma Cleanup_live:
  "filter (\<lambda>a. \<not> ap_canceled a) (sw_appliers (doCleanup es s) endpoint) = filter (\<lambda>a. \<not> ap_canceled a) (sw_appliers s endpoint)"
  by (induction es arbitrary: s) auto

lemma Cleanup_live_set:
  "a \<in> set (sw_appliers (doCleanup es s) endpoint) \<Longrightarrow> \<not> ap_canceled a \<Longrightarrow> a \<in> set (sw_appliers s endpoint)"
  using arg_cong [OF Cleanup_live [of es s endpoint], of set] by auto

lemma Cleanup_sync: "in_sync s \<Longrightarrow> in_sync (doCleanup es s)"
  by (rule in_syncI) (auto simp: Cleanup_frame dest: in_syncD Cleanup_live_set)

lemma step_sync: "watch_step s s' \<Longrightarrow> in_sync s \<Longrightarrow> in_sync s'"
  by (induction rule: watch_step.induct) (auto intro: Add_sync Next_sync Callback_sync Cancel_sync Cleanup_sync)

lemma reachable_sync: "watch_step\<^sup>*\<^sup>* newServiceWatcher s \<Longrightarrow> in_sync s"
proof (induction rule: rtranclp_induct)
  case base
  show ?case by (rule in_syncI) (simp_all add: newServiceWatcher_def)
qed (rule step_sync)

end
