(* ===== verification/GatewayProperties.thy ===== *)
theory GatewayProperties
  imports GatewayFacts GatewayWatch
begin

text \<open>
  The properties of the gateway. Each is a short step from the lemmas of \<open>GatewayHttp\<close>,
  \<open>GatewayFacts\<close> and \<open>GatewayWatch\<close>; the witnesses run the definitions on a small gateway with two
  backends.
\<close>

section \<open>The gateway as the program puts it together\<close>

text \<open>\<^verbatim>\<open>main\<close> passes \<^verbatim>\<open>client.NewFactory\<close> and \<^verbatim>\<open>middleware.Create\<close> to the proxy.\<close>

definition gateway_endpoint :: "'o px_env \<Rightarrow> ('o gw mw) \<Rightarrow> (Endpoint \<Rightarrow> 'o gw tripper \<Rightarrow> 'o handler) \<Rightarrow>
    Endpoint \<Rightarrow> mw_config list \<Rightarrow> 'o gw \<Rightarrow> (gw_err + 'o handler \<times> ('o gw \<Rightarrow> 'o gw)) \<times> 'o gw" where
  "gateway_endpoint e streamTripper proxyStream =
     buildEndpoint e (Create (globalRegistry e (NewFactory e))) (NewFactory e) streamTripper proxyStream"

lemma NewFactory_tripper:
  "NewFactory e ep s = (Inr (t, c), s') \<Longrightarrow>
     \<exists>pk o'. fst (new_picker e o') = pk \<and> t = client_RoundTrip e (pk_Select pk)"
  by (auto simp: NewFactory_def on_outside_def split: prod.splits option.splits) (metis fst_conv)

lemma NewFactory_steps:
  assumes "\<And>o'. steps R (client_RoundTrip e (pk_Select (fst (new_picker e o'))))"
  shows "steps_clients R (NewFactory e)"
  using assms NewFactory_tripper unfolding steps_clients_def by metis

context opts_step
begin

lemma gateway_steps:
  assumes c: "\<And>o'. steps R (client_RoundTrip e (pk_Select (fst (new_picker e o'))))"
    and o: "\<And>name f. other_factories e name = Some f \<Longrightarrow> steps_factory R f"
    and b: "gateway_endpoint e streamTripper proxyStream ep ms s0 = (Inr (h, cl), s1)" "\<not> ep_Stream ep"
    and h: "ServeHTTP h req (Inr body) s = (w, s')"
  shows "(R ^^ nat (calcAttempts ep)) NewRequestOptions (reqOpts s')"
proof -
  obtain client s1 t1 s2 t2 s3 st rb where bs: "NewFactory e ep s0 = (Inr (client, cl), s1)"
    "buildMiddleware (Create (globalRegistry e (NewFactory e))) (ep_Middlewares ep) client s1 = (Inr t1, s2)"
    "buildMiddleware (Create (globalRegistry e (NewFactory e))) ms t1 s2 = (Inr t2, s3)"
    "prepareRetryStrategy (json_strings e) ep = Inr st" "h = handle_unary e ep rb st t2"
    using b unfolding gateway_endpoint_def by (rule buildEndpoint_unary)
  have f: "steps_factory R (Create (globalRegistry e (NewFactory e)))"
    by (rule Create_steps, rule registered_steps [OF NewFactory_steps [OF c] o])
  have "steps R client" using NewFactory_steps [OF c] bs(1) unfolding steps_clients_def by blast
  then have "steps R t2"
    using f bs(2,3) unfolding buildMiddleware_def by (blast intro: build_from_steps)
  moreover obtain r where "handle_unary e ep rb st t2 (req\<lparr>rq_Path := cleanPath (rq_Path req)\<rparr>) (Inr body) s = (r, s')"
    using h bs(5) by (auto simp: ServeHTTP_def split: prod.splits option.splits)
  ultimately show ?thesis
    using handle_steps strategy_attempts [OF bs(4)] unfolding steps_def by metis
qed

end

section \<open>A small gateway\<close>

definition sample_node :: "string \<Rightarrow> node" where
  "sample_node a = newNode (\<lambda>_. False) a Protocol_HTTP None Map.empty '''' '''' False ''''"

text \<open>The outside state counts the picks that are not done; \<open>code\<close> is the status each backend answers.\<close>

definition sample_env :: "(string \<Rightarrow> int) \<Rightarrow> nat px_env" where
  "sample_env code =
     \<lparr>json_strings = (\<lambda>_. Inr []),
      unmarshal_Jwt = (\<lambda>any _. Inr \<lparr>jw_Secret = any, jw_PublicPaths = [''/login'', ''/static/*'']\<rparr>),
      unmarshal_Cors = (\<lambda>any c. Inr (c\<lparr>co_AllowOrigins := [any]\<rparr>)),
      unmarshal_Rewrite = (\<lambda>any c. Inr (c\<lparr>rw_StripPrefix := Some any\<rparr>)),
      unmarshal_Breaker = (\<lambda>any c. Inr c),
      url_Hostname = Some,
      jwt_Parse = (\<lambda>_ tok key. if tok = ''good'' then map_sum id (\<lambda>_. True) (key ''HS256'') else Inl (plain_err ''invalid'')),
      sre_NewBreaker = (\<lambda>_ o'. (nopTrigger, o')),
      new_rand = (\<lambda>o'. (\<lambda>o''. (0, o''), o')),
      other_factories = Map.empty,
      client_Do = (\<lambda>n req o'. (Inr \<lparr>rs_StatusCode = code (nd_address n), rs_Header = Some Map.empty,
        rs_Trailer = Map.empty, rs_Body = NetBody (rq_Path req) None False\<rparr>, o')),
      pick_done = (\<lambda>_ _ o'. o' - 1),
      retry_enabled = (\<lambda>_. True),
      ctx_Err = (\<lambda>_. None),
      WithTimeout = (\<lambda>_ o'. o'),
      ToGRPCCode = id,
      SplitHostPort = Some,
      url_Parse = (\<lambda>u. Inr \<lparr>u_Scheme = ''direct'', u_Host = u, u_Path = u, u_isSecure = ''''\<rparr>),
      new_picker = (\<lambda>o'. (\<lparr>pk_Select = (\<lambda>f o''. (case f [sample_node ''a'', sample_node ''b''] of
          [] \<Rightarrow> Inl (plain_err ''no nodes'') | n # _ \<Rightarrow> Inr (n, o''), Suc o'')), pk_Apply = (\<lambda>_ o''. o'')\<rparr>, o')),
      AddWatch = (\<lambda>_ _ _ o'. o'),
      cancel_applier = (\<lambda>_ o'. o'),
      tls_configs = (\<lambda>_. False)\<rparr>"

definition sample_jwt :: mw_config where
  "sample_jwt = \<lparr>mc_Name = ''jwt'', mc_Options = Some ''0123456789abcdef0123456789abcdef'', mc_Required = True\<rparr>"

definition sample_ep :: Endpoint where
  "sample_ep = \<lparr>ep_Path = ''/v1/*'', ep_Method = ''GET'', ep_Protocol = Protocol_HTTP, ep_Timeout = None,
     ep_Middlewares = [], ep_Backends = [],
     ep_Retry = Some \<lparr>rt_Attempts = 2, rt_PerTryTimeout = None, rt_Conditions = [ByStatusCode ''500-599'']\<rparr>,
     ep_Host = '''', ep_Stream = False\<rparr>"

definition sample_req :: "string \<Rightarrow> header \<Rightarrow> request" where
  "sample_req path h = \<lparr>rq_Method = ''GET'', rq_Path = path, rq_Host = '''', rq_URLHost = '''', rq_Scheme = '''',
     rq_Header = h, rq_RemoteAddr = ''10.0.0.1'', rq_ProtoMajor = 1, rq_Body = ''''\<rparr>"

definition sample_gw :: "nat gw" where
  "sample_gw = \<lparr>reqOpts = NewRequestOptions, outside = 0\<rparr>"

definition sample_handler :: "(string \<Rightarrow> int) \<Rightarrow> mw_config list \<Rightarrow> nat handler" where
  "sample_handler code ms =
     (case gateway_endpoint (sample_env code) id (\<lambda>_ _ _ _ s. (None, s)) sample_ep ms sample_gw of
        (Inr (h, _), _) \<Rightarrow> h | _ \<Rightarrow> (\<lambda>_ _ s. (None, s)))"

definition sample_code :: "string \<Rightarrow> int" where
  "sample_code a = (if a = ''a'' then 503 else 200)"

lemma sample_built:
  "\<exists>cl s1. gateway_endpoint (sample_env sample_code) id (\<lambda>_ _ _ _ s. (None, s)) sample_ep [sample_jwt] sample_gw =
     (Inr (sample_handler sample_code [sample_jwt], cl), s1)"
proof -
  let ?b = "gateway_endpoint (sample_env sample_code) id (\<lambda>_ _ _ _ s. (None, s)) sample_ep [sample_jwt] sample_gw"
  have "case fst ?b of Inr _ \<Rightarrow> True | Inl _ \<Rightarrow> False" by code_simp
  then obtain h cl s1 where "?b = (Inr (h, cl), s1)" by (cases ?b) (auto split: sum.splits)
  then show ?thesis by (simp add: sample_handler_def)
qed

section \<open>Properties\<close>

text \<open>C27. Authentication at the edge. An endpoint whose list of middlewares starts with a required
  jwt middleware cannot be built without a secret of at least 32 bytes. Once built, a request whose
  cleaned path is not public and which carries no valid HS256 token reaches no backend, however the
  retries are configured and whatever the other middlewares and the network do; it is answered with
  status 401, or with the error answer when the request was cancelled or timed out.\<close>

theorem jwt_guards_upstream:
  fixes e :: "'o px_env"
  assumes b: "gateway_endpoint e streamTripper proxyStream ep (c # ms) s0 = (Inr (h, cl), s1)" "\<not> ep_Stream ep"
    and c: "mc_Name c = ''jwt''" "mc_Required c"
  shows "\<exists>options. jwtOptions e c = Inr options \<and> 32 \<le> length (jw_Secret options) \<and>
    (\<forall>req body s w s'. (\<forall>o'. \<not> admitted e options (req\<lparr>rq_Path := cleanPath (rq_Path req)\<rparr>) o') \<longrightarrow>
       ServeHTTP h req (Inr body) s = (w, s') \<longrightarrow>
       ro_Backends (reqOpts s') = [] \<and> (w_Status w = 401 \<and> \<not> w_Broken w \<or> (\<exists>er. w = writeError e ep er)))"
proof -
  obtain client s1 t1 s2 t2 s3 st rb where bs: "NewFactory e ep s0 = (Inr (client, cl), s1)"
    "buildMiddleware (Create (globalRegistry e (NewFactory e))) (c # ms) t1 s2 = (Inr t2, s3)"
    "prepareRetryStrategy (json_strings e) ep = Inr st" "h = handle_unary e ep rb st t2"
    using b unfolding gateway_endpoint_def by (rule buildEndpoint_unary)
  from required_jwt_outermost [OF bs(2) c] obtain options t
    where o: "jwtOptions e c = Inr options" and t2: "t2 = jwt_handler e options t" by blast
  have "32 \<le> length (jw_Secret options)"
    using o by (auto simp: jwtOptions_def Let_def split: sum.splits if_splits)
  moreover have "ro_Backends (reqOpts s') = [] \<and> (w_Status w = 401 \<and> \<not> w_Broken w \<or> (\<exists>er. w = writeError e ep er))"
    if n: "\<forall>o'. \<not> admitted e options (req\<lparr>rq_Path := cleanPath (rq_Path req)\<rparr>) o'"
      and sv: "ServeHTTP h req (Inr body) s = (w, s')" for req body s w s'
  proof -
    let ?req = "req\<lparr>rq_Path := cleanPath (rq_Path req)\<rparr>"
    have t: "\<exists>msg. t2 ((setXFFHeader e ?req)\<lparr>rq_Body := body\<rparr>) s = (Reply (buildUnauthorizedResp msg), s)" for s
      unfolding t2 using n by (intro jwt_refuses) simp
    obtain r where r: "handle_unary e ep rb st t2 ?req (Inr body) s = (r, s')"
      using sv bs(4) by (auto simp: ServeHTTP_def split: prod.splits option.splits)
    from refused_handled [OF t conjunct1 [OF strategy_bounds [OF bs(3)]] r] show ?thesis
      using sv r bs(4) by (auto simp: ServeHTTP_def split: prod.splits option.splits)
  qed
  ultimately show ?thesis using o by blast
qed

theorem jwt_guards_upstream_witness:
  "\<exists>options. jwtOptions (sample_env sample_code) sample_jwt = Inr options \<and>
     ro_Backends (reqOpts (snd (ServeHTTP (sample_handler sample_code [sample_jwt])
       (sample_req ''/v1/../admin'' Map.empty) (Inr '''') sample_gw))) = []"
proof -
  obtain cl s1 where b: "gateway_endpoint (sample_env sample_code) id (\<lambda>_ _ _ _ s. (None, s)) sample_ep [sample_jwt] sample_gw =
     (Inr (sample_handler sample_code [sample_jwt], cl), s1)"
    using sample_built by blast
  have "\<not> ep_Stream sample_ep" "mc_Name sample_jwt = ''jwt''" "mc_Required sample_jwt" by code_simp+
  from jwt_guards_upstream [OF b this] obtain options where o: "jwtOptions (sample_env sample_code) sample_jwt = Inr options"
    and g: "\<And>req body s w s'. \<forall>o'. \<not> admitted (sample_env sample_code) options (req\<lparr>rq_Path := cleanPath (rq_Path req)\<rparr>) o' \<Longrightarrow>
       ServeHTTP (sample_handler sample_code [sample_jwt]) req (Inr body) s = (w, s') \<Longrightarrow> ro_Backends (reqOpts s') = []"
    by blast
  have "case jwtOptions (sample_env sample_code) sample_jwt of Inl _ \<Rightarrow> False
      | Inr options \<Rightarrow> \<not> isPublicPath (cleanPath ''/v1/../admin'') (jwt_publicPaths options)" by code_simp
  moreover have "header_Get (rq_Header (sample_req ''/v1/../admin'' Map.empty)) ''Authorization'' = ''''" by code_simp
  ultimately have "\<forall>o'. \<not> admitted (sample_env sample_code) options
      ((sample_req ''/v1/../admin'' Map.empty)\<lparr>rq_Path := cleanPath (rq_Path (sample_req ''/v1/../admin'' Map.empty))\<rparr>) o'"
    by (simp add: o admitted_def sample_req_def)
  with g o show ?thesis by (metis prod.collapse)
qed







text \<open>Paths cannot climb. The path on which the gateway routes, checks the token and forwards is
  rooted and has no dot segment whatever the client sent; cleaning it again changes nothing, and
  stripping any prefix from it in the rewrite middleware gives such a path again.\<close>

theorem routed_paths_clean:
  "dot_free (cleanPath p) \<and> cleanPath (cleanPath p) = cleanPath p \<and> dot_free (stripPrefix (cleanPath p) prefix)"
  using clean_path_dot_free [OF cleanPath_clean] cleanPath_idem stripPrefix_dot_free by blast

text \<open>Cross-origin requests. With no empty pattern configured, a request with an origin whose host
  matches no pattern is answered 403 and goes no further; a preflight request from a matching origin
  is answered 200 without calling the backend; any other one is passed on, and the answer keeps its
  status and body and allows exactly that origin.\<close>

theorem cors_enforced:
  assumes o: "header_Get (rq_Header req) ''Origin'' = origin" "origin \<noteq> ''''"
    and h: "'''' \<notin> set (co_AllowOrigins options)" "url_Hostname e origin = Some hostname"
  shows "if \<not> (\<exists>p\<in>set (co_AllowOrigins options). host_matches (ToLower hostname) p)
    then cors_handler e options next req s = (Reply (newResponse 403 Map.empty), s)
    else if rq_Method req = ''OPTIONS''
    then \<exists>resp. cors_handler e options next req s = (Reply resp, s) \<and> rs_StatusCode resp = 200 \<and>
      resp_Get (rs_Header resp) ''Access-Control-Allow-Origin'' = origin
    else (case next req s of
        (Reply resp, s') \<Rightarrow> \<exists>resp'. cors_handler e options next req s = (Reply resp', s') \<and>
          rs_StatusCode resp' = rs_StatusCode resp \<and> rs_Body resp' = rs_Body resp \<and>
          resp_Get (rs_Header resp') ''Access-Control-Allow-Origin'' = origin
      | other \<Rightarrow> cors_handler e options next req s = other)"
  using o h origin_matches_iff [OF h(1)]
  by (auto simp: cors_handler_def isOriginAllowed_def cors_preflight_def cors_decorate_def newResponse_def resp_Get_def Let_def
      split: prod.splits trip.splits)

theorem cors_enforced_witness:
  "cors_handler (sample_env sample_code) (cors_defaults\<lparr>co_AllowOrigins := [''*.example.org'']\<rparr>) (static_tripper (newResponse 200 Map.empty))
     (sample_req ''/login'' [''Origin'' \<mapsto> [''evil.org'']]) sample_gw = (Reply (newResponse 403 Map.empty), sample_gw)"
proof -
  let ?o = "cors_defaults\<lparr>co_AllowOrigins := [''*.example.org'']\<rparr>"
  have "header_Get (rq_Header (sample_req ''/login'' [''Origin'' \<mapsto> [''evil.org'']])) ''Origin'' = ''evil.org''" by code_simp
  moreover have "'''' \<notin> set (co_AllowOrigins ?o)" "url_Hostname (sample_env sample_code) ''evil.org'' = Some ''evil.org''"
    by (simp_all add: sample_env_def)
  moreover have "\<not> (\<exists>p\<in>set (co_AllowOrigins ?o). host_matches (ToLower ''evil.org'') p)" by code_simp
  ultimately show ?thesis
    using cors_enforced [of "sample_req ''/login'' [''Origin'' \<mapsto> [''evil.org'']]" "''evil.org''" ?o "sample_env sample_code" "''evil.org''"]
    by auto
qed

text \<open>Priority configurations that only replace endpoints do what they mean to: when the endpoints
  of the main configuration have distinct methods and paths and every endpoint of the priority files
  has the method and path of one of them, the merged list is the main list with each endpoint
  replaced by the last one of the priority files for its method and path.\<close>

theorem merge_overrides:
  assumes "distinct (map keyFn (gw_Endpoints cfg))"
    and "\<forall>it\<in>set items. keyFn it \<in> keyFn ` set (gw_Endpoints cfg)"
  shows "snd (mergePriorityConfig (Some (Inr [\<lparr>de_Name = ''p.yaml'', de_IsDir = False, de_Config = Inr items\<rparr>])) cfg) =
    cfg\<lparr>gw_Endpoints := map (override items) (gw_Endpoints cfg)\<rparr>"
proof -
  have "is_yaml ''p.yaml''" by code_simp
  then show ?thesis using replace_all [OF assms] by (simp add: mergePriorityConfig_def)
qed

definition ep_named :: "string \<Rightarrow> nat \<Rightarrow> Endpoint" where
  "ep_named path n = sample_ep\<lparr>ep_Path := path, ep_Timeout := Some (int n)\<rparr>"

definition sample_config :: Gateway where
  "sample_config = \<lparr>gw_Name = ''gw'', gw_Version = ''v1'', gw_Endpoints = [ep_named ''/a'' 1, ep_named ''/b'' 1], gw_Middlewares = []\<rparr>"

theorem merge_overrides_witness:
  "gw_Endpoints (snd (mergePriorityConfig (Some (Inr [\<lparr>de_Name = ''p.yaml'', de_IsDir = False,
     de_Config = Inr [ep_named ''/b'' 2]\<rparr>])) sample_config)) = [ep_named ''/a'' 1, ep_named ''/b'' 2]"
proof -
  have "distinct (map keyFn (gw_Endpoints sample_config))"
    "\<forall>it\<in>set [ep_named ''/b'' 2]. keyFn it \<in> keyFn ` set (gw_Endpoints sample_config)" by code_simp+
  from merge_overrides [OF this] show ?thesis
    by (simp add: sample_config_def override_def keyFn_def ep_named_def)
qed

text \<open>Priority configurations that add an endpoint corrupt what is merged after it: a new endpoint
  is put in front and shifts the list, but later replacements still use the positions of the
  original list. Here the priority file adds \<^verbatim>\<open>/c\<close> and replaces \<^verbatim>\<open>/b\<close>; the merged configuration has lost
  \<^verbatim>\<open>/a\<close> and still has the old \<^verbatim>\<open>/b\<close>.\<close>

theorem merge_stale_index:
  "gw_Endpoints (snd (mergePriorityConfig (Some (Inr [\<lparr>de_Name = ''p.yaml'', de_IsDir = False,
     de_Config = Inr [ep_named ''/c'' 2, ep_named ''/b'' 2]\<rparr>])) sample_config)) =
   [ep_named ''/c'' 2, ep_named ''/b'' 2, ep_named ''/b'' 1]"
proof -
  have "is_yaml ''p.yaml''" by code_simp
  then show ?thesis
    by (simp add: mergePriorityConfig_def sample_config_def make_index_def replaceOrPrepend_def keyFn_def ep_named_def)
qed






text \<open>A required middleware with an unknown name is dropped. The registry answers that a required
  middleware must be created or the endpoint fails, but a name that is not registered is skipped
  with a log line even then: the chain is built without it.\<close>

theorem required_but_unknown_skipped:
  assumes "reg (ToLower (createFullName (mc_Name c))) = None"
  shows "buildMiddleware (Create reg) [c\<lparr>mc_Required := True\<rparr>] next s = (Inr next, s)"
  using assms by (simp add: buildMiddleware_def Create_def getMiddleware_def)

lemma unknown_name: "globalRegistry (sample_env sample_code) clients (ToLower (createFullName ''jwtt'')) = None"
proof -
  have "ToLower (createFullName ''jwtt'') \<noteq> createFullName ''jwt''" "ToLower (createFullName ''jwtt'') \<noteq> createFullName ''cors''"
    "ToLower (createFullName ''jwtt'') \<noteq> createFullName ''rewrite''" "ToLower (createFullName ''jwtt'') \<noteq> createFullName ''circuitbreaker''"
    by code_simp+
  then show ?thesis by (simp add: globalRegistry_def RegisterV2_def mw_Register_def sample_env_def)
qed

theorem required_but_unknown_skipped_witness:
  "\<forall>next s. buildMiddleware (Create (globalRegistry (sample_env sample_code) (NewFactory (sample_env sample_code))))
     [(sample_jwt\<lparr>mc_Name := ''jwtt''\<rparr>)\<lparr>mc_Required := True\<rparr>] next s = (Inr next, s)"
  by (intro allI required_but_unknown_skipped) (simp add: unknown_name)

section \<open>Further observations\<close>

text \<open>The clean-up of the watcher stops at the first endpoint that has nothing to clean.\<close>

lemma cleanup_stops_early:
  "filter ap_canceled (sw_appliers s endpoint) = [] \<Longrightarrow> doCleanup (endpoint # es) s = s"
  by simp

text \<open>A pick whose response is retried is never reported done: the outside state still counts one.\<close>

lemma retried_pick_not_done:
  "outside (snd (ServeHTTP (sample_handler sample_code [sample_jwt]) (sample_req ''/login'' Map.empty) (Inr '''') sample_gw)) = 1"
  by code_simp

text \<open>
  The response of the jwt middleware has no header map, so a rewrite middleware around it that sets a
  response header panics, and the caller sees 502 instead of 401.
\<close>

lemma rewrite_panics_on_refusal:
  assumes "\<not> admitted e options (rewrite_request rw req) (outside s)"
    and "rw_ResponseHeadersRewrite rw = Some p" "hp_Set p \<noteq> []"
  shows "rewrite_handler rw (jwt_handler e options next) req s = (Panics, s)"
  using jwt_refuses [OF assms(1), of "next"] assms(2,3)
  by (auto simp: rewrite_handler_def rewrite_response_def buildUnauthorizedResp_def)

end
