(* ===== verification/ControlLoader.thy ===== *)
theory ControlLoader
  imports Crawl GatewayHttp "HOL-Library.AList" "HOL-Library.Char_ord" "HOL-Library.List_Lexorder"
begin

text \<open>
  The control-plane loader of the gateway, \<^verbatim>\<open>config/config-loader/ctrl-loader.go\<close>: it asks one of
  several control services for the configuration, writes the main file and the priority files,
  and goes on to the next service after a failure.

  The state has the loader, the files, the calls made to the feature package and the addresses
  asked. The environment says what the services answer at each step, which operations on files
  fail and what a failed write leaves behind. Decoding of JSON, the conversion to YAML, the parsing of
  addresses and the feature package are parameters. Lists and maps are read in byte order of the names.
\<close>

section \<open>Data\<close>

record PriorityConfigItem =
  pi_Key :: string
  pi_Config :: string
  pi_Version :: string

text \<open>An element of the list may be the JSON value \<^verbatim>\<open>null\<close>, a nil pointer.\<close>

record LoadResponse =
  lr_Config :: string
  lr_Version :: string
  lr_PriorityConfigs :: "PriorityConfigItem option list"

record CtrlConfigLoader =
  ctrlService :: "string list"
  ctrlServiceIdx :: nat
  nextCtrlService :: bool
  dstPath :: string
  dstPriorityConfigDir :: string
  advertiseName :: string
  advertiseAddr :: string
  lastVersion :: string
  lastPriorityVersion :: "(string \<times> string) list option"

datatype net_ip = IPv4 nat nat nat nat | IPv6 string

record net_iface =
  ni_Name :: string
  ni_Up :: bool
  ni_Addrs :: "gerr + net_ip option list"

record ctrl_state =
  loader :: CtrlConfigLoader
  files :: "(string \<times> string) list"
  dirs :: "string list"
  feature_calls :: "(string \<times> bool) list"
  asked :: "string list"

text \<open>The error of a call, the marker of a configuration that did not change, or a panic.\<close>

datatype ctrl_error = Failed gerr | errNotModified | CtrlPanic

type_synonym ctrl_world = "ctrl_state world"
type_synonym 'a lact = "(ctrl_state, ctrl_error, 'a) act"

text \<open>
  \<open>url_join s p\<close> is the address \<open>s\<close> with its path joined with \<open>p\<close>, if \<open>s\<close> can be parsed; a decoded answer is
  \<open>Some None\<close> for the JSON value \<^verbatim>\<open>null\<close>; \<open>range_order\<close> is the order in which a map is visited.
\<close>

record ctrl_env =
  ctrl_respond :: "nat \<Rightarrow> string \<Rightarrow> gerr + int \<times> (gerr + string)"
  url_String :: "string \<Rightarrow> string option"
  shuffle :: "string list \<Rightarrow> string list"
  url_join :: "string \<Rightarrow> string \<Rightarrow> string option"
  refused_address :: "string \<Rightarrow> bool"
  unmarshal_load :: "string \<Rightarrow> LoadResponse option option"
  unmarshal_features :: "string \<Rightarrow> (string \<times> bool) list option option"
  JSONToYAML :: "string \<Rightarrow> gerr + string"
  uuid :: "nat \<Rightarrow> string"
  io_err :: "nat \<Rightarrow> gerr option"
  left_behind :: "nat \<Rightarrow> string option"
  feature_Enabled :: "(string \<times> bool) list \<Rightarrow> string \<Rightarrow> bool"
  range_order :: "nat \<Rightarrow> (string \<times> string) list \<Rightarrow> (string \<times> string) list"
  Getenv :: "string \<Rightarrow> string"
  net_Interfaces :: "gerr + net_iface list"
  ctx_done :: "nat \<Rightarrow> bool"

section \<open>Paths and files\<close>

text \<open>\<^verbatim>\<open>path.Clean\<close> of a path that need not be rooted, and \<^verbatim>\<open>path.Join\<close> of two elements.\<close>

definition clean_rel_seg :: "string list \<Rightarrow> string \<Rightarrow> string list" where
  "clean_rel_seg out seg =
     (if seg = '''' \<or> seg = ''.'' then out
      else if seg = ''..'' then (if out = [] \<or> last out = ''..'' then out @ [''..''] else butlast out)
      else out @ [seg])"

definition clean_any :: "string \<Rightarrow> string" where
  "clean_any p =
     (if HasPrefix p ''/'' then path_Clean p
      else case foldl clean_rel_seg [] (Split CHR ''/'' p) of [] \<Rightarrow> ''.'' | segs \<Rightarrow> Join segs ''/'')"

definition path_Join :: "string \<Rightarrow> string \<Rightarrow> string" where
  "path_Join a b =
     (if a = '''' then (if b = '''' then '''' else clean_any b)
      else if b = '''' then clean_any a else clean_any (a @ CHR ''/'' # b))"

text \<open>\<^verbatim>\<open>filepath.Ext\<close> of a name: what follows the last dot, with the dot.\<close>

definition Ext :: "string \<Rightarrow> string" where
  "Ext name = (if CHR ''.'' \<in> set name then CHR ''.'' # rev (takeWhile (\<lambda>c. c \<noteq> CHR ''.'') (rev name)) else '''')"

definition base :: "string \<Rightarrow> string" where
  "base p = last (Split CHR ''/'' p)"

definition put_file :: "string \<Rightarrow> string \<Rightarrow> (string \<times> string) list \<Rightarrow> (string \<times> string) list" where
  "put_file p c fs = (p, c) # filter (\<lambda>f. fst f \<noteq> p) fs"

definition remove_file :: "string \<Rightarrow> (string \<times> string) list \<Rightarrow> (string \<times> string) list" where
  "remove_file p fs = filter (\<lambda>f. fst f \<noteq> p) fs"

text \<open>A failed write may leave the file as it was, or with whatever was written.\<close>

definition WriteFile :: "'x ctrl_env_scheme \<Rightarrow> string \<Rightarrow> string \<Rightarrow> unit lact" where
  "WriteFile e p c w =
     (case io_err e (ticks w) of
        None \<Rightarrow> (Inr (), (tick w)\<lparr>db := (db w)\<lparr>files := put_file p c (files (db w))\<rparr>\<rparr>)
      | Some er \<Rightarrow> (Inl (Failed er), case left_behind e (ticks w) of
            None \<Rightarrow> tick w
          | Some part \<Rightarrow> (tick w)\<lparr>db := (db w)\<lparr>files := put_file p part (files (db w))\<rparr>\<rparr>))"

text \<open>\<^verbatim>\<open>os.Rename\<close> replaces the target at once, or fails and changes nothing.\<close>

definition Rename :: "'x ctrl_env_scheme \<Rightarrow> string \<Rightarrow> string \<Rightarrow> unit lact" where
  "Rename e p q w =
     (case io_err e (ticks w) of
        Some er \<Rightarrow> (Inl (Failed er), tick w)
      | None \<Rightarrow> (case map_of (files (db w)) p of
            None \<Rightarrow> (Inl (Failed (Errorf ''no such file'')), tick w)
          | Some c \<Rightarrow> (Inr (), (tick w)\<lparr>db := (db w)\<lparr>files := put_file q c (remove_file p (files (db w)))\<rparr>\<rparr>)))"

definition Remove :: "'x ctrl_env_scheme \<Rightarrow> string \<Rightarrow> unit lact" where
  "Remove e p w =
     (case io_err e (ticks w) of
        Some er \<Rightarrow> (Inl (Failed er), tick w)
      | None \<Rightarrow> (Inr (), (tick w)\<lparr>db := (db w)\<lparr>files := remove_file p (files (db w))\<rparr>\<rparr>))"

text \<open>The entries of a directory by name, each with whether it is a directory itself.\<close>

definition ReadDir :: "'x ctrl_env_scheme \<Rightarrow> string \<Rightarrow> (string \<times> bool) list lact" where
  "ReadDir e dir w =
     (case io_err e (ticks w) of
        Some er \<Rightarrow> (Inl (Failed er), tick w)
      | None \<Rightarrow> (Inr (sort_key fst
          (map (\<lambda>p. (base p, False)) (filter (\<lambda>p. path_Join dir (base p) = p) (map fst (files (db w)))) @
           map (\<lambda>p. (base p, True)) (filter (\<lambda>p. path_Join dir (base p) = p) (dirs (db w))))), tick w))"

section \<open>Setting up\<close>

definition prepareCtrlService :: "'x ctrl_env_scheme \<Rightarrow> string \<Rightarrow> string list" where
  "prepareCtrlService e inp = shuffle e (List.map_filter (url_String e) (Split CHR '','' inp))"

definition IsLoopback :: "net_ip \<Rightarrow> bool" where
  "IsLoopback ip = (case ip of IPv4 a _ _ _ \<Rightarrow> a = 127 | IPv6 s \<Rightarrow> s = ''::1'')"

fun first_IPv4 :: "net_ip option list \<Rightarrow> string option" where
  "first_IPv4 [] = None"
| "first_IPv4 (None # as) = first_IPv4 as"
| "first_IPv4 (Some ip # as) =
     (if IsLoopback ip then first_IPv4 as
      else case ip of
        IPv6 _ \<Rightarrow> first_IPv4 as
      | IPv4 a b c d \<Rightarrow> Some (Join (map (\<lambda>n. fmt_d (int n)) [a, b, c, d]) ''.''))"

fun find_iface :: "string \<Rightarrow> net_iface list \<Rightarrow> gerr + string" where
  "find_iface name [] = Inl (Errorf ''interface not found'')"
| "find_iface name (iface # ifaces) =
     (if ni_Name iface \<noteq> name then find_iface name ifaces
      else if \<not> ni_Up iface then Inl (Errorf ''interfaces is down'')
      else case ni_Addrs iface of
        Inl er \<Rightarrow> Inl er
      | Inr addrs \<Rightarrow> (case first_IPv4 addrs of
            None \<Rightarrow> Inl (Errorf ''interfaces does not have a valid IPv4'')
          | Some a \<Rightarrow> Inr a))"

definition getIPInterface :: "'x ctrl_env_scheme \<Rightarrow> string \<Rightarrow> gerr + string" where
  "getIPInterface e name = (case net_Interfaces e of Inl er \<Rightarrow> Inl er | Inr ifaces \<Rightarrow> find_iface name ifaces)"

definition getAdvertiseAddr :: "'x ctrl_env_scheme \<Rightarrow> string" where
  "getAdvertiseAddr e =
     (if Getenv e ''ADVERTISE_ADDR'' \<noteq> '''' then Getenv e ''ADVERTISE_ADDR''
      else let advDevice = (if Getenv e ''ADVERTISE_DEVICE'' = '''' then ''eth0'' else Getenv e ''ADVERTISE_DEVICE'')
        in case getIPInterface e advDevice of Inl _ \<Rightarrow> '''' | Inr advAddr \<Rightarrow> advAddr)"

definition loader_New :: "'x ctrl_env_scheme \<Rightarrow> string \<Rightarrow> string \<Rightarrow> string \<Rightarrow> string \<Rightarrow> CtrlConfigLoader" where
  "loader_New e name rawCtrlService dst dstDir =
     \<lparr>ctrlService = prepareCtrlService e rawCtrlService, ctrlServiceIdx = 0, nextCtrlService = False, dstPath = dst,
      dstPriorityConfigDir = dstDir, advertiseName = name, advertiseAddr = getAdvertiseAddr e, lastVersion = '''',
      lastPriorityVersion = None\<rparr>"

section \<open>Asking a control service\<close>

definition upd_loader :: "(CtrlConfigLoader \<Rightarrow> CtrlConfigLoader) \<Rightarrow> unit lact" where
  "upd_loader f w = (Inr (), w\<lparr>db := (db w)\<lparr>loader := f (loader (db w))\<rparr>\<rparr>)"

text \<open>Without a service, the remainder or the index panics.\<close>

definition choseCtrlService :: "string lact" where
  "choseCtrlService w =
     (let c = loader (db w);
          c' = (if nextCtrlService c then c\<lparr>ctrlServiceIdx := (ctrlServiceIdx c + 1) mod length (ctrlService c), nextCtrlService := False\<rparr> else c)
      in if length (ctrlService c) \<le> ctrlServiceIdx c' then (Inl CtrlPanic, w)
         else (Inr (ctrlService c ! ctrlServiceIdx c'), w\<lparr>db := (db w)\<lparr>loader := c'\<rparr>\<rparr>))"

text \<open>\<open>params\<close> are given in the order of their names.\<close>

definition urlfor :: "'x ctrl_env_scheme \<Rightarrow> string \<Rightarrow> (string \<times> string) list \<Rightarrow> string lact" where
  "urlfor e upath params =
     bindE choseCtrlService (\<lambda>s.
     case url_join e s upath of
       None \<Rightarrow> failE (Failed (Errorf ''bad address''))
     | Some u \<Rightarrow> returnE (with_query u params))"

text \<open>The versions are set one after the other under one name, so that the one visited last is sent.\<close>

definition encodeLastPriorityVersion :: "'x ctrl_env_scheme \<Rightarrow> nat \<Rightarrow> ctrl_state \<Rightarrow> (string \<times> string) list \<times> (string \<times> string) list" where
  "encodeLastPriorityVersion e n st =
     (if \<not> feature_Enabled e (feature_calls st) ''gw:PriorityConfig'' then ([], [])
      else ((case lastPriorityVersion (loader st) of
          None \<Rightarrow> []
        | Some pVersions \<Rightarrow> (case rev (range_order e n pVersions) of
              [] \<Rightarrow> []
            | (key, version) # _ \<Rightarrow> [(''lastPriorityVersions'', key @ ''='' @ version)])),
        [(''supportPriorityConfig'', ''1'')]))"

definition http_get_ok :: "'x ctrl_env_scheme \<Rightarrow> string \<Rightarrow> string lact" where
  "http_get_ok e api w =
     (if refused_address e api then (Inl (Failed (Errorf ''bad address'')), w)
      else let w1 = (tick w)\<lparr>db := (db w)\<lparr>asked := asked (db w) @ [api]\<rparr>\<rparr>
        in case ctrl_respond e (ticks w) api of
             Inl er \<Rightarrow> (Inl (Failed er), w1)
           | Inr (status, body) \<Rightarrow>
               if status = 304 then (Inl errNotModified, w1)
               else if status \<noteq> 200 then (Inl (Failed (Errorf (''invalid status code: '' @ fmt_d status))), w1)
               else (case body of Inl er \<Rightarrow> (Inl (Failed er), w1) | Inr out \<Rightarrow> (Inr out, w1)))"

definition release_params :: "'x ctrl_env_scheme \<Rightarrow> nat \<Rightarrow> ctrl_state \<Rightarrow> (string \<times> string) list" where
  "release_params e n st =
     (let (versions, support) = encodeLastPriorityVersion e n st
      in [(''gateway'', advertiseName (loader st)), (''ip_addr'', advertiseAddr (loader st))] @ versions @
         [(''last_version'', lastVersion (loader st))] @ support)"

definition ctrl_load :: "'x ctrl_env_scheme \<Rightarrow> string lact" where
  "ctrl_load e w = bindE (urlfor e ''/v1/control/gateway/release'' (release_params e (ticks w) (db w))) (http_get_ok e) w"

definition loadFeatures :: "'x ctrl_env_scheme \<Rightarrow> string lact" where
  "loadFeatures e w =
     (let c = loader (db w)
      in bindE (urlfor e ''/v1/control/gateway/features'' [(''gateway'', advertiseName c), (''ip_addr'', advertiseAddr c)]) (http_get_ok e) w)"

section \<open>Writing the configuration\<close>

fun remove_expired :: "'x ctrl_env_scheme \<Rightarrow> string \<Rightarrow> string set \<Rightarrow> (string \<times> bool) list \<Rightarrow> unit lact" where
  "remove_expired e dir keys [] = returnE ()"
| "remove_expired e dir keys ((name, isDir) # es) =
     (if isDir \<or> Ext name \<noteq> ''.yaml'' \<or> TrimSuffix name ''.yaml'' \<in> keys then remove_expired e dir keys es
      else bindE (tryE (Remove e (path_Join dir name)) :: (ctrl_error + unit) lact) (\<lambda>_. remove_expired e dir keys es))"

definition cleanUpPriorityConfigs :: "'x ctrl_env_scheme \<Rightarrow> string \<Rightarrow> (string \<times> string) list \<Rightarrow> unit lact" where
  "cleanUpPriorityConfigs e dir versions =
     bindE (tryE (ReadDir e dir) :: (ctrl_error + (string \<times> bool) list) lact) (\<lambda>r. case r of
       Inl _ \<Rightarrow> returnE ()
     | Inr entrys \<Rightarrow> remove_expired e dir (fst ` set versions) entrys)"

text \<open>\<open>versions\<close> is a map: a later item with the same key replaces the version of the earlier one.\<close>

fun write_items :: "'x ctrl_env_scheme \<Rightarrow> string \<Rightarrow> PriorityConfigItem option list \<Rightarrow> (string \<times> string) list \<Rightarrow> (string \<times> string) list lact" where
  "write_items e dir [] versions = returnE versions"
| "write_items e dir (None # items) versions = failE CtrlPanic"
| "write_items e dir (Some item # items) versions =
     (case JSONToYAML e (pi_Config item) of
        Inl er \<Rightarrow> failE (Failed er)
      | Inr yaml \<Rightarrow>
          bindE (WriteFile e (path_Join dir (pi_Key item @ ''.yaml.tmp'')) yaml) (\<lambda>_.
          bindE (Rename e (path_Join dir (pi_Key item @ ''.yaml.tmp'')) (path_Join dir (pi_Key item @ ''.yaml''))) (\<lambda>_.
          write_items e dir items (AList.update (pi_Key item) (pi_Version item) versions))))"

definition priority_files :: "'x ctrl_env_scheme \<Rightarrow> string \<Rightarrow> PriorityConfigItem option list \<Rightarrow> unit lact" where
  "priority_files e dir items =
     bindE (write_items e dir items []) (\<lambda>versions.
     bindE (cleanUpPriorityConfigs e dir versions) (\<lambda>_.
     upd_loader (\<lambda>c. c\<lparr>lastPriorityVersion := Some versions\<rparr>)))"

definition writePriorityConfigs :: "'x ctrl_env_scheme \<Rightarrow> LoadResponse \<Rightarrow> unit lact" where
  "writePriorityConfigs e resp w =
     (if dstPriorityConfigDir (loader (db w)) = '''' then (Inr (), w)
      else priority_files e (dstPriorityConfigDir (loader (db w))) (lr_PriorityConfigs resp) w)"

definition ctrl_panics :: "ctrl_error + 'a \<Rightarrow> bool" where
  "ctrl_panics r \<longleftrightarrow> r = Inl CtrlPanic"

text \<open>A failure to write the priority files is logged only.\<close>

definition write_config :: "'x ctrl_env_scheme \<Rightarrow> string \<Rightarrow> string \<Rightarrow> string \<Rightarrow> LoadResponse \<Rightarrow> unit lact" where
  "write_config e tmpPath dst yaml resp =
     bindE (WriteFile e tmpPath yaml) (\<lambda>_.
     bindE (Rename e tmpPath dst) (\<lambda>_.
     bindE (upd_loader (\<lambda>c. c\<lparr>lastVersion := lr_Version resp\<rparr>)) (\<lambda>_.
     bindE (tryE (writePriorityConfigs e resp)) (\<lambda>r. if ctrl_panics r then failE CtrlPanic else returnE ()))))"

definition store_config :: "'x ctrl_env_scheme \<Rightarrow> LoadResponse \<Rightarrow> unit lact" where
  "store_config e resp w =
     (case JSONToYAML e (lr_Config resp) of
        Inl er \<Rightarrow> (Inl (Failed er), w)
      | Inr yaml \<Rightarrow> write_config e (dstPath (loader (db w)) @ ''.'' @ uuid e (ticks w) @ ''.tmp'') (dstPath (loader (db w))) yaml resp w)"

definition ctrl_load_body :: "'x ctrl_env_scheme \<Rightarrow> unit lact" where
  "ctrl_load_body e =
     bindE (tryE (ctrl_load e)) (\<lambda>r. case r of
       Inl errNotModified \<Rightarrow> returnE ()
     | Inl er \<Rightarrow> failE er
     | Inr cfgBytes \<Rightarrow> (case unmarshal_load e cfgBytes of
           None \<Rightarrow> failE (Failed (Errorf ''bad JSON''))
         | Some None \<Rightarrow> failE CtrlPanic
         | Some (Some resp) \<Rightarrow> store_config e resp))"

text \<open>The deferred function asks for the next service after an error; a panic leaves the error nil.\<close>

definition ctrl_Load :: "'x ctrl_env_scheme \<Rightarrow> unit lact" where
  "ctrl_Load e w =
     (case ctrl_load_body e w of
        (Inl CtrlPanic, w1) \<Rightarrow> (Inl CtrlPanic, w1)
      | (Inl er, w1) \<Rightarrow> (Inl er, snd (upd_loader (\<lambda>c. c\<lparr>nextCtrlService := True\<rparr>) w1))
      | (Inr _, w1) \<Rightarrow> (Inr (), w1))"

definition LoadFeatures :: "'x ctrl_env_scheme \<Rightarrow> unit lact" where
  "LoadFeatures e =
     bindE (loadFeatures e) (\<lambda>featureBytes.
     case unmarshal_features e featureBytes of
       None \<Rightarrow> failE (Failed (Errorf ''bad JSON''))
     | Some None \<Rightarrow> failE CtrlPanic
     | Some (Some fs) \<Rightarrow> (\<lambda>w. (Inr (), w\<lparr>db := (db w)\<lparr>feature_calls := feature_calls (db w) @ fs\<rparr>\<rparr>)))"

section \<open>The loop and the handlers for debugging\<close>

text \<open>A failed load is followed by the next one at once; the context is looked at after a load that succeeded.\<close>

partial_function (option) ctrl_Run :: "'x ctrl_env_scheme \<Rightarrow> ctrl_world \<Rightarrow> ((ctrl_error + unit) \<times> ctrl_world) option" where
  "ctrl_Run e w =
     (case ctrl_Load e w of
        (r1, w1) \<Rightarrow>
          if ctrl_panics r1 then Some (r1, w1)
          else if isl r1 then ctrl_Run e w1
          else (case LoadFeatures e w1 of
            (r2, w2) \<Rightarrow>
              if ctrl_panics r2 then Some (r2, w2)
              else if ctx_done e (ticks w2) then Some (Inr (), tick w2)
              else ctrl_Run e (tick w2)))"

record InspectCtrlConfigLoader =
  in_CtrlService :: "string list"
  in_CtrlServiceIdx :: nat
  in_NextCtrlService :: bool
  in_DstPath :: string
  in_Hostname :: string
  in_AdvertiseAddr :: string

definition debug_inspect :: "CtrlConfigLoader \<Rightarrow> InspectCtrlConfigLoader" where
  "debug_inspect c = \<lparr>in_CtrlService = ctrlService c, in_CtrlServiceIdx = ctrlServiceIdx c, in_NextCtrlService = nextCtrlService c,
     in_DstPath = dstPath c, in_Hostname = advertiseName c, in_AdvertiseAddr = advertiseAddr c\<rparr>"

text \<open>Status and body; a panic is left to the server.\<close>

definition ctrl_err_text :: "ctrl_error \<Rightarrow> string" where
  "ctrl_err_text er = (case er of Failed g \<Rightarrow> err_text g | errNotModified \<Rightarrow> ''config not modified'' | CtrlPanic \<Rightarrow> '''')"

definition debug_load :: "'x ctrl_env_scheme \<Rightarrow> string \<Rightarrow> (int \<times> string) lact" where
  "debug_load e httpMethod =
     (if httpMethod \<noteq> ''POST'' then returnE (405, '''')
      else bindE (tryE (ctrl_Load e)) (\<lambda>r. case r of
        Inl CtrlPanic \<Rightarrow> failE CtrlPanic
      | Inl er \<Rightarrow> returnE (500, ctrl_err_text er)
      | Inr _ \<Rightarrow> returnE (200, ''{}'' @ [CHR 0x0A])))"

end
