(* ===== verification/ControlFacts.thy ===== *)
theory ControlFacts
  imports ControlLoader
begin

text \<open>
  Facts about the control-plane loader: what its operations do to the files, which service is asked
  next, when a load succeeds, and that the loop never looks at its context while loads fail.
\<close>

section \<open>Files\<close>

lemma file_simps [simp]:
  "map_of (put_file p c fs) q = (if q = p then Some c else map_of fs q)"
  "map_of (remove_file p fs) q = (if q = p then None else map_of fs q)"
proof -
  have f: "map_of (filter (\<lambda>f. fst f \<noteq> p) fs) q = (if q = p then None else map_of fs q)" by (induction fs) auto
  then show "map_of (put_file p c fs) q = (if q = p then Some c else map_of fs q)"
    "map_of (remove_file p fs) q = (if q = p then None else map_of fs q)"
    by (auto simp: put_file_def remove_file_def)
qed

section \<open>The main file\<close>

text \<open>The content of a file together with a part of the loader that the writing of priority files leaves alone.\<close>

definition fixed :: "CtrlConfigLoader \<Rightarrow> string list \<times> nat \<times> bool \<times> string \<times> string \<times> string" where
  "fixed c = (ctrlService c, ctrlServiceIdx c, nextCtrlService c, dstPath c, dstPriorityConfigDir c, lastVersion c)"

definition holds_file :: "string \<Rightarrow> string option \<Rightarrow> CtrlConfigLoader \<Rightarrow> ctrl_state \<Rightarrow> bool" where
  "holds_file p x c st \<longleftrightarrow> map_of (files st) p = x \<and> fixed (loader st) = fixed c"

lemma holds_file_steps [keeps_intros]:
  "p \<noteq> q \<Longrightarrow> keeps (holds_file p x c) (WriteFile e q s)"
  "p \<noteq> q \<Longrightarrow> p \<noteq> q' \<Longrightarrow> keeps (holds_file p x c) (Rename e q q')"
  "p \<noteq> q \<Longrightarrow> keeps (holds_file p x c) (Remove e q)"
  "keeps (holds_file p x c) (ReadDir e dir)"
  "keeps (holds_file p x c) (upd_loader (\<lambda>c. c\<lparr>lastPriorityVersion := v\<rparr>))"
  by (auto simp: keeps_def holds_file_def fixed_def WriteFile_def Rename_def Remove_def ReadDir_def upd_loader_def split: option.splits)

definition item_paths :: "string \<Rightarrow> PriorityConfigItem option list \<Rightarrow> string set" where
  "item_paths dir items = (\<Union>item \<in> {item. Some item \<in> set items}.
     {path_Join dir (pi_Key item @ ''.yaml.tmp''), path_Join dir (pi_Key item @ ''.yaml'')})"

lemma item_paths_simps [simp]:
  "item_paths dir [] = {}"
  "item_paths dir (None # items) = item_paths dir items"
  "item_paths dir (Some item # items) =
     {path_Join dir (pi_Key item @ ''.yaml.tmp''), path_Join dir (pi_Key item @ ''.yaml'')} \<union> item_paths dir items"
  by (auto simp: item_paths_def)

lemma write_items_keeps: "p \<notin> item_paths dir items \<Longrightarrow> keeps (holds_file p x c) (write_items e dir items vs)"
proof (induction items arbitrary: vs)
  case (Cons i items)
  then show ?case by (cases i) (auto intro!: keeps_intros split: sum.splits)
qed (auto intro!: keeps_intros)

lemma remove_expired_keeps:
  "\<forall>n \<in> fst ` set es. path_Join dir n \<noteq> p \<Longrightarrow> keeps (holds_file p x c) (remove_expired e dir keys es)"
  by (induction e dir keys es rule: remove_expired.induct) (auto intro!: keeps_intros)

text \<open>Only files of the directory are listed.\<close>

lemma ReadDir_entries: "ReadDir e dir w = (Inr es, w') \<Longrightarrow> n \<in> fst ` set es \<Longrightarrow> \<exists>p. path_Join dir n = p \<and> base p = n"
  by (auto simp: ReadDir_def split: option.splits)

lemma cleanUp_keeps:
  assumes "path_Join dir (base p) \<noteq> p"
  shows "keeps (holds_file p x c) (cleanUpPriorityConfigs e dir vs)"
proof (rule keepsI)
  fix w r w'
  assume h: "holds_file p x c (db w)" and cl: "cleanUpPriorityConfigs e dir vs w = (r, w')"
  obtain o1 w1 where rd: "ReadDir e dir w = (o1, w1)" by fastforce
  have h1: "holds_file p x c (db w1)" by (rule keepsD [OF holds_file_steps(4) h rd])
  show "holds_file p x c (db w')"
  proof (cases o1)
    case (Inl er)
    with cl rd h1 show ?thesis by (simp add: cleanUpPriorityConfigs_def bindE_def tryE_def returnE_def)
  next
    case (Inr es)
    then have "\<forall>n \<in> fst ` set es. path_Join dir n \<noteq> p" using ReadDir_entries rd assms by metis
    moreover from cl rd Inr have "remove_expired e dir (fst ` set vs) es w1 = (r, w')"
      by (simp add: cleanUpPriorityConfigs_def bindE_def tryE_def)
    ultimately show ?thesis using remove_expired_keeps keepsD h1 by metis
  qed
qed

text \<open>No priority file of an answer, and no file the clean-up looks at, is the main file.\<close>

definition main_apart :: "'x ctrl_env_scheme \<Rightarrow> CtrlConfigLoader \<Rightarrow> bool" where
  "main_apart e c \<longleftrightarrow> dstPriorityConfigDir c = '''' \<or>
     path_Join (dstPriorityConfigDir c) (base (dstPath c)) \<noteq> dstPath c \<and>
     (\<forall>body resp. unmarshal_load e body = Some (Some resp) \<longrightarrow> dstPath c \<notin> item_paths (dstPriorityConfigDir c) (lr_PriorityConfigs resp))"

lemma writePriorityConfigs_main:
  assumes "main_apart e c" and "unmarshal_load e body = Some (Some resp)" and "holds_file (dstPath c) x c (db w)"
    and "writePriorityConfigs e resp w = (r, w')"
  shows "holds_file (dstPath c) x c (db w')"
proof (cases "dstPriorityConfigDir c = ''''")
  case True
  with assms(3,4) show ?thesis by (simp add: writePriorityConfigs_def holds_file_def fixed_def)
next
  case False
  have d: "dstPriorityConfigDir (loader (db w)) = dstPriorityConfigDir c" using assms(3) by (simp add: holds_file_def fixed_def)
  have "path_Join (dstPriorityConfigDir c) (base (dstPath c)) \<noteq> dstPath c"
    "dstPath c \<notin> item_paths (dstPriorityConfigDir c) (lr_PriorityConfigs resp)"
    using assms(1,2) False by (auto simp: main_apart_def)
  then have "keeps (holds_file (dstPath c) x c) (priority_files e (dstPriorityConfigDir c) (lr_PriorityConfigs resp))"
    unfolding priority_files_def by (intro keeps_intros write_items_keeps cleanUp_keeps)
  from keepsD [OF this assms(3)] assms(4) False show ?thesis by (simp add: writePriorityConfigs_def d)
qed

text \<open>What the gateway reads and what the control services are told.\<close>

definition config_state :: "ctrl_state \<Rightarrow> string option \<times> string" where
  "config_state st = (map_of (files st) (dstPath (loader st)), lastVersion (loader st))"

lemma holds_file_state:
  "holds_file (dstPath c) x c st \<Longrightarrow> config_state st = (x, lastVersion c)"
  by (simp add: holds_file_def config_state_def fixed_def)

lemma store_config_main:
  assumes "main_apart e (loader (db w))" and "unmarshal_load e body = Some (Some resp)" and "store_config e resp w = (r, w')"
  shows "(config_state (db w') = config_state (db w) \<and> (\<exists>er. r = Inl (Failed er))) \<or>
    (\<exists>yaml. JSONToYAML e (lr_Config resp) = Inr yaml \<and> config_state (db w') = (Some yaml, lr_Version resp) \<and> r \<in> {Inr (), Inl CtrlPanic})"
proof (cases "JSONToYAML e (lr_Config resp)")
  case (Inl er)
  with assms(3) show ?thesis by (auto simp: store_config_def failE_def)
next
  case (Inr yaml)
  let ?c = "loader (db w)" and ?dst = "dstPath (loader (db w))"
  define tmp where "tmp = ?dst @ ''.'' @ uuid e (ticks w) @ ''.tmp''"
  have t: "?dst \<noteq> tmp" by (simp add: tmp_def)
  obtain r1 w1 where w1: "WriteFile e tmp yaml w = (r1, w1)" by fastforce
  obtain r2 w2 where w2: "Rename e tmp ?dst w1 = (r2, w2)" by fastforce
  have c1: "config_state (db w1) = config_state (db w)" "loader (db w1) = ?c" "r1 = Inr () \<or> (\<exists>er. r1 = Inl (Failed er))"
    "r1 = Inr () \<Longrightarrow> map_of (files (db w1)) tmp = Some yaml"
    using w1 t by (auto simp: WriteFile_def config_state_def split: option.splits)
  have c2: "loader (db w2) = ?c" "r2 = Inr () \<or> (\<exists>er. r2 = Inl (Failed er))" "r2 \<noteq> Inr () \<Longrightarrow> config_state (db w2) = config_state (db w1)"
    "r2 = Inr () \<Longrightarrow> r1 = Inr () \<Longrightarrow> map_of (files (db w2)) ?dst = Some yaml"
    using w2 t c1 by (auto simp: Rename_def config_state_def split: option.splits)
  let ?w3 = "snd (upd_loader (\<lambda>c. c\<lparr>lastVersion := lr_Version resp\<rparr>) w2 :: (ctrl_error + unit) \<times> _)"
  obtain r4 w4 where w4: "writePriorityConfigs e resp ?w3 = (r4, w4)" by fastforce
  have st: "store_config e resp w = (case r1 of Inl er \<Rightarrow> (Inl er, w1) | Inr _ \<Rightarrow> (case r2 of Inl er \<Rightarrow> (Inl er, w2) | Inr _ \<Rightarrow>
      if ctrl_panics r4 then (Inl CtrlPanic, w4) else (Inr (), w4)))"
    using w4 by (simp add: store_config_def write_config_def Inr bindE_def tmp_def [symmetric, simplified] w1 w2 upd_loader_def tryE_def failE_def returnE_def split: sum.splits)
  let ?c3 = "?c\<lparr>lastVersion := lr_Version resp\<rparr>"
  have "config_state (db w4) = (Some yaml, lr_Version resp)" if "r1 = Inr ()" "r2 = Inr ()"
  proof -
    have "holds_file (dstPath ?c3) (Some yaml) ?c3 (db ?w3)" using that c1 c2 by (simp add: holds_file_def upd_loader_def)
    moreover have "main_apart e ?c3" using assms(1) by (simp add: main_apart_def)
    ultimately show ?thesis using writePriorityConfigs_main [OF _ assms(2) _ w4] holds_file_state by fastforce
  qed
  then show ?thesis using c1 c2 st assms(3) Inr by (auto split: sum.splits if_splits)
qed

section \<open>The service that is asked\<close>

definition chosen :: "CtrlConfigLoader \<Rightarrow> CtrlConfigLoader" where
  "chosen c = (if nextCtrlService c then c\<lparr>ctrlServiceIdx := (ctrlServiceIdx c + 1) mod length (ctrlService c), nextCtrlService := False\<rparr> else c)"

definition ctrl_ok :: "CtrlConfigLoader \<Rightarrow> bool" where
  "ctrl_ok c \<longleftrightarrow> ctrlServiceIdx c < length (ctrlService c)"

lemma chosen_simps [simp]:
  "ctrlService (chosen c) = ctrlService c" "nextCtrlService (chosen c) = False" "dstPath (chosen c) = dstPath c"
  "dstPriorityConfigDir (chosen c) = dstPriorityConfigDir c" "lastVersion (chosen c) = lastVersion c"
  by (simp_all add: chosen_def)

lemma chosen_ok: "ctrl_ok c \<Longrightarrow> ctrl_ok (chosen c)"
  by (cases "ctrlService c = []") (simp_all add: ctrl_ok_def chosen_def)

lemma chose_eq: "choseCtrlService w = (if length (ctrlService (loader (db w))) \<le> ctrlServiceIdx (chosen (loader (db w))) then (Inl CtrlPanic, w)
    else (Inr (ctrlService (loader (db w)) ! ctrlServiceIdx (chosen (loader (db w)))), w\<lparr>db := (db w)\<lparr>loader := chosen (loader (db w))\<rparr>\<rparr>))"
  by (simp add: choseCtrlService_def chosen_def Let_def)

lemma http_get_frame: "http_get_ok e api w = (r, w') \<Longrightarrow> files (db w') = files (db w) \<and> loader (db w') = loader (db w) \<and> ticks w \<le> ticks w' \<and> r \<noteq> Inl CtrlPanic"
  by (auto simp: http_get_ok_def Let_def split: if_splits sum.splits prod.splits)

text \<open>A request leaves the files alone, moves on to the service in turn and panics only when there is none.\<close>

lemma ctrl_load_frame:
  assumes "ctrl_load e w = (r, w')"
  shows "files (db w') = files (db w)" and "fixed (loader (db w')) = fixed (if r = Inl CtrlPanic then loader (db w) else chosen (loader (db w)))"
    and "ticks w \<le> ticks w'" and "ctrl_ok (loader (db w)) \<Longrightarrow> r \<noteq> Inl CtrlPanic"
  using assms chosen_ok [of "loader (db w)"]
  by (auto simp: ctrl_load_def urlfor_def bindE_def chose_eq failE_def returnE_def ctrl_ok_def dest!: http_get_frame
      split: if_splits sum.splits prod.splits option.splits)

lemma config_state_fixed: "files st = files st' \<Longrightarrow> fixed (loader st) = fixed c \<Longrightarrow> dstPath c = dstPath (loader st') \<Longrightarrow>
    lastVersion c = lastVersion (loader st') \<Longrightarrow> config_state st = config_state st'"
  by (simp add: config_state_def fixed_def)

lemma main_apart_fixed: "fixed c = fixed c' \<Longrightarrow> main_apart e c = main_apart e c'"
  by (simp add: main_apart_def fixed_def)

lemma main_apart_chosen [simp]: "main_apart e (chosen c) = main_apart e c"
  by (simp add: main_apart_def)

text \<open>The cases of a load.\<close>

lemma ctrl_load_body_cases:
  assumes "ctrl_load_body e w = (r, w')"
  obtains (quiet) er w1 where "ctrl_load e w = (Inl er, w1)" "w' = w1" "r = (if er = errNotModified then Inr () else Inl er)"
  | (bad) body w1 where "ctrl_load e w = (Inr body, w1)" "w' = w1" "unmarshal_load e body = None" "\<exists>g. r = Inl (Failed g)"
  | (null) body w1 where "ctrl_load e w = (Inr body, w1)" "w' = w1" "unmarshal_load e body = Some None" "r = Inl CtrlPanic"
  | (store) body w1 resp where "ctrl_load e w = (Inr body, w1)" "unmarshal_load e body = Some (Some resp)" "store_config e resp w1 = (r, w')"
  using assms unfolding ctrl_load_body_def
  by (auto simp: bindE_def tryE_def failE_def returnE_def split: prod.splits sum.splits ctrl_error.splits option.splits)

lemma ctrl_load_body_main:
  assumes "main_apart e (loader (db w))" and "ctrl_load_body e w = (r, w')"
  shows "(config_state (db w') = config_state (db w)) \<or>
    (\<exists>body resp yaml. unmarshal_load e body = Some (Some resp) \<and> JSONToYAML e (lr_Config resp) = Inr yaml \<and>
       config_state (db w') = (Some yaml, lr_Version resp) \<and> r \<in> {Inr (), Inl CtrlPanic})"
proof -
  have same: "config_state (db w1) = config_state (db w) \<and> main_apart e (loader (db w1))" if "ctrl_load e w = (r1, w1)" for r1 w1
    using ctrl_load_frame(1,2) [OF that] assms(1) main_apart_fixed [of "loader (db w1)" "loader (db w)" e] main_apart_fixed [of "loader (db w1)" "chosen (loader (db w))" e]
    by (auto simp: config_state_def fixed_def split: if_splits)
  from assms(2) show ?thesis
  proof (cases rule: ctrl_load_body_cases)
    case (store body w1 resp)
    from same [OF store(1)] store_config_main [OF _ store(2,3)] store(2) show ?thesis by metis
  qed (use same in blast)+
qed

section \<open>Taking turns\<close>

definition keeps_loader :: "CtrlConfigLoader \<Rightarrow> ctrl_state \<Rightarrow> bool" where
  "keeps_loader c st \<longleftrightarrow> ctrlService (loader st) = ctrlService c \<and> ctrlServiceIdx (loader st) = ctrlServiceIdx c \<and> nextCtrlService (loader st) = nextCtrlService c"

lemma keeps_loader_steps [keeps_intros]:
  "keeps (keeps_loader c) (WriteFile e q s)" "keeps (keeps_loader c) (Rename e q q')" "keeps (keeps_loader c) (Remove e q)"
  "keeps (keeps_loader c) (ReadDir e dir)" "keeps (keeps_loader c) (upd_loader (\<lambda>c. c\<lparr>lastPriorityVersion := v\<rparr>))"
  "keeps (keeps_loader c) (upd_loader (\<lambda>c. c\<lparr>lastVersion := u\<rparr>))"
  by (auto simp: keeps_def keeps_loader_def WriteFile_def Rename_def Remove_def ReadDir_def upd_loader_def split: option.splits)

lemma keeps_loader_items [keeps_intros]: "keeps (keeps_loader c) (write_items e dir items vs)"
  by (induction e dir items vs rule: write_items.induct) (auto intro!: keeps_intros split: sum.splits)

lemma keeps_loader_expired [keeps_intros]: "keeps (keeps_loader c) (remove_expired e dir keys es)"
  by (induction e dir keys es rule: remove_expired.induct) (auto intro!: keeps_intros)

lemma keeps_loader_priority [keeps_intros]: "keeps (keeps_loader c) (priority_files e dir items)"
  unfolding priority_files_def cleanUpPriorityConfigs_def by (intro keeps_intros)

lemma keeps_loader_write: "keeps (keeps_loader c) (writePriorityConfigs e resp)"
  by (auto simp: keeps_def writePriorityConfigs_def dest: keepsD [OF keeps_loader_priority] split: if_splits)

lemma keeps_loader_store: "keeps (keeps_loader c) (store_config e resp)"
proof -
  have "keeps (keeps_loader c) (write_config e tmp dst yaml resp)" for tmp dst yaml
    unfolding write_config_def by (intro keeps_intros keeps_loader_write)
  then show ?thesis by (auto simp: keeps_def [of _ "store_config e resp"] store_config_def dest: keepsD split: sum.splits)
qed

lemma keeps_loader_fixed: "fixed (loader st) = fixed c \<Longrightarrow> keeps_loader c st"
  by (simp add: keeps_loader_def fixed_def)

text \<open>After a load the service in turn is the current one, and after a failed one the next has its turn.\<close>

lemma ctrl_load_body_turn:
  assumes "ctrl_ok (loader (db w))" and "ctrl_load_body e w = (r, w')"
  shows "keeps_loader (chosen (loader (db w))) (db w')"
proof -
  have k: "keeps_loader (chosen (loader (db w))) (db w1)" if "ctrl_load e w = (r1, w1)" for r1 w1
    using ctrl_load_frame(2,4) [OF that] assms(1) by (auto intro: keeps_loader_fixed)
  from assms(2) show ?thesis
  proof (cases rule: ctrl_load_body_cases)
    case (store body w1 resp)
    show ?thesis by (rule keepsD [OF keeps_loader_store k [OF store(1)] store(3)])
  qed (use k in blast)+
qed

lemma ctrl_Load_turn:
  assumes "ctrl_ok (loader (db w))" and "ctrl_Load e w = (r, w')"
  shows "ctrlService (loader (db w')) = ctrlService (loader (db w))" and "ctrlServiceIdx (loader (db w')) = ctrlServiceIdx (chosen (loader (db w)))"
    and "nextCtrlService (loader (db w')) \<longleftrightarrow> isl r \<and> \<not> ctrl_panics r" and "ctrl_ok (loader (db w'))"
proof -
  obtain r1 w1 where l: "ctrl_load_body e w = (r1, w1)" by fastforce
  have k: "keeps_loader (chosen (loader (db w))) (db w1)" by (rule ctrl_load_body_turn [OF assms(1) l])
  with assms(2) show s: "ctrlService (loader (db w')) = ctrlService (loader (db w))"
    and i: "ctrlServiceIdx (loader (db w')) = ctrlServiceIdx (chosen (loader (db w)))"
    and "nextCtrlService (loader (db w')) \<longleftrightarrow> isl r \<and> \<not> ctrl_panics r"
    by (auto simp: ctrl_Load_def l keeps_loader_def upd_loader_def ctrl_panics_def split: sum.splits ctrl_error.splits)
  show "ctrl_ok (loader (db w'))" using chosen_ok [OF assms(1)] s i by (simp add: ctrl_ok_def)
qed

fun loads :: "'x ctrl_env_scheme \<Rightarrow> nat \<Rightarrow> ctrl_world \<Rightarrow> ctrl_world" where
  "loads e 0 w = w"
| "loads e (Suc k) w = snd (ctrl_Load e (loads e k w))"

lemma loads_turn:
  assumes "ctrl_ok (loader (db w))" and "\<forall>j<k. isl (fst (ctrl_Load e (loads e j w))) \<and> \<not> ctrl_panics (fst (ctrl_Load e (loads e j w)))"
  shows "ctrlService (loader (db (loads e k w))) = ctrlService (loader (db w)) \<and> ctrl_ok (loader (db (loads e k w))) \<and>
    ctrlServiceIdx (chosen (loader (db (loads e k w)))) = (ctrlServiceIdx (chosen (loader (db w))) + k) mod length (ctrlService (loader (db w)))"
  using assms(2)
proof (induction k)
  case 0
  show ?case using chosen_ok [OF assms(1)] assms(1) by (simp add: ctrl_ok_def)
next
  case (Suc k)
  let ?v = "loads e k w"
  obtain r v' where l: "ctrl_Load e ?v = (r, v')" by fastforce
  have ok: "ctrl_ok (loader (db ?v))" and IH: "ctrlService (loader (db ?v)) = ctrlService (loader (db w))"
    "ctrlServiceIdx (chosen (loader (db ?v))) = (ctrlServiceIdx (chosen (loader (db w))) + k) mod length (ctrlService (loader (db w)))"
    using Suc by simp_all
  have "isl r \<and> \<not> ctrl_panics r" using Suc.prems l by (metis fst_conv lessI)
  with ctrl_Load_turn [OF ok l] IH show ?case by (simp add: l chosen_def [of "loader (db v')"] mod_Suc_eq)
qed

section \<open>Services that answer\<close>

definition answers :: "'x ctrl_env_scheme \<Rightarrow> string \<Rightarrow> bool" where
  "answers e s \<longleftrightarrow> (\<exists>u. url_join e s ''/v1/control/gateway/release'' = Some u \<and>
     (\<forall>q. \<not> refused_address e (with_query u q) \<and> (\<forall>n. (\<exists>body. ctrl_respond e n (with_query u q) = Inr (304, body)) \<or>
        (\<exists>body resp yaml. ctrl_respond e n (with_query u q) = Inr (200, Inr body) \<and> unmarshal_load e body = Some (Some resp) \<and>
           JSONToYAML e (lr_Config resp) = Inr yaml))))"

text \<open>No service answers with a JSON value that makes the loader panic.\<close>

definition no_nulls :: "'x ctrl_env_scheme \<Rightarrow> bool" where
  "no_nulls e \<longleftrightarrow> (\<forall>body. unmarshal_load e body \<noteq> Some None) \<and> (\<forall>body resp. unmarshal_load e body = Some (Some resp) \<longrightarrow> None \<notin> set (lr_PriorityConfigs resp))"

lemma Remove_no_panic: "Remove e p w = (r, w') \<Longrightarrow> r \<noteq> Inl CtrlPanic"
  by (auto simp: Remove_def split: option.splits)

lemma remove_expired_total: "\<exists>w'. remove_expired e dir keys es w = (Inr (), w')"
  by (induction e dir keys es arbitrary: w rule: remove_expired.induct) (auto simp: bindE_def tryE_def returnE_def split: prod.splits)

lemma cleanUp_total: "\<exists>w'. cleanUpPriorityConfigs e dir vs w = (Inr (), w')"
  using remove_expired_total
  by (auto simp: cleanUpPriorityConfigs_def bindE_def tryE_def returnE_def split: prod.splits sum.splits)

lemma write_items_no_panic: "None \<notin> set items \<Longrightarrow> write_items e dir items vs w = (r, w') \<Longrightarrow> r \<noteq> Inl CtrlPanic"
proof (induction items arbitrary: vs w)
  case (Cons i items)
  then obtain item where "i = Some item" by (cases i) auto
  with Cons show ?case
    by (auto simp: bindE_def failE_def WriteFile_def Rename_def split: sum.splits prod.splits option.splits)
qed (auto simp: returnE_def)

lemma priority_files_no_panic: "None \<notin> set items \<Longrightarrow> priority_files e dir items w = (r, w') \<Longrightarrow> r \<noteq> Inl CtrlPanic"
proof -
  assume n: "None \<notin> set items" and p: "priority_files e dir items w = (r, w')"
  obtain r1 w1 where w1: "write_items e dir items [] w = (r1, w1)" by fastforce
  from write_items_no_panic [OF n w1] have r1: "r1 \<noteq> Inl CtrlPanic" .
  show ?thesis
  proof (cases r1)
    case (Inl er)
    with p w1 r1 show ?thesis by (auto simp: priority_files_def bindE_def)
  next
    case (Inr vs)
    obtain w2 where "cleanUpPriorityConfigs e dir vs w1 = (Inr (), w2)" using cleanUp_total by blast
    with p w1 Inr show ?thesis by (auto simp: priority_files_def bindE_def upd_loader_def)
  qed
qed

lemma store_config_ok:
  assumes "\<forall>n. io_err e n = None" and "None \<notin> set (lr_PriorityConfigs resp)" and "JSONToYAML e (lr_Config resp) = Inr yaml"
  shows "fst (store_config e resp w) = Inr ()"
proof -
  have "writePriorityConfigs e resp v = (r, v') \<Longrightarrow> \<not> ctrl_panics r" for v r v'
    using priority_files_no_panic [OF assms(2), of e] by (auto simp: writePriorityConfigs_def ctrl_panics_def split: if_splits)
  then show ?thesis
    by (auto simp: store_config_def assms write_config_def bindE_def WriteFile_def Rename_def upd_loader_def tryE_def returnE_def split: prod.splits)
qed

lemma store_config_no_panic:
  assumes "None \<notin> set (lr_PriorityConfigs resp)" and "store_config e resp w = (r, w')"
  shows "r \<noteq> Inl CtrlPanic"
proof -
  have "writePriorityConfigs e resp v = (q, v') \<Longrightarrow> \<not> ctrl_panics q" for v q v'
    using priority_files_no_panic [OF assms(1), of e] by (auto simp: writePriorityConfigs_def ctrl_panics_def split: if_splits)
  then show ?thesis using assms(2)
    by (auto simp: store_config_def write_config_def bindE_def WriteFile_def Rename_def upd_loader_def tryE_def returnE_def
        split: prod.splits sum.splits option.splits)
qed

lemma ctrl_Load_no_panic:
  assumes "ctrl_ok (loader (db w))" and "no_nulls e"
  shows "\<not> ctrl_panics (fst (ctrl_Load e w))"
proof -
  obtain r1 w1 where l: "ctrl_load_body e w = (r1, w1)" by fastforce
  then have "r1 \<noteq> Inl CtrlPanic"
  proof (cases rule: ctrl_load_body_cases)
    case (quiet er w2)
    then show ?thesis using ctrl_load_frame(4) [OF quiet(1) assms(1)] by auto
  next
    case (null body w2)
    then show ?thesis using assms(2) by (simp add: no_nulls_def)
  next
    case (store body w2 resp)
    then show ?thesis using assms(2) store_config_no_panic [OF _ store(3)] by (auto simp: no_nulls_def)
  qed auto
  then show ?thesis by (auto simp: ctrl_Load_def l ctrl_panics_def split: sum.splits ctrl_error.splits)
qed

lemma answered_load:
  assumes "ctrl_ok (loader (db w))" and "answers e (ctrlService (loader (db w)) ! ctrlServiceIdx (chosen (loader (db w))))"
    and "\<forall>n. io_err e n = None" and "no_nulls e"
  shows "fst (ctrl_Load e w) = Inr ()"
proof -
  let ?c = "loader (db w)" and ?q = "release_params e (ticks w) (db w)"
  obtain u where u: "url_join e (ctrlService ?c ! ctrlServiceIdx (chosen ?c)) ''/v1/control/gateway/release'' = Some u"
    and a: "\<not> refused_address e (with_query u ?q)" "(\<exists>body. ctrl_respond e (ticks w) (with_query u ?q) = Inr (304, body)) \<or>
        (\<exists>body resp yaml. ctrl_respond e (ticks w) (with_query u ?q) = Inr (200, Inr body) \<and> unmarshal_load e body = Some (Some resp) \<and>
           JSONToYAML e (lr_Config resp) = Inr yaml)"
    using assms(2) unfolding answers_def by blast
  have c: "\<not> length (ctrlService ?c) \<le> ctrlServiceIdx (chosen ?c)" using chosen_ok [OF assms(1)] by (simp add: ctrl_ok_def)
  have "fst (ctrl_load_body e w) = Inr ()"
    using a(2)
  proof (elim disjE exE conjE)
    fix body assume "ctrl_respond e (ticks w) (with_query u ?q) = Inr (304, body)"
    then show ?thesis using a(1) u c
      by (simp add: ctrl_load_body_def ctrl_load_def urlfor_def bindE_def tryE_def chose_eq http_get_ok_def returnE_def Let_def)
  next
    fix body resp yaml
    assume r: "ctrl_respond e (ticks w) (with_query u ?q) = Inr (200, Inr body)" "unmarshal_load e body = Some (Some resp)"
      "JSONToYAML e (lr_Config resp) = Inr yaml"
    then have "None \<notin> set (lr_PriorityConfigs resp)" using assms(4) by (auto simp: no_nulls_def)
    from store_config_ok [OF assms(3) this r(3)] r a(1) u c show ?thesis
      by (simp add: ctrl_load_body_def ctrl_load_def urlfor_def bindE_def tryE_def chose_eq http_get_ok_def returnE_def Let_def)
  qed
  then show ?thesis by (auto simp: ctrl_Load_def split: prod.splits)
qed

section \<open>The loop\<close>

text \<open>While every request fails, a load fails and nothing else is looked at.\<close>

definition all_down :: "'x ctrl_env_scheme \<Rightarrow> nat \<Rightarrow> bool" where
  "all_down e n \<longleftrightarrow> (\<forall>k u. n \<le> k \<longrightarrow> isl (ctrl_respond e k u))"

lemma down_load:
  assumes "all_down e (ticks w)" and "ctrl_ok (loader (db w))" and "ctrl_Load e w = (r, w')"
  shows "isl r \<and> \<not> ctrl_panics r \<and> ticks w \<le> ticks w' \<and> ctrl_ok (loader (db w'))"
proof -
  obtain r1 w1 where l: "ctrl_load e w = (r1, w1)" by fastforce
  have p: "ticks w \<le> ticks w1" "r1 \<noteq> Inl CtrlPanic" using ctrl_load_frame(3,4) [OF l] assms(2) by auto
  have "ctrl_respond e (ticks w) u \<noteq> Inr x" for u x using assms(1) by (metis all_down_def order_refl sum.disc(2))
  then have f: "\<exists>er. r1 = Inl (Failed er)"
    using l p(2)
    by (auto simp: ctrl_load_def urlfor_def bindE_def chose_eq failE_def returnE_def http_get_ok_def Let_def
        split: if_splits sum.splits prod.splits option.splits)
  then obtain er where r1: "r1 = Inl (Failed er)" by blast
  have "ctrl_load_body e w = (Inl (Failed er), w1)" by (simp add: ctrl_load_body_def bindE_def tryE_def l r1 failE_def)
  then have "r = Inl (Failed er)" "ticks w' = ticks w1" using assms(3) by (auto simp: ctrl_Load_def upd_loader_def)
  with p ctrl_Load_turn(4) [OF assms(2,3)] show ?thesis by (simp add: ctrl_panics_def)
qed

lemma down_never_returns:
  fixes e :: "'a ctrl_env_scheme"
  assumes "all_down e (ticks w)" and "ctrl_ok (loader (db w))"
  shows "ctrl_Run e w = None"
proof (rule ccontr)
  assume "ctrl_Run e w \<noteq> None"
  then obtain rw where rw: "ctrl_Run e w = Some rw" by blast
  define P where "P = (\<lambda>(e :: 'a ctrl_env_scheme) (w :: ctrl_world) (rw :: (ctrl_error + unit) \<times> ctrl_world). \<not> (all_down e (ticks w) \<and> ctrl_ok (loader (db w))))"
  have "P e w rw"
  proof (rule ctrl_Run.raw_induct [OF _ rw, of P])
    fix f and e :: "'a ctrl_env_scheme" and w rw
    assume IH: "\<And>(e :: 'a ctrl_env_scheme) w rw. f e w = Some rw \<Longrightarrow> P e w rw"
      and F: "(case ctrl_Load e w of (r1, w1) \<Rightarrow>
          if ctrl_panics r1 then Some (r1, w1)
          else if isl r1 then f e w1
          else (case LoadFeatures e w1 of (r2, w2) \<Rightarrow>
              if ctrl_panics r2 then Some (r2, w2)
              else if ctx_done e (ticks w2) then Some (Inr (), tick w2)
              else f e (tick w2))) = Some rw"
    obtain r1 w1 where l: "ctrl_Load e w = (r1, w1)" by fastforce
    show "P e w rw"
    proof (rule ccontr)
      assume "\<not> P e w rw"
      then have d: "all_down e (ticks w)" "ctrl_ok (loader (db w))" by (simp_all add: P_def)
      note s = down_load [OF d l]
      with F have "f e w1 = Some rw" by (simp add: l)
      from IH [OF this] s d(1) show False by (auto simp: P_def all_down_def)
    qed
  qed
  with assms show False by (simp add: P_def)
qed

section \<open>The priority directory\<close>

lemma rel_segs_plain: "\<forall>s \<in> set segs \<union> set out. CHR ''/'' \<notin> set s \<Longrightarrow> \<forall>s \<in> set (foldl clean_rel_seg out segs). CHR ''/'' \<notin> set s"
proof (induction segs arbitrary: out)
  case (Cons s segs)
  have "\<forall>x \<in> set (clean_rel_seg out s). CHR ''/'' \<notin> set x"
    using Cons.prems by (auto simp: clean_rel_seg_def dest: in_set_butlastD)
  with Cons.IH [of "clean_rel_seg out s"] Cons.prems show ?case by auto
qed simp

text \<open>A plain name joined to a directory is the last segment of the path.\<close>

lemma base_Join:
  assumes "dir \<noteq> ''''" and "plain_seg n"
  shows "base (path_Join dir n) = n"
proof -
  have n: "n \<noteq> ''''" "CHR ''/'' \<notin> set n" "clean_seg out n = out @ [n]" "clean_rel_seg out n = out @ [n]" for out
    using assms(2) by (auto simp: plain_seg_def clean_seg_def clean_rel_seg_def)
  have sp: "Split CHR ''/'' (dir @ CHR ''/'' # n) = Split CHR ''/'' dir @ [n]" using n(2) by (simp add: Split_append_sep Split_plain)
  define a where "a = clean_segs (Split CHR ''/'' dir)"
  define b where "b = foldl clean_rel_seg [] (Split CHR ''/'' dir)"
  have a: "\<forall>s \<in> set (a @ [n]). CHR ''/'' \<notin> set s" using clean_segs_plain [of dir] n(2) by (auto simp: a_def list_all_iff plain_seg_def)
  have b: "\<forall>s \<in> set (b @ [n]). CHR ''/'' \<notin> set s" unfolding b_def using rel_segs_plain [of "Split CHR ''/'' dir" "[]"] n(2) by (auto dest: Split_no_sep)
  have ra: "path_Clean (dir @ CHR ''/'' # n) = CHR ''/'' # Join (a @ [n]) ''/''" by (simp add: path_Clean_def sp clean_segs_append a_def n)
  have rb: "foldl clean_rel_seg [] (Split CHR ''/'' (dir @ CHR ''/'' # n)) = b @ [n]" by (simp add: sp b_def n)
  have "Split CHR ''/'' (CHR ''/'' # Join (a @ [n]) ''/'') = [] # (a @ [n])" using Split_Join [OF _ a] by simp
  moreover have "Split CHR ''/'' (Join (b @ [n]) ''/'') = b @ [n]" using Split_Join [OF _ b] by simp
  moreover have "(case b @ [n] of [] \<Rightarrow> ''.'' | x # xs \<Rightarrow> Join (x # xs) ''/'') = Join (b @ [n]) ''/''" by (cases "b @ [n]") auto
  ultimately show ?thesis using assms(1) n(1) by (simp add: base_def path_Join_def clean_any_def ra rb)
qed

lemma plain_yaml: "CHR ''/'' \<notin> set k \<Longrightarrow> plain_seg (k @ ''.yaml'')" "CHR ''/'' \<notin> set k \<Longrightarrow> plain_seg (k @ ''.yaml.tmp'')"
  by (cases k; auto simp: plain_seg_def)+

lemma priority_paths:
  assumes "dir \<noteq> ''''" and "CHR ''/'' \<notin> set k" and "CHR ''/'' \<notin> set k'"
  shows "path_Join dir (k @ ''.yaml'') = path_Join dir (k' @ ''.yaml'') \<longleftrightarrow> k = k'" and "path_Join dir (k @ ''.yaml'') \<noteq> path_Join dir (k' @ ''.yaml.tmp'')"
proof -
  show "path_Join dir (k @ ''.yaml'') = path_Join dir (k' @ ''.yaml'') \<longleftrightarrow> k = k'"
    using base_Join [OF assms(1) plain_yaml(1) [OF assms(2)]] base_Join [OF assms(1) plain_yaml(1) [OF assms(3)]] by (metis append_same_eq)
  have "last (k @ ''.yaml'') \<noteq> last (k' @ ''.yaml.tmp'')" by simp
  then show "path_Join dir (k @ ''.yaml'') \<noteq> path_Join dir (k' @ ''.yaml.tmp'')"
    using base_Join [OF assms(1) plain_yaml(1) [OF assms(2)]] base_Join [OF assms(1) plain_yaml(2) [OF assms(3)]] by metis
qed

lemma write_items_files:
  assumes "dir \<noteq> ''''" and "\<forall>n. io_err e n = None" and "\<forall>i \<in> set its. CHR ''/'' \<notin> set (pi_Key i) \<and> JSONToYAML e (pi_Config i) = Inr (yaml i)"
  shows "\<exists>vs' w'. write_items e dir (map Some its) vs w = (Inr vs', w') \<and> fst ` set vs' = fst ` set vs \<union> pi_Key ` set its \<and>
    (\<forall>k. CHR ''/'' \<notin> set k \<longrightarrow> map_of (files (db w')) (path_Join dir (k @ ''.yaml'')) =
       (case map_of (rev (map (\<lambda>i. (pi_Key i, yaml i)) its)) k of Some y \<Rightarrow> Some y | None \<Rightarrow> map_of (files (db w)) (path_Join dir (k @ ''.yaml''))))"
  using assms(3)
proof (induction its arbitrary: vs w)
  case Nil
  then show ?case by (simp add: returnE_def)
next
  case (Cons i its)
  let ?t = "path_Join dir (pi_Key i @ ''.yaml.tmp'')" and ?d = "path_Join dir (pi_Key i @ ''.yaml'')"
  let ?w = "(tick (tick w))\<lparr>db := (db w)\<lparr>files := put_file ?d (yaml i) (remove_file ?t (put_file ?t (yaml i) (files (db w))))\<rparr>\<rparr>"
  have i: "CHR ''/'' \<notin> set (pi_Key i)" "JSONToYAML e (pi_Config i) = Inr (yaml i)" and its: "\<forall>i \<in> set its. CHR ''/'' \<notin> set (pi_Key i) \<and> JSONToYAML e (pi_Config i) = Inr (yaml i)"
    using Cons.prems by auto
  have step: "write_items e dir (map Some (i # its)) vs w = write_items e dir (map Some its) (AList.update (pi_Key i) (pi_Version i) vs) ?w"
    using assms(2) i(2) by (simp add: bindE_def WriteFile_def Rename_def tick_def)
  obtain vs' w' where IH: "write_items e dir (map Some its) (AList.update (pi_Key i) (pi_Version i) vs) ?w = (Inr vs', w')"
    "fst ` set vs' = fst ` set (AList.update (pi_Key i) (pi_Version i) vs) \<union> pi_Key ` set its"
    "\<forall>k. CHR ''/'' \<notin> set k \<longrightarrow> map_of (files (db w')) (path_Join dir (k @ ''.yaml'')) =
       (case map_of (rev (map (\<lambda>i. (pi_Key i, yaml i)) its)) k of Some y \<Rightarrow> Some y | None \<Rightarrow> map_of (files (db ?w)) (path_Join dir (k @ ''.yaml'')))"
    using Cons.IH [OF its] by blast
  have "fst ` set vs' = fst ` set vs \<union> pi_Key ` set (i # its)" using IH(2) by (auto simp: dom_update)
  moreover have "map_of (files (db ?w)) (path_Join dir (k @ ''.yaml'')) = (if k = pi_Key i then Some (yaml i) else map_of (files (db w)) (path_Join dir (k @ ''.yaml'')))"
    if "CHR ''/'' \<notin> set k" for k
    using priority_paths [OF assms(1) that i(1)] by simp
  ultimately show ?case using IH(1,3) step by (simp add: map_add_def split: option.splits)
qed

lemma remove_expired_files:
  assumes "\<forall>n. io_err e n = None"
  shows "\<exists>w'. remove_expired e dir keys es w = (Inr (), w') \<and> loader (db w') = loader (db w) \<and>
    (\<forall>p. map_of (files (db w')) p =
      (if \<exists>n. (n, False) \<in> set es \<and> Ext n = ''.yaml'' \<and> TrimSuffix n ''.yaml'' \<notin> keys \<and> path_Join dir n = p then None else map_of (files (db w)) p))"
proof (induction es arbitrary: w)
  case (Cons en es)
  obtain n d where en: "en = (n, d)" by fastforce
  show ?case
  proof (cases "d \<or> Ext n \<noteq> ''.yaml'' \<or> TrimSuffix n ''.yaml'' \<in> keys")
    case True
    obtain w' where "remove_expired e dir keys es w = (Inr (), w')" "loader (db w') = loader (db w)"
      "\<forall>p. map_of (files (db w')) p =
      (if \<exists>n. (n, False) \<in> set es \<and> Ext n = ''.yaml'' \<and> TrimSuffix n ''.yaml'' \<notin> keys \<and> path_Join dir n = p then None else map_of (files (db w)) p)"
      using Cons.IH by blast
    then show ?thesis using True by (auto simp: en)
  next
    case False
    let ?w = "(tick w)\<lparr>db := (db w)\<lparr>files := remove_file (path_Join dir n) (files (db w))\<rparr>\<rparr>"
    obtain w' where w': "remove_expired e dir keys es ?w = (Inr (), w')" "loader (db w') = loader (db ?w)"
      "\<forall>p. map_of (files (db w')) p =
      (if \<exists>n. (n, False) \<in> set es \<and> Ext n = ''.yaml'' \<and> TrimSuffix n ''.yaml'' \<notin> keys \<and> path_Join dir n = p then None else map_of (files (db ?w)) p)"
      using Cons.IH by blast
    have "remove_expired e dir keys (en # es) w = (Inr (), w')" using False w'(1) assms by (simp add: en bindE_def tryE_def Remove_def)
    then show ?thesis using False w'(2,3) by (auto simp: en)
  qed
qed (simp add: returnE_def)

lemma TrimSuffix_yaml [simp]: "TrimSuffix (k @ ''.yaml'') ''.yaml'' = k"
  by (simp add: TrimSuffix_def HasSuffix_def)

lemma Ext_yaml [simp]: "Ext (k @ ''.yaml'') = ''.yaml''"
  by (simp add: Ext_def)

text \<open>When nothing fails, the directory has exactly the files of the answer.\<close>

lemma priority_files_exact:
  assumes "dir \<noteq> ''''" and "\<forall>n. io_err e n = None" and "\<forall>i \<in> set its. CHR ''/'' \<notin> set (pi_Key i) \<and> JSONToYAML e (pi_Config i) = Inr (yaml i)"
  shows "\<exists>w'. priority_files e dir (map Some its) w = (Inr (), w') \<and>
    (\<forall>k. CHR ''/'' \<notin> set k \<longrightarrow> map_of (files (db w')) (path_Join dir (k @ ''.yaml'')) = map_of (rev (map (\<lambda>i. (pi_Key i, yaml i)) its)) k)"
proof -
  obtain vs w1 where w1: "write_items e dir (map Some its) [] w = (Inr vs, w1)" "fst ` set vs = pi_Key ` set its"
    "\<forall>k. CHR ''/'' \<notin> set k \<longrightarrow> map_of (files (db w1)) (path_Join dir (k @ ''.yaml'')) =
       (case map_of (rev (map (\<lambda>i. (pi_Key i, yaml i)) its)) k of Some y \<Rightarrow> Some y | None \<Rightarrow> map_of (files (db w)) (path_Join dir (k @ ''.yaml'')))"
    using write_items_files [OF assms, of "[]" w] by auto
  obtain es where es: "ReadDir e dir w1 = (Inr es, tick w1)" "\<And>n. (n, False) \<in> set es \<longleftrightarrow> (\<exists>p \<in> fst ` set (files (db w1)). path_Join dir (base p) = p \<and> n = base p)"
    using assms(2) by (auto simp: ReadDir_def)
  obtain w2 where w2: "remove_expired e dir (pi_Key ` set its) es (tick w1) = (Inr (), w2)"
    "\<forall>p. map_of (files (db w2)) p = (if \<exists>n. (n, False) \<in> set es \<and> Ext n = ''.yaml'' \<and> TrimSuffix n ''.yaml'' \<notin> pi_Key ` set its \<and> path_Join dir n = p
        then None else map_of (files (db w1)) p)"
    using remove_expired_files [OF assms(2), of dir "pi_Key ` set its" es "tick w1"] unfolding tick_simps by blast
  have "map_of (files (db w2)) (path_Join dir (k @ ''.yaml'')) = map_of (rev (map (\<lambda>i. (pi_Key i, yaml i)) its)) k" if k: "CHR ''/'' \<notin> set k" for k
  proof (cases "k \<in> pi_Key ` set its")
    case True
    then obtain y where y: "map_of (rev (map (\<lambda>i. (pi_Key i, yaml i)) its)) k = Some y" by (force simp: map_of_eq_None_iff)
    have "\<not> (\<exists>n. (n, False) \<in> set es \<and> TrimSuffix n ''.yaml'' \<notin> pi_Key ` set its \<and> path_Join dir n = path_Join dir (k @ ''.yaml''))"
      using es(2) base_Join [OF assms(1) plain_yaml(1) [OF k]] True TrimSuffix_yaml by metis
    then show ?thesis using w1(3) w2(2) k y by auto
  next
    case False
    then have y: "map_of (rev (map (\<lambda>i. (pi_Key i, yaml i)) its)) k = None" by (force simp: map_of_eq_None_iff)
    show ?thesis
    proof (cases "map_of (files (db w1)) (path_Join dir (k @ ''.yaml''))")
      case None
      then show ?thesis using w2(2) y by auto
    next
      case (Some c)
      then have "path_Join dir (k @ ''.yaml'') \<in> fst ` set (files (db w1))" by (metis domI dom_map_of_conv_image_fst)
      then have "(k @ ''.yaml'', False) \<in> set es" unfolding es(2) using base_Join [OF assms(1) plain_yaml(1) [OF k]] by metis
      then have "\<exists>n. (n, False) \<in> set es \<and> Ext n = ''.yaml'' \<and> TrimSuffix n ''.yaml'' \<notin> pi_Key ` set its \<and> path_Join dir n = path_Join dir (k @ ''.yaml'')"
        using False Ext_yaml TrimSuffix_yaml by metis
      with w2(2) y show ?thesis by simp
    qed
  qed
  moreover have "priority_files e dir (map Some its) w = (Inr (), w2\<lparr>db := (db w2)\<lparr>loader := (loader (db w2))\<lparr>lastPriorityVersion := Some vs\<rparr>\<rparr>\<rparr>)"
    by (simp add: priority_files_def bindE_def w1(1,2) cleanUpPriorityConfigs_def tryE_def es(1) w2(1) upd_loader_def)
  ultimately show ?thesis by simp
qed

end
