(* ===== verification/ControlProperties.thy ===== *)
theory ControlProperties
  imports ControlFacts
begin

text \<open>
  The properties of the control-plane loader, with their witnesses: two control services of which the
  first never answers.
\<close>

section \<open>A small control plane\<close>

definition item_ex :: PriorityConfigItem where
  "item_ex = \<lparr>pi_Key = ''blue'', pi_Config = ''b'', pi_Version = ''7''\<rparr>"

definition resp_ex :: LoadResponse where
  "resp_ex = \<lparr>lr_Config = ''c'', lr_Version = ''2'', lr_PriorityConfigs = [Some item_ex]\<rparr>"

definition le_ex :: ctrl_env where
  "le_ex = \<lparr>ctrl_respond = (\<lambda>_ u. if HasPrefix u ''up'' then Inr (200, Inr ''r'') else Inl (Errorf ''refused'')), url_String = Some, shuffle = id,
     url_join = (\<lambda>s p. Some (s @ p)), refused_address = (\<lambda>_. False), unmarshal_load = (\<lambda>_. Some (Some resp_ex)), unmarshal_features = (\<lambda>_. Some (Some [])),
     JSONToYAML = Inr, uuid = (\<lambda>_. ''u''), io_err = (\<lambda>_. None), left_behind = (\<lambda>_. None), feature_Enabled = (\<lambda>_ _. True), range_order = (\<lambda>_. id),
     Getenv = (\<lambda>_. ''''), net_Interfaces = Inr [], ctx_done = (\<lambda>_. True)\<rparr>"

definition lc_ex :: CtrlConfigLoader where
  "lc_ex = \<lparr>ctrlService = [''down'', ''up''], ctrlServiceIdx = 0, nextCtrlService = False, dstPath = ''config.yaml'', dstPriorityConfigDir = ''canary'',
     advertiseName = ''gw'', advertiseAddr = '''', lastVersion = ''1'', lastPriorityVersion = None\<rparr>"

definition lw_ex :: ctrl_world where
  "lw_ex = \<lparr>db = \<lparr>loader = lc_ex, files = [(''config.yaml'', ''old''), (''canary/red.yaml'', ''x'')], dirs = [], feature_calls = [], asked = []\<rparr>,
     rdb = (\<lambda>_. None), ticks = 0\<rparr>"

lemma ok_ex: "ctrl_ok (loader (db lw_ex))"
  by (simp add: ctrl_ok_def lw_ex_def lc_ex_def)



section \<open>Properties\<close>



text \<open>C37. The loader finds a working control service: if one of its services answers every request properly, files can be written and no service sends a null, then one of the next loads, at most as many as there are services, succeeds, whatever the other services answer.\<close>

theorem failover_finds_service:
  assumes "ctrl_ok (loader (db w))" and "s \<in> set (ctrlService (loader (db w)))" and "answers e s" and "\<forall>n. io_err e n = None" and "no_nulls e"
  shows "\<exists>k < length (ctrlService (loader (db w))). fst (ctrl_Load e (loads e k w)) = Inr ()"
proof (rule ccontr)
  let ?n = "length (ctrlService (loader (db w)))" and ?i = "ctrlServiceIdx (chosen (loader (db w)))"
  assume none: "\<not> ?thesis"
  from assms(2) obtain j where j: "j < ?n" "ctrlService (loader (db w)) ! j = s" by (auto simp: in_set_conv_nth)
  have i: "?i < ?n" using chosen_ok [OF assms(1)] by (simp add: ctrl_ok_def)
  define k where "k = (if ?i \<le> j then j - ?i else j + ?n - ?i)"
  have k: "k < ?n" "(?i + k) mod ?n = j" using i j(1) by (auto simp: k_def mod_if)
  have fails: "isl (fst (ctrl_Load e (loads e m w))) \<and> \<not> ctrl_panics (fst (ctrl_Load e (loads e m w)))" if "m < ?n" for m
    using that
  proof (induction m rule: less_induct)
    case (less m)
    then have "ctrl_ok (loader (db (loads e m w)))" using loads_turn [OF assms(1), of m e] by simp
    then have "\<not> ctrl_panics (fst (ctrl_Load e (loads e m w)))" by (rule ctrl_Load_no_panic [OF _ assms(5)])
    moreover have "fst (ctrl_Load e (loads e m w)) \<noteq> Inr ()" using none less.prems by blast
    ultimately show ?case by (cases "fst (ctrl_Load e (loads e m w))") auto
  qed
  with loads_turn [OF assms(1), of k e] k j(2) have "ctrl_ok (loader (db (loads e k w)))"
    "ctrlService (loader (db (loads e k w))) ! ctrlServiceIdx (chosen (loader (db (loads e k w)))) = s" by auto
  from answered_load [OF this(1) _ assms(4,5)] this(2) assms(3) none k(1) show False by auto
qed

lemma answers_ex: "answers le_ex ''up''"
proof -
  have "HasPrefix (with_query (''up'' @ ''/v1/control/gateway/release'') q) ''up''" for q by (simp add: with_query_def)
  then show ?thesis unfolding answers_def by (intro exI [of _ "''up'' @ ''/v1/control/gateway/release''"]) (simp add: le_ex_def)
qed

theorem failover_finds_service_witness:
  "fst (ctrl_Load le_ex lw_ex) \<noteq> Inr () \<and> fst (ctrl_Load le_ex (loads le_ex 1 lw_ex)) = Inr ()"
proof -
  have f: "fst (ctrl_Load le_ex lw_ex) \<noteq> Inr ()" by code_simp
  have l: "length (ctrlService (loader (db lw_ex))) = 2" "''up'' \<in> set (ctrlService (loader (db lw_ex)))" by (simp_all add: lw_ex_def lc_ex_def)
  have "\<forall>n. io_err le_ex n = None" "no_nulls le_ex" by (simp_all add: le_ex_def no_nulls_def resp_ex_def)
  from failover_finds_service [OF ok_ex l(2) answers_ex this] obtain k where "k < 2" "fst (ctrl_Load le_ex (loads le_ex k lw_ex)) = Inr ()" unfolding l(1) by blast
  moreover from this f have "k = 1" by (cases k) auto
  ultimately show ?thesis using f by simp
qed

text \<open>The loop of the loader never looks at its context while loads fail: if from some step on every request to the control services fails, as it does once the context is cancelled, the loop never returns, although the context is done.\<close>

theorem run_ignores_cancel:
  assumes "ctrl_ok (loader (db w))" and "all_down e (ticks w)"
  shows "ctrl_Run e w = None"
  by (rule down_never_returns [OF assms(2,1)])

definition le_down :: ctrl_env where
  "le_down = le_ex\<lparr>ctrl_respond := \<lambda>_ _. Inl (Errorf ''context canceled'')\<rparr>"

theorem run_ignores_cancel_witness: "ctx_done le_down 0 \<and> ctrl_Run le_down lw_ex = None"
  using run_ignores_cancel [OF ok_ex, of le_down] by (simp add: all_down_def le_down_def le_ex_def)



text \<open>A priority configuration that cannot be written is not asked for again: the load succeeds and the new version is reported as loaded.\<close>

lemma priority_failure_silent:
  assumes "JSONToYAML e (lr_Config resp) = Inr yaml"
    and "\<forall>n. io_err e n = None" and "dstPriorityConfigDir (loader (db w)) \<noteq> ''''" and "lr_PriorityConfigs resp = [Some item]"
    and "JSONToYAML e (pi_Config item) = Inl er"
  shows "\<exists>w'. store_config e resp w = (Inr (), w') \<and> lastVersion (loader (db w')) = lr_Version resp \<and>
    lastPriorityVersion (loader (db w')) = lastPriorityVersion (loader (db w))"
  using assms
  by (simp add: store_config_def write_config_def bindE_def WriteFile_def Rename_def upd_loader_def tryE_def writePriorityConfigs_def
      priority_files_def failE_def returnE_def ctrl_panics_def)

end
