(* ===== verification/StreamRecord.thy ===== *)
theory StreamRecord
  imports GatewayHttp
begin

text \<open>
  Streams of the gateway: the callbacks and wrapped bodies of \<^verbatim>\<open>app/gateway/middleware/stream.go\<close>, how
  \<^verbatim>\<open>proxy/proxy.go\<close> puts them around the bodies of a streamed request, the recorder of
  \<^verbatim>\<open>middleware/streamrecorder/recorder.go\<close> with its reader, and the copy loop of \<^verbatim>\<open>proxy/nobuffering.go\<close>.

  A callback is a function on the recorders of the process, a list in which a recorder has its place. The
  body underneath is a parameter: functions for reading, writing and closing on a state of its own.
\<close>

section \<open>Chunks and callbacks\<close>

datatype io_err = EOF | IoErr gw_err

record MetaStreamChunk =
  mc_Tag :: string
  mc_Data :: string
  mc_Err :: "io_err option"

definition TagRequest :: string where "TagRequest = ''request''"
definition TagResponse :: string where "TagResponse = ''response''"

record StreamRecorder =
  rec_Request :: "MetaStreamChunk list"
  rec_Response :: "MetaStreamChunk list"

type_synonym recorders = "StreamRecorder list"

record MetaStreamContext =
  mx_OnResponse :: "(recorders \<Rightarrow> recorders) list"
  mx_OnFinish :: "(recorders \<Rightarrow> recorders) list"
  mx_OnChunk :: "(MetaStreamChunk \<Rightarrow> recorders \<Rightarrow> recorders) list"
  mx_finished :: bool

definition new_context :: MetaStreamContext where
  "new_context = \<lparr>mx_OnResponse = [], mx_OnFinish = [], mx_OnChunk = [], mx_finished = False\<rparr>"

definition DoOnResponse :: "MetaStreamContext \<Rightarrow> recorders \<Rightarrow> recorders" where
  "DoOnResponse ctx rs = fold (\<lambda>fn. fn) (mx_OnResponse ctx) rs"

text \<open>\<^verbatim>\<open>finishOnce\<close> is marked before the functions run.\<close>

definition DoOnFinish :: "MetaStreamContext \<Rightarrow> recorders \<Rightarrow> MetaStreamContext \<times> recorders" where
  "DoOnFinish ctx rs =
     (if mx_finished ctx then (ctx, rs) else (ctx\<lparr>mx_finished := True\<rparr>, fold (\<lambda>fn. fn) (mx_OnFinish ctx) rs))"

definition do_chunk :: "MetaStreamContext \<Rightarrow> MetaStreamChunk \<Rightarrow> recorders \<Rightarrow> recorders" where
  "do_chunk ctx m rs = fold (\<lambda>fn. fn m) (mx_OnChunk ctx) rs"

section \<open>Wrapped bodies\<close>

record 'b io_body =
  io_Read :: "nat \<Rightarrow> 'b \<Rightarrow> (string \<times> io_err option) \<times> 'b"
  io_Write :: "string \<Rightarrow> 'b \<Rightarrow> (nat \<times> io_err option) \<times> 'b"
  io_Close :: "'b \<Rightarrow> io_err option \<times> 'b"

text \<open>\<open>readCloserBody\<close> has a tag; both kinds have the channel that their first \<^verbatim>\<open>Close\<close> closes.\<close>

datatype 'b stream_body = NoBody | RawBody 'b | readCloserBody string bool 'b | readWriteCloserBody bool 'b

definition WrapReadCloserBody :: "'b \<Rightarrow> string \<Rightarrow> 'b stream_body" where
  "WrapReadCloserBody rc tag = readCloserBody tag False rc"

definition WrapReadWriteCloserBody :: "'b \<Rightarrow> 'b stream_body" where
  "WrapReadWriteCloserBody rwc = readWriteCloserBody False rwc"

fun CloseNotify :: "'b stream_body \<Rightarrow> bool" where
  "CloseNotify (readCloserBody _ closed _) = closed"
| "CloseNotify (readWriteCloserBody closed _) = closed"
| "CloseNotify _ = False"

text \<open>Reading with a buffer of \<open>n\<close> bytes. None is the panic on a nil body, or on a writer that is none.\<close>

fun body_Read :: "'b io_body \<Rightarrow> MetaStreamContext \<Rightarrow> nat \<Rightarrow> 'b stream_body \<Rightarrow> recorders \<Rightarrow>
    ((string \<times> io_err option) \<times> 'b stream_body \<times> recorders) option" where
  "body_Read io ctx n NoBody rs = None"
| "body_Read io ctx n (RawBody b) rs = (case io_Read io n b of (r, b') \<Rightarrow> Some (r, RawBody b', rs))"
| "body_Read io ctx n (readCloserBody tag closed b) rs = (case io_Read io n b of ((data, err), b') \<Rightarrow>
     Some ((data, err), readCloserBody tag closed b', do_chunk ctx \<lparr>mc_Tag = tag, mc_Data = data, mc_Err = err\<rparr> rs))"
| "body_Read io ctx n (readWriteCloserBody closed b) rs = (case io_Read io n b of ((data, err), b') \<Rightarrow>
     Some ((data, err), readWriteCloserBody closed b', do_chunk ctx \<lparr>mc_Tag = TagResponse, mc_Data = data, mc_Err = err\<rparr> rs))"

fun body_Write :: "'b io_body \<Rightarrow> MetaStreamContext \<Rightarrow> string \<Rightarrow> 'b stream_body \<Rightarrow> recorders \<Rightarrow>
    ((nat \<times> io_err option) \<times> 'b stream_body \<times> recorders) option" where
  "body_Write io ctx p (readWriteCloserBody closed b) rs = (case io_Write io p b of ((n, err), b') \<Rightarrow>
     Some ((n, err), readWriteCloserBody closed b', do_chunk ctx \<lparr>mc_Tag = TagRequest, mc_Data = take n p, mc_Err = err\<rparr> rs))"
| "body_Write io ctx p _ rs = None"

fun body_Close :: "'b io_body \<Rightarrow> 'b stream_body \<Rightarrow> (io_err option \<times> 'b stream_body) option" where
  "body_Close io NoBody = None"
| "body_Close io (RawBody b) = (case io_Close io b of (r, b') \<Rightarrow> Some (r, RawBody b'))"
| "body_Close io (readCloserBody tag _ b) = (case io_Close io b of (r, b') \<Rightarrow> Some (r, readCloserBody tag True b'))"
| "body_Close io (readWriteCloserBody _ b) = (case io_Close io b of (r, b') \<Rightarrow> Some (r, readWriteCloserBody True b'))"

section \<open>Bodies of a streamed request\<close>

definition isWebSocketRequest :: "request \<Rightarrow> bool" where
  "isWebSocketRequest r \<longleftrightarrow> EqualFold (header_Get (rq_Header r) ''Connection'') ''Upgrade'' \<and> EqualFold (header_Get (rq_Header r) ''Upgrade'') ''websocket''"

definition wrapStreamRequestBody :: "request \<Rightarrow> 'b option \<Rightarrow> 'b stream_body" where
  "wrapStreamRequestBody req body = (case body of
     None \<Rightarrow> NoBody
   | Some b \<Rightarrow>
       if rq_ProtoMajor req = 1 then if isWebSocketRequest req then RawBody b else WrapReadCloserBody b TagRequest
       else if rq_ProtoMajor req = 2 then WrapReadCloserBody b TagRequest
       else RawBody b)"

text \<open>\<open>rwc\<close> says whether the body can be written as well.\<close>

definition wrapStreamResponseBody :: "int \<Rightarrow> bool \<Rightarrow> 'b option \<Rightarrow> 'b stream_body" where
  "wrapStreamResponseBody protoMajor rwc body = (case body of
     None \<Rightarrow> NoBody
   | Some b \<Rightarrow>
       if protoMajor = 1 then if rwc then WrapReadWriteCloserBody b else WrapReadCloserBody b TagResponse
       else if protoMajor = 2 then WrapReadCloserBody b TagResponse
       else RawBody b)"

section \<open>Recorder\<close>

text \<open>The values of a request: its context when it streams, and the place of its recorder.\<close>

record stream_values =
  sv_Context :: "MetaStreamContext option"
  sv_Recorder :: "nat option"
  sv_recorders :: recorders

definition InitMetaStreamContext :: "MetaStreamContext \<Rightarrow> stream_values \<Rightarrow> stream_values" where
  "InitMetaStreamContext ctx v = v\<lparr>sv_Context := Some ctx\<rparr>"

definition GetStreamRecorder :: "stream_values \<Rightarrow> StreamRecorder option" where
  "GetStreamRecorder v = map_option (\<lambda>k. sv_recorders v ! k) (sv_Recorder v)"

definition record_chunk :: "nat \<Rightarrow> MetaStreamChunk \<Rightarrow> recorders \<Rightarrow> recorders" where
  "record_chunk k chunk rs =
     (if mc_Tag chunk = TagRequest then rs[k := (rs ! k)\<lparr>rec_Request := rec_Request (rs ! k) @ [chunk]\<rparr>]
      else if mc_Tag chunk = TagResponse then rs[k := (rs ! k)\<lparr>rec_Response := rec_Response (rs ! k) @ [chunk]\<rparr>]
      else rs)"

text \<open>The middleware up to the call of the next round tripper.\<close>

definition recorder_Process :: "stream_values \<Rightarrow> stream_values" where
  "recorder_Process v = (case sv_Context v of
     None \<Rightarrow> v
   | Some streamCtx \<Rightarrow>
       (let k = length (sv_recorders v) in
        v\<lparr>sv_Recorder := Some k, sv_recorders := sv_recorders v @ [\<lparr>rec_Request = [], rec_Response = []\<rparr>],
          sv_Context := Some (streamCtx\<lparr>mx_OnChunk := mx_OnChunk streamCtx @ [record_chunk k]\<rparr>)\<rparr>))"

section \<open>A streamed request\<close>

record 'b streamed =
  st_request :: "'b stream_body"
  st_response :: "'b stream_body"
  st_values :: stream_values

text \<open>\<^verbatim>\<open>proxyStream\<close> up to the call of the reverse proxy, and the recorder in the chain of middlewares.\<close>

definition open_stream :: "request \<Rightarrow> 'b option \<Rightarrow> stream_values \<Rightarrow> 'b streamed" where
  "open_stream req body v =
     \<lparr>st_request = wrapStreamRequestBody req body, st_response = NoBody, st_values = InitMetaStreamContext new_context v\<rparr>"

definition st_process :: "'b streamed \<Rightarrow> 'b streamed" where
  "st_process s = s\<lparr>st_values := recorder_Process (st_values s)\<rparr>"

text \<open>What \<^verbatim>\<open>builtinStreamTripper\<close> does with a response.\<close>

definition builtinStreamTripper :: "int \<Rightarrow> bool \<Rightarrow> 'b option \<Rightarrow> 'b streamed \<Rightarrow> 'b streamed" where
  "builtinStreamTripper protoMajor rwc body s = (case sv_Context (st_values s) of
     None \<Rightarrow> s\<lparr>st_response := (case body of None \<Rightarrow> NoBody | Some b \<Rightarrow> RawBody b)\<rparr>
   | Some _ \<Rightarrow> s\<lparr>st_response := wrapStreamResponseBody protoMajor rwc body\<rparr>)"

text \<open>The reverse proxy works on the bodies in any order; the event says which bytes passed.\<close>

datatype stream_op = ReadRequest nat | ReadResponse nat | WriteResponse string | CloseRequest | CloseResponse
datatype stream_event = FromClient string | FromServer string | ToServer string | Silent

definition stream_step :: "'b io_body \<Rightarrow> stream_op \<Rightarrow> 'b streamed \<Rightarrow> stream_event \<times> 'b streamed" where
  "stream_step io op s =
     (let ctx = (case sv_Context (st_values s) of None \<Rightarrow> new_context | Some ctx \<Rightarrow> ctx);
          rs = sv_recorders (st_values s);
          keep = (\<lambda>rs'. (st_values s)\<lparr>sv_recorders := rs'\<rparr>)
      in case op of
           ReadRequest n \<Rightarrow> (case body_Read io ctx n (st_request s) rs of
             None \<Rightarrow> (Silent, s)
           | Some ((data, _), b, rs') \<Rightarrow> (FromClient data, s\<lparr>st_request := b, st_values := keep rs'\<rparr>))
         | ReadResponse n \<Rightarrow> (case body_Read io ctx n (st_response s) rs of
             None \<Rightarrow> (Silent, s)
           | Some ((data, _), b, rs') \<Rightarrow> (FromServer data, s\<lparr>st_response := b, st_values := keep rs'\<rparr>))
         | WriteResponse p \<Rightarrow> (case body_Write io ctx p (st_response s) rs of
             None \<Rightarrow> (Silent, s)
           | Some ((n, _), b, rs') \<Rightarrow> (ToServer (take n p), s\<lparr>st_response := b, st_values := keep rs'\<rparr>))
         | CloseRequest \<Rightarrow> (case body_Close io (st_request s) of
             None \<Rightarrow> (Silent, s)
           | Some (_, b) \<Rightarrow> (Silent, s\<lparr>st_request := b\<rparr>))
         | CloseResponse \<Rightarrow> (case body_Close io (st_response s) of
             None \<Rightarrow> (Silent, s)
           | Some (_, b) \<Rightarrow> (Silent, s\<lparr>st_response := b\<rparr>)))"

fun stream_run :: "'b io_body \<Rightarrow> stream_op list \<Rightarrow> 'b streamed \<Rightarrow> stream_event list \<times> 'b streamed" where
  "stream_run io [] s = ([], s)"
| "stream_run io (op # ops) s = (case stream_step io op s of (ev, s1) \<Rightarrow> case stream_run io ops s1 of (evs, s2) \<Rightarrow> (ev # evs, s2))"

section \<open>Reading a recording\<close>

text \<open>
  The position in the chunk is never negative, here a natural number. \<open>sk_totalPos\<close> is an \<^verbatim>\<open>int64\<close>.
\<close>

record streamReaderSeeker =
  sk_inner :: "MetaStreamChunk list"
  sk_currentChunk :: nat
  sk_chunkOffset :: nat
  sk_totalPos :: int

definition reader_of :: "MetaStreamChunk list \<Rightarrow> streamReaderSeeker" where
  "reader_of cs = \<lparr>sk_inner = cs, sk_currentChunk = 0, sk_chunkOffset = 0, sk_totalPos = 0\<rparr>"

definition Mix :: "StreamRecorder \<Rightarrow> streamReaderSeeker" where
  "Mix s = reader_of (rec_Request s @ rec_Response s)"

definition RequestReader :: "StreamRecorder \<Rightarrow> streamReaderSeeker" where
  "RequestReader s = reader_of (rec_Request s)"

definition ResponseReader :: "StreamRecorder \<Rightarrow> streamReaderSeeker" where
  "ResponseReader s = reader_of (rec_Response s)"

text \<open>The loop of \<^verbatim>\<open>Read\<close>: \<open>acc\<close> is the part of the buffer of \<open>n\<close> bytes that is filled.\<close>

function read_loop :: "nat \<Rightarrow> streamReaderSeeker \<Rightarrow> string \<Rightarrow> string \<times> streamReaderSeeker" where
  "read_loop n s acc =
     (if length acc < n \<and> sk_currentChunk s < length (sk_inner s) then
        let chunk = sk_inner s ! sk_currentChunk s in
        if length (mc_Data chunk) \<le> sk_chunkOffset s
        then read_loop n (s\<lparr>sk_currentChunk := sk_currentChunk s + 1, sk_chunkOffset := 0\<rparr>) acc
        else let toRead = min (n - length acc) (length (mc_Data chunk) - sk_chunkOffset s) in
             read_loop n (s\<lparr>sk_chunkOffset := sk_chunkOffset s + toRead, sk_totalPos := i64 (sk_totalPos s + int toRead)\<rparr>)
               (acc @ take toRead (drop (sk_chunkOffset s) (mc_Data chunk)))
      else (acc, s))"
  by pat_completeness auto
termination
  by (relation "measures [\<lambda>(n, s, acc). n - length acc, \<lambda>(n, s, acc). length (sk_inner s) - sk_currentChunk s]") auto

declare read_loop.simps [simp del]

definition reader_Read :: "nat \<Rightarrow> streamReaderSeeker \<Rightarrow> (string \<times> io_err option) \<times> streamReaderSeeker" where
  "reader_Read n s =
     (if sk_inner s = [] then (('''', Some EOF), s)
      else case read_loop n s '''' of (got, s') \<Rightarrow>
        if got = '''' \<and> length (sk_inner s') \<le> sk_currentChunk s' then (('''', Some EOF), s') else ((got, None), s'))"

text \<open>The chunk of a position, and the offset in it.\<close>

fun find_chunk :: "MetaStreamChunk list \<Rightarrow> nat \<Rightarrow> int \<Rightarrow> int \<Rightarrow> (nat \<times> nat) option" where
  "find_chunk [] i pos newPos = None"
| "find_chunk (c # cs) i pos newPos =
     (if newPos < pos + int (length (mc_Data c)) then Some (i, nat (newPos - pos))
      else find_chunk cs (Suc i) (pos + int (length (mc_Data c))) newPos)"

definition reader_Seek :: "int \<Rightarrow> int \<Rightarrow> streamReaderSeeker \<Rightarrow> (string + int) \<times> streamReaderSeeker" where
  "reader_Seek offset whence s =
     (let newPos = (if whence = 0 then Some offset
        else if whence = 1 then Some (i64 (sk_totalPos s + offset))
        else if whence = 2 then Some (i64 (sum_list (map (\<lambda>c. int (length (mc_Data c))) (sk_inner s)) + offset))
        else None)
      in case newPos of
           None \<Rightarrow> (Inl (''invalid whence: '' @ fmt_d whence), s)
         | Some p \<Rightarrow>
             if p < 0 then (Inl ''negative position'', s)
             else case find_chunk (sk_inner s) 0 0 p of
                 Some (i, off) \<Rightarrow> (Inr p, s\<lparr>sk_currentChunk := i, sk_chunkOffset := off, sk_totalPos := p\<rparr>)
               | None \<Rightarrow> (Inr p, s\<lparr>sk_currentChunk := length (sk_inner s), sk_chunkOffset := 0, sk_totalPos := p\<rparr>))"

section \<open>Copying without buffering\<close>

definition isNoBufferingResponse :: "header \<Rightarrow> bool" where
  "isNoBufferingResponse h \<longleftrightarrow> header_Get h ''X-Accel-Buffering'' = ''no''"

text \<open>None when the loop never ends.\<close>

partial_function (option) copy_loop ::
    "(nat \<Rightarrow> 'r \<Rightarrow> (string \<times> io_err option) \<times> 'r) \<Rightarrow> (string \<Rightarrow> 'w \<Rightarrow> (nat \<times> io_err option) \<times> 'w) \<Rightarrow> (nat \<Rightarrow> 'w \<Rightarrow> 'w) \<Rightarrow> nat \<Rightarrow>
     nat \<Rightarrow> 'r \<Rightarrow> 'w \<Rightarrow> ((nat \<times> io_err option) \<times> 'r \<times> 'w) option" where
  "copy_loop rd wr onWrite n totalWritten src dst =
     (case rd n src of ((got, readErr), src1) \<Rightarrow>
      (case (if got = '''' then ((0, None), dst) else case wr got dst of ((written, writeErr), dst1) \<Rightarrow> ((written, writeErr), onWrite written dst1)) of
         ((written, writeErr), dst1) \<Rightarrow>
           if writeErr \<noteq> None then Some ((totalWritten + written, writeErr), src1, dst1)
           else case readErr of
               Some EOF \<Rightarrow> Some ((totalWritten + written, None), src1, dst1)
             | Some er \<Rightarrow> Some ((totalWritten + written, Some er), src1, dst1)
             | None \<Rightarrow> copy_loop rd wr onWrite n (totalWritten + written) src1 dst1))"

datatype 'a copied = CopyPanic | Copied 'a

definition copyBufferWithCallback where
  "copyBufferWithCallback rd wr onWrite n src dst =
     (if n = 0 then Some CopyPanic else map_option Copied (copy_loop rd wr onWrite n 0 src dst))"

definition copyNoBuffering where
  "copyNoBuffering rd wr flush src dst = copyBufferWithCallback rd wr (\<lambda>_. flush) 1 src dst"

end
