(* ===== verification/StreamFacts.thy ===== *)
theory StreamFacts
  imports StreamRecord
begin

text \<open>
  Facts about streams: the reader of a recording behaves like a reader of one string, copying from a source with
  laws of its own (locale \<open>byte_source\<close>) ends and is complete, and recorders hold what went through the bodies.
\<close>

section \<open>The reader as a reader of one string\<close>

definition flat_Read :: "nat \<Rightarrow> string \<times> int \<Rightarrow> (string \<times> io_err option) \<times> string \<times> int" where
  "flat_Read n cp = (let (c, p) = cp; got = take n (drop (nat p) c) in
     if int (length c) \<le> p then (('''', Some EOF), c, p) else ((got, None), c, p + int (length got)))"

definition flat_Seek :: "int \<Rightarrow> int \<Rightarrow> string \<times> int \<Rightarrow> (string + int) \<times> string \<times> int" where
  "flat_Seek offset whence cp = (let (c, p) = cp in
     if whence \<notin> {0, 1, 2} then (Inl (''invalid whence: '' @ fmt_d whence), c, p)
     else let q = i64 ((if whence = 0 then 0 else if whence = 1 then p else int (length c)) + offset) in
       if q < 0 then (Inl ''negative position'', c, p) else (Inr q, c, q))"

definition content :: "MetaStreamChunk list \<Rightarrow> string" where
  "content cs = concat (map mc_Data cs)"

lemma content_simps [simp]: "content [] = ''''" "content (c # cs) = mc_Data c @ content cs" "content (cs @ ds) = content cs @ content ds"
  by (simp_all add: content_def)

lemma content_split: "i < length cs \<Longrightarrow> content cs = content (take i cs) @ mc_Data (cs ! i) @ content (drop (Suc i) cs)"
  by (metis content_simps(2,3) id_take_nth_drop)

lemma content_take_Suc: "i < length cs \<Longrightarrow> content (take (Suc i) cs) = content (take i cs) @ mc_Data (cs ! i)"
  by (simp add: take_Suc_conv_app_nth)

text \<open>The position is the sum of the chunks before the current one and the offset in it, or beyond the end.\<close>

definition reader_rel :: "streamReaderSeeker \<Rightarrow> string \<times> int \<Rightarrow> bool" where
  "reader_rel s cp \<longleftrightarrow> fst cp = content (sk_inner s) \<and> snd cp = sk_totalPos s \<and> int (length (content (sk_inner s))) < 2 ^ 63 \<and>
     (if sk_currentChunk s < length (sk_inner s)
      then sk_chunkOffset s \<le> length (mc_Data (sk_inner s ! sk_currentChunk s)) \<and>
        sk_totalPos s = int (length (content (take (sk_currentChunk s) (sk_inner s))) + sk_chunkOffset s)
      else int (length (content (sk_inner s))) \<le> sk_totalPos s)"

lemma reader_of_rel: "int (length (content cs)) < 2 ^ 63 \<Longrightarrow> reader_rel (reader_of cs) (content cs, 0)"
  by (cases cs) (simp_all add: reader_rel_def reader_of_def)

lemma rel_step_chunk:
  assumes "reader_rel s (c, p)" and "sk_currentChunk s < length (sk_inner s)" and "length (mc_Data (sk_inner s ! sk_currentChunk s)) \<le> sk_chunkOffset s"
  shows "reader_rel (s\<lparr>sk_currentChunk := sk_currentChunk s + 1, sk_chunkOffset := 0\<rparr>) (c, p)"
proof (cases "Suc (sk_currentChunk s) < length (sk_inner s)")
  case False
  then have "take (Suc (sk_currentChunk s)) (sk_inner s) = sk_inner s" by simp
  with content_take_Suc [OF assms(2)] assms show ?thesis by (auto simp: reader_rel_def)
qed (use content_take_Suc [OF assms(2)] assms in \<open>auto simp: reader_rel_def\<close>)

lemma rel_step_read:
  assumes "reader_rel s (c, p)" and "sk_currentChunk s < length (sk_inner s)" and "sk_chunkOffset s + k \<le> length (mc_Data (sk_inner s ! sk_currentChunk s))"
  shows "reader_rel (s\<lparr>sk_chunkOffset := sk_chunkOffset s + k, sk_totalPos := i64 (sk_totalPos s + int k)\<rparr>) (c, p + int k)"
    and "take k (drop (nat p) c) = take k (drop (sk_chunkOffset s) (mc_Data (sk_inner s ! sk_currentChunk s)))"
proof -
  let ?before = "content (take (sk_currentChunk s) (sk_inner s))" and ?data = "mc_Data (sk_inner s ! sk_currentChunk s)"
  note split = content_split [OF assms(2)]
  have p: "p = int (length ?before + sk_chunkOffset s)" "sk_totalPos s = p" "c = content (sk_inner s)" "int (length c) < 2 ^ 63"
    using assms(1,2) by (simp_all add: reader_rel_def)
  have "p + int k \<le> int (length c)" using assms(3) p split by simp
  then have "i64 (sk_totalPos s + int k) = p + int k" using p by (intro trans [OF i64_id]) simp_all
  then show "reader_rel (s\<lparr>sk_chunkOffset := sk_chunkOffset s + k, sk_totalPos := i64 (sk_totalPos s + int k)\<rparr>) (c, p + int k)"
    using assms p by (simp add: reader_rel_def)
  have "drop (nat p) c = drop (sk_chunkOffset s) ?data @ content (drop (Suc (sk_currentChunk s)) (sk_inner s))"
    unfolding p(3) split using assms(3) p(1) by (simp add: nat_add_distrib)
  then show "take k (drop (nat p) c) = take k (drop (sk_chunkOffset s) ?data)" using assms(3) by simp
qed

lemma read_loop_flat:
  assumes "reader_rel s (c, p)" and "length acc \<le> n"
  shows "\<exists>s'. read_loop n s acc = (acc @ take (n - length acc) (drop (nat p) c), s') \<and>
    reader_rel s' (c, p + int (length (take (n - length acc) (drop (nat p) c)))) \<and>
    (length acc + length (take (n - length acc) (drop (nat p) c)) < n \<longrightarrow> length (sk_inner s') \<le> sk_currentChunk s')"
  using assms
proof (induction n s acc arbitrary: p rule: read_loop.induct)
  case (1 n s acc)
  let ?data = "mc_Data (sk_inner s ! sk_currentChunk s)"
  show ?case
  proof (cases "length acc < n \<and> sk_currentChunk s < length (sk_inner s)")
    case False
    have p: "c = content (sk_inner s)" "p = sk_totalPos s" using "1.prems"(1) by (simp_all add: reader_rel_def)
    have "take (n - length acc) (drop (nat p) c) = ''''"
    proof (cases "length acc < n")
      case True
      with False have "int (length c) \<le> p" using "1.prems"(1) p by (simp add: reader_rel_def split: if_splits)
      then show ?thesis by simp
    qed simp
    with False "1.prems" show ?thesis by (auto simp: read_loop.simps [of n s acc])
  next
    case True
    show ?thesis
    proof (cases "length ?data \<le> sk_chunkOffset s")
      case end_of_chunk: True
      from "1.IH"(1) [OF True refl end_of_chunk rel_step_chunk [OF "1.prems"(1) _ end_of_chunk] "1.prems"(2)] True
      show ?thesis using True end_of_chunk by (simp add: read_loop.simps [of n s acc])
    next
      case more: False
      define k where "k = min (n - length acc) (length ?data - sk_chunkOffset s)"
      have k: "sk_chunkOffset s + k \<le> length ?data" "length acc + k \<le> n" "0 < k" using more True unfolding k_def by linarith+
      let ?got = "take k (drop (sk_chunkOffset s) ?data)"
      note r = rel_step_read [OF "1.prems"(1) _ k(1)]
      have len: "length ?got = k" using k(1) by simp
      have c: "0 \<le> p" "drop (nat p) c = ?got @ drop (nat (p + int k)) c"
      proof -
        show p: "0 \<le> p" using True "1.prems"(1) by (simp add: reader_rel_def)
        have "drop (nat (p + int k)) c = drop k (drop (nat p) c)" using p by (simp add: nat_add_distrib add.commute)
        then show "drop (nat p) c = ?got @ drop (nat (p + int k)) c" using r(2) True by (metis append_take_drop_id)
      qed
      have t: "take (n - length acc) (drop (nat p) c) = ?got @ take (n - length (acc @ ?got)) (drop (nat (p + int k)) c)"
        unfolding c(2) using k(2) len by simp
      from "1.IH"(2) [OF True refl more k_def, of "p + int k"] r(1) True k(2) len
      obtain s' where s': "read_loop n (s\<lparr>sk_chunkOffset := sk_chunkOffset s + k, sk_totalPos := i64 (sk_totalPos s + int k)\<rparr>) (acc @ ?got) =
          ((acc @ ?got) @ take (n - length (acc @ ?got)) (drop (nat (p + int k)) c), s')"
        "reader_rel s' (c, p + int k + int (length (take (n - length (acc @ ?got)) (drop (nat (p + int k)) c))))"
        "length (acc @ ?got) + length (take (n - length (acc @ ?got)) (drop (nat (p + int k)) c)) < n \<longrightarrow> length (sk_inner s') \<le> sk_currentChunk s'"
        by auto
      have "read_loop n s acc = read_loop n (s\<lparr>sk_chunkOffset := sk_chunkOffset s + k, sk_totalPos := i64 (sk_totalPos s + int k)\<rparr>) (acc @ ?got)"
        using True more by (simp add: read_loop.simps [of n s acc] k_def [symmetric])
      then show ?thesis unfolding t using s' len by (simp add: algebra_simps)
    qed
  qed
qed

lemma rel_nonneg: "reader_rel s (c, p) \<Longrightarrow> 0 \<le> p"
  by (auto simp: reader_rel_def split: if_splits)

lemma Read_flat:
  assumes "reader_rel s (c, p)" and "0 < n"
  shows "\<exists>r s' cp'. reader_Read n s = (r, s') \<and> flat_Read n (c, p) = (r, cp') \<and> reader_rel s' cp'"
proof (cases "sk_inner s = []")
  case True
  with assms(1) show ?thesis by (simp add: reader_Read_def flat_Read_def reader_rel_def)
next
  case False
  obtain s' where s': "read_loop n s '''' = (take n (drop (nat p) c), s')" "reader_rel s' (c, p + int (length (take n (drop (nat p) c))))"
    "length (take n (drop (nat p) c)) < n \<longrightarrow> length (sk_inner s') \<le> sk_currentChunk s'"
    using read_loop_flat [OF assms(1), of "''''" n] by auto
  show ?thesis
  proof (cases "int (length c) \<le> p")
    case True
    with s' False assms(2) show ?thesis by (simp add: reader_Read_def flat_Read_def)
  next
    case more: False
    have "nat p < length c" using more rel_nonneg [OF assms(1)] by linarith
    then have "take n (drop (nat p) c) \<noteq> ''''" using assms(2) by simp
    with s'(1,2) False more show ?thesis by (simp add: reader_Read_def flat_Read_def Let_def)
  qed
qed

lemma find_chunk_pos:
  assumes "find_chunk cs i pos p = Some (j, off)" and "pos \<le> p"
  shows "i \<le> j \<and> j - i < length cs \<and> off \<le> length (mc_Data (cs ! (j - i))) \<and> p = pos + int (length (content (take (j - i) cs)) + off)"
  using assms
proof (induction cs arbitrary: i pos)
  case (Cons c cs)
  show ?case
  proof (cases "p < pos + int (length (mc_Data c))")
    case False
    with Cons.prems Cons.IH [of "Suc i" "pos + int (length (mc_Data c))"]
    have "Suc i \<le> j \<and> j - Suc i < length cs \<and> off \<le> length (mc_Data (cs ! (j - Suc i))) \<and>
      p = pos + int (length (mc_Data c)) + int (length (content (take (j - Suc i) cs)) + off)" by simp
    moreover from this have "j - i = Suc (j - Suc i)" by linarith
    ultimately show ?thesis by simp
  qed (use Cons.prems in auto)
qed simp

lemma find_chunk_none: "find_chunk cs i pos p = None \<Longrightarrow> pos \<le> p \<Longrightarrow> pos + int (length (content cs)) \<le> p"
proof (induction cs arbitrary: i pos)
  case (Cons c cs)
  then have "\<not> p < pos + int (length (mc_Data c))" by (simp split: if_splits)
  with Cons.prems Cons.IH [of "Suc i" "pos + int (length (mc_Data c))"] show ?case by simp
qed simp

lemma chunk_sizes: "sum_list (map (\<lambda>c. int (length (mc_Data c))) cs) = int (length (content cs))"
  by (induction cs) simp_all

lemma Seek_flat:
  assumes "reader_rel s (c, p)" and "i64 offset = offset"
  shows "\<exists>r s' cp'. reader_Seek offset whence s = (r, s') \<and> flat_Seek offset whence (c, p) = (r, cp') \<and> reader_rel s' cp'"
proof (cases "whence \<in> {0, 1, 2}")
  case False
  with assms(1) show ?thesis by (simp add: reader_Seek_def flat_Seek_def)
next
  case True
  have c: "c = content (sk_inner s)" "p = sk_totalPos s" "int (length c) < 2 ^ 63" using assms(1) by (simp_all add: reader_rel_def)
  define q where "q = i64 ((if whence = 0 then 0 else if whence = 1 then p else int (length c)) + offset)"
  have f: "flat_Seek offset whence (c, p) = (if q < 0 then (Inl ''negative position'', c, p) else (Inr q, c, q))"
    using True by (simp add: flat_Seek_def q_def Let_def)
  have r: "reader_Seek offset whence s = (if q < 0 then (Inl ''negative position'', s)
     else case find_chunk (sk_inner s) 0 0 q of
         Some (i, off) \<Rightarrow> (Inr q, s\<lparr>sk_currentChunk := i, sk_chunkOffset := off, sk_totalPos := q\<rparr>)
       | None \<Rightarrow> (Inr q, s\<lparr>sk_currentChunk := length (sk_inner s), sk_chunkOffset := 0, sk_totalPos := q\<rparr>))"
  proof -
    have "(if whence = 0 then Some offset else if whence = 1 then Some (i64 (sk_totalPos s + offset))
        else if whence = 2 then Some (i64 (sum_list (map (\<lambda>c. int (length (mc_Data c))) (sk_inner s)) + offset)) else None) = Some q"
      using True assms(2) c by (auto simp: q_def chunk_sizes)
    then show ?thesis by (simp add: reader_Seek_def)
  qed
  show ?thesis
  proof (cases "q < 0")
    case False
    show ?thesis
    proof (cases "find_chunk (sk_inner s) 0 0 q")
      case None
      with find_chunk_none [OF None] False c show ?thesis unfolding r f by (simp add: reader_rel_def)
    next
      case (Some a)
      obtain i off where a: "a = (i, off)" by fastforce
      have "reader_rel (s\<lparr>sk_currentChunk := i, sk_chunkOffset := off, sk_totalPos := q\<rparr>) (c, q)"
        using find_chunk_pos [OF Some [unfolded a]] False c by (simp add: reader_rel_def)
      then show ?thesis unfolding r f using False by (simp add: Some a)
    qed
  qed (use r f assms(1) in simp)
qed

datatype reader_op = ReadOp nat | SeekOp int int
datatype reader_out = ReadOut string "io_err option" | SeekOut "string + int"

fun reader_run :: "reader_op list \<Rightarrow> streamReaderSeeker \<Rightarrow> reader_out list" where
  "reader_run [] s = []"
| "reader_run (ReadOp n # ops) s = (case reader_Read n s of ((got, er), s') \<Rightarrow> ReadOut got er # reader_run ops s')"
| "reader_run (SeekOp offset whence # ops) s = (case reader_Seek offset whence s of (r, s') \<Rightarrow> SeekOut r # reader_run ops s')"

fun flat_run :: "reader_op list \<Rightarrow> string \<times> int \<Rightarrow> reader_out list" where
  "flat_run [] s = []"
| "flat_run (ReadOp n # ops) s = (case flat_Read n s of ((got, er), s') \<Rightarrow> ReadOut got er # flat_run ops s')"
| "flat_run (SeekOp offset whence # ops) s = (case flat_Seek offset whence s of (r, s') \<Rightarrow> SeekOut r # flat_run ops s')"

fun op_ok :: "reader_op \<Rightarrow> bool" where
  "op_ok (ReadOp n) \<longleftrightarrow> 0 < n"
| "op_ok (SeekOp offset _) \<longleftrightarrow> i64 offset = offset"

lemma reader_run_flat: "reader_rel s cp \<Longrightarrow> list_all op_ok ops \<Longrightarrow> reader_run ops s = flat_run ops cp"
proof (induction ops arbitrary: s cp)
  case (Cons op ops)
  obtain c p where cp: "cp = (c, p)" by fastforce
  have rel: "reader_rel s (c, p)" and ok: "op_ok op" "list_all op_ok ops" using Cons.prems cp by simp_all
  show ?case
  proof (cases op)
    case (ReadOp n)
    obtain got er s' cp' where r: "reader_Read n s = ((got, er), s')" "flat_Read n (c, p) = ((got, er), cp')" "reader_rel s' cp'"
      using Read_flat [OF rel, of n] ok(1) unfolding ReadOp by (metis op_ok.simps(1) surj_pair)
    show ?thesis unfolding ReadOp cp reader_run.simps flat_run.simps r using Cons.IH [OF r(3) ok(2)] by simp
  next
    case (SeekOp offset whence)
    obtain r s' cp' where r: "reader_Seek offset whence s = (r, s')" "flat_Seek offset whence (c, p) = (r, cp')" "reader_rel s' cp'"
      using Seek_flat [OF rel, of offset whence] ok(1) unfolding SeekOp by (metis op_ok.simps(2))
    show ?thesis unfolding SeekOp cp reader_run.simps flat_run.simps r using Cons.IH [OF r(3) ok(2)] by simp
  qed
qed simp

section \<open>Copying\<close>

text \<open>A source with bytes left, which reports the end only when nothing is left and otherwise makes progress.\<close>

locale byte_source =
  fixes rd :: "nat \<Rightarrow> 'r \<Rightarrow> (string \<times> io_err option) \<times> 'r"
    and valid :: "'r \<Rightarrow> bool"
    and rest :: "'r \<Rightarrow> string"
  assumes rd: "valid s \<Longrightarrow> 0 < n \<Longrightarrow> rd n s = ((got, er), s') \<Longrightarrow>
    valid s' \<and> rest s = got @ rest s' \<and> length got \<le> n \<and> (er = None \<and> got \<noteq> '''' \<or> er = Some EOF \<and> rest s' = '''')"
begin

lemma copy_all:
  assumes "valid s" and "0 < n" and "\<And>d w. \<exists>w'. wr d w = ((length d, None), w') \<and> sent w' = sent w @ d" and "\<And>k w. sent (onWrite k w) = sent w"
  shows "\<exists>s' w'. copy_loop rd wr onWrite n m s w = Some ((m + length (rest s), None), s', w') \<and> sent w' = sent w @ rest s"
  using assms(1)
proof (induction "length (rest s)" arbitrary: s w m rule: less_induct)
  case less
  obtain got er s1 where r: "rd n s = ((got, er), s1)" by (metis prod.collapse)
  note law = rd [OF less.prems assms(2) r]
  obtain w1 where w1: "wr got w = ((length got, None), w1)" "sent w1 = sent w @ got" using assms(3) by blast
  obtain w2 where w2: "(if got = '''' then ((0, None), w) else case wr got w of ((written, writeErr), dst1) \<Rightarrow> ((written, writeErr), onWrite written dst1)) =
      ((length got, None :: io_err option), w2)" "sent w2 = sent w @ got"
    using w1 assms(4) by (cases "got = ''''") auto
  show ?case
  proof (cases "er = Some EOF")
    case True
    then show ?thesis using law w2 by (simp add: copy_loop.simps [of rd] r)
  next
    case False
    then have er: "er = None" "got \<noteq> ''''" using law by auto
    then have "length (rest s1) < length (rest s)" using law by simp
    from less.hyps [OF this, of "m + length got" w2] law
    obtain s' w' where "copy_loop rd wr onWrite n (m + length got) s1 w2 = Some ((m + length got + length (rest s1), None), s', w')" "sent w' = sent w2 @ rest s1"
      by blast
    then show ?thesis using law w2 er by (simp add: copy_loop.simps [of rd _ _ _ _ s] r add.assoc)
  qed
qed

end

definition reader_valid :: "streamReaderSeeker \<Rightarrow> bool" where
  "reader_valid s \<longleftrightarrow> reader_rel s (content (sk_inner s), sk_totalPos s)"

definition reader_rest :: "streamReaderSeeker \<Rightarrow> string" where
  "reader_rest s = drop (nat (sk_totalPos s)) (content (sk_inner s))"

interpretation recording: byte_source reader_Read reader_valid reader_rest
proof
  fix s n got er s' assume v: "reader_valid s" and n: "0 < (n :: nat)" and r: "reader_Read n s = ((got, er), s')"
  let ?c = "content (sk_inner s)" and ?p = "sk_totalPos s"
  obtain cp' where f: "flat_Read n (?c, ?p) = ((got, er), cp')" "reader_rel s' cp'"
    using Read_flat [OF v [unfolded reader_valid_def] n] r by auto
  have p: "0 \<le> ?p" using v rel_nonneg by (simp add: reader_valid_def)
  obtain c' p' where cp: "cp' = (c', p')" by fastforce
  have s': "c' = content (sk_inner s')" "p' = sk_totalPos s'" using f(2) cp by (simp_all add: reader_rel_def)
  then have v': "reader_valid s'" using f(2) cp by (simp add: reader_valid_def)
  show "reader_valid s' \<and> reader_rest s = got @ reader_rest s' \<and> length got \<le> n \<and> (er = None \<and> got \<noteq> '''' \<or> er = Some EOF \<and> reader_rest s' = '''')"
  proof (cases "int (length ?c) \<le> ?p")
    case True
    then show ?thesis using f(1) cp s' v' by (auto simp: flat_Read_def reader_rest_def Let_def)
  next
    case False
    then have g: "got = take n (drop (nat ?p) ?c)" "er = None" "c' = ?c" "p' = ?p + int (length got)" using f(1) cp by (auto simp: flat_Read_def Let_def)
    have "nat ?p < length ?c" using False p by linarith
    then have "got \<noteq> ''''" using g(1) n by simp
    have "nat p' = nat ?p + length got" using p g(4) by (simp add: nat_add_distrib)
    moreover have "drop (length got) (drop (nat ?p) ?c) = drop n (drop (nat ?p) ?c)" unfolding g(1) by (cases "n \<le> length (drop (nat ?p) ?c)") simp_all
    ultimately have "reader_rest s = got @ reader_rest s'" unfolding reader_rest_def s'(1,2) [symmetric] g(3) by (metis append_take_drop_id drop_drop add.commute g(1))
    then show ?thesis using v' g(1,2) \<open>got \<noteq> ''''\<close> by simp
  qed
qed

lemma copy_recording:
  assumes "int (length (content cs)) < 2 ^ 63"
  shows "\<exists>n s1. copyNoBuffering reader_Read (\<lambda>d w. ((length d, None), w @ d)) id (reader_of cs) '''' = Some (Copied ((n, None), s1, content cs))"
proof -
  have v: "reader_valid (reader_of cs)" "reader_rest (reader_of cs) = content cs"
    using reader_of_rel [OF assms] by (simp_all add: reader_valid_def reader_of_def reader_rest_def)
  obtain s1 where "copy_loop reader_Read (\<lambda>d w. ((length d, None), w @ d)) (\<lambda>_. id) 1 0 (reader_of cs) '''' = Some ((0 + length (content cs), None), s1, content cs)"
    using recording.copy_all [OF v(1), of 1 "\<lambda>d w. ((length d, None), w @ d)" "\<lambda>w. w" "\<lambda>_. id" 0 "''''"] unfolding v(2) by auto
  then show ?thesis by (simp add: copyNoBuffering_def copyBufferWithCallback_def)
qed

text \<open>A body that is in memory, as \<^verbatim>\<open>bytes.Reader\<close> reads it.\<close>

interpretation memory: byte_source flat_Read "\<lambda>cp. 0 \<le> snd cp" "\<lambda>(c, p). drop (nat p) c"
proof
  fix s :: "string \<times> int" and n got er s' assume v: "0 \<le> snd s" and n: "0 < (n :: nat)" and r: "flat_Read n s = ((got, er), s')"
  obtain c p where s: "s = (c, p)" by fastforce
  show "0 \<le> snd s' \<and> (case s of (c, p) \<Rightarrow> drop (nat p) c) = got @ (case s' of (c, p) \<Rightarrow> drop (nat p) c) \<and> length got \<le> n \<and>
    (er = None \<and> got \<noteq> '''' \<or> er = Some EOF \<and> (case s' of (c, p) \<Rightarrow> drop (nat p) c) = '''')"
  proof (cases "int (length c) \<le> p")
    case True
    then show ?thesis using r s v by (auto simp: flat_Read_def Let_def)
  next
    case False
    then have g: "got = take n (drop (nat p) c)" "er = None" "s' = (c, p + int (length got))" using r s by (auto simp: flat_Read_def Let_def)
    have "nat p < length c" using False v s by simp
    then have "got \<noteq> ''''" using g(1) n by simp
    have "drop (nat p) c = got @ drop (length got) (drop (nat p) c)" unfolding g(1) by (metis append_eq_conv_conj append_take_drop_id)
    moreover have "nat (p + int (length got)) = length got + nat p" using v s by simp
    ultimately show ?thesis using g v s \<open>got \<noteq> ''''\<close> by simp
  qed
qed

section \<open>What a recorder holds\<close>

definition from_server :: "stream_event \<Rightarrow> string" where
  "from_server ev = (case ev of FromServer d \<Rightarrow> d | _ \<Rightarrow> '''')"

definition to_server :: "stream_event \<Rightarrow> string" where
  "to_server ev = (case ev of FromClient d \<Rightarrow> d | ToServer d \<Rightarrow> d | _ \<Rightarrow> '''')"

text \<open>Only the callback of recorder \<open>k\<close> is registered, and the bodies are wrapped with their tags.\<close>

fun request_wrapped :: "'b stream_body \<Rightarrow> bool" where
  "request_wrapped (readCloserBody tag _ _) \<longleftrightarrow> tag = TagRequest"
| "request_wrapped _ \<longleftrightarrow> False"

fun response_wrapped :: "'b stream_body \<Rightarrow> bool" where
  "response_wrapped (readCloserBody tag _ _) \<longleftrightarrow> tag = TagResponse"
| "response_wrapped (readWriteCloserBody _ _) \<longleftrightarrow> True"
| "response_wrapped (RawBody _) \<longleftrightarrow> False"
| "response_wrapped NoBody \<longleftrightarrow> True"

definition recording_by :: "nat \<Rightarrow> 'b streamed \<Rightarrow> bool" where
  "recording_by k s \<longleftrightarrow> (\<exists>ctx. sv_Context (st_values s) = Some ctx \<and> mx_OnChunk ctx = [record_chunk k]) \<and>
     sv_Recorder (st_values s) = Some k \<and> k < length (sv_recorders (st_values s)) \<and> response_wrapped (st_response s)"

definition recorded :: "nat \<Rightarrow> 'b streamed \<Rightarrow> string \<times> string" where
  "recorded k s = (content (rec_Request (sv_recorders (st_values s) ! k)), content (rec_Response (sv_recorders (st_values s) ! k)))"

fun reads_request :: "stream_op \<Rightarrow> bool" where
  "reads_request (ReadRequest _) \<longleftrightarrow> True"
| "reads_request _ \<longleftrightarrow> False"

lemma tags_differ [simp]: "TagRequest \<noteq> TagResponse" "TagResponse \<noteq> TagRequest"
  by (simp_all add: TagRequest_def TagResponse_def)

lemma step_records:
  assumes "recording_by k s" and "request_wrapped (st_request s) \<or> \<not> reads_request op" and "stream_step io op s = (ev, s')"
  shows "recording_by k s' \<and> (request_wrapped (st_request s) \<longrightarrow> request_wrapped (st_request s')) \<and>
    recorded k s' = (fst (recorded k s) @ to_server ev, snd (recorded k s) @ from_server ev)"
proof -
  obtain ctx where c: "sv_Context (st_values s) = Some ctx" "mx_OnChunk ctx = [record_chunk k]" using assms(1) by (auto simp: recording_by_def)
  note defs = stream_step_def recording_by_def recorded_def from_server_def to_server_def do_chunk_def record_chunk_def
  show ?thesis
  proof (cases op)
    case (ReadRequest n)
    with assms(2) obtain closed b where "st_request s = readCloserBody TagRequest closed b" by (cases "st_request s") auto
    then show ?thesis using assms(1,3) c by (cases "io_Read io n b") (auto simp: ReadRequest defs)
  next
    case (ReadResponse n)
    then show ?thesis using assms(1,3) c
      by (cases "st_response s") (auto simp: defs split: prod.splits)
  next
    case (WriteResponse p)
    then show ?thesis using assms(1,3) c by (cases "st_response s") (auto simp: defs split: prod.splits)
  next
    case CloseRequest
    then show ?thesis using assms(1,3) c by (cases "st_request s") (auto simp: defs split: prod.splits)
  next
    case CloseResponse
    then show ?thesis using assms(1,3) c by (cases "st_response s") (auto simp: defs split: prod.splits)
  qed
qed

lemma run_records:
  assumes "recording_by k s" and "request_wrapped (st_request s) \<or> \<not> list_ex reads_request ops" and "stream_run io ops s = (evs, s')"
  shows "recording_by k s' \<and>
    recorded k s' = (fst (recorded k s) @ concat (map to_server evs), snd (recorded k s) @ concat (map from_server evs))"
  using assms
proof (induction ops arbitrary: s evs)
  case (Cons op ops)
  obtain ev s1 where 1: "stream_step io op s = (ev, s1)" by fastforce
  obtain evs2 where 2: "stream_run io ops s1 = (evs2, s')" "evs = ev # evs2" using Cons.prems(3) 1 by (auto split: prod.splits)
  have "request_wrapped (st_request s) \<or> \<not> reads_request op" using Cons.prems(2) by auto
  note step = step_records [OF Cons.prems(1) this 1]
  from Cons.IH [of s1 evs2] step Cons.prems(2) 2 show ?case by auto
qed simp

lemma opened_records:
  assumes "rq_ProtoMajor req \<in> {1, 2}" and "protoMajor \<in> {1, 2}" and "sv_Context v = None"
  shows "\<exists>s. builtinStreamTripper protoMajor rwc rbody (st_process (open_stream req body v)) = s \<and> recording_by (length (sv_recorders v)) s \<and>
    recorded (length (sv_recorders v)) s = ('''', '''') \<and>
    (body \<noteq> None \<and> (rq_ProtoMajor req = 1 \<longrightarrow> \<not> isWebSocketRequest req) \<longrightarrow> request_wrapped (st_request s))"
  using assms by (auto simp: open_stream_def st_process_def recorder_Process_def InitMetaStreamContext_def builtinStreamTripper_def
    recording_by_def recorded_def new_context_def wrapStreamRequestBody_def wrapStreamResponseBody_def WrapReadCloserBody_def
    WrapReadWriteCloserBody_def Let_def split: option.splits)

end
