(* ===== verification/StreamProperties.thy ===== *)
theory StreamProperties
  imports StreamFacts
begin

text \<open>
  The properties of recorded streams, with their witnesses: a web socket over which a greeting and its answer pass.
\<close>

section \<open>A small stream\<close>

definition chunk_ex :: "string \<Rightarrow> string \<Rightarrow> MetaStreamChunk" where
  "chunk_ex tag d = \<lparr>mc_Tag = tag, mc_Data = d, mc_Err = None\<rparr>"

definition recording_ex :: StreamRecorder where
  "recording_ex = \<lparr>rec_Request = [chunk_ex TagRequest ''ab'', chunk_ex TagRequest '''', chunk_ex TagRequest ''c''], rec_Response = [chunk_ex TagResponse ''xyz'']\<rparr>"

text \<open>A peer that echoes: what is written can be read.\<close>

definition echo_io :: "string io_body" where
  "echo_io = \<lparr>io_Read = (\<lambda>n b. if b = '''' then (('''', Some EOF), b) else ((take n b, None), drop n b)),
     io_Write = (\<lambda>p b. ((length p, None), b @ p)), io_Close = (\<lambda>b. (None, b))\<rparr>"

definition upgrade_ex :: request where
  "upgrade_ex = \<lparr>rq_Method = ''GET'', rq_Path = ''/ws'', rq_Host = ''h'', rq_URLHost = '''', rq_Scheme = ''http'',
     rq_Header = [''Connection'' \<mapsto> [''Upgrade''], ''Upgrade'' \<mapsto> [''websocket'']], rq_RemoteAddr = '''', rq_ProtoMajor = 1, rq_Body = ''''\<rparr>"

definition no_values :: stream_values where
  "no_values = \<lparr>sv_Context = None, sv_Recorder = None, sv_recorders = []\<rparr>"

section \<open>Properties\<close>

text \<open>C33. The readers of a recording behave as readers of one string: any sequence of reads into a buffer that is not empty and of seeks from the start, the position or the end gives byte for byte, end of file, error text and position what a reader of the joined chunks gives, empty chunks and positions beyond the end included.\<close>

theorem recording_reads_flat:
  assumes "list_all op_ok ops" and "int (length (content (rec_Request r)) + length (content (rec_Response r))) < 2 ^ 63"
  shows "reader_run ops (Mix r) = flat_run ops (content (rec_Request r) @ content (rec_Response r), 0) \<and>
    reader_run ops (RequestReader r) = flat_run ops (content (rec_Request r), 0) \<and>
    reader_run ops (ResponseReader r) = flat_run ops (content (rec_Response r), 0)"
proof -
  have run: "reader_run ops (reader_of cs) = flat_run ops (content cs, 0)" if "int (length (content cs)) < 2 ^ 63" for cs
    using reader_run_flat [OF reader_of_rel [OF that] assms(1)] .
  have "int (length (content (rec_Request r @ rec_Response r))) < 2 ^ 63" "int (length (content (rec_Request r))) < 2 ^ 63"
    "int (length (content (rec_Response r))) < 2 ^ 63" using assms(2) by simp_all
  from this [THEN run] show ?thesis by (simp add: Mix_def RequestReader_def ResponseReader_def)
qed

theorem recording_reads_flat_witness:
  "reader_run [ReadOp 4, SeekOp (-2) 2, ReadOp 9, ReadOp 1, SeekOp (-9) 1] (Mix recording_ex) =
     [ReadOut ''abcx'' None, SeekOut (Inr 4), ReadOut ''yz'' None, ReadOut '''' (Some EOF), SeekOut (Inl ''negative position'')]"
proof -
  have "reader_run [ReadOp 4, SeekOp (-2) 2, ReadOp 9, ReadOp 1, SeekOp (-9) 1] (Mix recording_ex) =
     flat_run [ReadOp 4, SeekOp (-2) 2, ReadOp 9, ReadOp 1, SeekOp (-9) 1] (content (rec_Request recording_ex) @ content (rec_Response recording_ex), 0)"
    using recording_reads_flat [of "[ReadOp 4, SeekOp (-2) 2, ReadOp 9, ReadOp 1, SeekOp (-9) 1]" recording_ex]
    by (simp add: recording_ex_def chunk_ex_def i64_def)
  also have "\<dots> = [ReadOut ''abcx'' None, SeekOut (Inr 4), ReadOut ''yz'' None, ReadOut '''' (Some EOF), SeekOut (Inl ''negative position'')]" by code_simp
  finally show ?thesis .
qed

text \<open>C34. A recorder holds what passed: however the reverse proxy reads, writes and closes the bodies of a streamed HTTP/1 or HTTP/2 request, whatever the peers return, copying the recorded response without buffering ends and sends exactly the bytes that came from the server, and copying the recorded request those that went to it, in their order; on a web socket, where the body of the request is not read, these are the bytes written to the connection.\<close>

theorem stream_replayed:
  assumes "rq_ProtoMajor req \<in> {1, 2}" and "protoMajor \<in> {1, 2}" and "sv_Context v = None"
    and "body \<noteq> None \<and> (rq_ProtoMajor req = 1 \<longrightarrow> \<not> isWebSocketRequest req) \<or> \<not> list_ex reads_request ops"
    and "stream_run io ops (builtinStreamTripper protoMajor rwc rbody (st_process (open_stream req body v))) = (evs, s')"
    and "int (length (concat (map from_server evs))) < 2 ^ 63" and "int (length (concat (map to_server evs))) < 2 ^ 63"
  shows "\<exists>r. GetStreamRecorder (st_values s') = Some r \<and>
    (\<exists>n s1. copyNoBuffering reader_Read (\<lambda>d w. ((length d, None), w @ d)) id (ResponseReader r) '''' = Some (Copied ((n, None), s1, concat (map from_server evs)))) \<and>
    (\<exists>n s1. copyNoBuffering reader_Read (\<lambda>d w. ((length d, None), w @ d)) id (RequestReader r) '''' = Some (Copied ((n, None), s1, concat (map to_server evs))))"
proof -
  let ?k = "length (sv_recorders v)"
  obtain s where s: "builtinStreamTripper protoMajor rwc rbody (st_process (open_stream req body v)) = s" "recording_by ?k s" "recorded ?k s = ('''', '''')"
    "body \<noteq> None \<and> (rq_ProtoMajor req = 1 \<longrightarrow> \<not> isWebSocketRequest req) \<longrightarrow> request_wrapped (st_request s)"
    using opened_records [OF assms(1,2,3), of rwc rbody body] by (elim exE conjE) (rule that)
  have "request_wrapped (st_request s) \<or> \<not> list_ex reads_request ops" using assms(4) s(4) by blast
  note run = run_records [OF s(2) this assms(5) [unfolded s(1)]]
  let ?r = "sv_recorders (st_values s') ! ?k"
  have r: "GetStreamRecorder (st_values s') = Some ?r" "content (rec_Response ?r) = concat (map from_server evs)" "content (rec_Request ?r) = concat (map to_server evs)"
    using run s(3) unfolding recording_by_def recorded_def GetStreamRecorder_def by auto
  show ?thesis unfolding ResponseReader_def RequestReader_def
  proof (intro exI [of _ ?r] conjI)
    show "GetStreamRecorder (st_values s') = Some ?r" by (rule r(1))
  qed (use copy_recording [of "rec_Response ?r", unfolded r(2)] copy_recording [of "rec_Request ?r", unfolded r(3)] assms(6,7) in blast)+
qed

theorem stream_replayed_witness:
  "\<exists>s'. stream_run echo_io [WriteResponse ''hi'', ReadResponse 1, CloseRequest, ReadResponse 9] (builtinStreamTripper 1 True (Some ''!'') (st_process (open_stream upgrade_ex (Some '''') no_values)))
      = ([ToServer ''hi'', FromServer ''!'', Silent, FromServer ''hi''], s') \<and>
    (\<exists>r. GetStreamRecorder (st_values s') = Some r \<and>
      (\<exists>n s1. copyNoBuffering reader_Read (\<lambda>d w. ((length d, None), w @ d)) id (ResponseReader r) '''' = Some (Copied ((n, None), s1, ''!hi''))) \<and>
      (\<exists>n s1. copyNoBuffering reader_Read (\<lambda>d w. ((length d, None), w @ d)) id (RequestReader r) '''' = Some (Copied ((n, None), s1, ''hi''))))"
proof -
  let ?ops = "[WriteResponse ''hi'', ReadResponse 1, CloseRequest, ReadResponse 9]" and ?evs = "[ToServer ''hi'', FromServer ''!'', Silent, FromServer ''hi'']"
  let ?s = "builtinStreamTripper 1 True (Some ''!'') (st_process (open_stream upgrade_ex (Some '''') no_values))"
  have "isWebSocketRequest upgrade_ex" by code_simp
  then obtain s' where s': "stream_run echo_io ?ops ?s = (?evs, s')"
    by (simp add: open_stream_def st_process_def recorder_Process_def InitMetaStreamContext_def builtinStreamTripper_def new_context_def
      wrapStreamRequestBody_def wrapStreamResponseBody_def WrapReadWriteCloserBody_def Let_def no_values_def upgrade_ex_def stream_step_def echo_io_def)
  from stream_replayed [OF _ _ _ _ s'] have "\<exists>r. GetStreamRecorder (st_values s') = Some r \<and>
      (\<exists>n s1. copyNoBuffering reader_Read (\<lambda>d w. ((length d, None), w @ d)) id (ResponseReader r) '''' = Some (Copied ((n, None), s1, ''!hi''))) \<and>
      (\<exists>n s1. copyNoBuffering reader_Read (\<lambda>d w. ((length d, None), w @ d)) id (RequestReader r) '''' = Some (Copied ((n, None), s1, ''hi'')))"
    by (simp add: upgrade_ex_def no_values_def from_server_def to_server_def)
  with s' show ?thesis by blast
qed

end
