(* ===== verification/GatewayTranscode.thy ===== *)
theory GatewayTranscode
  imports GatewayProxy
begin

text \<open>
  The transcoder (\<^verbatim>\<open>app/gateway/middleware/transcoder/transcoder.go\<close>): a plain HTTP call of a gRPC backend. The
  body is put into a gRPC frame, the answer taken out of one, and a gRPC error becomes a JSON answer. Base64
  and the protobuf conversions of a status are parameters.
\<close>

record transcode_env =
  std_DecodeString :: "string \<Rightarrow> string option"
  raw_DecodeString :: "string \<Rightarrow> string option"
  status_json :: "int \<Rightarrow> string \<Rightarrow> string option"
  details_json :: "string \<Rightarrow> string option option"

definition decodeBinHeader :: "transcode_env \<Rightarrow> string \<Rightarrow> string option" where
  "decodeBinHeader e v = (if length v mod 4 = 0 then std_DecodeString e v else raw_DecodeString e v)"

definition tc_newResponse :: "int \<Rightarrow> header \<Rightarrow> string \<Rightarrow> response" where
  "tc_newResponse statusCode h data = \<lparr>rs_StatusCode = statusCode, rs_Header = Some h, rs_Trailer = Map.empty, rs_Body = MemBody data\<rparr>"

section \<open>Frames\<close>



section \<open>Requests\<close>


section \<open>Answers\<close>

text \<open>The JSON text of a status; an error of one of the conversions is None.\<close>

definition grpc_error :: "transcode_env \<Rightarrow> header \<Rightarrow> int \<Rightarrow> string option" where
  "grpc_error e h code =
     (let grpcDetails = header_Get h ''grpc-status-details-bin'' in
      if grpcDetails = '''' then status_json e (i32 code) (header_Get h ''grpc-message'')
      else case decodeBinHeader e grpcDetails of
          None \<Rightarrow> None
        | Some details \<Rightarrow> (case details_json e details of None \<Rightarrow> None | Some j \<Rightarrow> j))"

text \<open>Panics: a nil body or header map, and an answer shorter than the head of a frame.\<close>

definition transcode_response :: "transcode_env \<Rightarrow> string \<Rightarrow> response \<Rightarrow> response trip" where
  "transcode_response e contentType resp =
     (if rs_Body resp = NilBody then Panics
      else case read_body (rs_Body resp) of
          (_, Some er) \<Rightarrow> Fails er
        | (data, None) \<Rightarrow>
            (case rs_Header resp of
               None \<Rightarrow> Panics
             | Some h0 \<Rightarrow>
                 (let h = header_Set (h0 ++ rs_Trailer resp) ''Content-Type'' contentType;
                      grpcStatus = header_Get h ''grpc-status''
                  in if grpcStatus \<noteq> ''0'' then
                       (case ParseInt 64 grpcStatus of
                          None \<Rightarrow> Fails (plain_err (''strconv.ParseInt: parsing '' @ grpcStatus))
                        | Some code \<Rightarrow>
                            (case grpc_error e h code of
                               None \<Rightarrow> Fails (plain_err ''invalid status'')
                             | Some j \<Rightarrow> Reply (tc_newResponse 200 h j)))
                     else if length data < 5 then Panics
                     else Reply (resp\<lparr>rs_Body := MemBody (drop 5 data), rs_Trailer := Map.empty, rs_Header := Some (header_Del h ''Content-Length'')\<rparr>))))"


section \<open>A gRPC backend\<close>




section \<open>Calls through the transcoder\<close>





lemma grpc_keys:
  "CanonicalHeaderKey ''Content-Type'' = ''Content-Type''" "CanonicalHeaderKey ''grpc-status'' = ''Grpc-Status''" "CanonicalHeaderKey ''grpc-message'' = ''Grpc-Message''"
  "CanonicalHeaderKey ''grpc-status-details-bin'' = ''Grpc-Status-Details-Bin''" "CanonicalHeaderKey ''Content-Length'' = ''Content-Length''"
  by code_simp+







text \<open>An answer of status 0 without a whole frame makes the middleware panic.\<close>

lemma short_answer_panics:
  "length data < 5 \<Longrightarrow> transcode_response e ct \<lparr>rs_StatusCode = 200, rs_Header = Some Map.empty, rs_Trailer = [''Grpc-Status'' \<mapsto> [''0'']], rs_Body = MemBody data\<rparr> = Panics"
  by (simp add: transcode_response_def header_Set_def header_Get_def grpc_keys)

end
