(* ===== verification/Agent.thy ===== *)
theory Agent
  imports Store
begin

text \<open>
  The agent service (\<^verbatim>\<open>app/agent/internal\<close>): conversations with a language model that may call tools
  (\<^verbatim>\<open>agent/chat.go\<close>, \<^verbatim>\<open>agent/tool\<close>), the reports and summaries of \<^verbatim>\<open>biz/service/summary.go\<close>, the consumer of
  \<^verbatim>\<open>biz/service/consumer.go\<close> and the handler of \<^verbatim>\<open>service/summary.go\<close>.

  What the model answers, JSON, the calls of the other services, the mail server and the local time zone are
  parameters. The texts of the prompts and of the descriptions of tools are given in short in English. The function
  fields of \<^verbatim>\<open>SummaryUseCase\<close>, which only its tests set, are nil.
\<close>

section \<open>Messages\<close>

record compatToolCall =
  tl_ID :: string
  tl_Type :: string
  tl_Name :: string
  tl_Arguments :: string

record compatMessage =
  cm_Role :: string
  cm_Content :: string
  cm_ReasoningContent :: string
  cm_ToolCalls :: "compatToolCall list"
  cm_ToolCallID :: string

record compatFunction =
  fn_Name :: string
  fn_Description :: string
  fn_Parameters :: "(string \<times> string) list"

record compatChatRequest =
  cr_Model :: string
  cr_Messages :: "compatMessage list"
  cr_Tools :: "(string \<times> compatFunction) list"

record compatChoice =
  cc_FinishReason :: string
  cc_Message :: compatMessage

record compatChatResponse =
  cp_Choices :: "compatChoice list"
  cp_Error :: "(string \<times> string) option"

text \<open>A message of the caller: None is a nil pointer, and so is the content of one.\<close>

type_synonym chat_message = "string \<times> string option"

definition toCompatMessages :: "chat_message option list \<Rightarrow> compatMessage list" where
  "toCompatMessages messages =
     List.map_filter (map_option (\<lambda>(role, content).
       \<lparr>cm_Role = role, cm_Content = (case content of None \<Rightarrow> '''' | Some c \<Rightarrow> c), cm_ReasoningContent = '''', cm_ToolCalls = [], cm_ToolCallID = ''''\<rparr>)) messages"

section \<open>State and environment\<close>

record mail =
  ml_From :: string
  ml_To :: string
  ml_Subject :: string
  ml_Body :: string

record agent_db =
  mails :: "mail list"
  prompts :: "compatChatRequest list"
  announced :: "(int \<times> string) list"

type_synonym agent_world = "agent_db world"
type_synonym ('e, 'a) aact = "(agent_db, 'e, 'a) act"

record Profile =
  pf_RoleId :: int
  pf_EmailEnabled :: bool

datatype json = JNum int | JStrs "string list" | JOther string

record SMTP =
  smtp_Host :: string
  smtp_From :: string

record agent_env = env +
  post :: "nat \<Rightarrow> string \<Rightarrow> string \<Rightarrow> compatChatRequest \<Rightarrow> gerr + int \<times> string"
  marshal_chat :: "compatChatRequest \<Rightarrow> gerr option"
  unmarshal_chat :: "string \<Rightarrow> compatChatResponse option"
  profile_GetById :: "nat \<Rightarrow> int \<Rightarrow> gerr + Profile \<times> string"
  profile_GetList :: "nat \<Rightarrow> int \<Rightarrow> gerr + int list \<times> int"
  dial_core :: "nat \<Rightarrow> gerr option"
  core_call :: "nat \<Rightarrow> string \<Rightarrow> string \<Rightarrow> string \<Rightarrow> int \<Rightarrow> int \<Rightarrow> gerr + string"
  unmarshal_cnt :: "string \<Rightarrow> (string \<times> string \<times> int) option"
  unmarshal_user :: "string \<Rightarrow> int option"
  unmarshal_log :: "string \<Rightarrow> (string \<times> int \<times> int) option"
  unmarshal_pair :: "string \<Rightarrow> (string \<times> string) option"
  unmarshal_mail :: "string \<Rightarrow> (string \<times> string \<times> string) option"
  parse_date :: "string \<Rightarrow> int option"
  send_error :: "nat \<Rightarrow> mail \<Rightarrow> gerr option"
  parse_object :: "string \<Rightarrow> (string \<rightharpoonup> json) option"
  marshal_object :: "(string \<rightharpoonup> json) \<Rightarrow> string option"
  zone_Weekday :: "time \<Rightarrow> int"
  zone_AddDate :: "int \<Rightarrow> time \<Rightarrow> time"
  zone_Format :: "string \<Rightarrow> time \<Rightarrow> string"
  unmarshal_event :: "string \<Rightarrow> (int \<times> string) option"
  Getenv :: "string \<Rightarrow> string"

definition agent_Now :: "'x env_scheme \<Rightarrow> ('e, time) aact" where
  "agent_Now e w = (Inr (clock e (ticks w)), tick w)"

section \<open>The model client\<close>

record Chat =
  apiKey :: string
  model :: string
  url :: string

definition TrimRight_slash :: "string \<Rightarrow> string" where
  "TrimRight_slash s = rev (dropWhile (\<lambda>c. c = CHR ''/'') (rev s))"

definition chatCompletionsURL :: "string \<Rightarrow> string" where
  "chatCompletionsURL baseURL =
     (let b = TrimRight_slash (TrimSpace baseURL) in if HasSuffix b ''/chat/completions'' then b else b @ ''/chat/completions'')"

fun firstNonEmpty :: "string list \<Rightarrow> string" where
  "firstNonEmpty [] = ''''"
| "firstNonEmpty (v # vs) = (if TrimSpace v \<noteq> '''' then TrimSpace v else firstNonEmpty vs)"

text \<open>The configuration: model and secret, None when there is none.\<close>

definition NewChat :: "'x agent_env_scheme \<Rightarrow> (string \<times> string) option \<Rightarrow> Chat" where
  "NewChat e cfg =
     (let configuredModel = (case cfg of None \<Rightarrow> '''' | Some (m, _) \<Rightarrow> m);
          configuredSecret = (case cfg of None \<Rightarrow> '''' | Some (_, s) \<Rightarrow> s);
          baseURL = firstNonEmpty [Getenv e ''AI_BASE_URL'', Getenv e ''DEEPSEEK_BASE_URL'', ''https://api.deepseek.com'']
      in \<lparr>apiKey = firstNonEmpty [Getenv e ''AI_API_KEY'', Getenv e ''DEEPSEEK_API_KEY'', configuredSecret],
          model = firstNonEmpty [Getenv e ''AI_MODEL'', Getenv e ''DEEPSEEK_MODEL'', configuredModel],
          url = chatCompletionsURL baseURL\<rparr>)"

text \<open>The request goes to \<open>post\<close> with its address and key; an error of reading the body is one of \<open>post\<close>.\<close>

definition createChatCompletion :: "'x agent_env_scheme \<Rightarrow> Chat \<Rightarrow> compatChatRequest \<Rightarrow> (gerr, compatChatResponse) aact" where
  "createChatCompletion e c req w =
     (if apiKey c = '''' then (Inl (Errorf ''AI_API_KEY/DEEPSEEK_API_KEY not configured''), w)
      else if cr_Model req = '''' then (Inl (Errorf ''AI_MODEL/DEEPSEEK_MODEL not configured''), w)
      else case marshal_chat e req of
          Some er \<Rightarrow> (Inl er, w)
        | None \<Rightarrow>
            (let w1 = (tick w)\<lparr>db := (db w)\<lparr>prompts := prompts (db w) @ [req]\<rparr>\<rparr> in
             case post e (ticks w) (url c) (apiKey c) req of
               Inl er \<Rightarrow> (Inl er, w1)
             | Inr (status, body) \<Rightarrow>
                 (case unmarshal_chat e body of
                    None \<Rightarrow> (Inl (Errorf (''cannot parse the answer: '' @ body)), w1)
                  | Some resp \<Rightarrow>
                      if status < 200 \<or> 300 \<le> status then
                        (case cp_Error resp of
                           Some (message, typ) \<Rightarrow>
                             if message \<noteq> '''' then (Inl (Errorf (''request failed: status='' @ fmt_d status @ '' type='' @ typ @ '' message='' @ message)), w1)
                             else (Inl (Errorf (''request failed: status='' @ fmt_d status @ '' body='' @ body)), w1)
                         | None \<Rightarrow> (Inl (Errorf (''request failed: status='' @ fmt_d status @ '' body='' @ body)), w1))
                      else (Inr resp, w1))))"

section \<open>Tools\<close>

datatype agent_tool = SubmitCnt | GetNameById | SubmitLogTool | StatisticPeriod | RedisSet | SendEmail SMTP

definition function_tool :: "string \<Rightarrow> string \<Rightarrow> (string \<times> string) list \<Rightarrow> string \<times> compatFunction" where
  "function_tool name description parameters = (''function'', \<lparr>fn_Name = name, fn_Description = description, fn_Parameters = parameters\<rparr>)"

definition submit_cnt_Description where
  "submit_cnt_Description = function_tool ''submit_cnt'' ''submissions a day of a user in a range of days; no count means 0''
     [(''startDate'', ''string''), (''endDate'', ''string''), (''userId'', ''integer'')]"

definition profile_Description where
  "profile_Description = function_tool ''get_profile_by_user_id'' ''profile of a user as JSON, with name and mail address'' [(''userId'', ''integer'')]"

definition submit_log_Description where
  "submit_log_Description = function_tool ''submit_log'' ''the last submissions of a user before the end of a day''
     [(''endDate'', ''string''), (''limit'', ''integer''), (''userId'', ''integer'')]"

definition statistic_Description where
  "statistic_Description = function_tool ''statistic_period'' ''counts of a user by period'' [(''userId'', ''integer'')]"

definition redis_Description where
  "redis_Description = function_tool ''redis_set'' ''writes a key and a value to Redis'' [(''key'', ''string''), (''value'', ''string'')]"

definition email_Description where
  "email_Description = function_tool ''send_email'' ''sends an HTML mail'' [(''to'', ''string''), (''subject'', ''string''), (''body'', ''string'')]"

definition Description :: "agent_tool \<Rightarrow> string \<times> compatFunction" where
  "Description t = (case t of SubmitCnt \<Rightarrow> submit_cnt_Description | GetNameById \<Rightarrow> profile_Description | SubmitLogTool \<Rightarrow> submit_log_Description
     | StatisticPeriod \<Rightarrow> statistic_Description | RedisSet \<Rightarrow> redis_Description | SendEmail _ \<Rightarrow> email_Description)"

definition tool_name :: "agent_tool \<Rightarrow> string" where
  "tool_name t = fn_Name (snd (Description t))"

text \<open>A call of the core-data service: dialing, then the method; the answer is JSON.\<close>

definition core_data :: "'x agent_env_scheme \<Rightarrow> string \<Rightarrow> string \<Rightarrow> string \<Rightarrow> int \<Rightarrow> int \<Rightarrow> string \<Rightarrow> (gerr, string) aact" where
  "core_data e name startDate endDate userId limit text w =
     (case dial_core e (ticks w) of
        Some er \<Rightarrow> (Inl er, tick w)
      | None \<Rightarrow>
          (case core_call e (ticks w) name startDate endDate userId limit of
             Inl er \<Rightarrow> (Inl er, tick w)
           | Inr j \<Rightarrow> (Inr (text @ j), tick w)))"

definition submit_cnt_Handle :: "'x agent_env_scheme \<Rightarrow> string \<Rightarrow> string \<Rightarrow> int \<Rightarrow> (gerr, string) aact" where
  "submit_cnt_Handle e startDate endDate userId =
     core_data e ''Heatmap'' startDate endDate userId 0 (''submissions of user '' @ fmt_d userId @ '' are '')"

definition statistic_Handle :: "'x agent_env_scheme \<Rightarrow> int \<Rightarrow> (gerr, string) aact" where
  "statistic_Handle e userId = core_data e ''PeriodCount'' '''' '''' userId 0 (''statistics of user '' @ fmt_d userId @ '' are '')"

text \<open>The cursor is the end of the day in UTC; dialing comes before the date is looked at.\<close>

definition submit_log_Handle :: "'x agent_env_scheme \<Rightarrow> string \<Rightarrow> int \<Rightarrow> int \<Rightarrow> (gerr, string) aact" where
  "submit_log_Handle e endDate userId limit = (case parse_date e endDate of
     None \<Rightarrow> (\<lambda>w. (Inl (case dial_core e (ticks w) of Some er \<Rightarrow> er | None \<Rightarrow> Errorf ''cannot parse the time''), tick w))
   | Some t \<Rightarrow> core_data e ''GetSubmitLog'' '''' (fmt_d (t + 86400)) userId limit
       (''the last '' @ fmt_d limit @ '' submissions of user '' @ fmt_d userId @ '' before '' @ endDate @ '' are ''))"

definition profile_Handle :: "'x agent_env_scheme \<Rightarrow> int \<Rightarrow> (gerr, string) aact" where
  "profile_Handle e userId w =
     (if userId = 0 then (Inl (Errorf ''the user id must not be 0''), w)
      else case profile_GetById e (ticks w) userId of
          Inl er \<Rightarrow> (Inl er, tick w)
        | Inr (_, j) \<Rightarrow> (Inr (''the profile of user '' @ fmt_d userId @ '' is '' @ j), tick w))"

text \<open>Every tool answers with a text, errors included.\<close>

definition answered :: "(gerr \<Rightarrow> string) \<Rightarrow> (gerr, string) aact \<Rightarrow> ('e, string) aact" where
  "answered f m w = (case m w of (Inl er, w1) \<Rightarrow> (Inr (f er), w1) | (Inr s, w1) \<Rightarrow> (Inr s, w1))"

definition query_failed :: "gerr \<Rightarrow> string" where
  "query_failed er = ''query failed'' @ err_text er"

definition submit_cnt_AiInterface :: "'x agent_env_scheme \<Rightarrow> string \<Rightarrow> ('e, string) aact" where
  "submit_cnt_AiInterface e jsonStr = (case unmarshal_cnt e jsonStr of
     None \<Rightarrow> returnE ''bad parameters''
   | Some (startDate, endDate, userId) \<Rightarrow> answered query_failed (submit_cnt_Handle e startDate endDate userId))"

definition statistic_AiInterface :: "'x agent_env_scheme \<Rightarrow> string \<Rightarrow> ('e, string) aact" where
  "statistic_AiInterface e jsonStr = (case unmarshal_user e jsonStr of
     None \<Rightarrow> returnE ''bad parameters''
   | Some userId \<Rightarrow> answered query_failed (statistic_Handle e userId))"

definition submit_log_AiInterface :: "'x agent_env_scheme \<Rightarrow> string \<Rightarrow> ('e, string) aact" where
  "submit_log_AiInterface e jsonStr = (case unmarshal_log e jsonStr of
     None \<Rightarrow> returnE ''bad parameters''
   | Some (endDate, userId, limit) \<Rightarrow> answered query_failed (submit_log_Handle e endDate userId limit))"

definition profile_AiInterface :: "'x agent_env_scheme \<Rightarrow> string \<Rightarrow> ('e, string) aact" where
  "profile_AiInterface e jsonStr = (case unmarshal_user e jsonStr of
     None \<Rightarrow> returnE ''bad parameters''
   | Some userId \<Rightarrow> answered query_failed (profile_Handle e userId))"

definition redis_Handle :: "'x env_scheme \<Rightarrow> string \<Rightarrow> string \<Rightarrow> (gerr, string) aact" where
  "redis_Handle e key v w =
     (if stmt_fails e (ticks w) then (Inl DbError, tick w)
      else (Inr (''written to Redis: key='' @ key @ '', value='' @ v), (tick w)\<lparr>rdb := (rdb w)(key \<mapsto> v)\<rparr>))"

definition email_Handle :: "'x agent_env_scheme \<Rightarrow> SMTP \<Rightarrow> string \<Rightarrow> string \<Rightarrow> string \<Rightarrow> (gerr, unit) aact" where
  "email_Handle e smtp to subject body w =
     (if smtp_Host smtp = '''' then (Inl (Errorf ''SMTP server not configured''), w)
      else let m = \<lparr>ml_From = smtp_From smtp, ml_To = to, ml_Subject = subject, ml_Body = body\<rparr> in
        case send_error e (ticks w) m of
          Some er \<Rightarrow> (Inl (Wrapf ''sending failed'' er), tick w)
        | None \<Rightarrow> (Inr (), (tick w)\<lparr>db := (db w)\<lparr>mails := mails (db w) @ [m]\<rparr>\<rparr>))"

definition redis_AiInterface :: "'x agent_env_scheme \<Rightarrow> string \<Rightarrow> ('e, string) aact" where
  "redis_AiInterface e jsonStr = (case unmarshal_pair e jsonStr of
     None \<Rightarrow> returnE ''bad parameters''
   | Some (key, v) \<Rightarrow> answered (\<lambda>_. ''writing to Redis failed'') (redis_Handle e key v))"

definition email_AiInterface :: "'x agent_env_scheme \<Rightarrow> SMTP \<Rightarrow> string \<Rightarrow> ('e, string) aact" where
  "email_AiInterface e smtp jsonStr = (case unmarshal_mail e jsonStr of
     None \<Rightarrow> returnE ''mail not sent: bad parameters''
   | Some (to, subject, body) \<Rightarrow>
       if to = '''' then returnE ''mail not sent: no recipient''
       else if subject = '''' then returnE ''mail not sent: no subject''
       else if body = '''' then returnE ''mail not sent: no body''
       else answered (\<lambda>er. ''mail not sent: '' @ err_text er) (bindE (email_Handle e smtp to subject body) (\<lambda>_. returnE ''mail sent'')))"

definition AiInterface :: "'x agent_env_scheme \<Rightarrow> agent_tool \<Rightarrow> string \<Rightarrow> ('e, string) aact" where
  "AiInterface e t jsonStr = (case t of
     SubmitCnt \<Rightarrow> submit_cnt_AiInterface e jsonStr
   | GetNameById \<Rightarrow> profile_AiInterface e jsonStr
   | SubmitLogTool \<Rightarrow> submit_log_AiInterface e jsonStr
   | StatisticPeriod \<Rightarrow> statistic_AiInterface e jsonStr
   | RedisSet \<Rightarrow> redis_AiInterface e jsonStr
   | SendEmail smtp \<Rightarrow> email_AiInterface e smtp jsonStr)"

section \<open>Conversations\<close>

text \<open>The registry: of several tools of one name the last counts.\<close>

definition registry :: "agent_tool list \<Rightarrow> string \<rightharpoonup> agent_tool" where
  "registry tools = foldl (\<lambda>reg t. reg(tool_name t \<mapsto> t)) Map.empty tools"

fun call_tools :: "'x agent_env_scheme \<Rightarrow> (string \<rightharpoonup> agent_tool) \<Rightarrow> compatToolCall list \<Rightarrow> compatMessage list \<Rightarrow> (gerr, compatMessage list) aact" where
  "call_tools e reg [] msgs = returnE msgs"
| "call_tools e reg (toolCall # calls) msgs = (case reg (tl_Name toolCall) of
     None \<Rightarrow> failE (Errorf (''the model asked for an unknown tool: '' @ tl_Name toolCall))
   | Some fn \<Rightarrow> bindE (AiInterface e fn (tl_Arguments toolCall)) (\<lambda>toolMsg.
       call_tools e reg calls (msgs @ [\<lparr>cm_Role = ''tool'', cm_Content = toolMsg, cm_ReasoningContent = '''', cm_ToolCalls = [], cm_ToolCallID = tl_ID toolCall\<rparr>])))"

text \<open>One round: \<open>Inl\<close> the final answer, \<open>Inr\<close> the messages and the answer so far to go on with.\<close>

definition chat_round :: "'x agent_env_scheme \<Rightarrow> Chat \<Rightarrow> agent_tool list \<Rightarrow> compatMessage list \<Rightarrow> string \<Rightarrow> (gerr, string + compatMessage list \<times> string) aact" where
  "chat_round e c tools msgs finalResp =
     bindE (createChatCompletion e c \<lparr>cr_Model = model c, cr_Messages = msgs, cr_Tools = map Description tools\<rparr>) (\<lambda>resp.
     case cp_Choices resp of
       [] \<Rightarrow> failE (Errorf ''the model answered nothing'')
     | choice # _ \<Rightarrow>
         (let msg = cc_Message choice;
              final = (if cm_Content msg \<noteq> '''' then cm_Content msg else finalResp)
          in if cc_FinishReason choice \<noteq> ''tool_calls'' \<or> cm_ToolCalls msg = [] then returnE (Inl final)
             else bindE (call_tools e (registry tools) (cm_ToolCalls msg) (msgs @ [msg])) (\<lambda>msgs'. returnE (Inr (msgs', final)))))"

text \<open>None when the model keeps calling tools for ever.\<close>

partial_function (option) chat_loop ::
    "'x agent_env_scheme \<Rightarrow> Chat \<Rightarrow> agent_tool list \<Rightarrow> compatMessage list \<Rightarrow> string \<Rightarrow> agent_world \<Rightarrow> ((gerr + string) \<times> agent_world) option" where
  "chat_loop e c tools msgs finalResp w = (case chat_round e c tools msgs finalResp w of
     (Inl er, w1) \<Rightarrow> Some (Inl er, w1)
   | (Inr (Inl final), w1) \<Rightarrow> Some (Inr final, w1)
   | (Inr (Inr (msgs', final)), w1) \<Rightarrow> chat_loop e c tools msgs' final w1)"

text \<open>The client may be missing.\<close>

definition runChat :: "'x agent_env_scheme \<Rightarrow> Chat option \<Rightarrow> chat_message option list \<Rightarrow> agent_tool list \<Rightarrow> agent_world \<Rightarrow> ((gerr + string) \<times> agent_world) option" where
  "runChat e chat messages tools w = (case chat of
     None \<Rightarrow> Some (Inl (Errorf ''AI chat client not configured''), w)
   | Some c \<Rightarrow> chat_loop e c tools (toCompatMessages messages) '''' w)"

section \<open>Reports\<close>

record SummaryUseCase =
  uc_chat :: "Chat option"
  uc_mailConf :: SMTP

definition userProfile :: "'x agent_env_scheme \<Rightarrow> int \<Rightarrow> ('e, Profile option) aact" where
  "userProfile e userId w = (Inr (case profile_GetById e (ticks w) userId of Inl _ \<Rightarrow> None | Inr (p, _) \<Rightarrow> Some p), tick w)"

definition checkRoleId :: "'x agent_env_scheme \<Rightarrow> int \<Rightarrow> ('e, int) aact" where
  "checkRoleId e userId = bindE (userProfile e userId) (\<lambda>p. returnE (case p of None \<Rightarrow> 0 | Some p \<Rightarrow> pf_RoleId p))"

definition checkEmailEnabled :: "'x agent_env_scheme \<Rightarrow> int \<Rightarrow> ('e, bool) aact" where
  "checkEmailEnabled e userId = bindE (userProfile e userId) (\<lambda>p. returnE (case p of None \<Rightarrow> True | Some p \<Rightarrow> pf_EmailEnabled p))"

text \<open>Conversations need not end, so what uses one is an action with an optional outcome.\<close>

type_synonym 'a dialogue = "agent_world \<Rightarrow> ((gerr + 'a) \<times> agent_world) option"

definition bindD :: "'a dialogue \<Rightarrow> ('a \<Rightarrow> 'b dialogue) \<Rightarrow> 'b dialogue" where
  "bindD m f w = (case m w of None \<Rightarrow> None | Some (Inl er, w1) \<Rightarrow> Some (Inl er, w1) | Some (Inr a, w1) \<Rightarrow> f a w1)"

definition actD :: "(gerr, 'a) aact \<Rightarrow> 'a dialogue" where
  "actD m w = Some (m w)"

definition user_message :: "string \<Rightarrow> chat_message option" where
  "user_message s = Some (''user'', Some s)"

definition weekly_prompt :: "int \<Rightarrow> string \<Rightarrow> string \<Rightarrow> string \<Rightarrow> chat_message option list" where
  "weekly_prompt coach today from_day to_day =
     [user_message ''you write the weekly report of the team for the coach'',
      user_message (''coach '' @ fmt_d coach @ '', today '' @ today @ '', analyse '' @ from_day @ '' to '' @ to_day @ '' and mail the report to the coach'')]"

definition WeeklyReportForCoach :: "'x agent_env_scheme \<Rightarrow> SummaryUseCase \<Rightarrow> int \<Rightarrow> unit dialogue" where
  "WeeklyReportForCoach e uc coachUserId =
     bindD (actD (checkEmailEnabled e coachUserId)) (\<lambda>enabled.
     if \<not> enabled then actD (returnE ())
     else bindD (actD (agent_Now e)) (\<lambda>t1. bindD (actD (agent_Now e)) (\<lambda>t2. bindD (actD (agent_Now e)) (\<lambda>t3.
       bindD (runChat e (uc_chat uc)
           (weekly_prompt coachUserId (zone_Format e ''2006-1-2'' t3) (zone_Format e ''20060102'' (zone_AddDate e (-7) t1)) (zone_Format e ''20060102'' (zone_AddDate e (-1) t2)))
           [SubmitCnt, GetNameById, StatisticPeriod, SendEmail (uc_mailConf uc)]) (\<lambda>_. actD (returnE ()))))))"

definition daily_prompt :: "int \<Rightarrow> string \<Rightarrow> chat_message option list" where
  "daily_prompt userId startDate =
     [user_message ''write as a friend and in HTML'',
      user_message (''user '' @ fmt_d userId @ '': analyse the submissions of '' @ startDate @ '' and mail me the report'')]"

definition daily_report :: "'x agent_env_scheme \<Rightarrow> SummaryUseCase \<Rightarrow> int \<Rightarrow> time \<Rightarrow> unit dialogue" where
  "daily_report e uc userId lastDay =
     bindD (runChat e (uc_chat uc) (daily_prompt userId (zone_Format e ''20060102'' lastDay)) [SubmitCnt, GetNameById, SubmitLogTool, SendEmail (uc_mailConf uc)])
       (\<lambda>_. actD (returnE ()))"

text \<open>An error of the weekly report of an administrator is only logged.\<close>

definition logged :: "unit dialogue \<Rightarrow> unit dialogue" where
  "logged m w = (case m w of None \<Rightarrow> None | Some (_, w1) \<Rightarrow> Some (Inr (), w1))"

definition PersonalLastDay :: "'x agent_env_scheme \<Rightarrow> SummaryUseCase \<Rightarrow> int \<Rightarrow> unit dialogue" where
  "PersonalLastDay e uc userId =
     bindD (actD (checkEmailEnabled e userId)) (\<lambda>enabled.
     if \<not> enabled then actD (returnE ())
     else bindD (actD (agent_Now e)) (\<lambda>t0.
       bindD (actD (checkRoleId e userId)) (\<lambda>roleId.
       if roleId = 2 then
         bindD (actD (agent_Now e)) (\<lambda>t. if zone_Weekday e t = 1 then WeeklyReportForCoach e uc userId else actD (returnE ()))
       else bindD
         (if roleId = 1 then bindD (actD (agent_Now e)) (\<lambda>t. if zone_Weekday e t = 1 then logged (WeeklyReportForCoach e uc userId) else actD (returnE ()))
          else actD (returnE ()))
         (\<lambda>_. daily_report e uc userId (zone_AddDate e (-1) t0)))))"

section \<open>Recent summary\<close>

definition recent_key :: "int \<Rightarrow> string" where
  "recent_key userId = ''agent:summary:'' @ fmt_d userId @ '':recent''"

fun from_brace :: "string \<Rightarrow> string option" where
  "from_brace [] = None"
| "from_brace (c # s) = (if c = CHR ''{'' then Some (c # s) else from_brace s)"

text \<open>The text from the first opening to the last closing brace.\<close>

definition object_text :: "string \<Rightarrow> string option" where
  "object_text s = (case from_brace s of
     None \<Rightarrow> None
   | Some r \<Rightarrow> (let t = rev (dropWhile (\<lambda>c. c \<noteq> CHR ''}'') (rev r)) in if t = '''' then None else Some t))"

definition code_fence :: string where "code_fence = [CHR 0x60, CHR 0x60, CHR 0x60]"

definition unfenced :: "string \<Rightarrow> string" where
  "unfenced raw = TrimSpace (TrimSuffix (TrimPrefix (TrimPrefix (TrimSpace raw) (code_fence @ ''json'')) code_fence) code_fence)"

definition fallback_summary :: "'x agent_env_scheme \<Rightarrow> string \<Rightarrow> ('e, string) aact" where
  "fallback_summary e s = bindE (agent_Now e) (\<lambda>now.
     returnE (case marshal_object e [''msg'' \<mapsto> JStrs [s], ''updateTime'' \<mapsto> JNum (now div 1000000000)] of None \<Rightarrow> '''' | Some t \<Rightarrow> t))"

definition normalizeRecentSummaryJSON :: "'x agent_env_scheme \<Rightarrow> string \<Rightarrow> ('e, string) aact" where
  "normalizeRecentSummaryJSON e raw =
     (let s = unfenced raw in
      case (case object_text s of None \<Rightarrow> None | Some candidate \<Rightarrow> parse_object e candidate) of
        None \<Rightarrow> fallback_summary e s
      | Some obj \<Rightarrow>
          if obj ''msg'' = None then fallback_summary e s
          else bindE (if obj ''updateTime'' = None then bindE (agent_Now e) (\<lambda>now. returnE (obj(''updateTime'' \<mapsto> JNum (now div 1000000000)))) else returnE obj) (\<lambda>obj'.
            case marshal_object e obj' of Some t \<Rightarrow> returnE t | None \<Rightarrow> fallback_summary e s))"

definition redisExists :: "'x env_scheme \<Rightarrow> string \<Rightarrow> (gerr, bool) aact" where
  "redisExists e key w = (if stmt_fails e (ticks w) then (Inl DbError, tick w) else (Inr (rdb w key \<noteq> None), tick w))"

definition redisSet :: "'x env_scheme \<Rightarrow> string \<Rightarrow> string \<Rightarrow> (gerr, unit) aact" where
  "redisSet e key v w = (if stmt_fails e (ticks w) then (Inl DbError, tick w) else (Inr (), (tick w)\<lparr>rdb := (rdb w)(key \<mapsto> v)\<rparr>))"

definition recent_prompt :: "int \<Rightarrow> int \<Rightarrow> chat_message option list" where
  "recent_prompt userId now =
     [user_message ''give seven or eight short pieces of advice'',
      user_message (''user '' @ fmt_d userId @ '' at '' @ fmt_d now @ '': write JSON with msg and updateTime into Redis under agent:summary:{id}:recent'')]"

definition PersonalRecent :: "'x agent_env_scheme \<Rightarrow> SummaryUseCase \<Rightarrow> int \<Rightarrow> unit dialogue" where
  "PersonalRecent e uc userId =
     bindD (actD (agent_Now e)) (\<lambda>now.
     bindD (runChat e (uc_chat uc) (recent_prompt userId (now div 1000000000)) [StatisticPeriod, RedisSet]) (\<lambda>r.
     bindD (actD (redisExists e (recent_key userId))) (\<lambda>exists.
     if exists then actD (returnE ())
     else if TrimSpace r = '''' then actD (failE (Errorf (''the summary of user '' @ fmt_d userId @ '' is empty'')))
     else bindD (actD (normalizeRecentSummaryJSON e r)) (\<lambda>v. actD (redisSet e (recent_key userId) v)))))"

section \<open>Deliveries and requests\<close>

datatype settled = Acked | Nacked | Unsettled

definition consume :: "'x agent_env_scheme \<Rightarrow> SummaryUseCase \<Rightarrow> string \<Rightarrow> agent_world \<Rightarrow> (settled \<times> agent_world) option" where
  "consume e uc body w = (case unmarshal_event e body of
     None \<Rightarrow> Some (Unsettled, w)
   | Some (userId, typ) \<Rightarrow>
       (case (if typ = ''PersonalLastDay'' then PersonalLastDay e uc userId w
              else if typ = ''PersonalRecent'' then PersonalRecent e uc userId w
              else Some (Inr (), w)) of
          None \<Rightarrow> None
        | Some (Inl _, w1) \<Rightarrow> Some (Nacked, w1)
        | Some (Inr _, w1) \<Rightarrow> Some (Acked, w1)))"

text \<open>\<^verbatim>\<open>GetRecentSummary\<close>: code and text; a summary that is missing, or cannot be read, is asked for. Publishing may fail silently.\<close>

definition GetRecentSummary :: "'x env_scheme \<Rightarrow> int \<Rightarrow> ('e, int \<times> string) aact" where
  "GetRecentSummary e userId w =
     (let announce = (\<lambda>w. if stmt_fails e (ticks w) then tick w else (tick w)\<lparr>db := (db w)\<lparr>announced := announced (db w) @ [(userId, ''PersonalRecent'')]\<rparr>\<rparr>) in
      if stmt_fails e (ticks w) then (Inr (1, ''''), announce (tick w))
      else case rdb w (recent_key userId) of
          None \<Rightarrow> (Inr (1, ''''), announce (tick w))
        | Some v \<Rightarrow> (Inr (0, v), tick w))"

text \<open>\<^verbatim>\<open>getUserIds\<close>: pages of a hundred; a page after the first that fails is left out.\<close>

definition agent_getUserIds :: "'x agent_env_scheme \<Rightarrow> ('e, int list) aact" where
  "agent_getUserIds e w = (case profile_GetList e (ticks w) 1 of
     Inl _ \<Rightarrow> (Inr [], tick w)
   | Inr (ids, n) \<Rightarrow>
       (let more = [2..i64 (n + 99) div 100] in
        (Inr (ids @ concat (map (\<lambda>k. case profile_GetList e (ticks w + nat (k - 1)) k of Inl _ \<Rightarrow> [] | Inr (us, _) \<Rightarrow> us) more)),
         w\<lparr>ticks := ticks w + 1 + length more\<rparr>)))"

end
