(* ===== verification/AgentFacts.thy ===== *)
theory AgentFacts
  imports Agent
begin

text \<open>
  Facts about the agent: what a conversation can change is what its tools can (locale \<open>chat_frame\<close>), and how the
  reports, the summaries and the consumer end.
\<close>

section \<open>Conversations change what their tools change\<close>

lemmas ai_defs = AiInterface_def submit_cnt_AiInterface_def statistic_AiInterface_def submit_log_AiInterface_def profile_AiInterface_def
  redis_AiInterface_def email_AiInterface_def answered_def submit_cnt_Handle_def statistic_Handle_def submit_log_Handle_def profile_Handle_def returnE_def

lemma core_data_frame: "core_data e name a b u l t w = (r, w') \<Longrightarrow> w' = tick w"
  by (auto simp: core_data_def split: option.splits sum.splits)

locale chat_frame =
  fixes e :: "'x agent_env_scheme"
    and tools :: "agent_tool list"
    and I :: "agent_world \<Rightarrow> bool"
  assumes ai: "t \<in> set tools \<Longrightarrow> I w \<Longrightarrow> AiInterface e t args w = (r :: gerr + string, w') \<Longrightarrow> I w'"
    and prompt: "I w \<Longrightarrow> I ((tick w)\<lparr>db := (db w)\<lparr>prompts := ps\<rparr>\<rparr>)"
begin

lemma registry_tools: "registry tools name = Some t \<Longrightarrow> t \<in> set tools"
proof -
  have "foldl (\<lambda>reg t. reg(tool_name t \<mapsto> t)) m ts name = Some t \<Longrightarrow> t \<in> set ts \<or> m name = Some t" for m ts
  proof (induction ts arbitrary: m)
    case (Cons a ts)
    from Cons.IH [of "m(tool_name a \<mapsto> a)"] Cons.prems show ?case by (auto split: if_splits)
  qed simp
  from this [of Map.empty tools] show "registry tools name = Some t \<Longrightarrow> t \<in> set tools" by (simp add: registry_def)
qed

lemma calls_keep: "I w \<Longrightarrow> call_tools e (registry tools) calls msgs w = (r, w') \<Longrightarrow> I w'"
proof (induction calls arbitrary: msgs w)
  case (Cons tc calls)
  show ?case
  proof (cases "registry tools (tl_Name tc)")
    case (Some t)
    obtain a w1 where a: "AiInterface e t (tl_Arguments tc) w = (a :: gerr + string, w1)" by fastforce
    have "I w1" using ai [OF registry_tools [OF Some] Cons.prems(1) a] .
    with Cons.IH Cons.prems(2) a show ?thesis by (cases a) (auto simp: Some bindE_def)
  qed (use Cons.prems in \<open>simp add: failE_def\<close>)
qed (simp add: returnE_def)

lemma round_keeps:
  assumes "I w" and "chat_round e c tools msgs f w = (r, w')"
  shows "I w'"
proof -
  obtain a w1 where a: "createChatCompletion e c \<lparr>cr_Model = model c, cr_Messages = msgs, cr_Tools = map Description tools\<rparr> w = (a, w1)" by fastforce
  have w1: "I w1" using a assms(1) prompt by (auto simp: createChatCompletion_def Let_def split: if_splits option.splits sum.splits)
  show ?thesis
  proof (cases a)
    case (Inr resp)
    have "I w'" if "call_tools e (registry tools) calls ms w1 = (q, w')" for calls ms q using calls_keep [OF w1 that] .
    then show ?thesis using assms(2) w1
      by (auto simp: chat_round_def bindE_def a Inr failE_def returnE_def Let_def split: list.splits if_splits prod.splits sum.splits)
  qed (use assms(2) w1 in \<open>simp add: chat_round_def bindE_def a\<close>)
qed

lemma loop_keeps:
  assumes "chat_loop e c tools msgs f w = Some rw" and "I w"
  shows "I (snd rw)"
proof -
  define P where "P = (\<lambda>(e' :: 'x agent_env_scheme) (c :: Chat) tools' (msgs :: compatMessage list) (f :: string) w (rw :: (gerr + string) \<times> agent_world).
    e' = e \<longrightarrow> tools' = tools \<longrightarrow> I w \<longrightarrow> I (snd rw))"
  have "P e c tools msgs f w rw"
  proof (rule chat_loop.raw_induct [OF _ assms(1), of P])
    fix loop and e' :: "'x agent_env_scheme" and c tools' msgs f w rw
    assume IH: "\<And>(e' :: 'x agent_env_scheme) c tools' msgs f w rw. loop e' c tools' msgs f w = Some rw \<Longrightarrow> P e' c tools' msgs f w rw"
      and step: "(case chat_round e' c tools' msgs f w of
         (Inl er, w1) \<Rightarrow> Some (Inl er, w1)
       | (Inr (Inl final), w1) \<Rightarrow> Some (Inr final, w1)
       | (Inr (Inr (msgs', final)), w1) \<Rightarrow> loop e' c tools' msgs' final w1) = Some rw"
    show "P e' c tools' msgs f w rw" unfolding P_def
    proof (intro impI)
      assume p: "e' = e" "tools' = tools" "I w"
      obtain r w1 where r: "chat_round e c tools msgs f w = (r, w1)" by fastforce
      note w1 = round_keeps [OF p(3) r]
      consider er where "r = Inl er" | a where "r = Inr (Inl a)" | ms a where "r = Inr (Inr (ms, a))" by (metis old.sum.exhaust surj_pair)
      then show "I (snd rw)"
      proof cases
        case (3 ms a)
        then have "loop e c tools ms a w1 = Some rw" using step p r by simp
        from IH [OF this] w1 show ?thesis by (simp add: P_def)
      qed (use step p r w1 in auto)
    qed
  qed
  with assms(2) show ?thesis by (simp add: P_def)
qed

lemma chat_keeps: "runChat e chat ms tools w = Some rw \<Longrightarrow> I w \<Longrightarrow> I (snd rw)"
  by (auto simp: runChat_def dest: loop_keeps split: option.splits)

end

lemma AiInterface_rdb: "t \<noteq> RedisSet \<Longrightarrow> AiInterface e t args w = (r, w') \<Longrightarrow> rdb w' = rdb w"
  by (cases t) (auto simp: ai_defs bindE_def email_Handle_def Let_def dest!: core_data_frame split: option.splits sum.splits if_splits prod.splits)

lemma AiInterface_mails: "\<forall>smtp. t \<noteq> SendEmail smtp \<Longrightarrow> AiInterface e t args w = (r, w') \<Longrightarrow> mails (db w') = mails (db w)"
  by (cases t) (auto simp: ai_defs redis_Handle_def Let_def dest!: core_data_frame split: option.splits sum.splits if_splits prod.splits)

text \<open>The mail tool sends under the configured address only.\<close>

definition sent_from :: "string \<Rightarrow> mail list \<Rightarrow> agent_world \<Rightarrow> bool" where
  "sent_from a old w \<longleftrightarrow> (\<exists>new. mails (db w) = old @ new \<and> (\<forall>m \<in> set new. ml_From m = a))"

lemma sent_from_frame: "mails (db w') = mails (db w) \<Longrightarrow> sent_from a old w' = sent_from a old w"
  by (simp add: sent_from_def)

lemma AiInterface_sent:
  assumes "\<forall>smtp. t = SendEmail smtp \<longrightarrow> smtp_From smtp = a" and "AiInterface e t args w = (r, w')" and "sent_from a old w"
  shows "sent_from a old w'"
proof (cases "\<exists>smtp. t = SendEmail smtp")
  case True
  then obtain smtp where t: "t = SendEmail smtp" "smtp_From smtp = a" using assms(1) by blast
  have "mails (db w') = mails (db w) \<or> (\<exists>m. mails (db w') = mails (db w) @ [m] \<and> ml_From m = a)"
    using assms(2) t(2) unfolding t(1)
    by (auto simp: ai_defs bindE_def email_Handle_def Let_def split: option.splits if_splits prod.splits)
  then show ?thesis using assms(3) by (auto simp: sent_from_def)
qed (use AiInterface_mails [OF _ assms(2)] assms(3) sent_from_frame in blast)

text \<open>The three conversations of the service: the reports never touch Redis, and the summary sends nothing.\<close>

interpretation daily: chat_frame e "[SubmitCnt, GetNameById, SubmitLogTool, SendEmail smtp]" "\<lambda>w. rdb w = r0 \<and> sent_from (smtp_From smtp) old w" for e smtp r0 old
proof
  fix t w args w' and r :: "gerr + string"
  assume t: "t \<in> set [SubmitCnt, GetNameById, SubmitLogTool, SendEmail smtp]" and i: "rdb w = r0 \<and> sent_from (smtp_From smtp) old w"
    and a: "AiInterface e t args w = (r, w')"
  have "t \<noteq> RedisSet" "\<forall>s. t = SendEmail s \<longrightarrow> smtp_From s = smtp_From smtp" using t by auto
  then show "rdb w' = r0 \<and> sent_from (smtp_From smtp) old w'" using AiInterface_rdb [OF _ a] AiInterface_sent [OF _ a] i by blast
qed (simp add: sent_from_def)

interpretation weekly: chat_frame e "[SubmitCnt, GetNameById, StatisticPeriod, SendEmail smtp]" "\<lambda>w. rdb w = r0 \<and> sent_from (smtp_From smtp) old w" for e smtp r0 old
proof
  fix t w args w' and r :: "gerr + string"
  assume t: "t \<in> set [SubmitCnt, GetNameById, StatisticPeriod, SendEmail smtp]" and i: "rdb w = r0 \<and> sent_from (smtp_From smtp) old w"
    and a: "AiInterface e t args w = (r, w')"
  have "t \<noteq> RedisSet" "\<forall>s. t = SendEmail s \<longrightarrow> smtp_From s = smtp_From smtp" using t by auto
  then show "rdb w' = r0 \<and> sent_from (smtp_From smtp) old w'" using AiInterface_rdb [OF _ a] AiInterface_sent [OF _ a] i by blast
qed (simp add: sent_from_def)

interpretation recent: chat_frame e "[StatisticPeriod, RedisSet]" "\<lambda>w. mails (db w) = old" for e old
  by unfold_locales (use AiInterface_mails in fastforce, simp)

section \<open>What reports and summaries keep\<close>

definition keepsD :: "(agent_world \<Rightarrow> bool) \<Rightarrow> 'a dialogue \<Rightarrow> bool" where
  "keepsD I m \<longleftrightarrow> (\<forall>w rw. I w \<longrightarrow> m w = Some rw \<longrightarrow> I (snd rw))"

lemma keepsD_bind: "keepsD I m \<Longrightarrow> (\<And>a. keepsD I (f a)) \<Longrightarrow> keepsD I (bindD m f)"
  unfolding keepsD_def bindD_def
proof (intro allI impI)
  fix w rw
  assume m: "\<forall>w rw. I w \<longrightarrow> m w = Some rw \<longrightarrow> I (snd rw)" and f: "\<And>a. \<forall>w rw. I w \<longrightarrow> f a w = Some rw \<longrightarrow> I (snd rw)" and w: "I w"
    and b: "(case m w of None \<Rightarrow> None | Some (Inl er, w1) \<Rightarrow> Some (Inl er, w1) | Some (Inr a, w1) \<Rightarrow> f a w1) = Some rw"
  obtain r w1 where r: "m w = Some (r, w1)" using b by (cases "m w") auto
  have "I w1" using m w r by force
  show "I (snd rw)"
  proof (cases r)
    case (Inr a)
    then have "f a w1 = Some rw" using b r by simp
    with f [of a] \<open>I w1\<close> show ?thesis by blast
  qed (use b r \<open>I w1\<close> in auto)
qed

lemma keepsD_act: "(\<And>w r w'. I w \<Longrightarrow> m w = (r, w') \<Longrightarrow> I w') \<Longrightarrow> keepsD I (actD m)"
  by (auto simp: keepsD_def actD_def) (metis prod.collapse)

lemma keepsD_logged: "keepsD I m \<Longrightarrow> keepsD I (logged m)"
  by (auto simp: keepsD_def logged_def split: option.splits)

text \<open>Predicates that the counter of steps does not change.\<close>

definition untimed :: "(agent_world \<Rightarrow> bool) \<Rightarrow> bool" where
  "untimed I \<longleftrightarrow> (\<forall>w. I w \<longrightarrow> I (tick w))"

lemma keepsD_small:
  assumes "untimed I"
  shows "keepsD I (actD (returnE a))" "keepsD I (actD (failE er))" "keepsD I (actD (agent_Now e))" "keepsD I (actD (checkEmailEnabled e u))" "keepsD I (actD (checkRoleId e u))"
  using assms by (auto intro!: keepsD_act simp: untimed_def returnE_def failE_def agent_Now_def checkEmailEnabled_def checkRoleId_def userProfile_def bindE_def)

lemma weekly_keeps:
  fixes smtp :: SMTP
  assumes "I = (\<lambda>w. rdb w = r0 \<and> sent_from (smtp_From smtp) old w)" and "uc_mailConf uc = smtp"
  shows "keepsD I (WeeklyReportForCoach e uc u)"
proof -
  have u: "untimed I" by (simp add: assms(1) untimed_def sent_from_def)
  have "keepsD I (runChat e chat ms [SubmitCnt, GetNameById, StatisticPeriod, SendEmail smtp])" for chat ms
    using weekly.chat_keeps [of e chat ms smtp] unfolding keepsD_def assms(1) by blast
  then show ?thesis unfolding WeeklyReportForCoach_def assms(2) by (auto intro!: keepsD_bind keepsD_small [OF u])
qed

lemma lastDay_keeps:
  fixes smtp :: SMTP
  assumes "I = (\<lambda>w. rdb w = r0 \<and> sent_from (smtp_From smtp) old w)" and "uc_mailConf uc = smtp"
  shows "keepsD I (PersonalLastDay e uc u)"
proof -
  have i: "untimed I" by (simp add: assms(1) untimed_def sent_from_def)
  have "keepsD I (runChat e chat ms [SubmitCnt, GetNameById, SubmitLogTool, SendEmail smtp])" for chat ms
    using daily.chat_keeps [of e chat ms smtp] unfolding keepsD_def assms(1) by blast
  then have d: "keepsD I (daily_report e uc u t)" for t unfolding daily_report_def assms(2) by (auto intro!: keepsD_bind keepsD_small [OF i])
  note w = weekly_keeps [OF assms, of e u]
  show ?thesis unfolding PersonalLastDay_def by (auto intro!: keepsD_bind keepsD_small [OF i] keepsD_logged d w)
qed

lemma recent_keeps: "keepsD (\<lambda>w. mails (db w) = old) (PersonalRecent e uc u)"
proof -
  let ?I = "\<lambda>w. mails (db w) = old"
  have i: "untimed ?I" by (simp add: untimed_def)
  have c: "keepsD ?I (runChat e chat ms [StatisticPeriod, RedisSet])" for chat ms
    using recent.chat_keeps [of e chat ms] unfolding keepsD_def by blast
  have x: "keepsD ?I (actD (redisExists e k))" "keepsD ?I (actD (redisSet e k v))" for k v
    by (auto intro!: keepsD_act simp: redisExists_def redisSet_def split: if_splits)
  have f: "fallback_summary e s w = (r :: gerr + string, w') \<Longrightarrow> db w' = db w" for s w r w'
    by (auto simp: fallback_summary_def bindE_def agent_Now_def returnE_def)
  have n: "keepsD ?I (actD (normalizeRecentSummaryJSON e s))" for s
    by (rule keepsD_act) (auto simp: normalizeRecentSummaryJSON_def Let_def bindE_def returnE_def agent_Now_def dest!: f split: option.splits if_splits prod.splits sum.splits)
  show ?thesis unfolding PersonalRecent_def by (auto intro!: keepsD_bind keepsD_small [OF i] c x n)
qed

section \<open>Outcomes\<close>

lemma bindD_ok: "bindD m f w = Some (Inr b, w') \<Longrightarrow> \<exists>a w1. m w = Some (Inr a, w1) \<and> f a w1 = Some (Inr b, w')"
  by (auto simp: bindD_def split: option.splits prod.splits sum.splits)

lemma redisExists_ok: "redisExists e k w = (Inr b, w') \<Longrightarrow> b = (rdb w k \<noteq> None) \<and> rdb w' = rdb w"
  by (auto simp: redisExists_def split: if_splits)

text \<open>A summary that ended well is there.\<close>

lemma recent_written:
  assumes "PersonalRecent e uc u w = Some (Inr (), w')"
  shows "\<exists>v. rdb w' (recent_key u) = Some v \<and>
    ((\<exists>raw w1 w2. normalizeRecentSummaryJSON e raw w1 = (Inr v :: gerr + string, w2)) \<or>
     (\<exists>r w2. runChat e (uc_chat uc) (recent_prompt u (clock e (ticks w) div 1000000000)) [StatisticPeriod, RedisSet] (tick w) = Some (Inr r, w2) \<and> rdb w2 (recent_key u) = Some v))"
proof -
  define rest where "rest = (\<lambda>(r :: string) exists. if exists then actD (returnE ())
       else if TrimSpace r = '''' then actD (failE (Errorf (''the summary of user '' @ fmt_d u @ '' is empty'')))
       else bindD (actD (normalizeRecentSummaryJSON e r)) (\<lambda>v. actD (redisSet e (recent_key u) v)))"
  obtain now w1 where 1: "actD (agent_Now e) w = Some (Inr now, w1)"
    and 2: "bindD (runChat e (uc_chat uc) (recent_prompt u (now div 1000000000)) [StatisticPeriod, RedisSet]) (\<lambda>r. bindD (actD (redisExists e (recent_key u))) (rest r)) w1 = Some (Inr (), w')"
    using bindD_ok [OF assms [unfolded PersonalRecent_def]] unfolding rest_def by blast
  have n: "now = clock e (ticks w)" "w1 = tick w" using 1 by (simp_all add: actD_def agent_Now_def)
  obtain r w2 where r: "runChat e (uc_chat uc) (recent_prompt u (clock e (ticks w) div 1000000000)) [StatisticPeriod, RedisSet] (tick w) = Some (Inr r, w2)"
    and r2: "bindD (actD (redisExists e (recent_key u))) (rest r) w2 = Some (Inr (), w')"
    using bindD_ok [OF 2 [unfolded n]] by blast
  obtain b w3 where b: "redisExists e (recent_key u) w2 = (Inr b, w3)" and r3: "rest r b w3 = Some (Inr (), w')"
    using bindD_ok [OF r2] by (auto simp: actD_def)
  show ?thesis
  proof (cases b)
    case True
    then have "w' = w3" "rdb w2 (recent_key u) \<noteq> None" using r3 redisExists_ok [OF b] by (auto simp: rest_def actD_def returnE_def)
    then show ?thesis using redisExists_ok [OF b] r by auto
  next
    case False
    then obtain v w4 where v: "normalizeRecentSummaryJSON e r w3 = (Inr v :: gerr + string, w4)" and s: "redisSet e (recent_key u) v w4 = (Inr (), w')"
      using r3 by (auto simp: rest_def actD_def failE_def dest!: bindD_ok split: if_splits)
    have "rdb w' (recent_key u) = Some v" using s by (auto simp: redisSet_def split: if_splits)
    with v show ?thesis by blast
  qed
qed

text \<open>What the service writes itself is an object with the two fields the page reads.\<close>

lemma normalize_object:
  assumes "\<forall>obj t. marshal_object e obj = Some t \<longrightarrow> parse_object e t = Some obj" and "\<forall>s n. marshal_object e [''msg'' \<mapsto> JStrs [s], ''updateTime'' \<mapsto> JNum n] \<noteq> None"
    and "normalizeRecentSummaryJSON e raw w = (Inr v :: gerr + string, w')"
  shows "\<exists>obj. parse_object e v = Some obj \<and> obj ''msg'' \<noteq> None \<and> obj ''updateTime'' \<noteq> None"
proof -
  have f: "\<exists>obj. parse_object e v = Some obj \<and> obj ''msg'' \<noteq> None \<and> obj ''updateTime'' \<noteq> None" if "fallback_summary e s w1 = (Inr v :: gerr + string, w')" for s w1
  proof -
    let ?obj = "[''msg'' \<mapsto> JStrs [s], ''updateTime'' \<mapsto> JNum (clock e (ticks w1) div 1000000000)]"
    obtain t where t: "marshal_object e ?obj = Some t" using assms(2) by blast
    then have "v = t" using that by (auto simp: fallback_summary_def bindE_def agent_Now_def returnE_def)
    with t assms(1) show ?thesis by (intro exI [of _ ?obj]) auto
  qed
  show ?thesis
  proof (cases "case object_text (unfenced raw) of None \<Rightarrow> None | Some candidate \<Rightarrow> parse_object e candidate")
    case None
    with assms(3) f show ?thesis by (simp add: normalizeRecentSummaryJSON_def Let_def)
  next
    case (Some obj)
    show ?thesis
    proof (cases "obj ''msg''")
      case None
      with assms(3) f Some show ?thesis by (simp add: normalizeRecentSummaryJSON_def Let_def)
    next
      case msg: (Some m)
      let ?obj = "if obj ''updateTime'' = None then obj(''updateTime'' \<mapsto> JNum (clock e (ticks w) div 1000000000)) else obj"
      obtain w1 where "(case marshal_object e ?obj of Some t \<Rightarrow> returnE t | None \<Rightarrow> fallback_summary e (unfenced raw)) w1 = (Inr v :: gerr + string, w')"
        using assms(3) Some msg by (auto simp: normalizeRecentSummaryJSON_def Let_def bindE_def agent_Now_def returnE_def split: if_splits)
      moreover have "?obj ''msg'' \<noteq> None" "?obj ''updateTime'' \<noteq> None" using msg by auto
      ultimately show ?thesis using f assms(1) by (cases "marshal_object e ?obj") (auto simp: returnE_def simp del: not_None_eq)
    qed
  qed
qed

end
