(* ===== verification/AgentProperties.thy ===== *)
theory AgentProperties
  imports AgentFacts
begin

text \<open>
  The properties of the agent service, with their witnesses: a model that answers at once and calls no tool.
\<close>

section \<open>A small agent\<close>

definition answer_ex :: compatMessage where
  "answer_ex = \<lparr>cm_Role = ''assistant'', cm_Content = ''well done'', cm_ReasoningContent = '''', cm_ToolCalls = [], cm_ToolCallID = ''''\<rparr>"

text \<open>An encoding of the objects with the two fields: the number in unary, and the text.\<close>

definition encode_ex :: "(string \<rightharpoonup> json) \<Rightarrow> string option" where
  "encode_ex obj = (case (obj ''msg'', obj ''updateTime'') of
     (Some (JStrs [s]), Some (JNum n)) \<Rightarrow>
       if obj = [''msg'' \<mapsto> JStrs [s], ''updateTime'' \<mapsto> JNum n]
       then Some ((if n < 0 then CHR ''-'' else CHR ''+'') # replicate (nat \<bar>n\<bar>) (CHR ''1'') @ CHR ''|'' # s) else None
   | _ \<Rightarrow> None)"

definition decode_ex :: "string \<Rightarrow> (string \<rightharpoonup> json) option" where
  "decode_ex t = (case t of
     [] \<Rightarrow> None
   | c # r \<Rightarrow>
       (let k = int (length (takeWhile (\<lambda>x. x = CHR ''1'') r))
        in Some [''msg'' \<mapsto> JStrs [tl (dropWhile (\<lambda>x. x = CHR ''1'') r)], ''updateTime'' \<mapsto> JNum (if c = CHR ''-'' then - k else k)]))"

definition ae_ex :: agent_env where
  "ae_ex = \<lparr>stmt_fails = (\<lambda>_. False), clock = (\<lambda>_. 7000000000), post = (\<lambda>_ _ _ _. Inr (200, ''ok'')), marshal_chat = (\<lambda>_. None),
     unmarshal_chat = (\<lambda>_. Some \<lparr>cp_Choices = [\<lparr>cc_FinishReason = ''stop'', cc_Message = answer_ex\<rparr>], cp_Error = None\<rparr>),
     profile_GetById = (\<lambda>_ _. Inr (\<lparr>pf_RoleId = 0, pf_EmailEnabled = True\<rparr>, '''')), profile_GetList = (\<lambda>_ _. Inr ([], 0)), dial_core = (\<lambda>_. None),
     core_call = (\<lambda>_ _ _ _ _ _. Inr ''''), unmarshal_cnt = (\<lambda>_. None), unmarshal_user = (\<lambda>_. None), unmarshal_log = (\<lambda>_. None), unmarshal_pair = (\<lambda>_. None), unmarshal_mail = (\<lambda>_. None), parse_date = (\<lambda>_. None),
     send_error = (\<lambda>_ _. None), parse_object = decode_ex, marshal_object = encode_ex, zone_Weekday = (\<lambda>_. 1), zone_AddDate = (\<lambda>_ t. t),
     zone_Format = (\<lambda>_ _. ''''), unmarshal_event = (\<lambda>_. Some (5, ''PersonalRecent'')), Getenv = (\<lambda>_. '''')\<rparr>"

definition uc_ex :: SummaryUseCase where
  "uc_ex = \<lparr>uc_chat = Some \<lparr>apiKey = ''k'', model = ''m'', url = ''u''\<rparr>, uc_mailConf = \<lparr>smtp_Host = ''h'', smtp_From = ''bot''\<rparr>\<rparr>"

definition aw_ex :: agent_world where
  "aw_ex = \<lparr>db = \<lparr>mails = [], prompts = [], announced = []\<rparr>, rdb = Map.empty, ticks = 0\<rparr>"



section \<open>Properties\<close>

text \<open>C39. Whatever the language model answers and whichever calls fail, a delivery has only the effects of its kind: a recent summary sends no mail, a report changes nothing in Redis, every mail has the configured sender, and any other event changes nothing; a delivery is acknowledged or refused exactly when it could be read.\<close>

theorem deliveries_confined:
  assumes "consume e uc body w = Some (st, w')"
  shows "sent_from (smtp_From (uc_mailConf uc)) (mails (db w)) w' \<and> (st = Unsettled \<longleftrightarrow> unmarshal_event e body = None) \<and>
    (case unmarshal_event e body of
       None \<Rightarrow> w' = w
     | Some (userId, kind) \<Rightarrow>
         if kind = ''PersonalLastDay'' then rdb w' = rdb w
         else if kind = ''PersonalRecent'' then mails (db w') = mails (db w)
         else w' = w)"
proof (cases "unmarshal_event e body")
  case None
  with assms show ?thesis by (simp add: consume_def sent_from_def)
next
  case (Some ut)
  obtain userId kind where ut: "ut = (userId, kind)" by fastforce
  define I where "I = (\<lambda>x. rdb x = rdb w \<and> sent_from (smtp_From (uc_mailConf uc)) (mails (db w)) x)"
  define run where "run = (if kind = ''PersonalLastDay'' then PersonalLastDay e uc userId w
      else if kind = ''PersonalRecent'' then PersonalRecent e uc userId w else Some (Inr (), w))"
  have w: "I w" by (simp add: I_def sent_from_def)
  have c: "(case run of None \<Rightarrow> None | Some (Inl _, w1) \<Rightarrow> Some (Nacked, w1) | Some (Inr _, w1) \<Rightarrow> Some (Acked, w1)) = Some (st, w')"
    using assms unfolding consume_def Some ut run_def by simp
  then obtain r where r: "run = Some (r, w')" "st \<noteq> Unsettled" by (cases run) (auto split: sum.splits)
  consider (daily) "kind = ''PersonalLastDay''" | (recent) "kind \<noteq> ''PersonalLastDay''" "kind = ''PersonalRecent''" | (other) "kind \<noteq> ''PersonalLastDay''" "kind \<noteq> ''PersonalRecent''" by blast
  then show ?thesis
  proof cases
    case daily
    then have "PersonalLastDay e uc userId w = Some (r, w')" using r run_def by simp
    with lastDay_keeps [OF I_def refl, of e userId] w have "I (snd (r, w'))" unfolding keepsD_def by blast
    with r(2) daily show ?thesis unfolding Some ut by (simp add: I_def)
  next
    case recent
    then have "PersonalRecent e uc userId w = Some (r, w')" using r run_def by simp
    with recent_keeps [of "mails (db w)" e uc userId] have "mails (db (snd (r, w'))) = mails (db w)" unfolding keepsD_def by blast
    with r(2) recent show ?thesis unfolding Some ut by (simp add: sent_from_def)
  next
    case other
    then have "w' = w" using r run_def by simp
    with r(2) other show ?thesis unfolding Some ut by (simp add: sent_from_def)
  qed
qed

lemma chat_ex: "runChat ae_ex (uc_chat uc_ex) ms tools w = Some (Inr ''well done'', (tick w)\<lparr>db := (db w)\<lparr>prompts := prompts (db w) @ [\<lparr>cr_Model = ''m'', cr_Messages = toCompatMessages ms, cr_Tools = map Description tools\<rparr>]\<rparr>\<rparr>)"
proof -
  have a: "post ae_ex n x y q = Inr (200, ''ok'')" "marshal_chat ae_ex q = None"
    "unmarshal_chat ae_ex b = Some \<lparr>cp_Choices = [\<lparr>cc_FinishReason = ''stop'', cc_Message = answer_ex\<rparr>], cp_Error = None\<rparr>" for n x y q b
    by (simp_all add: ae_ex_def)
  have "chat_round ae_ex \<lparr>apiKey = ''k'', model = ''m'', url = ''u''\<rparr> tools (toCompatMessages ms) '''' w =
     (Inr (Inl ''well done''), (tick w)\<lparr>db := (db w)\<lparr>prompts := prompts (db w) @ [\<lparr>cr_Model = ''m'', cr_Messages = toCompatMessages ms, cr_Tools = map Description tools\<rparr>]\<rparr>\<rparr>)"
    by (simp add: chat_round_def bindE_def createChatCompletion_def a Let_def answer_ex_def returnE_def)
  then show ?thesis by (simp add: runChat_def uc_ex_def chat_loop.simps [of ae_ex])
qed

lemma recent_ex: "\<exists>w'. PersonalRecent ae_ex uc_ex 5 aw_ex = Some (Inr (), w') \<and> ticks w' = 5 \<and> rdb w' \<noteq> Map.empty"
proof -
  have t: "TrimSpace ''well done'' = ''well done''" "object_text (unfenced ''well done'') = None" by code_simp+
  have a: "stmt_fails ae_ex n = False" "clock ae_ex n = 7000000000" "marshal_object ae_ex = encode_ex" for n by (simp_all add: ae_ex_def)
  show ?thesis
    by (simp add: PersonalRecent_def bindD_def actD_def agent_Now_def chat_ex redisExists_def redisSet_def a t normalizeRecentSummaryJSON_def fallback_summary_def bindE_def returnE_def aw_ex_def fun_eq_iff)
qed

theorem deliveries_confined_witness:
  "\<exists>w'. consume ae_ex uc_ex ''d'' aw_ex = Some (Acked, w') \<and> mails (db w') = [] \<and> rdb w' \<noteq> Map.empty"
proof -
  obtain w' where w': "PersonalRecent ae_ex uc_ex 5 aw_ex = Some (Inr (), w')" "rdb w' \<noteq> Map.empty" using recent_ex by blast
  have ev: "unmarshal_event ae_ex ''d'' = Some (5, ''PersonalRecent'')" by (simp add: ae_ex_def)
  then have c: "consume ae_ex uc_ex ''d'' aw_ex = Some (Acked, w')" using w' by (simp add: consume_def)
  from deliveries_confined [OF c] ev have "mails (db w') = []" by (simp add: aw_ex_def)
  with c w' show ?thesis by blast
qed



section \<open>Further facts\<close>

text \<open>Nothing is sent for a user whose profile says so.\<close>

lemma disabled_gets_nothing:
  "profile_GetById e (ticks w) u = Inr (p, j) \<Longrightarrow> \<not> pf_EmailEnabled p \<Longrightarrow> PersonalLastDay e uc u w = Some (Inr (), tick w)"
  by (simp add: PersonalLastDay_def bindD_def actD_def checkEmailEnabled_def userProfile_def bindE_def returnE_def)

text \<open>When the profile cannot be read, the report is written nevertheless.\<close>

lemma unreadable_profile_enabled: "profile_GetById e (ticks w) u = Inl er \<Longrightarrow> checkEmailEnabled e u w = (Inr True :: gerr + bool, tick w)"
  by (simp add: checkEmailEnabled_def userProfile_def bindE_def returnE_def)

text \<open>A summary of an earlier run stays when the model answers without writing a new one: the new answer is dropped.\<close>

lemma stale_summary_kept:
  assumes "runChat e (uc_chat uc) (recent_prompt u (clock e (ticks w) div 1000000000)) [StatisticPeriod, RedisSet] (tick w) = Some (Inr r, w2)"
    and "rdb w2 (recent_key u) = Some v" and "\<not> stmt_fails e (ticks w2)"
  shows "PersonalRecent e uc u w = Some (Inr (), tick w2)"
  using assms by (simp add: PersonalRecent_def bindD_def actD_def agent_Now_def redisExists_def returnE_def)

end
