(* ===== verification/Spec2Isabelle.thy ===== *)
theory Spec2Isabelle
  imports UserProperties CoreProperties DataProperties ContestProperties QueryProperties CrawlProperties GatewayProperties ControlProperties StreamProperties GatewayTranscode AgentProperties
begin

text \<open>
  A verification library for WUST-Algo-tracker, a tracker of the training of competitive
  programmers. Paths below are relative to \<^verbatim>\<open>src/\<close>.

  \<^bold>\<open>The program.\<close> Go services and their shared packages. The user service
  (\<^verbatim>\<open>app/user\<close>) keeps accounts, roles, teams with their invitations, and direct messages in
  Postgres through GORM, with Redis in front. The core-data service (\<^verbatim>\<open>app/core_data\<close>) binds
  users to judge platforms, creates refresh jobs and publishes them to RabbitMQ, and has a
  consumer that crawls the platforms, normalises what they return and stores it. The gateway
  (\<^verbatim>\<open>app/gateway\<close>) routes requests to the services. A fourth service, the agent (\<^verbatim>\<open>app/agent\<close>), has a
  language model write reports and summaries. The services share the role rules of
  \<^verbatim>\<open>app/common/permission\<close> and the token handling of \<^verbatim>\<open>app/common/utils/auth\<close>.

  \<^bold>\<open>How code becomes definitions.\<close>
    \<^item> A Postgres table is a list of rows with its id sequence, a Redis instance a partial map,
      and a Go function that talks to them an action: a function from the world to an error or
      a result, and the new world (theory \<open>Store\<close>). Each GORM call is one statement and advances
      the counter \<open>ticks\<close>; the environment says which statements, cache calls and publications
      fail and what the clock reads at each, so every theorem holds for every pattern of
      failures. \<^verbatim>\<open>Transaction\<close> restores the tables when its body or its commit errs.
    \<^item> A model struct is a \<^verbatim>\<open>record\<close>, an error a value of a sum type, a Go string the list of its
      UTF-8 bytes (with \<^verbatim>\<open>TrimSpace\<close>, \<^verbatim>\<open>ToLower\<close> and the like of package \<^verbatim>\<open>strings\<close>), \<^verbatim>\<open>int64\<close> and
      \<^verbatim>\<open>uint\<close> are integers, with the conversions that wrap written out.
    \<^item> What is outside the repository is a parameter: bcrypt and the legacy hash, the JWT
      library, what the judge platforms answer, HTML and JSON decoding, the rate limiter, the broker.
    \<^item> Loops are structural recursions over the lists the code ranges over, or over the bounded
      counter of the code (the rounds of \<open>load_rounds\<close>). Eight loops need not end: the one that fills up
      the problems of a contest (\<open>fill_problems\<close>), four that follow the pages of a platform
      (\<open>cf_pages\<close>, \<open>atc_pages\<close>, \<open>joined_pages\<close>, \<open>qoj_pages\<close>), the one that asks for the configuration
      of the gateway (\<open>ctrl_Run\<close>), the copying of a body (\<open>copy_loop\<close>) and the conversation with the model
      (\<open>chat_loop\<close>). Each is a \<^verbatim>\<open>partial_function\<close> whose value \<open>None\<close>
      says that it never returns. It is proved when \<open>fill_problems\<close> returns, that \<open>atc_pages\<close> always does, and
      that \<open>cf_pages\<close> does on a platform with finitely many submissions; \<open>joined_pages\<close> and \<open>qoj_pages\<close> end when
      the platform stops promising pages, \<open>ctrl_Run\<close> is proved not to end while its requests fail, \<open>copy_loop\<close> to end on every source that makes
      progress, and \<open>chat_loop\<close> ends when the model stops calling tools. The library needs no fuel.

  \<^bold>\<open>Shared theories.\<close> \<open>Prelude\<close> holds strings, integers and the named collections of the
  automation; \<open>Store\<close> the actions, their inversion rules and two interfaces: locale \<open>atomic_act\<close>
  (an action that changes nothing when it errs, interpreted for every transaction of the
  program) and locale \<open>invariant_system\<close> (a step function with an invariant, hence an invariant of
  every run); \<open>Permission\<close> the roles, the token checks and the role matrix.

  \<^bold>\<open>User service.\<close>
    \<^item> \<open>UserModel\<close>: the tables of \<^verbatim>\<open>internal/data/model\<close>, audit log, cache keys.
    \<^item> \<open>Team\<close>, \<open>TeamService\<close>: \<^verbatim>\<open>data/dal/group.go\<close>, \<^verbatim>\<open>service/team.go\<close>, \<^verbatim>\<open>service/group.go\<close>. Their
      lemmas say what each operation does to members, owner and invitations.
    \<^item> \<open>Account\<close>: \<^verbatim>\<open>data/dal/profile.go\<close>, \<^verbatim>\<open>service/user.go\<close>, \<^verbatim>\<open>service/profile.go\<close>, passwords and roles.
    \<^item> \<open>Message\<close>: \<^verbatim>\<open>data/dal/message.go\<close>, \<^verbatim>\<open>service/message.go\<close>; the unread counter of a thread
      counts its unread messages.
    \<^item> \<open>UserSystem\<close>: all handlers as one step function; the locales \<open>side_invariant\<close> and
      \<open>account_invariant\<close> say which groups of operations have to keep a predicate, and are
      interpreted for administrators, unique names and message counters.
    \<^item> \<open>Samples\<close>, \<open>UserProperties\<close>: a small world, and the properties with their witnesses.

  \<^bold>\<open>Core-data service.\<close>
    \<^item> \<open>CoreModel\<close>: its tables, environment and broker client.
    \<^item> \<open>Spider\<close>: the pipeline of \<^verbatim>\<open>internal/biz/service/spider.go\<close> and \<^verbatim>\<open>spider_normalize.go\<close>, from a
      delivery to the stored rows: normalisation keeps the last entry of every submission id,
      and storing refines the keyed upsert of the whole batch.
    \<^item> \<open>SpiderTask\<close>: \<^verbatim>\<open>task/\<close> and \<^verbatim>\<open>internal/service/spider.go\<close>: jobs, bindings, cron.
    \<^item> \<open>CoreSystem\<close>: the state-changing operations as one step function, its invariant (keys and
      unique indexes), and locale \<open>load_keeps\<close>: a predicate that every statement of a run keeps is
      kept by the run.
    \<^item> \<open>RefreshJobs\<close>, \<open>SyncStatus\<close>, \<open>Bindings\<close>: what starting a job, finishing a platform and binding
      a platform do on every branch (locales \<open>enqueue_frame\<close> and \<open>platform_frame\<close>).
    \<^item> \<open>CoreSamples\<close>, \<open>CoreProperties\<close>: a small world, and the properties with their witnesses.

  \<^bold>\<open>Statistics, snapshots and bulletins\<close> of the core-data service.
    \<^item> \<open>Calendar\<close>: days, weeks, months and years of the fixed time zone, as \<^verbatim>\<open>time\<close> computes them.
    \<^item> \<open>Statistic\<close>: \<^verbatim>\<open>data/dal/statistic.go\<close> and \<^verbatim>\<open>statistic_rules.go\<close>, the use cases of
      \<^verbatim>\<open>biz/service/statistic.go\<close> with their cache, and \<^verbatim>\<open>service/statistic.go\<close>.
    \<^item> \<open>StatisticFacts\<close>: locales \<open>range_count\<close>, \<open>additive_count\<close> and \<open>key_class\<close> carry the laws of counting
      rows and distinct problems over ranges of time, users and platforms.
    \<^item> \<open>StatisticOps\<close>, \<open>Snapshot\<close>: \<^verbatim>\<open>service/statistic_ops.go\<close>: platform details, crawl audit, cache control,
      operation log; feature snapshots with their clean-up; the order statistics of achievements.
    \<^item> \<open>Bulletin\<close>: \<^verbatim>\<open>data/dal/bulletin.go\<close>, \<^verbatim>\<open>service/bulletin.go\<close>.
    \<^item> \<open>SnapshotFacts\<close>, \<open>DataSystem\<close>: what saving, reading and cleaning up do, and the step function of the
      service with these operations (locales \<open>crawl_frame\<close> and \<open>snapshot_frame\<close>).
    \<^item> \<open>DataProperties\<close>: the properties with their witnesses.

  \<^bold>\<open>Contests\<close> of the core-data service.
    \<^item> \<open>ContestProblems\<close>: the columns, aliases and cells of \<^verbatim>\<open>service/contest_matrix.go\<close>; \<open>ContestFacts\<close>: the
      cell as an ICPC scoreboard defines it, stable sorting, when filling up problems ends.
    \<^item> \<open>ContestMeta\<close>: the pages of AtCoder, Codeforces and NowCoder with the caches of
      \<^verbatim>\<open>contest_meta_cache.go\<close>; regular expressions, JSON and HTTP are parameters.
    \<^item> \<open>Contest\<close>: the queries of \<^verbatim>\<open>data/dal/spider.go\<close>, \<^verbatim>\<open>contest_official_rank.go\<close>, \<^verbatim>\<open>contest.go\<close>.
    \<^item> \<open>ContestSystem\<close>, \<open>ContestProperties\<close>: ranking, pages, rows, the list of contests; the properties.

  \<^bold>\<open>Submissions through the cache\<close> of the core-data service.
    \<^item> \<open>SubmitQuery\<close>: \<^verbatim>\<open>GetByUserId\<close>, \<^verbatim>\<open>SetCache\<close>, \<^verbatim>\<open>GetContestByUserId\<close>, \<^verbatim>\<open>SetContestCache\<close> of \<^verbatim>\<open>data/dal/spider.go\<close>,
      \<^verbatim>\<open>service/submit_log.go\<close>, and runs of requests, goroutines that fill the cache in any order, and expiring keys.
    \<^item> \<open>QueryFacts\<close>: locale \<open>row_cache\<close> says what a page read through a sound cache holds; it is interpreted for
      submissions and for contests. Reading, filling and expiry keep the cache of submissions sound.
    \<^item> \<open>QueryProperties\<close>: a small world, the property, and a run whose cache has a gap.

  \<^bold>\<open>Crawlers\<close> of the core-data service (\<^verbatim>\<open>internal/spider\<close>).
    \<^item> \<open>Crawl\<close>: the clock, the requests sent, and \<^verbatim>\<open>platform/codeforces.go\<close> with its rate limit and retries and
      \<^verbatim>\<open>platform/atcoder.go\<close> with its overlapping pages and the contests gathered from submissions.
    \<^item> \<open>CrawlPages\<close>: \<^verbatim>\<open>platform/nowcoder.go\<close>, \<^verbatim>\<open>luogu.go\<close>, \<^verbatim>\<open>qoj.go\<close> with sign-in and sessions, \<^verbatim>\<open>registry.go\<close>.
    \<^item> \<open>CrawlFacts\<close>: locale \<open>submit_fetcher\<close> states what the pipeline relies on (no blank account, rows of the
      user and the platform asked for) and is interpreted for all five crawlers. Further: complete crawls of
      Codeforces and AtCoder, the end of every AtCoder crawl, the distance of requests to Codeforces.
    \<^item> \<open>CrawlProperties\<close>: small platforms, and the properties with their witnesses.

  \<^bold>\<open>Gateway.\<close> A round tripper is a function from a request and a state to a response, an error or a
  panic, and a new state; the state has the options of the request and an outside part on which
  only the parameters act (network, selectors, breakers, clocks).
    \<^item> \<open>GatewayHttp\<close>: headers, requests, responses, configuration messages, and paths
      (\<^verbatim>\<open>router/mux\<close>, \<^verbatim>\<open>rewrite\<close>): a cleaned path has no dot segments.
    \<^item> \<open>GatewayRetry\<close>: \<^verbatim>\<open>proxy/condition\<close>, \<^verbatim>\<open>proxy/retry.go\<close>; conditions and retry strategies with
      their bounds.
    \<^item> \<open>GatewayMiddleware\<close>: request options, registry, jwt, cors, rewrite, circuitbreaker, and the
      chain \<^verbatim>\<open>buildMiddleware\<close> makes of them.
    \<^item> \<open>GatewayClient\<close>: \<^verbatim>\<open>client/\<close>; targets, nodes, the client factory and its round trip.
    \<^item> \<open>GatewayProxy\<close>: the loop of attempts, error answers, \<^verbatim>\<open>buildEndpoint\<close>, \<^verbatim>\<open>Update\<close>, \<^verbatim>\<open>ServeHTTP\<close>. The
      loop recurses on the attempts left; \<^verbatim>\<open>Attempts\<close> is a \<^verbatim>\<open>uint32\<close>.
    \<^item> \<open>GatewayFacts\<close>: locale \<open>opts_step\<close> carries a relation on request options from one upstream call
      through all middlewares to a whole request; it is interpreted for the number of calls
      (\<open>calls\<close>), for requests answered before any call (\<open>silent\<close>) and for the choice of backends
      (\<open>fresh\<close>). Further: how the loop ends, and the jwt guard.
    \<^item> \<open>GatewayWatch\<close>: \<^verbatim>\<open>config/config.go\<close> and \<^verbatim>\<open>client/servicewatch.go\<close>; merging of priority files, the
      watch loop, and the service watcher as a step relation whose invariant holds under every
      interleaving.
    \<^item> \<open>GatewayProperties\<close>: a small gateway, and the properties with their witnesses.
    \<^item> \<open>ControlLoader\<close>, \<open>ControlFacts\<close>, \<open>ControlProperties\<close>: \<^verbatim>\<open>config/config-loader/ctrl-loader.go\<close>, which asks
      control services for the configuration and the features and writes them to files; the file system
      and the network are explicit state, and every call to them can fail.
    \<^item> \<open>StreamRecord\<close>, \<open>StreamFacts\<close>, \<open>StreamProperties\<close>: \<^verbatim>\<open>middleware/stream.go\<close>, \<^verbatim>\<open>streamrecorder/recorder.go\<close>,
      \<^verbatim>\<open>proxy/nobuffering.go\<close> and the wrapping of bodies in \<^verbatim>\<open>proxy/proxy.go\<close>. Locale \<open>byte_source\<close> states what copying
      relies on; it is interpreted for the reader of a recording and for bodies in memory.
    \<^item> \<open>GatewayTranscode\<close>: \<^verbatim>\<open>middleware/transcoder/transcoder.go\<close>, calls of gRPC backends from plain HTTP.

  \<^bold>\<open>Agent.\<close>
    \<^item> \<open>Agent\<close>: \<^verbatim>\<open>agent/chat.go\<close>, the tools, \<^verbatim>\<open>biz/service/summary.go\<close>, \<^verbatim>\<open>biz/service/consumer.go\<close>, \<^verbatim>\<open>service/summary.go\<close>.
    \<^item> \<open>AgentFacts\<close>: locale \<open>chat_frame\<close>: a predicate that every tool of a conversation keeps is kept by the
      conversation, whatever the model answers; interpreted for the three conversations of the service.
    \<^item> \<open>AgentProperties\<close>: a small agent, and the properties with their witnesses.

  \<^bold>\<open>What the properties show.\<close> Of the user service: the team structure (one captain, who is a
  member; one team a user) is an invariant of every run with any failures, no request changes
  who is an administrator, unread counters are exact, only captains manage teams, failed team
  requests change nothing, and registration, sign-in, password changes, messages and
  invitations do what they promise. Of the core-data service: what is stored after a fetch is
  the keyed upsert of the normalised batch, a full refresh never loses submissions, a run ends
  its job, an active job blocks another in its scope, bindings change only at the request of
  their owner or an administrator; the statistics of periods, teams and platforms add up and are
  fresh after a crawl; snapshots are read back and kept as long as promised; the contest matrix is
  an ICPC scoreboard, its rows fit its columns, pages are complete, and it returns except in one
  case; crawlers return rows of the right user and platform only, Codeforces and AtCoder are crawled
  completely and stored as served, AtCoder crawls end, and requests to Codeforces keep their distance; pages of
  submissions read through the cache hold rows of the table only, in order and beginning with the newest.
  Of the gateway: without a valid token nothing but public paths
  reaches a backend, retries are bounded and go to other backends, every request is answered,
  paths cannot climb, changed configurations are loaded until they take, appliers stay in sync
  with discovery; a configuration file and its version are replaced together or not at all, a service that
  answers is found whatever the others do, and the directory of priorities holds exactly the files served;
  a recording reads like the string of its bytes and holds what passed, and transcoded calls reach the method and
  back unchanged. Of the agent: deliveries have only the effects of their kind, and summaries can be read. Some properties record where the code does not do what it
  means to: they are also listed as findings of the manifest.

  \<^bold>\<open>Not modelled.\<close> Generated protobuf code, process start-up and dependency injection, the reverse proxy
  of the standard library behind streaming endpoints, the gateway's logging, tracing and metrics, the site-wide achievement snapshot (floating-point
  scores over one large query), the text of \<^verbatim>\<open>Explanation\<close>, and the unused \<^verbatim>\<open>GetRank\<close>.
  Concurrency between requests of the services is at the level of whole handlers and goroutines: a run is a
  sequence of such steps, each with its own pattern of failures.
\<close>

end
